(* ===== verification/Prelude.thy ===== *)
theory Prelude
  imports Main "HOL-Library.Word" "HOL-Library.AList" "HOL-Library.Multiset"
    "HOL-Library.List_Lexorder" "HOL-Library.Char_ord"
begin

text \<open>
  What every component of the development shares: the machine integers, instants, results and
  hash tables the server's code is written with, the ordering-based list functions of the Rust
  standard library (stable \<open>sort_by\<close>, \<open>max_by\<close>, \<open>dedup\<close>), and the lemma collections that
  carry the component proofs.

  A \<open>HashMap\<close> is an association list with distinct keys. Its list order stands for the
  iteration order, which Rust leaves open: results that a caller can rely on are stated for any
  table, hence for any order.
\<close>

named_theorems hmap_simps \<open>characteristic equations of the hash tables\<close>
named_theorems inv_intros \<open>operations keep the invariants of their component\<close>

subsection \<open>Numbers, instants, results\<close>

type_synonym u16 = "16 word"
type_synonym u32 = "32 word"
type_synonym u64 = "64 word"
type_synonym uuid = "128 word"

text \<open>
  An instant (\<open>DateTime<Utc>\<close>) is the number of nanoseconds since the epoch; a duration is a
  number of nanoseconds. The bound of the library's calendar (year 262143) is not modelled.
\<close>

type_synonym instant = int

abbreviation secs :: "int \<Rightarrow> int" where
  "secs n \<equiv> n * 1000000000"

abbreviation mins :: "int \<Rightarrow> int" where
  "mins n \<equiv> secs (60 * n)"

abbreviation hours :: "int \<Rightarrow> int" where
  "hours n \<equiv> secs (3600 * n)"

text \<open>\<open>Result<T, E>\<close> is \<open>E + T\<close>, with \<open>Inl\<close> for the error.\<close>

type_synonym ('a, 'e) result = "'e + 'a"

text \<open>A call that may panic returns its value, or the state it leaves behind when it unwinds.\<close>

datatype ('a, 's) outcome = Returns 'a | Panics 's

definition sat_sub :: "'a::len word \<Rightarrow> 'a word \<Rightarrow> 'a word" where
  "sat_sub a b = (if a < b then 0 else a - b)"

lemma unat_sat_sub: "unat (sat_sub a b) = unat a - unat b"
  by (auto simp: sat_sub_def word_less_nat_alt unat_sub_if_size word_le_nat_alt split: if_splits)

subsection \<open>Comparators and the functions that take one\<close>

datatype ordering = Less | Equal | Greater

definition cmp :: "'a::linorder \<Rightarrow> 'a \<Rightarrow> ordering" where
  "cmp a b = (if a < b then Less else if a = b then Equal else Greater)"

fun cmp_then :: "ordering \<Rightarrow> ordering \<Rightarrow> ordering" where
  "cmp_then Equal b = b"
| "cmp_then a _ = a"

lemma cmp_eqs [simp]:
  "cmp a b = Less \<longleftrightarrow> a < b" "cmp a b = Equal \<longleftrightarrow> a = b" "cmp a b = Greater \<longleftrightarrow> b < a"
  by (auto simp: cmp_def)

text \<open>The stable \<open>sort_by\<close> of slices, as insertion from the right.\<close>

fun insert_by :: "('a \<Rightarrow> 'a \<Rightarrow> ordering) \<Rightarrow> 'a \<Rightarrow> 'a list \<Rightarrow> 'a list" where
  "insert_by c x [] = [x]"
| "insert_by c x (y # ys) = (if c x y \<noteq> Greater then x # y # ys else y # insert_by c x ys)"

definition sort_by :: "('a \<Rightarrow> 'a \<Rightarrow> ordering) \<Rightarrow> 'a list \<Rightarrow> 'a list" where
  "sort_by c xs = foldr (insert_by c) xs []"

lemma mset_insert_by [simp]: "mset (insert_by c x ys) = add_mset x (mset ys)"
  by (induction ys) auto

lemma mset_sort_by [simp]: "mset (sort_by c xs) = mset xs"
  by (induction xs) (auto simp: sort_by_def)

lemma set_sort_by [simp]: "set (sort_by c xs) = set xs"
  by (metis mset_sort_by set_mset_mset)

lemma length_sort_by [simp]: "length (sort_by c xs) = length xs"
  by (metis mset_sort_by size_mset)

lemma sort_by_Nil_iff [simp]: "sort_by c xs = [] \<longleftrightarrow> xs = []"
  by (metis length_0_conv length_sort_by)

lemma insert_by_key: "insert_by (\<lambda>a b. cmp (f a) (f b)) x ys = insort_key f x ys"
  by (induction ys) (auto simp: not_less)

lemma sort_by_key: "sort_by (\<lambda>a b. cmp (f a) (f b)) xs = sort_key f xs"
  by (induction xs) (auto simp: sort_by_def insert_by_key)

lemma sort_by_rev_key:
  fixes f :: "'a \<Rightarrow> int"
  shows "sort_by (\<lambda>a b. cmp (f b) (f a)) xs = sort_key (\<lambda>a. - f a) xs"
proof -
  have "(\<lambda>a b. cmp (f b) (f a)) = (\<lambda>a b. cmp (- f a) (- f b))"
    by (auto simp: fun_eq_iff cmp_def)
  then show ?thesis by (simp add: sort_by_key)
qed

text \<open>
  \<open>Iterator::max_by\<close> keeps the later of two equal elements, \<open>min_by_key\<close> the earlier.
\<close>

fun max_by :: "('a \<Rightarrow> 'a \<Rightarrow> ordering) \<Rightarrow> 'a list \<Rightarrow> 'a option" where
  "max_by c [] = None"
| "max_by c (x # xs) = Some (fold (\<lambda>y m. if c m y = Greater then m else y) xs x)"

fun min_by_key :: "('a \<Rightarrow> 'b::linorder) \<Rightarrow> 'a list \<Rightarrow> 'a option" where
  "min_by_key f [] = None"
| "min_by_key f (x # xs) = Some (fold (\<lambda>y m. if f y < f m then y else m) xs x)"

lemma fold_pick_mem: "fold (\<lambda>y m. if P m y then m else y) xs x \<in> insert x (set xs)"
  by (induction xs arbitrary: x) auto

lemma max_by_mem: "max_by c xs = Some x \<Longrightarrow> x \<in> set xs"
proof (cases xs)
  case (Cons y ys)
  moreover assume "max_by c xs = Some x"
  ultimately have "x = fold (\<lambda>y m. if c m y = Greater then m else y) ys y" by simp
  then show ?thesis using fold_pick_mem [of "\<lambda>m y. c m y = Greater" ys y] Cons by auto
qed simp

lemma max_by_None_iff [simp]: "max_by c xs = None \<longleftrightarrow> xs = []"
  by (cases xs) auto

lemma min_by_key_mem: "min_by_key f xs = Some x \<Longrightarrow> x \<in> set xs"
proof (cases xs)
  case (Cons y ys)
  moreover assume "min_by_key f xs = Some x"
  ultimately have "x = fold (\<lambda>y m. if \<not> f y < f m then m else y) ys y"
    by (auto intro!: fold_cong)
  then show ?thesis using fold_pick_mem [of "\<lambda>m y. \<not> f y < f m" ys y] Cons by auto
qed simp

lemma min_by_key_None_iff [simp]: "min_by_key f xs = None \<longleftrightarrow> xs = []"
  by (cases xs) auto

lemma fold_min_le:
  "f (fold (\<lambda>y m. if f y < f m then y else m) xs x) \<le> f x"
  "y \<in> set xs \<Longrightarrow> f (fold (\<lambda>y m. if f y < f m then y else m) xs x) \<le> (f y :: 'b::linorder)"
proof -
  show base: "f (fold (\<lambda>y m. if f y < f m then y else m) xs x) \<le> f x" for xs x
  proof (induction xs arbitrary: x)
    case (Cons a xs)
    show ?case using Cons.IH [of a] Cons.IH [of x] by (auto intro: order_trans)
  qed simp
  show "f (fold (\<lambda>y m. if f y < f m then y else m) xs x) \<le> f y" if "y \<in> set xs"
    using that
  proof (induction xs arbitrary: x)
    case (Cons a xs)
    show ?case
    proof (cases "y = a")
      case True
      then show ?thesis
        using base [of xs a] base [of xs x] by (auto simp: not_less intro: order_trans)
    next
      case False
      with Cons show ?thesis by auto
    qed
  qed simp
qed

lemma min_by_key_le: "min_by_key f xs = Some x \<Longrightarrow> y \<in> set xs \<Longrightarrow> f x \<le> f y"
  by (cases xs) (auto intro: fold_min_le)

lemma find_SomeD: "find P xs = Some x \<Longrightarrow> x \<in> set xs \<and> P x"
  by (induction xs) (auto split: if_splits)

lemma find_Some_ex: "(\<exists>x \<in> set xs. P x) \<Longrightarrow> \<exists>x. find P xs = Some x \<and> x \<in> set xs \<and> P x"
  by (induction xs) auto

text \<open>\<open>Vec::dedup\<close> removes consecutive repetitions.\<close>

fun dedup :: "'a list \<Rightarrow> 'a list" where
  "dedup (x # y # ys) = (if x = y then dedup (y # ys) else x # dedup (y # ys))"
| "dedup xs = xs"

lemma set_dedup [simp]: "set (dedup xs) = set xs"
  by (induction xs rule: dedup.induct) auto

lemma sorted_dedup: "sorted xs \<Longrightarrow> sorted (dedup xs)"
  by (induction xs rule: dedup.induct) auto

lemma distinct_dedup_sorted: "sorted xs \<Longrightarrow> distinct (dedup xs)"
  by (induction xs rule: dedup.induct) (auto simp: order.antisym)

end
