(* ===== verification/Hash_Table.thy ===== *)
theory Hash_Table
  imports Prelude
begin

text \<open>
  The \<open>HashMap\<close>s of \<open>RuntimeState\<close>: the operations the code calls (\<open>get\<close>,
  \<open>insert\<close>, \<open>remove\<close>, \<open>retain\<close>, \<open>values\<close>), the contract of a key-value store as a
  locale, its interpretation on the tables, and the well-formedness of a table whose entries
  are stored under a key that the value itself carries (\<open>accounts\<close> under \<open>account.id\<close>,
  \<open>leases\<close> under \<open>lease.principal_id\<close>, and so on).
\<close>

type_synonym ('k, 'v) hmap = "('k \<times> 'v) list"

abbreviation hm_get :: "('k, 'v) hmap \<Rightarrow> 'k \<Rightarrow> 'v option" where
  "hm_get \<equiv> map_of"

definition hm_insert :: "'k \<Rightarrow> 'v \<Rightarrow> ('k, 'v) hmap \<Rightarrow> ('k, 'v) hmap" where
  "hm_insert k v m = AList.update k v m"

definition hm_remove :: "'k \<Rightarrow> ('k, 'v) hmap \<Rightarrow> ('k, 'v) hmap" where
  "hm_remove k m = filter (\<lambda>(k', _). k' \<noteq> k) m"

definition hm_retain :: "('v \<Rightarrow> bool) \<Rightarrow> ('k, 'v) hmap \<Rightarrow> ('k, 'v) hmap" where
  "hm_retain P m = filter (\<lambda>(_, v). P v) m"

definition hm_values :: "('k, 'v) hmap \<Rightarrow> 'v list" where
  "hm_values m = map snd m"

definition hm_keys :: "('k, 'v) hmap \<Rightarrow> 'k list" where
  "hm_keys m = map fst m"

definition hm_wf :: "('k, 'v) hmap \<Rightarrow> bool" where
  "hm_wf m \<longleftrightarrow> distinct (map fst m)"

lemma hm_remove_delete: "hm_remove k m = AList.delete k m"
  by (simp add: hm_remove_def AList.delete_eq case_prod_beta' eq_commute)

lemma hm_get_insert [simp, hmap_simps]: "hm_get (hm_insert k v m) = (hm_get m)(k \<mapsto> v)"
  by (simp add: hm_insert_def AList.update_conv')

lemma hm_get_remove [simp, hmap_simps]: "hm_get (hm_remove k m) = (hm_get m)(k := None)"
  by (simp add: hm_remove_delete AList.delete_conv')

lemma hm_wf_Nil [simp]: "hm_wf []"
  by (simp add: hm_wf_def)

lemma hm_wf_insert [simp, inv_intros]: "hm_wf m \<Longrightarrow> hm_wf (hm_insert k v m)"
  by (simp add: hm_wf_def hm_insert_def AList.distinct_update)

lemma hm_wf_remove [simp, inv_intros]: "hm_wf m \<Longrightarrow> hm_wf (hm_remove k m)"
  by (simp add: hm_wf_def hm_remove_delete AList.distinct_delete)

lemma hm_wf_retain [simp, inv_intros]: "hm_wf m \<Longrightarrow> hm_wf (hm_retain P m)"
  by (auto simp: hm_wf_def hm_retain_def distinct_map_filter)

lemma hm_get_retain [hmap_simps]:
  "hm_wf m \<Longrightarrow> hm_get (hm_retain P m) k = (case hm_get m k of None \<Rightarrow> None | Some v \<Rightarrow> if P v then Some v else None)"
proof (induction m)
  case (Cons a m)
  have "hm_get m (fst a) = None" if "hm_wf (a # m)"
    using that by (auto simp: hm_wf_def map_of_eq_None_iff)
  with Cons show ?case
    by (auto simp: hm_retain_def hm_wf_def split: option.splits prod.splits)
qed (simp add: hm_retain_def)

lemma hm_get_mem: "hm_wf m \<Longrightarrow> hm_get m k = Some v \<longleftrightarrow> (k, v) \<in> set m"
  by (simp add: hm_wf_def)

lemma set_hm_values: "hm_wf m \<Longrightarrow> set (hm_values m) = ran (hm_get m)"
  by (force simp: hm_values_def ran_def hm_get_mem image_iff)

lemma hm_values_get: "hm_wf m \<Longrightarrow> v \<in> set (hm_values m) \<longleftrightarrow> (\<exists>k. hm_get m k = Some v)"
  by (simp add: set_hm_values ran_def)

lemma hm_values_Nil [simp]: "hm_values [] = []"
  by (simp add: hm_values_def)

lemma hm_values_insert_new: "hm_get m k = None \<Longrightarrow> hm_values (hm_insert k v m) = hm_values m @ [v]"
  by (induction m) (auto simp: hm_values_def hm_insert_def split: if_splits)

lemma hm_insert_same [simp]: "hm_get m k = Some v \<Longrightarrow> hm_insert k v m = m"
  by (simp add: hm_insert_def AList.update_triv)

lemma hm_insert_twice [simp]: "hm_insert k v (hm_insert k w m) = hm_insert k v m"
  by (simp add: hm_insert_def)

lemma hm_remove_twice [simp]: "hm_remove k (hm_remove k m) = hm_remove k m"
  by (simp add: hm_remove_def)

lemma hm_remove_absent [simp]: "hm_get m k = None \<Longrightarrow> hm_remove k m = m"
  by (auto simp: hm_remove_delete map_of_eq_None_iff)

lemma hm_retain_twice [simp]: "hm_retain P (hm_retain P m) = hm_retain P m"
  by (simp add: hm_retain_def)

subsection \<open>The contract of a key-value store\<close>

locale key_value =
  fixes empty :: "'m"
    and get :: "'m \<Rightarrow> 'k \<Rightarrow> 'v option"
    and put :: "'k \<Rightarrow> 'v \<Rightarrow> 'm \<Rightarrow> 'm"
    and del :: "'k \<Rightarrow> 'm \<Rightarrow> 'm"
    and valid :: "'m \<Rightarrow> bool"
  assumes get_empty: "get empty = (\<lambda>_. None)"
    and get_put: "valid m \<Longrightarrow> get (put k v m) = (get m)(k \<mapsto> v)"
    and get_del: "valid m \<Longrightarrow> get (del k m) = (get m)(k := None)"
    and valid_empty: "valid empty"
    and valid_put: "valid m \<Longrightarrow> valid (put k v m)"
    and valid_del: "valid m \<Longrightarrow> valid (del k m)"
begin

text \<open>
  Storing a list of values, each under the key it carries: the store is valid, and a key maps to
  the last value stored under it.
\<close>

lemma valid_put_all: "valid m \<Longrightarrow> valid (fold (\<lambda>v. put (key v) v) vs m)"
  by (induction vs arbitrary: m) (auto simp: valid_put)

lemma get_put_all:
  "valid m \<Longrightarrow> get (fold (\<lambda>v. put (key v) v) vs m) k =
     (case find (\<lambda>v. key v = k) (rev vs) of None \<Rightarrow> get m k | Some v \<Rightarrow> Some v)"
proof (induction vs arbitrary: m)
  case (Cons v vs)
  have "find (\<lambda>v. key v = k) (rev vs @ [v]) =
      (case find (\<lambda>v. key v = k) (rev vs) of None \<Rightarrow> if key v = k then Some v else None | Some w \<Rightarrow> Some w)" for v vs
    by (induction vs rule: rev_induct) auto
  with Cons show ?case
    by (auto simp: valid_put get_put split: option.splits)
qed simp

lemma get_put_all_mem:
  "valid m \<Longrightarrow> get (fold (\<lambda>v. put (key v) v) vs m) k = Some w \<Longrightarrow> w \<in> set vs \<and> key w = k \<or> get m k = Some w"
  by (auto simp: get_put_all split: option.splits dest: find_SomeD)

lemma get_put_all_distinct:
  assumes "valid m" and "distinct (map key vs)" and "v \<in> set vs"
  shows "get (fold (\<lambda>v. put (key v) v) vs m) (key v) = Some v"
proof -
  have "find (\<lambda>w. key w = key v) (rev vs) = Some v"
  proof -
    from assms(3) obtain w where w: "find (\<lambda>w. key w = key v) (rev vs) = Some w"
        and "w \<in> set vs" "key w = key v"
      using find_Some_ex [of "rev vs" "\<lambda>w. key w = key v"] by auto
    with assms(2,3) have "w = v" by (auto simp: distinct_map dest: inj_onD)
    with w show ?thesis by simp
  qed
  with assms(1) show ?thesis by (simp add: get_put_all)
qed

text \<open>Deleting a list of keys.\<close>

lemma valid_del_all: "valid m \<Longrightarrow> valid (fold del ks m)"
  by (induction ks arbitrary: m) (auto simp: valid_del)

lemma get_del_all: "valid m \<Longrightarrow> get (fold del ks m) k = (if k \<in> set ks then None else get m k)"
  by (induction ks arbitrary: m) (auto simp: valid_del get_del)

end

interpretation hm: key_value "[]" hm_get hm_insert hm_remove hm_wf
  by unfold_locales auto

subsection \<open>Tables keyed by a field of their values\<close>

definition hm_keyed :: "('v \<Rightarrow> 'k) \<Rightarrow> ('k, 'v) hmap \<Rightarrow> bool" where
  "hm_keyed key m \<longleftrightarrow> hm_wf m \<and> (\<forall>k v. hm_get m k = Some v \<longrightarrow> key v = k)"

lemma hm_keyed_iff:
  "hm_keyed key m \<longleftrightarrow> distinct (map fst m) \<and> list_all (\<lambda>(k, v). key v = k) m"
  by (force simp: hm_keyed_def hm_wf_def list_all_iff)

lemma hm_keyedD: "hm_keyed key m \<Longrightarrow> hm_get m k = Some v \<Longrightarrow> key v = k"
  by (auto simp: hm_keyed_def)

lemma hm_keyed_wf [simp]: "hm_keyed key m \<Longrightarrow> hm_wf m"
  by (simp add: hm_keyed_def)

lemma hm_keyed_Nil [simp]: "hm_keyed key []"
  by (simp add: hm_keyed_def)

lemma hm_keyed_insert [inv_intros]: "hm_keyed key m \<Longrightarrow> key v = k \<Longrightarrow> hm_keyed key (hm_insert k v m)"
  by (auto simp: hm_keyed_def)

lemma hm_keyed_remove [inv_intros]: "hm_keyed key m \<Longrightarrow> hm_keyed key (hm_remove k m)"
  by (auto simp: hm_keyed_def)

lemma hm_keyed_retain [inv_intros]: "hm_keyed key m \<Longrightarrow> hm_keyed key (hm_retain P m)"
  by (auto simp: hm_keyed_def hm_get_retain split: option.splits if_splits)

lemma hm_keyed_get: "hm_keyed key m \<Longrightarrow> v \<in> set (hm_values m) \<longleftrightarrow> hm_get m (key v) = Some v"
  by (auto simp: hm_values_get dest: hm_keyedD)

lemma hm_keyed_distinct_values: "hm_keyed key m \<Longrightarrow> distinct (map key (hm_values m))"
proof -
  assume k: "hm_keyed key m"
  then have "map key (hm_values m) = map fst m"
    by (auto simp: hm_values_def hm_get_mem [symmetric] dest: hm_keyedD)
  with k show ?thesis by (simp add: hm_keyed_def hm_wf_def)
qed

text \<open>A loop over \<open>values_mut()\<close> that updates every value.\<close>

definition hm_map :: "('v \<Rightarrow> 'w) \<Rightarrow> ('k, 'v) hmap \<Rightarrow> ('k, 'w) hmap" where
  "hm_map f m = map (\<lambda>(k, v). (k, f v)) m"

lemma hm_get_map [simp, hmap_simps]: "hm_get (hm_map f m) k = map_option f (hm_get m k)"
  by (induction m) (auto simp: hm_map_def)

lemma hm_wf_map [simp, inv_intros]: "hm_wf m \<Longrightarrow> hm_wf (hm_map f m)"
  by (simp add: hm_wf_def hm_map_def o_def case_prod_beta')

lemma hm_values_map [simp]: "hm_values (hm_map f m) = map f (hm_values m)"
  by (simp add: hm_values_def hm_map_def case_prod_beta')

lemma hm_keyed_map [inv_intros]: "hm_keyed key m \<Longrightarrow> (\<And>v. key (f v) = key v) \<Longrightarrow> hm_keyed key (hm_map f m)"
  by (auto simp: hm_keyed_def)

text \<open>\<open>load_snapshot\<close> clears a table and inserts every row under its key.\<close>

definition hm_load :: "('v \<Rightarrow> 'k) \<Rightarrow> 'v list \<Rightarrow> ('k, 'v) hmap" where
  "hm_load key vs = fold (\<lambda>v. hm_insert (key v) v) vs []"

lemma hm_load_keyed: "hm_keyed key (hm_load key vs)"
proof -
  have "key v = k" if "hm_get (hm_load key vs) k = Some v" for k v
    using hm.get_put_all_mem [of "[]" key vs k v] that by (simp add: hm_load_def)
  moreover have "hm_wf (hm_load key vs)"
    unfolding hm_load_def by (rule hm.valid_put_all) simp
  ultimately show ?thesis by (auto simp: hm_keyed_def)
qed

lemma hm_load_values:
  assumes "hm_keyed key m"
  shows "hm_load key (hm_values m) = m"
proof -
  have "fold (\<lambda>v. hm_insert (key v) v) (map snd m) acc = acc @ m"
    if "distinct (map fst (acc @ m))" "\<forall>(k, v) \<in> set m. key v = k" for acc m
    using that
  proof (induction m arbitrary: acc)
    case (Cons kv m)
    obtain k v where kv: "kv = (k, v)" by (cases kv)
    have upd: "AList.update k v xs = xs @ [(k, v)]" if "k \<notin> fst ` set xs" for xs
      using that by (induction xs) auto
    have "hm_insert (key v) v acc = acc @ [(k, v)]"
      using Cons.prems kv upd [of acc] by (auto simp: hm_insert_def)
    with Cons kv show ?case by simp
  qed simp
  from this [of "[]" m] assms show ?thesis
    by (fastforce simp: hm_load_def hm_values_def hm_keyed_def hm_wf_def)
qed

end
