(* ===== verification/Rust_String.thy ===== *)
theory Rust_String
  imports Prelude
begin

text \<open>
  Rust's \<open>String\<close> and \<open>str\<close> as the bytes of their UTF-8 encoding (a HOL \<open>string\<close> is a list of
  8-bit characters, so \<open>length\<close> is \<open>len()\<close> and the list order is \<open>str\<close>'s byte order), with the
  methods the server calls. Slicing and truncation panic off a character boundary: their models
  return \<open>None\<close> there.
\<close>

type_synonym str = string

definition byte :: "char \<Rightarrow> nat" where
  "byte c = of_char c"

definition bytes :: "nat list \<Rightarrow> str" where
  "bytes ns = map char_of ns"

lemma byte_inject [simp]: "byte c = byte d \<longleftrightarrow> c = d"
  by (simp add: byte_def)

subsection \<open>White space\<close>

text \<open>
  The number of bytes of the white-space character (Unicode \<open>White_Space\<close>) a string starts with,
  and ends with (read on the reversed string); 0 if there is none.
\<close>

definition is_ascii_ws :: "nat \<Rightarrow> bool" where
  "is_ascii_ws b \<longleftrightarrow> 9 \<le> b \<and> b \<le> 13 \<or> b = 32"

definition ws2 :: "nat \<Rightarrow> nat \<Rightarrow> bool" where
  "ws2 a b \<longleftrightarrow> a = 0xC2 \<and> (b = 0x85 \<or> b = 0xA0)"

definition ws3 :: "nat \<Rightarrow> nat \<Rightarrow> nat \<Rightarrow> bool" where
  "ws3 a b c \<longleftrightarrow>
     a = 0xE1 \<and> b = 0x9A \<and> c = 0x80
   \<or> a = 0xE2 \<and> b = 0x80 \<and> (0x80 \<le> c \<and> c \<le> 0x8A \<or> c = 0xA8 \<or> c = 0xA9 \<or> c = 0xAF)
   \<or> a = 0xE2 \<and> b = 0x81 \<and> c = 0x9F
   \<or> a = 0xE3 \<and> b = 0x80 \<and> c = 0x80"

fun ws_len :: "str \<Rightarrow> nat" where
  "ws_len [] = 0"
| "ws_len [a] = (if is_ascii_ws (byte a) then 1 else 0)"
| "ws_len [a, b] = (if is_ascii_ws (byte a) then 1 else if ws2 (byte a) (byte b) then 2 else 0)"
| "ws_len (a # b # c # cs) =
     (if is_ascii_ws (byte a) then 1 else if ws2 (byte a) (byte b) then 2
      else if ws3 (byte a) (byte b) (byte c) then 3 else 0)"

fun ws_len_rev :: "str \<Rightarrow> nat" where
  "ws_len_rev [] = 0"
| "ws_len_rev [a] = (if is_ascii_ws (byte a) then 1 else 0)"
| "ws_len_rev [a, b] = (if is_ascii_ws (byte a) then 1 else if ws2 (byte b) (byte a) then 2 else 0)"
| "ws_len_rev (a # b # c # cs) =
     (if is_ascii_ws (byte a) then 1 else if ws2 (byte b) (byte a) then 2
      else if ws3 (byte c) (byte b) (byte a) then 3 else 0)"

function strip_with :: "(str \<Rightarrow> nat) \<Rightarrow> str \<Rightarrow> str" where
  "strip_with f s = (if f s = 0 \<or> s = [] then s else strip_with f (drop (f s) s))"
  by pat_completeness auto
termination
  by (relation "measure (\<lambda>(f, s). length s)") auto

declare strip_with.simps [simp del]

definition trim_start :: "str \<Rightarrow> str" where
  "trim_start s = strip_with ws_len s"

definition trim_end :: "str \<Rightarrow> str" where
  "trim_end s = rev (strip_with ws_len_rev (rev s))"

definition trim :: "str \<Rightarrow> str" where
  "trim s = trim_end (trim_start s)"

lemma strip_with_fix: "f s = 0 \<Longrightarrow> strip_with f s = s"
  by (simp add: strip_with.simps)

lemma strip_with_done: "f [] = 0 \<Longrightarrow> f (strip_with f s) = 0"
proof (induction f s rule: strip_with.induct)
  case (1 f s)
  then show ?case by (cases "f s = 0 \<or> s = []") (auto simp: strip_with.simps [of f s])
qed

lemma strip_with_suffix: "\<exists>p. s = p @ strip_with f s"
proof (induction f s rule: strip_with.induct)
  case (1 f s)
  show ?case
  proof (cases "f s = 0 \<or> s = []")
    case True
    then show ?thesis by (simp add: strip_with.simps [of f s])
  next
    case False
    with 1 obtain p where "drop (f s) s = p @ strip_with f (drop (f s) s)" by blast
    then have "s = (take (f s) s @ p) @ strip_with f (drop (f s) s)"
      by (metis append_assoc append_take_drop_id)
    moreover from False have "strip_with f s = strip_with f (drop (f s) s)"
      by (simp add: strip_with.simps [of f s])
    ultimately show ?thesis by metis
  qed
qed

text \<open>A string that starts (ends) with no white space keeps that property when its end (start) is cut.\<close>

lemma ws_len_append: "ws_len (p @ q) = 0 \<Longrightarrow> ws_len p = 0"
  by (cases p rule: ws_len.cases; cases q rule: ws_len.cases) (auto split: if_splits)

lemma trim_start_done [simp]: "ws_len (trim_start s) = 0"
  by (simp add: trim_start_def strip_with_done)

lemma trim_end_done [simp]: "ws_len_rev (rev (trim_end s)) = 0"
  by (simp add: trim_end_def strip_with_done)

lemma trim_end_prefix: "\<exists>q. s = trim_end s @ q"
proof -
  obtain p where "rev s = p @ strip_with ws_len_rev (rev s)" using strip_with_suffix by blast
  then have "s = rev (strip_with ws_len_rev (rev s)) @ rev p"
    by (metis rev_append rev_rev_ident)
  then show ?thesis by (auto simp: trim_end_def)
qed

lemma trim_ends [simp]: "ws_len (trim s) = 0" "ws_len_rev (rev (trim s)) = 0"
proof -
  obtain q where "trim_start s = trim_end (trim_start s) @ q" using trim_end_prefix by blast
  then show "ws_len (trim s) = 0" using ws_len_append [of "trim s" q] by (simp add: trim_def)
  show "ws_len_rev (rev (trim s)) = 0" by (simp add: trim_def)
qed

lemma trim_fix: "ws_len s = 0 \<Longrightarrow> ws_len_rev (rev s) = 0 \<Longrightarrow> trim s = s"
  by (simp add: trim_def trim_start_def trim_end_def strip_with_fix)

lemma trim_idem [simp]: "trim (trim s) = trim s"
  by (simp add: trim_fix)

text \<open>Trimming the end stops at the last visible ASCII character.\<close>

lemma ws_len_rev_stop: "33 \<le> byte c \<Longrightarrow> byte c < 128 \<Longrightarrow> ws_len_rev (x @ c # b) \<le> length x"
  by (cases x rule: ws_len.cases; cases b rule: ws_len.cases)
    (auto simp: ws2_def ws3_def is_ascii_ws_def)

lemma strip_stop:
  assumes "33 \<le> byte c" and "byte c < 128"
  shows "\<exists>y. strip_with ws_len_rev (x @ c # b) = y @ c # b"
proof (induction x rule: length_induct)
  case (1 x)
  let ?n = "ws_len_rev (x @ c # b)"
  have n: "?n \<le> length x" using assms by (rule ws_len_rev_stop)
  show ?case
  proof (cases "?n = 0")
    case True
    then show ?thesis by (simp add: strip_with_fix)
  next
    case False
    with n have "length (drop ?n x) < length x" by simp
    with 1 obtain y where "strip_with ws_len_rev (drop ?n x @ c # b) = y @ c # b" by blast
    with False n show ?thesis by (simp add: strip_with.simps [of _ "x @ c # b"])
  qed
qed

lemma trim_keeps:
  assumes "ws_len (p @ c # t) = 0" and "33 \<le> byte c" and "byte c < 128"
  shows "\<exists>t'. trim (p @ c # t) = p @ c # t'"
proof -
  obtain y where "strip_with ws_len_rev (rev t @ c # rev p) = y @ c # rev p"
    using strip_stop [OF assms(2,3)] by blast
  with assms(1) show ?thesis by (simp add: trim_def trim_start_def trim_end_def strip_with_fix)
qed

lemma trim_Nil [simp]: "trim [] = []"
  by (simp add: trim_fix)

lemma length_trim: "length (trim s) \<le> length s"
proof -
  obtain p where "s = p @ trim_start s" using strip_with_suffix by (auto simp: trim_start_def)
  then have "length (trim_start s) \<le> length s" by (metis length_append le_add2)
  moreover obtain q where "trim_start s = trim_end (trim_start s) @ q" using trim_end_prefix by blast
  then have "length (trim s) \<le> length (trim_start s)"
    by (metis length_append le_add1 trim_def)
  ultimately show ?thesis by simp
qed

subsection \<open>ASCII case, searching, replacing\<close>

definition lower_byte :: "char \<Rightarrow> char" where
  "lower_byte c = (if 65 \<le> byte c \<and> byte c \<le> 90 then char_of (byte c + 32) else c)"

definition to_ascii_lowercase :: "str \<Rightarrow> str" where
  "to_ascii_lowercase s = map lower_byte s"

definition eq_ignore_ascii_case :: "str \<Rightarrow> str \<Rightarrow> bool" where
  "eq_ignore_ascii_case a b \<longleftrightarrow> to_ascii_lowercase a = to_ascii_lowercase b"

lemma byte_char_of [simp]: "n < 256 \<Longrightarrow> byte (char_of n) = n"
  by (simp add: byte_def)

lemma lower_byte_idem [simp]: "lower_byte (lower_byte c) = lower_byte c"
  by (auto simp: lower_byte_def)

lemma to_ascii_lowercase_idem [simp]: "to_ascii_lowercase (to_ascii_lowercase s) = to_ascii_lowercase s"
  by (simp add: to_ascii_lowercase_def)

lemma eq_ignore_ascii_case_refl [simp]: "eq_ignore_ascii_case a a"
  by (simp add: eq_ignore_ascii_case_def)

lemma eq_ignore_ascii_case_sym: "eq_ignore_ascii_case a b \<Longrightarrow> eq_ignore_ascii_case b a"
  by (simp add: eq_ignore_ascii_case_def)

fun starts_with :: "str \<Rightarrow> str \<Rightarrow> bool" where
  "starts_with s [] = True"
| "starts_with [] (p # ps) = False"
| "starts_with (c # cs) (p # ps) = (c = p \<and> starts_with cs ps)"

lemma starts_with_iff: "starts_with s p \<longleftrightarrow> (\<exists>t. s = p @ t)"
  by (induction s p rule: starts_with.induct) auto

fun str_contains :: "str \<Rightarrow> str \<Rightarrow> bool" where
  "str_contains [] p = (p = [])"
| "str_contains (c # cs) p = (starts_with (c # cs) p \<or> str_contains cs p)"

lemma str_contains_iff: "str_contains s p \<longleftrightarrow> (\<exists>a b. s = a @ p @ b)"
proof (induction s)
  case (Cons c cs)
  have "(\<exists>a b. c # cs = a @ p @ b) \<longleftrightarrow> (\<exists>b. c # cs = p @ b) \<or> (\<exists>a b. cs = a @ p @ b)"
    by (metis append_Cons append_Nil list.exhaust list.inject)
  with Cons show ?case by (simp add: starts_with_iff)
qed simp

definition replace_byte :: "char \<Rightarrow> char \<Rightarrow> str \<Rightarrow> str" where
  "replace_byte a b s = map (\<lambda>c. if c = a then b else c) s"

subsection \<open>Lines and joining\<close>

definition strip_cr :: "str \<Rightarrow> str" where
  "strip_cr s = (if s \<noteq> [] \<and> last s = CHR 0x0D then butlast s else s)"

fun lines_acc :: "str \<Rightarrow> str \<Rightarrow> str list" where
  "lines_acc cur [] = (if cur = [] then [] else [rev cur])"
| "lines_acc cur (c # cs) =
     (if c = CHR 0x0A then strip_cr (rev cur) # lines_acc [] cs else lines_acc (c # cur) cs)"

definition str_lines :: "str \<Rightarrow> str list" where
  "str_lines s = lines_acc [] s"

fun join :: "str \<Rightarrow> str list \<Rightarrow> str" where
  "join sep [] = []"
| "join sep [x] = x"
| "join sep (x # y # ys) = x @ sep @ join sep (y # ys)"

abbreviation nl :: str where
  "nl \<equiv> [CHR 0x0A]"

subsection \<open>Characters\<close>

definition is_cont :: "char \<Rightarrow> bool" where
  "is_cont c \<longleftrightarrow> 128 \<le> byte c \<and> byte c < 192"

definition is_char_boundary :: "str \<Rightarrow> nat \<Rightarrow> bool" where
  "is_char_boundary s i \<longleftrightarrow> i = 0 \<or> i = length s \<or> i < length s \<and> \<not> is_cont (s ! i)"

text \<open>\<open>String::truncate\<close>: nothing beyond the end, a panic inside a character.\<close>

definition str_truncate :: "str \<Rightarrow> nat \<Rightarrow> str option" where
  "str_truncate s n =
     (if length s \<le> n then Some s else if is_char_boundary s n then Some (take n s) else None)"

text \<open>The slices \<open>&s[..n]\<close> and \<open>&s[n..]\<close>.\<close>

definition slice_to :: "str \<Rightarrow> nat \<Rightarrow> str option" where
  "slice_to s n = (if is_char_boundary s n then Some (take n s) else None)"

definition slice_from :: "str \<Rightarrow> nat \<Rightarrow> str option" where
  "slice_from s n = (if is_char_boundary s n then Some (drop n s) else None)"

definition char_count :: "str \<Rightarrow> nat" where
  "char_count s = length (filter (\<lambda>c. \<not> is_cont c) s)"

fun take_chars :: "nat \<Rightarrow> str \<Rightarrow> str" where
  "take_chars n [] = []"
| "take_chars n (c # cs) =
     (if is_cont c then c # take_chars n cs
      else case n of 0 \<Rightarrow> [] | Suc m \<Rightarrow> c # take_chars m cs)"

definition is_ascii :: "str \<Rightarrow> bool" where
  "is_ascii s \<longleftrightarrow> (\<forall>c \<in> set s. byte c < 128)"

lemma is_ascii_boundary: "is_ascii s \<Longrightarrow> i \<le> length s \<Longrightarrow> is_char_boundary s i"
  using nth_mem [of i s] by (fastforce simp: is_ascii_def is_char_boundary_def is_cont_def)

lemma str_truncate_ascii: "is_ascii s \<Longrightarrow> str_truncate s n = Some (take n s)"
  by (auto simp: str_truncate_def is_ascii_boundary)

lemma str_truncate_length: "str_truncate s n = Some t \<Longrightarrow> length t \<le> n"
  by (auto simp: str_truncate_def split: if_splits)

subsection \<open>Decimal numbers\<close>

fun show_nat :: "nat \<Rightarrow> str" where
  "show_nat n = (if n < 10 then [char_of (48 + n)] else show_nat (n div 10) @ [char_of (48 + n mod 10)])"

declare show_nat.simps [simp del]

definition show_word :: "'a::len word \<Rightarrow> str" where
  "show_word w = show_nat (unat w)"

end
