(* ===== verification/F64.thy ===== *)
theory F64
  imports Prelude "HOL-Library.Log_Nat"
begin

text \<open>
  The \<open>f64\<close> numbers of the scheduler's scores, ratios and prices: IEEE 754 binary64 with
  round-to-nearest-even. A finite value is the rational it denotes, so the two zeros are one
  value; the code never divides by a float that can be zero and never reads a sign, the only
  places where they differ. The rounding \<open>rnd\<close> is proved monotone and exact on small
  integers, which is all the components need of it.
\<close>

datatype f64 = Fin rat | PInf | NInf | NaN

subsection \<open>Rounding a rational\<close>

definition flog2 :: "rat \<Rightarrow> int" where
  "flog2 x = (let (n, d) = quotient_of x; e = bitlen n - bitlen d
     in if 2 powi e \<le> x then e else e - 1)"

text \<open>Round to the nearest integer, ties to even.\<close>

definition rne :: "rat \<Rightarrow> int" where
  "rne x = (let n = \<lfloor>x\<rfloor>; f = x - of_int n
     in if f < 1 / 2 then n else if 1 / 2 < f then n + 1 else if even n then n else n + 1)"

definition rnd_pos :: "rat \<Rightarrow> rat" where
  "rnd_pos x = (let q = max (flog2 x) (- 1022) - 52 in of_int (rne (x / 2 powi q)) * 2 powi q)"

definition rnd :: "rat \<Rightarrow> f64" where
  "rnd x =
     (if x = 0 then Fin 0
      else if 0 < x then (let v = rnd_pos x in if 2 ^ 1024 \<le> v then PInf else Fin v)
      else (let v = rnd_pos (- x) in if 2 ^ 1024 \<le> v then NInf else Fin (- v)))"

lemma powi2_nat: "0 \<le> e \<Longrightarrow> (2::rat) powi e = of_int (2 ^ nat e)"
  by (simp add: power_int_def)

lemma flog2_bounds:
  assumes "0 < x"
  shows "2 powi flog2 x \<le> x" and "x < 2 powi (flog2 x + 1)"
proof -
  obtain n d where nd: "quotient_of x = (n, d)" by (cases "quotient_of x")
  have d: "0 < d" using quotient_of_denom_pos [OF nd] .
  have x: "x = of_int n / of_int d" using quotient_of_div [OF nd] .
  have n: "0 < n" using assms d x by (simp add: zero_less_divide_iff)
  let ?a = "bitlen n" and ?b = "bitlen d"
  have pos: "0 < ?a" "0 < ?b" using n d bitlen_nonneg [of n] bitlen_nonneg [of d] bitlen_eq_zero_iff [of n] bitlen_eq_zero_iff [of d]
    by linarith+
  have bn: "(2::int) ^ nat (?a - 1) \<le> n \<and> n < 2 ^ nat ?a" using bitlen_bounds [OF n] .
  have bd: "(2::int) ^ nat (?b - 1) \<le> d \<and> d < 2 ^ nat ?b" using bitlen_bounds [OF d] .
  have rn: "(2::rat) powi (?a - 1) \<le> of_int n" "(of_int n :: rat) < 2 powi ?a"
    using bn pos(1) powi2_nat [of "?a - 1"] powi2_nat [of ?a] by (simp_all only: of_int_le_iff of_int_less_iff)
  have rd: "(2::rat) powi (?b - 1) \<le> of_int d" "(of_int d :: rat) < 2 powi ?b"
    using bd pos(2) powi2_nat [of "?b - 1"] powi2_nat [of ?b] by (simp_all only: of_int_le_iff of_int_less_iff)
  have up: "x < 2 powi (?a - ?b + 1)"
  proof -
    have "x < 2 powi ?a / of_int d" using rn d x by (simp add: divide_strict_right_mono)
    also have "\<dots> \<le> 2 powi ?a / 2 powi (?b - 1)"
      using rd(1) by (intro divide_left_mono) (auto simp: d)
    also have "\<dots> = 2 powi (?a - ?b + 1)"
      by (simp add: power_int_diff [symmetric] diff_diff_eq2 diff_add_eq)
    finally show ?thesis .
  qed
  have low: "2 powi (?a - ?b - 1) \<le> x"
  proof -
    have "2 powi (?a - ?b - 1) = (2::rat) powi (?a - 1) / 2 powi ?b"
      by (simp add: power_int_diff [symmetric] algebra_simps)
    also have "\<dots> \<le> 2 powi (?a - 1) / of_int d"
      using rd(2) d by (intro divide_left_mono) auto
    also have "\<dots> \<le> x" using rn(1) d x by (simp add: divide_right_mono)
    finally show ?thesis .
  qed
  show "2 powi flog2 x \<le> x" using low by (auto simp: flog2_def nd Let_def)
  show "x < 2 powi (flog2 x + 1)" using up by (auto simp: flog2_def nd Let_def)
qed

lemma powi2_le_iff: "(2::rat) powi a \<le> 2 powi b \<longleftrightarrow> a \<le> b"
proof -
  have "(2::rat) powi b < 2 powi a" if "b < a"
    using that by (intro power_int_strict_increasing) auto
  moreover have "(2::rat) powi a \<le> 2 powi b" if "a \<le> b"
    using that by (intro power_int_increasing) auto
  ultimately show ?thesis by (meson not_le)
qed

lemma powi2_less_iff: "(2::rat) powi a < 2 powi b \<longleftrightarrow> a < b"
  using powi2_le_iff [of b a] by (simp add: not_le [symmetric])

lemma flog2_mono: "0 < x \<Longrightarrow> x \<le> y \<Longrightarrow> flog2 x \<le> flog2 y"
  using flog2_bounds(1) [of x] flog2_bounds(2) [of y] powi2_less_iff [of "flog2 x" "flog2 y + 1"]
  by linarith

lemma rne_of_int [simp]: "rne (of_int n) = n"
  by (simp add: rne_def)

lemma rne_bounds: "\<lfloor>x\<rfloor> \<le> rne x" "rne x \<le> \<lfloor>x\<rfloor> + 1"
  by (auto simp: rne_def Let_def)

lemma rne_mono: "x \<le> y \<Longrightarrow> rne x \<le> rne y"
proof -
  assume le: "x \<le> y"
  show ?thesis
  proof (cases "\<lfloor>x\<rfloor> = \<lfloor>y\<rfloor>")
    case True
    with le show ?thesis by (auto simp: rne_def Let_def)
  next
    case False
    with floor_mono [OF le] rne_bounds(2) [of x] rne_bounds(1) [of y] show ?thesis by linarith
  qed
qed

lemma rne_le_of_int: "x \<le> of_int n \<Longrightarrow> rne x \<le> n"
  using rne_mono [of x "of_int n"] by simp

lemma rne_ge_of_int: "of_int n \<le> x \<Longrightarrow> n \<le> rne x"
  using rne_mono [of "of_int n" x] by simp

lemma powi2_split: "(2::rat) powi (a + b) = 2 powi a * 2 powi b"
  by (simp add: power_int_add)

lemma rnd_pos_mono:
  assumes "0 < x" and "x \<le> y"
  shows "rnd_pos x \<le> rnd_pos y"
proof -
  define ex ey where "ex = max (flog2 x) (- 1022)" and "ey = max (flog2 y) (- 1022)"
  have le: "ex \<le> ey" using flog2_mono [OF assms] by (auto simp: ex_def ey_def)
  have rx: "rnd_pos x = of_int (rne (x / 2 powi (ex - 52))) * 2 powi (ex - 52)"
    and ry: "rnd_pos y = of_int (rne (y / 2 powi (ey - 52))) * 2 powi (ey - 52)"
    by (simp_all add: rnd_pos_def ex_def ey_def Let_def)
  show ?thesis
  proof (cases "ex = ey")
    case True
    have "rne (x / 2 powi (ex - 52)) \<le> rne (y / 2 powi (ex - 52))"
      using assms(2) by (intro rne_mono divide_right_mono) auto
    then show ?thesis by (simp add: rx ry True)
  next
    case False
    with le have lt: "ex < ey" by simp
    have "x \<le> 2 powi (ex + 1)"
      using flog2_bounds(2) [OF assms(1)] powi2_le_iff [of "flog2 x + 1" "ex + 1"]
      by (simp add: ex_def)
    also have "\<dots> = 2 ^ 53 * 2 powi (ex - 52)"
      using powi2_split [of 53 "ex - 52"] by (simp add: algebra_simps)
    finally have "x / 2 powi (ex - 52) \<le> of_int (2 ^ 53)" by (simp add: divide_le_eq)
    then have "rne (x / 2 powi (ex - 52)) \<le> 2 ^ 53" by (rule rne_le_of_int)
    then have "(of_int (rne (x / 2 powi (ex - 52))) :: rat) \<le> of_int (2 ^ 53)"
      by (simp only: of_int_le_iff)
    then have "rnd_pos x \<le> 2 ^ 53 * 2 powi (ex - 52)"
      by (simp add: rx)
    also have "\<dots> = 2 powi (ex + 1)"
      using powi2_split [of 53 "ex - 52"] by (simp add: algebra_simps)
    also have "\<dots> \<le> 2 powi ey" using lt by (simp add: powi2_le_iff)
    also have "\<dots> \<le> rnd_pos y"
    proof -
      have "ey = flog2 y" using lt by (auto simp: ex_def ey_def)
      then have "2 powi ey \<le> y" using flog2_bounds(1) [of y] assms by simp
      moreover have pe: "(2::rat) powi ey = 2 ^ 52 * 2 powi (ey - 52)"
        using powi2_split [of 52 "ey - 52"] by simp
      ultimately have "of_int (2 ^ 52) \<le> y / 2 powi (ey - 52)" by (simp add: le_divide_eq)
      then have "2 ^ 52 \<le> rne (y / 2 powi (ey - 52))" by (rule rne_ge_of_int)
      then have "(of_int (2 ^ 52) :: rat) \<le> of_int (rne (y / 2 powi (ey - 52)))"
        by (simp only: of_int_le_iff)
      then show ?thesis by (simp add: ry pe)
    qed
    finally show ?thesis .
  qed
qed

lemma rnd_pos_nonneg: "0 < x \<Longrightarrow> 0 \<le> rnd_pos x"
proof -
  assume "0 < x"
  then have "0 \<le> rne (x / 2 powi (max (flog2 x) (- 1022) - 52))"
    by (intro rne_ge_of_int) simp
  then show ?thesis by (simp add: rnd_pos_def Let_def)
qed

subsection \<open>Comparisons\<close>

fun f_le :: "f64 \<Rightarrow> f64 \<Rightarrow> bool" where
  "f_le NaN _ = False"
| "f_le _ NaN = False"
| "f_le NInf _ = True"
| "f_le _ PInf = True"
| "f_le (Fin a) (Fin b) = (a \<le> b)"
| "f_le _ _ = False"

definition f_lt :: "f64 \<Rightarrow> f64 \<Rightarrow> bool" where
  "f_lt a b \<longleftrightarrow> f_le a b \<and> \<not> f_le b a"

text \<open>\<open>a.partial_cmp(&b).unwrap_or(Ordering::Equal)\<close>.\<close>

definition f_cmp :: "f64 \<Rightarrow> f64 \<Rightarrow> ordering" where
  "f_cmp a b = (if f_lt a b then Less else if f_lt b a then Greater else Equal)"

lemma f_le_refl [simp]: "f_le a a \<longleftrightarrow> a \<noteq> NaN"
  by (cases a) auto

lemma f_le_trans: "f_le a b \<Longrightarrow> f_le b c \<Longrightarrow> f_le a c"
  by (cases a; cases b; cases c) auto

lemma f_le_total: "a \<noteq> NaN \<Longrightarrow> b \<noteq> NaN \<Longrightarrow> f_le a b \<or> f_le b a"
  by (cases a; cases b) auto

lemma f_lt_Fin [simp]: "f_lt (Fin a) (Fin b) \<longleftrightarrow> a < b"
  by (auto simp: f_lt_def)

lemma f_cmp_Fin: "f_cmp (Fin a) (Fin b) = cmp a b"
  by (auto simp: f_cmp_def cmp_def)

lemma rnd_not_NaN [simp]: "rnd x \<noteq> NaN"
  by (auto simp: rnd_def Let_def)

lemma rnd_mono:
  assumes "x \<le> y"
  shows "f_le (rnd x) (rnd y)"
proof -
  have neg: "0 \<le> rnd_pos (- x)" if "x < 0" for x using rnd_pos_nonneg [of "- x"] that by simp
  consider "0 < x" | "x \<le> 0" "0 < y" | "y = 0" | "y < 0" by linarith
  then show ?thesis
  proof cases
    case 1
    with assms rnd_pos_mono [of x y] show ?thesis by (auto simp: rnd_def Let_def)
  next
    case 2
    with neg [of x] rnd_pos_nonneg [of y] show ?thesis by (auto simp: rnd_def Let_def)
  next
    case 3
    with assms neg [of x] show ?thesis by (auto simp: rnd_def Let_def)
  next
    case 4
    with assms rnd_pos_mono [of "- y" "- x"] show ?thesis by (auto simp: rnd_def Let_def)
  qed
qed

subsection \<open>Arithmetic\<close>

definition dec :: "int \<Rightarrow> int \<Rightarrow> f64" where
  "dec n d = rnd (of_int n / of_int d)"

fun f_neg :: "f64 \<Rightarrow> f64" where
  "f_neg (Fin a) = Fin (- a)"
| "f_neg PInf = NInf"
| "f_neg NInf = PInf"
| "f_neg NaN = NaN"

fun f_add :: "f64 \<Rightarrow> f64 \<Rightarrow> f64" where
  "f_add (Fin a) (Fin b) = rnd (a + b)"
| "f_add NaN _ = NaN"
| "f_add _ NaN = NaN"
| "f_add PInf NInf = NaN"
| "f_add NInf PInf = NaN"
| "f_add PInf _ = PInf"
| "f_add _ PInf = PInf"
| "f_add NInf _ = NInf"
| "f_add _ NInf = NInf"

definition f_sub :: "f64 \<Rightarrow> f64 \<Rightarrow> f64" where
  "f_sub a b = f_add a (f_neg b)"

fun f_inf :: "rat \<Rightarrow> f64" where
  "f_inf s = (if 0 < s then PInf else if s < 0 then NInf else NaN)"

fun f_mul :: "f64 \<Rightarrow> f64 \<Rightarrow> f64" where
  "f_mul (Fin a) (Fin b) = rnd (a * b)"
| "f_mul NaN _ = NaN"
| "f_mul _ NaN = NaN"
| "f_mul PInf (Fin b) = f_inf b"
| "f_mul NInf (Fin b) = f_inf (- b)"
| "f_mul (Fin a) PInf = f_inf a"
| "f_mul (Fin a) NInf = f_inf (- a)"
| "f_mul PInf PInf = PInf"
| "f_mul NInf NInf = PInf"
| "f_mul _ _ = NInf"

fun f_div :: "f64 \<Rightarrow> f64 \<Rightarrow> f64" where
  "f_div NaN _ = NaN"
| "f_div _ NaN = NaN"
| "f_div (Fin a) (Fin b) = (if b = 0 then f_inf a else rnd (a / b))"
| "f_div (Fin a) _ = Fin 0"
| "f_div PInf (Fin b) = (if b < 0 then NInf else PInf)"
| "f_div NInf (Fin b) = (if b < 0 then PInf else NInf)"
| "f_div _ _ = NaN"

text \<open>\<open>f64::min\<close> and \<open>f64::max\<close> return the other operand of a NaN; \<open>clamp\<close> keeps a NaN.\<close>

fun f_min :: "f64 \<Rightarrow> f64 \<Rightarrow> f64" where
  "f_min NaN b = b"
| "f_min a NaN = a"
| "f_min a b = (if f_le a b then a else b)"

fun f_max :: "f64 \<Rightarrow> f64 \<Rightarrow> f64" where
  "f_max NaN b = b"
| "f_max a NaN = a"
| "f_max a b = (if f_le a b then b else a)"

definition f_clamp :: "f64 \<Rightarrow> f64 \<Rightarrow> f64 \<Rightarrow> f64" where
  "f_clamp x lo hi = (if f_lt x lo then lo else if f_lt hi x then hi else x)"

text \<open>\<open>f64::round\<close> rounds half away from zero.\<close>

fun f_round :: "f64 \<Rightarrow> f64" where
  "f_round (Fin a) = Fin (if 0 \<le> a then of_int \<lfloor>a + 1 / 2\<rfloor> else - of_int \<lfloor>- a + 1 / 2\<rfloor>)"
| "f_round a = a"

text \<open>Integer-to-float casts.\<close>

definition f_of_word :: "'a::len word \<Rightarrow> f64" where
  "f_of_word w = rnd (of_nat (unat w))"

definition f_of_int :: "int \<Rightarrow> f64" where
  "f_of_int n = rnd (of_int n)"

subsection \<open>Numbers of the unit interval\<close>

definition f_unit :: "f64 \<Rightarrow> bool" where
  "f_unit x \<longleftrightarrow> f_le (Fin 0) x \<and> f_le x (Fin 1)"

lemma f_unit_iff: "f_unit x \<longleftrightarrow> (\<exists>r. x = Fin r \<and> 0 \<le> r \<and> r \<le> 1)"
  by (cases x) (auto simp: f_unit_def)

text \<open>Powers of two are exact.\<close>

lemma flog2_powi: "flog2 (2 powi k) = k"
  using flog2_bounds [of "2 powi k"] powi2_le_iff [of "flog2 (2 powi k)" k]
    powi2_less_iff [of k "flog2 (2 powi k) + 1"] by simp

lemma rnd_pow2: "k < 1024 \<Longrightarrow> rnd (2 ^ k) = Fin (2 ^ k)"
proof -
  assume k: "k < 1024"
  have pk: "(2::rat) ^ k = 2 powi int k" by (simp add: power_int_def)
  have e: "max (flog2 (2 ^ k)) (- 1022) = int k" unfolding pk flog2_powi by simp
  have d: "(2::rat) ^ k / 2 powi (int k - 52) = of_int (2 ^ 52)"
    using powi2_split [of 52 "int k - 52"] by (simp add: field_simps)
  have "rnd_pos (2 ^ k) = of_int (2 ^ 52) * 2 powi (int k - 52)"
    unfolding rnd_pos_def e Let_def d rne_of_int ..
  also have "\<dots> = 2 ^ k" using powi2_split [of 52 "int k - 52"] by simp
  finally have "rnd_pos (2 ^ k) = 2 ^ k" .
  moreover have "\<not> (2::rat) ^ 1024 \<le> 2 ^ k" using k by (simp only: power_increasing_iff)
  ultimately show ?thesis by (simp add: rnd_def)
qed

lemma rnd_0 [simp]: "rnd 0 = Fin 0"
  by (simp add: rnd_def)

lemma rnd_1 [simp]: "rnd 1 = Fin 1"
  using rnd_pow2 [of 0] by simp

lemma rnd_2 [simp]: "rnd 2 = Fin 2"
  using rnd_pow2 [of 1] by simp

text \<open>Rounding stays inside an interval whose ends are floats.\<close>

lemma rnd_between:
  assumes "rnd a = Fin a" and "rnd b = Fin b" and "a \<le> x" and "x \<le> b"
  shows "\<exists>r. rnd x = Fin r \<and> a \<le> r \<and> r \<le> b"
proof -
  have "f_le (Fin a) (rnd x)" "f_le (rnd x) (Fin b)"
    using rnd_mono [OF assms(3)] rnd_mono [OF assms(4)] assms(1,2) by simp_all
  then show ?thesis by (cases "rnd x") auto
qed

lemma rnd_unit: "0 \<le> x \<Longrightarrow> x \<le> 1 \<Longrightarrow> f_unit (rnd x)"
  using rnd_between [of 0 1 x] by (auto simp: f_unit_iff)

lemma f_clamp_unit: "x \<noteq> NaN \<Longrightarrow> f_unit (f_clamp x (Fin 0) (Fin 1))"
  by (cases x) (auto simp: f_clamp_def f_unit_def f_lt_def)

lemma f_clamp_id: "f_unit x \<Longrightarrow> f_clamp x (Fin 0) (Fin 1) = x"
  by (auto simp: f_clamp_def f_unit_iff)

text \<open>A ratio of two counters, the smaller over the larger, lies in the unit interval.\<close>

lemma f_ratio_unit:
  fixes a b :: "'a::len word"
  assumes "a \<le> b" and "0 < b" and "LENGTH('a) \<le> 64"
  shows "f_unit (f_div (f_of_word a) (f_of_word b))"
proof -
  have big: "rnd (2 ^ 64) = Fin (2 ^ 64)" by (rule rnd_pow2) simp
  have ab: "unat a \<le> unat b" "1 \<le> unat b"
    using assms by (auto simp: word_le_nat_alt word_less_nat_alt)
  have ub: "(of_nat (unat w) :: rat) \<le> 2 ^ 64" for w :: "'a word"
  proof -
    have "unat w < 2 ^ LENGTH('a)" by (rule unsigned_less)
    also have "\<dots> \<le> 2 ^ 64" using assms(3) by (intro power_increasing) auto
    finally have "of_nat (unat w) \<le> (of_nat (2 ^ 64) :: rat)" by (intro of_nat_mono) simp
    then show ?thesis by simp
  qed
  have of_nat_1_le: "(1 :: rat) \<le> of_nat (unat b)"
    using of_nat_mono [OF ab(2), where 'a = rat] by simp
  obtain ra where ra: "rnd (of_nat (unat a)) = Fin ra" "0 \<le> ra"
    using rnd_between [OF rnd_0 big of_nat_0_le_iff ub [of a]] by blast
  obtain rb where rb: "rnd (of_nat (unat b)) = Fin rb" "1 \<le> rb"
    using rnd_between [OF rnd_1 big of_nat_1_le ub [of b]] by blast
  have "ra \<le> rb"
    using rnd_mono [OF of_nat_mono [OF ab(1)], unfolded ra(1) rb(1)] by simp
  then show ?thesis
    using ra rb by (simp add: f_of_word_def rnd_unit)
qed

end
