(* ===== verification/Json.thy ===== *)
theory Json
  imports Rust_String F64
begin

text \<open>
  \<open>serde_json::Value\<close> and the accessors the server reads it with. Objects are association
  lists with the library's rule that an index finds the entry of a key. Signed integers are words
  read with \<open>sint\<close>.
\<close>

type_synonym i32 = "32 word"
type_synonym i64 = "64 word"

datatype json =
    JNull
  | JBool bool
  | JPosInt u64
  | JNegInt i64
  | JFloat f64
  | JString str
  | JArray "json list"
  | JObject "(str \<times> json) list"

fun json_get :: "json \<Rightarrow> str \<Rightarrow> json option" where
  "json_get (JObject m) k = map_of m k"
| "json_get _ k = None"

fun json_as_str :: "json \<Rightarrow> str option" where
  "json_as_str (JString s) = Some s"
| "json_as_str _ = None"

text \<open>\<open>item.get(key).and_then(Value::as_str)\<close>.\<close>

definition json_str_field :: "json \<Rightarrow> str \<Rightarrow> str option" where
  "json_str_field v k = Option.bind (json_get v k) json_as_str"

end
