(* ===== verification/Models.thy ===== *)
theory Models
  imports Json
begin

text \<open>
  The data model, \<open>models.rs\<close>: the enums with their database names, and the records of the
  control plane's state. A field keeps its source name behind a two-letter prefix of its struct
  (\<open>ls_account_id\<close> is \<open>CliLease::account_id\<close>), because HOL field names are global. The default
  values of \<open>Default\<close> implementations end the theory.
\<close>

datatype route_mode = Direct | Warp

fun route_mode_as_str :: "route_mode \<Rightarrow> str" where
  "route_mode_as_str Direct = ''direct''"
| "route_mode_as_str Warp = ''warp''"

definition route_mode_from_db :: "str \<Rightarrow> route_mode" where
  "route_mode_from_db v = (if v = ''warp'' then Warp else Direct)"

datatype gateway_user_role = Admin | Viewer

fun gateway_user_role_as_str :: "gateway_user_role \<Rightarrow> str" where
  "gateway_user_role_as_str Admin = ''admin''"
| "gateway_user_role_as_str Viewer = ''viewer''"

definition gateway_user_role_from_db :: "str \<Rightarrow> gateway_user_role" where
  "gateway_user_role_from_db v = (if v = ''admin'' then Admin else Viewer)"

datatype execution_mode = Balanced | ToolFirst

datatype tool_policy = Auto | PreferTools

datatype verbosity_policy = Brief | Normal

datatype turn_outcome = Pending | Success | Failed | Queue | Interrupted

datatype managed_account_status = Active | Unavailable | Banned

record tenant =
  tn_id :: uuid
  tn_slug :: str
  tn_name :: str
  tn_created_at :: instant

record gateway_api_key =
  ak_id :: uuid
  ak_tenant_id :: uuid
  ak_name :: str
  ak_email :: str
  ak_role :: gateway_user_role
  ak_token :: str
  ak_default_model :: "str option"
  ak_reasoning_effort :: "str option"
  ak_force_model_override :: bool
  ak_force_reasoning_effort :: bool
  ak_created_at :: instant
  ak_updated_at :: instant

record scheduling_signals =
  sg_quota_headroom :: f64
  sg_quota_headroom_5h :: f64
  sg_quota_headroom_7d :: f64
  sg_health_score :: f64
  sg_egress_stability :: f64
  sg_fairness_bias :: f64
  sg_inflight :: u32
  sg_capacity :: u32

record upstream_account =
  ac_id :: str
  ac_tenant_id :: uuid
  ac_label :: str
  ac_models :: "str list"
  ac_current_mode :: route_mode
  ac_signals :: scheduling_signals
  ac_created_at :: instant

record managed_rate_limit_window =
  rw_used_percent :: i32
  rw_window_duration_mins :: "i64 option"
  rw_resets_at :: "i64 option"

record managed_credits_snapshot =
  mc_has_credits :: bool
  mc_unlimited :: bool
  mc_balance :: "str option"

record managed_spend_control_snapshot =
  sp_reached :: bool

record managed_rate_limit_snapshot =
  rl_limit_id :: "str option"
  rl_limit_name :: "str option"
  rl_primary :: "managed_rate_limit_window option"
  rl_secondary :: "managed_rate_limit_window option"
  rl_credits :: "managed_credits_snapshot option"
  rl_spend_control :: "managed_spend_control_snapshot option"
  rl_plan_type :: "str option"

record managed_auth_state =
  ma_email :: "str option"
  ma_plan_type :: "str option"
  ma_workspace_role :: "str option"
  ma_is_workspace_owner :: "bool option"
  ma_status :: managed_account_status
  ma_status_reason :: "str option"
  ma_last_error :: "str option"
  ma_rate_limits :: "managed_rate_limit_snapshot option"
  ma_rate_limits_by_limit_id :: "(str \<times> managed_rate_limit_snapshot) list"
  ma_refresh_token_encrypted :: "str option"
  ma_last_refreshed_at :: "instant option"

record upstream_credential =
  cr_account_id :: str
  cr_base_url :: str
  cr_bearer_token :: str
  cr_chatgpt_account_id :: "str option"
  cr_extra_headers :: "(str \<times> str) list"
  cr_managed_auth :: "managed_auth_state option"
  cr_created_at :: instant
  cr_updated_at :: instant

record account_route_state =
  rs_account_id :: str
  rs_route_mode :: route_mode
  rs_direct_cf_streak :: u32
  rs_warp_cf_streak :: u32
  rs_cooldown_level :: nat
  rs_cooldown_until :: "instant option"
  rs_cooldown_reason :: "str option"
  rs_warp_entered_at :: "instant option"
  rs_last_cf_at :: "instant option"
  rs_success_streak :: u32
  rs_last_success_at :: "instant option"

record cli_lease =
  ls_principal_id :: str
  ls_tenant_id :: uuid
  ls_account_id :: str
  ls_account_label :: str
  ls_model :: str
  ls_reasoning_effort :: "str option"
  ls_route_mode :: route_mode
  ls_generation :: u32
  ls_active_subagents :: u32
  ls_created_at :: instant
  ls_last_used_at :: instant

record behavior_hints =
  bh_output_language :: "str option"
  bh_execution_mode :: "execution_mode option"
  bh_tool_policy :: "tool_policy option"
  bh_verbosity_policy :: "verbosity_policy option"

record behavior_profile =
  bp_output_language :: "str option"
  bp_execution_mode :: execution_mode
  bp_tool_policy :: tool_policy
  bp_verbosity_policy :: verbosity_policy
  bp_session_epoch :: u32

record pending_context_turn =
  pt_generation :: u32
  pt_request_summary :: str
  pt_request_input_items :: "json list"
  pt_created_at :: instant

record context_turn =
  ct_generation :: u32
  ct_request_summary :: str
  ct_response_summary :: "str option"
  ct_request_input_items :: "json list"
  ct_turn_outcome :: turn_outcome
  ct_response_id :: "str option"
  ct_response_output_items :: "json list"
  ct_tool_replay_safe :: bool
  ct_synthetic_kind :: "str option"
  ct_created_at :: instant

record conversation_context =
  cc_principal_id :: str
  cc_model :: str
  cc_workflow_spine :: str
  cc_behavior_profile :: behavior_profile
  cc_pending_turn :: "pending_context_turn option"
  cc_turns :: "context_turn list"
  cc_updated_at :: "instant option"

record conversation_thread =
  th_thread_id :: str
  th_tenant_id :: uuid
  th_principal_id :: str
  th_root_thread_id :: str
  th_parent_thread_id :: "str option"
  th_title :: "str option"
  th_model :: "str option"
  th_source :: str
  th_status :: str
  th_compaction_summary :: "str option"
  th_last_compaction_at :: "instant option"
  th_created_at :: instant
  th_updated_at :: instant

record thread_edge =
  te_parent_thread_id :: str
  te_child_thread_id :: str
  te_relation :: str
  te_created_at :: instant

record cache_metrics =
  cm_cached_tokens :: u64
  cm_replay_tokens :: u64
  cm_prefix_hit_ratio :: f64
  cm_request_hit_ratio :: f64
  cm_token_hit_ratio :: f64
  cm_warmup_roi :: f64
  cm_static_prefix_tokens :: u64

record cf_incident =
  ci_id :: str
  ci_account_id :: str
  ci_account_label :: str
  ci_route_mode :: route_mode
  ci_severity :: str
  ci_happened_at :: instant
  ci_cooldown_level :: nat

record request_log_usage =
  ru_input_tokens :: u64
  ru_cached_input_tokens :: u64
  ru_output_tokens :: u64
  ru_total_tokens :: u64

record request_log_entry =
  re_id :: str
  re_api_key_id :: uuid
  re_tenant_id :: uuid
  re_user_name :: str
  re_user_email :: str
  re_principal_id :: str
  re_account_id :: str
  re_account_label :: str
  re_method :: str
  re_endpoint :: str
  re_requested_model :: str
  re_effective_model :: str
  re_reasoning_effort :: "str option"
  re_route_mode :: route_mode
  re_status_code :: u16
  re_usage :: request_log_usage
  re_estimated_cost_usd :: "f64 option"
  re_created_at :: instant

text \<open>\<open>Default::default()\<close> of the types the code default-constructs.\<close>

definition default_session_epoch :: u32 where
  "default_session_epoch = 1"

definition behavior_profile_default :: behavior_profile where
  "behavior_profile_default = \<lparr>bp_output_language = None, bp_execution_mode = Balanced,
     bp_tool_policy = Auto, bp_verbosity_policy = Normal, bp_session_epoch = default_session_epoch\<rparr>"

definition conversation_context_default :: conversation_context where
  "conversation_context_default = \<lparr>cc_principal_id = [], cc_model = [], cc_workflow_spine = [],
     cc_behavior_profile = behavior_profile_default, cc_pending_turn = None, cc_turns = [],
     cc_updated_at = None\<rparr>"

definition managed_auth_state_default :: managed_auth_state where
  "managed_auth_state_default = \<lparr>ma_email = None, ma_plan_type = None, ma_workspace_role = None,
     ma_is_workspace_owner = None, ma_status = Active, ma_status_reason = None,
     ma_last_error = None, ma_rate_limits = None, ma_rate_limits_by_limit_id = [],
     ma_refresh_token_encrypted = None, ma_last_refreshed_at = None\<rparr>"

text \<open>Methods of \<open>SchedulingSignals\<close>.\<close>

definition effective_quota_headroom :: "scheduling_signals \<Rightarrow> f64" where
  "effective_quota_headroom s =
     f_min (f_min (sg_quota_headroom s) (sg_quota_headroom_5h s)) (sg_quota_headroom_7d s)"

definition near_quota_guard_enabled :: "scheduling_signals \<Rightarrow> bool" where
  "near_quota_guard_enabled s \<longleftrightarrow>
     f_lt (sg_quota_headroom_5h s) (dec 30 100) \<or> f_lt (sg_quota_headroom_7d s) (dec 30 100)"

lemma route_mode_roundtrip: "route_mode_from_db (route_mode_as_str m) = m"
  by (cases m) (simp_all add: route_mode_from_db_def)

lemma role_roundtrip: "gateway_user_role_from_db (gateway_user_role_as_str r) = r"
  by (cases r) (simp_all add: gateway_user_role_from_db_def)

end
