(* ===== verification/Requests.thy ===== *)
theory Requests
  imports Models
begin

text \<open>The request and response bodies of the operations on \<open>AppState\<close> (\<open>models.rs\<close>).\<close>

record lease_selection_request =
  lq_tenant_id :: uuid
  lq_principal_id :: str
  lq_model :: str
  lq_reasoning_effort :: "str option"
  lq_subagent_count :: u32
  lq_cache_affinity_key :: str
  lq_placement_affinity_key :: str

record route_event_request =
  ev_mode :: route_mode
  ev_kind :: str

record start_conversation_thread_request =
  st_tenant_id :: uuid
  st_thread_id :: "str option"
  st_title :: "str option"
  st_model :: "str option"
  st_source :: "str option"
  st_behavior_hints :: behavior_hints

record fork_conversation_thread_request =
  fk_tenant_id :: uuid
  fk_parent_thread_id :: str
  fk_child_thread_id :: "str option"
  fk_title :: "str option"
  fk_model :: "str option"
  fk_source :: "str option"

record compact_conversation_thread_request =
  cp_thread_id :: str
  cp_preserve_turns :: "nat option"

record create_tenant_request =
  qt_slug :: str
  qt_name :: str

record import_account_request =
  qi_tenant_id :: uuid
  qi_label :: str
  qi_models :: "str list"
  qi_quota_headroom :: "f64 option"
  qi_quota_headroom_5h :: "f64 option"
  qi_quota_headroom_7d :: "f64 option"
  qi_health_score :: "f64 option"
  qi_egress_stability :: "f64 option"
  qi_base_url :: "str option"
  qi_bearer_token :: "str option"
  qi_chatgpt_account_id :: "str option"
  qi_extra_headers :: "(str \<times> str) list option"

record create_gateway_api_key_request =
  qk_tenant_id :: uuid
  qk_name :: str

record create_gateway_user_request =
  qu_tenant_id :: "uuid option"
  qu_name :: str
  qu_email :: str
  qu_role :: gateway_user_role
  qu_default_model :: "str option"
  qu_reasoning_effort :: "str option"
  qu_force_model_override :: "bool option"
  qu_force_reasoning_effort :: "bool option"

record update_gateway_user_request =
  uu_name :: "str option"
  uu_email :: "str option"
  uu_role :: "gateway_user_role option"
  uu_default_model :: "str option"
  uu_reasoning_effort :: "str option"
  uu_force_model_override :: "bool option"
  uu_force_reasoning_effort :: "bool option"

record openai_login_start_request =
  lo_tenant_id :: "uuid option"
  lo_label :: "str option"
  lo_note :: "str option"
  lo_redirect_uri :: str
  lo_models :: "str list option"
  lo_base_url :: "str option"

record openai_login_start_response =
  lr_login_id :: str
  lr_auth_url :: str
  lr_redirect_uri :: str

record openai_login_complete_request =
  lc_state :: str
  lc_code :: str
  lc_redirect_uri :: "str option"

record codex_app_session_request =
  sq_tenant_id :: "uuid option"
  sq_account_id :: "str option"

record codex_app_session_response =
  sr_account_id :: str
  sr_remote_app_server_url :: str
  sr_remote_app_server_auth_token :: str
  sr_expires_at :: instant

end
