(* ===== verification/Views.thy ===== *)
theory Views
  imports Models
begin

text \<open>The read models the admin plane serves (\<open>models.rs\<close>): summaries, alerts, dashboards.\<close>

subsection \<open>Errors\<close>

text \<open>
  The error strings of the operations, one constructor per text; \<open>External\<close> carries a text that
  comes from a library or an upstream reply.
\<close>

datatype app_error =
    TenantNotFound | TenantMissing | ThreadNotFoundAfterCreation | ParentThreadNotFound
  | ParentThreadOtherTenant | ThreadNotFoundAfterFork | ThreadNotFound
  | ThreadNotFoundAfterCompaction | EmptyUserName | EmptyEmail | InvalidEmail | DuplicateEmail
  | UserNotFound | UnknownLogin | AccountNotFound | CredentialNotFound | NotManagedAccount
  | SessionTenantMismatch | SessionAccountNotFound | SessionAccountOtherTenant
  | SessionCredentialMissing | NoUsableCredential | External str

subsection \<open>Views\<close>

datatype availability_state = AvRoutable | AvCooldown | AvQuotaExhausted | AvUnavailable

record browser_task =
  bt_id :: str
  bt_kind :: str
  bt_account_id :: "str option"
  bt_account_label :: "str option"
  bt_provider :: "str option"
  bt_route_mode :: "route_mode option"
  bt_status :: str
  bt_created_at :: instant
  bt_updated_at :: instant
  bt_notes :: "str option"
  bt_profile_dir :: "str option"
  bt_screenshot_path :: "str option"
  bt_storage_state_path :: "str option"
  bt_final_url :: "str option"
  bt_last_error :: "str option"
  bt_step_count :: nat

record conversation_thread_view =
  tv_thread :: conversation_thread
  tv_context :: "conversation_context option"
  tv_children :: "str list"

record account_alert =
  al_id :: str
  al_account_id :: str
  al_account_label :: str
  al_kind :: str
  al_severity :: str
  al_happened_at :: instant
  al_quota_headroom :: "f64 option"
  al_cooldown_level :: nat
  al_status :: managed_account_status
  al_reason :: "str option"

record topology_node =
  tp_name :: str
  tp_purpose :: str
  tp_hot_path :: bool
  tp_port :: u16

record dashboard_counts =
  dc_tenants :: nat
  dc_accounts :: nat
  dc_users :: nat
  dc_active_leases :: nat
  dc_warp_accounts :: nat
  dc_browser_tasks :: nat

record account_summary =
  as_id :: str
  as_tenant_id :: uuid
  as_label :: str
  as_models :: "str list"
  as_current_mode :: route_mode
  as_route_mode :: route_mode
  as_cooldown_level :: nat
  as_cooldown_until :: "instant option"
  as_direct_cf_streak :: u32
  as_warp_cf_streak :: u32
  as_success_streak :: u32
  as_quota_headroom :: f64
  as_quota_headroom_5h :: f64
  as_quota_headroom_7d :: f64
  as_near_quota_guard_enabled :: bool
  as_health_score :: f64
  as_egress_stability :: f64
  as_inflight :: u32
  as_capacity :: u32
  as_has_credential :: bool
  as_base_url :: "str option"
  as_chatgpt_account_id :: "str option"
  as_auth_mode :: "str option"
  as_chatgpt_email :: "str option"
  as_plan_type :: "str option"
  as_workspace_role :: "str option"
  as_is_workspace_owner :: "bool option"
  as_status :: managed_account_status
  as_status_reason :: "str option"
  as_last_error :: "str option"
  as_rate_limits :: "managed_rate_limit_snapshot option"
  as_rate_limits_by_limit_id :: "(str \<times> managed_rate_limit_snapshot) list"
  as_managed_state_refreshed_at :: "instant option"
  as_availability_state :: availability_state
  as_availability_reason :: "str option"
  as_availability_reset_at :: "instant option"
  as_egress_group :: str
  as_proxy_enabled :: bool

record openai_login_session_view =
  lv_login_id :: str
  lv_tenant_id :: uuid
  lv_label :: "str option"
  lv_note :: "str option"
  lv_redirect_uri :: str
  lv_auth_url :: str
  lv_status :: str
  lv_error :: "app_error option"
  lv_imported_account_id :: "str option"
  lv_imported_account_label :: "str option"
  lv_created_at :: instant
  lv_updated_at :: instant

record egress_slot =
  eg_id :: str
  eg_route_mode :: route_mode
  eg_configured :: bool
  eg_upstream_proxy_url_preview :: "str option"
  eg_browser_proxy_url_preview :: "str option"

record gateway_api_key_view =
  kv_id :: uuid
  kv_tenant_id :: uuid
  kv_name :: str
  kv_email :: str
  kv_role :: gateway_user_role
  kv_token_preview :: str
  kv_default_model :: "str option"
  kv_reasoning_effort :: "str option"
  kv_force_model_override :: bool
  kv_force_reasoning_effort :: bool
  kv_created_at :: instant
  kv_updated_at :: instant

record created_gateway_api_key =
  ck_id :: uuid
  ck_tenant_id :: uuid
  ck_name :: str
  ck_email :: str
  ck_role :: gateway_user_role
  ck_token :: str
  ck_default_model :: "str option"
  ck_reasoning_effort :: "str option"
  ck_force_model_override :: bool
  ck_force_reasoning_effort :: bool
  ck_created_at :: instant
  ck_updated_at :: instant

record billing_summary =
  bs_total_spend_usd :: f64
  bs_total_requests :: nat
  bs_total_input_tokens :: u64
  bs_total_cached_input_tokens :: u64
  bs_total_output_tokens :: u64
  bs_total_tokens :: u64
  bs_priced_requests :: nat

record gateway_user_view =
  uv_id :: uuid
  uv_tenant_id :: uuid
  uv_name :: str
  uv_email :: str
  uv_role :: gateway_user_role
  uv_token_preview :: str
  uv_token :: str
  uv_default_model :: "str option"
  uv_reasoning_effort :: "str option"
  uv_force_model_override :: bool
  uv_force_reasoning_effort :: bool
  uv_request_count :: nat
  uv_estimated_spend_usd :: f64
  uv_last_used_at :: "instant option"
  uv_created_at :: instant
  uv_updated_at :: instant

record created_gateway_user =
  cu_user :: gateway_user_view
  cu_token :: str

record dashboard_snapshot =
  ds_title :: str
  ds_subtitle :: str
  ds_refreshed_at :: instant
  ds_topology :: "topology_node list"
  ds_cache_metrics :: cache_metrics
  ds_accounts :: "account_summary list"
  ds_leases :: "cli_lease list"
  ds_account_alerts :: "account_alert list"
  ds_cf_incidents :: "cf_incident list"
  ds_browser_tasks :: "browser_task list"
  ds_users :: "gateway_user_view list"
  ds_request_logs :: "request_log_entry list"
  ds_billing :: billing_summary
  ds_model_catalog :: "str list"
  ds_counts :: dashboard_counts

record dashboard_live_snapshot =
  dl_refreshed_at :: instant
  dl_cache_metrics :: cache_metrics
  dl_accounts :: "account_summary list"
  dl_leases :: "cli_lease list"
  dl_account_alerts :: "account_alert list"
  dl_request_logs :: "request_log_entry list"
  dl_billing :: billing_summary

record account_cleanup_result =
  cl_scanned :: nat
  cl_deleted :: nat
  cl_skipped_not_banned :: nat
  cl_deleted_account_ids :: "str list"

end
