(* ===== verification/Cf_State.thy ===== *)
theory Cf_State
  imports Models
begin

text \<open>
  The direct/warp/cooldown state machine of one account, \<open>scheduler/cf_state.rs\<close>: the three
  updates of an \<open>AccountRouteState\<close>, the invariant every reachable state of the machine keeps, and
  the machine itself as a step relation over Cloudflare hits, successes and clock reconciliation.
\<close>

definition COOLDOWN_STEPS_SECONDS :: "int list" where
  "COOLDOWN_STEPS_SECONDS = [5, 60, 300, 600, 900, 1800, 3600, 43200]"

definition WARP_EJECTION_HOURS :: int where
  "WARP_EJECTION_HOURS = 72"

record cf_outcome =
  switched_to_warp :: bool
  failover_required :: bool

text \<open>
  \<open>COOLDOWN_STEPS_SECONDS[level]\<close> panics out of range; the level is clamped to the last index
  first, so the read is in range (lemma \<open>cooldown_level_in_range\<close>).
\<close>

definition register_cf_hit ::
  "account_route_state \<Rightarrow> route_mode \<Rightarrow> instant \<Rightarrow> account_route_state \<times> cf_outcome" where
  "register_cf_hit s0 mode now =
    (let s = s0\<lparr>rs_last_cf_at := Some now, rs_success_streak := 0\<rparr> in
     case mode of
       Direct \<Rightarrow>
         (let s = s\<lparr>rs_direct_cf_streak := rs_direct_cf_streak s + 1\<rparr> in
          if 3 \<le> rs_direct_cf_streak s then
            (s\<lparr>rs_route_mode := Warp, rs_direct_cf_streak := 0, rs_warp_entered_at := Some now\<rparr>,
             \<lparr>switched_to_warp = True, failover_required = False\<rparr>)
          else (s, \<lparr>switched_to_warp = False, failover_required = False\<rparr>))
     | Warp \<Rightarrow>
         (let s = s\<lparr>rs_warp_cf_streak := rs_warp_cf_streak s + 1\<rparr>;
              level = min (rs_cooldown_level s + 1) (length COOLDOWN_STEPS_SECONDS - 1);
              s = s\<lparr>rs_cooldown_level := level,
                    rs_cooldown_until := Some (now + secs (COOLDOWN_STEPS_SECONDS ! level))\<rparr>
          in (s, \<lparr>switched_to_warp = False, failover_required = True\<rparr>)))"

text \<open>The ejection that \<open>register_success\<close> and \<open>reconcile_route_mode\<close> both spell out.\<close>

definition reconcile_route_mode :: "account_route_state \<Rightarrow> instant \<Rightarrow> account_route_state" where
  "reconcile_route_mode s now =
    (case rs_warp_entered_at s of
       None \<Rightarrow> s
     | Some warp_entered_at \<Rightarrow>
         if now - warp_entered_at \<ge> hours WARP_EJECTION_HOURS then
           s\<lparr>rs_route_mode := Direct, rs_warp_entered_at := None,
             rs_warp_cf_streak := 0, rs_direct_cf_streak := 0\<rparr>
         else s)"

definition register_success :: "account_route_state \<Rightarrow> instant \<Rightarrow> account_route_state" where
  "register_success s0 now =
    (let s = s0\<lparr>rs_success_streak := rs_success_streak s0 + 1, rs_last_success_at := Some now\<rparr>;
         s = (if 20 \<le> rs_success_streak s \<and> 0 < rs_cooldown_level s
              then s\<lparr>rs_cooldown_level := rs_cooldown_level s - 1\<rparr> else s)
     in case rs_warp_entered_at s of
          None \<Rightarrow> s
        | Some warp_entered_at \<Rightarrow>
            if now - warp_entered_at \<ge> hours WARP_EJECTION_HOURS then
              s\<lparr>rs_route_mode := Direct, rs_warp_entered_at := None,
                rs_warp_cf_streak := 0, rs_direct_cf_streak := 0\<rparr>
            else s)"

definition is_in_cooldown :: "account_route_state \<Rightarrow> instant \<Rightarrow> bool" where
  "is_in_cooldown s now =
    (case rs_cooldown_until s of None \<Rightarrow> False | Some until \<Rightarrow> until > now)"

text \<open>The route state of a freshly imported account (\<open>import_account\<close> writes it out in full).\<close>

definition fresh_route_state :: "str \<Rightarrow> account_route_state" where
  "fresh_route_state account_id =
    \<lparr>rs_account_id = account_id, rs_route_mode = Direct, rs_direct_cf_streak = 0,
     rs_warp_cf_streak = 0, rs_cooldown_level = 0, rs_cooldown_until = None,
     rs_cooldown_reason = None, rs_warp_entered_at = None, rs_last_cf_at = None,
     rs_success_streak = 0, rs_last_success_at = None\<rparr>"

subsection \<open>The invariant\<close>

text \<open>
  The cooldown level indexes the step table; fewer than three direct hits are pending; an account
  is in warp mode exactly while the instant it entered warp is recorded.
\<close>

definition cf_inv :: "account_route_state \<Rightarrow> bool" where
  "cf_inv s \<longleftrightarrow> rs_cooldown_level s < length COOLDOWN_STEPS_SECONDS
     \<and> rs_direct_cf_streak s < 3
     \<and> (rs_route_mode s = Warp \<longleftrightarrow> rs_warp_entered_at s \<noteq> None)"

lemma length_steps [simp]: "length COOLDOWN_STEPS_SECONDS = 8"
  by (simp add: COOLDOWN_STEPS_SECONDS_def)

lemma cooldown_level_in_range:
  "min (l + 1) (length COOLDOWN_STEPS_SECONDS - 1) < length COOLDOWN_STEPS_SECONDS"
  by simp

lemma cf_inv_fresh [inv_intros]: "cf_inv (fresh_route_state i)"
  by (simp add: cf_inv_def fresh_route_state_def)

lemma cf_inv_hit [inv_intros]: "cf_inv s \<Longrightarrow> cf_inv (fst (register_cf_hit s mode now))"
  by (cases mode) (auto simp: cf_inv_def register_cf_hit_def Let_def not_le)

lemma cf_inv_success [inv_intros]: "cf_inv s \<Longrightarrow> cf_inv (register_success s now)"
  by (auto simp: cf_inv_def register_success_def Let_def split: option.splits)

lemma cf_inv_reconcile [inv_intros]: "cf_inv s \<Longrightarrow> cf_inv (reconcile_route_mode s now)"
  by (auto simp: cf_inv_def reconcile_route_mode_def split: option.splits)

subsection \<open>Frame facts\<close>

lemma reconcile_frame [simp]:
  "rs_account_id (reconcile_route_mode s now) = rs_account_id s"
  "rs_cooldown_until (reconcile_route_mode s now) = rs_cooldown_until s"
  "rs_cooldown_reason (reconcile_route_mode s now) = rs_cooldown_reason s"
  "rs_cooldown_level (reconcile_route_mode s now) = rs_cooldown_level s"
  by (auto simp: reconcile_route_mode_def split: option.splits)

lemma hit_frame [simp]:
  "rs_account_id (fst (register_cf_hit s mode now)) = rs_account_id s"
  "rs_cooldown_reason (fst (register_cf_hit s mode now)) = rs_cooldown_reason s"
  by (cases mode; simp add: register_cf_hit_def Let_def)+

lemma success_frame [simp]:
  "rs_account_id (register_success s now) = rs_account_id s"
  "rs_cooldown_until (register_success s now) = rs_cooldown_until s"
  by (auto simp: register_success_def Let_def split: option.splits)

lemma reconcile_idem [simp]: "reconcile_route_mode (reconcile_route_mode s now) now = reconcile_route_mode s now"
  by (auto simp: reconcile_route_mode_def split: option.splits)

text \<open>Reconciling is a no-op unless the account has been in warp for 72 hours.\<close>

lemma reconcile_changed_mode:
  "rs_route_mode (reconcile_route_mode s now) \<noteq> rs_route_mode s \<Longrightarrow>
     rs_route_mode (reconcile_route_mode s now) = Direct"
  by (auto simp: reconcile_route_mode_def split: option.splits if_splits)

lemma cooldown_frame [simp]:
  "is_in_cooldown (reconcile_route_mode s now) t = is_in_cooldown s t"
  by (simp add: is_in_cooldown_def)

subsection \<open>Warp hits escalate along the step table\<close>

lemma warp_hit_level:
  "rs_cooldown_level (fst (register_cf_hit s Warp now)) = min (rs_cooldown_level s + 1) 7"
  by (simp add: register_cf_hit_def Let_def)

lemma warp_hit_cooldown:
  "rs_cooldown_until (fst (register_cf_hit s Warp now)) =
     Some (now + secs (COOLDOWN_STEPS_SECONDS ! min (rs_cooldown_level s + 1) 7))"
  by (simp add: register_cf_hit_def Let_def)

text \<open>A run of warp hits at the instants of a list.\<close>

definition warp_hits :: "account_route_state \<Rightarrow> instant list \<Rightarrow> account_route_state" where
  "warp_hits s ts = fold (\<lambda>t s. fst (register_cf_hit s Warp t)) ts s"

lemma warp_hits_level: "rs_cooldown_level s \<le> 7 \<Longrightarrow>
  rs_cooldown_level (warp_hits s ts) = min (rs_cooldown_level s + length ts) 7"
proof (induction ts rule: rev_induct)
  case (snoc t ts)
  then show ?case by (simp add: warp_hits_def warp_hit_level)
qed (simp add: warp_hits_def)

lemma warp_hits_cooldown:
  assumes "rs_cooldown_level s \<le> 7"
  shows "rs_cooldown_until (warp_hits s (ts @ [t])) =
    Some (t + secs (COOLDOWN_STEPS_SECONDS ! min (rs_cooldown_level s + length ts + 1) 7))"
proof -
  have "warp_hits s (ts @ [t]) = fst (register_cf_hit (warp_hits s ts) Warp t)"
    by (simp add: warp_hits_def)
  moreover have "min (min a 7 + 1) 7 = min (a + 1) (7::nat)" for a by simp
  ultimately show ?thesis
    by (simp add: warp_hit_cooldown warp_hits_level [OF assms])
qed

lemma steps_increasing: "i < j \<Longrightarrow> j < 8 \<Longrightarrow> COOLDOWN_STEPS_SECONDS ! i < COOLDOWN_STEPS_SECONDS ! j"
proof -
  have "sorted_wrt (<) COOLDOWN_STEPS_SECONDS" by (simp add: COOLDOWN_STEPS_SECONDS_def)
  then show "i < j \<Longrightarrow> j < 8 \<Longrightarrow> ?thesis" by (simp add: sorted_wrt_iff_nth_less)
qed

lemma steps_bounds: "l < 8 \<Longrightarrow> 5 \<le> COOLDOWN_STEPS_SECONDS ! l \<and> COOLDOWN_STEPS_SECONDS ! l \<le> 43200"
  using steps_increasing [of 0 l] steps_increasing [of l 7]
  by (cases "l = 0"; cases "l = 7") (auto simp: COOLDOWN_STEPS_SECONDS_def)

subsection \<open>The machine\<close>

datatype cf_event = CfHit route_mode | CfSuccess | CfReconcile

fun cf_apply :: "account_route_state \<Rightarrow> cf_event \<Rightarrow> instant \<Rightarrow> account_route_state" where
  "cf_apply s (CfHit mode) now = fst (register_cf_hit s mode now)"
| "cf_apply s CfSuccess now = register_success s now"
| "cf_apply s CfReconcile now = reconcile_route_mode s now"

text \<open>Configurations carry the clock, which never goes back.\<close>

inductive cf_step :: "instant \<times> account_route_state \<Rightarrow> cf_event \<Rightarrow> instant \<times> account_route_state \<Rightarrow> bool" where
  "t \<le> now \<Longrightarrow> cf_step (t, s) e (now, cf_apply s e now)"

inductive_simps cf_step_simps: "cf_step (t, s) e c"

inductive cf_reachable :: "instant \<times> account_route_state \<Rightarrow> bool" where
  init: "cf_reachable (t, fresh_route_state i)"
| step: "cf_reachable c \<Longrightarrow> cf_step c e c' \<Longrightarrow> cf_reachable c'"

lemma cf_apply_inv: "cf_inv s \<Longrightarrow> cf_inv (cf_apply s e now)"
  by (cases e) (simp_all add: inv_intros)

text \<open>
  Beside \<open>cf_inv\<close>, the recorded instants never lie in the future and a cooldown never outlasts the
  longest step.
\<close>

definition cf_clock_inv :: "instant \<Rightarrow> account_route_state \<Rightarrow> bool" where
  "cf_clock_inv now s \<longleftrightarrow>
     (case rs_warp_entered_at s of None \<Rightarrow> True | Some t \<Rightarrow> t \<le> now)
   \<and> (case rs_cooldown_until s of None \<Rightarrow> True | Some u \<Rightarrow> u \<le> now + secs 43200)"

lemma cf_clock_fresh: "cf_clock_inv t (fresh_route_state i)"
  by (simp add: cf_clock_inv_def fresh_route_state_def)

lemma cf_clock_apply:
  assumes "cf_inv s" "cf_clock_inv t s" "t \<le> now"
  shows "cf_clock_inv now (cf_apply s e now)"
proof (cases e)
  case (CfHit mode)
  have "COOLDOWN_STEPS_SECONDS ! min (rs_cooldown_level s + 1) 7 \<le> 43200"
    using steps_bounds [of "min (rs_cooldown_level s + 1) 7"] by simp
  with CfHit assms show ?thesis
    by (cases mode) (auto simp: cf_clock_inv_def register_cf_hit_def Let_def split: option.splits)
next
  case CfSuccess
  with assms show ?thesis
    by (auto simp: cf_clock_inv_def register_success_def Let_def split: option.splits)
next
  case CfReconcile
  with assms show ?thesis
    by (auto simp: cf_clock_inv_def reconcile_route_mode_def split: option.splits)
qed

lemma cf_reachable_inv: "cf_reachable c \<Longrightarrow> cf_inv (snd c) \<and> cf_clock_inv (fst c) (snd c)"
proof (induction rule: cf_reachable.induct)
  case (init t i)
  show ?case by (simp add: cf_inv_fresh cf_clock_fresh)
next
  case (step c e c')
  then show ?case
    by (cases c) (auto simp: cf_step_simps cf_apply_inv cf_clock_apply)
qed

end
