(* ===== verification/Runtime.thy ===== *)
theory Runtime
  imports Hash_Table Requests Views Cf_State
begin

text \<open>
  The state of a server instance: \<open>RuntimeState\<close> and \<open>AppState\<close> (\<open>state.rs\<close>), the \<open>Config\<close>
  it was started with (\<open>config.rs\<close>), the messages it sends (\<open>storage.rs\<close>) and the operations that
  send them. The two channels are the lists of the messages sent so far; a send whose receiver is
  gone is ignored by the code and does not arise here. Tasks handed to the browser sidecar
  (\<open>browser_assist::spawn_recover\<close>) are recorded in \<open>ap_recover_tasks\<close>.
\<close>

subsection \<open>Configuration\<close>

datatype ip_addr = V4 u32 | V6 "128 word"

record config =
  cf_bind_addr :: ip_addr
  cf_data_port :: u16
  cf_admin_port :: u16
  cf_max_data_plane_body_bytes :: nat
  cf_postgres_url :: str
  cf_redis_url :: str
  cf_redis_channel :: str
  cf_instance_id :: str
  cf_browser_assist_url :: str
  cf_heartbeat_seconds :: u64
  cf_enable_demo_seed :: bool
  cf_account_encryption_key :: "str option"
  cf_direct_proxy_url :: "str option"
  cf_warp_proxy_url :: "str option"
  cf_browser_assist_direct_proxy_url :: "str option"
  cf_browser_assist_warp_proxy_url :: "str option"

subsection \<open>Messages\<close>

datatype persistence_message =
    TenantUpsert tenant
  | ApiKeyUpsert gateway_api_key
  | AccountUpsert upstream_account
  | AccountDelete str
  | CredentialUpsert upstream_credential
  | RouteStateUpsert account_route_state
  | LeaseUpsert cli_lease
  | LeaseDelete str
  | IncidentInsert cf_incident
  | ConversationContextUpsert conversation_context
  | ConversationThreadUpsert conversation_thread
  | ThreadEdgeUpsert thread_edge
  | CacheMetricsUpsert cache_metrics
  | RequestLogInsert request_log_entry

fun message_kind :: "persistence_message \<Rightarrow> str" where
  "message_kind (TenantUpsert _) = ''tenant_upsert''"
| "message_kind (ApiKeyUpsert _) = ''api_key_upsert''"
| "message_kind (AccountUpsert _) = ''account_upsert''"
| "message_kind (AccountDelete _) = ''account_delete''"
| "message_kind (CredentialUpsert _) = ''credential_upsert''"
| "message_kind (RouteStateUpsert _) = ''route_state_upsert''"
| "message_kind (LeaseUpsert _) = ''lease_upsert''"
| "message_kind (LeaseDelete _) = ''lease_delete''"
| "message_kind (IncidentInsert _) = ''incident_insert''"
| "message_kind (ConversationContextUpsert _) = ''conversation_context_upsert''"
| "message_kind (ConversationThreadUpsert _) = ''conversation_thread_upsert''"
| "message_kind (ThreadEdgeUpsert _) = ''thread_edge_upsert''"
| "message_kind (CacheMetricsUpsert _) = ''cache_metrics_upsert''"
| "message_kind (RequestLogInsert _) = ''request_log_insert''"

record persistence_snapshot =
  sn_tenants :: "tenant list"
  sn_api_keys :: "gateway_api_key list"
  sn_accounts :: "upstream_account list"
  sn_credentials :: "upstream_credential list"
  sn_route_states :: "account_route_state list"
  sn_leases :: "cli_lease list"
  sn_cf_incidents :: "cf_incident list"
  sn_conversation_contexts :: "conversation_context list"
  sn_conversation_threads :: "conversation_thread list"
  sn_thread_edges :: "thread_edge list"
  sn_cache_metrics :: "cache_metrics option"
  sn_request_logs :: "request_log_entry list"

definition has_data :: "persistence_snapshot \<Rightarrow> bool" where
  "has_data s \<longleftrightarrow> sn_tenants s \<noteq> [] \<or> sn_api_keys s \<noteq> [] \<or> sn_accounts s \<noteq> []
     \<or> sn_credentials s \<noteq> [] \<or> sn_route_states s \<noteq> [] \<or> sn_leases s \<noteq> []
     \<or> sn_cf_incidents s \<noteq> [] \<or> sn_conversation_contexts s \<noteq> []
     \<or> sn_conversation_threads s \<noteq> [] \<or> sn_thread_edges s \<noteq> [] \<or> sn_request_logs s \<noteq> []"

subsection \<open>Runtime state\<close>

record openai_login_session_state =
  lg_login_id :: str
  lg_tenant_id :: uuid
  lg_label :: "str option"
  lg_note :: "str option"
  lg_redirect_uri :: str
  lg_auth_url :: str
  lg_code_verifier :: str
  lg_status :: str
  lg_error :: "app_error option"
  lg_imported_account_id :: "str option"
  lg_imported_account_label :: "str option"
  lg_models :: "str list"
  lg_base_url :: str
  lg_created_at :: instant
  lg_updated_at :: instant

record codex_app_session_state =
  cs_tenant_id :: uuid
  cs_account_id :: str
  cs_expires_at :: instant

text \<open>
  \<open>execution_gates\<close> holds shared references to semaphores: a gate is the index of its semaphore in
  \<open>rt_semaphores\<close>, the store of the permits each has available.
\<close>

record runtime_state =
  rt_tenants :: "(uuid, tenant) hmap"
  rt_api_keys :: "(str, gateway_api_key) hmap"
  rt_accounts :: "(str, upstream_account) hmap"
  rt_credentials :: "(str, upstream_credential) hmap"
  rt_route_states :: "(str, account_route_state) hmap"
  rt_leases :: "(str, cli_lease) hmap"
  rt_cf_incidents :: "cf_incident list"
  rt_cache_metrics :: cache_metrics
  rt_conversation_contexts :: "(str, conversation_context) hmap"
  rt_conversation_threads :: "(str, conversation_thread) hmap"
  rt_thread_edges :: "thread_edge list"
  rt_request_logs :: "request_log_entry list"
  rt_openai_login_sessions :: "(str, openai_login_session_state) hmap"
  rt_codex_app_sessions :: "(str, codex_app_session_state) hmap"
  rt_execution_gates :: "(str, nat) hmap"
  rt_semaphores :: "nat list"
  rt_execution_inflight :: "(str, u32) hmap"
  rt_ephemeral_refresh_tokens :: "(str, str) hmap"

record browser_task_payload =
  pl_account_id :: "str option"
  pl_notes :: "str option"
  pl_login_url :: "str option"
  pl_headless :: "bool option"
  pl_provider :: "str option"
  pl_email :: "str option"
  pl_password :: "str option"
  pl_otp_code :: "str option"
  pl_route_mode :: "route_mode option"

record app_state =
  ap_config :: config
  ap_runtime :: runtime_state
  ap_writer_tx :: "persistence_message list"
  ap_bus_tx :: "persistence_message list option"
  ap_recover_tasks :: "(str \<times> browser_task_payload) list"

definition default_cache_metrics :: cache_metrics where
  "default_cache_metrics = \<lparr>cm_cached_tokens = 0, cm_replay_tokens = 0, cm_prefix_hit_ratio = Fin 0,
     cm_request_hit_ratio = Fin 0, cm_token_hit_ratio = Fin 0, cm_warmup_roi = Fin 0,
     cm_static_prefix_tokens = 0\<rparr>"

text \<open>\<open>RuntimeState { cache_metrics: default_cache_metrics(), ..RuntimeState::default() }\<close>.\<close>

definition initial_runtime :: runtime_state where
  "initial_runtime = \<lparr>rt_tenants = [], rt_api_keys = [], rt_accounts = [], rt_credentials = [],
     rt_route_states = [], rt_leases = [], rt_cf_incidents = [],
     rt_cache_metrics = default_cache_metrics, rt_conversation_contexts = [],
     rt_conversation_threads = [], rt_thread_edges = [], rt_request_logs = [],
     rt_openai_login_sessions = [], rt_codex_app_sessions = [], rt_execution_gates = [],
     rt_semaphores = [], rt_execution_inflight = [], rt_ephemeral_refresh_tokens = []\<rparr>"

text \<open>An operation on the tables alone, lifted to the instance.\<close>

definition on_runtime :: "(runtime_state \<Rightarrow> runtime_state) \<Rightarrow> app_state \<Rightarrow> app_state" where
  "on_runtime f app = app\<lparr>ap_runtime := f (ap_runtime app)\<rparr>"

definition enqueue :: "persistence_message \<Rightarrow> app_state \<Rightarrow> app_state" where
  "enqueue message app = app\<lparr>ap_writer_tx := ap_writer_tx app @ [message],
     ap_bus_tx := map_option (\<lambda>sent. sent @ [message]) (ap_bus_tx app)\<rparr>"

definition enqueue_many :: "persistence_message list \<Rightarrow> app_state \<Rightarrow> app_state" where
  "enqueue_many messages app = fold enqueue messages app"

definition spawn_recover :: "str \<Rightarrow> browser_task_payload \<Rightarrow> app_state \<Rightarrow> app_state" where
  "spawn_recover url payload app = app\<lparr>ap_recover_tasks := ap_recover_tasks app @ [(url, payload)]\<rparr>"

named_theorems app_simps \<open>frame equations of the primitive steps of an instance\<close>

lemma on_runtime_frame [simp, app_simps]:
  "ap_runtime (on_runtime f app) = f (ap_runtime app)"
  "ap_config (on_runtime f app) = ap_config app"
  "ap_writer_tx (on_runtime f app) = ap_writer_tx app"
  "ap_bus_tx (on_runtime f app) = ap_bus_tx app"
  "ap_recover_tasks (on_runtime f app) = ap_recover_tasks app"
  by (simp_all add: on_runtime_def)

lemma enqueue_frame [simp, app_simps]:
  "ap_runtime (enqueue m app) = ap_runtime app"
  "ap_config (enqueue m app) = ap_config app"
  "ap_writer_tx (enqueue m app) = ap_writer_tx app @ [m]"
  "ap_recover_tasks (enqueue m app) = ap_recover_tasks app"
  "ap_bus_tx (enqueue m app) = map_option (\<lambda>sent. sent @ [m]) (ap_bus_tx app)"
  by (simp_all add: enqueue_def)

lemma enqueue_many_frame [simp, app_simps]:
  "ap_runtime (enqueue_many ms app) = ap_runtime app"
  "ap_config (enqueue_many ms app) = ap_config app"
  "ap_writer_tx (enqueue_many ms app) = ap_writer_tx app @ ms"
  "ap_recover_tasks (enqueue_many ms app) = ap_recover_tasks app"
  "ap_bus_tx (enqueue_many ms app) = map_option (\<lambda>sent. sent @ ms) (ap_bus_tx app)"
  by (induction ms arbitrary: app) (simp_all add: enqueue_many_def option.map_comp o_def option.map_ident)

lemma spawn_recover_frame [simp, app_simps]:
  "ap_runtime (spawn_recover u p app) = ap_runtime app"
  "ap_config (spawn_recover u p app) = ap_config app"
  "ap_writer_tx (spawn_recover u p app) = ap_writer_tx app"
  "ap_bus_tx (spawn_recover u p app) = ap_bus_tx app"
  "ap_recover_tasks (spawn_recover u p app) = ap_recover_tasks app @ [(u, p)]"
  by (simp_all add: spawn_recover_def)

subsection \<open>Table invariant\<close>

text \<open>
  Every table is a proper hash table, and those whose values carry their key store each value under
  it; the two history lists respect the capacity the code truncates them to.
\<close>

definition INCIDENT_CAP :: nat where "INCIDENT_CAP = 128"

definition REQUEST_LOG_CAP :: nat where "REQUEST_LOG_CAP = 512"

definition rt_inv :: "runtime_state \<Rightarrow> bool" where
  "rt_inv rt \<longleftrightarrow>
     hm_keyed tn_id (rt_tenants rt)
   \<and> hm_keyed ak_token (rt_api_keys rt)
   \<and> hm_keyed ac_id (rt_accounts rt)
   \<and> hm_keyed cr_account_id (rt_credentials rt)
   \<and> hm_keyed rs_account_id (rt_route_states rt)
   \<and> hm_keyed ls_principal_id (rt_leases rt)
   \<and> hm_keyed cc_principal_id (rt_conversation_contexts rt)
   \<and> hm_keyed th_thread_id (rt_conversation_threads rt)
   \<and> hm_wf (rt_openai_login_sessions rt) \<and> hm_wf (rt_codex_app_sessions rt)
   \<and> hm_wf (rt_execution_gates rt) \<and> hm_wf (rt_execution_inflight rt)
   \<and> hm_wf (rt_ephemeral_refresh_tokens rt)
   \<and> length (rt_cf_incidents rt) \<le> INCIDENT_CAP
   \<and> length (rt_request_logs rt) \<le> REQUEST_LOG_CAP"

lemma rt_inv_initial [inv_intros]: "rt_inv initial_runtime"
  by (simp add: rt_inv_def initial_runtime_def)

lemma rt_invD:
  assumes "rt_inv rt"
  shows "hm_keyed tn_id (rt_tenants rt)" "hm_keyed ak_token (rt_api_keys rt)"
    "hm_keyed ac_id (rt_accounts rt)" "hm_keyed cr_account_id (rt_credentials rt)"
    "hm_keyed rs_account_id (rt_route_states rt)" "hm_keyed ls_principal_id (rt_leases rt)"
    "hm_keyed cc_principal_id (rt_conversation_contexts rt)"
    "hm_keyed th_thread_id (rt_conversation_threads rt)"
  using assms by (simp_all add: rt_inv_def)

end
