(* ===== verification/Bus.thy ===== *)
theory Bus
  imports Runtime
begin

text \<open>
  The receiving side of the distributed bus, \<open>bus.rs\<close>: what a peer does with each message. The
  capped histories are a locale (insert at the front, drop the overflow), interpreted for the
  incidents and the request logs; so is the contract of a message handler whose messages may be
  delivered twice, interpreted on \<open>apply_message\<close>.
\<close>

subsection \<open>Capped histories\<close>

text \<open>\<open>insert(0, x); truncate(cap)\<close>.\<close>

definition push_front_capped :: "nat \<Rightarrow> 'a \<Rightarrow> 'a list \<Rightarrow> 'a list" where
  "push_front_capped cap x xs = take cap (x # xs)"

text \<open>The variant of the bus: an entry whose id is already present is ignored.\<close>

definition push_unique_capped :: "('a \<Rightarrow> 'k) \<Rightarrow> nat \<Rightarrow> 'a \<Rightarrow> 'a list \<Rightarrow> 'a list" where
  "push_unique_capped key cap x xs =
     (if list_ex (\<lambda>y. key y = key x) xs then xs else push_front_capped cap x xs)"

locale capped_history =
  fixes push :: "'a \<Rightarrow> 'a list \<Rightarrow> 'a list"
    and cap :: nat
  assumes push_cap: "length xs \<le> cap \<Longrightarrow> length (push x xs) \<le> cap"
    and push_set: "set (push x xs) \<subseteq> insert x (set xs)"
begin

lemma push_all_cap: "length xs \<le> cap \<Longrightarrow> length (fold push ys xs) \<le> cap"
  by (induction ys arbitrary: xs) (auto simp: push_cap)

lemma push_all_set: "set (fold push ys xs) \<subseteq> set ys \<union> set xs"
proof (induction ys arbitrary: xs)
  case (Cons y ys)
  have "set (fold push ys (push y xs)) \<subseteq> set ys \<union> set (push y xs)" by (rule Cons)
  with push_set [of y xs] show ?case by auto
qed simp

end

lemma length_push_front_capped [simp]: "length (push_front_capped cap x xs) \<le> cap"
  by (simp add: push_front_capped_def)

lemma set_push_front_capped: "set (push_front_capped cap x xs) \<subseteq> insert x (set xs)"
  unfolding push_front_capped_def by (metis list.simps(15) set_take_subset)

interpretation incidents: capped_history "push_front_capped INCIDENT_CAP" INCIDENT_CAP
  by unfold_locales (simp_all add: set_push_front_capped)

interpretation request_logs: capped_history "push_front_capped REQUEST_LOG_CAP" REQUEST_LOG_CAP
  by unfold_locales (simp_all add: set_push_front_capped)

interpretation bus_incidents: capped_history "push_unique_capped ci_id INCIDENT_CAP" INCIDENT_CAP
  by unfold_locales (auto simp: push_unique_capped_def dest: subsetD [OF set_push_front_capped])

interpretation bus_request_logs: capped_history "push_unique_capped re_id REQUEST_LOG_CAP" REQUEST_LOG_CAP
  by unfold_locales (auto simp: push_unique_capped_def dest: subsetD [OF set_push_front_capped])

lemma push_unique_twice:
  "0 < cap \<Longrightarrow> push_unique_capped key cap x (push_unique_capped key cap x xs) = push_unique_capped key cap x xs"
  by (cases cap) (auto simp: push_unique_capped_def push_front_capped_def)

lemma push_unique_fresh:
  "key x \<notin> key ` set xs \<Longrightarrow> push_unique_capped key cap x xs = push_front_capped cap x xs"
  by (auto simp: push_unique_capped_def list_ex_iff image_iff)

subsection \<open>Handlers\<close>

definition upsert_tenant :: "tenant \<Rightarrow> runtime_state \<Rightarrow> runtime_state" where
  "upsert_tenant tenant rt = rt\<lparr>rt_tenants := hm_insert (tn_id tenant) tenant (rt_tenants rt)\<rparr>"

definition upsert_api_key :: "gateway_api_key \<Rightarrow> runtime_state \<Rightarrow> runtime_state" where
  "upsert_api_key api_key rt =
     rt\<lparr>rt_api_keys := hm_insert (ak_token api_key) api_key (rt_api_keys rt)\<rparr>"

definition upsert_account :: "upstream_account \<Rightarrow> runtime_state \<Rightarrow> runtime_state" where
  "upsert_account account rt = rt\<lparr>rt_accounts := hm_insert (ac_id account) account (rt_accounts rt)\<rparr>"

definition bus_delete_account :: "str \<Rightarrow> runtime_state \<Rightarrow> runtime_state" where
  "bus_delete_account account_id rt = rt\<lparr>
     rt_accounts := hm_remove account_id (rt_accounts rt),
     rt_credentials := hm_remove account_id (rt_credentials rt),
     rt_route_states := hm_remove account_id (rt_route_states rt),
     rt_ephemeral_refresh_tokens := hm_remove account_id (rt_ephemeral_refresh_tokens rt),
     rt_codex_app_sessions := hm_retain (\<lambda>session. cs_account_id session \<noteq> account_id) (rt_codex_app_sessions rt),
     rt_leases := hm_retain (\<lambda>lease. ls_account_id lease \<noteq> account_id) (rt_leases rt),
     rt_execution_gates := hm_remove account_id (rt_execution_gates rt),
     rt_execution_inflight := hm_remove account_id (rt_execution_inflight rt)\<rparr>"

definition upsert_credential :: "upstream_credential \<Rightarrow> runtime_state \<Rightarrow> runtime_state" where
  "upsert_credential credential rt =
     rt\<lparr>rt_credentials := hm_insert (cr_account_id credential) credential (rt_credentials rt)\<rparr>"

definition upsert_route_state :: "account_route_state \<Rightarrow> runtime_state \<Rightarrow> runtime_state" where
  "upsert_route_state route_state rt =
    (let rt = rt\<lparr>rt_route_states := hm_insert (rs_account_id route_state) route_state (rt_route_states rt)\<rparr>
     in case hm_get (rt_accounts rt) (rs_account_id route_state) of
          None \<Rightarrow> rt
        | Some account \<Rightarrow> rt\<lparr>rt_accounts := hm_insert (rs_account_id route_state)
              (account\<lparr>ac_current_mode := rs_route_mode route_state\<rparr>) (rt_accounts rt)\<rparr>)"

definition upsert_lease :: "cli_lease \<Rightarrow> runtime_state \<Rightarrow> runtime_state" where
  "upsert_lease lease rt = rt\<lparr>rt_leases := hm_insert (ls_principal_id lease) lease (rt_leases rt)\<rparr>"

definition delete_lease :: "str \<Rightarrow> runtime_state \<Rightarrow> runtime_state" where
  "delete_lease principal_id rt = rt\<lparr>rt_leases := hm_remove principal_id (rt_leases rt)\<rparr>"

definition insert_incident :: "cf_incident \<Rightarrow> runtime_state \<Rightarrow> runtime_state" where
  "insert_incident incident rt =
     rt\<lparr>rt_cf_incidents := push_unique_capped ci_id INCIDENT_CAP incident (rt_cf_incidents rt)\<rparr>"

definition replace_cache_metrics :: "cache_metrics \<Rightarrow> runtime_state \<Rightarrow> runtime_state" where
  "replace_cache_metrics metrics rt = rt\<lparr>rt_cache_metrics := metrics\<rparr>"

definition upsert_conversation_context :: "conversation_context \<Rightarrow> runtime_state \<Rightarrow> runtime_state" where
  "upsert_conversation_context ctx rt =
     rt\<lparr>rt_conversation_contexts := hm_insert (cc_principal_id ctx) ctx (rt_conversation_contexts rt)\<rparr>"

definition upsert_conversation_thread :: "conversation_thread \<Rightarrow> runtime_state \<Rightarrow> runtime_state" where
  "upsert_conversation_thread thread rt =
     rt\<lparr>rt_conversation_threads := hm_insert (th_thread_id thread) thread (rt_conversation_threads rt)\<rparr>"

definition same_edge :: "thread_edge \<Rightarrow> thread_edge \<Rightarrow> bool" where
  "same_edge a b \<longleftrightarrow> te_parent_thread_id a = te_parent_thread_id b
     \<and> te_child_thread_id a = te_child_thread_id b \<and> te_relation a = te_relation b"

definition upsert_thread_edge :: "thread_edge \<Rightarrow> runtime_state \<Rightarrow> runtime_state" where
  "upsert_thread_edge edge rt =
    (if list_ex (\<lambda>existing. same_edge existing edge) (rt_thread_edges rt) then rt
     else rt\<lparr>rt_thread_edges := rt_thread_edges rt @ [edge]\<rparr>)"

definition insert_request_log :: "request_log_entry \<Rightarrow> runtime_state \<Rightarrow> runtime_state" where
  "insert_request_log entry rt =
     rt\<lparr>rt_request_logs := push_unique_capped re_id REQUEST_LOG_CAP entry (rt_request_logs rt)\<rparr>"

fun apply_message :: "persistence_message \<Rightarrow> runtime_state \<Rightarrow> runtime_state" where
  "apply_message (TenantUpsert tenant) rt = upsert_tenant tenant rt"
| "apply_message (ApiKeyUpsert api_key) rt = upsert_api_key api_key rt"
| "apply_message (AccountUpsert account) rt = upsert_account account rt"
| "apply_message (AccountDelete account_id) rt = bus_delete_account account_id rt"
| "apply_message (CredentialUpsert credential) rt = upsert_credential credential rt"
| "apply_message (RouteStateUpsert route_state) rt = upsert_route_state route_state rt"
| "apply_message (LeaseUpsert lease) rt = upsert_lease lease rt"
| "apply_message (LeaseDelete principal_id) rt = delete_lease principal_id rt"
| "apply_message (IncidentInsert incident) rt = insert_incident incident rt"
| "apply_message (ConversationContextUpsert ctx) rt = upsert_conversation_context ctx rt"
| "apply_message (ConversationThreadUpsert thread) rt = upsert_conversation_thread thread rt"
| "apply_message (ThreadEdgeUpsert edge) rt = upsert_thread_edge edge rt"
| "apply_message (CacheMetricsUpsert metrics) rt = replace_cache_metrics metrics rt"
| "apply_message (RequestLogInsert entry) rt = insert_request_log entry rt"

definition apply_messages :: "persistence_message list \<Rightarrow> runtime_state \<Rightarrow> runtime_state" where
  "apply_messages ms rt = fold apply_message ms rt"

text \<open>The envelope: an instance drops the messages it sent itself.\<close>

definition receive :: "config \<Rightarrow> str \<times> persistence_message \<Rightarrow> runtime_state \<Rightarrow> runtime_state" where
  "receive config envelope rt =
     (if fst envelope = cf_instance_id config then rt else apply_message (snd envelope) rt)"

lemmas handler_defs = upsert_tenant_def upsert_api_key_def upsert_account_def bus_delete_account_def
  upsert_credential_def upsert_route_state_def upsert_lease_def delete_lease_def insert_incident_def
  replace_cache_metrics_def upsert_conversation_context_def upsert_conversation_thread_def
  upsert_thread_edge_def insert_request_log_def

lemma apply_messages_simps [simp]:
  "apply_messages [] rt = rt"
  "apply_messages (m # ms) rt = apply_messages ms (apply_message m rt)"
  "apply_messages (ms @ ms') rt = apply_messages ms' (apply_messages ms rt)"
  by (simp_all add: apply_messages_def)

subsection \<open>Redelivery\<close>

locale redeliverable =
  fixes handle :: "'msg \<Rightarrow> 'state \<Rightarrow> 'state"
    and ok :: "'state \<Rightarrow> bool"
  assumes handle_twice: "ok s \<Longrightarrow> handle m (handle m s) = handle m s"
    and handle_ok: "ok s \<Longrightarrow> ok (handle m s)"
begin

lemma handle_all_ok: "ok s \<Longrightarrow> ok (fold handle ms s)"
  by (induction ms arbitrary: s) (auto simp: handle_ok)

text \<open>A stutter of a delivered sequence: every message handed over one or more times in a row.\<close>

lemma handle_repeat: "ok s \<Longrightarrow> (handle m ^^ Suc n) s = handle m s"
  by (induction n) (auto simp: handle_twice handle_ok)

lemma handle_stutter:
  "ok s \<Longrightarrow> (\<forall>n \<in> set ns. 0 < n) \<Longrightarrow> length ns = length ms \<Longrightarrow>
     fold handle (concat (map2 replicate ns ms)) s = fold handle ms s"
proof (induction ms arbitrary: s ns)
  case (Cons m ms)
  then obtain n ns' where ns: "ns = Suc n # ns'"
    by (cases ns; cases "hd ns") auto
  then have "fold handle (replicate (Suc n) m) s = handle m s"
    using Cons.prems handle_repeat by (simp add: fold_replicate del: replicate_Suc funpow.simps)
  with Cons ns show ?case by (simp add: handle_ok)
qed simp

end

lemma rt_inv_apply_message [inv_intros]: "rt_inv rt \<Longrightarrow> rt_inv (apply_message m rt)"
  using bus_incidents.push_cap bus_request_logs.push_cap
  by (cases m) (auto simp: handler_defs rt_inv_def Let_def split: option.splits
      intro!: hm_keyed_insert hm_keyed_remove hm_keyed_retain dest: hm_keyedD)

lemma apply_message_twice: "rt_inv rt \<Longrightarrow> apply_message m (apply_message m rt) = apply_message m rt"
  by (cases m)
    (auto simp: handler_defs Let_def push_unique_twice INCIDENT_CAP_def REQUEST_LOG_CAP_def
      same_edge_def list_ex_iff split: option.splits)

interpretation bus: redeliverable apply_message rt_inv
  by unfold_locales (simp_all add: apply_message_twice rt_inv_apply_message)

lemma rt_inv_apply_messages [inv_intros]: "rt_inv rt \<Longrightarrow> rt_inv (apply_messages ms rt)"
  unfolding apply_messages_def by (rule bus.handle_all_ok)

end
