(* ===== verification/Availability.thy ===== *)
theory Availability
  imports Runtime
begin

text \<open>
  Whether and why an account can be routed to (\<open>state.rs\<close>): the reading of its route state and
  managed credential, the account summaries and alerts of the dashboard, masks and labels.
\<close>

subsection \<open>Quota marks and availability\<close>

definition route_state_is_quota_marked :: "account_route_state \<Rightarrow> bool" where
  "route_state_is_quota_marked route_state =
    (case rs_cooldown_reason route_state of
       None \<Rightarrow> False
     | Some reason \<Rightarrow>
         (let normalized = to_ascii_lowercase (trim reason)
          in normalized = ''quota'' \<or> starts_with normalized ''quota_exhausted''
             \<or> starts_with normalized ''usage_limit''))"

definition route_state_quota_reset_at :: "account_route_state \<Rightarrow> instant \<Rightarrow> instant option" where
  "route_state_quota_reset_at route_state now =
    (if route_state_is_quota_marked route_state \<and> is_in_cooldown route_state now
     then rs_cooldown_until route_state else None)"

definition route_state_is_quota_exhausted :: "account_route_state \<Rightarrow> instant \<Rightarrow> bool" where
  "route_state_is_quota_exhausted route_state now \<longleftrightarrow>
     route_state_quota_reset_at route_state now \<noteq> None"

definition managed_status_for_selection :: "upstream_credential option \<Rightarrow> managed_account_status" where
  "managed_status_for_selection credential =
    (case Option.bind credential cr_managed_auth of None \<Rightarrow> Active | Some managed \<Rightarrow> ma_status managed)"

definition credential_is_routable_for_selection :: "upstream_credential option \<Rightarrow> bool" where
  "credential_is_routable_for_selection credential \<longleftrightarrow>
     credential \<noteq> None \<and> \<not> (managed_status_for_selection credential \<in> {Banned, Unavailable})"

definition account_availability_state ::
  "bool \<Rightarrow> account_route_state option \<Rightarrow> managed_account_status \<Rightarrow> instant \<Rightarrow> availability_state" where
  "account_availability_state has_credential route_state status now =
    (if \<not> has_credential \<or> status \<in> {Banned, Unavailable} then AvUnavailable
     else if (case route_state of None \<Rightarrow> False | Some r \<Rightarrow> route_state_is_quota_exhausted r now)
       then AvQuotaExhausted
     else if (case route_state of None \<Rightarrow> False | Some r \<Rightarrow> is_in_cooldown r now) then AvCooldown
     else AvRoutable)"

definition account_availability_reason ::
  "bool \<Rightarrow> account_route_state option \<Rightarrow> str option \<Rightarrow> instant \<Rightarrow> str option" where
  "account_availability_reason has_credential route_state managed_reason now =
    (if \<not> has_credential then Some ''missing_credential''
     else case route_state of
       None \<Rightarrow> managed_reason
     | Some r \<Rightarrow>
         if route_state_is_quota_exhausted r now then Some ''quota_exhausted''
         else if is_in_cooldown r now then
           (case rs_cooldown_reason r of Some reason \<Rightarrow> Some reason | None \<Rightarrow> Some ''cooldown'')
         else managed_reason)"

lemma quota_exhausted_iff:
  "route_state_is_quota_exhausted r now \<longleftrightarrow> route_state_is_quota_marked r \<and> is_in_cooldown r now"
  by (auto simp: route_state_is_quota_exhausted_def route_state_quota_reset_at_def is_in_cooldown_def
      split: option.splits)

lemma quota_exhausted_cooldown: "route_state_is_quota_exhausted r now \<Longrightarrow> is_in_cooldown r now"
  by (simp add: quota_exhausted_iff)

lemma quota_marked_reconcile [simp]:
  "route_state_is_quota_marked (reconcile_route_mode r t) = route_state_is_quota_marked r"
  by (simp add: route_state_is_quota_marked_def)

lemma routable_iff:
  "account_availability_state has_cred r status now = AvRoutable \<longleftrightarrow>
     has_cred \<and> status = Active \<and> (case r of None \<Rightarrow> True | Some r \<Rightarrow> \<not> is_in_cooldown r now)"
  by (cases status) (auto simp: account_availability_state_def quota_exhausted_iff split: option.splits)

subsection \<open>Masks and labels\<close>

definition ellipsis :: str where
  "ellipsis = bytes [0xE2, 0x80, 0xA6]"

text \<open>Slicing a token off a character boundary panics: \<open>None\<close>.\<close>

definition mask_token :: "str \<Rightarrow> str option" where
  "mask_token token =
    (if length token \<le> 10 then Some ''********''
     else case (slice_to token 6, slice_from token (length token - 4)) of
       (Some a, Some b) \<Rightarrow> Some (a @ ellipsis @ b)
     | _ \<Rightarrow> None)"

definition mask_endpoint :: "str \<Rightarrow> str" where
  "mask_endpoint url =
    (let trimmed = trim url in
     if trimmed = [] then []
     else
       (let prefix = take_chars 32 (rev (takeWhile (\<lambda>c. c \<noteq> CHR ''@'') (rev trimmed)))
        in if char_count trimmed > 32 then prefix @ ''...'' else prefix))"

lemma mask_token_ascii: "is_ascii token \<Longrightarrow> \<exists>m. mask_token token = Some m"
  by (auto simp: mask_token_def slice_to_def slice_from_def is_ascii_boundary)

text \<open>A mask shows ten bytes of the token at most.\<close>

lemma mask_token_shape:
  assumes "mask_token token = Some m" and "10 < length token"
  shows "m = take 6 token @ ellipsis @ drop (length token - 4) token"
  using assms by (auto simp: mask_token_def slice_to_def slice_from_def split: if_splits)

definition egress_group_label :: "config \<Rightarrow> route_mode \<Rightarrow> str" where
  "egress_group_label config mode =
    (case mode of
       Direct \<Rightarrow> if cf_direct_proxy_url config \<noteq> None then ''direct-proxy'' else ''direct-native''
     | Warp \<Rightarrow> if cf_warp_proxy_url config \<noteq> None then ''warp-proxy'' else ''warp-native'')"

definition route_mode_uses_proxy :: "config \<Rightarrow> route_mode \<Rightarrow> bool" where
  "route_mode_uses_proxy config mode =
    (case mode of Direct \<Rightarrow> cf_direct_proxy_url config \<noteq> None | Warp \<Rightarrow> cf_warp_proxy_url config \<noteq> None)"

definition list_egress_slots :: "config \<Rightarrow> egress_slot list" where
  "list_egress_slots config =
    [\<lparr>eg_id = ''direct'', eg_route_mode = Direct,
      eg_configured = (cf_direct_proxy_url config \<noteq> None \<or> cf_browser_assist_direct_proxy_url config \<noteq> None),
      eg_upstream_proxy_url_preview = map_option mask_endpoint (cf_direct_proxy_url config),
      eg_browser_proxy_url_preview = map_option mask_endpoint (cf_browser_assist_direct_proxy_url config)\<rparr>,
     \<lparr>eg_id = ''warp'', eg_route_mode = Warp,
      eg_configured = (cf_warp_proxy_url config \<noteq> None \<or> cf_browser_assist_warp_proxy_url config \<noteq> None),
      eg_upstream_proxy_url_preview = map_option mask_endpoint (cf_warp_proxy_url config),
      eg_browser_proxy_url_preview = map_option mask_endpoint (cf_browser_assist_warp_proxy_url config)\<rparr>]"

definition app_server_auth_mode_from_credential :: "upstream_credential option \<Rightarrow> str option" where
  "app_server_auth_mode_from_credential credential =
    (case credential of
       None \<Rightarrow> None
     | Some c \<Rightarrow>
         if cr_managed_auth c \<noteq> None then Some ''chatgpt''
         else if (case cr_chatgpt_account_id c of None \<Rightarrow> False | Some v \<Rightarrow> trim v \<noteq> [])
              \<or> str_contains (to_ascii_lowercase (cr_base_url c)) ''chatgpt.com''
           then Some ''chatgptAuthTokens''
         else Some ''apikey'')"

definition browser_task_provider_for_credential :: "upstream_credential option \<Rightarrow> str option" where
  "browser_task_provider_for_credential credential =
    (case credential of
       None \<Rightarrow> None
     | Some c \<Rightarrow>
         (let base_url = to_ascii_lowercase (cr_base_url c) in
          if str_contains base_url ''openai.com'' \<or> str_contains base_url ''chatgpt.com''
          then Some ''openai''
          else map_option (\<lambda>_. ''openai'') (cr_chatgpt_account_id c)))"

definition browser_task_login_url_for_credential :: "upstream_credential option \<Rightarrow> str option \<Rightarrow> str option" where
  "browser_task_login_url_for_credential credential provider =
    (if provider = Some ''openai'' then None else map_option cr_base_url credential)"

subsection \<open>Account summaries\<close>

definition account_summary_of ::
  "config \<Rightarrow> (str, account_route_state) hmap \<Rightarrow> (str, upstream_credential) hmap \<Rightarrow> (str, u32) hmap
    \<Rightarrow> instant \<Rightarrow> upstream_account \<Rightarrow> account_summary" where
  "account_summary_of config route_states credentials execution_inflight now account =
    (let route_state = hm_get route_states (ac_id account);
         credential = hm_get credentials (ac_id account);
         managed = Option.bind credential cr_managed_auth;
         resolved_route_mode =
           (case route_state of Some r \<Rightarrow> rs_route_mode r | None \<Rightarrow> ac_current_mode account);
         status = (case managed of Some m \<Rightarrow> ma_status m | None \<Rightarrow> Active);
         sg = ac_signals account
     in \<lparr>as_id = ac_id account, as_tenant_id = ac_tenant_id account, as_label = ac_label account,
         as_models = ac_models account, as_current_mode = ac_current_mode account,
         as_route_mode = resolved_route_mode,
         as_cooldown_level = (case route_state of Some r \<Rightarrow> rs_cooldown_level r | None \<Rightarrow> 0),
         as_cooldown_until = Option.bind route_state (\<lambda>r.
           if is_in_cooldown r now \<and> \<not> route_state_is_quota_exhausted r now
           then rs_cooldown_until r else None),
         as_direct_cf_streak = (case route_state of Some r \<Rightarrow> rs_direct_cf_streak r | None \<Rightarrow> 0),
         as_warp_cf_streak = (case route_state of Some r \<Rightarrow> rs_warp_cf_streak r | None \<Rightarrow> 0),
         as_success_streak = (case route_state of Some r \<Rightarrow> rs_success_streak r | None \<Rightarrow> 0),
         as_quota_headroom = effective_quota_headroom sg,
         as_quota_headroom_5h = sg_quota_headroom_5h sg,
         as_quota_headroom_7d = sg_quota_headroom_7d sg,
         as_near_quota_guard_enabled = near_quota_guard_enabled sg,
         as_health_score = sg_health_score sg, as_egress_stability = sg_egress_stability sg,
         as_inflight = (case hm_get execution_inflight (ac_id account) of
           Some n \<Rightarrow> n | None \<Rightarrow> sg_inflight sg),
         as_capacity = sg_capacity sg, as_has_credential = (credential \<noteq> None),
         as_base_url = map_option cr_base_url credential,
         as_chatgpt_account_id = Option.bind credential cr_chatgpt_account_id,
         as_auth_mode = app_server_auth_mode_from_credential credential,
         as_chatgpt_email = Option.bind managed ma_email,
         as_plan_type = Option.bind managed ma_plan_type,
         as_workspace_role = Option.bind managed ma_workspace_role,
         as_is_workspace_owner = Option.bind managed ma_is_workspace_owner,
         as_status = status, as_status_reason = Option.bind managed ma_status_reason,
         as_last_error = Option.bind managed ma_last_error,
         as_rate_limits = Option.bind managed ma_rate_limits,
         as_rate_limits_by_limit_id =
           (case managed of Some m \<Rightarrow> ma_rate_limits_by_limit_id m | None \<Rightarrow> []),
         as_managed_state_refreshed_at = Option.bind managed ma_last_refreshed_at,
         as_availability_state =
           account_availability_state (credential \<noteq> None) route_state status now,
         as_availability_reason = account_availability_reason (credential \<noteq> None) route_state
           (Option.bind managed ma_status_reason) now,
         as_availability_reset_at =
           Option.bind route_state (\<lambda>r. route_state_quota_reset_at r now),
         as_egress_group = egress_group_label config resolved_route_mode,
         as_proxy_enabled = route_mode_uses_proxy config resolved_route_mode\<rparr>)"

definition account_summaries :: "app_state \<Rightarrow> instant \<Rightarrow> account_summary list" where
  "account_summaries app now =
    (let rt = ap_runtime app;
         accounts = sort_by (\<lambda>a b. cmp (ac_label a) (ac_label b)) (hm_values (rt_accounts rt))
     in map (account_summary_of (ap_config app) (rt_route_states rt) (rt_credentials rt)
          (rt_execution_inflight rt) now) accounts)"

definition account_summary_for :: "app_state \<Rightarrow> str \<Rightarrow> instant \<Rightarrow> account_summary option" where
  "account_summary_for app account_id now =
     find (\<lambda>account. as_id account = account_id) (account_summaries app now)"

definition build_model_catalog :: "account_summary list \<Rightarrow> str list" where
  "build_model_catalog accounts =
     dedup (sort_by cmp (concat (map as_models accounts)))"

lemma as_id_summary [simp]: "as_id (account_summary_of c r cr i now a) = ac_id a"
  by (simp add: account_summary_of_def Let_def)

lemma set_account_summaries: "set (account_summaries app now) =
    account_summary_of (ap_config app) (rt_route_states (ap_runtime app)) (rt_credentials (ap_runtime app))
      (rt_execution_inflight (ap_runtime app)) now ` set (hm_values (rt_accounts (ap_runtime app)))"
  by (simp add: account_summaries_def Let_def)

lemma mset_summary_ids: "mset (map as_id (account_summaries app now)) =
    mset (map ac_id (hm_values (rt_accounts (ap_runtime app))))"
  by (simp add: account_summaries_def Let_def o_def)

lemma sort_by_cmp: "sort_by cmp xs = sort xs"
  using sort_by_key [of id xs] by (simp add: id_def)

lemma model_catalog_spec:
  "sorted (build_model_catalog accounts) \<and> distinct (build_model_catalog accounts)
   \<and> set (build_model_catalog accounts) = (\<Union>a \<in> set accounts. set (as_models a))"
  by (simp add: build_model_catalog_def sort_by_cmp sorted_dedup distinct_dedup_sorted)

subsection \<open>Alerts\<close>

definition alert_of :: "instant \<Rightarrow> account_summary \<Rightarrow> account_alert option" where
  "alert_of now account =
    (let quota_floor = f_min (f_min (as_quota_headroom account) (as_quota_headroom_5h account))
           (as_quota_headroom_7d account);
         or_else = (\<lambda>opt d. case opt of Some r \<Rightarrow> Some r | None \<Rightarrow> Some d);
         unwrap_or = (\<lambda>opt d. case opt of Some t \<Rightarrow> t | None \<Rightarrow> d);
         alert = (\<lambda>(kind, severity, reason, happened_at).
           Some \<lparr>al_id = as_id account @ '':'' @ kind, al_account_id = as_id account,
             al_account_label = as_label account, al_kind = kind, al_severity = severity,
             al_happened_at = happened_at, al_quota_headroom = Some quota_floor,
             al_cooldown_level = as_cooldown_level account, al_status = as_status account,
             al_reason = reason\<rparr>)
     in if as_availability_state account = AvQuotaExhausted then
          alert (''quota_exhausted'', ''critical'',
            or_else (as_availability_reason account) ''quota_exhausted'',
            unwrap_or (as_availability_reset_at account) now)
        else if as_availability_state account = AvUnavailable \<and> as_status account = Banned then
          alert (''disabled'', ''critical'',
            or_else (as_status_reason account) ''account_disabled'',
            unwrap_or (as_managed_state_refreshed_at account) now)
        else if as_availability_state account = AvUnavailable then
          alert (''unavailable'', ''warning'',
            or_else (as_availability_reason account) ''refresh_failed'',
            unwrap_or (as_managed_state_refreshed_at account) now)
        else if as_availability_state account = AvCooldown \<or> as_near_quota_guard_enabled account then
          alert (''protected'', ''warning'',
            or_else (as_availability_reason account) ''cooldown_guard'',
            unwrap_or (as_cooldown_until account) now)
        else if f_le quota_floor (dec 25 100) then
          alert (''low_quota'', if f_le quota_floor (dec 10 100) then ''critical'' else ''warning'',
            Some ''quota_floor'', unwrap_or (as_managed_state_refreshed_at account) now)
        else None)"

definition severity_rank :: "str \<Rightarrow> nat" where
  "severity_rank severity =
     (if severity = ''critical'' then 0 else if severity = ''warning'' then 1 else 2)"

definition alert_cmp :: "account_alert \<Rightarrow> account_alert \<Rightarrow> ordering" where
  "alert_cmp left right =
     cmp_then (cmp_then (cmp (severity_rank (al_severity left)) (severity_rank (al_severity right)))
       (cmp (al_happened_at right) (al_happened_at left)))
       (cmp (al_account_label left) (al_account_label right))"

definition derive_account_alerts :: "account_summary list \<Rightarrow> instant \<Rightarrow> account_alert list" where
  "derive_account_alerts accounts now =
     sort_by alert_cmp (List.map_filter (alert_of now) accounts)"

text \<open>A routable account with no near-quota guard alerts only for its quota floor.\<close>

lemma alert_of_routable:
  assumes "as_availability_state a = AvRoutable" and "\<not> as_near_quota_guard_enabled a"
    and "alert_of now a = Some al"
  shows "al_kind al = ''low_quota''"
  using assms by (auto simp: alert_of_def Let_def split: if_splits)

lemma alert_of_unroutable:
  "as_availability_state a \<noteq> AvRoutable \<Longrightarrow> \<exists>al. alert_of now a = Some al"
  by (cases "as_availability_state a") (auto simp: alert_of_def Let_def)

end
