(* ===== verification/Pricing.thy ===== *)
theory Pricing
  imports Models
begin

text \<open>
  \<open>pricing.rs\<close>, \<open>reasoning.rs\<close> and \<open>scheduler/token_optimizer.rs\<close>: the price list and the cost
  estimate of a request, the normal form of a reasoning effort, the prefix warm-up decision.
\<close>

subsection \<open>Intervals of floats\<close>

definition f_in :: "rat \<Rightarrow> rat \<Rightarrow> f64 \<Rightarrow> bool" where
  "f_in lo hi x \<longleftrightarrow> (\<exists>r. x = Fin r \<and> lo \<le> r \<and> r \<le> hi)"

lemma f_inI: "lo \<le> r \<Longrightarrow> r \<le> hi \<Longrightarrow> f_in lo hi (Fin r)"
  by (simp add: f_in_def)

lemma f_in_unit: "f_unit x \<longleftrightarrow> f_in 0 1 x"
  by (simp add: f_unit_iff f_in_def)

lemma f_in_weaken: "f_in lo hi x \<Longrightarrow> lo' \<le> lo \<Longrightarrow> hi \<le> hi' \<Longrightarrow> f_in lo' hi' x"
  by (auto simp: f_in_def)

lemma rnd_in: "rnd b = Fin b \<Longrightarrow> 0 \<le> x \<Longrightarrow> x \<le> b \<Longrightarrow> f_in 0 b (rnd x)"
  using rnd_between [of 0 b x] by (auto simp: f_in_def)

lemma f_add_in:
  "f_in 0 a x \<Longrightarrow> f_in 0 b y \<Longrightarrow> rnd c = Fin c \<Longrightarrow> a + b \<le> c \<Longrightarrow> f_in 0 c (f_add x y)"
  by (auto simp: f_in_def intro!: rnd_in [unfolded f_in_def])

lemma f_mul_in:
  assumes "f_in 0 a x" "f_in 0 b y" "rnd c = Fin c" "a * b \<le> c"
  shows "f_in 0 c (f_mul x y)"
proof -
  from assms(1,2) obtain r s where rs: "x = Fin r" "0 \<le> r" "r \<le> a" "y = Fin s" "0 \<le> s" "s \<le> b"
    by (auto simp: f_in_def)
  then have "r * s \<le> a * b" by (intro mult_mono) auto
  with rs assms(3,4) show ?thesis by (auto intro!: rnd_in)
qed

lemma f_div_in:
  assumes "f_in 0 a x" "f_in l b y" "0 < l" "rnd c = Fin c" "a / l \<le> c"
  shows "f_in 0 c (f_div x y)"
proof -
  from assms(1,2) obtain r s where rs: "x = Fin r" "0 \<le> r" "r \<le> a" "y = Fin s" "l \<le> s"
    by (auto simp: f_in_def)
  with assms(3) have "r / s \<le> a / l" "0 \<le> r / s" by (auto intro!: frac_le)
  with rs assms show ?thesis by (auto intro!: rnd_in)
qed

lemma rnd_million [simp]: "rnd 1000000 = Fin 1000000"
  by code_simp

lemma rnd_32 [simp]: "rnd 32 = Fin 32"
  using rnd_pow2 [of 5] by simp

lemma f_of_u64_in: "f_in 0 (2 ^ 64) (f_of_word (w :: u64))"
proof -
  have "unat w < 2 ^ LENGTH(64)" by (rule unsigned_less)
  then have "(of_nat (unat w) :: rat) \<le> of_nat (2 ^ 64)" by (intro of_nat_mono) simp
  then have "(of_nat (unat w) :: rat) \<le> 2 ^ 64" by simp
  then show ?thesis
    unfolding f_of_word_def by (intro rnd_in rnd_pow2 of_nat_0_le_iff) simp
qed

subsection \<open>The price list\<close>

record model_pricing =
  input_per_million_usd :: f64
  cached_input_per_million_usd :: f64
  output_per_million_usd :: f64

text \<open>Prices are decimal literals: an amount and its denominator.\<close>

definition price :: "int \<Rightarrow> int \<Rightarrow> int \<Rightarrow> model_pricing" where
  "price i c out = \<lparr>input_per_million_usd = dec i 1000, cached_input_per_million_usd = dec c 1000,
     output_per_million_usd = dec out 1000\<rparr>"

definition price_list :: "(str \<times> model_pricing) list" where
  "price_list =
    [(''gpt-5.4-mini'', price 750 75 4500),
     (''gpt-5.4-nano'', price 200 20 1250),
     (''gpt-5.4'', price 2500 250 15000),
     (''gpt-5.3-codex'', price 1750 175 14000),
     (''gpt-5.2'', price 1750 175 14000),
     (''gpt-5'', price 1250 125 10000),
     (''gpt-4.1-mini'', price 400 100 1600),
     (''gpt-4.1-nano'', price 100 25 400),
     (''gpt-4.1'', price 2000 500 8000)]"

definition model_matches :: "str \<Rightarrow> str \<Rightarrow> bool" where
  "model_matches normalized prefix \<longleftrightarrow> normalized = prefix \<or> starts_with normalized (prefix @ ''-'')"

definition pricing_for_model :: "str \<Rightarrow> model_pricing option" where
  "pricing_for_model model =
    (let normalized = to_ascii_lowercase (trim model)
     in map_option snd (find (\<lambda>(prefix, _). model_matches normalized prefix) price_list))"

definition estimate_cost_usd :: "str \<Rightarrow> request_log_usage \<Rightarrow> f64 option" where
  "estimate_cost_usd model usage =
    (case pricing_for_model model of
       None \<Rightarrow> None
     | Some pricing \<Rightarrow>
         (let cached_input = min (ru_cached_input_tokens usage) (ru_input_tokens usage);
              live_input = sat_sub (ru_input_tokens usage) cached_input;
              million = dec 1000000 1;
              total = f_add (f_add
                (f_mul (f_div (f_of_word live_input) million) (input_per_million_usd pricing))
                (f_mul (f_div (f_of_word cached_input) million) (cached_input_per_million_usd pricing)))
                (f_mul (f_div (f_of_word (ru_output_tokens usage)) million) (output_per_million_usd pricing))
          in Some (f_div (f_round (f_mul total million)) million)))"

text \<open>The list names longer model families first: no entry extends an earlier one.\<close>

lemma price_list_specific:
  "sorted_wrt (\<lambda>(p, _) (q, _). \<not> starts_with q (p @ ''-'') \<and> p \<noteq> q) price_list"
  by (simp add: price_list_def)

lemma model_matches_prefix: "model_matches n p \<Longrightarrow> model_matches n q \<Longrightarrow> length p < length q \<Longrightarrow> starts_with q (p @ ''-'')"
proof -
  assume a: "model_matches n p" "model_matches n q" "length p < length q"
  then obtain t u where "n = q @ u" "n = p @ ''-'' @ t"
    by (auto simp: model_matches_def starts_with_iff)
  with a(3) have "q = p @ take (length q - length p) (''-'' @ t)"
    by (metis append_eq_conv_conj take_append take_all less_imp_le)
  with a(3) show ?thesis
    by (auto simp: starts_with_iff take_Cons' split: if_splits)
qed

lemma find_sorted_wrt:
  "sorted_wrt R xs \<Longrightarrow> find P xs = Some x \<Longrightarrow> y \<in> set xs \<Longrightarrow> P y \<Longrightarrow> y = x \<or> R x y"
  by (induction xs) (auto split: if_splits)

lemma pricing_most_specific:
  assumes "pricing_for_model model = Some p"
  shows "\<exists>prefix. (prefix, p) \<in> set price_list
     \<and> model_matches (to_ascii_lowercase (trim model)) prefix
     \<and> (\<forall>(q, _) \<in> set price_list. model_matches (to_ascii_lowercase (trim model)) q
          \<longrightarrow> length q \<le> length prefix)"
proof -
  let ?n = "to_ascii_lowercase (trim model)"
  let ?P = "\<lambda>(prefix, _ :: model_pricing). model_matches ?n prefix"
  from assms obtain prefix where f: "find ?P price_list = Some (prefix, p)"
    by (auto simp: pricing_for_model_def Let_def)
  have "length q \<le> length prefix" if "(q, r) \<in> set price_list" "model_matches ?n q" for q r
  proof (rule ccontr)
    assume "\<not> length q \<le> length prefix"
    moreover have "model_matches ?n prefix" using find_SomeD [OF f] by simp
    ultimately have "starts_with q (prefix @ ''-'')" using model_matches_prefix that(2) by simp
    moreover have "(q, r) = (prefix, p) \<or> \<not> starts_with q (prefix @ ''-'') \<and> prefix \<noteq> q"
      using find_sorted_wrt [OF price_list_specific f that(1)] that(2) by auto
    ultimately show False using \<open>\<not> length q \<le> length prefix\<close> by auto
  qed
  with find_SomeD [OF f] show ?thesis by auto
qed

lemma pricing_None_iff:
  "pricing_for_model model = None \<longleftrightarrow>
     (\<forall>(q, _) \<in> set price_list. \<not> model_matches (to_ascii_lowercase (trim model)) q)"
  by (auto simp: pricing_for_model_def Let_def find_None_iff)

text \<open>Every listed price is between 0 and 32 dollars.\<close>

lemma dec_price_in: "0 \<le> n \<Longrightarrow> n \<le> 32000 \<Longrightarrow> f_in 0 32 (dec n 1000)"
  unfolding dec_def by (intro rnd_in) (auto simp: divide_le_eq)

lemma price_list_in: "(q, p) \<in> set price_list \<Longrightarrow>
    f_in 0 32 (input_per_million_usd p) \<and> f_in 0 32 (cached_input_per_million_usd p)
  \<and> f_in 0 32 (output_per_million_usd p)"
  by (auto simp: price_list_def price_def intro!: dec_price_in)

lemma pricing_in: "pricing_for_model model = Some p \<Longrightarrow>
    f_in 0 32 (input_per_million_usd p) \<and> f_in 0 32 (cached_input_per_million_usd p)
  \<and> f_in 0 32 (output_per_million_usd p)"
  using pricing_most_specific price_list_in by blast

lemma million_in: "f_in 1000000 1000000 (dec 1000000 1)"
  by (simp add: f_in_def dec_def)

lemma token_cost_in: "f_in 0 32 p \<Longrightarrow> f_in 0 (2 ^ 64) (f_mul (f_div (f_of_word (w :: u64)) (dec 1000000 1)) p)"
proof -
  have "f_in 0 (2 ^ 48) (f_div (f_of_word w) (dec 1000000 1))"
    by (rule f_div_in [OF f_of_u64_in million_in _ rnd_pow2]) auto
  then show "f_in 0 32 p \<Longrightarrow> ?thesis"
    by (rule f_mul_in [OF _ _ rnd_pow2]) auto
qed

lemma f_round_in: "f_in 0 (of_int b) x \<Longrightarrow> f_in 0 (of_int b) (f_round x)"
proof -
  assume "f_in 0 (of_int b) x"
  then obtain r where r: "x = Fin r" "0 \<le> r" "r \<le> of_int b" by (auto simp: f_in_def)
  then have "\<lfloor>r + 1 / 2\<rfloor> \<le> b" by (simp add: floor_le_iff)
  with r show ?thesis by (simp add: f_in_def)
qed

lemma estimate_cost_bounds:
  assumes "estimate_cost_usd model usage = Some c"
  shows "f_in 0 (2 ^ 96) c"
proof -
  from assms obtain p where p: "pricing_for_model model = Some p"
    by (auto simp: estimate_cost_usd_def split: option.splits)
  let ?cached = "min (ru_cached_input_tokens usage) (ru_input_tokens usage)"
  let ?t = "\<lambda>w q. f_mul (f_div (f_of_word (w :: u64)) (dec 1000000 1)) q"
  let ?total = "f_add (f_add (?t (sat_sub (ru_input_tokens usage) ?cached) (input_per_million_usd p))
      (?t ?cached (cached_input_per_million_usd p))) (?t (ru_output_tokens usage) (output_per_million_usd p))"
  have c: "c = f_div (f_round (f_mul ?total (dec 1000000 1))) (dec 1000000 1)"
    using assms p by (simp add: estimate_cost_usd_def Let_def)
  have r65: "rnd (2 ^ 65) = Fin (2 ^ 65)" and r66: "rnd (2 ^ 66) = Fin (2 ^ 66)"
    by (rule rnd_pow2; simp)+
  have "f_in 0 (2 ^ 66) ?total"
    using pricing_in [OF p] by (intro f_add_in [OF f_add_in [OF token_cost_in token_cost_in r65] token_cost_in r66]) auto
  then have "f_in 0 (2 ^ 96) (f_mul ?total (dec 1000000 1))"
    by (rule f_mul_in [OF _ f_in_weaken [OF million_in, of 0 1000000] rnd_pow2]) auto
  then have "f_in 0 (2 ^ 96) (f_round (f_mul ?total (dec 1000000 1)))"
    using f_round_in [of "2 ^ 96"] by simp
  then show ?thesis
    unfolding c by (rule f_div_in [OF _ million_in _ rnd_pow2]) auto
qed

subsection \<open>Reasoning effort\<close>

definition normalize_reasoning_effort :: "str option \<Rightarrow> str option" where
  "normalize_reasoning_effort value =
    (case value of
       None \<Rightarrow> None
     | Some v \<Rightarrow>
         (let s = to_ascii_lowercase (trim v) in
          if s = ''low'' then Some ''low''
          else if s = ''medium'' then Some ''medium''
          else if s = ''high'' then Some ''high''
          else if s = ''xhigh'' \<or> s = ''extra_high'' then Some ''xhigh''
          else None))"

lemma normalize_effort_range:
  "normalize_reasoning_effort v = Some e \<Longrightarrow> e \<in> {''low'', ''medium'', ''high'', ''xhigh''}"
  by (auto simp: normalize_reasoning_effort_def Let_def split: option.splits if_splits)

lemma normalize_effort_fix:
  assumes "e \<in> {''low'', ''medium'', ''high'', ''xhigh''}"
  shows "normalize_reasoning_effort (Some e) = Some e"
proof -
  have "trim e = e \<and> to_ascii_lowercase e = e"
    using assms by (auto simp: is_ascii_ws_def ws2_def ws3_def byte_def to_ascii_lowercase_def
        lower_byte_def intro!: trim_fix)
  with assms show ?thesis by (auto simp: normalize_reasoning_effort_def Let_def)
qed

lemma normalize_effort_idem:
  "normalize_reasoning_effort (normalize_reasoning_effort v) = normalize_reasoning_effort v"
proof (cases "normalize_reasoning_effort v")
  case None
  then show ?thesis by (simp add: normalize_reasoning_effort_def)
next
  case (Some e)
  then show ?thesis using normalize_effort_fix [OF normalize_effort_range [OF Some]] by simp
qed

subsection \<open>Prefix warm-up\<close>

record warmup_decision =
  should_warm :: bool
  expected_saving :: f64

definition evaluate_prefix_warmup ::
  "u32 \<Rightarrow> u64 \<Rightarrow> f64 \<Rightarrow> u64 \<Rightarrow> bool \<Rightarrow> warmup_decision" where
  "evaluate_prefix_warmup predicted_turns_remaining reusable_prefix_tokens cache_discount_ratio
     warmup_tokens congested =
    (if congested \<or> predicted_turns_remaining \<le> 1 \<or> reusable_prefix_tokens < 1024 then
       \<lparr>should_warm = False, expected_saving = Fin 0\<rparr>
     else
       (let saving = f_sub
              (f_mul (f_mul (f_of_word (predicted_turns_remaining - 1)) (f_of_word reusable_prefix_tokens))
                 cache_discount_ratio)
              (f_of_word warmup_tokens)
        in \<lparr>should_warm = f_lt (Fin 0) saving, expected_saving = saving\<rparr>))"

lemma warmup_iff_positive_saving:
  "should_warm (evaluate_prefix_warmup n p d w c) \<longleftrightarrow>
     f_lt (Fin 0) (expected_saving (evaluate_prefix_warmup n p d w c))"
  by (simp add: evaluate_prefix_warmup_def Let_def)

end
