(* ===== verification/Metrics.thy ===== *)
theory Metrics
  imports Bus Availability Pricing
begin

text \<open>
  Request logs and what is derived from them (\<open>state.rs\<close>): cache metrics, the observed warm-up
  decision, billing, the per-user views, the lists of the dashboard.
\<close>

subsection \<open>Cache metrics\<close>

record log_totals =
  lt_eligible_requests :: u64
  lt_hit_requests :: u64
  lt_total_input_tokens :: u64
  lt_total_cached_input_tokens :: u64
  lt_max_cached_input_tokens :: u64

text \<open>The body of the loop over the logs; the counters are \<open>u64\<close> and wrap.\<close>

definition cached_of :: "request_log_entry \<Rightarrow> u64" where
  "cached_of entry = min (ru_cached_input_tokens (re_usage entry)) (ru_input_tokens (re_usage entry))"

definition count_log :: "request_log_entry \<Rightarrow> log_totals \<Rightarrow> log_totals" where
  "count_log entry t =
    (let input_tokens = ru_input_tokens (re_usage entry);
         cached_input_tokens = cached_of entry;
         t = t\<lparr>lt_total_input_tokens := lt_total_input_tokens t + input_tokens,
               lt_total_cached_input_tokens := lt_total_cached_input_tokens t + cached_input_tokens,
               lt_max_cached_input_tokens := max (lt_max_cached_input_tokens t) cached_input_tokens\<rparr>
     in if 0 < input_tokens then
          (let t = t\<lparr>lt_eligible_requests := lt_eligible_requests t + 1\<rparr>
           in if 0 < cached_input_tokens then t\<lparr>lt_hit_requests := lt_hit_requests t + 1\<rparr> else t)
        else t)"

definition no_totals :: log_totals where
  "no_totals = \<lparr>lt_eligible_requests = 0, lt_hit_requests = 0, lt_total_input_tokens = 0,
     lt_total_cached_input_tokens = 0, lt_max_cached_input_tokens = 0\<rparr>"

definition derive_cache_metrics_from_logs ::
  "request_log_entry list \<Rightarrow> cache_metrics \<Rightarrow> cache_metrics" where
  "derive_cache_metrics_from_logs logs base =
    (let t = fold count_log logs no_totals;
         request_hit_ratio =
           (if 0 < lt_eligible_requests t
            then f_div (f_of_word (lt_hit_requests t)) (f_of_word (lt_eligible_requests t))
            else Fin 0)
     in base\<lparr>cm_cached_tokens := lt_total_cached_input_tokens t,
             cm_replay_tokens := lt_total_input_tokens t,
             cm_static_prefix_tokens := lt_max_cached_input_tokens t,
             cm_request_hit_ratio := request_hit_ratio,
             cm_token_hit_ratio :=
               (if 0 < lt_total_input_tokens t
                then f_div (f_of_word (lt_total_cached_input_tokens t)) (f_of_word (lt_total_input_tokens t))
                else Fin 0),
             cm_prefix_hit_ratio := request_hit_ratio\<rparr>)"

definition observed_warmup_decision :: "cache_metrics \<Rightarrow> warmup_decision" where
  "observed_warmup_decision metrics =
    (if cm_replay_tokens metrics = 0 \<or> cm_static_prefix_tokens metrics < 1024 then
       \<lparr>should_warm = False, expected_saving = Fin 0\<rparr>
     else
       (let saving = f_mul (f_of_word (cm_static_prefix_tokens metrics)) (cm_token_hit_ratio metrics)
        in \<lparr>should_warm = (f_lt (cm_prefix_hit_ratio metrics) (dec 60 100) \<and> f_le (Fin 1024) saving),
            expected_saving = saving\<rparr>))"

definition current_cache_metrics_snapshot ::
  "cache_metrics \<Rightarrow> request_log_entry list \<Rightarrow> cache_metrics" where
  "current_cache_metrics_snapshot base logs =
    (let metrics = derive_cache_metrics_from_logs logs base
     in metrics\<lparr>cm_warmup_roi := f_max (expected_saving (observed_warmup_decision metrics)) (Fin 0)\<rparr>)"

definition record_request_log :: "request_log_entry \<Rightarrow> app_state \<Rightarrow> app_state" where
  "record_request_log entry app =
    (let rt = ap_runtime app;
         logs = push_front_capped REQUEST_LOG_CAP entry (rt_request_logs rt);
         derived = derive_cache_metrics_from_logs logs (rt_cache_metrics rt)
     in enqueue_many [RequestLogInsert entry, CacheMetricsUpsert derived]
          (on_runtime (\<lambda>rt. rt\<lparr>rt_request_logs := logs, rt_cache_metrics := derived\<rparr>) app))"

subsection \<open>Billing\<close>

definition bill_log :: "request_log_entry \<Rightarrow> billing_summary \<Rightarrow> billing_summary" where
  "bill_log entry s =
    (let usage = re_usage entry;
         s = s\<lparr>bs_total_input_tokens := bs_total_input_tokens s + ru_input_tokens usage,
               bs_total_cached_input_tokens := bs_total_cached_input_tokens s + ru_cached_input_tokens usage,
               bs_total_output_tokens := bs_total_output_tokens s + ru_output_tokens usage,
               bs_total_tokens := bs_total_tokens s + ru_total_tokens usage\<rparr>
     in case re_estimated_cost_usd entry of
          None \<Rightarrow> s
        | Some cost \<Rightarrow> s\<lparr>bs_total_spend_usd := f_add (bs_total_spend_usd s) cost,
                          bs_priced_requests := bs_priced_requests s + 1\<rparr>)"

definition billing_summary_of :: "request_log_entry list \<Rightarrow> billing_summary" where
  "billing_summary_of logs =
     fold bill_log logs \<lparr>bs_total_spend_usd = Fin 0, bs_total_requests = length logs,
       bs_total_input_tokens = 0, bs_total_cached_input_tokens = 0, bs_total_output_tokens = 0,
       bs_total_tokens = 0, bs_priced_requests = 0\<rparr>"

text \<open>\<open>None\<close> when masking the token panics.\<close>

definition gateway_user_view_of ::
  "gateway_api_key \<Rightarrow> nat \<Rightarrow> f64 \<Rightarrow> instant option \<Rightarrow> gateway_user_view option" where
  "gateway_user_view_of api_key request_count estimated_spend_usd last_used_at =
     map_option (\<lambda>preview.
       \<lparr>uv_id = ak_id api_key, uv_tenant_id = ak_tenant_id api_key, uv_name = ak_name api_key,
        uv_email = ak_email api_key, uv_role = ak_role api_key, uv_token_preview = preview,
        uv_token = ak_token api_key, uv_default_model = ak_default_model api_key,
        uv_reasoning_effort = ak_reasoning_effort api_key,
        uv_force_model_override = ak_force_model_override api_key,
        uv_force_reasoning_effort = ak_force_reasoning_effort api_key,
        uv_request_count = request_count, uv_estimated_spend_usd = estimated_spend_usd,
        uv_last_used_at = last_used_at, uv_created_at = ak_created_at api_key,
        uv_updated_at = ak_updated_at api_key\<rparr>)
     (mask_token (ak_token api_key))"

definition f_sum :: "f64 list \<Rightarrow> f64" where
  "f_sum xs = fold (\<lambda>x s. f_add s x) xs (Fin 0)"

definition logs_of :: "gateway_api_key \<Rightarrow> request_log_entry list \<Rightarrow> request_log_entry list" where
  "logs_of api_key logs = filter (\<lambda>entry. re_api_key_id entry = ak_id api_key) logs"

definition gateway_user_views ::
  "runtime_state \<Rightarrow> request_log_entry list \<Rightarrow> gateway_user_view list option" where
  "gateway_user_views rt logs =
    those (map (\<lambda>api_key.
        gateway_user_view_of api_key (length (logs_of api_key logs))
          (f_sum (List.map_filter re_estimated_cost_usd (logs_of api_key logs)))
          (max_by cmp (map re_created_at (logs_of api_key logs))))
      (sort_by (\<lambda>a b. cmp (ak_created_at a) (ak_created_at b)) (hm_values (rt_api_keys rt))))"

definition api_key_view :: "gateway_api_key \<Rightarrow> gateway_api_key_view option" where
  "api_key_view api_key =
     map_option (\<lambda>preview.
       \<lparr>kv_id = ak_id api_key, kv_tenant_id = ak_tenant_id api_key, kv_name = ak_name api_key,
        kv_email = ak_email api_key, kv_role = ak_role api_key, kv_token_preview = preview,
        kv_default_model = ak_default_model api_key,
        kv_reasoning_effort = ak_reasoning_effort api_key,
        kv_force_model_override = ak_force_model_override api_key,
        kv_force_reasoning_effort = ak_force_reasoning_effort api_key,
        kv_created_at = ak_created_at api_key, kv_updated_at = ak_updated_at api_key\<rparr>)
     (mask_token (ak_token api_key))"

definition list_api_keys :: "runtime_state \<Rightarrow> gateway_api_key_view list option" where
  "list_api_keys rt =
     those (map api_key_view
       (sort_by (\<lambda>a b. cmp (ak_created_at a) (ak_created_at b)) (hm_values (rt_api_keys rt))))"

subsection \<open>The dashboard\<close>

definition list_tenants :: "runtime_state \<Rightarrow> tenant list" where
  "list_tenants rt = sort_by (\<lambda>a b. cmp (tn_slug a) (tn_slug b)) (hm_values (rt_tenants rt))"

definition list_leases :: "runtime_state \<Rightarrow> cli_lease list" where
  "list_leases rt = sort_by (\<lambda>a b. cmp (ls_last_used_at b) (ls_last_used_at a)) (hm_values (rt_leases rt))"

definition list_conversation_threads :: "runtime_state \<Rightarrow> conversation_thread list" where
  "list_conversation_threads rt =
     sort_by (\<lambda>a b. cmp (th_updated_at b) (th_updated_at a)) (hm_values (rt_conversation_threads rt))"

definition dashboard_topology :: "config \<Rightarrow> topology_node list" where
  "dashboard_topology config =
    [\<lparr>tp_name = ''web'', tp_purpose = ''Node SSR operations surface'', tp_hot_path = False, tp_port = 3000\<rparr>,
     \<lparr>tp_name = ''server:data'', tp_purpose = ''OpenAI-compatible gateway'', tp_hot_path = True,
      tp_port = cf_data_port config\<rparr>,
     \<lparr>tp_name = ''server:admin'', tp_purpose = ''Scheduler, tenancy, and observability'',
      tp_hot_path = False, tp_port = cf_admin_port config\<rparr>,
     \<lparr>tp_name = ''browser-assist'', tp_purpose = ''Challenge recovery and login sidecar'',
      tp_hot_path = False, tp_port = 8090\<rparr>]"

text \<open>
  \<open>now\<close> is the clock of the summaries, \<open>alert_now\<close> that of the alerts, \<open>refreshed_at\<close> the last
  reading.
\<close>

definition dashboard_snapshot_of ::
  "app_state \<Rightarrow> instant \<Rightarrow> instant \<Rightarrow> instant \<Rightarrow> dashboard_snapshot option" where
  "dashboard_snapshot_of app now alert_now refreshed_at =
    (let rt = ap_runtime app;
         leases = list_leases rt;
         summaries = account_summaries app now;
         logs = rt_request_logs rt
     in map_option (\<lambda>users.
         \<lparr>ds_title = ''Codex Manager 2.0'',
          ds_subtitle = ''Responses-first, lease-bound routing, dual-candidate selection, and warp-aware recovery.'',
          ds_refreshed_at = refreshed_at, ds_topology = dashboard_topology (ap_config app),
          ds_cache_metrics = derive_cache_metrics_from_logs logs (rt_cache_metrics rt),
          ds_accounts = summaries, ds_leases = leases,
          ds_account_alerts = derive_account_alerts summaries alert_now,
          ds_cf_incidents = rt_cf_incidents rt, ds_browser_tasks = [], ds_users = users,
          ds_request_logs = logs, ds_billing = billing_summary_of logs,
          ds_model_catalog = build_model_catalog summaries,
          ds_counts = \<lparr>dc_tenants = length (hm_values (rt_tenants rt)),
            dc_accounts = length (hm_values (rt_accounts rt)), dc_users = length users,
            dc_active_leases = length leases,
            dc_warp_accounts = length (filter (\<lambda>r. rs_route_mode r = Warp) (hm_values (rt_route_states rt))),
            dc_browser_tasks = 0\<rparr>\<rparr>)
       (gateway_user_views rt logs))"


subsection \<open>What the totals are\<close>

definition input_of :: "request_log_entry \<Rightarrow> nat" where
  "input_of entry = unat (ru_input_tokens (re_usage entry))"

lemma cached_le_input: "unat (cached_of entry) \<le> input_of entry"
  by (simp add: cached_of_def input_of_def word_le_nat_alt [symmetric])

lemma cached_pos_input: "0 < cached_of entry \<Longrightarrow> 0 < ru_input_tokens (re_usage entry)"
  by (auto simp: cached_of_def word_gt_0 min_def split: if_splits)

lemma unat_add_fits: "unat a + unat b < 2 ^ 64 \<Longrightarrow> unat (a + b) = unat a + unat (b :: u64)"
  by (simp add: unat_word_ariths)

lemma unat_Suc_fits: "Suc (unat a) < 2 ^ 64 \<Longrightarrow> unat (a + 1) = Suc (unat (a :: u64))"
  using unat_add_fits [of a 1] by simp

lemma count_log_fields [simp]:
  "lt_total_input_tokens (count_log e t) = lt_total_input_tokens t + ru_input_tokens (re_usage e)"
  "lt_total_cached_input_tokens (count_log e t) = lt_total_cached_input_tokens t + cached_of e"
  "lt_eligible_requests (count_log e t) =
     (if 0 < ru_input_tokens (re_usage e) then lt_eligible_requests t + 1 else lt_eligible_requests t)"
  "lt_hit_requests (count_log e t) = (if 0 < cached_of e then lt_hit_requests t + 1 else lt_hit_requests t)"
  using cached_pos_input [of e] by (auto simp: count_log_def Let_def)

text \<open>As long as the input tokens of the window fit 64 bits, no counter wraps.\<close>

lemma totals_exact:
  assumes "sum_list (map input_of logs) < 2 ^ 64" and "length logs < 2 ^ 64"
  shows "unat (lt_total_input_tokens (fold count_log logs no_totals)) = sum_list (map input_of logs)
    \<and> unat (lt_total_cached_input_tokens (fold count_log logs no_totals))
        = sum_list (map (\<lambda>e. unat (cached_of e)) logs)
    \<and> unat (lt_eligible_requests (fold count_log logs no_totals))
        = length (filter (\<lambda>e. 0 < ru_input_tokens (re_usage e)) logs)
    \<and> unat (lt_hit_requests (fold count_log logs no_totals))
        = length (filter (\<lambda>e. 0 < cached_of e) logs)"
  using assms
proof (induction logs rule: rev_induct)
  case (snoc x xs)
  let ?t = "fold count_log xs no_totals"
  have le: "sum_list (map (\<lambda>e. unat (cached_of e)) xs) \<le> sum_list (map input_of xs)"
    by (intro sum_list_mono cached_le_input)
  have lens: "length (filter P xs) \<le> length xs" for P by simp
  have xl: "Suc (length xs) < 2 ^ 64" and xs: "sum_list (map input_of xs) + input_of x < 2 ^ 64"
    using snoc.prems by simp_all
  then have IH: "unat (lt_total_input_tokens ?t) = sum_list (map input_of xs)"
      "unat (lt_total_cached_input_tokens ?t) = sum_list (map (\<lambda>e. unat (cached_of e)) xs)"
      "unat (lt_eligible_requests ?t) = length (filter (\<lambda>e. 0 < ru_input_tokens (re_usage e)) xs)"
      "unat (lt_hit_requests ?t) = length (filter (\<lambda>e. 0 < cached_of e) xs)"
    using snoc.IH by simp_all
  have 1: "unat (lt_total_input_tokens ?t + ru_input_tokens (re_usage x)) = sum_list (map input_of (xs @ [x]))"
    using IH(1) xs unat_add_fits [of "lt_total_input_tokens ?t" "ru_input_tokens (re_usage x)"]
    by (simp add: input_of_def)
  have 2: "unat (lt_total_cached_input_tokens ?t + cached_of x)
      = sum_list (map (\<lambda>e. unat (cached_of e)) (xs @ [x]))"
    using IH(2) xs le cached_le_input [of x]
      unat_add_fits [of "lt_total_cached_input_tokens ?t" "cached_of x"] by simp
  have 3: "unat (lt_eligible_requests ?t + 1) = Suc (unat (lt_eligible_requests ?t))"
    using IH(3) xl lens [of "\<lambda>e. 0 < ru_input_tokens (re_usage e)"]
    by (intro unat_Suc_fits) linarith
  have 4: "unat (lt_hit_requests ?t + 1) = Suc (unat (lt_hit_requests ?t))"
    using IH(4) xl lens [of "\<lambda>e. 0 < cached_of e"]
    by (intro unat_Suc_fits) linarith
  show ?case
    using 1 2 3 4 IH(3,4) cached_pos_input [of x]
    by simp
qed (simp add: no_totals_def)

lemma derive_idem: "derive_cache_metrics_from_logs logs (derive_cache_metrics_from_logs logs base)
    = derive_cache_metrics_from_logs logs base"
  by (simp add: derive_cache_metrics_from_logs_def Let_def)

lemma derive_roi [simp]: "cm_warmup_roi (derive_cache_metrics_from_logs logs base) = cm_warmup_roi base"
  by (simp add: derive_cache_metrics_from_logs_def Let_def)

end
