(* ===== verification/Replication.thy ===== *)
theory Replication
  imports Metrics
begin

text \<open>
  What a replica of an instance is. An operation of \<open>AppState\<close> publishes its effect when the
  messages it sends, applied by a peer's bus loop to the tables it started from, give the tables it
  ends in. The contract is a locale over an operation with a precondition; a replica that agrees
  with the instance before agrees with it after.
\<close>

text \<open>The tables that are persisted and replicated, whatever the order of a table's entries.\<close>

definition same_tables :: "runtime_state \<Rightarrow> runtime_state \<Rightarrow> bool" where
  "same_tables a b \<longleftrightarrow>
     hm_get (rt_tenants a) = hm_get (rt_tenants b)
   \<and> hm_get (rt_api_keys a) = hm_get (rt_api_keys b)
   \<and> hm_get (rt_accounts a) = hm_get (rt_accounts b)
   \<and> hm_get (rt_credentials a) = hm_get (rt_credentials b)
   \<and> hm_get (rt_route_states a) = hm_get (rt_route_states b)
   \<and> hm_get (rt_leases a) = hm_get (rt_leases b)
   \<and> hm_get (rt_conversation_contexts a) = hm_get (rt_conversation_contexts b)
   \<and> hm_get (rt_conversation_threads a) = hm_get (rt_conversation_threads b)
   \<and> rt_thread_edges a = rt_thread_edges b \<and> rt_cf_incidents a = rt_cf_incidents b
   \<and> rt_cache_metrics a = rt_cache_metrics b \<and> rt_request_logs a = rt_request_logs b"

lemma same_tables_refl [simp]: "same_tables a a"
  by (simp add: same_tables_def)

lemma same_tables_sym: "same_tables a b \<Longrightarrow> same_tables b a"
  by (simp add: same_tables_def)

lemma same_tables_trans [trans]: "same_tables a b \<Longrightarrow> same_tables b c \<Longrightarrow> same_tables a c"
  by (simp add: same_tables_def)

lemma same_tables_message:
  assumes "same_tables a b" and "rt_inv a" and "rt_inv b"
  shows "same_tables (apply_message m a) (apply_message m b)"
proof -
  have "hm_wf (rt_leases a)" "hm_wf (rt_leases b)"
    using assms(2,3) by (auto simp: rt_inv_def)
  with assms(1) show ?thesis
    by (cases m)
      (simp_all add: same_tables_def handler_defs Let_def hm_get_retain fun_eq_iff split: option.splits)
qed

lemma same_tables_messages:
  "same_tables a b \<Longrightarrow> rt_inv a \<Longrightarrow> rt_inv b \<Longrightarrow> same_tables (apply_messages ms a) (apply_messages ms b)"
  by (induction ms arbitrary: a b) (simp_all add: same_tables_message rt_inv_apply_message)

definition sent :: "app_state \<Rightarrow> app_state \<Rightarrow> persistence_message list" where
  "sent app app' = drop (length (ap_writer_tx app)) (ap_writer_tx app')"

definition published :: "app_state \<Rightarrow> app_state \<Rightarrow> bool" where
  "published app app' \<longleftrightarrow>
     ap_writer_tx app' = ap_writer_tx app @ sent app app'
   \<and> ap_bus_tx app' = map_option (\<lambda>ms. ms @ sent app app') (ap_bus_tx app)
   \<and> same_tables (apply_messages (sent app app') (ap_runtime app)) (ap_runtime app')"

lemma publishedI:
  assumes "ap_writer_tx app' = ap_writer_tx app @ ms"
    and "ap_bus_tx app' = map_option (\<lambda>s. s @ ms) (ap_bus_tx app)"
    and "same_tables (apply_messages ms (ap_runtime app)) (ap_runtime app')"
  shows "published app app'"
proof -
  have "sent app app' = ms" by (simp add: sent_def assms(1))
  with assms show ?thesis by (simp add: published_def)
qed

lemma published_enqueue_many:
  "same_tables (apply_messages ms (ap_runtime app)) (f (ap_runtime app)) \<Longrightarrow>
     published app (enqueue_many ms (on_runtime f app))"
  by (rule publishedI [where ms = ms]) simp_all

lemma published_refl [simp]: "published app app"
  by (rule publishedI [where ms = "[]"]) (simp_all add: option.map_ident)

lemma published_trans:
  assumes "published a b" and "published b c" and "rt_inv (ap_runtime a)" and "rt_inv (ap_runtime b)"
  shows "published a c"
proof (rule publishedI [where ms = "sent a b @ sent b c"])
  show "ap_writer_tx c = ap_writer_tx a @ sent a b @ sent b c"
    using assms(1,2) by (simp add: published_def)
  show "ap_bus_tx c = map_option (\<lambda>s. s @ sent a b @ sent b c) (ap_bus_tx a)"
    using assms(1,2) by (simp add: published_def option.map_comp o_def)
  have "same_tables (apply_messages (sent b c) (apply_messages (sent a b) (ap_runtime a)))
      (apply_messages (sent b c) (ap_runtime b))"
    using assms by (intro same_tables_messages) (auto simp: published_def inv_intros)
  also have "same_tables \<dots> (ap_runtime c)"
    using assms(2) by (simp add: published_def)
  finally show "same_tables (apply_messages (sent a b @ sent b c) (ap_runtime a)) (ap_runtime c)"
    by simp
qed

subsection \<open>Operations that publish what they do\<close>

locale publishing =
  fixes pre :: "app_state \<Rightarrow> bool"
    and op :: "app_state \<Rightarrow> app_state"
  assumes op_inv: "rt_inv (ap_runtime app) \<Longrightarrow> rt_inv (ap_runtime (op app))"
    and op_published: "rt_inv (ap_runtime app) \<Longrightarrow> pre app \<Longrightarrow> published app (op app)"
begin

text \<open>A replica that applies what was sent follows the instance.\<close>

lemma replica_follows:
  assumes "same_tables replica (ap_runtime app)" and "rt_inv replica" and "rt_inv (ap_runtime app)"
    and "pre app"
  shows "same_tables (apply_messages (sent app (op app)) replica) (ap_runtime (op app))"
proof -
  have "same_tables (apply_messages (sent app (op app)) replica)
      (apply_messages (sent app (op app)) (ap_runtime app))"
    using assms by (intro same_tables_messages)
  also have "same_tables \<dots> (ap_runtime (op app))"
    using op_published [OF assms(3,4)] by (simp add: published_def)
  finally show ?thesis .
qed

text \<open>
  So does a replica that receives every message one or more times in a row.
\<close>

lemma replica_follows_stutter:
  assumes "same_tables replica (ap_runtime app)" and "rt_inv replica" and "rt_inv (ap_runtime app)"
    and "pre app" and "length ns = length (sent app (op app))" and "\<forall>n \<in> set ns. 0 < n"
  shows "same_tables (apply_messages (concat (map2 replicate ns (sent app (op app)))) replica)
    (ap_runtime (op app))"
  using replica_follows [OF assms(1-4)] bus.handle_stutter [OF assms(2,6,5)]
  by (simp add: apply_messages_def)

end

text \<open>Recording a request log: a log whose id is new reaches the replicas.\<close>

lemma record_request_log_frame [simp]:
  "ap_writer_tx (record_request_log e app) = ap_writer_tx app @
     [RequestLogInsert e, CacheMetricsUpsert (rt_cache_metrics (ap_runtime (record_request_log e app)))]"
  "rt_request_logs (ap_runtime (record_request_log e app)) =
     push_front_capped REQUEST_LOG_CAP e (rt_request_logs (ap_runtime app))"
  by (simp_all add: record_request_log_def Let_def)

lemma record_request_log_inv [inv_intros]:
  "rt_inv (ap_runtime app) \<Longrightarrow> rt_inv (ap_runtime (record_request_log e app))"
  by (simp add: record_request_log_def Let_def rt_inv_def)

interpretation record_log: publishing
  "\<lambda>app. re_id e \<notin> re_id ` set (rt_request_logs (ap_runtime app))" "record_request_log e" for e
proof (unfold_locales, goal_cases)
  case (2 app)
  then show ?case unfolding record_request_log_def Let_def
    by (intro published_enqueue_many)
      (simp add: handler_defs same_tables_def push_unique_fresh)
qed (simp add: inv_intros)

end
