(* ===== verification/Router.thy ===== *)
theory Router
  imports Pricing
begin

text \<open>
  \<open>scheduler/router.rs\<close>: the rendezvous (highest-random-weight) choice of two candidate accounts,
  the score of a candidate, the reuse test of a lease. The SHA-256 digest of the crate \<open>sha2\<close> is
  the parameter \<open>sha256\<close>, from the bytes hashed to the bytes of the digest.
\<close>

definition u64_from_be_bytes :: "str \<Rightarrow> u64" where
  "u64_from_be_bytes bs = fold (\<lambda>b acc. acc * 256 + word_of_nat (byte b)) bs 0"

text \<open>\<open>principal:model:account:salt\<close> is hashed; the first eight digest bytes over \<open>u64::MAX\<close>.\<close>

definition rendezvous_score :: "(str \<Rightarrow> str) \<Rightarrow> str \<Rightarrow> str \<Rightarrow> str \<Rightarrow> str \<Rightarrow> f64" where
  "rendezvous_score sha256 principal_id model account_id salt =
    (let digest = sha256 (principal_id @ '':'' @ model @ '':'' @ account_id @ '':'' @ salt);
         value = u64_from_be_bytes (take 8 digest)
     in f_div (f_of_word value) (f_of_word (- 1 :: u64)))"

definition select_dual_candidates ::
  "(str \<Rightarrow> str) \<Rightarrow> str \<Rightarrow> str \<Rightarrow> upstream_account list \<Rightarrow> upstream_account list" where
  "select_dual_candidates sha256 principal_id model accounts =
    (let ranked = sort_by (\<lambda>a b. f_cmp (snd b) (snd a))
           (map (\<lambda>account. (account, rendezvous_score sha256 principal_id model (ac_id account) ''a'')) accounts);
         out = map fst (take 2 ranked)
     in if length out < 2 then out
        else
          (let second = map_option fst (max_by (\<lambda>a b. f_cmp (snd a) (snd b))
                 (map (\<lambda>account. (account, rendezvous_score sha256 principal_id model (ac_id account) ''b''))
                   (filter (\<lambda>account. ac_id account \<noteq> ac_id (out ! 0)) accounts)))
           in case second of None \<Rightarrow> out | Some s \<Rightarrow> out[1 := s]))"

definition score_candidate ::
  "upstream_account \<Rightarrow> account_route_state \<Rightarrow> cli_lease option \<Rightarrow> f64" where
  "score_candidate account route_state existing_lease =
    (let cache_affinity =
           (case existing_lease of
              Some lease \<Rightarrow> if ls_account_id lease = ac_id account \<and> ls_model lease \<in> set (ac_models account)
                            then Fin 1 else dec 35 100
            | None \<Rightarrow> dec 35 100);
         sg = ac_signals account;
         headroom = f_clamp
           (if sg_capacity sg = 0 then Fin 1
            else f_sub (Fin 1) (f_div (f_of_word (sg_inflight sg)) (f_of_word (sg_capacity sg))))
           (Fin 0) (Fin 1);
         warp_bonus = (case rs_route_mode route_state of Direct \<Rightarrow> dec 8 100 | Warp \<Rightarrow> dec 4 100)
     in f_add (f_add (f_add (f_add (f_add (f_add
          (f_mul (dec 35 100) cache_affinity)
          (f_mul (dec 20 100) (f_clamp (effective_quota_headroom sg) (Fin 0) (Fin 1))))
          (f_mul (dec 15 100) (f_clamp (sg_health_score sg) (Fin 0) (Fin 1))))
          (f_mul (dec 10 100) (f_clamp (sg_egress_stability sg) (Fin 0) (Fin 1))))
          (f_mul (dec 10 100) (f_clamp (sg_fairness_bias sg) (Fin 0) (Fin 1))))
          (f_mul (dec 10 100) headroom))
          warp_bonus)"

text \<open>The reuse test reads the clock itself (\<open>now\<close> is that reading).\<close>

definition should_reuse_lease ::
  "cli_lease \<Rightarrow> upstream_account \<Rightarrow> account_route_state \<Rightarrow> instant \<Rightarrow> bool" where
  "should_reuse_lease lease account route_state now =
    (if ls_account_id lease \<noteq> ac_id account \<or> ls_model lease \<notin> set (ac_models account) then False
     else if (case rs_cooldown_until route_state of None \<Rightarrow> False | Some until \<Rightarrow> until > now) then False
     else True)"

subsection \<open>Rendezvous scores\<close>

text \<open>Scores are finite numbers of the unit interval, whatever the digest.\<close>

lemma rendezvous_score_unit: "f_unit (rendezvous_score h p m a s)"
  unfolding rendezvous_score_def Let_def
  by (rule f_ratio_unit) (simp_all add: word_order.extremum word_gt_0)

fun f_val :: "f64 \<Rightarrow> rat" where
  "f_val (Fin r) = r"
| "f_val _ = 0"

lemma f_cmp_units: "f_unit x \<Longrightarrow> f_unit y \<Longrightarrow> f_cmp x y = cmp (f_val x) (f_val y)"
  by (auto simp: f_unit_iff f_cmp_Fin)

definition weight :: "(str \<Rightarrow> str) \<Rightarrow> str \<Rightarrow> str \<Rightarrow> str \<Rightarrow> upstream_account \<Rightarrow> rat" where
  "weight h p m s a = f_val (rendezvous_score h p m (ac_id a) s)"

lemma insert_by_map:
  assumes "\<And>x y. c (f x) (f y) = d x y"
  shows "insert_by c (f x) (map f ys) = map f (insert_by d x ys)"
  by (induction ys) (auto simp: assms)

lemma sort_by_map:
  assumes "\<And>x y. c (f x) (f y) = d x y"
  shows "sort_by c (map f xs) = map f (sort_by d xs)"
  by (induction xs) (auto simp: sort_by_def insert_by_map [of c f d, OF assms])

lemma max_by_map:
  assumes "\<And>x y. c (f x) (f y) = d x y"
  shows "max_by c (map f xs) = map_option f (max_by d xs)"
proof -
  have "fold (\<lambda>y m. if c m y = Greater then m else y) (map f xs) (f x) =
      f (fold (\<lambda>y m. if d m y = Greater then m else y) xs x)" for x xs
    by (induction xs arbitrary: x) (auto simp: assms)
  then show ?thesis by (cases xs) auto
qed

text \<open>The greatest element of a list, as the last of the stably sorted list.\<close>

lemma max_by_cons:
  "max_by c (x # xs) = (case xs of [] \<Rightarrow> Some x | y # ys \<Rightarrow>
     max_by c ((if c x y = Greater then x else y) # ys))"
  by (cases xs) auto

lemma last_insort_key: "sorted (map f ys) \<Longrightarrow>
  last (insort_key f x ys) = (if ys = [] \<or> f (last ys) < f x then x else last ys)"
proof (induction ys)
  case (Cons y ys)
  show ?case
  proof (cases "ys = []")
    case False
    with Cons.prems have "f y \<le> f (last ys)" by simp
    moreover from Cons have "last (insort_key f x ys) = (if f (last ys) < f x then x else last ys)"
      using False by simp
    moreover have "insort_key f x ys \<noteq> []" by (cases ys) auto
    ultimately show ?thesis using False by (simp split: if_split) (meson dual_order.trans not_le)
  qed auto
qed simp

lemma last_sort_Cons: "last (sort_key f (x # xs)) =
  (if xs = [] \<or> f (last (sort_key f xs)) < f x then x else last (sort_key f xs))"
proof -
  have "sort_key f xs = [] \<longleftrightarrow> xs = []" by (metis length_0_conv length_sort)
  with last_insort_key [of f "sort_key f xs" x] show ?thesis by simp
qed

lemma fold_max_last:
  fixes f :: "'a \<Rightarrow> 'b::linorder"
  shows "fold (\<lambda>y m. if f y < f m then m else y) xs x = last (sort_key f (x # xs))"
proof (induction xs arbitrary: x)
  case (Cons y ys)
  have "last (sort_key f (x # y # ys)) = last (sort_key f ((if f y < f x then x else y) # ys))"
    unfolding last_sort_Cons by (auto intro: less_trans)
  moreover have "fold (\<lambda>y m. if f y < f m then m else y) (y # ys) x =
      fold (\<lambda>y m. if f y < f m then m else y) ys (if f y < f x then x else y)" by simp
  ultimately show ?case by (simp only: Cons.IH)
qed simp

lemma max_by_last: "xs \<noteq> [] \<Longrightarrow> max_by (\<lambda>a b. cmp (f a) (f b)) xs = Some (last (sort_key f xs))"
  using fold_max_last [of f] by (cases xs) auto

lemma max_by_filter:
  assumes "max_by (\<lambda>a b. cmp (f a) (f b)) xs = Some m" and "P m"
  shows "max_by (\<lambda>a b. cmp (f a) (f b)) (filter P xs) = Some m"
proof -
  have ne: "xs \<noteq> []" using assms(1) by auto
  then have m: "m = last (sort_key f xs)" using assms(1) max_by_last [OF ne, of f] by simp
  have s: "sort_key f xs \<noteq> []" using ne by (metis length_0_conv length_sort)
  from m s have "sort_key f xs = butlast (sort_key f xs) @ [m]" by simp
  then have "filter P (sort_key f xs) = filter P (butlast (sort_key f xs)) @ [m]"
    using assms(2) by (metis filter.simps filter_append)
  then have l: "last (sort_key f (filter P xs)) = m" and "sort_key f (filter P xs) \<noteq> []"
    by (simp_all add: filter_sort [symmetric])
  then have "filter P xs \<noteq> []" by auto
  with l show ?thesis by (simp add: max_by_last)
qed

subsection \<open>The two candidates\<close>

text \<open>
  The same selection over \<open>weight\<close>s: the two heaviest accounts under salt \<open>a\<close>, the second replaced
  by the heaviest other account under salt \<open>b\<close>.
\<close>

definition ranked :: "(str \<Rightarrow> str) \<Rightarrow> str \<Rightarrow> str \<Rightarrow> upstream_account list \<Rightarrow> upstream_account list" where
  "ranked h p m accounts = sort_key (\<lambda>a. - weight h p m ''a'' a) accounts"

definition runner_up :: "(str \<Rightarrow> str) \<Rightarrow> str \<Rightarrow> str \<Rightarrow> str \<Rightarrow> upstream_account list \<Rightarrow> upstream_account option" where
  "runner_up h p m i accounts =
     max_by (\<lambda>a b. cmp (weight h p m ''b'' a) (weight h p m ''b'' b)) (filter (\<lambda>a. ac_id a \<noteq> i) accounts)"

lemma cmp_uminus: "cmp (- a) (- b) = cmp b (a :: rat)"
  by (auto simp: cmp_def)

lemma select_dual_candidates_eq:
  "select_dual_candidates h p m accounts =
    (case ranked h p m accounts of
       [] \<Rightarrow> []
     | [a] \<Rightarrow> [a]
     | a # b # _ \<Rightarrow> (case runner_up h p m (ac_id a) accounts of None \<Rightarrow> [a, b] | Some c \<Rightarrow> [a, c]))"
proof -
  let ?f = "\<lambda>s account. (account, rendezvous_score h p m (ac_id account) s)"
  have "sort_by (\<lambda>a b. f_cmp (snd b) (snd a)) (map (?f ''a'') accounts) = map (?f ''a'') (ranked h p m accounts)"
    unfolding ranked_def sort_by_key [symmetric]
    by (intro sort_by_map) (simp add: f_cmp_units rendezvous_score_unit weight_def cmp_uminus)
  moreover have "max_by (\<lambda>a b. f_cmp (snd a) (snd b)) (map (?f ''b'') xs) =
      map_option (?f ''b'') (max_by (\<lambda>a b. cmp (weight h p m ''b'' a) (weight h p m ''b'' b)) xs)" for xs
    by (intro max_by_map) (simp add: f_cmp_units rendezvous_score_unit weight_def)
  ultimately show ?thesis
    by (auto simp: select_dual_candidates_def Let_def runner_up_def option.map_comp o_def
        split: list.split option.split)
qed

lemma set_ranked [simp]: "set (ranked h p m accounts) = set accounts"
  by (simp add: ranked_def)

lemma length_ranked [simp]: "length (ranked h p m accounts) = length accounts"
  by (simp add: ranked_def)

lemma runner_up_mem: "runner_up h p m i accounts = Some c \<Longrightarrow> c \<in> set accounts \<and> ac_id c \<noteq> i"
  unfolding runner_up_def using max_by_mem by fastforce

lemma select_dual_subset: "set (select_dual_candidates h p m accounts) \<subseteq> set accounts"
proof (cases "ranked h p m accounts" rule: remdups_adj.cases)
  case (2 a)
  then have "set accounts = {a}" using set_ranked [of h p m accounts] unfolding 2 by simp
  with 2 show ?thesis by (simp add: select_dual_candidates_eq)
next
  case (3 a b rest)
  then have "{a, b} \<subseteq> set accounts" using set_ranked [of h p m accounts] unfolding 3 by auto
  with 3 show ?thesis
    by (auto simp: select_dual_candidates_eq dest: runner_up_mem split: option.splits)
qed (simp add: select_dual_candidates_eq)

lemma select_dual_length: "length (select_dual_candidates h p m accounts) = min 2 (length accounts)"
  using length_ranked [of h p m accounts]
  by (auto simp: select_dual_candidates_eq split: list.splits option.splits simp del: length_ranked)

lemma select_dual_distinct_ids:
  assumes "distinct (map ac_id accounts)"
  shows "distinct (map ac_id (select_dual_candidates h p m accounts))"
proof -
  have "mset (map ac_id (ranked h p m accounts)) = mset (map ac_id accounts)"
    by (simp add: ranked_def)
  then have "distinct (map ac_id (ranked h p m accounts))"
    using assms mset_eq_imp_distinct_iff by blast
  then show ?thesis
    by (auto simp: select_dual_candidates_eq dest: runner_up_mem split: list.splits option.splits)
qed

text \<open>
  The point of rendezvous hashing: removing accounts that were not chosen leaves the choice as it
  was.
\<close>

lemma ranked_filter: "ranked h p m (filter P accounts) = filter P (ranked h p m accounts)"
  by (simp add: ranked_def filter_sort)

lemma runner_up_filter:
  "runner_up h p m i accounts = Some c \<Longrightarrow> P c \<Longrightarrow> runner_up h p m i (filter P accounts) = Some c"
  using max_by_filter [of "weight h p m ''b''" "filter (\<lambda>a. ac_id a \<noteq> i) accounts" c P]
  by (simp add: runner_up_def conj_commute)

lemma runner_up_filter_None:
  "runner_up h p m i accounts = None \<Longrightarrow> runner_up h p m i (filter P accounts) = None"
  by (auto simp: runner_up_def filter_empty_conv)

lemma select_dual_stable:
  assumes "\<forall>a \<in> set (select_dual_candidates h p m accounts). P a"
  shows "select_dual_candidates h p m (filter P accounts) = select_dual_candidates h p m accounts"
proof (cases "ranked h p m accounts" rule: remdups_adj.cases)
  case 1
  then show ?thesis by (simp add: select_dual_candidates_eq ranked_filter)
next
  case (2 a)
  with assms show ?thesis by (simp add: select_dual_candidates_eq ranked_filter)
next
  case (3 a b rest)
  show ?thesis
  proof (cases "runner_up h p m (ac_id a) accounts")
    case None
    with 3 assms show ?thesis
      by (simp add: select_dual_candidates_eq ranked_filter runner_up_filter_None)
  next
    case (Some c)
    with 3 assms have P: "P a" "P c" by (simp_all add: select_dual_candidates_eq)
    from Some have c: "c \<in> set (ranked h p m accounts)" "ac_id c \<noteq> ac_id a"
      using runner_up_mem by fastforce+
    with 3 P have "c \<in> set (filter P (b # rest))" by auto
    then obtain d ds where "filter P (b # rest) = d # ds" by (cases "filter P (b # rest)") auto
    with 3 P have "ranked h p m (filter P accounts) = a # d # ds" by (simp add: ranked_filter)
    with Some 3 P show ?thesis by (simp add: select_dual_candidates_eq runner_up_filter)
  qed
qed

end
