(* ===== verification/Leases.thy ===== *)
theory Leases
  imports Replication Router
begin

text \<open>
  Lease selection, \<open>resolve_lease_outcome\<close> of \<open>state.rs\<close>: the reconciliation of route
  modes, the pools of accounts that can serve a request, the scan that sets aside accounts in
  cooldown, the reuse of a principal's lease and the choice of a fresh one.

  The operation is one transition, except for the gap between the snapshots it decides on and the write
  lock of the leases: what other tasks do in it is the parameter \<open>interfere\<close>. The reuse path provides for
  an eviction there, the choice of a fresh lease for nothing. \<open>now\<close> is the clock read on entry, \<open>reuse_now\<close> the one
  \<open>should_reuse_lease\<close> reads.
\<close>

datatype lease_selection_exhausted_kind = QuotaExhausted | Cooldown | Capability | NoneAvailable

fun exhausted_kind_as_str :: "lease_selection_exhausted_kind \<Rightarrow> str" where
  "exhausted_kind_as_str QuotaExhausted = ''quota_exhausted''"
| "exhausted_kind_as_str Cooldown = ''cooldown''"
| "exhausted_kind_as_str Capability = ''capability''"
| "exhausted_kind_as_str NoneAvailable = ''unavailable''"

record lease_selection_exhausted =
  le_kind :: lease_selection_exhausted_kind
  le_attempted_account_ids :: "str list"
  le_skipped_quota_count :: nat
  le_skipped_cooldown_count :: nat
  le_skipped_inflight_count :: nat
  le_skipped_capability_count :: nat
  le_skipped_unavailable_count :: nat
  le_earliest_reset_at :: "instant option"
  le_earliest_retry_at :: "instant option"

datatype lease_selection_outcome =
    Selected cli_lease str warmup_decision
  | Exhausted lease_selection_exhausted

subsection \<open>Route-mode reconciliation before selection\<close>

fun sync_modes :: "account_route_state list \<Rightarrow> (str, upstream_account) hmap
    \<Rightarrow> (str, upstream_account) hmap \<times> upstream_account list" where
  "sync_modes [] accounts = (accounts, [])"
| "sync_modes (r # rs) accounts =
    (case hm_get accounts (rs_account_id r) of
       None \<Rightarrow> sync_modes rs accounts
     | Some account \<Rightarrow>
         (let account = account\<lparr>ac_current_mode := rs_route_mode r\<rparr>;
              (accounts, updated) = sync_modes rs (hm_insert (rs_account_id r) account accounts)
          in (accounts, account # updated)))"

definition changed_route_states :: "instant \<Rightarrow> runtime_state \<Rightarrow> account_route_state list" where
  "changed_route_states now rt =
     map (\<lambda>r. reconcile_route_mode r now)
       (filter (\<lambda>r. rs_route_mode (reconcile_route_mode r now) \<noteq> rs_route_mode r)
         (hm_values (rt_route_states rt)))"

definition reconcile_routes :: "instant \<Rightarrow> app_state \<Rightarrow> app_state" where
  "reconcile_routes now app =
    (let changed = changed_route_states now (ap_runtime app);
         app = on_runtime (\<lambda>rt. rt\<lparr>rt_route_states :=
                 hm_map (\<lambda>r. reconcile_route_mode r now) (rt_route_states rt)\<rparr>) app
     in if changed = [] then app
        else
          (let (accounts, updated) = sync_modes changed (rt_accounts (ap_runtime app))
           in enqueue_many (map RouteStateUpsert changed @ map AccountUpsert updated)
                (on_runtime (\<lambda>rt. rt\<lparr>rt_accounts := accounts\<rparr>) app)))"

subsection \<open>The pools and the scan\<close>

definition tenant_accounts :: "runtime_state \<Rightarrow> uuid \<Rightarrow> upstream_account list" where
  "tenant_accounts rt tenant_id =
     filter (\<lambda>account. ac_tenant_id account = tenant_id) (hm_values (rt_accounts rt))"

definition tenant_routable_accounts :: "runtime_state \<Rightarrow> uuid \<Rightarrow> upstream_account list" where
  "tenant_routable_accounts rt tenant_id =
    (let credentialed = filter (\<lambda>account. ac_id account \<in> set (hm_keys (rt_credentials rt)))
           (tenant_accounts rt tenant_id)
     in filter (\<lambda>account. credential_is_routable_for_selection
          (hm_get (rt_credentials rt) (ac_id account))) credentialed)"

definition tenant_model_accounts :: "runtime_state \<Rightarrow> uuid \<Rightarrow> str \<Rightarrow> upstream_account list" where
  "tenant_model_accounts rt tenant_id model =
     filter (\<lambda>account. list_ex (\<lambda>m. m = model) (ac_models account))
       (tenant_routable_accounts rt tenant_id)"

record scan =
  sc_quota :: nat
  sc_cooldown :: nat
  sc_reset_at :: "instant option"
  sc_retry_at :: "instant option"
  sc_candidates :: "upstream_account list"

fun earliest :: "instant option \<Rightarrow> instant option \<Rightarrow> instant option" where
  "earliest (Some current) (Some candidate) = Some (min current candidate)"
| "earliest (Some current) None = Some current"
| "earliest None candidate = candidate"

definition scan_account ::
  "(str, account_route_state) hmap \<Rightarrow> instant \<Rightarrow> upstream_account \<Rightarrow> scan \<Rightarrow> scan" where
  "scan_account route_states now account s =
    (case hm_get route_states (ac_id account) of
       None \<Rightarrow> s\<lparr>sc_candidates := sc_candidates s @ [account]\<rparr>
     | Some route_state \<Rightarrow>
         if route_state_is_quota_exhausted route_state now then
           s\<lparr>sc_quota := sc_quota s + 1,
             sc_reset_at := earliest (sc_reset_at s) (rs_cooldown_until route_state),
             sc_retry_at := earliest (sc_retry_at s) (rs_cooldown_until route_state)\<rparr>
         else if is_in_cooldown route_state now then
           s\<lparr>sc_cooldown := sc_cooldown s + 1,
             sc_retry_at := earliest (sc_retry_at s) (rs_cooldown_until route_state)\<rparr>
         else s\<lparr>sc_candidates := sc_candidates s @ [account]\<rparr>)"

definition scan_accounts ::
  "(str, account_route_state) hmap \<Rightarrow> instant \<Rightarrow> upstream_account list \<Rightarrow> scan" where
  "scan_accounts route_states now accounts =
     fold (scan_account route_states now) accounts
       \<lparr>sc_quota = 0, sc_cooldown = 0, sc_reset_at = None, sc_retry_at = None, sc_candidates = []\<rparr>"

definition sort_by_label :: "upstream_account list \<Rightarrow> upstream_account list" where
  "sort_by_label accounts = sort_by (\<lambda>a b. cmp (ac_label a) (ac_label b)) accounts"

subsection \<open>Reuse of the principal's lease\<close>

definition refresh_reusable_lease_snapshot ::
  "(str, cli_lease) hmap \<Rightarrow> str \<Rightarrow> u32 \<Rightarrow> route_mode \<Rightarrow> instant
     \<Rightarrow> ((str, cli_lease) hmap \<times> cli_lease) option" where
  "refresh_reusable_lease_snapshot leases principal_id subagent_count route_mode now =
    (case hm_get leases principal_id of
       None \<Rightarrow> None
     | Some lease \<Rightarrow>
         (let lease = lease\<lparr>ls_last_used_at := now, ls_active_subagents := subagent_count,
                            ls_route_mode := route_mode\<rparr>
          in Some (hm_insert principal_id lease leases, lease)))"

text \<open>The account and route state a stored lease may be reused with.\<close>

definition reusable_binding ::
  "runtime_state \<Rightarrow> lease_selection_request \<Rightarrow> instant \<Rightarrow> account_route_state option" where
  "reusable_binding rt request reuse_now =
    (case hm_get (rt_leases rt) (lq_principal_id request) of
       None \<Rightarrow> None
     | Some existing \<Rightarrow>
         (case (find (\<lambda>account. ac_id account = ls_account_id existing) (hm_values (rt_accounts rt)),
                hm_get (rt_route_states rt) (ls_account_id existing)) of
            (Some account, Some route_state) \<Rightarrow>
              if ac_id account \<in> set (hm_keys (rt_credentials rt))
                 \<and> credential_is_routable_for_selection (hm_get (rt_credentials rt) (ac_id account))
                 \<and> should_reuse_lease existing account route_state reuse_now
                 \<and> lq_model request \<in> set (ac_models account)
              then Some route_state else None
          | _ \<Rightarrow> None))"

definition reuse_lease ::
  "lease_selection_request \<Rightarrow> instant \<Rightarrow> account_route_state \<Rightarrow> app_state
     \<Rightarrow> (lease_selection_outcome \<times> app_state) option" where
  "reuse_lease request now route_state app =
    (case refresh_reusable_lease_snapshot (rt_leases (ap_runtime app)) (lq_principal_id request)
            (lq_subagent_count request) (rs_route_mode route_state) now of
       None \<Rightarrow> None
     | Some (leases, lease) \<Rightarrow>
         (let app = on_runtime (\<lambda>rt. rt\<lparr>rt_leases := leases\<rparr>) app;
              metrics = current_cache_metrics_snapshot (rt_cache_metrics (ap_runtime app))
                (rt_request_logs (ap_runtime app))
          in Some (Selected lease (lq_cache_affinity_key request) (observed_warmup_decision metrics),
               enqueue (LeaseUpsert lease) app)))"

subsection \<open>A fresh lease\<close>

definition exhausted_kind :: "runtime_state \<Rightarrow> lease_selection_request \<Rightarrow> scan \<Rightarrow> lease_selection_exhausted_kind" where
  "exhausted_kind rt request s =
    (let model_accounts = tenant_model_accounts rt (lq_tenant_id request) (lq_model request)
     in if model_accounts = [] then
          (if tenant_routable_accounts rt (lq_tenant_id request) = [] then NoneAvailable else Capability)
        else if sc_quota s = length model_accounts \<and> 0 < sc_quota s then QuotaExhausted
        else if 0 < sc_cooldown s then Cooldown
        else NoneAvailable)"

definition exhausted ::
  "runtime_state \<Rightarrow> lease_selection_request \<Rightarrow> scan \<Rightarrow> lease_selection_exhausted_kind \<Rightarrow> lease_selection_outcome" where
  "exhausted rt request s kind =
    (let model_accounts = tenant_model_accounts rt (lq_tenant_id request) (lq_model request);
         routable = tenant_routable_accounts rt (lq_tenant_id request)
     in Exhausted \<lparr>le_kind = kind, le_attempted_account_ids = map ac_id model_accounts,
          le_skipped_quota_count = sc_quota s, le_skipped_cooldown_count = sc_cooldown s,
          le_skipped_inflight_count = 0,
          le_skipped_capability_count =
            (if routable = [] then 0 else length routable - length model_accounts),
          le_skipped_unavailable_count =
            length (tenant_accounts rt (lq_tenant_id request)) - length routable,
          le_earliest_reset_at = sc_reset_at s, le_earliest_retry_at = sc_retry_at s\<rparr>)"

definition choose_account ::
  "(str \<Rightarrow> str) \<Rightarrow> runtime_state \<Rightarrow> lease_selection_request \<Rightarrow> cli_lease option
     \<Rightarrow> upstream_account list \<Rightarrow> upstream_account option" where
  "choose_account sha256 rt request existing_lease candidate_accounts =
    (let dual_candidates = select_dual_candidates sha256 (lq_placement_affinity_key request)
           (lq_model request) candidate_accounts;
         scored = List.map_filter (\<lambda>account.
             map_option (\<lambda>route_state. (account, score_candidate account route_state existing_lease))
               (hm_get (rt_route_states rt) (ac_id account))) dual_candidates
     in case max_by (\<lambda>a b. f_cmp (snd a) (snd b)) scored of
          Some (account, _) \<Rightarrow> Some account
        | None \<Rightarrow> (case candidate_accounts of [] \<Rightarrow> None | account # _ \<Rightarrow> Some account))"

definition fresh_lease ::
  "runtime_state \<Rightarrow> lease_selection_request \<Rightarrow> instant \<Rightarrow> cli_lease option \<Rightarrow> upstream_account \<Rightarrow> cli_lease" where
  "fresh_lease rt request now existing_lease account =
    \<lparr>ls_principal_id = lq_principal_id request, ls_tenant_id = lq_tenant_id request,
     ls_account_id = ac_id account, ls_account_label = ac_label account,
     ls_model = lq_model request, ls_reasoning_effort = lq_reasoning_effort request,
     ls_route_mode = (case hm_get (rt_route_states rt) (ac_id account) of
       Some route_state \<Rightarrow> rs_route_mode route_state | None \<Rightarrow> ac_current_mode account),
     ls_generation = (case existing_lease of Some lease \<Rightarrow> ls_generation lease + 1 | None \<Rightarrow> 1),
     ls_active_subagents = lq_subagent_count request, ls_created_at = now, ls_last_used_at = now\<rparr>"

definition bind_lease :: "lease_selection_request \<Rightarrow> cli_lease \<Rightarrow> app_state \<Rightarrow> lease_selection_outcome \<times> app_state" where
  "bind_lease request lease app =
    (let metrics = current_cache_metrics_snapshot (rt_cache_metrics (ap_runtime app))
           (rt_request_logs (ap_runtime app));
         app = on_runtime (\<lambda>rt. rt\<lparr>rt_leases := hm_insert (lq_principal_id request) lease (rt_leases rt),
                 rt_cache_metrics := metrics\<rparr>) app
     in (Selected lease (lq_cache_affinity_key request) (observed_warmup_decision metrics),
         enqueue_many [LeaseUpsert lease, CacheMetricsUpsert metrics] app))"

definition select_fresh ::
  "(str \<Rightarrow> str) \<Rightarrow> lease_selection_request \<Rightarrow> instant \<Rightarrow> runtime_state \<Rightarrow> app_state
     \<Rightarrow> lease_selection_outcome \<times> app_state" where
  "select_fresh sha256 request now rt app =
    (let s = scan_accounts (rt_route_states rt) now
           (tenant_model_accounts rt (lq_tenant_id request) (lq_model request));
         candidates = sort_by_label (sc_candidates s);
         existing_lease = hm_get (rt_leases rt) (lq_principal_id request)
     in if candidates = [] then (exhausted rt request s (exhausted_kind rt request s), app)
        else case choose_account sha256 rt request existing_lease candidates of
          None \<Rightarrow> (exhausted rt request s NoneAvailable, app)
        | Some account \<Rightarrow> bind_lease request (fresh_lease rt request now existing_lease account) app)"

text \<open>The whole operation; \<open>rt\<close> is the snapshot it decides on.\<close>

definition resolve_lease_outcome_with ::
  "(app_state \<Rightarrow> app_state) \<Rightarrow> (str \<Rightarrow> str) \<Rightarrow> lease_selection_request \<Rightarrow> instant \<Rightarrow> instant
     \<Rightarrow> app_state \<Rightarrow> lease_selection_outcome \<times> app_state" where
  "resolve_lease_outcome_with interfere sha256 request now reuse_now app =
    (let app = reconcile_routes now app;
         rt = ap_runtime app;
         app = interfere app
     in case reusable_binding rt request reuse_now of
          None \<Rightarrow> select_fresh sha256 request now rt app
        | Some route_state \<Rightarrow>
            (case reuse_lease request now route_state app of
               Some result \<Rightarrow> result
             | None \<Rightarrow> select_fresh sha256 request now rt app))"

definition resolve_lease_outcome ::
  "(str \<Rightarrow> str) \<Rightarrow> lease_selection_request \<Rightarrow> instant \<Rightarrow> instant
     \<Rightarrow> app_state \<Rightarrow> lease_selection_outcome \<times> app_state" where
  "resolve_lease_outcome sha256 = resolve_lease_outcome_with (\<lambda>app. app) sha256"

definition resolve_lease ::
  "(str \<Rightarrow> str) \<Rightarrow> lease_selection_request \<Rightarrow> instant \<Rightarrow> instant
     \<Rightarrow> app_state \<Rightarrow> (cli_lease \<times> str \<times> warmup_decision) option \<times> app_state" where
  "resolve_lease sha256 request now reuse_now app =
    (case resolve_lease_outcome sha256 request now reuse_now app of
       (Selected lease prompt_cache_key warmup, app) \<Rightarrow> (Some (lease, prompt_cache_key, warmup), app)
     | (Exhausted _, app) \<Rightarrow> (None, app))"

subsection \<open>Waiting for a quota slot\<close>

text \<open>
  The sleep of one round, in nanoseconds: at most five seconds, one second when the reset has
  passed.
\<close>

definition quota_wait :: "instant \<Rightarrow> instant option \<Rightarrow> int" where
  "quota_wait now earliest_reset_at =
    (case earliest_reset_at of
       None \<Rightarrow> secs 5
     | Some reset_at \<Rightarrow> min (if reset_at \<le> now then secs 1 else reset_at - now) (secs 5))"

text \<open>
  The loop runs until an outcome is not quota exhaustion. A round is the clock before the sleep,
  what the other tasks did during the sleep, and the two clocks of the attempt. \<open>None\<close> says that
  the loop still waits when the rounds end; the waits it slept are returned beside.
\<close>

fun wait_for_quota_slot ::
  "(str \<Rightarrow> str) \<Rightarrow> lease_selection_request \<Rightarrow> (instant \<times> (app_state \<Rightarrow> app_state) \<times> instant \<times> instant) list
     \<Rightarrow> instant option \<Rightarrow> app_state \<Rightarrow> int list \<times> (lease_selection_outcome \<times> app_state) option" where
  "wait_for_quota_slot sha256 request [] earliest_reset_at app = ([], None)"
| "wait_for_quota_slot sha256 request ((now, others, resolve_now, reuse_now) # rounds) earliest_reset_at app =
    (let wait_for = quota_wait now earliest_reset_at
     in case resolve_lease_outcome sha256 request resolve_now reuse_now (others app) of
          (Exhausted e, app) \<Rightarrow>
            if le_kind e = QuotaExhausted then
              (let (waits, result) = wait_for_quota_slot sha256 request rounds
                     (case le_earliest_retry_at e of Some t \<Rightarrow> Some t | None \<Rightarrow> le_earliest_reset_at e) app
               in (wait_for # waits, result))
            else ([wait_for], Some (Exhausted e, app))
        | outcome \<Rightarrow> ([wait_for], Some outcome))"

end
