(* ===== verification/Lease_Laws.thy ===== *)
theory Lease_Laws
  imports Leases
begin

text \<open>
  What lease selection promises: which accounts it may bind, when it reports exhaustion and with
  which numbers, that a lease sticks to its account, and that replicas follow.
\<close>

subsection \<open>Pools and scan\<close>

text \<open>An account that can serve a tenant's requests for a model.\<close>

definition can_serve :: "runtime_state \<Rightarrow> uuid \<Rightarrow> str \<Rightarrow> upstream_account \<Rightarrow> bool" where
  "can_serve rt tenant_id model account \<longleftrightarrow>
     ac_tenant_id account = tenant_id
   \<and> credential_is_routable_for_selection (hm_get (rt_credentials rt) (ac_id account))
   \<and> model \<in> set (ac_models account)"

definition cooling :: "(str, account_route_state) hmap \<Rightarrow> instant \<Rightarrow> upstream_account \<Rightarrow> bool" where
  "cooling route_states now account \<longleftrightarrow>
     (case hm_get route_states (ac_id account) of None \<Rightarrow> False | Some r \<Rightarrow> is_in_cooldown r now)"

definition quota_spent :: "(str, account_route_state) hmap \<Rightarrow> instant \<Rightarrow> upstream_account \<Rightarrow> bool" where
  "quota_spent route_states now account \<longleftrightarrow>
     (case hm_get route_states (ac_id account) of None \<Rightarrow> False | Some r \<Rightarrow> route_state_is_quota_exhausted r now)"

lemma routable_has_credential:
  "credential_is_routable_for_selection (hm_get m k) \<Longrightarrow> k \<in> set (hm_keys m)"
  by (auto simp: credential_is_routable_for_selection_def hm_keys_def map_of_eq_None_iff)

lemma mem_model_accounts: "account \<in> set (tenant_model_accounts rt tenant_id model) \<longleftrightarrow>
    account \<in> set (hm_values (rt_accounts rt)) \<and> can_serve rt tenant_id model account"
  by (auto simp: tenant_model_accounts_def tenant_routable_accounts_def tenant_accounts_def
      can_serve_def list_ex_iff routable_has_credential)

lemma quota_spent_cooling: "quota_spent rs now a \<Longrightarrow> cooling rs now a"
  by (auto simp: quota_spent_def cooling_def quota_exhausted_cooldown split: option.splits)

definition cooldown_end :: "(str, account_route_state) hmap \<Rightarrow> upstream_account \<Rightarrow> instant option" where
  "cooldown_end route_states account =
     Option.bind (hm_get route_states (ac_id account)) rs_cooldown_until"

lemma scan_account_eq: "scan_account rs now a s =
    (if quota_spent rs now a then s\<lparr>sc_quota := sc_quota s + 1,
        sc_reset_at := earliest (sc_reset_at s) (cooldown_end rs a),
        sc_retry_at := earliest (sc_retry_at s) (cooldown_end rs a)\<rparr>
     else if cooling rs now a then s\<lparr>sc_cooldown := sc_cooldown s + 1,
        sc_retry_at := earliest (sc_retry_at s) (cooldown_end rs a)\<rparr>
     else s\<lparr>sc_candidates := sc_candidates s @ [a]\<rparr>)"
  by (auto simp: scan_account_def quota_spent_def cooling_def cooldown_end_def split: option.splits)

lemma scan_fold:
  "fold (scan_account rs now) xs s = s\<lparr>
     sc_quota := sc_quota s + length (filter (quota_spent rs now) xs),
     sc_cooldown := sc_cooldown s + length (filter (\<lambda>a. cooling rs now a \<and> \<not> quota_spent rs now a) xs),
     sc_reset_at := foldl earliest (sc_reset_at s) (map (cooldown_end rs) (filter (quota_spent rs now) xs)),
     sc_retry_at := foldl earliest (sc_retry_at s) (map (cooldown_end rs) (filter (cooling rs now) xs)),
     sc_candidates := sc_candidates s @ filter (\<lambda>a. \<not> cooling rs now a) xs\<rparr>"
proof (induction xs arbitrary: s)
  case (Cons a xs)
  show ?case
    using quota_spent_cooling [of rs now a]
    by (cases "quota_spent rs now a"; cases "cooling rs now a")
      (simp_all add: Cons.IH scan_account_eq [of rs now a])
qed simp

lemma scan_eqs [simp]:
  "sc_quota (scan_accounts rs now xs) = length (filter (quota_spent rs now) xs)"
  "sc_cooldown (scan_accounts rs now xs) = length (filter (\<lambda>a. cooling rs now a \<and> \<not> quota_spent rs now a) xs)"
  "sc_retry_at (scan_accounts rs now xs) = foldl earliest None (map (cooldown_end rs) (filter (cooling rs now) xs))"
  "sc_reset_at (scan_accounts rs now xs) = foldl earliest None (map (cooldown_end rs) (filter (quota_spent rs now) xs))"
  "sc_candidates (scan_accounts rs now xs) = filter (\<lambda>a. \<not> cooling rs now a) xs"
  by (simp_all add: scan_accounts_def scan_fold)

lemma length_filter_split:
  "(\<And>x. P x \<Longrightarrow> Q x) \<Longrightarrow>
     length (filter P xs) + length (filter (\<lambda>x. Q x \<and> \<not> P x) xs) = length (filter Q xs)"
  by (induction xs) auto

text \<open>The least of a list of instants that are all present.\<close>

lemma foldl_earliest_Some: "foldl earliest (Some t) (map Some ts) = Some (Min (insert t (set ts)))"
proof (induction ts arbitrary: t)
  case (Cons u ts)
  have "Min (insert (min t u) (set ts)) = Min (insert t (insert u (set ts)))"
    by (cases "ts = []") (simp_all add: min.assoc)
  with Cons show ?case by simp
qed simp

lemma foldl_earliest: "ts \<noteq> [] \<Longrightarrow> foldl earliest None (map Some ts) = Some (Min (set ts))"
  by (cases ts) (simp_all add: foldl_earliest_Some)

lemma cooling_end: "cooling rs now a \<Longrightarrow> \<exists>t. cooldown_end rs a = Some t \<and> now < t"
  by (auto simp: cooling_def cooldown_end_def is_in_cooldown_def split: option.splits)

lemma map_cooldown_end:
  "(\<And>a. a \<in> set xs \<Longrightarrow> cooling rs now a) \<Longrightarrow>
     map (cooldown_end rs) xs = map Some (map (the \<circ> cooldown_end rs) xs)"
  using cooling_end by fastforce

subsection \<open>The choice\<close>

lemma set_sort_by_label [simp]: "set (sort_by_label xs) = set xs"
  by (simp add: sort_by_label_def)

lemma sort_by_label_Nil [simp]: "sort_by_label xs = [] \<longleftrightarrow> xs = []"
  by (simp add: sort_by_label_def)

lemma choose_account_mem: "choose_account h rt request l xs = Some a \<Longrightarrow> a \<in> set xs"
proof -
  assume c: "choose_account h rt request l xs = Some a"
  let ?dual = "select_dual_candidates h (lq_placement_affinity_key request) (lq_model request) xs"
  let ?scored = "List.map_filter (\<lambda>account. map_option (\<lambda>route_state.
      (account, score_candidate account route_state l)) (hm_get (rt_route_states rt) (ac_id account))) ?dual"
  have "fst p \<in> set ?dual" if "p \<in> set ?scored" for p
    using that by (auto simp: List.map_filter_def split: if_splits)
  then have "fst p \<in> set xs" if "p \<in> set ?scored" for p
    using that select_dual_subset by blast
  with c show ?thesis
    unfolding choose_account_def Let_def
    by (fastforce split: option.splits list.splits dest: max_by_mem)
qed

lemma choose_account_ex: "xs \<noteq> [] \<Longrightarrow> \<exists>a. choose_account h rt request l xs = Some a"
  unfolding choose_account_def Let_def by (auto split: option.splits list.splits)

subsection \<open>Reconciliation\<close>

text \<open>Every stored route state is one of the machine's (\<open>cf_inv\<close>).\<close>

definition routes_inv :: "runtime_state \<Rightarrow> bool" where
  "routes_inv rt \<longleftrightarrow> (\<forall>k r. hm_get (rt_route_states rt) k = Some r \<longrightarrow> cf_inv r)"

text \<open>Two accounts that differ in their recorded route mode at most.\<close>

definition same_but_mode :: "upstream_account \<Rightarrow> upstream_account \<Rightarrow> bool" where
  "same_but_mode a b \<longleftrightarrow> a\<lparr>ac_current_mode := Direct\<rparr> = b\<lparr>ac_current_mode := Direct\<rparr>"

lemma same_but_mode_refl [simp]: "same_but_mode a a"
  by (simp add: same_but_mode_def)

lemma same_but_modeD:
  assumes "same_but_mode a b"
  shows "ac_id a = ac_id b" "ac_tenant_id a = ac_tenant_id b" "ac_models a = ac_models b"
    "ac_label a = ac_label b" "ac_signals a = ac_signals b"
  using assms by (cases a; cases b; simp add: same_but_mode_def)+

lemma same_but_mode_trans: "same_but_mode a b \<Longrightarrow> same_but_mode b c \<Longrightarrow> same_but_mode a c"
  by (simp add: same_but_mode_def)

lemma same_but_mode_update [simp]: "same_but_mode a (b\<lparr>ac_current_mode := m\<rparr>) \<longleftrightarrow> same_but_mode a b"
  by (cases b) (simp add: same_but_mode_def)

lemma sync_modes_Cons:
  "sync_modes (r # rs) accounts =
    (case hm_get accounts (rs_account_id r) of
       None \<Rightarrow> sync_modes rs accounts
     | Some a \<Rightarrow> map_prod id (Cons (a\<lparr>ac_current_mode := rs_route_mode r\<rparr>))
         (sync_modes rs (hm_insert (rs_account_id r) (a\<lparr>ac_current_mode := rs_route_mode r\<rparr>) accounts)))"
  by (simp add: Let_def map_prod_def case_prod_beta' split: option.splits)

declare sync_modes.simps(2) [simp del]
declare sync_modes_Cons [simp]

lemma sync_modes_keyed: "hm_keyed ac_id accounts \<Longrightarrow> hm_keyed ac_id (fst (sync_modes rs accounts))"
proof (induction rs arbitrary: accounts)
  case (Cons r rs)
  have "ac_id a = rs_account_id r" if "hm_get accounts (rs_account_id r) = Some a" for a
    using Cons.prems that by (rule hm_keyedD)
  with Cons show ?case by (auto simp: hm_keyed_insert split: option.splits)
qed simp

lemma same_but_mode_stored:
  "rel_option same_but_mode (hm_get (hm_insert j (a\<lparr>ac_current_mode := m\<rparr>) accounts) k) c \<Longrightarrow>
     hm_get accounts j = Some a \<Longrightarrow> rel_option same_but_mode (hm_get accounts k) c"
  by (cases c) (auto simp: rel_option_iff split: option.splits if_splits
      intro: same_but_mode_trans [of a "a\<lparr>ac_current_mode := m\<rparr>"])

lemma sync_modes_get: "rel_option same_but_mode (hm_get accounts k) (hm_get (fst (sync_modes rs accounts)) k)"
proof (induction rs arbitrary: accounts)
  case (Cons r rs)
  show ?case
    using Cons.IH by (auto split: option.splits intro: same_but_mode_stored simp del: hm_get_insert)
qed (simp add: option.rel_refl)

text \<open>The bus handler of a route state makes the same change to the accounts.\<close>

lemma apply_route_states: "apply_messages (map RouteStateUpsert rs) rt =
    rt\<lparr>rt_route_states := fold (\<lambda>r. hm_insert (rs_account_id r) r) rs (rt_route_states rt),
       rt_accounts := fst (sync_modes rs (rt_accounts rt))\<rparr>"
proof (induction rs arbitrary: rt)
  case (Cons r rs)
  show ?case
    by (simp add: Cons.IH upsert_route_state_def split: option.splits)
qed simp

lemma sync_modes_other: "k \<notin> rs_account_id ` set rs \<Longrightarrow>
    hm_get (fst (sync_modes rs accounts)) k = hm_get accounts k"
  by (induction rs arbitrary: accounts) (auto split: option.splits)

lemma sync_modes_stored:
  assumes "hm_keyed ac_id accounts" and "distinct (map rs_account_id rs)"
    and "a \<in> set (snd (sync_modes rs accounts))"
  shows "hm_get (fst (sync_modes rs accounts)) (ac_id a) = Some a
    \<and> ac_id a \<in> rs_account_id ` set rs"
  using assms
proof (induction rs arbitrary: accounts)
  case (Cons r rs)
  show ?case
  proof (cases "hm_get accounts (rs_account_id r)")
    case None
    with Cons show ?thesis by auto
  next
    case (Some b)
    let ?b = "b\<lparr>ac_current_mode := rs_route_mode r\<rparr>"
    let ?accounts = "hm_insert (rs_account_id r) ?b accounts"
    have id: "ac_id b = rs_account_id r" using Cons.prems(1) Some by (rule hm_keyedD)
    have k: "hm_keyed ac_id ?accounts" using Cons.prems(1) id by (simp add: hm_keyed_insert)
    have "a = ?b \<or> a \<in> set (snd (sync_modes rs ?accounts))"
      using Cons.prems(3) Some by auto
    then show ?thesis
      using Cons.IH [OF k] Cons.prems(2) id Some sync_modes_other [of "rs_account_id r" rs ?accounts]
      by auto
  qed
qed simp

lemma apply_stored_accounts:
  "(\<And>a. a \<in> set as \<Longrightarrow> hm_get (rt_accounts rt) (ac_id a) = Some a) \<Longrightarrow>
     apply_messages (map AccountUpsert as) rt = rt"
  by (induction as) (simp_all add: upsert_account_def)

lemma cf_inv_reconcile_same:
  "cf_inv r \<Longrightarrow> rs_route_mode (reconcile_route_mode r now) = rs_route_mode r \<Longrightarrow> reconcile_route_mode r now = r"
  by (auto simp: cf_inv_def reconcile_route_mode_def split: option.splits if_splits)

lemma changed_distinct:
  assumes "hm_keyed rs_account_id (rt_route_states rt)"
  shows "distinct (map rs_account_id (changed_route_states now rt))"
proof -
  have "distinct (map rs_account_id (filter P (hm_values (rt_route_states rt))))" for P
    using hm_keyed_distinct_values [OF assms] by (rule distinct_map_filter)
  then show ?thesis by (simp add: changed_route_states_def o_def)
qed

text \<open>Inserting the changed states is the same as reconciling all of them.\<close>

lemma insert_changed:
  assumes k: "hm_keyed rs_account_id (rt_route_states rt)" and "routes_inv rt"
  shows "hm_get (fold (\<lambda>r. hm_insert (rs_account_id r) r) (changed_route_states now rt) (rt_route_states rt)) i
    = map_option (\<lambda>r. reconcile_route_mode r now) (hm_get (rt_route_states rt) i)"
proof -
  let ?new = "fold (\<lambda>r. hm_insert (rs_account_id r) r) (changed_route_states now rt) (rt_route_states rt)"
  note get = hm.get_put_all [OF hm_keyed_wf [OF k], of rs_account_id "changed_route_states now rt" i]
  have mem: "r \<in> set (changed_route_states now rt) \<longleftrightarrow>
      (\<exists>s. hm_get (rt_route_states rt) (rs_account_id s) = Some s \<and> r = reconcile_route_mode s now
        \<and> rs_route_mode r \<noteq> rs_route_mode s)" for r
    using hm_keyed_get [OF k] by (auto simp: changed_route_states_def)
  show ?thesis
  proof (cases "find (\<lambda>r. rs_account_id r = i) (rev (changed_route_states now rt))")
    case (Some r)
    then have "r \<in> set (changed_route_states now rt)" "rs_account_id r = i"
      by (auto dest: find_SomeD)
    with Some get mem [of r] show ?thesis by auto
  next
    case None
    have no: "rs_account_id r \<noteq> i" if "r \<in> set (changed_route_states now rt)" for r
      using None that by (simp add: find_None_iff)
    have "reconcile_route_mode s now = s" if s: "hm_get (rt_route_states rt) i = Some s" for s
    proof -
      have i: "rs_account_id s = i" using k s by (rule hm_keyedD)
      have "cf_inv s" using assms(2) s by (auto simp: routes_inv_def)
      moreover have "rs_route_mode (reconcile_route_mode s now) = rs_route_mode s"
        using no [of "reconcile_route_mode s now"] mem [of "reconcile_route_mode s now"] s i by auto
      ultimately show ?thesis by (rule cf_inv_reconcile_same)
    qed
    with None get show ?thesis by (cases "hm_get (rt_route_states rt) i") auto
  qed
qed

lemma reconcile_routes_runtime: "ap_runtime (reconcile_routes now app) = (ap_runtime app)\<lparr>
    rt_route_states := hm_map (\<lambda>r. reconcile_route_mode r now) (rt_route_states (ap_runtime app)),
    rt_accounts := fst (sync_modes (changed_route_states now (ap_runtime app)) (rt_accounts (ap_runtime app)))\<rparr>"
  by (simp add: reconcile_routes_def Let_def case_prod_beta')

lemma reconcile_routes_inv [inv_intros]:
  "rt_inv (ap_runtime app) \<Longrightarrow> rt_inv (ap_runtime (reconcile_routes now app))"
  by (simp add: reconcile_routes_runtime rt_inv_def sync_modes_keyed hm_keyed_map)

lemma reconcile_routes_published:
  assumes "rt_inv (ap_runtime app)" and "routes_inv (ap_runtime app)"
  shows "published app (reconcile_routes now app)"
proof (rule publishedI)
  let ?rt = "ap_runtime app" and ?changed = "changed_route_states now (ap_runtime app)"
  let ?ms = "map RouteStateUpsert ?changed @ map AccountUpsert (snd (sync_modes ?changed (rt_accounts ?rt)))"
  note k = rt_invD(3) [OF assms(1)] rt_invD(5) [OF assms(1)]
  show "ap_writer_tx (reconcile_routes now app) = ap_writer_tx app @ ?ms"
    "ap_bus_tx (reconcile_routes now app) = map_option (\<lambda>s. s @ ?ms) (ap_bus_tx app)"
    by (simp_all add: reconcile_routes_def Let_def case_prod_beta' option.map_ident)
  have "apply_messages ?ms ?rt = apply_messages (map RouteStateUpsert ?changed) ?rt"
    using sync_modes_stored [OF k(1) changed_distinct [OF k(2)]]
    by (simp add: apply_route_states apply_stored_accounts)
  then show "same_tables (apply_messages ?ms ?rt) (ap_runtime (reconcile_routes now app))"
    using insert_changed [OF k(2) assms(2)]
    by (simp add: apply_route_states reconcile_routes_runtime same_tables_def fun_eq_iff)
qed

text \<open>The recorded mode of an account is its route state's.\<close>

definition modes_synced :: "runtime_state \<Rightarrow> bool" where
  "modes_synced rt \<longleftrightarrow> (\<forall>i a r. hm_get (rt_accounts rt) i = Some a \<longrightarrow>
     hm_get (rt_route_states rt) i = Some r \<longrightarrow> ac_current_mode a = rs_route_mode r)"

lemma sync_modes_changed:
  "distinct (map rs_account_id rs) \<Longrightarrow> r \<in> set rs \<Longrightarrow>
     hm_get (fst (sync_modes rs accounts)) (rs_account_id r) = Some a \<Longrightarrow> ac_current_mode a = rs_route_mode r"
proof (induction rs arbitrary: accounts)
  case (Cons s rs)
  show ?case
  proof (cases "r = s")
    case True
    have "rs_account_id s \<notin> rs_account_id ` set rs" using Cons.prems(1) by simp
    with Cons.prems True sync_modes_other [of "rs_account_id s" rs] show ?thesis
      by (auto split: option.splits)
  next
    case False
    with Cons show ?thesis by (auto split: option.splits)
  qed
qed simp

lemma reconcile_routes_synced:
  assumes "rt_inv (ap_runtime app)" and sync: "modes_synced (ap_runtime app)"
  shows "modes_synced (ap_runtime (reconcile_routes now app))"
  unfolding modes_synced_def
proof (intro allI impI)
  fix i a r
  let ?rt = "ap_runtime app" let ?changed = "changed_route_states now ?rt"
  note k = rt_invD(5) [OF assms(1)]
  assume a: "hm_get (rt_accounts (ap_runtime (reconcile_routes now app))) i = Some a"
    and r: "hm_get (rt_route_states (ap_runtime (reconcile_routes now app))) i = Some r"
  then obtain s where s: "hm_get (rt_route_states ?rt) i = Some s" "r = reconcile_route_mode s now"
    by (auto simp: reconcile_routes_runtime)
  have i: "rs_account_id s = i" using k s(1) by (rule hm_keyedD)
  show "ac_current_mode a = rs_route_mode r"
  proof (cases "r \<in> set ?changed")
    case True
    with sync_modes_changed [OF changed_distinct [OF k] this, of "rt_accounts ?rt" a] a i s(2)
    show ?thesis by (simp add: reconcile_routes_runtime)
  next
    case False
    have "r' \<in> set ?changed \<Longrightarrow> rs_account_id r' \<noteq> i" for r'
      using False s i k by (auto simp: changed_route_states_def hm_keyed_get)
    then have "hm_get (rt_accounts ?rt) i = Some a"
      using a sync_modes_other [of i ?changed] by (fastforce simp: reconcile_routes_runtime)
    moreover have "rs_route_mode r = rs_route_mode s"
      using False s i k by (auto simp: changed_route_states_def hm_keyed_get)
    ultimately show ?thesis using sync s(1) by (auto simp: modes_synced_def)
  qed
qed

subsection \<open>The two paths of a selection\<close>

lemma reconciled_account:
  "hm_get (rt_accounts (ap_runtime app)) i = Some a \<Longrightarrow>
     \<exists>a'. hm_get (rt_accounts (ap_runtime (reconcile_routes now app))) i = Some a' \<and> same_but_mode a a'"
  using sync_modes_get [of "rt_accounts (ap_runtime app)" i "changed_route_states now (ap_runtime app)"]
  by (auto simp: reconcile_routes_runtime option_rel_Some1)

lemma account_before_reconcile:
  "hm_get (rt_accounts (ap_runtime (reconcile_routes now app))) i = Some a' \<Longrightarrow>
     \<exists>a. hm_get (rt_accounts (ap_runtime app)) i = Some a \<and> same_but_mode a a'"
  using sync_modes_get [of "rt_accounts (ap_runtime app)" i "changed_route_states now (ap_runtime app)"]
  by (auto simp: reconcile_routes_runtime option_rel_Some2)

lemma reconcile_routes_frame [simp]:
  "rt_leases (ap_runtime (reconcile_routes now app)) = rt_leases (ap_runtime app)"
  "rt_credentials (ap_runtime (reconcile_routes now app)) = rt_credentials (ap_runtime app)"
  "rt_cache_metrics (ap_runtime (reconcile_routes now app)) = rt_cache_metrics (ap_runtime app)"
  "rt_request_logs (ap_runtime (reconcile_routes now app)) = rt_request_logs (ap_runtime app)"
  by (simp_all add: reconcile_routes_runtime)

lemma cooling_reconciled [simp]:
  "cooling (rt_route_states (ap_runtime (reconcile_routes now app))) t a
    = cooling (rt_route_states (ap_runtime app)) t a"
  by (auto simp: cooling_def reconcile_routes_runtime split: option.splits)

lemma quota_spent_reconciled [simp]:
  "quota_spent (rt_route_states (ap_runtime (reconcile_routes now app))) t a
    = quota_spent (rt_route_states (ap_runtime app)) t a"
  by (auto simp: quota_spent_def reconcile_routes_runtime quota_exhausted_iff split: option.splits)

lemma same_but_mode_serves:
  "same_but_mode a b \<Longrightarrow> can_serve rt t m a = can_serve rt t m b"
  "same_but_mode a b \<Longrightarrow> cooling rs now a = cooling rs now b"
  by (simp_all add: can_serve_def cooling_def same_but_modeD)

lemma cooling_later: "now \<le> later \<Longrightarrow> cooling rs later a \<Longrightarrow> cooling rs now a"
  by (auto simp: cooling_def is_in_cooldown_def split: option.splits)

text \<open>What a reusable binding guarantees.\<close>

lemma reusable_bindingD:
  assumes "reusable_binding rt request reuse_now = Some r" and "rt_inv rt"
  shows "\<exists>existing account. hm_get (rt_leases rt) (lq_principal_id request) = Some existing
    \<and> hm_get (rt_accounts rt) (ls_account_id existing) = Some account
    \<and> hm_get (rt_route_states rt) (ls_account_id existing) = Some r
    \<and> credential_is_routable_for_selection (hm_get (rt_credentials rt) (ls_account_id existing))
    \<and> lq_model request \<in> set (ac_models account) \<and> ls_model existing \<in> set (ac_models account)
    \<and> \<not> is_in_cooldown r reuse_now"
proof -
  obtain existing account where e: "hm_get (rt_leases rt) (lq_principal_id request) = Some existing"
    and f: "find (\<lambda>a. ac_id a = ls_account_id existing) (hm_values (rt_accounts rt)) = Some account"
    and r: "hm_get (rt_route_states rt) (ls_account_id existing) = Some r"
    and c: "credential_is_routable_for_selection (hm_get (rt_credentials rt) (ac_id account))"
      "should_reuse_lease existing account r reuse_now" "lq_model request \<in> set (ac_models account)"
    using assms(1) by (auto simp: reusable_binding_def split: option.splits if_splits)
  have "account \<in> set (hm_values (rt_accounts rt))" "ac_id account = ls_account_id existing"
    using find_SomeD [OF f] by simp_all
  with rt_invD(3) [OF assms(2)] have "hm_get (rt_accounts rt) (ls_account_id existing) = Some account"
    by (simp add: hm_keyed_get)
  with e r c \<open>ac_id account = ls_account_id existing\<close> show ?thesis
    by (auto simp: should_reuse_lease_def is_in_cooldown_def split: if_splits option.splits)
qed

text \<open>With no other task in the gap, a reusable binding is reused.\<close>

definition refreshed :: "lease_selection_request \<Rightarrow> instant \<Rightarrow> account_route_state \<Rightarrow> cli_lease \<Rightarrow> cli_lease" where
  "refreshed request now r lease = lease\<lparr>ls_last_used_at := now,
     ls_active_subagents := lq_subagent_count request, ls_route_mode := rs_route_mode r\<rparr>"

lemma reuse_lease_eq:
  "hm_get (rt_leases (ap_runtime app)) (lq_principal_id request) = Some lease \<Longrightarrow>
     reuse_lease request now r app =
       Some (Selected (refreshed request now r lease) (lq_cache_affinity_key request)
           (observed_warmup_decision (current_cache_metrics_snapshot (rt_cache_metrics (ap_runtime app))
              (rt_request_logs (ap_runtime app)))),
         enqueue (LeaseUpsert (refreshed request now r lease))
           (on_runtime (\<lambda>rt. rt\<lparr>rt_leases := hm_insert (lq_principal_id request)
              (refreshed request now r lease) (rt_leases (ap_runtime app))\<rparr>) app))"
  by (simp add: reuse_lease_def refresh_reusable_lease_snapshot_def refreshed_def Let_def)

lemma select_fresh_cases:
  fixes request now rt app h
  defines "models \<equiv> tenant_model_accounts rt (lq_tenant_id request) (lq_model request)"
  defines "s \<equiv> scan_accounts (rt_route_states rt) now models"
  obtains (none) "\<forall>a \<in> set models. cooling (rt_route_states rt) now a"
      "select_fresh h request now rt app = (exhausted rt request s (exhausted_kind rt request s), app)"
  | (bound) account where "account \<in> set models" "\<not> cooling (rt_route_states rt) now account"
      "select_fresh h request now rt app = bind_lease request
         (fresh_lease rt request now (hm_get (rt_leases rt) (lq_principal_id request)) account) app"
proof (cases "sc_candidates s = []")
  case True
  then show ?thesis
    using none by (simp add: select_fresh_def s_def models_def Let_def filter_empty_conv)
next
  case False
  then obtain account where account: "choose_account h rt request
      (hm_get (rt_leases rt) (lq_principal_id request)) (sort_by_label (sc_candidates s)) = Some account"
    using choose_account_ex by fastforce
  then have "account \<in> set (sc_candidates s)" by (auto dest: choose_account_mem)
  with account False show ?thesis
    using bound [of account] by (simp add: select_fresh_def s_def models_def Let_def)
qed

lemma resolve_cases:
  fixes request now reuse_now app h
  defines "rt \<equiv> ap_runtime (reconcile_routes now app)"
  assumes "rt_inv (ap_runtime app)"
  obtains (fresh) "reusable_binding rt request reuse_now = None"
      "resolve_lease_outcome h request now reuse_now app =
         select_fresh h request now rt (reconcile_routes now app)"
  | (reuse) r existing account where "reusable_binding rt request reuse_now = Some r"
      "hm_get (rt_leases (ap_runtime app)) (lq_principal_id request) = Some existing"
      "hm_get (rt_accounts rt) (ls_account_id existing) = Some account"
      "hm_get (rt_route_states rt) (ls_account_id existing) = Some r"
      "credential_is_routable_for_selection (hm_get (rt_credentials rt) (ls_account_id existing))"
      "lq_model request \<in> set (ac_models account)" "\<not> is_in_cooldown r reuse_now"
      "resolve_lease_outcome h request now reuse_now app =
         the (reuse_lease request now r (reconcile_routes now app))"
proof (cases "reusable_binding rt request reuse_now")
  case None
  then show ?thesis
    using fresh by (simp add: resolve_lease_outcome_def resolve_lease_outcome_with_def rt_def Let_def)
next
  case (Some r)
  have inv: "rt_inv rt" using assms by (simp add: rt_def inv_intros)
  obtain existing account where e: "hm_get (rt_leases rt) (lq_principal_id request) = Some existing"
    "hm_get (rt_accounts rt) (ls_account_id existing) = Some account"
    "hm_get (rt_route_states rt) (ls_account_id existing) = Some r"
    "credential_is_routable_for_selection (hm_get (rt_credentials rt) (ls_account_id existing))"
    "lq_model request \<in> set (ac_models account)" "\<not> is_in_cooldown r reuse_now"
    using reusable_bindingD [OF Some inv] by blast
  then have "hm_get (rt_leases (ap_runtime app)) (lq_principal_id request) = Some existing"
    by (simp add: rt_def)
  moreover from this have "resolve_lease_outcome h request now reuse_now app =
      the (reuse_lease request now r (reconcile_routes now app))"
    using Some by (simp add: resolve_lease_outcome_def resolve_lease_outcome_with_def rt_def Let_def
        reuse_lease_eq)
  ultimately show ?thesis using reuse Some e by blast
qed

end
