(* ===== verification/Examples.thy ===== *)
theory Examples
  imports Runtime
begin

text \<open>
  Concrete values the witnesses evaluate on: a configuration, and instances with one tenant and
  accounts \<open>''a''\<close>, \<open>''b''\<close> that serve model \<open>''m''\<close>.
\<close>

definition ex_config :: config where
  "ex_config = \<lparr>cf_bind_addr = V4 0, cf_data_port = 8080, cf_admin_port = 8081,
     cf_max_data_plane_body_bytes = 1024, cf_postgres_url = [], cf_redis_url = [],
     cf_redis_channel = [], cf_instance_id = ''me'', cf_browser_assist_url = ''http://browser'',
     cf_heartbeat_seconds = 5, cf_enable_demo_seed = False, cf_account_encryption_key = None,
     cf_direct_proxy_url = None, cf_warp_proxy_url = None,
     cf_browser_assist_direct_proxy_url = None, cf_browser_assist_warp_proxy_url = None\<rparr>"

definition ex_signals :: scheduling_signals where
  "ex_signals = \<lparr>sg_quota_headroom = Fin 1, sg_quota_headroom_5h = Fin 1,
     sg_quota_headroom_7d = Fin 1, sg_health_score = Fin 1, sg_egress_stability = Fin 1,
     sg_fairness_bias = Fin 0, sg_inflight = 0, sg_capacity = 4\<rparr>"

definition ex_account :: "str \<Rightarrow> uuid \<Rightarrow> upstream_account" where
  "ex_account i tenant_id = \<lparr>ac_id = i, ac_tenant_id = tenant_id, ac_label = i, ac_models = [''m''],
     ac_current_mode = Direct, ac_signals = ex_signals, ac_created_at = 0\<rparr>"

definition ex_credential :: "str \<Rightarrow> upstream_credential" where
  "ex_credential i = \<lparr>cr_account_id = i, cr_base_url = ''https://api'', cr_bearer_token = ''t'',
     cr_chatgpt_account_id = None, cr_extra_headers = [], cr_managed_auth = None,
     cr_created_at = 0, cr_updated_at = 0\<rparr>"

definition ex_lease :: "str \<Rightarrow> uuid \<Rightarrow> str \<Rightarrow> cli_lease" where
  "ex_lease p tenant_id i = \<lparr>ls_principal_id = p, ls_tenant_id = tenant_id, ls_account_id = i,
     ls_account_label = i, ls_model = ''m'', ls_reasoning_effort = None, ls_route_mode = Direct,
     ls_generation = 1, ls_active_subagents = 0, ls_created_at = 0, ls_last_used_at = 0\<rparr>"

definition ex_request :: "str \<Rightarrow> uuid \<Rightarrow> lease_selection_request" where
  "ex_request p tenant_id = \<lparr>lq_tenant_id = tenant_id, lq_principal_id = p, lq_model = ''m'',
     lq_reasoning_effort = None, lq_subagent_count = 2, lq_cache_affinity_key = ''k'',
     lq_placement_affinity_key = p\<rparr>"

definition ex_tenant :: tenant where
  "ex_tenant = \<lparr>tn_id = 1, tn_slug = ''t'', tn_name = ''T'', tn_created_at = 0\<rparr>"

definition ex_app :: "runtime_state \<Rightarrow> app_state" where
  "ex_app rt = \<lparr>ap_config = ex_config, ap_runtime = rt, ap_writer_tx = [], ap_bus_tx = Some [],
     ap_recover_tasks = []\<rparr>"

text \<open>Two accounts of tenant 1, the principal \<open>''p''\<close> bound to the first.\<close>

definition ex_pool :: runtime_state where
  "ex_pool = initial_runtime\<lparr>
     rt_tenants := [(1, ex_tenant)],
     rt_accounts := [(''a'', ex_account ''a'' 1), (''b'', ex_account ''b'' 1)],
     rt_credentials := [(''a'', ex_credential ''a''), (''b'', ex_credential ''b'')],
     rt_route_states := [(''a'', fresh_route_state ''a''), (''b'', fresh_route_state ''b'')],
     rt_leases := [(''p'', ex_lease ''p'' 1 ''a'')]\<rparr>"

text \<open>The same with both accounts in cooldown until the instant 100.\<close>

definition ex_spent :: "str \<Rightarrow> account_route_state" where
  "ex_spent i = (fresh_route_state i)\<lparr>rs_cooldown_level := 1, rs_cooldown_until := Some 100,
     rs_cooldown_reason := Some ''quota_exhausted''\<rparr>"

definition ex_dry :: runtime_state where
  "ex_dry = ex_pool\<lparr>rt_route_states := [(''a'', ex_spent ''a''), (''b'', ex_spent ''b'')]\<rparr>"

lemmas ex_defs = ex_config_def ex_signals_def ex_account_def ex_credential_def ex_lease_def
  ex_request_def ex_tenant_def ex_app_def ex_pool_def ex_spent_def ex_dry_def
  initial_runtime_def fresh_route_state_def

lemma ex_runtime [simp]: "ap_runtime (ex_app rt) = rt" "ap_writer_tx (ex_app rt) = []"
    "ap_bus_tx (ex_app rt) = Some []" "ap_config (ex_app rt) = ex_config"
  by (simp_all add: ex_app_def)

lemma ex_pool_tables:
  "rt_tenants ex_pool = [(1, ex_tenant)]"
  "rt_accounts ex_pool = [(''a'', ex_account ''a'' 1), (''b'', ex_account ''b'' 1)]"
  "rt_credentials ex_pool = [(''a'', ex_credential ''a''), (''b'', ex_credential ''b'')]"
  "rt_route_states ex_pool = [(''a'', fresh_route_state ''a''), (''b'', fresh_route_state ''b'')]"
  "rt_leases ex_pool = [(''p'', ex_lease ''p'' 1 ''a'')]"
  by (simp_all add: ex_pool_def)

lemma ex_inv [simp]: "rt_inv ex_pool"
  by (simp add: rt_inv_def ex_pool_tables hm_keyed_iff ex_tenant_def ex_account_def ex_credential_def
      fresh_route_state_def ex_lease_def) (simp add: ex_pool_def initial_runtime_def)

lemma ex_dry_tables:
  "rt_tenants ex_dry = [(1, ex_tenant)]"
  "rt_accounts ex_dry = [(''a'', ex_account ''a'' 1), (''b'', ex_account ''b'' 1)]"
  "rt_credentials ex_dry = [(''a'', ex_credential ''a''), (''b'', ex_credential ''b'')]"
  "rt_route_states ex_dry = [(''a'', ex_spent ''a''), (''b'', ex_spent ''b'')]"
  "rt_leases ex_dry = [(''p'', ex_lease ''p'' 1 ''a'')]"
  by (simp_all add: ex_dry_def ex_pool_tables)

lemma ex_dry_inv [simp]: "rt_inv ex_dry"
  by (simp add: rt_inv_def ex_dry_tables hm_keyed_iff ex_tenant_def ex_account_def ex_credential_def
      fresh_route_state_def ex_lease_def ex_spent_def) (simp add: ex_dry_def ex_pool_def initial_runtime_def)

end
