(* ===== verification/Scheduling_Properties.thy ===== *)
theory Scheduling_Properties
  imports Lease_Laws Examples
begin

text \<open>
  Properties of the building blocks: the cooldown machine of an account, the rendezvous choice, the
  price list and the cost estimate, the derived cache metrics, masks, redelivery of messages.
\<close>

subsection \<open>The cooldown machine\<close>

text \<open>C38 (cf_machine_bounded).
  Whatever hits, successes and reconciliations an imported account goes through, its cooldown level
  stays inside the step table, a cooldown ends at most twelve hours later, and an account in warp
  mode is back in direct mode once it is reconciled 72 hours later.\<close>

theorem cf_machine_bounded:
  assumes "cf_reachable (now, s)"
  shows "rs_cooldown_level s < length COOLDOWN_STEPS_SECONDS
    \<and> (now + hours 12 \<le> t \<longrightarrow> \<not> is_in_cooldown s t)
    \<and> (now + hours WARP_EJECTION_HOURS \<le> t \<longrightarrow> rs_route_mode (reconcile_route_mode s t) = Direct)"
proof (intro conjI impI)
  have inv: "cf_inv s" "cf_clock_inv now s" using cf_reachable_inv [OF assms] by simp_all
  then show "rs_cooldown_level s < length COOLDOWN_STEPS_SECONDS" by (simp add: cf_inv_def)
  show "now + hours 12 \<le> t \<Longrightarrow> \<not> is_in_cooldown s t"
    using inv(2) by (auto simp: cf_clock_inv_def is_in_cooldown_def split: option.splits)
  assume "now + hours WARP_EJECTION_HOURS \<le> t"
  with inv show "rs_route_mode (reconcile_route_mode s t) = Direct"
    by (cases "rs_route_mode s") (auto simp: cf_inv_def cf_clock_inv_def reconcile_route_mode_def split: option.splits)
qed

theorem cf_machine_bounded_witness:
  "\<exists>s. cf_reachable (7, s) \<and> is_in_cooldown s 8 \<and> rs_cooldown_level s < 8
    \<and> \<not> is_in_cooldown s (7 + hours 12)
    \<and> rs_route_mode (reconcile_route_mode s (7 + hours WARP_EJECTION_HOURS)) = Direct"
proof (intro exI conjI)
  let ?s = "cf_apply (fresh_route_state ''a'') (CfHit Warp) 7"
  have "cf_step (7, fresh_route_state ''a'') (CfHit Warp) (7, ?s)" by (rule cf_step.intros) simp
  with cf_reachable.init have r: "cf_reachable (7, ?s)" by (rule cf_reachable.step)
  then show "cf_reachable (7, ?s)" .
  show "is_in_cooldown ?s 8" by code_simp
  show "rs_cooldown_level ?s < 8" using cf_machine_bounded [OF r] by simp
  show "\<not> is_in_cooldown ?s (7 + hours 12)" using cf_machine_bounded [OF r, of "7 + hours 12"] by blast
  show "rs_route_mode (reconcile_route_mode ?s (7 + hours WARP_EJECTION_HOURS)) = Direct"
    using cf_machine_bounded [OF r, of "7 + hours WARP_EJECTION_HOURS"] by blast
qed

text \<open>Fact (warp_escalation).
  Consecutive hits in warp mode climb the step table one step each and then stay on the last step:
  after \<open>n + 1\<close> hits the account is cooled down from the last hit on, for the step of its level,
  and each such hit asks for a failover.\<close>

theorem warp_escalation:
  assumes "rs_cooldown_level s \<le> 7"
  shows "rs_cooldown_until (warp_hits s (ts @ [t])) =
      Some (t + secs (COOLDOWN_STEPS_SECONDS ! min (rs_cooldown_level s + length ts + 1) 7))
    \<and> failover_required (snd (register_cf_hit (warp_hits s ts) Warp t))
    \<and> (rs_cooldown_level s + length ts + 1 < 7 \<longrightarrow>
      COOLDOWN_STEPS_SECONDS ! min (rs_cooldown_level s + length ts + 1) 7
        < COOLDOWN_STEPS_SECONDS ! min (rs_cooldown_level s + length (ts @ [t]) + 1) 7)"
  using warp_hits_cooldown [OF assms] steps_increasing
  by (simp_all add: register_cf_hit_def Let_def)

theorem warp_escalation_witness:
  "rs_cooldown_until (warp_hits (fresh_route_state ''a'') [1, 2]) = Some (2 + secs 300)
    \<and> rs_cooldown_until (warp_hits (fresh_route_state ''a'') [1, 2, 3, 4, 5, 6, 7, 8, 9]) = Some (9 + secs 43200)
    \<and> COOLDOWN_STEPS_SECONDS ! 2 < COOLDOWN_STEPS_SECONDS ! 3"
  using warp_escalation [of "fresh_route_state ''a''" "[1]" 2]
    warp_escalation [of "fresh_route_state ''a''" "[1, 2, 3, 4, 5, 6, 7, 8]" 9]
  by (simp add: fresh_route_state_def COOLDOWN_STEPS_SECONDS_def)

subsection \<open>Candidates\<close>

text \<open>Fact (candidates_stable).
  The rendezvous choice picks two accounts of the pool when there are two, never the same account
  twice, and moves only those principals whose account left: removing accounts that were not chosen
  changes nothing.\<close>

theorem candidates_stable:
  assumes "distinct (map ac_id accounts)"
  shows "length (select_dual_candidates h p m accounts) = min 2 (length accounts)
    \<and> set (select_dual_candidates h p m accounts) \<subseteq> set accounts
    \<and> distinct (map ac_id (select_dual_candidates h p m accounts))
    \<and> (list_all P (select_dual_candidates h p m accounts) \<longrightarrow>
      select_dual_candidates h p m (filter P accounts) = select_dual_candidates h p m accounts)"
  using select_dual_length select_dual_subset select_dual_distinct_ids [OF assms] select_dual_stable
  by (auto simp: list_all_iff)

theorem candidates_stable_witness:
  "\<exists>accounts chosen. map ac_id accounts = [''a'', ''b'', ''c'']
     \<and> select_dual_candidates (\<lambda>s. rev s) ''p'' ''m'' accounts = chosen
     \<and> length chosen = 2 \<and> set chosen \<subseteq> set accounts \<and> distinct (map ac_id chosen)
     \<and> select_dual_candidates (\<lambda>s. rev s) ''p'' ''m'' (filter (\<lambda>a. a \<in> set chosen) accounts) = chosen"
proof (intro exI conjI)
  let ?accounts = "[ex_account ''a'' 1, ex_account ''b'' 1, ex_account ''c'' 1]"
  let ?chosen = "select_dual_candidates (\<lambda>s. rev s) ''p'' ''m'' ?accounts"
  show ids: "map ac_id ?accounts = [''a'', ''b'', ''c'']" by (simp add: ex_account_def)
  note * = candidates_stable [of ?accounts "\<lambda>s. rev s" "''p''" "''m''" "\<lambda>a. a \<in> set ?chosen", unfolded ids]
  show "length ?chosen = 2" "set ?chosen \<subseteq> set ?accounts" "distinct (map ac_id ?chosen)"
    using * by (simp_all del: filter.simps)
  show "select_dual_candidates (\<lambda>s. rev s) ''p'' ''m'' (filter (\<lambda>a. a \<in> set ?chosen) ?accounts) = ?chosen"
    using * by (simp add: list_all_iff del: filter.simps)
qed (rule refl)

subsection \<open>Prices\<close>

text \<open>Fact (price_of_longest_family).
  A model is priced by the longest family of the price list its trimmed, lower-cased name belongs
  to, and has no price exactly when it belongs to none.\<close>

theorem price_of_longest_family:
  "case pricing_for_model model of
     Some p \<Rightarrow> (\<exists>prefix. (prefix, p) \<in> set price_list
       \<and> model_matches (to_ascii_lowercase (trim model)) prefix
       \<and> list_all (\<lambda>(q, _). \<not> (model_matches (to_ascii_lowercase (trim model)) q \<and> length prefix < length q)) price_list)
   | None \<Rightarrow> list_all (\<lambda>(q, _). \<not> model_matches (to_ascii_lowercase (trim model)) q) price_list"
proof (cases "pricing_for_model model")
  case None
  with pricing_None_iff [of model] show ?thesis by (simp add: list_all_iff)
next
  case (Some p)
  from pricing_most_specific [OF this] Some show ?thesis
    by (fastforce simp: list_all_iff not_less)
qed

text \<open>Fact (cost_estimate_finite).
  An estimated cost is a finite non-negative number, whatever the token counts: the cached input
  tokens are capped by the input tokens, so the subtraction never wraps.\<close>

theorem cost_estimate_finite:
  "case estimate_cost_usd model usage of
     Some c \<Rightarrow> pricing_for_model model \<noteq> None \<and> f_in 0 (2 ^ 96) c
   | None \<Rightarrow> pricing_for_model model = None"
  using estimate_cost_bounds [of model usage]
  by (auto simp: estimate_cost_usd_def Let_def split: option.splits)

text \<open>Fact (effort_canonical).
  The normal form of a reasoning effort is one of four names, and normalising again changes
  nothing.\<close>

theorem effort_canonical:
  "(normalize_reasoning_effort v = None
      \<or> the (normalize_reasoning_effort v) \<in> {''low'', ''medium'', ''high'', ''xhigh''})
    \<and> normalize_reasoning_effort (normalize_reasoning_effort v) = normalize_reasoning_effort v"
  using normalize_effort_range [of v] normalize_effort_idem [of v]
  by (cases "normalize_reasoning_effort v") auto

subsection \<open>Cache metrics\<close>

text \<open>Fact (metrics_are_ratios).
  As long as the input tokens of the stored logs fit 64 bits, the derived metrics are exact: the
  totals are sums over the logs, and the two hit ratios are numbers between 0 and 1, the quotient
  of the counted requests and tokens.\<close>

theorem metrics_are_ratios:
  assumes "sum_list (map input_of logs) < 2 ^ 64" and "length logs < 2 ^ 64"
  shows "unat (cm_replay_tokens (derive_cache_metrics_from_logs logs base)) = sum_list (map input_of logs)
    \<and> unat (cm_cached_tokens (derive_cache_metrics_from_logs logs base)) = sum_list (map (\<lambda>e. unat (cached_of e)) logs)
    \<and> f_unit (cm_request_hit_ratio (derive_cache_metrics_from_logs logs base))
    \<and> f_unit (cm_token_hit_ratio (derive_cache_metrics_from_logs logs base))"
proof (intro conjI)
  let ?t = "fold count_log logs no_totals"
  note t = totals_exact [OF assms]
  show "unat (cm_replay_tokens (derive_cache_metrics_from_logs logs base)) = sum_list (map input_of logs)"
    and "unat (cm_cached_tokens (derive_cache_metrics_from_logs logs base)) = sum_list (map (\<lambda>e. unat (cached_of e)) logs)"
    using t by (simp_all add: derive_cache_metrics_from_logs_def Let_def)
  have "lt_hit_requests ?t \<le> lt_eligible_requests ?t"
  proof -
    have "length (filter (\<lambda>e. 0 < cached_of e) logs) \<le> length (filter (\<lambda>e. 0 < ru_input_tokens (re_usage e)) logs)"
      by (induction logs) (auto dest: cached_pos_input)
    with t show ?thesis by (simp add: word_le_nat_alt)
  qed
  then show "f_unit (cm_request_hit_ratio (derive_cache_metrics_from_logs logs base))"
    by (auto simp: derive_cache_metrics_from_logs_def Let_def f_unit_iff [of "Fin 0"] intro: f_ratio_unit)
  have "lt_total_cached_input_tokens ?t \<le> lt_total_input_tokens ?t"
    using t by (simp add: word_le_nat_alt sum_list_mono cached_le_input)
  then show "f_unit (cm_token_hit_ratio (derive_cache_metrics_from_logs logs base))"
    by (auto simp: derive_cache_metrics_from_logs_def Let_def f_unit_iff [of "Fin 0"] intro: f_ratio_unit)
qed

definition ex_log :: "nat \<Rightarrow> u64 \<Rightarrow> u64 \<Rightarrow> request_log_entry" where
  "ex_log n input cached = \<lparr>re_id = show_nat n, re_api_key_id = 1, re_tenant_id = 1, re_user_name = [],
     re_user_email = [], re_principal_id = ''p'', re_account_id = ''a'', re_account_label = ''a'',
     re_method = ''POST'', re_endpoint = ''/v1/responses'', re_requested_model = ''m'',
     re_effective_model = ''m'', re_reasoning_effort = None, re_route_mode = Direct,
     re_status_code = 200, re_usage = \<lparr>ru_input_tokens = input, ru_cached_input_tokens = cached,
       ru_output_tokens = 10, ru_total_tokens = input + 10\<rparr>,
     re_estimated_cost_usd = None, re_created_at = 0\<rparr>"

theorem metrics_are_ratios_witness:
  "unat (cm_replay_tokens (derive_cache_metrics_from_logs [ex_log 1 100 60, ex_log 2 50 80] default_cache_metrics)) = 150
    \<and> unat (cm_cached_tokens (derive_cache_metrics_from_logs [ex_log 1 100 60, ex_log 2 50 80] default_cache_metrics)) = 110
    \<and> f_unit (cm_token_hit_ratio (derive_cache_metrics_from_logs [ex_log 1 100 60, ex_log 2 50 80] default_cache_metrics))"
  using metrics_are_ratios [of "[ex_log 1 100 60, ex_log 2 50 80]" default_cache_metrics]
  by (simp add: ex_log_def input_of_def cached_of_def)

subsection \<open>Masks\<close>

text \<open>Fact (generated_token_masked).
  The view of a generated key never panics and shows the prefix and four characters of its token
  only: two tokens with the same last four characters have the same preview.\<close>

theorem generated_token_masked:
  assumes "is_ascii simple" and "6 \<le> length simple"
  shows "mask_token (''cmgr_'' @ simple) =
    Some (''cmgr_'' @ take 1 simple @ ellipsis @ drop (length simple - 4) simple)"
proof -
  have "is_ascii (''cmgr_'' @ simple)" using assms(1) by (simp add: is_ascii_def byte_def)
  with mask_token_ascii obtain m where m: "mask_token (''cmgr_'' @ simple) = Some m" by blast
  have "drop (length (''cmgr_'' @ simple) - 4) (''cmgr_'' @ simple) = drop (length simple - 4) simple"
    using assms(2) by (subst drop_append) (simp add: numeral_eq_Suc)
  with mask_token_shape [OF m] assms(2) m show ?thesis by (simp del: drop_append)
qed

subsection \<open>Redelivery\<close>

text \<open>C36 (redelivery_harmless).
  The handlers of the bus tolerate redelivery: a peer that receives every message one or more
  times in a row ends in the same tables as one that receives each once, and its table invariant
  holds after any messages whatever.\<close>

theorem redelivery_harmless:
  assumes "rt_inv rt" and "length ns = length ms" and "list_all (\<lambda>n. 0 < n) ns"
  shows "apply_messages (concat (map2 replicate ns ms)) rt = apply_messages ms rt
    \<and> rt_inv (apply_messages ms rt)"
  using assms bus.handle_stutter [of rt ns ms] rt_inv_apply_messages
  by (simp_all add: apply_messages_def list_all_iff)

theorem redelivery_harmless_witness:
  "apply_messages [LeaseDelete ''p'', LeaseDelete ''p'', CredentialUpsert (ex_credential ''a'')] ex_pool
      = apply_messages [LeaseDelete ''p'', CredentialUpsert (ex_credential ''a'')] ex_pool
    \<and> rt_inv (apply_messages [LeaseDelete ''p'', CredentialUpsert (ex_credential ''a'')] ex_pool)"
  using redelivery_harmless [of ex_pool "[2, 1]" "[LeaseDelete ''p'', CredentialUpsert (ex_credential ''a'')]"]
  by (simp add: numeral_2_eq_2 del: apply_message.simps)

theorem generated_token_masked_witness:
  "mask_token ''cmgr_0123456789'' = Some (''cmgr_0'' @ ellipsis @ ''6789'')"
  using generated_token_masked [of "''0123456789''"] by (simp add: is_ascii_def byte_def)

end
