(* ===== verification/Lease_Properties.thy ===== *)
theory Lease_Properties
  imports Lease_Laws Examples
begin

text \<open>The properties of lease selection, with their witnesses on the example pool.\<close>

subsection \<open>Exhaustion and progress\<close>

definition serving_ids :: "runtime_state \<Rightarrow> lease_selection_request \<Rightarrow> str list" where
  "serving_ids rt request = map ac_id (filter (can_serve rt (lq_tenant_id request) (lq_model request))
     (hm_values (rt_accounts rt)))"

definition cooldown_end_of :: "runtime_state \<Rightarrow> str \<Rightarrow> instant option" where
  "cooldown_end_of rt i = Option.bind (hm_get (rt_route_states rt) i) rs_cooldown_until"

lemma cooldown_end_id: "cooldown_end (rt_route_states rt) a = cooldown_end_of rt (ac_id a)"
  by (simp add: cooldown_end_def cooldown_end_of_def)

lemma serving_ids_get: "rt_inv rt \<Longrightarrow> i \<in> set (serving_ids rt request) \<longleftrightarrow>
    (\<exists>a. hm_get (rt_accounts rt) i = Some a \<and> can_serve rt (lq_tenant_id request) (lq_model request) a)"
  using rt_invD(3) [of rt] by (auto simp: serving_ids_def hm_keyed_get dest: hm_keyedD)

lemma can_serve_reconciled [simp]:
  "can_serve (ap_runtime (reconcile_routes now app)) t m a = can_serve (ap_runtime app) t m a"
  by (simp add: can_serve_def)

lemma serving_ids_reconciled:
  assumes "rt_inv (ap_runtime app)"
  shows "set (serving_ids (ap_runtime (reconcile_routes now app)) request) =
    set (serving_ids (ap_runtime app) request)"
proof -
  note inv = assms reconcile_routes_inv [OF assms, of now]
  show ?thesis
    using reconciled_account [of app _ _ now] account_before_reconcile [of now app] same_but_mode_serves(1)
    by (auto simp: set_eq_iff serving_ids_get [OF inv(1)] serving_ids_get [OF inv(2)]) blast+
qed

lemma mem_model_accounts_get: "rt_inv rt \<Longrightarrow>
    a \<in> set (tenant_model_accounts rt tenant_id model) \<longleftrightarrow>
      hm_get (rt_accounts rt) (ac_id a) = Some a \<and> can_serve rt tenant_id model a"
  using hm_keyed_get [OF rt_invD(3)] by (simp add: mem_model_accounts)

lemma model_ids: "map ac_id (tenant_model_accounts rt (lq_tenant_id request) (lq_model request)) = serving_ids rt request"
proof -
  have "tenant_model_accounts rt (lq_tenant_id request) (lq_model request) =
      filter (can_serve rt (lq_tenant_id request) (lq_model request)) (hm_values (rt_accounts rt))"
    by (auto simp: tenant_model_accounts_def tenant_routable_accounts_def tenant_accounts_def
        can_serve_def list_ex_iff routable_has_credential intro!: filter_cong)
  then show ?thesis by (simp add: serving_ids_def)
qed

lemma length_filter_all: "length (filter P xs) = length xs \<longleftrightarrow> (\<forall>x \<in> set xs. P x)"
  by (metis filter_True length_filter_less less_irrefl)

text \<open>The numbers of an exhausted outcome, on the snapshot it was decided on.\<close>

lemma exhausted_numbers:
  fixes rt request now
  defines "models \<equiv> tenant_model_accounts rt (lq_tenant_id request) (lq_model request)"
  defines "s \<equiv> scan_accounts (rt_route_states rt) now models"
  assumes all: "\<forall>a \<in> set models. cooling (rt_route_states rt) now a"
  shows "sc_quota s + sc_cooldown s = length models"
    and "models \<noteq> [] \<Longrightarrow> \<exists>t. sc_retry_at s = Some t \<and> now < t
       \<and> (\<exists>a \<in> set models. cooldown_end (rt_route_states rt) a = Some t)
       \<and> (\<forall>a \<in> set models. \<exists>u. cooldown_end (rt_route_states rt) a = Some u \<and> t \<le> u)"
    and "exhausted_kind rt request s = QuotaExhausted \<longleftrightarrow>
       models \<noteq> [] \<and> (\<forall>a \<in> set models. quota_spent (rt_route_states rt) now a)"
proof -
  have f: "filter (cooling (rt_route_states rt) now) models = models" using all by simp
  show count: "sc_quota s + sc_cooldown s = length models"
    using length_filter_split [of "quota_spent (rt_route_states rt) now" "cooling (rt_route_states rt) now" models]
    by (simp add: s_def f quota_spent_cooling)
  show "exhausted_kind rt request s = QuotaExhausted \<longleftrightarrow>
       models \<noteq> [] \<and> (\<forall>a \<in> set models. quota_spent (rt_route_states rt) now a)"
    unfolding exhausted_kind_def Let_def s_def models_def [symmetric] scan_eqs length_filter_all
    using hd_in_set [of models] by (cases "models = []") (auto simp: filter_empty_conv)
  assume ne: "models \<noteq> []"
  let ?ends = "map (the \<circ> cooldown_end (rt_route_states rt)) models"
  have ends: "map (cooldown_end (rt_route_states rt)) models = map Some ?ends"
    using all by (intro map_cooldown_end) blast
  let ?E = "\<lambda>a. the (cooldown_end (rt_route_states rt) a)"
  have ends_some: "cooldown_end (rt_route_states rt) a = Some (?E a) \<and> now < ?E a" if "a \<in> set models" for a
    using all that cooling_end by fastforce
  have "sc_retry_at s = Some (Min (set ?ends))"
    unfolding s_def scan_eqs f ends by (rule foldl_earliest) (use ne in simp)
  moreover have "Min (set ?ends) \<in> set ?ends" using ne by (intro Min_in) auto
  ultimately obtain m where m: "m \<in> set models" "sc_retry_at s = Some (?E m)" "Min (set ?ends) = ?E m"
    by auto
  have le: "?E m \<le> ?E a" if "a \<in> set models" for a
    unfolding m(3) [symmetric] using that by (intro Min_le) auto
  have "\<forall>a \<in> set models. \<exists>u. cooldown_end (rt_route_states rt) a = Some u \<and> ?E m \<le> u"
  proof
    fix a assume a: "a \<in> set models"
    show "\<exists>u. cooldown_end (rt_route_states rt) a = Some u \<and> ?E m \<le> u"
      using ends_some [OF a] le [OF a] by (intro exI [of _ "?E a"]) simp
  qed
  with m(2) ends_some [OF m(1)] m(1)
  show "\<exists>t. sc_retry_at s = Some t \<and> now < t
       \<and> (\<exists>a \<in> set models. cooldown_end (rt_route_states rt) a = Some t)
       \<and> (\<forall>a \<in> set models. \<exists>u. cooldown_end (rt_route_states rt) a = Some u \<and> t \<le> u)"
    by blast
qed

lemma selected_if_ready:
  assumes inv: "rt_inv (ap_runtime app)" and a: "hm_get (rt_accounts (ap_runtime app)) i = Some a"
    and serve: "can_serve (ap_runtime app) (lq_tenant_id request) (lq_model request) a"
    and ready: "\<not> cooling (rt_route_states (ap_runtime app)) now a"
  shows "\<exists>lease key warmup app'. resolve_lease_outcome h request now reuse_now app = (Selected lease key warmup, app')"
proof (rule resolve_cases [OF inv, of now request reuse_now h], goal_cases)
  case 1
  let ?rt = "ap_runtime (reconcile_routes now app)"
  obtain a' where a': "hm_get (rt_accounts ?rt) i = Some a'" "same_but_mode a a'"
    using reconciled_account [OF a] by blast
  then have "a' \<in> set (hm_values (rt_accounts ?rt))"
    using reconcile_routes_inv [OF inv, of now] by (auto simp: hm_values_get rt_inv_def)
  then have mem: "a' \<in> set (tenant_model_accounts ?rt (lq_tenant_id request) (lq_model request))"
    using serve same_but_mode_serves(1) [OF a'(2)] by (simp add: mem_model_accounts)
  have "\<not> cooling (rt_route_states ?rt) now a'"
    using ready same_but_mode_serves(2) [OF a'(2)] by simp
  with mem show ?thesis
    unfolding 1 by (rule_tac select_fresh_cases [of ?rt request now h "reconcile_routes now app"])
      (auto simp: bind_lease_def Let_def)
next
  case (2 r existing account)
  then show ?thesis by (simp add: reuse_lease_eq)
qed

lemma exhausted_fresh:
  assumes inv: "rt_inv (ap_runtime app)"
    and ex: "resolve_lease_outcome h request now reuse_now app = (Exhausted e, app')"
  defines "rt \<equiv> ap_runtime (reconcile_routes now app)"
  defines "models \<equiv> tenant_model_accounts rt (lq_tenant_id request) (lq_model request)"
  defines "s \<equiv> scan_accounts (rt_route_states rt) now models"
  shows "(\<forall>a \<in> set models. cooling (rt_route_states rt) now a)
    \<and> Exhausted e = exhausted rt request s (exhausted_kind rt request s) \<and> app' = reconcile_routes now app"
proof (rule resolve_cases [OF inv, of now request reuse_now h], goal_cases)
  case 1
  then show ?thesis
    using ex unfolding rt_def models_def s_def
    by (rule_tac select_fresh_cases [of "ap_runtime (reconcile_routes now app)" request now h
          "reconcile_routes now app"]) (auto simp: bind_lease_def Let_def)
next
  case (2 r existing account)
  then show ?thesis using ex by (simp add: reuse_lease_eq)
qed

lemma exhausted_report:
  assumes inv: "rt_inv (ap_runtime app)"
    and ex: "resolve_lease_outcome h request now reuse_now app = (Exhausted e, app')"
  defines "rt \<equiv> ap_runtime app"
  shows "set (le_attempted_account_ids e) = set (serving_ids rt request)"
    and "\<forall>a. hm_get (rt_accounts rt) (ac_id a) = Some a \<longrightarrow>
           can_serve rt (lq_tenant_id request) (lq_model request) a \<longrightarrow> cooling (rt_route_states rt) now a"
    and "le_skipped_quota_count e + le_skipped_cooldown_count e = length (le_attempted_account_ids e)"
    and "le_attempted_account_ids e \<noteq> [] \<Longrightarrow> \<exists>t. le_earliest_retry_at e = Some t \<and> now < t
           \<and> (\<exists>i \<in> set (serving_ids rt request). cooldown_end_of rt i = Some t)
           \<and> (\<forall>i \<in> set (serving_ids rt request). \<exists>u. cooldown_end_of rt i = Some u \<and> t \<le> u)"
    and "app' = reconcile_routes now app"
proof -
  let ?rt = "ap_runtime (reconcile_routes now app)"
  let ?models = "tenant_model_accounts ?rt (lq_tenant_id request) (lq_model request)"
  let ?s = "scan_accounts (rt_route_states ?rt) now ?models"
  have all: "\<forall>a \<in> set ?models. cooling (rt_route_states ?rt) now a"
    and e: "Exhausted e = exhausted ?rt request ?s (exhausted_kind ?rt request ?s)"
    and app': "app' = reconcile_routes now app"
    using exhausted_fresh [OF inv ex] by blast+
  note n = exhausted_numbers [OF all]
  have ids: "le_attempted_account_ids e = serving_ids ?rt request"
    using e by (simp add: exhausted_def Let_def model_ids)
  then show ids': "set (le_attempted_account_ids e) = set (serving_ids rt request)"
    using serving_ids_reconciled [OF inv] by (simp add: rt_def)
  show "app' = reconcile_routes now app" by (rule app')
  show "le_skipped_quota_count e + le_skipped_cooldown_count e = length (le_attempted_account_ids e)"
    using e n(1) by (simp add: exhausted_def Let_def)
  have ends: "cooldown_end (rt_route_states ?rt) a = cooldown_end_of rt (ac_id a)" for a
    by (cases "hm_get (rt_route_states (ap_runtime app)) (ac_id a)")
      (simp_all add: cooldown_end_def cooldown_end_of_def rt_def reconcile_routes_runtime)
  show "\<exists>t. le_earliest_retry_at e = Some t \<and> now < t
           \<and> (\<exists>i \<in> set (serving_ids rt request). cooldown_end_of rt i = Some t)
           \<and> (\<forall>i \<in> set (serving_ids rt request). \<exists>u. cooldown_end_of rt i = Some u \<and> t \<le> u)"
    if "le_attempted_account_ids e \<noteq> []"
  proof -
    have "?models \<noteq> []" using that ids model_ids [of ?rt request] by auto
    moreover have "le_earliest_retry_at e = sc_retry_at ?s"
      using e by (simp add: exhausted_def Let_def)
    moreover have "set (serving_ids rt request) = ac_id ` set ?models"
      using ids ids' model_ids [of ?rt request] by (metis list.set_map)
    ultimately show ?thesis using n(2) unfolding ends by auto
  qed
  show "\<forall>a. hm_get (rt_accounts rt) (ac_id a) = Some a \<longrightarrow>
           can_serve rt (lq_tenant_id request) (lq_model request) a \<longrightarrow> cooling (rt_route_states rt) now a"
    using ex selected_if_ready [OF inv, of _ _ request now h reuse_now] by (fastforce simp: rt_def)
qed

text \<open>A selection changes nothing but the lease and the metrics of the reconciled tables.\<close>

lemma selected_facts:
  assumes inv: "rt_inv (ap_runtime app)"
    and sel: "resolve_lease_outcome h request now reuse_now app = (Selected lease key warmup, app')"
  defines "rt \<equiv> ap_runtime (reconcile_routes now app)"
  shows "\<exists>metrics. ap_runtime app' = rt\<lparr>rt_leases := hm_insert (lq_principal_id request) lease (rt_leases rt),
      rt_cache_metrics := metrics\<rparr>"
    and "\<exists>account. hm_get (rt_accounts rt) (ls_account_id lease) = Some account
      \<and> credential_is_routable_for_selection (hm_get (rt_credentials rt) (ls_account_id lease))
      \<and> lq_model request \<in> set (ac_models account) \<and> ls_model lease \<in> set (ac_models account)"
    and "ls_principal_id lease = lq_principal_id request"
proof -
  have "(\<exists>metrics. ap_runtime app' = rt\<lparr>rt_leases := hm_insert (lq_principal_id request) lease (rt_leases rt),
      rt_cache_metrics := metrics\<rparr>)
    \<and> (\<exists>account. hm_get (rt_accounts rt) (ls_account_id lease) = Some account
      \<and> credential_is_routable_for_selection (hm_get (rt_credentials rt) (ls_account_id lease))
      \<and> lq_model request \<in> set (ac_models account) \<and> ls_model lease \<in> set (ac_models account))
    \<and> ls_principal_id lease = lq_principal_id request"
    unfolding rt_def
  proof (rule resolve_cases [OF inv, of now request reuse_now h], goal_cases)
    case 1
    let ?rt = "ap_runtime (reconcile_routes now app)"
    have "select_fresh h request now ?rt (reconcile_routes now app) = (Selected lease key warmup, app')"
      using 1 sel by simp
    then obtain a where a: "a \<in> set (tenant_model_accounts ?rt (lq_tenant_id request) (lq_model request))"
      and b: "bind_lease request (fresh_lease ?rt request now (hm_get (rt_leases ?rt) (lq_principal_id request)) a)
        (reconcile_routes now app) = (Selected lease key warmup, app')"
      by (rule_tac select_fresh_cases [of ?rt request now h "reconcile_routes now app"])
        (auto simp: exhausted_def Let_def)
    then show ?case
      by (auto simp: bind_lease_def Let_def fresh_lease_def mem_model_accounts_get
          reconcile_routes_inv [OF inv] can_serve_def)
  next
    case (2 r existing account)
    let ?rt = "ap_runtime (reconcile_routes now app)"
    have "ls_principal_id existing = lq_principal_id request"
      using rt_invD(6) [OF inv] 2(2) by (rule hm_keyedD)
    moreover have "ls_model existing \<in> set (ac_models account)"
      using reusable_bindingD [OF 2(1) reconcile_routes_inv [OF inv]] 2(2,3) by auto
    moreover have "ap_runtime app' = ?rt\<lparr>rt_leases := hm_insert (lq_principal_id request) lease (rt_leases ?rt)\<rparr>"
      "lease = refreshed request now r existing"
      using 2 sel by (auto simp: reuse_lease_eq)
    ultimately show ?case
      using 2(3-6) by (auto simp: refreshed_def intro!: exI [of _ "rt_cache_metrics ?rt"])
  qed
  then show "\<exists>metrics. ap_runtime app' = rt\<lparr>rt_leases := hm_insert (lq_principal_id request) lease (rt_leases rt),
      rt_cache_metrics := metrics\<rparr>"
    "\<exists>account. hm_get (rt_accounts rt) (ls_account_id lease) = Some account
      \<and> credential_is_routable_for_selection (hm_get (rt_credentials rt) (ls_account_id lease))
      \<and> lq_model request \<in> set (ac_models account) \<and> ls_model lease \<in> set (ac_models account)"
    "ls_principal_id lease = lq_principal_id request"
    by blast+
qed

lemma selected_inv [inv_intros]:
  assumes "rt_inv (ap_runtime app)"
    and "resolve_lease_outcome h request now reuse_now app = (Selected lease key warmup, app')"
  shows "rt_inv (ap_runtime app')"
  using selected_facts(1,3) [OF assms] reconcile_routes_inv [OF assms(1), of now]
  by (auto simp: rt_inv_def hm_keyed_insert)

lemma reusable_bindingI:
  assumes "rt_inv rt" and "hm_get (rt_leases rt) (lq_principal_id request) = Some l"
    and "hm_get (rt_accounts rt) (ls_account_id l) = Some a"
    and "hm_get (rt_route_states rt) (ls_account_id l) = Some r"
    and "credential_is_routable_for_selection (hm_get (rt_credentials rt) (ls_account_id l))"
    and "lq_model request \<in> set (ac_models a)" and "ls_model l \<in> set (ac_models a)"
    and "\<not> is_in_cooldown r t"
  shows "reusable_binding rt request t = Some r"
proof -
  note k = rt_invD(3) [OF assms(1)]
  have ida: "ac_id a = ls_account_id l" using k assms(3) by (rule hm_keyedD)
  then have "a \<in> set (hm_values (rt_accounts rt))" using k assms(3) by (simp add: hm_keyed_get)
  with ida obtain b where b: "find (\<lambda>x. ac_id x = ls_account_id l) (hm_values (rt_accounts rt)) = Some b"
      "b \<in> set (hm_values (rt_accounts rt))" "ac_id b = ls_account_id l"
    using find_Some_ex [of "hm_values (rt_accounts rt)" "\<lambda>x. ac_id x = ls_account_id l"] by auto
  then have "b = a" using k assms(3) by (simp add: hm_keyed_get)
  with b assms ida show ?thesis
    by (auto simp: reusable_binding_def routable_has_credential should_reuse_lease_def is_in_cooldown_def
        split: option.splits)
qed

subsection \<open>Replication\<close>

lemma bind_lease_published:
  "ls_principal_id lease = lq_principal_id request \<Longrightarrow> published app (snd (bind_lease request lease app))"
  unfolding bind_lease_def Let_def snd_conv
  by (rule published_enqueue_many) (simp add: handler_defs same_tables_def)

lemma reuse_published:
  assumes "hm_get (rt_leases (ap_runtime app)) (lq_principal_id request) = Some lease"
    and "ls_principal_id lease = lq_principal_id request"
  shows "published app (snd (the (reuse_lease request now r app)))"
proof -
  let ?l = "refreshed request now r lease"
  have "published app (enqueue_many [LeaseUpsert ?l] (on_runtime (\<lambda>rt. rt\<lparr>rt_leases :=
      hm_insert (lq_principal_id request) ?l (rt_leases (ap_runtime app))\<rparr>) app))"
    by (rule published_enqueue_many) (simp add: handler_defs same_tables_def refreshed_def assms(2))
  then show ?thesis
    by (simp add: reuse_lease_eq [OF assms(1)] enqueue_many_def)
qed

lemma resolve_inv [inv_intros]:
  assumes "rt_inv (ap_runtime app)"
  shows "rt_inv (ap_runtime (snd (resolve_lease_outcome h request now reuse_now app)))"
proof (cases "resolve_lease_outcome h request now reuse_now app")
  case (Pair outcome app')
  show ?thesis
  proof (cases outcome)
    case Selected
    with Pair selected_inv [OF assms] show ?thesis by auto
  next
    case (Exhausted e)
    then have "app' = reconcile_routes now app"
      using exhausted_report(5) [OF assms] Pair by blast
    with Pair assms show ?thesis by (simp add: reconcile_routes_inv)
  qed
qed

lemma resolve_published_from:
  assumes inv: "rt_inv (ap_runtime app)"
  shows "published (reconcile_routes now app) (snd (resolve_lease_outcome h request now reuse_now app))"
proof (rule resolve_cases [OF inv, of now request reuse_now h], goal_cases)
  case 1
  then show ?thesis
    by (rule_tac select_fresh_cases [of "ap_runtime (reconcile_routes now app)" request now h
          "reconcile_routes now app"]) (auto simp: bind_lease_published fresh_lease_def)
next
  case (2 r existing account)
  moreover have "ls_principal_id existing = lq_principal_id request"
    using rt_invD(6) [OF inv] 2(2) by (rule hm_keyedD)
  ultimately show ?thesis by (simp add: reuse_published)
qed

interpretation resolve: publishing "\<lambda>app. routes_inv (ap_runtime app)"
  "\<lambda>app. snd (resolve_lease_outcome sha256 request now reuse_now app)" for sha256 request now reuse_now
proof (unfold_locales, goal_cases)
  case (2 app)
  then show ?case
    using reconcile_routes_published resolve_published_from reconcile_routes_inv
    by (blast intro: published_trans)
qed (rule resolve_inv)

lemma selected_account:
  assumes "rt_inv (ap_runtime app)" and "now \<le> reuse_now"
    and "resolve_lease_outcome sha256 request now reuse_now app = (Selected lease key warmup, app')"
  shows "hm_get (rt_leases (ap_runtime app')) (lq_principal_id request) = Some lease
    \<and> ls_principal_id lease = lq_principal_id request \<and> key = lq_cache_affinity_key request
    \<and> ls_last_used_at lease = now \<and> ls_active_subagents lease = lq_subagent_count request
    \<and> (\<exists>account. hm_get (rt_accounts (ap_runtime app)) (ls_account_id lease) = Some account
        \<and> credential_is_routable_for_selection
             (hm_get (rt_credentials (ap_runtime app)) (ls_account_id lease))
        \<and> lq_model request \<in> set (ac_models account)
        \<and> \<not> cooling (rt_route_states (ap_runtime app)) reuse_now account)"
proof (rule resolve_cases [OF assms(1), of now request reuse_now sha256], goal_cases)
  case 1
  let ?rt = "ap_runtime (reconcile_routes now app)"
  have "select_fresh sha256 request now ?rt (reconcile_routes now app) = (Selected lease key warmup, app')"
    using 1 assms(3) by simp
  then obtain a where a: "a \<in> set (tenant_model_accounts ?rt (lq_tenant_id request) (lq_model request))"
      "\<not> cooling (rt_route_states (ap_runtime app)) now a"
    and b: "bind_lease request (fresh_lease ?rt request now (hm_get (rt_leases ?rt) (lq_principal_id request)) a)
      (reconcile_routes now app) = (Selected lease key warmup, app')"
    by (rule_tac select_fresh_cases [of ?rt request now sha256 "reconcile_routes now app"])
      (auto simp: exhausted_def Let_def)
  have "hm_get (rt_accounts ?rt) (ac_id a) = Some a" "can_serve ?rt (lq_tenant_id request) (lq_model request) a"
    using a(1) by (simp_all add: mem_model_accounts_get reconcile_routes_inv [OF assms(1)])
  then obtain a0 where "hm_get (rt_accounts (ap_runtime app)) (ac_id a) = Some a0"
      "can_serve (ap_runtime app) (lq_tenant_id request) (lq_model request) a0" "same_but_mode a0 a"
    using account_before_reconcile same_but_mode_serves(1) by (fastforce simp: can_serve_def)
  moreover from this have "\<not> cooling (rt_route_states (ap_runtime app)) reuse_now a0"
    using a(2) assms(2) cooling_later same_but_mode_serves(2) by blast
  ultimately show ?thesis
    using b by (auto simp: bind_lease_def Let_def fresh_lease_def can_serve_def same_but_modeD)
next
  case (2 r existing account)
  then obtain a0 where "hm_get (rt_accounts (ap_runtime app)) (ls_account_id existing) = Some a0"
      "same_but_mode a0 account"
    using account_before_reconcile by blast
  moreover have "ls_principal_id existing = lq_principal_id request"
    using rt_invD(6) [OF assms(1)] 2(2) by (rule hm_keyedD)
  moreover have "ac_id a0 = ls_account_id existing" if "hm_get (rt_accounts (ap_runtime app)) (ls_account_id existing) = Some a0"
    using rt_invD(3) [OF assms(1)] that by (rule hm_keyedD)
  ultimately show ?thesis
    using 2 assms(3) by (auto simp: reuse_lease_eq refreshed_def same_but_modeD cooling_def is_in_cooldown_def
        reconcile_routes_runtime)
qed

text \<open>C1 (lease_selected_sound).
  A selected lease is the one stored for the principal, refreshed now with the caller's subagent
  count, and names an existing account whose credential is routable, that serves the requested
  model and is out of cooldown when the request is answered.\<close>

theorem lease_selected_sound:
  assumes "rt_inv (ap_runtime app)" and "now \<le> reuse_now"
    and "resolve_lease_outcome sha256 request now reuse_now app = (Selected lease key warmup, app')"
  shows "hm_get (rt_leases (ap_runtime app')) (lq_principal_id request) = Some lease
    \<and> ls_principal_id lease = lq_principal_id request \<and> key = lq_cache_affinity_key request
    \<and> ls_last_used_at lease = now \<and> ls_active_subagents lease = lq_subagent_count request
    \<and> (\<exists>account. hm_get (rt_accounts (ap_runtime app)) (ls_account_id lease) = Some account
        \<and> credential_is_routable_for_selection
             (hm_get (rt_credentials (ap_runtime app)) (ls_account_id lease))
        \<and> lq_model request \<in> set (ac_models account)
        \<and> \<not> cooling (rt_route_states (ap_runtime app)) reuse_now account)"
  using assms by (rule selected_account)

text \<open>Fact (fresh_lease_sound).
  A principal without a lease gets a first-generation lease of its own tenant, for the requested
  model and effort, on an account of that tenant.\<close>

theorem fresh_lease_sound:
  assumes "rt_inv (ap_runtime app)"
    and "hm_get (rt_leases (ap_runtime app)) (lq_principal_id request) = None"
    and "resolve_lease_outcome sha256 request now reuse_now app = (Selected lease key warmup, app')"
  shows "ls_tenant_id lease = lq_tenant_id request \<and> ls_generation lease = 1
    \<and> ls_model lease = lq_model request \<and> ls_reasoning_effort lease = lq_reasoning_effort request
    \<and> (\<exists>account. hm_get (rt_accounts (ap_runtime app)) (ls_account_id lease) = Some account
        \<and> ac_tenant_id account = lq_tenant_id request \<and> ls_account_label lease = ac_label account)"
proof (rule resolve_cases [OF assms(1), of now request reuse_now sha256], goal_cases)
  case 1
  let ?rt = "ap_runtime (reconcile_routes now app)"
  have "select_fresh sha256 request now ?rt (reconcile_routes now app) = (Selected lease key warmup, app')"
    using 1 assms(3) by simp
  then obtain a where a: "a \<in> set (tenant_model_accounts ?rt (lq_tenant_id request) (lq_model request))"
    and b: "bind_lease request (fresh_lease ?rt request now (hm_get (rt_leases ?rt) (lq_principal_id request)) a)
      (reconcile_routes now app) = (Selected lease key warmup, app')"
    by (rule_tac select_fresh_cases [of ?rt request now sha256 "reconcile_routes now app"])
      (auto simp: exhausted_def Let_def)
  have "hm_get (rt_accounts ?rt) (ac_id a) = Some a" "ac_tenant_id a = lq_tenant_id request"
    using a by (simp_all add: mem_model_accounts_get reconcile_routes_inv [OF assms(1)] can_serve_def)
  then obtain a0 where "hm_get (rt_accounts (ap_runtime app)) (ac_id a) = Some a0" "same_but_mode a0 a"
    using account_before_reconcile by blast
  then show ?thesis
    using b assms(2) \<open>ac_tenant_id a = _\<close>
    by (auto simp: bind_lease_def Let_def fresh_lease_def same_but_modeD)
next
  case (2 r existing account)
  with assms(2) show ?thesis by simp
qed

text \<open>C10 (lease_exhausted_exact).
  An exhausted outcome lists exactly the accounts that could serve the request and counts each of
  them once, as spent or as cooling; the reported retry instant is the earliest end of their
  cooldowns; no lease changes.\<close>

theorem lease_exhausted_exact:
  assumes "rt_inv (ap_runtime app)"
    and "resolve_lease_outcome sha256 request now reuse_now app = (Exhausted e, app')"
  shows "set (le_attempted_account_ids e) = set (serving_ids (ap_runtime app) request)
    \<and> le_skipped_quota_count e + le_skipped_cooldown_count e = length (le_attempted_account_ids e)
    \<and> (\<forall>i \<in> set (serving_ids (ap_runtime app) request). \<exists>t u. le_earliest_retry_at e = Some t
        \<and> cooldown_end_of (ap_runtime app) i = Some u \<and> now < t \<and> t \<le> u)
    \<and> (\<forall>t. le_earliest_retry_at e = Some t \<longrightarrow> serving_ids (ap_runtime app) request \<noteq> [] \<longrightarrow>
        (\<exists>i \<in> set (serving_ids (ap_runtime app) request). cooldown_end_of (ap_runtime app) i = Some t))
    \<and> rt_leases (ap_runtime app') = rt_leases (ap_runtime app)"
proof -
  note report = exhausted_report [OF assms]
  have ne: "le_attempted_account_ids e = [] \<longleftrightarrow> serving_ids (ap_runtime app) request = []"
    using report(1) by (metis set_empty)
  show ?thesis
  proof (cases "le_attempted_account_ids e = []")
    case True
    with report(1,3,5) ne show ?thesis by auto
  next
    case False
    from report(4) [OF this] obtain t where t: "le_earliest_retry_at e = Some t" "now < t"
      "\<exists>i \<in> set (serving_ids (ap_runtime app) request). cooldown_end_of (ap_runtime app) i = Some t"
      "\<forall>i \<in> set (serving_ids (ap_runtime app) request). \<exists>u. cooldown_end_of (ap_runtime app) i = Some u \<and> t \<le> u"
      by blast
    with report(1,3,5) show ?thesis by simp
  qed
qed

text \<open>C8 (lease_progress).
  A request is served whenever some account of its tenant, with a routable credential and the
  requested model, is out of cooldown: selection never reports a false exhaustion.\<close>

theorem lease_progress:
  assumes "rt_inv (ap_runtime app)"
    and "hm_get (rt_accounts (ap_runtime app)) i = Some account"
    and "can_serve (ap_runtime app) (lq_tenant_id request) (lq_model request) account"
    and "\<not> cooling (rt_route_states (ap_runtime app)) now account"
  shows "\<exists>lease key warmup app'.
    resolve_lease_outcome sha256 request now reuse_now app = (Selected lease key warmup, app')"
  using assms by (rule selected_if_ready)

text \<open>Fact (lease_retry_succeeds).
  The retry instant of an exhausted outcome is right: from that instant on the same request on the
  same tables is served.\<close>

theorem lease_retry_succeeds:
  assumes "rt_inv (ap_runtime app)"
    and "resolve_lease_outcome sha256 request now reuse_now app = (Exhausted e, app')"
    and "le_attempted_account_ids e \<noteq> []"
  shows "\<exists>t. le_earliest_retry_at e = Some t \<and> (\<forall>later \<ge> t. \<forall>reuse_later. \<exists>lease key warmup app''.
    resolve_lease_outcome sha256 request later reuse_later app' = (Selected lease key warmup, app''))"
proof -
  note report = exhausted_report [OF assms(1,2)]
  obtain t i where t: "le_earliest_retry_at e = Some t" and i: "i \<in> set (serving_ids (ap_runtime app) request)"
      "cooldown_end_of (ap_runtime app) i = Some t"
    using report(4) [OF assms(3)] by blast
  then obtain a where a: "hm_get (rt_accounts (ap_runtime app)) i = Some a"
      "can_serve (ap_runtime app) (lq_tenant_id request) (lq_model request) a"
    using serving_ids_get [OF assms(1)] by blast
  obtain a' where a': "hm_get (rt_accounts (ap_runtime app')) i = Some a'" "same_but_mode a a'"
    using reconciled_account [OF a(1)] report(5) by blast
  have id: "ac_id a' = i"
    using rt_invD(3) [OF reconcile_routes_inv [OF assms(1), of now]] a'(1) report(5)
    by (auto dest: hm_keyedD)
  have ready: "\<not> cooling (rt_route_states (ap_runtime app')) later a'" if "t \<le> later" for later
    using i(2) that report(5) id
    by (auto simp: cooling_def cooldown_end_of_def is_in_cooldown_def reconcile_routes_runtime split: option.splits)
  have serve: "can_serve (ap_runtime app') (lq_tenant_id request) (lq_model request) a'"
    using a(2) same_but_mode_serves(1) [OF a'(2)] report(5) by simp
  have inv: "rt_inv (ap_runtime app')" using report(5) assms(1) by (simp add: inv_intros)
  have "\<exists>lease key warmup app''.
      resolve_lease_outcome sha256 request later reuse_later app' = (Selected lease key warmup, app'')"
    if "t \<le> later" for later reuse_later
    using inv a'(1) serve ready [OF that] by (rule selected_if_ready)
  with t show ?thesis by blast
qed

text \<open>Fact (lease_sticky).
  A principal stays on its account: while the account of its lease is out of cooldown, the next
  request with the same body is answered with the same lease, refreshed.\<close>

theorem lease_sticky:
  assumes "rt_inv (ap_runtime app)"
    and "resolve_lease_outcome sha256 request now reuse_now app = (Selected lease key warmup, app')"
    and "hm_get (rt_route_states (ap_runtime app)) (ls_account_id lease) = Some r"
    and "\<not> is_in_cooldown r reuse_later"
  shows "\<exists>mode key' warmup' app''. resolve_lease_outcome sha256 request later reuse_later app' =
    (Selected (lease\<lparr>ls_last_used_at := later, ls_active_subagents := lq_subagent_count request,
       ls_route_mode := mode\<rparr>) key' warmup', app'')"
proof -
  note facts = selected_facts [OF assms(1,2)]
  let ?rt = "ap_runtime (reconcile_routes later app')"
  have inv': "rt_inv (ap_runtime app')" using assms(1,2) by (rule selected_inv)
  then have inv: "rt_inv ?rt" by (rule reconcile_routes_inv)
  from facts(1) have lease: "hm_get (rt_leases (ap_runtime app')) (lq_principal_id request) = Some lease"
    and tables: "rt_accounts (ap_runtime app') = rt_accounts (ap_runtime (reconcile_routes now app))"
      "rt_route_states (ap_runtime app') = rt_route_states (ap_runtime (reconcile_routes now app))"
      "rt_credentials (ap_runtime app') = rt_credentials (ap_runtime app)" by auto
  obtain a where a: "hm_get (rt_accounts (ap_runtime app')) (ls_account_id lease) = Some a"
      "credential_is_routable_for_selection (hm_get (rt_credentials ?rt) (ls_account_id lease))"
      "lq_model request \<in> set (ac_models a)" "ls_model lease \<in> set (ac_models a)"
    using facts(2) tables by auto
  obtain b where b: "hm_get (rt_accounts ?rt) (ls_account_id lease) = Some b" "same_but_mode a b"
    using reconciled_account [OF a(1)] by blast
  obtain r' where r': "hm_get (rt_route_states ?rt) (ls_account_id lease) = Some r'"
      "\<not> is_in_cooldown r' reuse_later"
    using assms(3,4) tables by (simp add: reconcile_routes_runtime)
  have "reusable_binding ?rt request reuse_later = Some r'"
    using inv lease b r' a(2-4) same_but_modeD(3) [OF b(2)]
    by (intro reusable_bindingI [where l = lease and a = b]) simp_all
  then show ?thesis
    using lease by (simp add: resolve_lease_outcome_def resolve_lease_outcome_with_def Let_def reuse_lease_eq
        refreshed_def) blast
qed

text \<open>Fact (lease_reuse_ignores_tenant).
  The reuse path never looks at the tenant of the request: a principal id that two tenants share is
  answered with the one stored lease, whichever tenant asks.\<close>

theorem lease_reuse_ignores_tenant:
  assumes "reusable_binding (ap_runtime (reconcile_routes now app)) request reuse_now \<noteq> None"
    and "hm_get (rt_leases (ap_runtime app)) (lq_principal_id request) \<noteq> None"
  shows "resolve_lease_outcome sha256 (request\<lparr>lq_tenant_id := tenant_id\<rparr>) now reuse_now app =
    resolve_lease_outcome sha256 request now reuse_now app"
proof -
  have same: "reusable_binding rt (request\<lparr>lq_tenant_id := tenant_id\<rparr>) t = reusable_binding rt request t" for rt t
    by (simp add: reusable_binding_def split: option.splits)
  obtain r lease where "reusable_binding (ap_runtime (reconcile_routes now app)) request reuse_now = Some r"
      "hm_get (rt_leases (ap_runtime app)) (lq_principal_id request) = Some lease"
    using assms by auto
  then show ?thesis
    by (simp add: resolve_lease_outcome_def resolve_lease_outcome_with_def Let_def same reuse_lease_eq refreshed_def)
qed

text \<open>Fact (lease_replicas_follow).
  A peer that agrees with the instance and receives the messages of a selection, each once or
  several times in a row, agrees with it afterwards.\<close>

theorem lease_replicas_follow:
  assumes "rt_inv (ap_runtime app)" and "routes_inv (ap_runtime app)" and "rt_inv replica"
    and "same_tables replica (ap_runtime app)"
    and "app' = snd (resolve_lease_outcome sha256 request now reuse_now app)"
    and "length ns = length (sent app app')" and "\<forall>n \<in> set ns. 0 < n"
  shows "same_tables (apply_messages (concat (map2 replicate ns (sent app app'))) replica) (ap_runtime app')"
  using resolve.replica_follows_stutter [OF assms(4,3,1,2)] assms(5-7) by simp

subsection \<open>Waiting\<close>

text \<open>Fact (quota_wait_sound).
  Waiting for a quota slot ends with the first outcome that is not quota exhaustion; it slept once
  per attempt, more than zero and at most five seconds each time.\<close>

theorem quota_wait_sound:
  assumes "wait_for_quota_slot sha256 request rounds earliest_reset_at app = (waits, result)"
  shows "(\<forall>w \<in> set waits. 0 < w \<and> w \<le> secs 5) \<and> length waits \<le> length rounds
    \<and> (case result of None \<Rightarrow> length waits = length rounds
       | Some (Exhausted e, _) \<Rightarrow> le_kind e \<noteq> QuotaExhausted
       | Some (Selected _ _ _, _) \<Rightarrow> True)"
  using assms
proof (induction sha256 request rounds earliest_reset_at app arbitrary: waits result rule: wait_for_quota_slot.induct)
  case (2 h request now others rn un rounds reset app)
  have w: "0 < quota_wait now reset \<and> quota_wait now reset \<le> secs 5"
    by (auto simp: quota_wait_def split: option.splits)
  obtain outcome app' where o: "resolve_lease_outcome h request rn un (others app) = (outcome, app')"
    by (cases "resolve_lease_outcome h request rn un (others app)")
  show ?case
  proof (cases outcome)
    case Selected
    with 2(2) o w show ?thesis by auto
  next
    case (Exhausted e)
    show ?thesis
    proof (cases "le_kind e = QuotaExhausted")
      case True
      obtain ws res where rec: "wait_for_quota_slot h request rounds
          (case le_earliest_retry_at e of Some t \<Rightarrow> Some t | None \<Rightarrow> le_earliest_reset_at e) app' = (ws, res)"
        by (cases "wait_for_quota_slot h request rounds
          (case le_earliest_retry_at e of Some t \<Rightarrow> Some t | None \<Rightarrow> le_earliest_reset_at e) app'")
      have IH: "(\<forall>w \<in> set ws. 0 < w \<and> w \<le> secs 5) \<and> length ws \<le> length rounds
        \<and> (case res of None \<Rightarrow> length ws = length rounds
           | Some (Exhausted e, _) \<Rightarrow> le_kind e \<noteq> QuotaExhausted | Some (Selected _ _ _, _) \<Rightarrow> True)"
        using 2(1) [OF refl o [symmetric] Exhausted True rec] by simp
      have "waits = quota_wait now reset # ws \<and> result = res"
        using 2(2) o rec Exhausted True by (simp add: Let_def)
      with IH w show ?thesis by (auto split: option.splits)
    next
      case False
      with 2(2) o w Exhausted show ?thesis by (auto simp: Let_def)
    qed
  qed
qed auto

subsection \<open>Witnesses\<close>

lemma ex_pool_ready:
  "can_serve ex_pool 1 ''m'' (ex_account ''a'' 1)" "\<not> cooling (rt_route_states ex_pool) t (ex_account ''a'' 1)"
  by (simp_all add: can_serve_def cooling_def ex_pool_tables ex_account_def ex_credential_def
      credential_is_routable_for_selection_def managed_status_for_selection_def fresh_route_state_def
      is_in_cooldown_def)

lemma ex_selected: "\<exists>l k w a.
    resolve_lease_outcome h (ex_request p 1) now reuse_now (ex_app ex_pool) = (Selected l k w, a)"
  using ex_pool_ready
  by (intro selected_if_ready [where i = "''a''" and a = "ex_account ''a'' 1"])
    (simp_all add: ex_pool_tables ex_request_def)

lemma ex_exhausted: "\<exists>e a.
    resolve_lease_outcome (\<lambda>_. []) (ex_request ''p'' 1) 5 5 (ex_app ex_dry) = (Exhausted e, a)
    \<and> le_attempted_account_ids e = [''a'', ''b'']"
proof -
  have "case fst (resolve_lease_outcome (\<lambda>_. []) (ex_request ''p'' 1) 5 5 (ex_app ex_dry)) of
      Exhausted e \<Rightarrow> le_attempted_account_ids e = [''a'', ''b''] | _ \<Rightarrow> False"
    by code_simp
  then show ?thesis
    by (cases "resolve_lease_outcome (\<lambda>_. []) (ex_request ''p'' 1) 5 5 (ex_app ex_dry)")
      (auto split: lease_selection_outcome.splits)
qed

lemma ex_routes_inv: "routes_inv ex_pool"
  by (auto simp: routes_inv_def ex_pool_tables cf_inv_fresh split: if_splits)

theorem lease_selected_sound_witness:
  "\<exists>lease key warmup app'. resolve_lease_outcome (\<lambda>_. []) (ex_request ''p'' 1) 5 6 (ex_app ex_pool)
      = (Selected lease key warmup, app')
    \<and> hm_get (rt_leases (ap_runtime app')) ''p'' = Some lease \<and> ls_last_used_at lease = 5"
proof -
  obtain l k w a where s: "resolve_lease_outcome (\<lambda>_. []) (ex_request ''p'' 1) 5 6 (ex_app ex_pool) = (Selected l k w, a)"
    using ex_selected by blast
  show ?thesis
    using s lease_selected_sound [OF _ _ s] by (simp add: ex_request_def)
qed

theorem fresh_lease_sound_witness:
  "\<exists>lease key warmup app'. resolve_lease_outcome (\<lambda>_. []) (ex_request ''q'' 1) 5 6 (ex_app ex_pool)
      = (Selected lease key warmup, app')
    \<and> ls_tenant_id lease = 1 \<and> ls_generation lease = 1"
proof -
  obtain l k w a where s: "resolve_lease_outcome (\<lambda>_. []) (ex_request ''q'' 1) 5 6 (ex_app ex_pool) = (Selected l k w, a)"
    using ex_selected by blast
  show ?thesis
    using s fresh_lease_sound [OF _ _ s] by (simp add: ex_request_def ex_pool_tables)
qed

theorem lease_exhausted_exact_witness:
  "\<exists>e app'. resolve_lease_outcome (\<lambda>_. []) (ex_request ''p'' 1) 5 5 (ex_app ex_dry) = (Exhausted e, app')
    \<and> le_skipped_quota_count e + le_skipped_cooldown_count e = 2"
proof -
  obtain e a where s: "resolve_lease_outcome (\<lambda>_. []) (ex_request ''p'' 1) 5 5 (ex_app ex_dry) = (Exhausted e, a)"
      and n: "le_attempted_account_ids e = [''a'', ''b'']"
    using ex_exhausted by blast
  show ?thesis using s n lease_exhausted_exact [OF _ s] by simp
qed

theorem lease_progress_witness:
  "\<exists>lease key warmup app'.
    resolve_lease_outcome (\<lambda>_. []) (ex_request ''q'' 1) 5 6 (ex_app ex_pool) = (Selected lease key warmup, app')"
  using ex_pool_ready by (intro lease_progress [where i = "''a''" and account = "ex_account ''a'' 1"])
    (simp_all add: ex_pool_tables ex_request_def)

theorem lease_retry_succeeds_witness:
  "\<exists>e app' t lease key warmup app''.
    resolve_lease_outcome (\<lambda>_. []) (ex_request ''p'' 1) 5 5 (ex_app ex_dry) = (Exhausted e, app')
    \<and> le_earliest_retry_at e = Some t
    \<and> resolve_lease_outcome (\<lambda>_. []) (ex_request ''p'' 1) t t app' = (Selected lease key warmup, app'')"
proof -
  obtain e a where s: "resolve_lease_outcome (\<lambda>_. []) (ex_request ''p'' 1) 5 5 (ex_app ex_dry) = (Exhausted e, a)"
      and n: "le_attempted_account_ids e = [''a'', ''b'']"
    using ex_exhausted by blast
  have inv: "rt_inv (ap_runtime (ex_app ex_dry))" by simp
  show ?thesis using s lease_retry_succeeds [OF inv s] n by fastforce
qed

theorem lease_sticky_witness:
  "\<exists>lease key warmup app' lease' key' warmup' app''.
    resolve_lease_outcome (\<lambda>_. []) (ex_request ''p'' 1) 5 6 (ex_app ex_pool) = (Selected lease key warmup, app')
    \<and> resolve_lease_outcome (\<lambda>_. []) (ex_request ''p'' 1) 7 8 app' = (Selected lease' key' warmup', app'')
    \<and> ls_account_id lease' = ls_account_id lease"
proof -
  have "case fst (resolve_lease_outcome (\<lambda>_. []) (ex_request ''p'' 1) 5 6 (ex_app ex_pool)) of
      Selected l _ _ \<Rightarrow> ls_account_id l = ''a'' | _ \<Rightarrow> False"
    by code_simp
  moreover obtain l k w a where s: "resolve_lease_outcome (\<lambda>_. []) (ex_request ''p'' 1) 5 6 (ex_app ex_pool) = (Selected l k w, a)"
    using ex_selected by blast
  ultimately have "ls_account_id l = ''a''" by simp
  then have "hm_get (rt_route_states (ap_runtime (ex_app ex_pool))) (ls_account_id l) = Some (fresh_route_state ''a'')"
    by (simp add: ex_pool_tables)
  moreover have "\<not> is_in_cooldown (fresh_route_state ''a'') 8"
    by (simp add: is_in_cooldown_def fresh_route_state_def)
  ultimately show ?thesis
    using s lease_sticky [OF _ s, of "fresh_route_state ''a''" 8 7] by fastforce
qed

theorem lease_reuse_ignores_tenant_witness:
  "resolve_lease_outcome (\<lambda>_. []) ((ex_request ''p'' 1)\<lparr>lq_tenant_id := 2\<rparr>) 5 6 (ex_app ex_pool)
    = resolve_lease_outcome (\<lambda>_. []) (ex_request ''p'' 1) 5 6 (ex_app ex_pool)"
proof (rule lease_reuse_ignores_tenant)
  show "reusable_binding (ap_runtime (reconcile_routes 5 (ex_app ex_pool))) (ex_request ''p'' 1) 6 \<noteq> None"
    by code_simp
  show "hm_get (rt_leases (ap_runtime (ex_app ex_pool))) (lq_principal_id (ex_request ''p'' 1)) \<noteq> None"
    by code_simp
qed

theorem lease_replicas_follow_witness:
  "\<exists>ns app'. app' = snd (resolve_lease_outcome (\<lambda>_. []) (ex_request ''p'' 1) 5 6 (ex_app ex_pool))
    \<and> same_tables (apply_messages (concat (map2 replicate ns (sent (ex_app ex_pool) app'))) ex_pool)
        (ap_runtime app')"
proof -
  let ?app = "snd (resolve_lease_outcome (\<lambda>_. []) (ex_request ''p'' 1) 5 6 (ex_app ex_pool))"
  let ?ns = "replicate (length (sent (ex_app ex_pool) ?app)) 2"
  have "same_tables (apply_messages (concat (map2 replicate ?ns (sent (ex_app ex_pool) ?app))) ex_pool)
      (ap_runtime ?app)"
    by (rule lease_replicas_follow) (simp_all add: ex_routes_inv)
  then show ?thesis by blast
qed

theorem quota_wait_sound_witness:
  "\<exists>waits result. wait_for_quota_slot (\<lambda>_. []) (ex_request ''p'' 1) [(3, \<lambda>app. app, 5, 5), (7, \<lambda>app. app, 120, 120)]
      (Some 100) (ex_app ex_dry) = (waits, result)
    \<and> (\<forall>w \<in> set waits. 0 < w \<and> w \<le> secs 5) \<and> length waits \<le> 2"
proof -
  obtain ws res where s: "wait_for_quota_slot (\<lambda>_. []) (ex_request ''p'' 1)
      [(3, \<lambda>app. app, 5, 5), (7, \<lambda>app. app, 120, 120)] (Some 100) (ex_app ex_dry) = (ws, res)"
    by (cases "wait_for_quota_slot (\<lambda>_. []) (ex_request ''p'' 1)
      [(3, \<lambda>app. app, 5, 5), (7, \<lambda>app. app, 120, 120)] (Some 100) (ex_app ex_dry)")
  show ?thesis using s quota_wait_sound [OF s] by simp
qed

end
