(* ===== verification/Route_Events.thy ===== *)
theory Route_Events
  imports Replication
begin

text \<open>
  What moves an account out of and back into rotation (\<open>state.rs\<close>): \<open>record_route_event\<close>,
  \<open>failover_account\<close>, \<open>mark_account_quota_exhausted\<close>, the eviction of leases and the protection of
  a tenant's only account. \<open>now\<close> is the clock reading, \<open>incident_id\<close> the rendering of the fresh
  UUID; a \<open>None\<close> result is the early return of \<open>?\<close> on a missing table entry.
\<close>

subsection \<open>Eviction and protection\<close>

fun remove_leases :: "str list \<Rightarrow> (str, cli_lease) hmap \<Rightarrow> cli_lease list \<times> (str, cli_lease) hmap" where
  "remove_leases [] leases = ([], leases)"
| "remove_leases (p # ps) leases =
    (case hm_get leases p of
       None \<Rightarrow> remove_leases ps leases
     | Some lease \<Rightarrow> map_prod (Cons lease) id (remove_leases ps (hm_remove p leases)))"

definition evict_leases_for_account :: "str \<Rightarrow> app_state \<Rightarrow> cli_lease list \<times> app_state" where
  "evict_leases_for_account account_id app =
    (let principals = map fst (filter (\<lambda>(_, lease). ls_account_id lease = account_id) (rt_leases (ap_runtime app)));
         (evicted, leases) = remove_leases principals (rt_leases (ap_runtime app))
     in (evicted, on_runtime (\<lambda>rt. rt\<lparr>rt_leases := leases\<rparr>) app))"

definition should_protect_sole_account :: "runtime_state \<Rightarrow> str \<Rightarrow> str option \<Rightarrow> bool" where
  "should_protect_sole_account rt account_id model =
    (case hm_get (rt_accounts rt) account_id of
       None \<Rightarrow> False
     | Some account \<Rightarrow>
         length (filter (\<lambda>candidate. ac_tenant_id candidate = ac_tenant_id account
              \<and> ac_id candidate \<in> set (hm_keys (rt_credentials rt))
              \<and> (case model of None \<Rightarrow> True | Some m \<Rightarrow> list_ex (\<lambda>entry. entry = m) (ac_models candidate)))
            (hm_values (rt_accounts rt))) = 1)"

subsection \<open>Shared steps of the three operations\<close>

text \<open>\<open>accounts.get_mut(id)?\<close> followed by the copy of the route mode.\<close>

definition sync_account_mode :: "str \<Rightarrow> account_route_state \<Rightarrow> app_state \<Rightarrow> (upstream_account \<times> app_state) option" where
  "sync_account_mode account_id state app =
    (case hm_get (rt_accounts (ap_runtime app)) account_id of
       None \<Rightarrow> None
     | Some account \<Rightarrow>
         (let account = account\<lparr>ac_current_mode := rs_route_mode state\<rparr>
          in Some (account, on_runtime (\<lambda>rt. rt\<lparr>rt_accounts :=
                 hm_insert account_id account (rt_accounts rt)\<rparr>) app)))"

definition store_route_state :: "str \<Rightarrow> account_route_state \<Rightarrow> app_state \<Rightarrow> app_state" where
  "store_route_state account_id state app =
     on_runtime (\<lambda>rt. rt\<lparr>rt_route_states := hm_insert account_id state (rt_route_states rt)\<rparr>) app"

definition incident_of ::
  "str \<Rightarrow> str \<Rightarrow> upstream_account \<Rightarrow> account_route_state \<Rightarrow> str \<Rightarrow> instant \<Rightarrow> cf_incident" where
  "incident_of incident_id account_id account state severity now =
    \<lparr>ci_id = incident_id, ci_account_id = account_id, ci_account_label = ac_label account,
     ci_route_mode = rs_route_mode state, ci_severity = severity, ci_happened_at = now,
     ci_cooldown_level = rs_cooldown_level state\<rparr>"

definition push_incident :: "cf_incident \<Rightarrow> app_state \<Rightarrow> app_state" where
  "push_incident incident app = on_runtime (\<lambda>rt. rt\<lparr>rt_cf_incidents :=
     push_front_capped INCIDENT_CAP incident (rt_cf_incidents rt)\<rparr>) app"

definition lease_deletes :: "cli_lease list \<Rightarrow> persistence_message list" where
  "lease_deletes evicted = map (\<lambda>lease. LeaseDelete (ls_principal_id lease)) evicted"

definition recover_notes :: "account_route_state \<Rightarrow> str \<Rightarrow> str" where
  "recover_notes state severity =
     ''routeMode='' @ route_mode_as_str (rs_route_mode state) @ '' cooldownLevel='' @
     show_nat (rs_cooldown_level state) @ '' severity='' @ severity"

definition recover_account :: "str \<Rightarrow> account_route_state \<Rightarrow> str \<Rightarrow> app_state \<Rightarrow> app_state" where
  "recover_account account_id state severity app =
    (let credential = hm_get (rt_credentials (ap_runtime app)) account_id;
         provider = browser_task_provider_for_credential credential;
         login_url = browser_task_login_url_for_credential credential provider
     in spawn_recover (cf_browser_assist_url (ap_config app))
          \<lparr>pl_account_id = Some account_id, pl_notes = Some (recover_notes state severity),
           pl_login_url = login_url, pl_headless = Some True, pl_provider = provider,
           pl_email = None, pl_password = None, pl_otp_code = None,
           pl_route_mode = Some (rs_route_mode state)\<rparr> app)"

subsection \<open>Route events\<close>

text \<open>The transition of the route state: severity, whether to recover, whether to fail over.\<close>

definition route_event_transition ::
  "route_event_request \<Rightarrow> account_route_state \<Rightarrow> instant
     \<Rightarrow> account_route_state \<times> (str option \<times> bool \<times> bool) option" where
  "route_event_transition event state now =
    (let state = reconcile_route_mode state now in
     if ev_kind event = ''cf_hit'' then
       (let (state, outcome) = register_cf_hit state (ev_mode event) now;
            severity = (if switched_to_warp outcome then ''direct-escalation'' else ''cooldown'')
        in (state, Some (Some severity, True, failover_required outcome)))
     else if ev_kind event = ''success'' then
       ((register_success state now)\<lparr>rs_cooldown_reason := None\<rparr>, Some (None, False, False))
     else (state, None))"

definition record_route_event ::
  "str \<Rightarrow> str \<Rightarrow> route_event_request \<Rightarrow> instant \<Rightarrow> app_state \<Rightarrow> account_route_state option \<times> app_state" where
  "record_route_event incident_id account_id event now app =
    (case hm_get (rt_route_states (ap_runtime app)) account_id of
       None \<Rightarrow> (None, app)
     | Some state \<Rightarrow>
         (let (state, effect) = route_event_transition event state now;
              app = store_route_state account_id state app
          in case effect of
               None \<Rightarrow> (Some state, app)
             | Some (severity, should_recover, should_failover) \<Rightarrow>
                 (case sync_account_mode account_id state app of
                    None \<Rightarrow> (None, app)
                  | Some (account, app) \<Rightarrow>
                      (let incident = map_option (\<lambda>s. incident_of incident_id account_id account state s now) severity;
                           app = (case incident of None \<Rightarrow> app | Some i \<Rightarrow> push_incident i app);
                           messages = [AccountUpsert account, RouteStateUpsert state]
                             @ (case incident of None \<Rightarrow> [] | Some i \<Rightarrow> [IncidentInsert i]);
                           protected_sole_account =
                             should_protect_sole_account (ap_runtime app) account_id None;
                           (evicted, app) =
                             (if should_failover \<and> \<not> protected_sole_account
                              then evict_leases_for_account account_id app else ([], app));
                           app = enqueue_many (messages @ lease_deletes evicted) app;
                           app = (if should_recover
                              then recover_account account_id state
                                (case severity of Some s \<Rightarrow> s | None \<Rightarrow> ''unknown'') app
                              else app)
                       in (Some state, app)))))"

definition failover_account ::
  "str \<Rightarrow> str \<Rightarrow> str \<Rightarrow> i64 \<Rightarrow> bool \<Rightarrow> instant \<Rightarrow> app_state \<Rightarrow> account_route_state option \<times> app_state" where
  "failover_account incident_id account_id severity cooldown_seconds should_recover now app =
    (let protected = should_protect_sole_account (ap_runtime app) account_id None \<and> severity \<noteq> ''quota''
     in case hm_get (rt_route_states (ap_runtime app)) account_id of
          None \<Rightarrow> (None, app)
        | Some state \<Rightarrow>
            (let state = state\<lparr>rs_success_streak := 0,
                   rs_cooldown_until := (if protected then None else Some (now + secs (sint cooldown_seconds))),
                   rs_cooldown_level := max (rs_cooldown_level state) 1,
                   rs_cooldown_reason := Some severity, rs_last_cf_at := Some now\<rparr>;
                 app = store_route_state account_id state app
             in case sync_account_mode account_id state app of
                  None \<Rightarrow> (None, app)
                | Some (account, app) \<Rightarrow>
                    (let incident = incident_of incident_id account_id account state severity now;
                         app = push_incident incident app;
                         (evicted, app) =
                           (if protected then ([], app) else evict_leases_for_account account_id app);
                         app = enqueue_many ([AccountUpsert account, RouteStateUpsert state,
                           IncidentInsert incident] @ lease_deletes evicted) app;
                         app = (if should_recover then recover_account account_id state severity app else app)
                     in (Some state, app))))"

definition quota_reason :: "str option \<Rightarrow> str" where
  "quota_reason message =
    (case message of
       Some m \<Rightarrow> if trim m \<noteq> [] then ''quota_exhausted:'' @ m else ''quota_exhausted''
     | None \<Rightarrow> ''quota_exhausted'')"

definition mark_account_quota_exhausted ::
  "str \<Rightarrow> str \<Rightarrow> instant option \<Rightarrow> str option \<Rightarrow> instant \<Rightarrow> app_state \<Rightarrow> account_route_state option \<times> app_state" where
  "mark_account_quota_exhausted incident_id account_id reset_at message now app =
    (let until = (case reset_at of Some t \<Rightarrow> t | None \<Rightarrow> now + mins 30)
     in case hm_get (rt_route_states (ap_runtime app)) account_id of
          None \<Rightarrow> (None, app)
        | Some state \<Rightarrow>
            (let state = state\<lparr>rs_success_streak := 0,
                   rs_cooldown_level := max (rs_cooldown_level state) 1,
                   rs_cooldown_until := Some until,
                   rs_cooldown_reason := Some (quota_reason message)\<rparr>;
                 app = store_route_state account_id state app
             in case sync_account_mode account_id state app of
                  None \<Rightarrow> (None, app)
                | Some (account, app) \<Rightarrow>
                    (let incident = incident_of incident_id account_id account state ''quota_exhausted'' now;
                         app = push_incident incident app;
                         (evicted, app) = evict_leases_for_account account_id app;
                         app = enqueue_many ([AccountUpsert account, RouteStateUpsert state,
                           IncidentInsert incident] @ lease_deletes evicted) app
                     in (Some state, app))))"

end
