(* ===== verification/Route_Laws.thy ===== *)
theory Route_Laws
  imports Route_Events Lease_Properties
begin

text \<open>
  The common effect of the three operations of \<open>Route_Events\<close> and what follows from it: the
  tables stay well-formed, replicas follow, evicted accounts stay out of rotation until their
  cooldown ends, the only account of a tenant is spared.
\<close>

subsection \<open>Eviction\<close>

definition drop_leases :: "str \<Rightarrow> (str, cli_lease) hmap \<Rightarrow> (str, cli_lease) hmap" where
  "drop_leases account_id leases =
     fold hm_remove (map fst (filter (\<lambda>(_, lease). ls_account_id lease = account_id) leases)) leases"

lemma remove_leases_spec:
  "hm_keyed ls_principal_id leases \<Longrightarrow>
     snd (remove_leases ps leases) = fold hm_remove ps leases
   \<and> apply_messages (lease_deletes (fst (remove_leases ps leases))) (rt\<lparr>rt_leases := leases\<rparr>)
       = rt\<lparr>rt_leases := fold hm_remove ps leases\<rparr>"
proof (induction ps arbitrary: leases)
  case (Cons p ps)
  have k: "hm_keyed ls_principal_id (hm_remove p leases)"
    using Cons.prems by (rule hm_keyed_remove)
  show ?case
  proof (cases "hm_get leases p")
    case None
    with Cons show ?thesis by simp
  next
    case (Some l)
    then have "ls_principal_id l = p" using Cons.prems by (auto dest: hm_keyedD)
    with Some Cons.IH [OF k] show ?thesis by (simp add: lease_deletes_def delete_lease_def)
  qed
qed (simp add: lease_deletes_def)

lemma drop_leases_get:
  assumes "hm_keyed ls_principal_id leases"
  shows "hm_get (drop_leases i leases) p = (case hm_get leases p of None \<Rightarrow> None
    | Some l \<Rightarrow> if ls_account_id l = i then None else Some l)"
proof -
  have wf: "hm_wf leases" using assms by simp
  have "p \<in> set (map fst (filter (\<lambda>(_, l). ls_account_id l = i) leases)) \<longleftrightarrow>
      (\<exists>l. hm_get leases p = Some l \<and> ls_account_id l = i)"
    using hm_get_mem [OF wf] by force
  then show ?thesis
    unfolding drop_leases_def hm.get_del_all [OF wf] by (auto split: option.splits)
qed

lemma drop_leases_keyed [inv_intros]: "hm_keyed ls_principal_id leases \<Longrightarrow> hm_keyed ls_principal_id (drop_leases i leases)"
proof -
  have "hm_keyed ls_principal_id m \<Longrightarrow> hm_keyed ls_principal_id (fold hm_remove ps m)" for ps m
    by (induction ps arbitrary: m) (simp_all add: hm_keyed_remove)
  then show "hm_keyed ls_principal_id leases \<Longrightarrow> ?thesis" by (simp add: drop_leases_def)
qed

lemma evict_eq:
  assumes "rt_inv (ap_runtime app)"
  shows "snd (evict_leases_for_account i app) =
      on_runtime (\<lambda>rt. rt\<lparr>rt_leases := drop_leases i (rt_leases (ap_runtime app))\<rparr>) app"
    and "rt_leases rt = rt_leases (ap_runtime app) \<Longrightarrow>
      apply_messages (lease_deletes (fst (evict_leases_for_account i app))) rt
        = rt\<lparr>rt_leases := drop_leases i (rt_leases (ap_runtime app))\<rparr>"
proof -
  note k = rt_invD(6) [OF assms]
  note spec = remove_leases_spec [OF k, of "map fst (filter (\<lambda>(_, lease). ls_account_id lease = i) (rt_leases (ap_runtime app)))"]
  show "snd (evict_leases_for_account i app) =
      on_runtime (\<lambda>rt. rt\<lparr>rt_leases := drop_leases i (rt_leases (ap_runtime app))\<rparr>) app"
    using spec by (simp add: evict_leases_for_account_def Let_def case_prod_beta' drop_leases_def)
  assume "rt_leases rt = rt_leases (ap_runtime app)"
  then have rt: "rt = rt\<lparr>rt_leases := rt_leases (ap_runtime app)\<rparr>" by simp
  show "apply_messages (lease_deletes (fst (evict_leases_for_account i app))) rt
        = rt\<lparr>rt_leases := drop_leases i (rt_leases (ap_runtime app))\<rparr>"
    by (subst rt) (use spec in \<open>simp add: evict_leases_for_account_def Let_def case_prod_beta' drop_leases_def\<close>)
qed

subsection \<open>The common effect\<close>

definition routed ::
  "str \<Rightarrow> upstream_account \<Rightarrow> account_route_state \<Rightarrow> cf_incident option \<Rightarrow> bool \<Rightarrow> runtime_state \<Rightarrow> runtime_state" where
  "routed account_id account state incident evict rt = rt\<lparr>
     rt_route_states := hm_insert account_id state (rt_route_states rt),
     rt_accounts := hm_insert account_id (account\<lparr>ac_current_mode := rs_route_mode state\<rparr>) (rt_accounts rt),
     rt_cf_incidents := (case incident of None \<Rightarrow> rt_cf_incidents rt
       | Some i \<Rightarrow> push_front_capped INCIDENT_CAP i (rt_cf_incidents rt)),
     rt_leases := (if evict then drop_leases account_id (rt_leases rt) else rt_leases rt)\<rparr>"

text \<open>\<open>app'\<close> is \<open>app\<close> after the common effect, with the messages the code sends for it.\<close>

definition rerouted ::
  "str \<Rightarrow> upstream_account \<Rightarrow> account_route_state \<Rightarrow> cf_incident option \<Rightarrow> bool \<Rightarrow> app_state \<Rightarrow> app_state \<Rightarrow> bool" where
  "rerouted account_id account state incident evict app app' \<longleftrightarrow>
     ap_runtime app' = routed account_id account state incident evict (ap_runtime app)
   \<and> ap_config app' = ap_config app
   \<and> (\<exists>evicted. (if evict then evicted = fst (evict_leases_for_account account_id app) else evicted = [])
      \<and> ap_writer_tx app' = ap_writer_tx app
          @ [AccountUpsert (account\<lparr>ac_current_mode := rs_route_mode state\<rparr>), RouteStateUpsert state]
          @ (case incident of None \<Rightarrow> [] | Some i \<Rightarrow> [IncidentInsert i]) @ lease_deletes evicted
      \<and> ap_bus_tx app' = map_option (\<lambda>s. s
          @ [AccountUpsert (account\<lparr>ac_current_mode := rs_route_mode state\<rparr>), RouteStateUpsert state]
          @ (case incident of None \<Rightarrow> [] | Some i \<Rightarrow> [IncidentInsert i]) @ lease_deletes evicted) (ap_bus_tx app))"

lemma routed_inv [inv_intros]:
  "rt_inv rt \<Longrightarrow> ac_id account = i \<Longrightarrow> rs_account_id state = i \<Longrightarrow> rt_inv (routed i account state incident evict rt)"
  using rt_invD(6) [of rt]
  by (auto simp: routed_def rt_inv_def hm_keyed_insert drop_leases_keyed split: option.splits)

lemma rerouted_published:
  assumes "rerouted i account state incident evict app app'" and inv: "rt_inv (ap_runtime app)"
    and ids: "ac_id account = i" "rs_account_id state = i"
    and fresh: "\<And>x. incident = Some x \<Longrightarrow> ci_id x \<notin> ci_id ` set (rt_cf_incidents (ap_runtime app))"
  shows "published app app'"
proof -
  let ?rt = "ap_runtime app" and ?a = "account\<lparr>ac_current_mode := rs_route_mode state\<rparr>"
  let ?inc = "case incident of None \<Rightarrow> [] | Some x \<Rightarrow> [IncidentInsert x]"
  obtain evicted where ev: "if evict then evicted = fst (evict_leases_for_account i app) else evicted = []"
    and tx: "ap_writer_tx app' = ap_writer_tx app @ [AccountUpsert ?a, RouteStateUpsert state] @ ?inc @ lease_deletes evicted"
      "ap_bus_tx app' = map_option (\<lambda>s. s @ [AccountUpsert ?a, RouteStateUpsert state] @ ?inc @ lease_deletes evicted) (ap_bus_tx app)"
    using assms(1) by (auto simp: rerouted_def)
  let ?rt1 = "apply_messages ([AccountUpsert ?a, RouteStateUpsert state] @ ?inc) ?rt"
  have rt1: "?rt1 = routed i account state incident False ?rt"
    using ids fresh
    by (cases incident) (auto simp: routed_def upsert_account_def upsert_route_state_def insert_incident_def
        push_unique_fresh)
  have "apply_messages (lease_deletes evicted) ?rt1 = routed i account state incident evict ?rt"
  proof (cases evict)
    case True
    have "rt_leases ?rt1 = rt_leases ?rt" unfolding rt1 by (simp add: routed_def)
    from evict_eq(2) [OF inv this] True ev show ?thesis
      unfolding rt1 by (simp add: routed_def)
  next
    case False
    with ev rt1 show ?thesis by (simp add: lease_deletes_def)
  qed
  with assms(1) tx show ?thesis
    by (intro publishedI [where ms = "[AccountUpsert ?a, RouteStateUpsert state] @ ?inc @ lease_deletes evicted"])
      (simp_all add: rerouted_def)
qed

text \<open>Each operation, when both entries of the account are present.\<close>

lemma evict_snd: "hm_keyed ls_principal_id (rt_leases (ap_runtime app)) \<Longrightarrow>
    snd (evict_leases_for_account i app) = on_runtime (\<lambda>rt. rt\<lparr>rt_leases := drop_leases i (rt_leases rt)\<rparr>) app"
  using remove_leases_spec [of "rt_leases (ap_runtime app)"]
  by (simp add: evict_leases_for_account_def Let_def case_prod_beta' drop_leases_def on_runtime_def)

lemma evict_fst: "rt_leases (ap_runtime app1) = rt_leases (ap_runtime app) \<Longrightarrow>
    fst (evict_leases_for_account i app1) = fst (evict_leases_for_account i app)"
  by (simp add: evict_leases_for_account_def Let_def case_prod_beta')

lemma recover_account_frame [simp]:
  "ap_runtime (recover_account i st sv app) = ap_runtime app"
  "ap_writer_tx (recover_account i st sv app) = ap_writer_tx app"
  "ap_bus_tx (recover_account i st sv app) = ap_bus_tx app"
  "ap_config (recover_account i st sv app) = ap_config app"
  by (simp_all add: recover_account_def Let_def)

text \<open>The instance after the route state, the account and the incident are stored.\<close>

definition staged ::
  "str \<Rightarrow> upstream_account \<Rightarrow> account_route_state \<Rightarrow> cf_incident option \<Rightarrow> app_state \<Rightarrow> app_state" where
  "staged i account state incident app =
     (case incident of None \<Rightarrow> id | Some x \<Rightarrow> push_incident x)
       (on_runtime (\<lambda>rt. rt\<lparr>rt_accounts := hm_insert i (account\<lparr>ac_current_mode := rs_route_mode state\<rparr>) (rt_accounts rt)\<rparr>)
         (store_route_state i state app))"

lemma staged_leases [simp]: "rt_leases (ap_runtime (staged i account state incident app)) = rt_leases (ap_runtime app)"
  by (simp add: staged_def push_incident_def store_route_state_def split: option.splits)

lemma rerouted_staged:
  assumes "rt_inv (ap_runtime app)"
    and "evicted = (if evict then fst (evict_leases_for_account i (staged i account state incident app)) else [])"
    and "app1 = (if evict then snd (evict_leases_for_account i (staged i account state incident app))
        else staged i account state incident app)"
    and "ms = [AccountUpsert (account\<lparr>ac_current_mode := rs_route_mode state\<rparr>), RouteStateUpsert state]
          @ (case incident of None \<Rightarrow> [] | Some x \<Rightarrow> [IncidentInsert x]) @ lease_deletes evicted"
    and "app2 = enqueue_many ms app1" 
    and "ap_runtime app' = ap_runtime app2 \<and> ap_writer_tx app' = ap_writer_tx app2 \<and> ap_bus_tx app' = ap_bus_tx app2
      \<and> ap_config app' = ap_config app2"
  shows "rerouted i account state incident evict app app'"
proof -
  have k: "hm_keyed ls_principal_id (rt_leases (ap_runtime (staged i account state incident app)))"
    using rt_invD(6) [OF assms(1)] by simp
  have fst: "evict \<Longrightarrow> evicted = fst (evict_leases_for_account i app)"
    using assms(2) evict_fst [of "staged i account state incident app" app i] by simp
  have frame: "ap_writer_tx (staged i account state incident app) = ap_writer_tx app"
    "ap_bus_tx (staged i account state incident app) = ap_bus_tx app"
    "ap_config (staged i account state incident app) = ap_config app"
    by (simp_all add: staged_def push_incident_def store_route_state_def split: option.splits)
  have rt: "ap_runtime app1 = routed i account state incident evict (ap_runtime app)"
    using evict_snd [OF k, of i] assms(3)
    by (simp add: routed_def staged_def push_incident_def store_route_state_def split: option.splits)
  have tx: "ap_writer_tx app1 = ap_writer_tx app" "ap_bus_tx app1 = ap_bus_tx app" "ap_config app1 = ap_config app"
    using evict_snd [OF k, of i] assms(3) frame by simp_all
  show ?thesis
    unfolding rerouted_def using assms(2,4,5,6) rt tx fst
    by (intro conjI exI [of _ evicted]) auto
qed

lemma sync_stored:
  "hm_get (rt_accounts (ap_runtime app)) i = Some account \<Longrightarrow>
     sync_account_mode i state (store_route_state i state app) =
       Some (account\<lparr>ac_current_mode := rs_route_mode state\<rparr>, staged i account state None app)"
  by (simp add: sync_account_mode_def store_route_state_def staged_def Let_def)

lemma push_staged: "push_incident x (staged i account state None app) = staged i account state (Some x) app"
  by (simp add: staged_def)

definition failed_over ::
  "bool \<Rightarrow> str \<Rightarrow> i64 \<Rightarrow> instant \<Rightarrow> account_route_state \<Rightarrow> account_route_state" where
  "failed_over protected severity cooldown_seconds now state = state\<lparr>rs_success_streak := 0,
     rs_cooldown_until := (if protected then None else Some (now + secs (sint cooldown_seconds))),
     rs_cooldown_level := max (rs_cooldown_level state) 1,
     rs_cooldown_reason := Some severity, rs_last_cf_at := Some now\<rparr>"

definition quota_marked :: "instant \<Rightarrow> str option \<Rightarrow> account_route_state \<Rightarrow> account_route_state" where
  "quota_marked until message state = state\<lparr>rs_success_streak := 0,
     rs_cooldown_level := max (rs_cooldown_level state) 1, rs_cooldown_until := Some until,
     rs_cooldown_reason := Some (quota_reason message)\<rparr>"

lemma failover_rerouted:
  assumes "rt_inv (ap_runtime app)" and "hm_get (rt_route_states (ap_runtime app)) i = Some s"
    and "hm_get (rt_accounts (ap_runtime app)) i = Some a"
    and "protected = (should_protect_sole_account (ap_runtime app) i None \<and> severity \<noteq> ''quota'')"
    and "state = failed_over protected severity cd now s"
  shows "fst (failover_account iid i severity cd rec now app) = Some state
    \<and> rerouted i a state (Some (incident_of iid i (a\<lparr>ac_current_mode := rs_route_mode state\<rparr>) state severity now))
        (\<not> protected) app (snd (failover_account iid i severity cd rec now app))"
  unfolding failover_account_def assms(4) [symmetric] assms(2) Let_def option.case
    failed_over_def [symmetric] assms(5) [symmetric] sync_stored [OF assms(3)] push_staged case_prod_conv
  by (cases protected; cases rec)
    (auto simp: case_prod_beta' intro!: rerouted_staged [OF assms(1) refl refl refl refl])

lemma quota_rerouted:
  assumes "rt_inv (ap_runtime app)" and "hm_get (rt_route_states (ap_runtime app)) i = Some s"
    and "hm_get (rt_accounts (ap_runtime app)) i = Some a"
    and "until = (case reset_at of Some t \<Rightarrow> t | None \<Rightarrow> now + mins 30)"
    and "state = quota_marked until message s"
  shows "fst (mark_account_quota_exhausted iid i reset_at message now app) = Some state
    \<and> rerouted i a state (Some (incident_of iid i (a\<lparr>ac_current_mode := rs_route_mode state\<rparr>) state
          ''quota_exhausted'' now)) True app
        (snd (mark_account_quota_exhausted iid i reset_at message now app))"
  unfolding mark_account_quota_exhausted_def assms(4) [symmetric] assms(2) Let_def option.case
    quota_marked_def [symmetric] assms(5) [symmetric] sync_stored [OF assms(3)] push_staged case_prod_conv
  by (auto simp: case_prod_beta' intro!: rerouted_staged [OF assms(1) refl refl refl refl])

lemma event_rerouted:
  assumes "rt_inv (ap_runtime app)" and "hm_get (rt_route_states (ap_runtime app)) i = Some s"
    and "hm_get (rt_accounts (ap_runtime app)) i = Some a"
    and "route_event_transition event s now = (state, Some (severity, rec, fo))"
  shows "fst (record_route_event iid i event now app) = Some state
    \<and> rerouted i a state
        (map_option (\<lambda>sv. incident_of iid i (a\<lparr>ac_current_mode := rs_route_mode state\<rparr>) state sv now) severity)
        (fo \<and> \<not> should_protect_sole_account (ap_runtime (staged i a state
          (map_option (\<lambda>sv. incident_of iid i (a\<lparr>ac_current_mode := rs_route_mode state\<rparr>) state sv now) severity) app)) i None)
        app (snd (record_route_event iid i event now app))"
  unfolding record_route_event_def assms(2,4) Let_def option.case sync_stored [OF assms(3)] case_prod_conv
  by (cases severity; cases rec)
    (auto simp: case_prod_beta' push_staged intro!: rerouted_staged [OF assms(1) refl refl refl refl])

subsection \<open>Invariants and replication\<close>

lemma cf_inv_failed_over: "cf_inv s \<Longrightarrow> cf_inv (failed_over p sv cd now s)"
  by (auto simp: cf_inv_def failed_over_def)

lemma cf_inv_quota_marked: "cf_inv s \<Longrightarrow> cf_inv (quota_marked u m s)"
  by (auto simp: cf_inv_def quota_marked_def)

lemma cf_inv_reason [simp]: "cf_inv (s\<lparr>rs_cooldown_reason := r\<rparr>) = cf_inv s"
  by (simp add: cf_inv_def)

lemma cf_inv_transition: "cf_inv s \<Longrightarrow> cf_inv (fst (route_event_transition event s now))"
  by (simp add: route_event_transition_def Let_def case_prod_beta' inv_intros)

lemma transition_id [simp]: "rs_account_id (fst (route_event_transition event s now)) = rs_account_id s"
  by (simp add: route_event_transition_def Let_def case_prod_beta')

lemma failed_over_id [simp]: "rs_account_id (failed_over p sv cd now s) = rs_account_id s"
  by (simp add: failed_over_def)

lemma quota_marked_id [simp]: "rs_account_id (quota_marked u m s) = rs_account_id s"
  by (simp add: quota_marked_def)

text \<open>What the tables of an instance satisfy between operations.\<close>

definition pool_inv :: "runtime_state \<Rightarrow> bool" where
  "pool_inv rt \<longleftrightarrow> rt_inv rt \<and> routes_inv rt \<and> modes_synced rt"

lemma rerouted_pool_inv:
  assumes "rerouted i a state incident evict app app'" and inv: "pool_inv (ap_runtime app)"
    and "hm_get (rt_accounts (ap_runtime app)) i = Some a"
    and "rs_account_id state = i" and "cf_inv state"
  shows "pool_inv (ap_runtime app')"
proof -
  have "ac_id a = i" using rt_invD(3) inv assms(3) by (auto simp: pool_inv_def dest: hm_keyedD)
  then have "rt_inv (ap_runtime app')"
    using assms by (simp add: rerouted_def routed_inv pool_inv_def)
  moreover have "routes_inv (ap_runtime app') \<and> modes_synced (ap_runtime app')"
    using assms by (auto simp: pool_inv_def rerouted_def routes_inv_def modes_synced_def routed_def)
  ultimately show ?thesis by (simp add: pool_inv_def)
qed

lemma pool_inv_ids:
  assumes "pool_inv rt"
  shows "hm_get (rt_accounts rt) i = Some a \<Longrightarrow> ac_id a = i"
    and "hm_get (rt_route_states rt) i = Some s \<Longrightarrow> rs_account_id s = i \<and> cf_inv s"
  using assms rt_invD(3,5) by (auto simp: pool_inv_def routes_inv_def dest: hm_keyedD)

text \<open>An operation on an account whose entries are there.\<close>

definition known_account :: "str \<Rightarrow> app_state \<Rightarrow> bool" where
  "known_account i app \<longleftrightarrow> hm_get (rt_route_states (ap_runtime app)) i \<noteq> None
     \<and> hm_get (rt_accounts (ap_runtime app)) i \<noteq> None"

definition fresh_incident :: "str \<Rightarrow> app_state \<Rightarrow> bool" where
  "fresh_incident iid app \<longleftrightarrow> iid \<notin> ci_id ` set (rt_cf_incidents (ap_runtime app))"

lemma ci_id_incident_of [simp]: "ci_id (incident_of iid i a s sv now) = iid"
  by (simp add: incident_of_def)

lemma failover_ok:
  assumes inv: "pool_inv (ap_runtime app)" and "known_account i app"
    and app': "app' = snd (failover_account iid i severity cd rec now app)"
  shows "pool_inv (ap_runtime app')" and "fresh_incident iid app \<Longrightarrow> published app app'"
proof -
  obtain s a where sa: "hm_get (rt_route_states (ap_runtime app)) i = Some s"
      "hm_get (rt_accounts (ap_runtime app)) i = Some a"
    using assms(2) by (auto simp: known_account_def)
  note ids = pool_inv_ids(1) [OF inv sa(2)] pool_inv_ids(2) [OF inv sa(1)]
  have rt: "rt_inv (ap_runtime app)" using inv by (simp add: pool_inv_def)
  note r = conjunct2 [OF failover_rerouted [OF rt sa refl refl,
      where severity = severity and iid = iid and cd = cd and rec = rec and now = now], folded app']
  show "pool_inv (ap_runtime app')"
    using r inv sa(2) by (rule rerouted_pool_inv) (use ids in \<open>simp_all add: cf_inv_failed_over\<close>)
  show "published app app'" if "fresh_incident iid app"
    using r rt ids(1) by (rule rerouted_published) (use ids that in \<open>auto simp: fresh_incident_def\<close>)
qed

lemma quota_ok:
  assumes inv: "pool_inv (ap_runtime app)" and "known_account i app"
    and app': "app' = snd (mark_account_quota_exhausted iid i reset_at message now app)"
  shows "pool_inv (ap_runtime app')" and "fresh_incident iid app \<Longrightarrow> published app app'"
proof -
  obtain s a where sa: "hm_get (rt_route_states (ap_runtime app)) i = Some s"
      "hm_get (rt_accounts (ap_runtime app)) i = Some a"
    using assms(2) by (auto simp: known_account_def)
  note ids = pool_inv_ids(1) [OF inv sa(2)] pool_inv_ids(2) [OF inv sa(1)]
  have rt: "rt_inv (ap_runtime app)" using inv by (simp add: pool_inv_def)
  note r = conjunct2 [OF quota_rerouted [OF rt sa refl refl,
      where iid = iid and reset_at = reset_at and now = now and message = message], folded app']
  show "pool_inv (ap_runtime app')"
    using r inv sa(2) by (rule rerouted_pool_inv) (use ids in \<open>simp_all add: cf_inv_quota_marked\<close>)
  show "published app app'" if "fresh_incident iid app"
    using r rt ids(1) by (rule rerouted_published) (use ids that in \<open>auto simp: fresh_incident_def\<close>)
qed

lemma transition_known:
  "ev_kind event \<in> {''cf_hit'', ''success''} \<Longrightarrow>
     \<exists>severity rec fo. route_event_transition event s now =
       (fst (route_event_transition event s now), Some (severity, rec, fo))"
  by (auto simp: route_event_transition_def Let_def case_prod_beta')

lemma event_ok:
  assumes inv: "pool_inv (ap_runtime app)" and "known_account i app"
    and kind: "ev_kind event \<in> {''cf_hit'', ''success''}"
    and app': "app' = snd (record_route_event iid i event now app)"
  shows "pool_inv (ap_runtime app')" and "fresh_incident iid app \<Longrightarrow> published app app'"
proof -
  obtain s a where sa: "hm_get (rt_route_states (ap_runtime app)) i = Some s"
      "hm_get (rt_accounts (ap_runtime app)) i = Some a"
    using assms(2) by (auto simp: known_account_def)
  note ids = pool_inv_ids(1) [OF inv sa(2)] pool_inv_ids(2) [OF inv sa(1)]
  have rt: "rt_inv (ap_runtime app)" using inv by (simp add: pool_inv_def)
  obtain severity rec fo where tr: "route_event_transition event s now =
       (fst (route_event_transition event s now), Some (severity, rec, fo))"
    using transition_known [OF kind] by blast
  note r = conjunct2 [OF event_rerouted [OF rt sa tr, where iid = iid], folded app']
  show "pool_inv (ap_runtime app')"
    using r inv sa(2) by (rule rerouted_pool_inv) (use ids in \<open>simp_all add: cf_inv_transition\<close>)
  show "published app app'" if "fresh_incident iid app"
    using r rt ids(1) by (rule rerouted_published) (use ids that in \<open>auto simp: fresh_incident_def\<close>)
qed

end
