(* ===== verification/Route_Properties.thy ===== *)
theory Route_Properties
  imports Route_Laws
begin

text \<open>The properties of failover, quota marks and route events, with their witnesses.\<close>

lemma rerouted_tables:
  assumes "rerouted i a state incident evict app app'" and "rt_inv (ap_runtime app)"
  shows "hm_get (rt_route_states (ap_runtime app')) i = Some state"
    and "evict \<Longrightarrow> hm_get (rt_leases (ap_runtime app')) p = Some l \<Longrightarrow> ls_account_id l \<noteq> i"
    and "\<not> evict \<Longrightarrow> rt_leases (ap_runtime app') = rt_leases (ap_runtime app)"
    and "rt_credentials (ap_runtime app') = rt_credentials (ap_runtime app)"
  using assms drop_leases_get [OF rt_invD(6) [OF assms(2)], of i]
  by (auto simp: rerouted_def routed_def split: option.splits if_splits)

lemma rerouted_inv:
  assumes "rerouted i a state incident evict app app'" and "rt_inv (ap_runtime app)"
    and "hm_get (rt_accounts (ap_runtime app)) i = Some a" and "rs_account_id state = i"
  shows "rt_inv (ap_runtime app')"
  using assms rt_invD(3) [OF assms(2)] by (auto simp: rerouted_def routed_inv dest: hm_keyedD)

lemma cooling_not_selected:
  assumes inv: "rt_inv (ap_runtime app)" and r: "hm_get (rt_route_states (ap_runtime app)) i = Some r"
    and "later \<le> reuse_later" and "is_in_cooldown r reuse_later"
    and "resolve_lease_outcome h request later reuse_later app = (Selected lease key warmup, app')"
  shows "ls_account_id lease \<noteq> i"
proof
  assume i: "ls_account_id lease = i"
  obtain a where a: "hm_get (rt_accounts (ap_runtime app)) i = Some a"
      "\<not> cooling (rt_route_states (ap_runtime app)) reuse_later a"
    using selected_account [OF inv assms(3,5)] i by blast
  have "ac_id a = i" using rt_invD(3) [OF inv] a(1) by (rule hm_keyedD)
  with a(2) r assms(4) show False by (simp add: cooling_def)
qed

text \<open>
  A quota mark is read back as one: trimming and lower-casing the reason keeps its prefix.
\<close>

lemma starts_lower_trim:
  assumes "ws_len (p @ c # t) = 0" and "33 \<le> byte c" and "byte c < 128"
    and "to_ascii_lowercase (p @ [c]) = p @ [c]"
  shows "starts_with (to_ascii_lowercase (trim (p @ c # t))) (p @ [c])"
proof -
  obtain t' where "trim (p @ c # t) = p @ c # t'" using trim_keeps [OF assms(1-3)] by blast
  with assms(4) show ?thesis by (auto simp: starts_with_iff to_ascii_lowercase_def)
qed

lemma quota_reason_prefix: "\<exists>t. quota_reason message = ''quota_exhauste'' @ CHR ''d'' # t"
  by (cases message) (auto simp: quota_reason_def)

lemma quota_reason_marked: "starts_with (to_ascii_lowercase (trim (quota_reason message))) ''quota_exhausted''"
proof -
  obtain t where t: "quota_reason message = ''quota_exhauste'' @ CHR ''d'' # t"
    using quota_reason_prefix by blast
  have "starts_with (to_ascii_lowercase (trim (''quota_exhauste'' @ CHR ''d'' # t))) (''quota_exhauste'' @ [CHR ''d''])"
    by (rule starts_lower_trim) (simp_all add: is_ascii_ws_def ws2_def ws3_def byte_def to_ascii_lowercase_def lower_byte_def)
  with t show ?thesis by simp
qed

lemma failover_out:
  assumes "rt_inv (ap_runtime app)" and "known_account i app"
    and "severity = ''quota'' \<or> \<not> should_protect_sole_account (ap_runtime app) i None"
    and "app1 = snd (failover_account iid i severity cooldown_seconds recover now app)"
    and "later \<le> reuse_later" and "reuse_later < now + secs (sint cooldown_seconds)"
  shows "(\<forall>p l. hm_get (rt_leases (ap_runtime app1)) p = Some l \<longrightarrow> ls_account_id l \<noteq> i)
    \<and> (\<forall>sha256 request lease key warmup app2.
        resolve_lease_outcome sha256 request later reuse_later app1 = (Selected lease key warmup, app2) \<longrightarrow>
        ls_account_id lease \<noteq> i)"
proof -
  obtain s a where sa: "hm_get (rt_route_states (ap_runtime app)) i = Some s"
      "hm_get (rt_accounts (ap_runtime app)) i = Some a"
    using assms(2) by (auto simp: known_account_def)
  have p: "False = (should_protect_sole_account (ap_runtime app) i None \<and> severity \<noteq> ''quota'')"
    using assms(3) by auto
  let ?state = "failed_over False severity cooldown_seconds now s"
  have id: "rs_account_id ?state = i" using rt_invD(5) [OF assms(1)] sa(1) by (auto dest: hm_keyedD)
  have r: "rerouted i a ?state (Some (incident_of iid i (a\<lparr>ac_current_mode := rs_route_mode ?state\<rparr>)
      ?state severity now)) (\<not> False) app app1"
    unfolding assms(4) by (rule conjunct2 [OF failover_rerouted [OF assms(1) sa p refl]])
  note t = rerouted_tables [OF r assms(1)]
  have "is_in_cooldown ?state reuse_later" using assms(6) by (simp add: is_in_cooldown_def failed_over_def)
  then show ?thesis
    using t(2) cooling_not_selected [OF rerouted_inv [OF r assms(1) sa(2) id] t(1) assms(5)] by blast
qed

text \<open>C13 (failover_rotates_out).
  After a failover no principal holds a lease on the account, and until the cooldown ends no
  request is bound to it; a tenant's only account is exempt unless the failover is for quota.\<close>

theorem failover_rotates_out:
  assumes "rt_inv (ap_runtime app)" and "known_account i app"
    and "severity = ''quota'' \<or> \<not> should_protect_sole_account (ap_runtime app) i None"
    and "app1 = snd (failover_account iid i severity cooldown_seconds recover now app)"
    and "later \<le> reuse_later" and "reuse_later < now + secs (sint cooldown_seconds)"
  shows "(\<forall>p l. hm_get (rt_leases (ap_runtime app1)) p = Some l \<longrightarrow> ls_account_id l \<noteq> i)
    \<and> (\<forall>sha256 request lease key warmup app2.
        resolve_lease_outcome sha256 request later reuse_later app1 = (Selected lease key warmup, app2) \<longrightarrow>
        ls_account_id lease \<noteq> i)"
  using assms by (rule failover_out)

lemma quota_mark_out:
  assumes "rt_inv (ap_runtime app)" and "known_account i app"
    and "app1 = snd (mark_account_quota_exhausted iid i (Some reset_at) message now app)"
    and "later \<le> reuse_later" and "reuse_later < reset_at"
  shows "(\<forall>p l. hm_get (rt_leases (ap_runtime app1)) p = Some l \<longrightarrow> ls_account_id l \<noteq> i)
    \<and> (\<forall>r. hm_get (rt_route_states (ap_runtime app1)) i = Some r \<longrightarrow>
        account_availability_state True (Some r) Active reuse_later = AvQuotaExhausted
        \<and> route_state_quota_reset_at r reuse_later = Some reset_at)
    \<and> (\<forall>sha256 request lease key warmup app2.
        resolve_lease_outcome sha256 request later reuse_later app1 = (Selected lease key warmup, app2) \<longrightarrow>
        ls_account_id lease \<noteq> i)"
proof -
  obtain s a where sa: "hm_get (rt_route_states (ap_runtime app)) i = Some s"
      "hm_get (rt_accounts (ap_runtime app)) i = Some a"
    using assms(2) by (auto simp: known_account_def)
  let ?state = "quota_marked reset_at message s"
  have id: "rs_account_id ?state = i" using rt_invD(5) [OF assms(1)] sa(1) by (auto dest: hm_keyedD)
  have r: "rerouted i a ?state (Some (incident_of iid i (a\<lparr>ac_current_mode := rs_route_mode ?state\<rparr>)
      ?state ''quota_exhausted'' now)) True app app1"
    unfolding assms(3)
    by (rule conjunct2 [OF quota_rerouted [OF assms(1) sa _ refl]]) simp
  note t = rerouted_tables [OF r assms(1)]
  have cool: "is_in_cooldown ?state reuse_later" using assms(5) by (simp add: is_in_cooldown_def quota_marked_def)
  moreover have "route_state_is_quota_marked ?state"
    using quota_reason_marked [of message]
    by (simp add: route_state_is_quota_marked_def quota_marked_def Let_def)
  ultimately have "route_state_quota_reset_at ?state reuse_later = Some reset_at"
      "account_availability_state True (Some ?state) Active reuse_later = AvQuotaExhausted"
    by (simp_all add: route_state_quota_reset_at_def account_availability_state_def quota_exhausted_iff quota_marked_def)
  with cool show ?thesis
    using t(1,2) cooling_not_selected [OF rerouted_inv [OF r assms(1) sa(2) id] t(1) assms(4)] by auto
qed

text \<open>C14 (quota_mark_rotates_out).
  An account marked quota exhausted loses every lease, shows as quota exhausted with its reset
  instant and is bound to no request before that instant.\<close>

theorem quota_mark_rotates_out:
  assumes "rt_inv (ap_runtime app)" and "known_account i app"
    and "app1 = snd (mark_account_quota_exhausted iid i (Some reset_at) message now app)"
    and "later \<le> reuse_later" and "reuse_later < reset_at"
  shows "(\<forall>p l. hm_get (rt_leases (ap_runtime app1)) p = Some l \<longrightarrow> ls_account_id l \<noteq> i)
    \<and> (\<forall>r. hm_get (rt_route_states (ap_runtime app1)) i = Some r \<longrightarrow>
        account_availability_state True (Some r) Active reuse_later = AvQuotaExhausted
        \<and> route_state_quota_reset_at r reuse_later = Some reset_at)
    \<and> (\<forall>sha256 request lease key warmup app2.
        resolve_lease_outcome sha256 request later reuse_later app1 = (Selected lease key warmup, app2) \<longrightarrow>
        ls_account_id lease \<noteq> i)"
  using assms by (rule quota_mark_out)

text \<open>C37 (sole_account_spared).
  The only credentialed account of a tenant keeps its leases and gets no cooldown when it fails
  over for another reason than quota: the very next request of its tenant, if the account has the
  model and its credential is routable, is given a lease at whatever time it comes. This is about
  \<open>failover_account\<close>; a reported Cloudflare hit does not spare it (\<open>sole_account_warp_hit\<close>).\<close>

theorem sole_account_spared:
  assumes "rt_inv (ap_runtime app)" and "known_account i app"
    and "severity \<noteq> ''quota''" and "should_protect_sole_account (ap_runtime app) i None"
    and "app1 = snd (failover_account iid i severity cooldown_seconds recover now app)"
  shows "rt_leases (ap_runtime app1) = rt_leases (ap_runtime app)
    \<and> (\<exists>r. hm_get (rt_route_states (ap_runtime app1)) i = Some r \<and> rs_cooldown_until r = None
        \<and> rs_cooldown_reason r = Some severity)
    \<and> (\<forall>a request later reuse_later sha256. hm_get (rt_accounts (ap_runtime app)) i = Some a \<longrightarrow>
        can_serve (ap_runtime app) (lq_tenant_id request) (lq_model request) a \<longrightarrow>
        (\<exists>lease key warmup app2.
          resolve_lease_outcome sha256 request later reuse_later app1 = (Selected lease key warmup, app2)))"
proof -
  obtain s a where sa: "hm_get (rt_route_states (ap_runtime app)) i = Some s"
      "hm_get (rt_accounts (ap_runtime app)) i = Some a"
    using assms(2) by (auto simp: known_account_def)
  have p: "True = (should_protect_sole_account (ap_runtime app) i None \<and> severity \<noteq> ''quota'')"
    using assms(3,4) by simp
  let ?state = "failed_over True severity cooldown_seconds now s"
  have r: "rerouted i a ?state (Some (incident_of iid i (a\<lparr>ac_current_mode := rs_route_mode ?state\<rparr>)
      ?state severity now)) (\<not> True) app app1"
    unfolding assms(5) by (rule conjunct2 [OF failover_rerouted [OF assms(1) sa p refl]])
  have id: "rs_account_id ?state = i" using rt_invD(5) [OF assms(1)] sa(1) by (auto simp: failed_over_def dest: hm_keyedD)
  have ida: "ac_id a = i" using rt_invD(3) [OF assms(1)] sa(2) by (rule hm_keyedD)
  let ?a = "a\<lparr>ac_current_mode := rs_route_mode ?state\<rparr>"
  have a: "hm_get (rt_accounts (ap_runtime app1)) i = Some ?a" using r by (simp add: rerouted_def routed_def)
  have "\<not> cooling (rt_route_states (ap_runtime app1)) later ?a" for later
    using rerouted_tables(1) [OF r assms(1)] ida by (simp add: cooling_def is_in_cooldown_def failed_over_def)
  note selected = selected_if_ready [OF rerouted_inv [OF r assms(1) sa(2) id] a _ this]
  have "\<exists>lease key warmup app2. resolve_lease_outcome sha256 request later reuse_later app1 = (Selected lease key warmup, app2)"
    if "can_serve (ap_runtime app) (lq_tenant_id request) (lq_model request) a" for request later reuse_later sha256
    using that rerouted_tables(4) [OF r assms(1)] by (intro selected) (simp add: can_serve_def)
  then show ?thesis
    using rerouted_tables(1,3) [OF r assms(1)] sa(2) by (simp add: failed_over_def)
qed

lemma protect_staged [simp]:
  assumes "hm_get (rt_accounts (ap_runtime app)) i = Some a" and "rt_inv (ap_runtime app)"
  shows "should_protect_sole_account (ap_runtime (staged i a state incident app)) j m
    = should_protect_sole_account (ap_runtime app) j m"
proof -
  have frame: "rt_credentials (ap_runtime (staged i a state incident app)) = rt_credentials (ap_runtime app)"
    "rt_accounts (ap_runtime (staged i a state incident app)) =
       hm_insert i (a\<lparr>ac_current_mode := rs_route_mode state\<rparr>) (rt_accounts (ap_runtime app))"
    by (simp_all add: staged_def push_incident_def store_route_state_def split: option.splits)
  have count: "length (filter P (hm_values (hm_insert i (a\<lparr>ac_current_mode := m\<rparr>) accounts))) =
      length (filter P (hm_values accounts))"
    if "hm_get accounts i = Some a" "\<And>a m. P (a\<lparr>ac_current_mode := m\<rparr>) = P a" for P m accounts
    using that(1) by (induction accounts) (auto simp: hm_values_def hm_insert_def that(2) split: if_splits)
  show ?thesis
    using assms(1) by (auto simp: should_protect_sole_account_def frame count split: option.splits)
qed

text \<open>Fact (sole_account_warp_hit).
  A Cloudflare hit in warp mode spares the leases of a tenant's only account too, but not its
  availability: it is in cooldown afterwards, so the leases that were kept cannot be used.\<close>

theorem sole_account_warp_hit:
  assumes "rt_inv (ap_runtime app)" and "known_account i app"
    and "should_protect_sole_account (ap_runtime app) i None"
    and "ev_kind event = ''cf_hit''" and "ev_mode event = Warp"
    and "app1 = snd (record_route_event iid i event now app)"
  shows "rt_leases (ap_runtime app1) = rt_leases (ap_runtime app)
    \<and> (\<exists>r. hm_get (rt_route_states (ap_runtime app1)) i = Some r \<and> is_in_cooldown r now
        \<and> account_availability_state True (Some r) Active now \<noteq> AvRoutable)"
proof -
  obtain s a where sa: "hm_get (rt_route_states (ap_runtime app)) i = Some s"
      "hm_get (rt_accounts (ap_runtime app)) i = Some a"
    using assms(2) by (auto simp: known_account_def)
  let ?state = "fst (register_cf_hit (reconcile_route_mode s now) Warp now)"
  have tr: "route_event_transition event s now = (?state, Some (Some ''cooldown'', True, True))"
    using assms(4,5) by (simp add: route_event_transition_def Let_def register_cf_hit_def)
  have "rerouted i a ?state (Some (incident_of iid i (a\<lparr>ac_current_mode := rs_route_mode ?state\<rparr>)
      ?state ''cooldown'' now)) False app app1"
    using conjunct2 [OF event_rerouted [OF assms(1) sa tr, of iid]] assms(3) sa(2) assms(1)
    unfolding assms(6) by simp
  note t = rerouted_tables(1,3) [OF this assms(1)]
  have "0 < COOLDOWN_STEPS_SECONDS ! min (rs_cooldown_level s + 1) 7"
    using steps_bounds [of "min (rs_cooldown_level s + 1) 7"] by linarith
  then have "is_in_cooldown ?state now" by (simp add: is_in_cooldown_def warp_hit_cooldown)
  with t show ?thesis by (simp add: routable_iff)
qed

text \<open>Fact (unknown_event_diverges).
  An event of an unknown kind is not a no-op: it reconciles the route state, sends nothing and
  leaves the mode recorded on the account alone. After 72 hours in warp the instance and its
  replicas disagree, and so do the account and its route state.\<close>

theorem unknown_event_diverges:
  assumes "ev_kind event \<noteq> ''cf_hit''" and "ev_kind event \<noteq> ''success''"
    and "hm_get (rt_route_states (ap_runtime app)) i = Some s"
    and "rs_route_mode s = Warp" and "rs_warp_entered_at s = Some t" and "now - t \<ge> hours 72"
    and "hm_get (rt_accounts (ap_runtime app)) i = Some a" and "ac_current_mode a = Warp"
    and "app1 = snd (record_route_event iid i event now app)"
  shows "sent app app1 = [] \<and> \<not> published app app1 \<and> \<not> modes_synced (ap_runtime app1)"
proof -
  have app1: "app1 = store_route_state i (reconcile_route_mode s now) app"
    using assms(1,2,3,9) by (simp add: record_route_event_def route_event_transition_def Let_def)
  have mode: "rs_route_mode (reconcile_route_mode s now) = Direct"
    using assms(5,6) by (simp add: reconcile_route_mode_def WARP_EJECTION_HOURS_def)
  have sent: "sent app app1 = []" by (simp add: sent_def app1 store_route_state_def)
  have "\<not> same_tables (ap_runtime app) (ap_runtime app1)"
  proof
    assume "same_tables (ap_runtime app) (ap_runtime app1)"
    then have "hm_get (rt_route_states (ap_runtime app)) = hm_get (rt_route_states (ap_runtime app1))"
      by (simp add: same_tables_def)
    from fun_cong [OF this, of i] have "Some s = Some (reconcile_route_mode s now)"
      by (simp add: assms(3) app1 store_route_state_def)
    with mode assms(4) show False by simp
  qed
  moreover have "\<not> modes_synced (ap_runtime app1)"
    using assms(7,8) mode by (auto simp: modes_synced_def app1 store_route_state_def)
  ultimately show ?thesis using sent by (simp add: published_def)
qed

subsection \<open>Witnesses\<close>

lemma ex_known: "known_account ''a'' (ex_app ex_pool)"
  by (simp add: known_account_def ex_pool_tables)

text \<open>An instance whose only account has been in warp since the instant 0.\<close>

definition ex_sole :: runtime_state where
  "ex_sole = initial_runtime\<lparr>
     rt_accounts := [(''a'', (ex_account ''a'' 1)\<lparr>ac_current_mode := Warp\<rparr>)],
     rt_credentials := [(''a'', ex_credential ''a'')],
     rt_route_states := [(''a'', (fresh_route_state ''a'')\<lparr>rs_route_mode := Warp, rs_warp_entered_at := Some 0\<rparr>)],
     rt_leases := [(''p'', ex_lease ''p'' 1 ''a'')]\<rparr>"

lemma ex_sole_facts [simp]:
  "rt_inv ex_sole" "known_account ''a'' (ex_app ex_sole)" "should_protect_sole_account ex_sole ''a'' None"
  by (simp_all add: rt_inv_def hm_keyed_iff ex_sole_def initial_runtime_def ex_account_def ex_credential_def
      fresh_route_state_def ex_lease_def known_account_def should_protect_sole_account_def hm_values_def hm_keys_def)

text \<open>The principal \<open>''p''\<close> was bound to account \<open>''a''\<close>.\<close>

lemma ex_lease_account: "ls_account_id (ex_lease p t i) = i"
  by (simp add: ex_lease_def)

theorem failover_rotates_out_witness:
  "hm_get (rt_leases ex_pool) ''p'' = Some (ex_lease ''p'' 1 ''a'')
    \<and> hm_get (rt_leases (ap_runtime (snd (failover_account ''i'' ''a'' ''quota'' 60 False 5 (ex_app ex_pool))))) ''p''
      \<noteq> Some (ex_lease ''p'' 1 ''a'')"
  using failover_rotates_out [of "ex_app ex_pool" "''a''" "''quota''" _ "''i''" 60 False 5 6 7] ex_known ex_lease_account
  by (simp add: ex_pool_tables) blast

theorem quota_mark_rotates_out_witness:
  "hm_get (rt_leases ex_pool) ''p'' = Some (ex_lease ''p'' 1 ''a'')
    \<and> hm_get (rt_leases (ap_runtime (snd (mark_account_quota_exhausted ''i'' ''a'' (Some 100) None 5
        (ex_app ex_pool))))) ''p'' \<noteq> Some (ex_lease ''p'' 1 ''a'')"
  using quota_mark_rotates_out [of "ex_app ex_pool" "''a''" _ "''i''" 100 None 5 6 7] ex_known ex_lease_account
  by (simp add: ex_pool_tables) blast

theorem sole_account_spared_witness:
  "rt_leases (ap_runtime (snd (failover_account ''i'' ''a'' ''cf'' 60 False 5 (ex_app ex_sole)))) = rt_leases ex_sole
    \<and> (\<exists>lease key warmup app2. resolve_lease_outcome (\<lambda>_. []) (ex_request ''q'' 1) 6 7
        (snd (failover_account ''i'' ''a'' ''cf'' 60 False 5 (ex_app ex_sole))) = (Selected lease key warmup, app2))"
proof -
  have "hm_get (rt_accounts (ap_runtime (ex_app ex_sole))) ''a'' = Some ((ex_account ''a'' 1)\<lparr>ac_current_mode := Warp\<rparr>)"
    by (simp add: ex_sole_def)
  moreover have "can_serve (ap_runtime (ex_app ex_sole)) (lq_tenant_id (ex_request ''q'' 1)) (lq_model (ex_request ''q'' 1))
      ((ex_account ''a'' 1)\<lparr>ac_current_mode := Warp\<rparr>)"
    by (simp add: can_serve_def ex_sole_def ex_request_def ex_account_def ex_credential_def credential_is_routable_for_selection_def managed_status_for_selection_def)
  ultimately show ?thesis
    using sole_account_spared [of "ex_app ex_sole" "''a''" "''cf''" _ "''i''" 60 False 5] by simp
qed

theorem sole_account_warp_hit_witness:
  "rt_leases (ap_runtime (snd (record_route_event ''i'' ''a'' \<lparr>ev_mode = Warp, ev_kind = ''cf_hit''\<rparr> 5
     (ex_app ex_sole)))) = rt_leases ex_sole"
  using sole_account_warp_hit [of "ex_app ex_sole" "''a''" "\<lparr>ev_mode = Warp, ev_kind = ''cf_hit''\<rparr>" _ "''i''" 5] by simp

theorem unknown_event_diverges_witness:
  "\<not> published (ex_app ex_sole) (snd (record_route_event ''i'' ''a'' \<lparr>ev_mode = Warp, ev_kind = ''ping''\<rparr>
     (hours 100) (ex_app ex_sole)))"
  using unknown_event_diverges [of "\<lparr>ev_mode = Warp, ev_kind = ''ping''\<rparr>" "ex_app ex_sole" "''a''"
      "(fresh_route_state ''a'')\<lparr>rs_route_mode := Warp, rs_warp_entered_at := Some 0\<rparr>" 0 "hours 100"
      "(ex_account ''a'' 1)\<lparr>ac_current_mode := Warp\<rparr>" _ "''i''"]
  by (simp add: ex_sole_def)

end
