(* ===== verification/Contexts.thy ===== *)
theory Contexts
  imports Replication
begin

text \<open>
  Conversation contexts (\<open>state.rs\<close>): the turn protocol of a principal (begin, record, discard),
  compaction, and what is replayed to a new account or after a lost response. Compaction cuts
  strings at byte positions, which panics inside a character: its result is an \<open>outcome\<close> whose
  \<open>Panics\<close> carries the instance as the unwinding leaves it.
\<close>

subsection \<open>Turns\<close>

definition workflow_spine_for_model :: "str \<Rightarrow> str" where
  "workflow_spine_for_model model = ''task_continuity=preserve'' @ nl @ ''model='' @ model @ nl
     @ ''preserve_tool_state=true'' @ nl @ ''preserve_decisions=true''"

definition ensure_conversation_context :: "conversation_context \<Rightarrow> str \<Rightarrow> str \<Rightarrow> conversation_context" where
  "ensure_conversation_context ctx principal_id model =
    (let ctx = ctx\<lparr>cc_principal_id := principal_id, cc_model := model\<rparr>;
         ctx = (if trim (cc_workflow_spine ctx) = []
                then ctx\<lparr>cc_workflow_spine := workflow_spine_for_model model\<rparr> else ctx)
     in ctx\<lparr>cc_behavior_profile := behavior_profile_default\<rparr>)"

definition put_context :: "str \<Rightarrow> conversation_context \<Rightarrow> app_state \<Rightarrow> app_state" where
  "put_context principal_id ctx app = on_runtime (\<lambda>rt. rt\<lparr>rt_conversation_contexts :=
     hm_insert principal_id ctx (rt_conversation_contexts rt)\<rparr>) app"

definition context_of :: "app_state \<Rightarrow> str \<Rightarrow> conversation_context option" where
  "context_of app principal_id = hm_get (rt_conversation_contexts (ap_runtime app)) principal_id"

text \<open>\<open>t1\<close>, \<open>t2\<close> are the clock readings in the order of the code.\<close>

definition begin_context_turn ::
  "str \<Rightarrow> str \<Rightarrow> u32 \<Rightarrow> str \<Rightarrow> json list \<Rightarrow> instant \<Rightarrow> instant \<Rightarrow> app_state \<Rightarrow> app_state" where
  "begin_context_turn principal_id model generation request_summary request_input_items t1 t2 app =
    (let ctx = (case context_of app principal_id of Some c \<Rightarrow> c | None \<Rightarrow> conversation_context_default);
         ctx = (ensure_conversation_context ctx principal_id model)\<lparr>
           cc_pending_turn := Some \<lparr>pt_generation = generation, pt_request_summary = request_summary,
             pt_request_input_items = request_input_items, pt_created_at = t1\<rparr>,
           cc_updated_at := Some t2\<rparr>
     in enqueue (ConversationContextUpsert ctx) (put_context principal_id ctx app))"

definition discard_pending_context_turn :: "str \<Rightarrow> instant \<Rightarrow> app_state \<Rightarrow> app_state" where
  "discard_pending_context_turn principal_id now app =
    (case context_of app principal_id of
       None \<Rightarrow> app
     | Some ctx \<Rightarrow>
         if cc_pending_turn ctx = None then app
         else (let ctx = ctx\<lparr>cc_pending_turn := None, cc_updated_at := Some now\<rparr>
               in enqueue (ConversationContextUpsert ctx) (put_context principal_id ctx app)))"

subsection \<open>Compaction\<close>

definition truncate_multiline :: "str \<Rightarrow> nat \<Rightarrow> nat \<Rightarrow> str option" where
  "truncate_multiline value max_lines max_chars =
    (let output = join nl (take max_lines (str_lines value))
     in if max_chars < length output
        then map_option (\<lambda>s. s @ ''...'') (str_truncate output max_chars) else Some output)"

definition is_compaction_turn :: "context_turn \<Rightarrow> bool" where
  "is_compaction_turn turn \<longleftrightarrow> ct_synthetic_kind turn = Some ''compaction_summary''"

fun summary_lines :: "context_turn list \<Rightarrow> str list" where
  "summary_lines [] = []"
| "summary_lines (turn # turns) =
    (if is_compaction_turn turn then
       (case ct_response_summary turn of None \<Rightarrow> [] | Some s \<Rightarrow> [s]) @ summary_lines turns
     else
       (''g'' @ show_word (ct_generation turn) @ '' user: '' @ ct_request_summary turn) #
       (case ct_response_summary turn of
          None \<Rightarrow> []
        | Some s \<Rightarrow> [''g'' @ show_word (ct_generation turn) @ '' assistant: '' @ s]) @ summary_lines turns)"

definition summarize_compacted_turns :: "context_turn list \<Rightarrow> str option" where
  "summarize_compacted_turns turns =
     truncate_multiline (join nl (''[cmgr compacted thread summary]'' # summary_lines turns)) 16 480"

definition merge_compaction_summary :: "str option \<Rightarrow> str \<Rightarrow> str option" where
  "merge_compaction_summary existing next_summary =
    (case map_option trim existing of
       Some e \<Rightarrow> if e \<noteq> [] then truncate_multiline (e @ nl @ next_summary) 28 960
                 else truncate_multiline next_summary 16 480
     | None \<Rightarrow> truncate_multiline next_summary 16 480)"

definition compaction_summary_turn :: "u32 \<Rightarrow> str \<Rightarrow> instant \<Rightarrow> context_turn" where
  "compaction_summary_turn generation summary now =
    \<lparr>ct_generation = generation, ct_request_summary = ''[compacted context]'',
     ct_response_summary = Some summary,
     ct_request_input_items = [JObject
       [(''content'', JArray [JObject
           [(''text'', JString (''[cmgr compacted thread summary]'' @ nl @ summary)),
            (''type'', JString ''input_text'')]]),
        (''role'', JString ''developer'')]],
     ct_turn_outcome = Success, ct_response_id = None, ct_response_output_items = [],
     ct_tool_replay_safe = False, ct_synthetic_kind = Some ''compaction_summary'',
     ct_created_at = now\<rparr>"

text \<open>The compacted context, for the turns archived and the merged summary.\<close>

definition compacted_context ::
  "conversation_context \<Rightarrow> context_turn list \<Rightarrow> context_turn list \<Rightarrow> str \<Rightarrow> instant \<Rightarrow> instant \<Rightarrow> conversation_context" where
  "compacted_context ctx archived retained merged t1 t2 = ctx\<lparr>
     cc_turns := compaction_summary_turn
       (case archived of turn # _ \<Rightarrow> ct_generation turn | [] \<Rightarrow> 1) merged t1 # retained,
     cc_workflow_spine := workflow_spine_for_model (cc_model ctx) @ nl @ ''compaction_summary='' @ nl @ merged,
     cc_updated_at := Some t2\<rparr>"

definition compact_thread_context ::
  "conversation_thread \<Rightarrow> nat \<Rightarrow> instant \<Rightarrow> instant \<Rightarrow> instant \<Rightarrow> instant \<Rightarrow> app_state
     \<Rightarrow> (app_state, app_state) outcome" where
  "compact_thread_context thread preserve_turns t1 t2 t3 t4 app =
    (let preserve_turns = max preserve_turns 2;
         principal_id = th_principal_id thread
     in case context_of app principal_id of
          None \<Rightarrow> Returns app
        | Some ctx \<Rightarrow>
            if length (cc_turns ctx) \<le> preserve_turns then Returns app
            else
              (let split_index = length (cc_turns ctx) - preserve_turns;
                   archived = take split_index (cc_turns ctx);
                   ctx = ctx\<lparr>cc_turns := drop split_index (cc_turns ctx)\<rparr>
               in if archived = [] then Returns (put_context principal_id ctx app)
                  else case Option.bind (summarize_compacted_turns archived)
                              (merge_compaction_summary (th_compaction_summary thread)) of
                    None \<Rightarrow> Panics (put_context principal_id ctx app)
                  | Some merged \<Rightarrow>
                      (let ctx = compacted_context ctx archived (cc_turns ctx) merged t1 t2;
                           app = put_context principal_id ctx app
                       in case hm_get (rt_conversation_threads (ap_runtime app)) (th_thread_id thread) of
                            None \<Rightarrow> Returns app
                          | Some current \<Rightarrow>
                              (let current = current\<lparr>th_compaction_summary := Some merged,
                                     th_last_compaction_at := Some t3, th_status := ''compacted'',
                                     th_updated_at := t4\<rparr>;
                                   app = on_runtime (\<lambda>rt. rt\<lparr>rt_conversation_threads :=
                                     hm_insert (th_thread_id thread) current (rt_conversation_threads rt)\<rparr>) app
                               in Returns (enqueue_many [ConversationContextUpsert ctx,
                                    ConversationThreadUpsert current] app)))))"

subsection \<open>Recording the output of a turn\<close>

definition is_function_call :: "json \<Rightarrow> bool" where
  "is_function_call item \<longleftrightarrow> json_str_field item ''type'' = Some ''function_call''"

definition thread_for_principal_id :: "app_state \<Rightarrow> str \<Rightarrow> conversation_thread option" where
  "thread_for_principal_id app principal_id =
     find (\<lambda>thread. th_principal_id thread = principal_id)
       (hm_values (rt_conversation_threads (ap_runtime app)))"

definition recorded_turn ::
  "pending_context_turn \<Rightarrow> str \<Rightarrow> str option \<Rightarrow> json list \<Rightarrow> instant \<Rightarrow> context_turn" where
  "recorded_turn pending response_summary response_id response_output_items now =
    \<lparr>ct_generation = pt_generation pending, ct_request_summary = pt_request_summary pending,
     ct_response_summary = Some response_summary,
     ct_request_input_items = pt_request_input_items pending, ct_turn_outcome = Success,
     ct_response_id = response_id, ct_response_output_items = response_output_items,
     ct_tool_replay_safe = list_ex is_function_call response_output_items,
     ct_synthetic_kind = None, ct_created_at = now\<rparr>"

text \<open>\<open>ts\<close> are the clock readings of the compaction it may trigger.\<close>

definition record_context_output_with_response ::
  "str \<Rightarrow> str \<Rightarrow> str option \<Rightarrow> json list \<Rightarrow> instant \<Rightarrow> instant \<Rightarrow> instant \<times> instant \<times> instant \<times> instant
     \<Rightarrow> app_state \<Rightarrow> (app_state, app_state) outcome" where
  "record_context_output_with_response principal_id response_summary response_id
     response_output_items t1 t2 ts app =
    (case context_of app principal_id of
       None \<Rightarrow> Returns app
     | Some ctx \<Rightarrow>
         (case cc_pending_turn ctx of
            None \<Rightarrow> Returns app
          | Some pending \<Rightarrow>
              (let ctx = ctx\<lparr>cc_pending_turn := None, cc_turns := cc_turns ctx @
                     [recorded_turn pending response_summary response_id response_output_items t1],
                     cc_updated_at := Some t2\<rparr>;
                   app = enqueue (ConversationContextUpsert ctx) (put_context principal_id ctx app)
               in if 12 < length (cc_turns ctx) then
                    (case (thread_for_principal_id app principal_id, ts) of
                       (Some thread, (u1, u2, u3, u4)) \<Rightarrow> compact_thread_context thread 4 u1 u2 u3 u4 app
                     | (None, _) \<Rightarrow> Returns app)
                  else Returns app)))"

definition record_context_output ::
  "str \<Rightarrow> str \<Rightarrow> instant \<Rightarrow> instant \<Rightarrow> instant \<times> instant \<times> instant \<times> instant
     \<Rightarrow> app_state \<Rightarrow> (app_state, app_state) outcome" where
  "record_context_output principal_id response_summary =
     record_context_output_with_response principal_id response_summary None []"

end
