(* ===== verification/Replay.thy ===== *)
theory Replay
  imports Contexts
begin

text \<open>
  What is replayed upstream when a principal moves to another account or an upstream response is
  lost (\<open>state.rs\<close>): structured input items when every recorded turn has them, a text block
  otherwise, and the function calls that match tool outputs.
\<close>

record replay_plan =
  rp_input_items :: "json list"
  rp_fallback_text :: "str option"
  rp_drop_previous_response_id :: bool

definition replay_plan_default :: replay_plan where
  "replay_plan_default = \<lparr>rp_input_items = [], rp_fallback_text = None,
     rp_drop_previous_response_id = False\<rparr>"

definition recent_successful_turns :: "conversation_context \<Rightarrow> context_turn list" where
  "recent_successful_turns ctx = filter (\<lambda>turn. ct_turn_outcome turn = Success) (cc_turns ctx)"

fun replay_turn_lines :: "nat \<Rightarrow> context_turn list \<Rightarrow> str" where
  "replay_turn_lines index [] = []"
| "replay_turn_lines index (turn # turns) =
     show_nat (index + 1) @ ''. g'' @ show_word (ct_generation turn) @ '' user: '' @ ct_request_summary turn @ nl @
     (case ct_response_summary turn of None \<Rightarrow> [] | Some s \<Rightarrow> ''   assistant: '' @ s @ nl) @
     replay_turn_lines (index + 1) turns"

definition build_replay_context_block ::
  "conversation_context \<Rightarrow> u32 \<Rightarrow> str \<Rightarrow> str option \<Rightarrow> context_turn list \<Rightarrow> str option" where
  "build_replay_context_block ctx generation mode previous_response_id effective_turns =
    (if effective_turns = [] then None
     else Some (''[cmgr replay context]'' @ nl @ ''mode='' @ mode @ nl
       @ ''principal='' @ cc_principal_id ctx @ nl @ ''model='' @ cc_model ctx @ nl
       @ ''generation='' @ show_word generation @ nl
       @ (case previous_response_id of None \<Rightarrow> [] | Some p \<Rightarrow> ''previous_response_id='' @ p @ nl)
       @ (if cc_workflow_spine ctx \<noteq> [] then ''workflow='' @ nl @ cc_workflow_spine ctx @ nl else [])
       @ ''recent_turns='' @ nl @ replay_turn_lines 0 (rev effective_turns)))"

text \<open>The loop of \<open>build_structured_replay_items\<close>; \<open>None\<close> is its early return.\<close>

fun structured_items :: "context_turn list \<Rightarrow> json list option" where
  "structured_items [] = Some []"
| "structured_items (turn # turns) =
    (if ct_request_input_items turn = [] then None
     else map_option (\<lambda>items. ct_request_input_items turn @
        (if is_compaction_turn turn then []
         else filter (\<lambda>item. json_str_field item ''type'' \<noteq> None) (ct_response_output_items turn)) @ items)
        (structured_items turns))"

definition build_structured_replay_items :: "context_turn list \<Rightarrow> json list option" where
  "build_structured_replay_items turns =
    (case structured_items turns of
       None \<Rightarrow> None
     | Some items \<Rightarrow> if items \<noteq> [] then Some items else None)"

definition trimmed_response_id :: "str option \<Rightarrow> str option" where
  "trimmed_response_id previous_response_id =
    (case map_option trim previous_response_id of
       Some v \<Rightarrow> if v \<noteq> [] then Some v else None | None \<Rightarrow> None)"

definition structured_plan :: "str \<Rightarrow> context_turn list \<Rightarrow> json list \<Rightarrow> replay_plan" where
  "structured_plan header effective_turns input_items =
     \<lparr>rp_input_items = input_items,
      rp_fallback_text = Some (header @ nl @ ''turns='' @ show_nat (length effective_turns) @ nl
        @ ''items='' @ show_nat (length input_items)),
      rp_drop_previous_response_id = True\<rparr>"

definition replay_plan_for_request :: "app_state \<Rightarrow> str \<Rightarrow> u32 \<Rightarrow> str option \<Rightarrow> replay_plan" where
  "replay_plan_for_request app principal_id generation previous_response_id =
    (let previous_response_id = trimmed_response_id previous_response_id
     in if generation \<le> 1 \<and> previous_response_id = None then replay_plan_default
        else case context_of app principal_id of
          None \<Rightarrow> replay_plan_default
        | Some ctx \<Rightarrow>
            (let effective_turns = recent_successful_turns ctx
             in if 1 < generation then
                  (case build_structured_replay_items effective_turns of
                     Some input_items \<Rightarrow> structured_plan ''[cmgr structured replay]'' effective_turns input_items
                   | None \<Rightarrow>
                       \<lparr>rp_input_items = [],
                        rp_fallback_text = build_replay_context_block ctx generation
                          ''failover_stabilization'' previous_response_id effective_turns,
                        rp_drop_previous_response_id = True\<rparr>)
                else replay_plan_default))"

definition continuation_recovery_plan_for_request :: "app_state \<Rightarrow> str \<Rightarrow> str option \<Rightarrow> replay_plan" where
  "continuation_recovery_plan_for_request app principal_id previous_response_id =
    (let previous_response_id = trimmed_response_id previous_response_id
     in case context_of app principal_id of
          None \<Rightarrow> replay_plan_default\<lparr>rp_drop_previous_response_id := True\<rparr>
        | Some ctx \<Rightarrow>
            (let effective_turns = recent_successful_turns ctx
             in case build_structured_replay_items effective_turns of
                  Some input_items \<Rightarrow> structured_plan ''[cmgr continuation recovery]'' effective_turns input_items
                | None \<Rightarrow>
                    \<lparr>rp_input_items = [],
                     rp_fallback_text = build_replay_context_block ctx 1
                       ''continuation_recovery'' previous_response_id effective_turns,
                     rp_drop_previous_response_id = True\<rparr>))"

definition replay_context_for_request :: "app_state \<Rightarrow> str \<Rightarrow> u32 \<Rightarrow> str option \<Rightarrow> str option" where
  "replay_context_for_request app principal_id generation previous_response_id =
     rp_fallback_text (replay_plan_for_request app principal_id generation previous_response_id)"

subsection \<open>Tool calls\<close>

definition calls_one_of :: "str list \<Rightarrow> json \<Rightarrow> bool" where
  "calls_one_of call_ids item \<longleftrightarrow> is_function_call item
     \<and> (case json_str_field item ''call_id'' of None \<Rightarrow> False | Some c \<Rightarrow> c \<in> set call_ids)"

definition replayable_turn :: "str list \<Rightarrow> context_turn \<Rightarrow> bool" where
  "replayable_turn call_ids turn \<longleftrightarrow> ct_turn_outcome turn = Success \<and> ct_tool_replay_safe turn
     \<and> list_ex (calls_one_of call_ids) (ct_response_output_items turn)"

definition replay_tool_call_items_for :: "app_state \<Rightarrow> str \<Rightarrow> str option \<Rightarrow> str list \<Rightarrow> json list" where
  "replay_tool_call_items_for app principal_id previous_response_id call_ids =
    (if call_ids = [] then []
     else case context_of app principal_id of
       None \<Rightarrow> []
     | Some ctx \<Rightarrow>
         (let by_response = Option.bind previous_response_id (\<lambda>response_id.
                find (\<lambda>turn. replayable_turn call_ids turn \<and> ct_response_id turn = Some response_id)
                  (rev (cc_turns ctx)));
              matching_turn = (case by_response of
                 Some turn \<Rightarrow> Some turn
               | None \<Rightarrow> find (replayable_turn call_ids) (rev (cc_turns ctx)))
          in case matching_turn of
               None \<Rightarrow> []
             | Some turn \<Rightarrow> filter (calls_one_of call_ids) (ct_response_output_items turn)))"

end
