(* ===== verification/Context_Laws.thy ===== *)
theory Context_Laws
  imports Replay Examples
begin

text \<open>
  The turn protocol, compaction and replay: what is kept, what is lost, what is replayed, with the
  properties and their witnesses.
\<close>

subsection \<open>Compaction\<close>

lemma context_put [simp]: "context_of (put_context p ctx app) q = (if q = p then Some ctx else context_of app q)"
  by (simp add: context_of_def put_context_def)

lemma context_enqueue [simp]: "context_of (enqueue m app) q = context_of app q"
  "context_of (enqueue_many ms app) q = context_of app q"
  by (simp_all add: context_of_def)

lemma put_context_frame [simp]:
  "ap_writer_tx (put_context p ctx app) = ap_writer_tx app"
  "rt_conversation_threads (ap_runtime (put_context p ctx app)) = rt_conversation_threads (ap_runtime app)"
  by (simp_all add: put_context_def)

lemma context_threads [simp]:
  "context_of (on_runtime (\<lambda>rt. rt\<lparr>rt_conversation_threads := f rt\<rparr>) app) q = context_of app q"
  by (simp add: context_of_def)

text \<open>The turns a compaction keeps and those it archives.\<close>

definition kept_turns :: "nat \<Rightarrow> conversation_context \<Rightarrow> context_turn list" where
  "kept_turns n ctx = drop (length (cc_turns ctx) - max n 2) (cc_turns ctx)"

definition archived_turns :: "nat \<Rightarrow> conversation_context \<Rightarrow> context_turn list" where
  "archived_turns n ctx = take (length (cc_turns ctx) - max n 2) (cc_turns ctx)"

definition merged_summary :: "conversation_thread \<Rightarrow> context_turn list \<Rightarrow> str option" where
  "merged_summary thread archived = Option.bind (summarize_compacted_turns archived)
     (merge_compaction_summary (th_compaction_summary thread))"

lemma archived_nonempty: "max n 2 < length (cc_turns ctx) \<Longrightarrow> archived_turns n ctx \<noteq> []"
  by (auto simp: archived_turns_def)

lemma length_kept: "max n 2 < length (cc_turns ctx) \<Longrightarrow> length (kept_turns n ctx) = max n 2"
  by (simp add: kept_turns_def)

text \<open>The two results of a compaction that has something to archive.\<close>

lemma compact_panics:
  assumes "context_of app (th_principal_id thread) = Some ctx" and "max n 2 < length (cc_turns ctx)"
    and "merged_summary thread (archived_turns n ctx) = None"
  shows "compact_thread_context thread n t1 t2 t3 t4 app =
    Panics (put_context (th_principal_id thread) (ctx\<lparr>cc_turns := kept_turns n ctx\<rparr>) app)"
  using assms archived_nonempty [OF assms(2)]
  by (simp add: compact_thread_context_def Let_def merged_summary_def kept_turns_def archived_turns_def)

lemma compact_returns:
  assumes "context_of app (th_principal_id thread) = Some ctx" and "max n 2 < length (cc_turns ctx)"
    and "merged_summary thread (archived_turns n ctx) = Some merged"
    and "hm_get (rt_conversation_threads (ap_runtime app)) (th_thread_id thread) = Some current"
    and "ctx' = compacted_context (ctx\<lparr>cc_turns := kept_turns n ctx\<rparr>) (archived_turns n ctx)
      (kept_turns n ctx) merged t1 t2"
    and "current' = current\<lparr>th_compaction_summary := Some merged, th_last_compaction_at := Some t3,
      th_status := ''compacted'', th_updated_at := t4\<rparr>"
  shows "compact_thread_context thread n t1 t2 t3 t4 app =
    Returns (enqueue_many [ConversationContextUpsert ctx', ConversationThreadUpsert current']
      (on_runtime (\<lambda>rt. rt\<lparr>rt_conversation_threads :=
         hm_insert (th_thread_id thread) current' (rt_conversation_threads rt)\<rparr>)
        (put_context (th_principal_id thread) ctx' app)))"
  using assms archived_nonempty [OF assms(2)]
  by (simp add: compact_thread_context_def Let_def merged_summary_def kept_turns_def archived_turns_def)

lemma compact_panics_iff:
  assumes "context_of app (th_principal_id thread) = Some ctx" and "max n 2 < length (cc_turns ctx)"
    and "merged_summary thread (archived_turns n ctx) = Some merged"
  shows "compact_thread_context thread n t1 t2 t3 t4 app \<noteq> Panics app'"
  using assms archived_nonempty [OF assms(2)]
  unfolding compact_thread_context_def Let_def merged_summary_def archived_turns_def
  by (simp split: option.split)

lemma compaction_shape:
  assumes "context_of app (th_principal_id thread) = Some ctx" and "max n 2 < length (cc_turns ctx)"
    and "hm_get (rt_conversation_threads (ap_runtime app)) (th_thread_id thread) = Some current"
    and "compact_thread_context thread n t1 t2 t3 t4 app = Returns app'"
  shows "\<exists>ctx' summary merged current'. context_of app' (th_principal_id thread) = Some ctx'
    \<and> cc_turns ctx' = summary # drop (length (cc_turns ctx) - max n 2) (cc_turns ctx)
    \<and> is_compaction_turn summary \<and> ct_response_summary summary = Some merged
    \<and> cc_pending_turn ctx' = cc_pending_turn ctx
    \<and> hm_get (rt_conversation_threads (ap_runtime app')) (th_thread_id thread) = Some current'
    \<and> th_compaction_summary current' = Some merged \<and> th_status current' = ''compacted''"
proof (cases "merged_summary thread (archived_turns n ctx)")
  case None
  from compact_panics [OF assms(1,2) this] assms(4) show ?thesis by simp
next
  case (Some merged)
  note eq = compact_returns [OF assms(1,2) Some assms(3) refl refl]
  from assms(4) show ?thesis
    unfolding eq outcome.inject
    by (auto simp: compacted_context_def compaction_summary_turn_def is_compaction_turn_def kept_turns_def)
qed

text \<open>C24 (compaction_keeps_recent).
  When the context of a thread has more turns than are kept (as many as asked for, two at least) and
  the thread's record is still stored, a compaction that returns replaces all but the last turns by
  one synthetic turn, keeps those in order and the pending turn untouched, and marks the thread
  with the same summary.\<close>

theorem compaction_keeps_recent:
  assumes "context_of app (th_principal_id thread) = Some ctx" and "max n 2 < length (cc_turns ctx)"
    and "hm_get (rt_conversation_threads (ap_runtime app)) (th_thread_id thread) = Some current"
    and "compact_thread_context thread n t1 t2 t3 t4 app = Returns app'"
  shows "\<exists>ctx' summary merged current'. context_of app' (th_principal_id thread) = Some ctx'
    \<and> cc_turns ctx' = summary # drop (length (cc_turns ctx) - max n 2) (cc_turns ctx)
    \<and> is_compaction_turn summary \<and> ct_response_summary summary = Some merged
    \<and> cc_pending_turn ctx' = cc_pending_turn ctx
    \<and> hm_get (rt_conversation_threads (ap_runtime app')) (th_thread_id thread) = Some current'
    \<and> th_compaction_summary current' = Some merged \<and> th_status current' = ''compacted''"
  using assms by (rule compaction_shape)

text \<open>Fact (compaction_panic_loses_turns).
  When cutting the summary panics, the archived turns are lost: the stored context holds the last
  turns alone, with no summary of the others, the thread record is as before and nothing is sent.\<close>

theorem compaction_panic_loses_turns:
  assumes "context_of app (th_principal_id thread) = Some ctx"
    and "compact_thread_context thread n t1 t2 t3 t4 app = Panics app'"
  shows "max n 2 < length (cc_turns ctx)
    \<and> context_of app' (th_principal_id thread) =
        Some (ctx\<lparr>cc_turns := drop (length (cc_turns ctx) - max n 2) (cc_turns ctx)\<rparr>)
    \<and> rt_conversation_threads (ap_runtime app') = rt_conversation_threads (ap_runtime app)
    \<and> ap_writer_tx app' = ap_writer_tx app"
proof -
  have len: "max n 2 < length (cc_turns ctx)"
    using assms by (auto simp: compact_thread_context_def Let_def split: if_splits)
  show ?thesis
  proof (cases "merged_summary thread (archived_turns n ctx)")
    case None
    from compact_panics [OF assms(1) len this] assms(2) len show ?thesis
      by (auto simp: kept_turns_def)
  next
    case (Some merged)
    from compact_panics_iff [OF assms(1) len this] assms(2) show ?thesis by blast
  qed
qed

subsection \<open>Which summaries can be cut\<close>

lemma truncate_ascii: "is_ascii s \<Longrightarrow> \<exists>t. truncate_multiline s l n = Some t \<and> is_ascii t \<and> length t \<le> n + 3"
proof -
  have strip: "c \<in> set (strip_cr s) \<Longrightarrow> c \<in> set s" for c s
    by (auto simp: strip_cr_def dest: in_set_butlastD split: if_splits)
  have lines: "is_ascii s \<Longrightarrow> is_ascii cur \<Longrightarrow> \<forall>x \<in> set (lines_acc cur s). is_ascii x" for cur s
    by (induction cur s rule: lines_acc.induct) (auto simp: is_ascii_def dest!: strip)
  have join: "\<forall>x \<in> set xs. is_ascii x \<Longrightarrow> is_ascii (join nl xs)" for xs
    by (induction "nl" xs rule: join.induct) (auto simp: is_ascii_def byte_def)
  assume "is_ascii s"
  then have out: "is_ascii (join nl (take l (str_lines s)))"
    using lines [of s "[]"] by (intro join) (auto simp: str_lines_def is_ascii_def dest: in_set_takeD)
  show ?thesis
  proof (cases "n < length (join nl (take l (str_lines s)))")
    case True
    with out show ?thesis
      by (auto simp: truncate_multiline_def Let_def str_truncate_ascii is_ascii_def byte_def dest: in_set_takeD)
  next
    case False
    with out show ?thesis by (auto simp: truncate_multiline_def Let_def)
  qed
qed

lemma is_ascii_append [simp]: "is_ascii (a @ b) \<longleftrightarrow> is_ascii a \<and> is_ascii b"
  by (auto simp: is_ascii_def)

lemma is_ascii_Cons [simp]: "is_ascii (c # b) \<longleftrightarrow> byte c < 128 \<and> is_ascii b"
  by (auto simp: is_ascii_def)

lemma is_ascii_Nil [simp]: "is_ascii []"
  by (simp add: is_ascii_def)

lemma byte_digit [simp]: "(n :: nat) < 10 \<Longrightarrow> byte (char_of (48 + n)) < 128"
  by (subst byte_char_of) simp_all

lemma is_ascii_show_nat [simp]: "is_ascii (show_nat n)"
proof (induction n rule: show_nat.induct)
  case (1 n)
  have "is_ascii [char_of (48 + m)]" if "m < 10" for m :: nat
    using byte_digit [OF that] by (simp add: is_ascii_def)
  with 1 show ?case
    unfolding show_nat.simps [of n] by (auto simp del: is_ascii_Cons)
qed

lemma is_ascii_join: "\<forall>x \<in> set xs. is_ascii x \<Longrightarrow> is_ascii (join nl xs)"
  by (induction "nl" xs rule: join.induct) (auto simp: byte_def)

lemma is_ascii_trim: "is_ascii s \<Longrightarrow> is_ascii (trim s)"
proof -
  assume s: "is_ascii s"
  obtain p where "s = p @ trim_start s"
    using strip_with_suffix [of s ws_len] by (auto simp: trim_start_def)
  moreover obtain q where "trim_start s = trim s @ q"
    using trim_end_prefix [of "trim_start s"] by (auto simp: trim_def)
  ultimately show ?thesis using s by (metis is_ascii_append)
qed

definition ascii_turn :: "context_turn \<Rightarrow> bool" where
  "ascii_turn turn \<longleftrightarrow> is_ascii (ct_request_summary turn)
     \<and> (case ct_response_summary turn of None \<Rightarrow> True | Some s \<Rightarrow> is_ascii s)"

lemma ascii_literals:
  "is_ascii ''g''" "is_ascii '' user: ''" "is_ascii '' assistant: ''" "is_ascii nl"
  "is_ascii ''[cmgr compacted thread summary]''" "is_ascii ''...''"
  by code_simp+

lemma ascii_line: "is_ascii s \<Longrightarrow> is_ascii (''g'' @ show_word w @ '' user: '' @ s)"
  "is_ascii s \<Longrightarrow> is_ascii (''g'' @ show_word w @ '' assistant: '' @ s)"
  by (simp_all only: is_ascii_append ascii_literals show_word_def is_ascii_show_nat simp_thms)

lemma summary_lines_ascii: "\<forall>turn \<in> set turns. ascii_turn turn \<Longrightarrow> x \<in> set (summary_lines turns) \<Longrightarrow> is_ascii x"
proof (induction turns)
  case (Cons turn turns)
  then show ?case
    using ascii_line
    by (cases "ct_response_summary turn"; cases "is_compaction_turn turn")
      (auto simp only: summary_lines.simps ascii_turn_def list.set set_append if_True if_False option.case
        Un_iff insert_iff empty_iff append_Cons append_Nil ball_simps)
qed simp

lemma summarize_ascii:
  assumes "\<forall>turn \<in> set turns. ascii_turn turn"
  shows "\<exists>t. summarize_compacted_turns turns = Some t \<and> is_ascii t"
proof -
  have "is_ascii (join nl (''[cmgr compacted thread summary]'' # summary_lines turns))"
    using summary_lines_ascii [OF assms] ascii_literals(5) by (intro is_ascii_join) (auto simp only: list.set insert_iff)
  then show ?thesis
    unfolding summarize_compacted_turns_def using truncate_ascii by blast
qed

lemma merge_ascii: "(case existing of None \<Rightarrow> True | Some e \<Rightarrow> is_ascii e) \<Longrightarrow> is_ascii s \<Longrightarrow>
    \<exists>t. merge_compaction_summary existing s = Some t \<and> is_ascii t \<and> length t \<le> 963"
  unfolding merge_compaction_summary_def
  using truncate_ascii [of s 16 480] truncate_ascii [of "trim (the existing) @ nl @ s" 28 960] is_ascii_trim
  by (cases existing) (fastforce simp: byte_def)+

text \<open>Fact (compaction_total_ascii).
  On a conversation whose summaries are ASCII, compaction never panics.\<close>

theorem compaction_total_ascii:
  assumes "context_of app (th_principal_id thread) = Some ctx"
    and "\<forall>turn \<in> set (cc_turns ctx). ascii_turn turn"
    and "case th_compaction_summary thread of None \<Rightarrow> True | Some e \<Rightarrow> is_ascii e"
  shows "\<exists>app'. compact_thread_context thread n t1 t2 t3 t4 app = Returns app'"
proof (cases "compact_thread_context thread n t1 t2 t3 t4 app")
  case (Panics app')
  have len: "max n 2 < length (cc_turns ctx)"
    using Panics assms(1) by (auto simp: compact_thread_context_def Let_def split: if_splits)
  have "\<forall>turn \<in> set (archived_turns n ctx). ascii_turn turn"
    using assms(2) by (auto simp: archived_turns_def dest: in_set_takeD)
  then obtain s where s: "summarize_compacted_turns (archived_turns n ctx) = Some s" "is_ascii s"
    using summarize_ascii by blast
  obtain merged where "merge_compaction_summary (th_compaction_summary thread) s = Some merged"
    using merge_ascii [OF assms(3) s(2)] by blast
  with s(1) have "merged_summary thread (archived_turns n ctx) = Some merged"
    by (simp add: merged_summary_def)
  with compact_panics_iff [OF assms(1) len] Panics show ?thesis by blast
qed simp

subsection \<open>The summary saturates\<close>

lemma join_append: "xs \<noteq> [] \<Longrightarrow> join sep (xs @ ys) = join sep xs @ (if ys = [] then [] else sep @ join sep ys)"
proof (induction sep xs rule: join.induct)
  case (2 sep x)
  then show ?case by (cases ys) simp_all
qed simp_all

lemma strip_cr_id: "CHR 0x0D \<notin> set s \<Longrightarrow> strip_cr s = s"
  by (metis strip_cr_def last_in_set)

lemma lines_acc_append:
  "CHR 0x0D \<notin> set e \<Longrightarrow> CHR 0x0D \<notin> set cur \<Longrightarrow> e \<noteq> [] \<or> cur \<noteq> [] \<Longrightarrow> e = [] \<or> last e \<noteq> CHR 0x0A \<Longrightarrow>
     lines_acc cur (e @ nl @ n) = lines_acc cur e @ lines_acc [] n"
proof (induction cur e rule: lines_acc.induct)
  case (1 cur)
  then show ?case by (simp add: strip_cr_id)
next
  case (2 cur c cs)
  then show ?case by (cases "cs = []") (auto simp: strip_cr_id)
qed

lemma join_lines_acc:
  "CHR 0x0D \<notin> set e \<Longrightarrow> CHR 0x0D \<notin> set cur \<Longrightarrow> e = [] \<or> last e \<noteq> CHR 0x0A \<Longrightarrow>
     join nl (lines_acc cur e) = rev cur @ e \<and> (e \<noteq> [] \<or> cur \<noteq> [] \<longrightarrow> lines_acc cur e \<noteq> [])"
proof (induction cur e rule: lines_acc.induct)
  case (2 cur c cs)
  show ?case
  proof (cases "c = CHR 0x0A")
    case True
    with 2 have "cs \<noteq> []" by auto
    with 2 True have "join nl (lines_acc [] cs) = cs" "lines_acc [] cs \<noteq> []" by auto
    with 2 True show ?thesis by (cases "lines_acc [] cs") (auto simp: strip_cr_id)
  next
    case False
    with 2 show ?thesis by (cases "cs = []") auto
  qed
qed simp

text \<open>Fact (compaction_summary_saturates).
  Once the merged summary of a thread has been cut at 960 bytes, later compactions add nothing: the
  merge returns the old summary whatever the newly archived turns are.\<close>

theorem compaction_summary_saturates:
  assumes "e = p @ ''...''" and "length p = 960" and "is_ascii e" and "CHR 0x0D \<notin> set e"
    and "ws_len e = 0" and "length (str_lines e) \<le> 28"
  shows "merge_compaction_summary (Some e) next_summary = Some e"
proof -
  have last: "last e \<noteq> CHR 0x0A" "e \<noteq> []" using assms(1) by auto
  have "trim (p @ ''..'' @ CHR ''.'' # []) = p @ ''..'' @ CHR ''.'' # []"
    using assms(1,5) by (intro trim_fix) (simp_all add: is_ascii_ws_def ws2_def ws3_def byte_def)
  then have trim: "trim e = e" using assms(1) by simp
  note join = join_lines_acc [of e "[]"]
  have lines: "str_lines (e @ nl @ next_summary) = str_lines e @ str_lines next_summary"
    using assms(4) last by (simp add: str_lines_def lines_acc_append [simplified])
  have ne: "str_lines e \<noteq> []" "join nl (str_lines e) = e"
    using join assms(4) last by (auto simp: str_lines_def)
  obtain rest where "take 28 (str_lines e @ str_lines next_summary) = str_lines e @ rest"
    using assms(6) by (simp add: take_append)
  then have out: "join nl (take 28 (str_lines (e @ nl @ next_summary))) = e @ (if rest = [] then [] else nl @ join nl rest)"
    using ne by (simp only: lines join_append [OF ne(1)])
  have "is_char_boundary (e @ x) 960" for x
    using assms(1,2,3) by (auto simp: is_char_boundary_def nth_append is_cont_def byte_def)
  then have "str_truncate (e @ x) 960 = Some p" for x
    using assms(1,2) by (simp add: str_truncate_def)
  then show ?thesis
    using out trim assms(1,2) last(2)
    by (simp add: merge_compaction_summary_def truncate_multiline_def Let_def)
qed

subsection \<open>The turn protocol\<close>

lemma begin_turn_context: "context_of (begin_context_turn p model g rs items t1 t2 app) q =
    (if q = p then Some ((ensure_conversation_context
        (case context_of app p of Some c \<Rightarrow> c | None \<Rightarrow> conversation_context_default) p model)\<lparr>
          cc_pending_turn := Some \<lparr>pt_generation = g, pt_request_summary = rs,
            pt_request_input_items = items, pt_created_at = t1\<rparr>, cc_updated_at := Some t2\<rparr>)
     else context_of app q)"
  by (simp add: begin_context_turn_def Let_def)

lemma ensure_turns [simp]: "cc_turns (ensure_conversation_context c p m) = cc_turns c"
  by (simp add: ensure_conversation_context_def Let_def)

lemma begin_turn_threads [simp]:
  "rt_conversation_threads (ap_runtime (begin_context_turn p model g rs items t1 t2 app)) =
     rt_conversation_threads (ap_runtime app)"
  by (simp add: begin_context_turn_def Let_def)

definition turns_of :: "app_state \<Rightarrow> str \<Rightarrow> context_turn list" where
  "turns_of app p = (case context_of app p of None \<Rightarrow> [] | Some c \<Rightarrow> cc_turns c)"

lemma default_turns [simp]: "cc_turns conversation_context_default = []"
  by (simp add: conversation_context_default_def)

text \<open>C26 (turn_protocol).
  Beginning a turn and recording its output, while fewer than twelve turns are stored (a recording
  beyond that compacts them), appends exactly one successful turn with the items and generation it
  began with and the output it got, and leaves no pending turn: a second recording does nothing.
  However many there are, discarding instead leaves the turns as they were, and a recording after it
  does nothing.\<close>

theorem turn_protocol:
  assumes "begun = begin_context_turn p model generation summary items t1 t2 app"
  shows "(length (turns_of app p) < 12 \<longrightarrow> (\<exists>app'. record_context_output_with_response p response rid output t3 t4 ts begun = Returns app'
      \<and> turns_of app' p = turns_of app p @
          [recorded_turn \<lparr>pt_generation = generation, pt_request_summary = summary,
             pt_request_input_items = items, pt_created_at = t1\<rparr> response rid output t3]
      \<and> record_context_output_with_response p response rid output t3 t4 ts app' = Returns app'))
    \<and> turns_of (discard_pending_context_turn p t3 begun) p = turns_of app p
    \<and> record_context_output_with_response p response rid output t3 t4 ts (discard_pending_context_turn p t3 begun)
        = Returns (discard_pending_context_turn p t3 begun)"
proof -
  obtain c where c: "context_of begun p = Some c" "cc_turns c = turns_of app p"
      "cc_pending_turn c = Some \<lparr>pt_generation = generation, pt_request_summary = summary,
             pt_request_input_items = items, pt_created_at = t1\<rparr>"
    unfolding assms begin_turn_context by (auto simp: turns_of_def split: option.splits)
  then show ?thesis
    by (auto simp: record_context_output_with_response_def discard_pending_context_turn_def
        turns_of_def [of _ p] Let_def)
qed

text \<open>Fact (turns_bounded).
  Recording keeps the number of stored turns of a thread at twelve at most: the thirteenth triggers a
  compaction to five.\<close>

theorem turns_bounded:
  assumes "length (turns_of app p) \<le> 12"
    and "\<exists>k thread. (k, thread) \<in> set (rt_conversation_threads (ap_runtime app)) \<and> th_principal_id thread = p"
    and "rt_inv (ap_runtime app)"
    and "record_context_output_with_response p response rid output t1 t2 ts app = Returns app'"
  shows "length (turns_of app' p) \<le> 12"
proof (cases "\<exists>c pending. context_of app p = Some c \<and> cc_pending_turn c = Some pending")
  case False
  then have "app' = app"
    using assms(4) by (auto simp: record_context_output_with_response_def split: option.splits)
  with assms(1) show ?thesis by simp
next
  case True
  then obtain c pending where c: "context_of app p = Some c" "cc_pending_turn c = Some pending" by blast
  let ?turn = "recorded_turn pending response rid output t1"
  let ?c = "c\<lparr>cc_pending_turn := None, cc_turns := cc_turns c @ [?turn], cc_updated_at := Some t2\<rparr>"
  let ?app = "enqueue (ConversationContextUpsert ?c) (put_context p ?c app)"
  obtain thread where thread: "thread_for_principal_id ?app p = Some thread"
    using assms(2) find_Some_ex [of "hm_values (rt_conversation_threads (ap_runtime app))" "\<lambda>t. th_principal_id t = p"]
    by (force simp: thread_for_principal_id_def hm_values_def)
  then have pid: "th_principal_id thread = p" "thread \<in> set (hm_values (rt_conversation_threads (ap_runtime app)))"
    by (auto simp: thread_for_principal_id_def dest!: find_SomeD)
  then have stored: "hm_get (rt_conversation_threads (ap_runtime ?app)) (th_thread_id thread) = Some thread"
    using rt_invD(8) [OF assms(3)] by (simp add: hm_keyed_get)
  obtain u1 u2 u3 u4 where ts: "ts = (u1, u2, u3, u4)" by (cases ts)
  show ?thesis
  proof (cases "12 < length (cc_turns ?c)")
    case False
    then have "app' = ?app"
      using assms(4) c by (simp add: record_context_output_with_response_def Let_def)
    with False show ?thesis by (simp add: turns_of_def)
  next
    case True
    then have "compact_thread_context thread 4 u1 u2 u3 u4 ?app = Returns app'"
      using assms(4) c thread ts by (simp add: record_context_output_with_response_def Let_def)
    moreover have "context_of ?app (th_principal_id thread) = Some ?c" using pid by simp
    moreover have "max 4 2 < length (cc_turns ?c)" using True by simp
    ultimately obtain ctx' summary where "context_of app' p = Some ctx'"
        "cc_turns ctx' = summary # drop (length (cc_turns ?c) - max 4 2) (cc_turns ?c)"
      using compaction_shape [OF _ _ stored] pid(1) by metis
    with c assms(1) show ?thesis by (simp add: turns_of_def)
  qed
qed

subsection \<open>Replay\<close>

lemma structured_items_Some:
  "structured_items turns = Some items \<longleftrightarrow> (\<forall>turn \<in> set turns. ct_request_input_items turn \<noteq> [])
     \<and> items = concat (map (\<lambda>turn. ct_request_input_items turn @
         (if is_compaction_turn turn then []
          else filter (\<lambda>item. json_str_field item ''type'' \<noteq> None) (ct_response_output_items turn))) turns)"
  by (induction turns arbitrary: items) auto

lemma structured_replay_eq:
  "build_structured_replay_items turns =
    (if turns \<noteq> [] \<and> (\<forall>turn \<in> set turns. ct_request_input_items turn \<noteq> [])
     then Some (concat (map (\<lambda>turn. ct_request_input_items turn @
         (if is_compaction_turn turn then []
          else filter (\<lambda>item. json_str_field item ''type'' \<noteq> None) (ct_response_output_items turn))) turns))
     else None)"
proof (cases "\<forall>turn \<in> set turns. ct_request_input_items turn \<noteq> []")
  case True
  then have "structured_items turns = Some (concat (map (\<lambda>turn. ct_request_input_items turn @
         (if is_compaction_turn turn then []
          else filter (\<lambda>item. json_str_field item ''type'' \<noteq> None) (ct_response_output_items turn))) turns))"
    by (simp add: structured_items_Some)
  with True show ?thesis by (cases turns) (simp_all add: build_structured_replay_items_def)
next
  case False
  then have "structured_items turns = None"
    using structured_items_Some [of turns] by (cases "structured_items turns") auto
  with False show ?thesis by (simp add: build_structured_replay_items_def)
qed

text \<open>What the text block says of a turn.\<close>

definition turn_text :: "nat \<times> context_turn \<Rightarrow> str" where
  "turn_text = (\<lambda>(n, turn). show_nat n @ ''. g'' @ show_word (ct_generation turn) @ '' user: '' @ ct_request_summary turn @ nl
     @ (case ct_response_summary turn of None \<Rightarrow> [] | Some s \<Rightarrow> ''   assistant: '' @ s @ nl))"

lemma replay_lines: "replay_turn_lines k turns = concat (map turn_text (enumerate (Suc k) turns))"
  by (induction turns arbitrary: k) (simp_all add: turn_text_def)


lemma replayable_items: "replayable_turn ids turn \<Longrightarrow> filter (calls_one_of ids) (ct_response_output_items turn) \<noteq> []"
  by (auto simp: replayable_turn_def list_ex_iff filter_empty_conv)

text \<open>Fact (tool_replay_sound).
  Tool outputs are matched with the function calls of one successful turn: the turn of the named
  response if it has a matching call, some other turn only if it has none; calls are found whenever
  any stored turn has one.\<close>

theorem tool_replay_sound:
  assumes "context_of app p = Some ctx" and "call_ids \<noteq> []"
  shows "(replay_tool_call_items_for app p previous call_ids = [] \<longleftrightarrow>
      \<not> (\<exists>turn \<in> set (cc_turns ctx). replayable_turn call_ids turn))
    \<and> (replay_tool_call_items_for app p previous call_ids \<noteq> [] \<longrightarrow>
      (\<exists>turn \<in> set (cc_turns ctx). replayable_turn call_ids turn
        \<and> replay_tool_call_items_for app p previous call_ids =
            filter (calls_one_of call_ids) (ct_response_output_items turn)
        \<and> (\<forall>rid. previous = Some rid \<longrightarrow>
            (\<exists>t \<in> set (cc_turns ctx). replayable_turn call_ids t \<and> ct_response_id t = Some rid) \<longrightarrow>
            ct_response_id turn = Some rid)))"
proof -
  let ?named = "\<lambda>rid. find (\<lambda>turn. replayable_turn call_ids turn \<and> ct_response_id turn = Some rid) (rev (cc_turns ctx))"
  let ?any = "find (replayable_turn call_ids) (rev (cc_turns ctx))"
  let ?m = "case Option.bind previous ?named of Some turn \<Rightarrow> Some turn | None \<Rightarrow> ?any"
  have eq: "replay_tool_call_items_for app p previous call_ids = (case ?m of None \<Rightarrow> []
      | Some turn \<Rightarrow> filter (calls_one_of call_ids) (ct_response_output_items turn))"
    using assms by (simp add: replay_tool_call_items_for_def Let_def)
  have named_None: "?named rid = None \<longleftrightarrow>
      \<not> (\<exists>t \<in> set (cc_turns ctx). replayable_turn call_ids t \<and> ct_response_id t = Some rid)" for rid
    by (auto simp: find_None_iff)
  have any_None: "?any = None \<longleftrightarrow> \<not> (\<exists>t \<in> set (cc_turns ctx). replayable_turn call_ids t)"
    by (auto simp: find_None_iff)
  show ?thesis
  proof (cases ?m)
    case None
    then have "?any = None" by (simp split: option.splits)
    with None show ?thesis unfolding eq using any_None by simp
  next
    case (Some turn)
    have mem: "turn \<in> set (cc_turns ctx) \<and> replayable_turn call_ids turn"
      using Some by (auto split: option.splits bind_splits dest!: find_SomeD)
    have rid: "ct_response_id turn = Some rid" if prev: "previous = Some rid"
      and ex: "\<exists>t \<in> set (cc_turns ctx). replayable_turn call_ids t \<and> ct_response_id t = Some rid" for rid
    proof -
      obtain t where "?named rid = Some t" using ex named_None [of rid] by (cases "?named rid") auto
      with Some prev have "?named rid = Some turn" by simp
      then show ?thesis by (auto dest!: find_SomeD)
    qed
    show ?thesis
      unfolding eq Some option.case
      using mem rid replayable_items by blast
  qed
qed

subsection \<open>Witnesses\<close>

definition ex_turn :: "u32 \<Rightarrow> str \<Rightarrow> context_turn" where
  "ex_turn g summary = \<lparr>ct_generation = g, ct_request_summary = summary, ct_response_summary = Some ''ok'',
     ct_request_input_items = [JString ''q''], ct_turn_outcome = Success, ct_response_id = Some ''r'',
     ct_response_output_items = [JObject [(''type'', JString ''function_call''), (''call_id'', JString ''c'')]],
     ct_tool_replay_safe = True, ct_synthetic_kind = None, ct_created_at = 0\<rparr>"

definition ex_thread :: conversation_thread where
  "ex_thread = \<lparr>th_thread_id = ''x'', th_tenant_id = 1, th_principal_id = ''p'', th_root_thread_id = ''x'',
     th_parent_thread_id = None, th_title = None, th_model = None, th_source = ''s'', th_status = ''active'',
     th_compaction_summary = None, th_last_compaction_at = None, th_created_at = 0, th_updated_at = 0\<rparr>"

definition ex_context :: "context_turn list \<Rightarrow> conversation_context" where
  "ex_context turns = conversation_context_default\<lparr>cc_principal_id := ''p'', cc_turns := turns\<rparr>"

definition ex_chat :: "context_turn list \<Rightarrow> app_state" where
  "ex_chat turns = ex_app (initial_runtime\<lparr>rt_conversation_contexts := [(''p'', ex_context turns)],
     rt_conversation_threads := [(''x'', ex_thread)]\<rparr>)"

text \<open>A request summary of 150 three-byte characters.\<close>

definition ex_wide :: str where
  "ex_wide = concat (replicate 150 (bytes [0xE4, 0xBD, 0xA0]))"

lemma ex_chat_context [simp]: "context_of (ex_chat turns) ''p'' = Some (ex_context turns)"
  "hm_get (rt_conversation_threads (ap_runtime (ex_chat turns))) ''x'' = Some ex_thread"
  "th_principal_id ex_thread = ''p''" "th_thread_id ex_thread = ''x''"
  "cc_turns (ex_context turns) = turns" "th_compaction_summary ex_thread = None"
  by (simp_all add: ex_chat_def context_of_def ex_thread_def ex_context_def)

lemma ex_chat_ascii: "\<exists>app'. compact_thread_context ex_thread 2 1 2 3 4
    (ex_chat [ex_turn 1 ''a'', ex_turn 2 ''b'', ex_turn 3 ''c'']) = Returns app'"
proof -
  have "case compact_thread_context ex_thread 2 1 2 3 4
    (ex_chat [ex_turn 1 ''a'', ex_turn 2 ''b'', ex_turn 3 ''c'']) of Returns _ \<Rightarrow> True | _ \<Rightarrow> False" by code_simp
  then show ?thesis by (auto split: outcome.splits)
qed

theorem compaction_keeps_recent_witness:
  "\<exists>app' ctx' summary. compact_thread_context ex_thread 2 1 2 3 4
      (ex_chat [ex_turn 1 ''a'', ex_turn 2 ''b'', ex_turn 3 ''c'']) = Returns app'
    \<and> context_of app' ''p'' = Some ctx' \<and> cc_turns ctx' = [summary, ex_turn 2 ''b'', ex_turn 3 ''c'']"
proof -
  obtain app' where r: "compact_thread_context ex_thread 2 1 2 3 4
      (ex_chat [ex_turn 1 ''a'', ex_turn 2 ''b'', ex_turn 3 ''c'']) = Returns app'"
    using ex_chat_ascii by blast
  have n: "max 2 2 < length (cc_turns (ex_context [ex_turn 1 ''a'', ex_turn 2 ''b'', ex_turn 3 ''c'']))" by simp
  from compaction_keeps_recent [OF _ n _ r] r show ?thesis by fastforce
qed

theorem compaction_panic_loses_turns_witness:
  "\<exists>app'. compact_thread_context ex_thread 2 1 2 3 4
      (ex_chat [ex_turn 1 ex_wide, ex_turn 2 ''b'', ex_turn 3 ''c'']) = Panics app'
    \<and> context_of app' ''p'' = Some (ex_context [ex_turn 2 ''b'', ex_turn 3 ''c''])"
proof -
  let ?turns = "[ex_turn 1 ex_wide, ex_turn 2 ''b'', ex_turn 3 ''c'']"
  have "case compact_thread_context ex_thread 2 1 2 3 4 (ex_chat ?turns) of Panics _ \<Rightarrow> True | _ \<Rightarrow> False"
    by code_simp
  then obtain app' where r: "compact_thread_context ex_thread 2 1 2 3 4 (ex_chat ?turns) = Panics app'"
    by (auto split: outcome.splits)
  have c: "context_of (ex_chat ?turns) (th_principal_id ex_thread) = Some (ex_context ?turns)" by simp
  from compaction_panic_loses_turns [OF c r] r show ?thesis
    by (simp add: ex_context_def)
qed

theorem compaction_total_ascii_witness:
  "\<exists>app'. compact_thread_context ex_thread 2 1 2 3 4
      (ex_chat [ex_turn 1 ''a'', ex_turn 2 ''b'', ex_turn 3 ''c'']) = Returns app'"
proof (rule compaction_total_ascii)
  show "context_of (ex_chat [ex_turn 1 ''a'', ex_turn 2 ''b'', ex_turn 3 ''c'']) (th_principal_id ex_thread) =
      Some (ex_context [ex_turn 1 ''a'', ex_turn 2 ''b'', ex_turn 3 ''c''])" by simp
qed (simp_all add: ascii_turn_def ex_turn_def byte_def)

theorem compaction_summary_saturates_witness:
  "merge_compaction_summary (Some (replicate 960 (CHR ''a'') @ ''...'')) ''later turns''
     = Some (replicate 960 (CHR ''a'') @ ''...'')"
proof (rule compaction_summary_saturates [OF refl])
  show "length (str_lines (replicate 960 CHR ''a'' @ ''...'')) \<le> 28" by code_simp
  show "ws_len (replicate 960 CHR ''a'' @ ''...'') = 0" by code_simp
  show "is_ascii (replicate 960 CHR ''a'' @ ''...'')" by (auto simp: is_ascii_def byte_def)
  show "CHR 0x0D \<notin> set (replicate 960 CHR ''a'' @ ''...'')" by auto
qed simp

theorem turn_protocol_witness:
  "turns_of (discard_pending_context_turn ''p'' 3 (begin_context_turn ''p'' ''m'' 1 ''s'' [] 1 2 (ex_chat []))) ''p'' = []
    \<and> (\<exists>app' turn. record_context_output_with_response ''p'' ''x'' None [] 3 4 (5, 6, 7, 8)
        (begin_context_turn ''p'' ''m'' 1 ''s'' [] 1 2 (ex_chat [])) = Returns app' \<and> turns_of app' ''p'' = [turn])"
  using turn_protocol [of _ "''p''" "''m''" 1 "''s''" "[]" 1 2 "ex_chat []" "''x''" None "[]" 3 4 "(5, 6, 7, 8)", OF refl]
  by (auto simp: turns_of_def [of "ex_chat []"])

theorem turns_bounded_witness:
  "\<exists>app'. record_context_output_with_response ''p'' ''x'' None [] 1 2 (3, 4, 5, 6)
      (ex_chat [ex_turn 1 ''a'']) = Returns app' \<and> length (turns_of app' ''p'') \<le> 12"
proof -
  obtain app' where r: "record_context_output_with_response ''p'' ''x'' None [] 1 2 (3, 4, 5, 6)
      (ex_chat [ex_turn 1 ''a'']) = Returns app'"
    by (simp add: record_context_output_with_response_def ex_context_def conversation_context_default_def)
  have inv: "rt_inv (ap_runtime (ex_chat [ex_turn 1 ''a'']))"
    by (simp add: rt_inv_def ex_chat_def initial_runtime_def hm_keyed_iff ex_context_def ex_thread_def)
  have thr: "\<exists>k thread. (k, thread) \<in> set (rt_conversation_threads (ap_runtime (ex_chat [ex_turn 1 ''a''])))
      \<and> th_principal_id thread = ''p''"
    by (auto simp: ex_chat_def ex_thread_def)
  from turns_bounded [OF _ thr inv r] r show ?thesis by (simp add: turns_of_def)
qed


theorem tool_replay_sound_witness:
  "replay_tool_call_items_for (ex_chat [ex_turn 1 ''a'']) ''p'' (Some ''r'') [''c''] \<noteq> []"
  using tool_replay_sound [of "ex_chat [ex_turn 1 ''a'']" "''p''" "ex_context [ex_turn 1 ''a'']" "[''c'']" "Some ''r''"]
  by (simp add: replayable_turn_def ex_turn_def calls_one_of_def is_function_call_def json_str_field_def)

end
