(* ===== verification/Threads.thy ===== *)
theory Threads
  imports Contexts
begin

text \<open>
  The conversation thread tree (\<open>state.rs\<close>): normalised ids, records and their parents, edges,
  starting, forking and compacting a thread. Clock readings and the ids of generated threads are
  parameters.
\<close>

subsection \<open>Ids\<close>

definition normalize_thread_id :: "str \<Rightarrow> str" where
  "normalize_thread_id value = replace_byte (CHR '' '') (CHR ''_'') (trim value)"

text \<open>\<open>uuid\<close> is the hyphen-free rendering of a fresh UUID.\<close>

definition generate_thread_id :: "str \<Rightarrow> str" where
  "generate_thread_id uuid = ''thr_'' @ uuid"

definition thread_principal_id :: "str \<Rightarrow> str \<Rightarrow> str" where
  "thread_principal_id tenant_slug thread_id = ''tenant:'' @ tenant_slug @ ''/thread:'' @ thread_id"

subsection \<open>Records\<close>

definition put_thread :: "conversation_thread \<Rightarrow> str \<Rightarrow> app_state \<Rightarrow> app_state" where
  "put_thread thread thread_id app = on_runtime (\<lambda>rt. rt\<lparr>rt_conversation_threads :=
     hm_insert thread_id thread (rt_conversation_threads rt)\<rparr>) app"

definition ensure_parent_thread_placeholder ::
  "tenant \<Rightarrow> str \<Rightarrow> str option \<Rightarrow> instant \<Rightarrow> instant \<Rightarrow> app_state \<Rightarrow> app_state" where
  "ensure_parent_thread_placeholder tenant parent_thread_id model t1 t2 app =
    (let parent_thread_id = normalize_thread_id parent_thread_id
     in if hm_get (rt_conversation_threads (ap_runtime app)) parent_thread_id \<noteq> None then app
        else
          (let placeholder = \<lparr>th_thread_id = parent_thread_id, th_tenant_id = tn_id tenant,
                 th_principal_id = thread_principal_id (tn_slug tenant) parent_thread_id,
                 th_root_thread_id = parent_thread_id, th_parent_thread_id = None,
                 th_title = Some ''Imported parent thread'', th_model = model,
                 th_source = ''header_parent_placeholder'', th_status = ''active'',
                 th_compaction_summary = None, th_last_compaction_at = None,
                 th_created_at = t1, th_updated_at = t2\<rparr>
           in enqueue (ConversationThreadUpsert placeholder) (put_thread placeholder parent_thread_id app)))"

definition append_thread_edge :: "thread_edge \<Rightarrow> app_state \<Rightarrow> app_state" where
  "append_thread_edge edge app =
    (if list_ex (\<lambda>existing. same_edge existing edge) (rt_thread_edges (ap_runtime app)) then app
     else enqueue (ThreadEdgeUpsert edge)
       (on_runtime (\<lambda>rt. rt\<lparr>rt_thread_edges := rt_thread_edges rt @ [edge]\<rparr>) app))"

text \<open>The record written for \<open>thread_id\<close>, from the one stored before.\<close>

definition thread_record ::
  "tenant \<Rightarrow> str \<Rightarrow> str \<Rightarrow> str option \<Rightarrow> str option \<Rightarrow> str option \<Rightarrow> str \<Rightarrow> instant
     \<Rightarrow> conversation_thread option \<Rightarrow> conversation_thread" where
  "thread_record tenant thread_id root_thread_id parent model title source now stored =
    (let thread = (case stored of
           Some t \<Rightarrow> t
         | None \<Rightarrow> \<lparr>th_thread_id = thread_id, th_tenant_id = tn_id tenant,
             th_principal_id = thread_principal_id (tn_slug tenant) thread_id,
             th_root_thread_id = root_thread_id, th_parent_thread_id = parent, th_title = title,
             th_model = model, th_source = source, th_status = ''active'',
             th_compaction_summary = None, th_last_compaction_at = None,
             th_created_at = now, th_updated_at = now\<rparr>);
         thread = thread\<lparr>th_tenant_id := tn_id tenant,
           th_principal_id := thread_principal_id (tn_slug tenant) thread_id,
           th_root_thread_id := root_thread_id, th_parent_thread_id := parent\<rparr>;
         thread = (if title \<noteq> None then thread\<lparr>th_title := title\<rparr> else thread);
         thread = (if model \<noteq> None then thread\<lparr>th_model := model\<rparr> else thread)
     in thread\<lparr>th_source := source, th_status := ''active'', th_updated_at := now\<rparr>)"

definition upsert_conversation_thread_record ::
  "tenant \<Rightarrow> str \<Rightarrow> str option \<Rightarrow> str option \<Rightarrow> str option \<Rightarrow> str \<Rightarrow> instant \<times> instant \<times> instant
     \<Rightarrow> app_state \<Rightarrow> conversation_thread \<times> app_state" where
  "upsert_conversation_thread_record tenant thread_id parent_thread_id model title source clock app =
    (let (now, t1, t2) = clock;
         thread_id = normalize_thread_id thread_id;
         existing = hm_get (rt_conversation_threads (ap_runtime app)) thread_id;
         normalized_parent = (case parent_thread_id of
             Some p \<Rightarrow> Some (normalize_thread_id p)
           | None \<Rightarrow> Option.bind existing th_parent_thread_id);
         app = (case normalized_parent of
             Some p \<Rightarrow> ensure_parent_thread_placeholder tenant p model t1 t2 app | None \<Rightarrow> app);
         root_thread_id = (case normalized_parent of
             Some p \<Rightarrow> (case hm_get (rt_conversation_threads (ap_runtime app)) p of
                 Some thread \<Rightarrow> th_root_thread_id thread | None \<Rightarrow> p)
           | None \<Rightarrow> (case existing of Some thread \<Rightarrow> th_root_thread_id thread | None \<Rightarrow> thread_id));
         snapshot = thread_record tenant thread_id root_thread_id normalized_parent model title source now
           (hm_get (rt_conversation_threads (ap_runtime app)) thread_id);
         app = enqueue (ConversationThreadUpsert snapshot) (put_thread snapshot thread_id app);
         app = (case normalized_parent of
             Some p \<Rightarrow> append_thread_edge \<lparr>te_parent_thread_id = p,
               te_child_thread_id = th_thread_id snapshot, te_relation = ''fork'', te_created_at = now\<rparr> app
           | None \<Rightarrow> app)
     in (snapshot, app))"

definition ensure_conversation_thread ::
  "tenant \<Rightarrow> str \<Rightarrow> str option \<Rightarrow> str option \<Rightarrow> str \<Rightarrow> instant \<times> instant \<times> instant
     \<Rightarrow> app_state \<Rightarrow> conversation_thread \<times> app_state" where
  "ensure_conversation_thread tenant thread_id parent_thread_id model source clock =
     upsert_conversation_thread_record tenant thread_id parent_thread_id model None source clock"

subsection \<open>Operations\<close>

definition conversation_thread_view_of :: "app_state \<Rightarrow> str \<Rightarrow> conversation_thread_view option" where
  "conversation_thread_view_of app thread_id =
     map_option (\<lambda>thread.
       \<lparr>tv_thread = thread, tv_context = context_of app (th_principal_id thread),
        tv_children = dedup (sort_by cmp (map te_child_thread_id
          (filter (\<lambda>edge. te_parent_thread_id edge = thread_id) (rt_thread_edges (ap_runtime app)))))\<rparr>)
       (hm_get (rt_conversation_threads (ap_runtime app)) thread_id)"

definition start_conversation_thread ::
  "start_conversation_thread_request \<Rightarrow> str \<Rightarrow> instant \<times> instant \<times> instant \<Rightarrow> app_state
     \<Rightarrow> (conversation_thread_view, app_error) result \<times> app_state" where
  "start_conversation_thread request uuid clock app =
    (case hm_get (rt_tenants (ap_runtime app)) (st_tenant_id request) of
       None \<Rightarrow> (Inl TenantNotFound, app)
     | Some tenant \<Rightarrow>
         (let thread_id = (case st_thread_id request of
                Some i \<Rightarrow> normalize_thread_id i | None \<Rightarrow> generate_thread_id uuid);
              (thread, app) = upsert_conversation_thread_record tenant thread_id None (st_model request)
                (st_title request)
                (case st_source request of Some s \<Rightarrow> s | None \<Rightarrow> ''internal_start'') clock app
          in case conversation_thread_view_of app (th_thread_id thread) of
               Some view \<Rightarrow> (Inr view, app)
             | None \<Rightarrow> (Inl ThreadNotFoundAfterCreation, app)))"

text \<open>The context a forked thread inherits from its parent's.\<close>

definition inherited_context ::
  "conversation_thread \<Rightarrow> conversation_context \<Rightarrow> str option \<Rightarrow> str \<Rightarrow> conversation_context option
     \<Rightarrow> instant \<Rightarrow> instant \<Rightarrow> conversation_context" where
  "inherited_context parent parent_context model child_principal stored u1 u2 =
    (let inherited_model = (case model of Some m \<Rightarrow> m | None \<Rightarrow> cc_model parent_context);
         inherited_workflow = (case th_compaction_summary parent of
             Some summary \<Rightarrow> if trim summary \<noteq> [] then summary else cc_workflow_spine parent_context
           | None \<Rightarrow> cc_workflow_spine parent_context);
         inherited_turns = cc_turns parent_context;
         ctx = (case stored of
             Some c \<Rightarrow> c
           | None \<Rightarrow> \<lparr>cc_principal_id = child_principal, cc_model = inherited_model,
               cc_workflow_spine = inherited_workflow, cc_behavior_profile = behavior_profile_default,
               cc_pending_turn = None, cc_turns = inherited_turns, cc_updated_at = Some u1\<rparr>);
         ctx = ctx\<lparr>cc_principal_id := child_principal, cc_model := inherited_model\<rparr>;
         ctx = (if trim (cc_workflow_spine ctx) = []
                then ctx\<lparr>cc_workflow_spine := inherited_workflow\<rparr> else ctx);
         ctx = ctx\<lparr>cc_behavior_profile := behavior_profile_default\<rparr>;
         ctx = (if cc_turns ctx = [] then ctx\<lparr>cc_turns := inherited_turns\<rparr> else ctx)
     in ctx\<lparr>cc_pending_turn := None, cc_updated_at := Some u2\<rparr>)"

definition fork_conversation_thread ::
  "fork_conversation_thread_request \<Rightarrow> str \<Rightarrow> instant \<times> instant \<times> instant \<Rightarrow> instant \<times> instant
     \<Rightarrow> app_state \<Rightarrow> (conversation_thread_view, app_error) result \<times> app_state" where
  "fork_conversation_thread request uuid clock us app =
    (case hm_get (rt_tenants (ap_runtime app)) (fk_tenant_id request) of
       None \<Rightarrow> (Inl TenantNotFound, app)
     | Some tenant \<Rightarrow>
         (case conversation_thread_view_of app (normalize_thread_id (fk_parent_thread_id request)) of
            None \<Rightarrow> (Inl ParentThreadNotFound, app)
          | Some parent \<Rightarrow>
              if th_tenant_id (tv_thread parent) \<noteq> tn_id tenant then (Inl ParentThreadOtherTenant, app)
              else
                (let child_thread_id = (case fk_child_thread_id request of
                       Some i \<Rightarrow> normalize_thread_id i | None \<Rightarrow> generate_thread_id uuid);
                     model = (case fk_model request of
                       Some m \<Rightarrow> Some m | None \<Rightarrow> th_model (tv_thread parent));
                     (child, app) = upsert_conversation_thread_record tenant child_thread_id
                       (Some (th_thread_id (tv_thread parent))) model (fk_title request)
                       (case fk_source request of Some s \<Rightarrow> s | None \<Rightarrow> ''internal_fork'') clock app;
                     app = (case tv_context parent of
                         None \<Rightarrow> app
                       | Some parent_context \<Rightarrow>
                           (let snapshot = inherited_context (tv_thread parent) parent_context model
                                  (th_principal_id child) (context_of app (th_principal_id child))
                                  (fst us) (snd us)
                            in enqueue (ConversationContextUpsert snapshot)
                                 (put_context (th_principal_id child) snapshot app)))
                 in case conversation_thread_view_of app (th_thread_id child) of
                      Some view \<Rightarrow> (Inr view, app)
                    | None \<Rightarrow> (Inl ThreadNotFoundAfterFork, app))))"

text \<open>A panic of the compaction leaves the instance it unwinds with.\<close>

definition compact_conversation_thread ::
  "compact_conversation_thread_request \<Rightarrow> instant \<times> instant \<times> instant \<times> instant \<Rightarrow> app_state
     \<Rightarrow> ((conversation_thread_view, app_error) result \<times> app_state, app_state) outcome" where
  "compact_conversation_thread request ts app =
    (let thread_id = normalize_thread_id (cp_thread_id request)
     in case hm_get (rt_conversation_threads (ap_runtime app)) thread_id of
          None \<Rightarrow> Returns (Inl ThreadNotFound, app)
        | Some thread \<Rightarrow>
            (case ts of (t1, t2, t3, t4) \<Rightarrow>
              (case compact_thread_context thread
                  (case cp_preserve_turns request of Some n \<Rightarrow> n | None \<Rightarrow> 4) t1 t2 t3 t4 app of
                 Panics app \<Rightarrow> Panics app
               | Returns app \<Rightarrow>
                   (case conversation_thread_view_of app thread_id of
                      Some view \<Rightarrow> Returns (Inr view, app)
                    | None \<Rightarrow> Returns (Inl ThreadNotFoundAfterCompaction, app)))))"

end
