(* ===== verification/Thread_Laws.thy ===== *)
theory Thread_Laws
  imports Threads Context_Laws
begin

text \<open>
  What the thread operations keep: normalised ids, a tree whose parents exist and are linked by an
  edge, tenant boundaries, and the inheritance of a fork.
\<close>

subsection \<open>Normalised ids\<close>

lemma replace_space_ws:
  "ws_len s = 0 \<Longrightarrow> ws_len (replace_byte (CHR '' '') (CHR ''_'') s) = 0"
  by (cases s rule: ws_len.cases)
    (auto simp: replace_byte_def is_ascii_ws_def ws2_def ws3_def byte_def split: if_splits)

lemma replace_space_ws_rev:
  "ws_len_rev s = 0 \<Longrightarrow> ws_len_rev (replace_byte (CHR '' '') (CHR ''_'') s) = 0"
  by (cases s rule: ws_len_rev.cases)
    (auto simp: replace_byte_def is_ascii_ws_def ws2_def ws3_def byte_def split: if_splits)

lemma replace_byte_rev: "rev (replace_byte a b s) = replace_byte a b (rev s)"
  by (simp add: replace_byte_def rev_map)

lemma normalize_idem [simp]: "normalize_thread_id (normalize_thread_id s) = normalize_thread_id s"
proof -
  have "trim (normalize_thread_id s) = normalize_thread_id s"
    unfolding normalize_thread_id_def
    by (rule trim_fix) (simp_all add: replace_space_ws replace_byte_rev replace_space_ws_rev)
  then show ?thesis by (simp add: normalize_thread_id_def replace_byte_def)
qed

subsection \<open>The tree\<close>

definition forked :: "runtime_state \<Rightarrow> str \<Rightarrow> str \<Rightarrow> bool" where
  "forked rt p c \<longleftrightarrow> list_ex (\<lambda>e. te_parent_thread_id e = p \<and> te_child_thread_id e = c
     \<and> te_relation e = ''fork'') (rt_thread_edges rt)"

definition tree_inv :: "runtime_state \<Rightarrow> bool" where
  "tree_inv rt \<longleftrightarrow> hm_keyed th_thread_id (rt_conversation_threads rt)
     \<and> (\<forall>i t p. hm_get (rt_conversation_threads rt) i = Some t \<longrightarrow> th_parent_thread_id t = Some p \<longrightarrow>
          normalize_thread_id p = p \<and> hm_get (rt_conversation_threads rt) p \<noteq> None \<and> forked rt p i)"

lemma tree_inv_initial: "tree_inv initial_runtime"
  by (simp add: tree_inv_def initial_runtime_def)

lemma thread_record_fields [simp]:
  "th_parent_thread_id (thread_record tn i r p m ti s now st) = p"
  "th_root_thread_id (thread_record tn i r p m ti s now st) = r"
  "th_tenant_id (thread_record tn i r p m ti s now st) = tn_id tn"
  "th_principal_id (thread_record tn i r p m ti s now st) = thread_principal_id (tn_slug tn) i"
  "th_thread_id (thread_record tn i r p m ti s now st) = (case st of Some t \<Rightarrow> th_thread_id t | None \<Rightarrow> i)"
  "th_status (thread_record tn i r p m ti s now st) = ''active''"
  by (auto simp: thread_record_def Let_def split: option.splits)

lemma put_thread_frame [simp]:
  "rt_conversation_threads (ap_runtime (put_thread t i app)) = hm_insert i t (rt_conversation_threads (ap_runtime app))"
  "rt_thread_edges (ap_runtime (put_thread t i app)) = rt_thread_edges (ap_runtime app)"
  "rt_conversation_contexts (ap_runtime (put_thread t i app)) = rt_conversation_contexts (ap_runtime app)"
  by (simp_all add: put_thread_def)

lemma placeholder_effect:
  assumes "app' = ensure_parent_thread_placeholder tenant p model t1 t2 app"
  shows "hm_get (rt_conversation_threads (ap_runtime app')) (normalize_thread_id p) \<noteq> None"
    and "rt_thread_edges (ap_runtime app') = rt_thread_edges (ap_runtime app)"
    and "hm_get (rt_conversation_threads (ap_runtime app)) i = Some t \<Longrightarrow>
      hm_get (rt_conversation_threads (ap_runtime app')) i = Some t"
    and "hm_get (rt_conversation_threads (ap_runtime app')) i = Some t \<Longrightarrow>
      hm_get (rt_conversation_threads (ap_runtime app)) i = Some t
      \<or> th_thread_id t = i \<and> th_parent_thread_id t = None \<and> th_root_thread_id t = i"
    and "rt_conversation_contexts (ap_runtime app') = rt_conversation_contexts (ap_runtime app)"
    and "hm_wf (rt_conversation_threads (ap_runtime app)) \<Longrightarrow> hm_wf (rt_conversation_threads (ap_runtime app'))"
  using assms by (auto simp: ensure_parent_thread_placeholder_def Let_def split: if_splits)

lemma edge_effect [simp]:
  "rt_conversation_threads (ap_runtime (append_thread_edge e app)) = rt_conversation_threads (ap_runtime app)"
  "rt_conversation_contexts (ap_runtime (append_thread_edge e app)) = rt_conversation_contexts (ap_runtime app)"
  by (simp_all add: append_thread_edge_def)

lemma forked_edge: "forked (ap_runtime (append_thread_edge e app)) p c \<longleftrightarrow> forked (ap_runtime app) p c
    \<or> te_parent_thread_id e = p \<and> te_child_thread_id e = c \<and> te_relation e = ''fork''"
  by (auto simp: append_thread_edge_def forked_def list_ex_iff same_edge_def)

text \<open>One upsert, with the parent it resolves to.\<close>

lemma upsert_effect:
  assumes inv: "tree_inv (ap_runtime app)"
    and up: "upsert_conversation_thread_record tenant thread_id parent model title source clock app = (snapshot, app')"
  defines "i \<equiv> normalize_thread_id thread_id"
  shows "tree_inv (ap_runtime app')"
    and "hm_get (rt_conversation_threads (ap_runtime app')) i = Some snapshot"
    and "th_thread_id snapshot = i" and "th_tenant_id snapshot = tn_id tenant"
    and "th_principal_id snapshot = thread_principal_id (tn_slug tenant) i"
    and "rt_conversation_contexts (ap_runtime app') = rt_conversation_contexts (ap_runtime app)"
    and "parent = Some q \<Longrightarrow> th_parent_thread_id snapshot = Some (normalize_thread_id q)"
    and "parent = Some q \<Longrightarrow> normalize_thread_id q \<noteq> i \<Longrightarrow>
      \<exists>t. hm_get (rt_conversation_threads (ap_runtime app')) (normalize_thread_id q) = Some t
        \<and> th_root_thread_id snapshot = th_root_thread_id t
        \<and> (hm_get (rt_conversation_threads (ap_runtime app)) (normalize_thread_id q) \<noteq> None \<longrightarrow>
             hm_get (rt_conversation_threads (ap_runtime app)) (normalize_thread_id q) = Some t)"
proof -
  obtain now t1 t2 where clock: "clock = (now, t1, t2)" by (cases clock)
  let ?threads = "rt_conversation_threads (ap_runtime app)"
  let ?parent = "case parent of Some p \<Rightarrow> Some (normalize_thread_id p)
      | None \<Rightarrow> Option.bind (hm_get ?threads i) th_parent_thread_id"
  let ?app1 = "case ?parent of Some p \<Rightarrow> ensure_parent_thread_placeholder tenant p model t1 t2 app | None \<Rightarrow> app"
  let ?root = "case ?parent of
        Some p \<Rightarrow> (case hm_get (rt_conversation_threads (ap_runtime ?app1)) p of
            Some thread \<Rightarrow> th_root_thread_id thread | None \<Rightarrow> p)
      | None \<Rightarrow> (case hm_get ?threads i of Some thread \<Rightarrow> th_root_thread_id thread | None \<Rightarrow> i)"
  let ?snap = "thread_record tenant i ?root ?parent model title source now
      (hm_get (rt_conversation_threads (ap_runtime ?app1)) i)"
  let ?app2 = "enqueue (ConversationThreadUpsert ?snap) (put_thread ?snap i ?app1)"
  let ?app3 = "case ?parent of Some p \<Rightarrow> append_thread_edge \<lparr>te_parent_thread_id = p,
      te_child_thread_id = th_thread_id ?snap, te_relation = ''fork'', te_created_at = now\<rparr> ?app2 | None \<Rightarrow> ?app2"
  have eq: "snapshot = ?snap" "app' = ?app3"
    using up unfolding upsert_conversation_thread_record_def clock i_def Let_def prod.case by simp_all
  have keyed: "hm_keyed th_thread_id ?threads" using inv by (simp add: tree_inv_def)
  have parent_norm: "normalize_thread_id p = p" if "?parent = Some p" for p
    using that inv by (cases parent) (auto simp: tree_inv_def split: option.splits bind_splits)
  have app1: "?parent = Some p \<Longrightarrow> hm_get (rt_conversation_threads (ap_runtime ?app1)) p \<noteq> None" for p
    using placeholder_effect(1) [OF refl, of tenant p model t1 t2 app] parent_norm [of p] by simp
  have edges1: "rt_thread_edges (ap_runtime ?app1) = rt_thread_edges (ap_runtime app)"
    using placeholder_effect(2) [OF refl] by (cases ?parent) simp_all
  have ctx1: "rt_conversation_contexts (ap_runtime ?app1) = rt_conversation_contexts (ap_runtime app)"
    using placeholder_effect(5) [OF refl] by (cases ?parent) simp_all
  have old1: "hm_get (rt_conversation_threads (ap_runtime ?app1)) k = Some t \<Longrightarrow> hm_get ?threads k = Some t
      \<or> th_thread_id t = k \<and> th_parent_thread_id t = None \<and> th_root_thread_id t = k" for k t
    using placeholder_effect(4) [OF refl] by (cases ?parent) auto
  have keep1: "hm_get ?threads k = Some t \<Longrightarrow> hm_get (rt_conversation_threads (ap_runtime ?app1)) k = Some t" for k t
    using placeholder_effect(3) [OF refl] by (cases ?parent) auto
  have wf1: "hm_wf (rt_conversation_threads (ap_runtime ?app1))"
    using placeholder_effect(6) [OF refl] keyed by (cases ?parent) auto
  have id: "th_thread_id ?snap = i"
    using old1 [of i] keyed by (auto dest: hm_keyedD split: option.splits)
  have threads': "hm_get (rt_conversation_threads (ap_runtime ?app3)) =
      (hm_get (rt_conversation_threads (ap_runtime ?app1)))(i \<mapsto> ?snap)"
    by (cases ?parent) simp_all
  have forked': "forked (ap_runtime ?app3) p c \<longleftrightarrow> forked (ap_runtime app) p c \<or> ?parent = Some p \<and> c = i" for p c
    using edges1 id by (cases ?parent) (auto simp: forked_edge, auto simp: forked_def)
  show "hm_get (rt_conversation_threads (ap_runtime app')) i = Some snapshot"
    using threads' by (simp add: eq)
  show "th_thread_id snapshot = i" using id by (simp add: eq)
  show "th_tenant_id snapshot = tn_id tenant"
    "th_principal_id snapshot = thread_principal_id (tn_slug tenant) i"
    by (simp_all add: eq)
  show "rt_conversation_contexts (ap_runtime app') = rt_conversation_contexts (ap_runtime app)"
    unfolding eq using ctx1 by (cases ?parent) simp_all
  show "parent = Some q \<Longrightarrow> th_parent_thread_id snapshot = Some (normalize_thread_id q)"
    by (simp add: eq)
  show "\<exists>t. hm_get (rt_conversation_threads (ap_runtime app')) (normalize_thread_id q) = Some t
        \<and> th_root_thread_id snapshot = th_root_thread_id t
        \<and> (hm_get (rt_conversation_threads (ap_runtime app)) (normalize_thread_id q) \<noteq> None \<longrightarrow>
             hm_get (rt_conversation_threads (ap_runtime app)) (normalize_thread_id q) = Some t)"
    if "parent = Some q" "normalize_thread_id q \<noteq> i"
  proof -
    have p: "?parent = Some (normalize_thread_id q)" using that(1) by simp
    obtain t where t: "hm_get (rt_conversation_threads (ap_runtime ?app1)) (normalize_thread_id q) = Some t"
      using app1 [OF p] by blast
    show ?thesis
      unfolding eq threads' using t p that keep1 by auto
  qed
  show "tree_inv (ap_runtime app')"
    unfolding tree_inv_def
  proof (intro conjI allI impI)
    have "hm_wf (rt_conversation_threads (ap_runtime app'))"
      unfolding eq using wf1 by (cases ?parent) simp_all
    moreover have "th_thread_id t = k" if "hm_get (rt_conversation_threads (ap_runtime app')) k = Some t" for k t
      using that id old1 [of k t] keyed unfolding eq threads' by (auto dest: hm_keyedD split: if_splits)
    ultimately show "hm_keyed th_thread_id (rt_conversation_threads (ap_runtime app'))"
      by (simp add: hm_keyed_def)
    fix k t p
    assume t: "hm_get (rt_conversation_threads (ap_runtime app')) k = Some t" and p: "th_parent_thread_id t = Some p"
    have "normalize_thread_id p = p \<and> hm_get (rt_conversation_threads (ap_runtime ?app1)) p \<noteq> None
      \<and> forked (ap_runtime ?app3) p k"
    proof (cases "k = i")
      case True
      then have "?parent = Some p" using t p unfolding eq threads' by auto
      with parent_norm app1 forked' True show ?thesis by blast
    next
      case False
      then have "hm_get ?threads k = Some t" using t p old1 [of k t] unfolding eq threads' by auto
      with inv p have "normalize_thread_id p = p" "hm_get ?threads p \<noteq> None" "forked (ap_runtime app) p k"
        by (auto simp: tree_inv_def)
      with keep1 [of p] forked' show ?thesis by auto
    qed
    then show "normalize_thread_id p = p" "hm_get (rt_conversation_threads (ap_runtime app')) p \<noteq> None"
      "forked (ap_runtime app') p k"
      unfolding eq threads' by auto
  qed
qed

subsection \<open>Starting and forking\<close>

lemma view_thread [simp]: "conversation_thread_view_of app i = None \<longleftrightarrow> hm_get (rt_conversation_threads (ap_runtime app)) i = None"
  by (simp add: conversation_thread_view_of_def)

lemma view_fields:
  assumes "conversation_thread_view_of app i = Some v"
  shows "hm_get (rt_conversation_threads (ap_runtime app)) i = Some (tv_thread v)"
    and "tv_context v = context_of app (th_principal_id (tv_thread v))"
    and "set (tv_children v) = te_child_thread_id ` {e \<in> set (rt_thread_edges (ap_runtime app)). te_parent_thread_id e = i}"
  using assms by (auto simp: conversation_thread_view_of_def)

lemma tree_inv_frame [simp]:
  "tree_inv (ap_runtime (enqueue m app)) = tree_inv (ap_runtime app)"
  "tree_inv (ap_runtime (put_context p c app)) = tree_inv (ap_runtime app)"
  by (simp_all add: put_context_def tree_inv_def forked_def)

text \<open>The steps of a fork that gets past its checks.\<close>

lemma fork_steps:
  assumes "tree_inv (ap_runtime app)"
    and "hm_get (rt_tenants (ap_runtime app)) (fk_tenant_id request) = Some tenant"
    and "conversation_thread_view_of app (normalize_thread_id (fk_parent_thread_id request)) = Some parent"
    and "th_tenant_id (tv_thread parent) = tn_id tenant"
    and "fork_conversation_thread request uuid clock us app = (result, app')"
  shows "\<exists>child model source view mid. upsert_conversation_thread_record tenant
      (case fk_child_thread_id request of Some i \<Rightarrow> normalize_thread_id i | None \<Rightarrow> generate_thread_id uuid)
      (Some (th_thread_id (tv_thread parent))) model (fk_title request) source clock app = (child, mid)
    \<and> result = Inr view \<and> tv_thread view = child \<and> tree_inv (ap_runtime app')
    \<and> hm_get (rt_conversation_threads (ap_runtime app')) (th_thread_id child) = Some child
    \<and> (case tv_context parent of
         None \<Rightarrow> tv_context view = context_of app (th_principal_id child)
       | Some pc \<Rightarrow> tv_context view = Some (inherited_context (tv_thread parent) pc model (th_principal_id child)
            (context_of app (th_principal_id child)) (fst us) (snd us)))"
proof -
  let ?model = "case fk_model request of Some m \<Rightarrow> Some m | None \<Rightarrow> th_model (tv_thread parent)"
  let ?source = "case fk_source request of Some s \<Rightarrow> s | None \<Rightarrow> ''internal_fork''"
  obtain child mid where up: "upsert_conversation_thread_record tenant
      (case fk_child_thread_id request of Some i \<Rightarrow> normalize_thread_id i | None \<Rightarrow> generate_thread_id uuid)
      (Some (th_thread_id (tv_thread parent))) ?model (fk_title request) ?source clock app = (child, mid)"
    by (cases "upsert_conversation_thread_record tenant
      (case fk_child_thread_id request of Some i \<Rightarrow> normalize_thread_id i | None \<Rightarrow> generate_thread_id uuid)
      (Some (th_thread_id (tv_thread parent))) ?model (fk_title request) ?source clock app")
  note e = upsert_effect [OF assms(1) up]
  have ctx: "context_of mid = context_of app" using e(6) by (simp add: context_of_def fun_eq_iff)
  have child: "hm_get (rt_conversation_threads (ap_runtime mid)) (th_thread_id child) = Some child"
    using e(2,3) by simp
  let ?app2 = "case tv_context parent of None \<Rightarrow> mid | Some pc \<Rightarrow>
      enqueue (ConversationContextUpsert (inherited_context (tv_thread parent) pc ?model (th_principal_id child)
          (context_of mid (th_principal_id child)) (fst us) (snd us)))
        (put_context (th_principal_id child) (inherited_context (tv_thread parent) pc ?model (th_principal_id child)
          (context_of mid (th_principal_id child)) (fst us) (snd us)) mid)"
  have t2: "rt_conversation_threads (ap_runtime ?app2) = rt_conversation_threads (ap_runtime mid)"
      "tree_inv (ap_runtime ?app2)"
    using e(1) by (cases "tv_context parent"; simp)+
  then obtain view where view: "conversation_thread_view_of ?app2 (th_thread_id child) = Some view"
    using child view_thread [of ?app2] by fastforce
  have "(result, app') = (Inr view, ?app2)"
    using assms(5) view
    unfolding fork_conversation_thread_def Let_def assms(2,3) option.case up prod.case
    by (simp add: assms(4))
  moreover have "tv_thread view = child" using view_fields(1) [OF view] t2(1) child by simp
  moreover have "tv_context view = context_of ?app2 (th_principal_id child)"
    using view_fields(2) [OF view] \<open>tv_thread view = child\<close> by simp
  ultimately show ?thesis
    using up t2 child ctx by (intro exI [of _ child] exI [of _ ?model] exI [of _ ?source] exI [of _ view] exI [of _ mid])
      (auto split: option.splits)
qed

lemma inherited_turns: "cc_turns (inherited_context parent pc m p stored u1 u2) =
    (case stored of None \<Rightarrow> cc_turns pc | Some c \<Rightarrow> if cc_turns c = [] then cc_turns pc else cc_turns c)"
  by (auto simp: inherited_context_def Let_def split: option.splits)

lemma fork_rejected:
  "fork_conversation_thread request uuid clock us app = (result, app') \<Longrightarrow>
     (\<nexists>tenant parent. hm_get (rt_tenants (ap_runtime app)) (fk_tenant_id request) = Some tenant
       \<and> conversation_thread_view_of app (normalize_thread_id (fk_parent_thread_id request)) = Some parent
       \<and> th_tenant_id (tv_thread parent) = tn_id tenant) \<Longrightarrow>
     app' = app \<and> result \<in> {Inl TenantNotFound, Inl ParentThreadNotFound, Inl ParentThreadOtherTenant}"
  by (auto simp: fork_conversation_thread_def split: option.splits if_splits)

text \<open>C27 (fork_outcome).
  A fork either is rejected, with the reason and no change at all, or succeeds: the child belongs to
  the tenant of its parent, points to it, carries its root, and a child with no conversation of its
  own starts with the parent's turns.\<close>

theorem fork_outcome:
  assumes "tree_inv (ap_runtime app)" and "rt_inv (ap_runtime app)"
    and "fork_conversation_thread request uuid clock us app = (result, app')"
  shows "tree_inv (ap_runtime app') \<and> (case result of
      Inl e \<Rightarrow> app' = app \<and> e \<in> {TenantNotFound, ParentThreadNotFound, ParentThreadOtherTenant}
    | Inr view \<Rightarrow> (\<exists>parent. hm_get (rt_conversation_threads (ap_runtime app))
          (normalize_thread_id (fk_parent_thread_id request)) = Some parent
        \<and> th_tenant_id parent = fk_tenant_id request
        \<and> th_tenant_id (tv_thread view) = fk_tenant_id request
        \<and> th_parent_thread_id (tv_thread view) = Some (th_thread_id parent)
        \<and> (th_thread_id (tv_thread view) \<noteq> th_thread_id parent \<longrightarrow>
             th_root_thread_id (tv_thread view) = th_root_thread_id parent)
        \<and> (turns_of app (th_principal_id (tv_thread view)) = [] \<longrightarrow>
             (case tv_context view of None \<Rightarrow> [] | Some c \<Rightarrow> cc_turns c) = turns_of app (th_principal_id parent))))"
proof (cases "\<exists>tenant parent. hm_get (rt_tenants (ap_runtime app)) (fk_tenant_id request) = Some tenant
       \<and> conversation_thread_view_of app (normalize_thread_id (fk_parent_thread_id request)) = Some parent
       \<and> th_tenant_id (tv_thread parent) = tn_id tenant")
  case False
  with fork_rejected [OF assms(3)] assms(1) show ?thesis by auto
next
  case True
  let ?q = "normalize_thread_id (fk_parent_thread_id request)"
  obtain tenant parent where tp: "hm_get (rt_tenants (ap_runtime app)) (fk_tenant_id request) = Some tenant"
      "conversation_thread_view_of app ?q = Some parent" "th_tenant_id (tv_thread parent) = tn_id tenant"
    using True by blast
  have tn: "tn_id tenant = fk_tenant_id request" using rt_invD(1) [OF assms(2)] tp(1) by (rule hm_keyedD)
  have parent: "hm_get (rt_conversation_threads (ap_runtime app)) ?q = Some (tv_thread parent)"
      "tv_context parent = context_of app (th_principal_id (tv_thread parent))"
    using view_fields(1,2) [OF tp(2)] by simp_all
  have pid: "th_thread_id (tv_thread parent) = ?q"
    using rt_invD(8) [OF assms(2)] parent(1) by (rule hm_keyedD)
  obtain child model source view mid where up: "upsert_conversation_thread_record tenant
      (case fk_child_thread_id request of Some i \<Rightarrow> normalize_thread_id i | None \<Rightarrow> generate_thread_id uuid)
      (Some (th_thread_id (tv_thread parent))) model (fk_title request) source clock app = (child, mid)"
    and res: "result = Inr view" "tv_thread view = child" "tree_inv (ap_runtime app')"
    and ctx: "case tv_context parent of
         None \<Rightarrow> tv_context view = context_of app (th_principal_id child)
       | Some pc \<Rightarrow> tv_context view = Some (inherited_context (tv_thread parent) pc model (th_principal_id child)
            (context_of app (th_principal_id child)) (fst us) (snd us))"
    using fork_steps [OF assms(1) tp assms(3)] by blast
  note e = upsert_effect [OF assms(1) up]
  have "th_parent_thread_id child = Some (th_thread_id (tv_thread parent))"
    using e(7) [OF refl] pid by simp
  moreover have "th_root_thread_id child = th_root_thread_id (tv_thread parent)"
    if "th_thread_id child \<noteq> th_thread_id (tv_thread parent)"
    using e(8) [OF refl] e(3) that parent(1) pid by auto
  moreover have "(case tv_context view of None \<Rightarrow> [] | Some c \<Rightarrow> cc_turns c) =
      turns_of app (th_principal_id (tv_thread parent))" if "turns_of app (th_principal_id child) = []"
    using ctx that parent(2) by (auto simp: turns_of_def inherited_turns split: option.splits)
  ultimately show ?thesis
    using res parent(1) tp(3) tn e(4) by simp
qed

text \<open>Fact (start_keeps_tree).
  Starting a thread keeps the tree: every parent of the table exists under its normalised id and is
  linked to its child. The started thread is stored under its own normalised id, for its tenant.\<close>

theorem start_keeps_tree:
  assumes "tree_inv (ap_runtime app)" and "rt_inv (ap_runtime app)"
    and "start_conversation_thread request uuid clock app = (result, app')"
  shows "tree_inv (ap_runtime app') \<and> (case result of
      Inl e \<Rightarrow> app' = app \<and> e = TenantNotFound
    | Inr view \<Rightarrow> th_tenant_id (tv_thread view) = st_tenant_id request
        \<and> hm_get (rt_conversation_threads (ap_runtime app')) (th_thread_id (tv_thread view)) = Some (tv_thread view)
        \<and> normalize_thread_id (th_thread_id (tv_thread view)) = th_thread_id (tv_thread view))"
proof (cases "hm_get (rt_tenants (ap_runtime app)) (st_tenant_id request)")
  case None
  with assms show ?thesis by (auto simp: start_conversation_thread_def)
next
  case (Some tenant)
  let ?i = "case st_thread_id request of Some i \<Rightarrow> normalize_thread_id i | None \<Rightarrow> generate_thread_id uuid"
  let ?source = "case st_source request of Some s \<Rightarrow> s | None \<Rightarrow> ''internal_start''"
  obtain thread mid where up: "upsert_conversation_thread_record tenant ?i None (st_model request)
      (st_title request) ?source clock app = (thread, mid)"
    by (cases "upsert_conversation_thread_record tenant ?i None (st_model request)
      (st_title request) ?source clock app")
  note e = upsert_effect [OF assms(1) up]
  have stored: "hm_get (rt_conversation_threads (ap_runtime mid)) (th_thread_id thread) = Some thread"
    using e(2,3) by simp
  then obtain view where view: "conversation_thread_view_of mid (th_thread_id thread) = Some view"
    using view_thread [of mid] by fastforce
  then have "tv_thread view = thread" using view_fields(1) [OF view] stored by simp
  moreover have "(result, app') = (Inr view, mid)"
    using assms(3) Some view by (simp add: start_conversation_thread_def Let_def up)
  moreover have "tn_id tenant = st_tenant_id request" using rt_invD(1) [OF assms(2)] Some by (rule hm_keyedD)
  ultimately show ?thesis using e(1,3,4) stored by simp
qed

text \<open>Fact (fork_onto_itself).
  Nothing stops a fork whose child id is the parent's: it succeeds and the thread becomes its own
  parent, with an edge from itself to itself.\<close>

theorem fork_onto_itself:
  assumes "tree_inv (ap_runtime app)" and "rt_inv (ap_runtime app)"
    and "hm_get (rt_tenants (ap_runtime app)) (fk_tenant_id request) = Some tenant"
    and "hm_get (rt_conversation_threads (ap_runtime app)) (normalize_thread_id (fk_parent_thread_id request)) = Some parent"
    and "th_tenant_id parent = fk_tenant_id request"
    and "fk_child_thread_id request = Some (fk_parent_thread_id request)"
    and "fork_conversation_thread request uuid clock us app = (result, app')"
  shows "\<exists>view. result = Inr view \<and> th_parent_thread_id (tv_thread view) = Some (th_thread_id (tv_thread view))
    \<and> forked (ap_runtime app') (th_thread_id (tv_thread view)) (th_thread_id (tv_thread view))"
proof -
  let ?q = "normalize_thread_id (fk_parent_thread_id request)"
  obtain pv where pv: "conversation_thread_view_of app ?q = Some pv"
    using assms(4) view_thread [of app ?q] by fastforce
  then have tv: "tv_thread pv = parent" using view_fields(1) [OF pv] assms(4) by simp
  have pid: "th_thread_id parent = ?q" using rt_invD(8) [OF assms(2)] assms(4) by (rule hm_keyedD)
  have tn: "th_tenant_id (tv_thread pv) = tn_id tenant"
    using rt_invD(1) [OF assms(2)] assms(3,5) tv by (auto dest: hm_keyedD)
  obtain child model source view mid where up: "upsert_conversation_thread_record tenant
      (case fk_child_thread_id request of Some i \<Rightarrow> normalize_thread_id i | None \<Rightarrow> generate_thread_id uuid)
      (Some (th_thread_id (tv_thread pv))) model (fk_title request) source clock app = (child, mid)"
    and res: "result = Inr view" "tv_thread view = child" "tree_inv (ap_runtime app')"
      "hm_get (rt_conversation_threads (ap_runtime app')) (th_thread_id child) = Some child"
    using fork_steps [OF assms(1,3) pv tn assms(7)] by blast
  note e = upsert_effect [OF assms(1) up]
  have "th_thread_id child = ?q" using e(3) assms(6) by simp
  moreover from this have "th_parent_thread_id child = Some (th_thread_id child)"
    using e(7) [OF refl] pid tv by simp
  moreover from this have "forked (ap_runtime app') (th_thread_id child) (th_thread_id child)"
    using res(3,4) by (auto simp: tree_inv_def)
  ultimately show ?thesis using res by auto
qed

subsection \<open>Witnesses\<close>

definition ex_tree :: app_state where
  "ex_tree = ex_app (initial_runtime\<lparr>rt_tenants := [(1, ex_tenant)],
     rt_conversation_threads := [(''x'', ex_thread)],
     rt_conversation_contexts := [(''p'', ex_context [ex_turn 1 ''a''])]\<rparr>)"

definition ex_fork :: "str \<Rightarrow> fork_conversation_thread_request" where
  "ex_fork child = \<lparr>fk_tenant_id = 1, fk_parent_thread_id = ''x'', fk_child_thread_id = Some child,
     fk_title = None, fk_model = None, fk_source = None\<rparr>"

definition ex_start :: start_conversation_thread_request where
  "ex_start = \<lparr>st_tenant_id = 1, st_thread_id = Some '' new id '', st_title = None, st_model = None,
     st_source = None, st_behavior_hints = \<lparr>bh_output_language = None, bh_execution_mode = None,
       bh_tool_policy = None, bh_verbosity_policy = None\<rparr>\<rparr>"

lemma ex_tree_facts [simp]:
  "tree_inv (ap_runtime ex_tree)" "rt_inv (ap_runtime ex_tree)"
  "hm_get (rt_tenants (ap_runtime ex_tree)) 1 = Some ex_tenant"
  "hm_get (rt_conversation_threads (ap_runtime ex_tree)) ''x'' = Some ex_thread"
  by (auto simp: tree_inv_def rt_inv_def ex_tree_def hm_keyed_iff initial_runtime_def ex_thread_def
      ex_context_def ex_tenant_def)

lemma normalize_x [simp]: "normalize_thread_id ''x'' = ''x''"
  by code_simp

theorem fork_outcome_witness:
  "\<exists>view app'. fork_conversation_thread (ex_fork ''y'') ''u'' (1, 2, 3) (4, 5) ex_tree = (Inr view, app')
    \<and> th_parent_thread_id (tv_thread view) = Some ''x'' \<and> th_tenant_id (tv_thread view) = 1"
proof -
  have ok: "case fst (fork_conversation_thread (ex_fork ''y'') ''u'' (1, 2, 3) (4, 5) ex_tree) of Inr _ \<Rightarrow> True | _ \<Rightarrow> False"
    by code_simp
  obtain r app' where r: "fork_conversation_thread (ex_fork ''y'') ''u'' (1, 2, 3) (4, 5) ex_tree = (r, app')"
    by (cases "fork_conversation_thread (ex_fork ''y'') ''u'' (1, 2, 3) (4, 5) ex_tree")
  from ok r obtain view where v: "r = Inr view" by (cases r) simp_all
  show ?thesis using fork_outcome [OF _ _ r] r v by (auto simp: ex_fork_def ex_thread_def)
qed

theorem start_keeps_tree_witness:
  "\<exists>result app'. start_conversation_thread ex_start ''u'' (1, 2, 3) ex_tree = (result, app')
    \<and> tree_inv (ap_runtime app')"
proof -
  obtain r app' where r: "start_conversation_thread ex_start ''u'' (1, 2, 3) ex_tree = (r, app')"
    by (cases "start_conversation_thread ex_start ''u'' (1, 2, 3) ex_tree")
  show ?thesis using start_keeps_tree [OF _ _ r] r by simp
qed

theorem fork_onto_itself_witness:
  "\<exists>view app'. fork_conversation_thread (ex_fork ''x'') ''u'' (1, 2, 3) (4, 5) ex_tree = (Inr view, app')
    \<and> th_parent_thread_id (tv_thread view) = Some (th_thread_id (tv_thread view))"
proof -
  obtain r app' where r: "fork_conversation_thread (ex_fork ''x'') ''u'' (1, 2, 3) (4, 5) ex_tree = (r, app')"
    by (cases "fork_conversation_thread (ex_fork ''x'') ''u'' (1, 2, 3) (4, 5) ex_tree")
  have "\<exists>view. r = Inr view \<and> th_parent_thread_id (tv_thread view) = Some (th_thread_id (tv_thread view))
    \<and> forked (ap_runtime app') (th_thread_id (tv_thread view)) (th_thread_id (tv_thread view))"
    by (rule fork_onto_itself [OF _ _ _ _ _ _ r, of ex_tenant ex_thread])
      (simp_all add: ex_fork_def, simp add: ex_thread_def)
  with r show ?thesis by blast
qed

end
