(* ===== verification/Accounts.thy ===== *)
theory Accounts
  imports Route_Events
begin

text \<open>
  The life of an upstream account (\<open>state.rs\<close>, with the pure parts of \<open>openai_auth.rs\<close> it calls):
  import, managed refresh and its failures, rate limits, login sessions, deletion and cleanup. The
  identity provider, the JWT reader and the cipher are the record \<open>provider\<close>: what the network
  returns and, in \<open>pv_during\<close>, what other tasks do to the instance while a call is in flight.
  Fresh identifiers and clock readings are parameters.
\<close>

subsection \<open>The identity provider\<close>

record token_response =
  tk_id_token :: str
  tk_access_token :: str
  tk_refresh_token :: "str option"

record id_token_claims =
  ic_sub :: str
  ic_email :: "str option"
  ic_workspace_id :: "str option"
  ic_chatgpt_account_id :: "str option"

record managed_chatgpt_snapshot =
  ms_email :: "str option"
  ms_plan_type :: "str option"
  ms_workspace_role :: "str option"
  ms_is_workspace_owner :: "bool option"
  ms_rate_limits :: "managed_rate_limit_snapshot option"
  ms_rate_limits_by_limit_id :: "(str \<times> managed_rate_limit_snapshot) list"
  ms_chatgpt_account_id :: "str option"

record managed_chatgpt_snapshot_error =
  me_message :: str
  me_unauthorized :: bool

text \<open>\<open>pv_fetch n\<close> is the reply to the \<open>n\<close>-th fetch of one refresh.\<close>

record provider =
  pv_exchange :: "str \<Rightarrow> str \<Rightarrow> str \<Rightarrow> (token_response, str) result"
  pv_refresh :: "str \<Rightarrow> (token_response, str) result"
  pv_fetch :: "nat \<Rightarrow> str \<Rightarrow> str \<Rightarrow> str option \<Rightarrow> (managed_chatgpt_snapshot, managed_chatgpt_snapshot_error) result"
  pv_claims :: "str \<Rightarrow> (id_token_claims, str) result"
  pv_account_id :: "str \<Rightarrow> str option"
  pv_encrypt :: "str \<Rightarrow> str \<Rightarrow> (str, str) result"
  pv_decrypt :: "str \<Rightarrow> str \<Rightarrow> (str, str) result"
  pv_during :: "app_state \<Rightarrow> app_state"

subsection \<open>Import\<close>

definition non_blank :: "str option \<Rightarrow> str option" where
  "non_blank v = (case v of Some s \<Rightarrow> if trim s \<noteq> [] then Some s else None | None \<Rightarrow> None)"

definition build_credential_template :: "import_account_request \<Rightarrow> instant \<Rightarrow> upstream_credential option" where
  "build_credential_template request now =
    (case map_option trim (qi_bearer_token request) of
       None \<Rightarrow> None
     | Some [] \<Rightarrow> None
     | Some bearer_token \<Rightarrow> Some
         \<lparr>cr_account_id = [],
          cr_base_url = (case non_blank (qi_base_url request) of
            Some url \<Rightarrow> url | None \<Rightarrow> ''https://api.openai.com/v1''),
          cr_bearer_token = bearer_token,
          cr_chatgpt_account_id = non_blank (qi_chatgpt_account_id request),
          cr_extra_headers = (case qi_extra_headers request of Some hs \<Rightarrow> hs | None \<Rightarrow> []),
          cr_managed_auth = None, cr_created_at = now, cr_updated_at = now\<rparr>)"

definition unwrap_or :: "'a option \<Rightarrow> 'a \<Rightarrow> 'a" where
  "unwrap_or v d = (case v of Some x \<Rightarrow> x | None \<Rightarrow> d)"

definition imported_account :: "import_account_request \<Rightarrow> str \<Rightarrow> instant \<Rightarrow> upstream_account" where
  "imported_account request simple now =
    (let quota_headroom = unwrap_or (qi_quota_headroom request) (dec 7 10)
     in \<lparr>ac_id = ''acc_'' @ simple, ac_tenant_id = qi_tenant_id request, ac_label = qi_label request,
         ac_models = qi_models request, ac_current_mode = Direct,
         ac_signals =
           \<lparr>sg_quota_headroom = quota_headroom,
            sg_quota_headroom_5h = unwrap_or (qi_quota_headroom_5h request) quota_headroom,
            sg_quota_headroom_7d = unwrap_or (qi_quota_headroom_7d request) quota_headroom,
            sg_health_score = unwrap_or (qi_health_score request) (dec 85 100),
            sg_egress_stability = unwrap_or (qi_egress_stability request) (dec 8 10),
            sg_fairness_bias = dec 7 10, sg_inflight = 0, sg_capacity = 4\<rparr>,
         ac_created_at = now\<rparr>)"

definition import_account ::
  "import_account_request \<Rightarrow> str \<Rightarrow> instant \<Rightarrow> instant \<Rightarrow> app_state \<Rightarrow> upstream_account \<times> app_state" where
  "import_account request simple t1 t2 app =
    (let account = imported_account request simple t2;
         route_state = fresh_route_state (ac_id account);
         credential = map_option (\<lambda>c. c\<lparr>cr_account_id := ac_id account\<rparr>) (build_credential_template request t1);
         app = on_runtime (\<lambda>rt. rt\<lparr>
           rt_route_states := hm_insert (ac_id account) route_state (rt_route_states rt),
           rt_accounts := hm_insert (ac_id account) account (rt_accounts rt),
           rt_credentials := (case credential of
             None \<Rightarrow> rt_credentials rt | Some c \<Rightarrow> hm_insert (ac_id account) c (rt_credentials rt))\<rparr>) app;
         app = enqueue (AccountUpsert account) app;
         app = (case credential of None \<Rightarrow> app | Some c \<Rightarrow> enqueue (CredentialUpsert c) app)
     in (account, enqueue (RouteStateUpsert route_state) app))"

subsection \<open>The state of a managed account\<close>

definition deactivation_reason_from_message :: "str \<Rightarrow> str option" where
  "deactivation_reason_from_message message =
    (let normalized = to_ascii_lowercase (trim message)
     in if list_ex (str_contains normalized) [''workspace_deactivated'', ''deactivated_workspace'',
          ''workspace deactivated'', ''workspace-deactivated'', ''deactivated workspace'']
        then Some ''workspace_deactivated''
        else if list_ex (str_contains normalized) [''account_deactivated'', ''account deactivated'', ''deactivated'']
        then Some ''account_deactivated''
        else None)"

definition classify_managed_account_status :: "str \<Rightarrow> bool \<Rightarrow> managed_account_status \<times> str" where
  "classify_managed_account_status message unauthorized =
    (case deactivation_reason_from_message message of
       Some reason \<Rightarrow> (Banned, reason)
     | None \<Rightarrow>
         (let lowered = to_ascii_lowercase (trim message)
          in if unauthorized then (Unavailable, ''unauthorized'')
             else if list_ex (str_contains lowered) [''429'', ''usage limit'', ''insufficient_quota'', ''quota exceeded'']
             then (Unavailable, ''usage_limit'')
             else if str_contains lowered ''timeout'' then (Unavailable, ''timeout'')
             else (Unavailable, ''refresh_failed'')))"

text \<open>\<open>managed_auth.get_or_insert_with(ManagedAuthState::default)\<close>.\<close>

definition managed_of :: "upstream_credential \<Rightarrow> managed_auth_state" where
  "managed_of credential = unwrap_or (cr_managed_auth credential) managed_auth_state_default"

text \<open>An update of a stored credential under the lock; \<open>None\<close> when there is none.\<close>

definition update_credential ::
  "str \<Rightarrow> (upstream_credential \<Rightarrow> upstream_credential) \<Rightarrow> app_state \<Rightarrow> (upstream_credential \<times> app_state) option" where
  "update_credential account_id f app =
    map_option (\<lambda>credential. (f credential, on_runtime (\<lambda>rt. rt\<lparr>rt_credentials :=
        hm_insert account_id (f credential) (rt_credentials rt)\<rparr>) app))
      (hm_get (rt_credentials (ap_runtime app)) account_id)"

definition record_managed_account_failure :: "str \<Rightarrow> str \<Rightarrow> bool \<Rightarrow> instant \<Rightarrow> app_state \<Rightarrow> app_state" where
  "record_managed_account_failure account_id message unauthorized now app =
    (let (status, reason) = classify_managed_account_status message unauthorized
     in case update_credential account_id (\<lambda>c. c\<lparr>cr_managed_auth := Some ((managed_of c)\<lparr>ma_status := status,
            ma_status_reason := Some reason, ma_last_error := Some message\<rparr>), cr_updated_at := now\<rparr>) app of
          None \<Rightarrow> app
        | Some (snapshot, app) \<Rightarrow> enqueue (CredentialUpsert snapshot) app)"

definition remember_token :: "str \<Rightarrow> str \<Rightarrow> app_state \<Rightarrow> app_state" where
  "remember_token account_id token = on_runtime (\<lambda>rt. rt\<lparr>rt_ephemeral_refresh_tokens :=
     hm_insert account_id token (rt_ephemeral_refresh_tokens rt)\<rparr>)"

definition attach_rotated_refresh_token ::
  "provider \<Rightarrow> str \<Rightarrow> str \<Rightarrow> instant \<Rightarrow> app_state \<Rightarrow> (unit, app_error) result \<times> app_state" where
  "attach_rotated_refresh_token pv account_id refresh_token now app =
    (case (case cf_account_encryption_key (ap_config app) of
             Some secret \<Rightarrow> (case pv_encrypt pv secret refresh_token of
               Inl e \<Rightarrow> Inl (External e) | Inr c \<Rightarrow> Inr (Some c, app))
           | None \<Rightarrow> Inr (None, remember_token account_id refresh_token app)) of
       Inl e \<Rightarrow> (Inl e, app)
     | Inr (encrypted, app) \<Rightarrow>
         (case update_credential account_id (\<lambda>c. c\<lparr>cr_managed_auth :=
               Some ((managed_of c)\<lparr>ma_refresh_token_encrypted := encrypted\<rparr>), cr_updated_at := now\<rparr>) app of
            None \<Rightarrow> (Inl CredentialNotFound, app)
          | Some (snapshot, app) \<Rightarrow> (Inr (), enqueue (CredentialUpsert snapshot) app)))"

definition managed_refresh_token_for ::
  "provider \<Rightarrow> upstream_credential \<Rightarrow> app_state \<Rightarrow> (str option, app_error) result" where
  "managed_refresh_token_for pv credential app =
    (case hm_get (rt_ephemeral_refresh_tokens (ap_runtime app)) (cr_account_id credential) of
       Some token \<Rightarrow> Inr (Some token)
     | None \<Rightarrow>
         (case (Option.bind (cr_managed_auth credential) ma_refresh_token_encrypted,
                cf_account_encryption_key (ap_config app)) of
            (Some ciphertext, Some secret) \<Rightarrow> (case pv_decrypt pv secret ciphertext of
              Inl e \<Rightarrow> Inl (External e) | Inr token \<Rightarrow> Inr (Some token))
          | _ \<Rightarrow> Inr None))"

subsection \<open>Rate limits\<close>

definition window_headroom :: "managed_rate_limit_window \<Rightarrow> f64" where
  "window_headroom window =
     f_clamp (f_sub (Fin 1) (f_div (f_of_int (sint (rw_used_percent window))) (Fin 100))) (Fin 0) (Fin 1)"

text \<open>The body of the loop over the windows: the 5-hour and the 7-day headroom.\<close>

definition take_window :: "managed_rate_limit_window \<Rightarrow> f64 \<times> f64 \<Rightarrow> f64 \<times> f64" where
  "take_window window headrooms =
    (case rw_window_duration_mins window of
       None \<Rightarrow> headrooms
     | Some minutes \<Rightarrow>
         if sint minutes \<le> 300 then (window_headroom window, snd headrooms)
         else if 10080 \<le> sint minutes then (fst headrooms, window_headroom window)
         else headrooms)"

definition managed_headrooms :: "managed_rate_limit_snapshot \<Rightarrow> f64 \<times> f64 \<times> f64" where
  "managed_headrooms limits =
    (let default_headroom = f_clamp (case rl_primary limits of
           Some window \<Rightarrow> f_sub (Fin 1) (f_div (f_of_int (sint (rw_used_percent window))) (Fin 100))
         | None \<Rightarrow> Fin 1) (Fin 0) (Fin 1)
     in (default_headroom,
         fold take_window (List.map_filter id [rl_primary limits, rl_secondary limits])
           (default_headroom, default_headroom)))"

definition apply_managed_rate_limits_to_account ::
  "str \<Rightarrow> managed_auth_state option \<Rightarrow> app_state \<Rightarrow> app_state" where
  "apply_managed_rate_limits_to_account account_id managed_auth app =
    (case (Option.bind managed_auth ma_rate_limits, hm_get (rt_accounts (ap_runtime app)) account_id) of
       (Some limits, Some account) \<Rightarrow>
         (let (headroom, h5, h7) = managed_headrooms limits;
              account = account\<lparr>ac_signals := (ac_signals account)\<lparr>sg_quota_headroom := headroom,
                sg_quota_headroom_5h := h5, sg_quota_headroom_7d := h7\<rparr>\<rparr>
          in enqueue (AccountUpsert account) (on_runtime (\<lambda>rt. rt\<lparr>rt_accounts :=
               hm_insert account_id account (rt_accounts rt)\<rparr>) app))
     | _ \<Rightarrow> app)"

end
