(* ===== verification/Tenancy.thy ===== *)
theory Tenancy
  imports Replication
begin

text \<open>
  Tenants, API keys and gateway users (\<open>state.rs\<close>). Fresh UUIDs come as parameters: \<open>new_id\<close> for
  an identity, \<open>simple\<close> for a hyphen-free rendering, \<open>now\<close> for the clock. An operation that
  builds user views may panic on a token that cannot be masked: its result is an \<open>outcome\<close>.
\<close>

subsection \<open>Tenants\<close>

definition put_tenant :: "tenant \<Rightarrow> app_state \<Rightarrow> app_state" where
  "put_tenant tenant app = enqueue (TenantUpsert tenant)
     (on_runtime (\<lambda>rt. rt\<lparr>rt_tenants := hm_insert (tn_id tenant) tenant (rt_tenants rt)\<rparr>) app)"

definition create_tenant :: "create_tenant_request \<Rightarrow> uuid \<Rightarrow> instant \<Rightarrow> app_state \<Rightarrow> tenant \<times> app_state" where
  "create_tenant request new_id now app =
    (let tenant = \<lparr>tn_id = new_id, tn_slug = qt_slug request, tn_name = qt_name request, tn_created_at = now\<rparr>
     in (tenant, put_tenant tenant app))"

definition default_tenant_name :: str where
  "default_tenant_name = bytes [0xE9, 0xBB, 0x98, 0xE8, 0xAE, 0xA4, 0xE7, 0xA7, 0x9F, 0xE6, 0x88, 0xB7]"

definition ensure_default_tenant :: "uuid \<Rightarrow> instant \<Rightarrow> app_state \<Rightarrow> uuid \<times> app_state" where
  "ensure_default_tenant new_id now app =
    (case min_by_key tn_created_at (hm_values (rt_tenants (ap_runtime app))) of
       Some existing \<Rightarrow> (tn_id existing, app)
     | None \<Rightarrow>
         (let tenant = \<lparr>tn_id = new_id, tn_slug = ''default'', tn_name = default_tenant_name, tn_created_at = now\<rparr>
          in (new_id, put_tenant tenant app)))"

definition resolve_openai_login_tenant ::
  "uuid option \<Rightarrow> uuid \<Rightarrow> instant \<Rightarrow> app_state \<Rightarrow> (uuid, app_error) result \<times> app_state" where
  "resolve_openai_login_tenant requested new_id now app =
    (case requested of
       Some tenant_id \<Rightarrow>
         if hm_get (rt_tenants (ap_runtime app)) tenant_id = None then (Inl TenantMissing, app)
         else (Inr tenant_id, app)
     | None \<Rightarrow> map_prod Inr (\<lambda>a. a) (ensure_default_tenant new_id now app))"

definition resolve_gateway_user_tenant ::
  "uuid option \<Rightarrow> uuid \<Rightarrow> instant \<Rightarrow> app_state \<Rightarrow> (uuid, app_error) result \<times> app_state" where
  "resolve_gateway_user_tenant = resolve_openai_login_tenant"

subsection \<open>API keys\<close>

definition put_api_key :: "gateway_api_key \<Rightarrow> app_state \<Rightarrow> app_state" where
  "put_api_key api_key app = enqueue (ApiKeyUpsert api_key)
     (on_runtime (\<lambda>rt. rt\<lparr>rt_api_keys := hm_insert (ak_token api_key) api_key (rt_api_keys rt)\<rparr>) app)"

definition create_api_key ::
  "create_gateway_api_key_request \<Rightarrow> uuid \<Rightarrow> str \<Rightarrow> instant \<Rightarrow> instant \<Rightarrow> app_state
     \<Rightarrow> created_gateway_api_key option \<times> app_state" where
  "create_api_key request new_id simple t1 t2 app =
    (if hm_get (rt_tenants (ap_runtime app)) (qk_tenant_id request) = None then (None, app)
     else
       (let api_key = \<lparr>ak_id = new_id, ak_tenant_id = qk_tenant_id request, ak_name = qk_name request,
              ak_email = [], ak_role = Viewer, ak_token = ''cmgr_'' @ simple, ak_default_model = None,
              ak_reasoning_effort = None, ak_force_model_override = False,
              ak_force_reasoning_effort = False, ak_created_at = t1, ak_updated_at = t2\<rparr>
        in (Some \<lparr>ck_id = ak_id api_key, ck_tenant_id = ak_tenant_id api_key, ck_name = ak_name api_key,
              ck_email = ak_email api_key, ck_role = ak_role api_key, ck_token = ak_token api_key,
              ck_default_model = ak_default_model api_key,
              ck_reasoning_effort = ak_reasoning_effort api_key,
              ck_force_model_override = ak_force_model_override api_key,
              ck_force_reasoning_effort = ak_force_reasoning_effort api_key,
              ck_created_at = ak_created_at api_key, ck_updated_at = ak_updated_at api_key\<rparr>,
            put_api_key api_key app)))"

record gateway_auth_context =
  gc_tenant :: tenant
  gc_api_key :: gateway_api_key

definition auth_context_for_bearer :: "runtime_state \<Rightarrow> str \<Rightarrow> gateway_auth_context option" where
  "auth_context_for_bearer rt bearer_token =
    (case hm_get (rt_api_keys rt) bearer_token of
       None \<Rightarrow> None
     | Some api_key \<Rightarrow>
         (case hm_get (rt_tenants rt) (ak_tenant_id api_key) of
            None \<Rightarrow> None
          | Some tenant \<Rightarrow> Some \<lparr>gc_tenant = tenant, gc_api_key = api_key\<rparr>))"

definition tenant_for_bearer :: "runtime_state \<Rightarrow> str \<Rightarrow> tenant option" where
  "tenant_for_bearer rt bearer_token = map_option gc_tenant (auth_context_for_bearer rt bearer_token)"

subsection \<open>Gateway users\<close>

definition non_empty_trimmed :: "str option \<Rightarrow> str option" where
  "non_empty_trimmed v = (case map_option trim v of
     Some s \<Rightarrow> if s \<noteq> [] then Some s else None | None \<Rightarrow> None)"

definition email_taken :: "runtime_state \<Rightarrow> uuid \<Rightarrow> str \<Rightarrow> bool" where
  "email_taken rt tenant_id email \<longleftrightarrow> list_ex (\<lambda>api_key.
     eq_ignore_ascii_case (ak_email api_key) email \<and> ak_tenant_id api_key = tenant_id)
     (hm_values (rt_api_keys rt))"

text \<open>The checks of \<open>create_gateway_user\<close>, after the tenant is resolved.\<close>

definition new_user_key ::
  "runtime_state \<Rightarrow> create_gateway_user_request \<Rightarrow> uuid \<Rightarrow> uuid \<Rightarrow> str \<Rightarrow> instant
     \<Rightarrow> (gateway_api_key, app_error) result" where
  "new_user_key rt request tenant_id new_id simple now =
    (let name = trim (qu_name request);
         email = to_ascii_lowercase (trim (qu_email request))
     in if name = [] then Inl EmptyUserName
        else if email = [] then Inl EmptyEmail
        else if \<not> str_contains email ''@'' then Inl InvalidEmail
        else if email_taken rt tenant_id email then Inl DuplicateEmail
        else Inr \<lparr>ak_id = new_id, ak_tenant_id = tenant_id, ak_name = name, ak_email = email,
              ak_role = qu_role request, ak_token = ''cmgr_'' @ simple,
              ak_default_model = non_empty_trimmed (qu_default_model request),
              ak_reasoning_effort = normalize_reasoning_effort (qu_reasoning_effort request),
              ak_force_model_override = (case qu_force_model_override request of Some b \<Rightarrow> b | None \<Rightarrow> False),
              ak_force_reasoning_effort = (case qu_force_reasoning_effort request of Some b \<Rightarrow> b | None \<Rightarrow> False),
              ak_created_at = now, ak_updated_at = now\<rparr>)"

definition user_view_of :: "runtime_state \<Rightarrow> gateway_api_key \<Rightarrow> gateway_user_view option option" where
  "user_view_of rt api_key =
     map_option (find (\<lambda>item. uv_id item = ak_id api_key)) (gateway_user_views rt (rt_request_logs rt))"

definition create_gateway_user ::
  "create_gateway_user_request \<Rightarrow> uuid \<Rightarrow> instant \<Rightarrow> uuid \<Rightarrow> str \<Rightarrow> instant \<Rightarrow> app_state
     \<Rightarrow> ((created_gateway_user, app_error) result \<times> app_state, app_state) outcome" where
  "create_gateway_user request default_id t0 new_id simple now app =
    (case resolve_gateway_user_tenant (qu_tenant_id request) default_id t0 app of
       (Inl e, app) \<Rightarrow> Returns (Inl e, app)
     | (Inr tenant_id, app) \<Rightarrow>
         (case new_user_key (ap_runtime app) request tenant_id new_id simple now of
            Inl e \<Rightarrow> Returns (Inl e, app)
          | Inr api_key \<Rightarrow>
              (let app = put_api_key api_key app
               in case user_view_of (ap_runtime app) api_key of
                    None \<Rightarrow> Panics app
                  | Some found \<Rightarrow>
                      (case (case found of Some u \<Rightarrow> Some u
                                         | None \<Rightarrow> gateway_user_view_of api_key 0 (Fin 0) None) of
                         None \<Rightarrow> Panics app
                       | Some user \<Rightarrow> Returns (Inr \<lparr>cu_user = user, cu_token = ak_token api_key\<rparr>, app)))))"

text \<open>The field updates of \<open>update_gateway_user\<close>.\<close>

definition updated_user ::
  "update_gateway_user_request \<Rightarrow> str option \<Rightarrow> instant \<Rightarrow> gateway_api_key \<Rightarrow> (gateway_api_key, app_error) result" where
  "updated_user request email now existing =
    (case map_option trim (uu_name request) of
       Some [] \<Rightarrow> Inl EmptyUserName
     | name \<Rightarrow>
         Inr (existing\<lparr>
           ak_name := (case name of Some n \<Rightarrow> n | None \<Rightarrow> ak_name existing),
           ak_email := (case email of Some e \<Rightarrow> e | None \<Rightarrow> ak_email existing),
           ak_role := (case uu_role request of Some r \<Rightarrow> r | None \<Rightarrow> ak_role existing),
           ak_default_model := (case uu_default_model request of
             Some m \<Rightarrow> non_empty_trimmed (Some m) | None \<Rightarrow> ak_default_model existing),
           ak_reasoning_effort := (if uu_reasoning_effort request \<noteq> None
             then normalize_reasoning_effort (uu_reasoning_effort request) else ak_reasoning_effort existing),
           ak_force_model_override := (case uu_force_model_override request of
             Some b \<Rightarrow> b | None \<Rightarrow> ak_force_model_override existing),
           ak_force_reasoning_effort := (case uu_force_reasoning_effort request of
             Some b \<Rightarrow> b | None \<Rightarrow> ak_force_reasoning_effort existing),
           ak_updated_at := now\<rparr>))"

definition check_new_email :: "runtime_state \<Rightarrow> uuid \<Rightarrow> str option \<Rightarrow> app_error option" where
  "check_new_email rt user_id email =
    (case email of
       None \<Rightarrow> None
     | Some e \<Rightarrow>
         if e = [] \<or> \<not> str_contains e ''@'' then Some InvalidEmail
         else (case find (\<lambda>api_key. ak_id api_key = user_id) (hm_values (rt_api_keys rt)) of
             None \<Rightarrow> Some UserNotFound
           | Some current \<Rightarrow>
               if list_ex (\<lambda>api_key. ak_id api_key \<noteq> user_id
                    \<and> ak_tenant_id api_key = ak_tenant_id current
                    \<and> eq_ignore_ascii_case (ak_email api_key) e) (hm_values (rt_api_keys rt))
               then Some DuplicateEmail else None))"

definition update_gateway_user ::
  "uuid \<Rightarrow> update_gateway_user_request \<Rightarrow> instant \<Rightarrow> app_state
     \<Rightarrow> ((gateway_user_view, app_error) result \<times> app_state, app_state) outcome" where
  "update_gateway_user user_id request now app =
    (let email = map_option (\<lambda>v. to_ascii_lowercase (trim v)) (uu_email request)
     in case check_new_email (ap_runtime app) user_id email of
          Some e \<Rightarrow> Returns (Inl e, app)
        | None \<Rightarrow>
            (case find (\<lambda>(_, api_key). ak_id api_key = user_id) (rt_api_keys (ap_runtime app)) of
               None \<Rightarrow> Returns (Inl UserNotFound, app)
             | Some (key, existing) \<Rightarrow>
                 (case updated_user request email now existing of
                    Inl e \<Rightarrow> Returns (Inl e, app)
                  | Inr updated \<Rightarrow>
                      (let app = enqueue (ApiKeyUpsert updated) (on_runtime (\<lambda>rt. rt\<lparr>rt_api_keys :=
                             hm_insert key updated (rt_api_keys rt)\<rparr>) app)
                       in case user_view_of (ap_runtime app) updated of
                            None \<Rightarrow> Panics app
                          | Some None \<Rightarrow> Returns (Inl UserNotFound, app)
                          | Some (Some user) \<Rightarrow> Returns (Inr user, app)))))"

subsection \<open>Codex app sessions\<close>

text \<open>
  The account a session is opened for: the requested one after its checks, otherwise the first
  managed credential of the tenant, otherwise its first credential.
\<close>

fun pick_session_account ::
  "(str, upstream_account) hmap \<Rightarrow> uuid \<Rightarrow> upstream_credential list \<Rightarrow> str option \<Rightarrow> str option" where
  "pick_session_account accounts tenant_id [] fallback = fallback"
| "pick_session_account accounts tenant_id (credential # rest) fallback =
    (if (case hm_get accounts (cr_account_id credential) of
           None \<Rightarrow> True | Some account \<Rightarrow> ac_tenant_id account \<noteq> tenant_id)
     then pick_session_account accounts tenant_id rest fallback
     else
       (let fallback = (case fallback of None \<Rightarrow> Some (cr_account_id credential) | Some f \<Rightarrow> Some f)
        in if cr_managed_auth credential \<noteq> None then Some (cr_account_id credential)
           else pick_session_account accounts tenant_id rest fallback))"

definition session_account ::
  "runtime_state \<Rightarrow> uuid \<Rightarrow> str option \<Rightarrow> (str, app_error) result" where
  "session_account rt tenant_id requested =
    (case requested of
       Some account_id \<Rightarrow>
         (case hm_get (rt_accounts rt) account_id of
            None \<Rightarrow> Inl SessionAccountNotFound
          | Some account \<Rightarrow>
              if ac_tenant_id account \<noteq> tenant_id then Inl SessionAccountOtherTenant
              else if hm_get (rt_credentials rt) account_id = None then Inl SessionCredentialMissing
              else Inr account_id)
     | None \<Rightarrow>
         (case pick_session_account (rt_accounts rt) tenant_id (hm_values (rt_credentials rt)) None of
            None \<Rightarrow> Inl NoUsableCredential
          | Some account_id \<Rightarrow> Inr account_id))"

text \<open>
  \<open>refresh\<close> is the refresh of a managed account (it talks to the upstream), \<open>token\<close> the
  random state the session is known by.
\<close>

definition create_codex_app_session ::
  "(str \<Rightarrow> app_state \<Rightarrow> (unit, app_error) result \<times> app_state) \<Rightarrow> codex_app_session_request \<Rightarrow> uuid
     \<Rightarrow> str \<Rightarrow> str \<Rightarrow> instant \<Rightarrow> app_state \<Rightarrow> (codex_app_session_response, app_error) result \<times> app_state" where
  "create_codex_app_session refresh request authorized_tenant_id websocket_url token now app =
    (if (case sq_tenant_id request of None \<Rightarrow> False | Some t \<Rightarrow> t \<noteq> authorized_tenant_id)
     then (Inl SessionTenantMismatch, app)
     else case session_account (ap_runtime app) authorized_tenant_id (sq_account_id request) of
       Inl e \<Rightarrow> (Inl e, app)
     | Inr account_id \<Rightarrow>
         (case hm_get (rt_credentials (ap_runtime app)) account_id of
            None \<Rightarrow> (Inl SessionCredentialMissing, app)
          | Some credential \<Rightarrow>
              (case (if cr_managed_auth credential \<noteq> None then refresh account_id app else (Inr (), app)) of
                 (Inl e, app) \<Rightarrow> (Inl e, app)
               | (Inr _, app) \<Rightarrow>
                   (let expires_at = now + mins 10;
                        session = \<lparr>cs_tenant_id = authorized_tenant_id, cs_account_id = account_id,
                          cs_expires_at = expires_at\<rparr>
                    in (Inr \<lparr>sr_account_id = account_id, sr_remote_app_server_url = websocket_url,
                          sr_remote_app_server_auth_token = token, sr_expires_at = expires_at\<rparr>,
                        on_runtime (\<lambda>rt. rt\<lparr>rt_codex_app_sessions :=
                          hm_insert token session (rt_codex_app_sessions rt)\<rparr>) app)))))"

definition codex_app_session_for_token :: "str \<Rightarrow> instant \<Rightarrow> app_state \<Rightarrow> codex_app_session_state option \<times> app_state" where
  "codex_app_session_for_token token now app =
    (let sessions = hm_retain (\<lambda>session. cs_expires_at session > now)
           (rt_codex_app_sessions (ap_runtime app))
     in (hm_get sessions token, on_runtime (\<lambda>rt. rt\<lparr>rt_codex_app_sessions := sessions\<rparr>) app))"

end
