(* ===== verification/Account_Ops.thy ===== *)
theory Account_Ops
  imports Accounts Tenancy
begin

text \<open>
  The operations on accounts that span several tables: refresh of a managed account, login, quota
  and model refresh, deletion, cleanup. \<open>t n\<close> is the \<open>n\<close>-th clock reading of an operation.
\<close>

subsection \<open>Refresh of a managed account\<close>

text \<open>
  Trading the refresh token for a new access token; a rotated refresh token is stored, a failure is
  recorded on the account.
\<close>

definition trade_refresh_token ::
  "provider \<Rightarrow> str \<Rightarrow> str \<Rightarrow> instant \<Rightarrow> app_state \<Rightarrow> (token_response, app_error) result \<times> app_state" where
  "trade_refresh_token pv account_id token now app =
    (let app = pv_during pv app
     in case pv_refresh pv token of
       Inl message \<Rightarrow> (Inl (External message), record_managed_account_failure account_id message True now app)
     | Inr refreshed \<Rightarrow>
         (case tk_refresh_token refreshed of
            None \<Rightarrow> (Inr refreshed, app)
          | Some rotated \<Rightarrow>
              (case attach_rotated_refresh_token pv account_id rotated now app of
                 (Inl e, app) \<Rightarrow> (Inl e, app)
               | (Inr _, app) \<Rightarrow> (Inr refreshed, app))))"

definition fetch_snapshot ::
  "provider \<Rightarrow> nat \<Rightarrow> upstream_credential \<Rightarrow> str \<Rightarrow> app_state
     \<Rightarrow> (managed_chatgpt_snapshot, managed_chatgpt_snapshot_error) result \<times> app_state" where
  "fetch_snapshot pv n credential access_token app =
     (pv_fetch pv n (cr_base_url credential) access_token (cr_chatgpt_account_id credential), pv_during pv app)"

definition fetch_failed ::
  "str \<Rightarrow> managed_chatgpt_snapshot_error \<Rightarrow> instant \<Rightarrow> app_state \<Rightarrow> ('a, app_error) result \<times> app_state" where
  "fetch_failed account_id error now app = (Inl (External (me_message error)),
     record_managed_account_failure account_id (me_message error) (me_unauthorized error) now app)"

definition merged_managed ::
  "managed_chatgpt_snapshot \<Rightarrow> instant \<Rightarrow> managed_auth_state \<Rightarrow> managed_auth_state" where
  "merged_managed snapshot now managed = managed\<lparr>
     ma_email := (case ms_email snapshot of Some e \<Rightarrow> Some e | None \<Rightarrow> ma_email managed),
     ma_plan_type := (case ms_plan_type snapshot of Some p \<Rightarrow> Some p | None \<Rightarrow> ma_plan_type managed),
     ma_workspace_role := (case ms_workspace_role snapshot of Some r \<Rightarrow> Some r | None \<Rightarrow> ma_workspace_role managed),
     ma_is_workspace_owner := (case ms_is_workspace_owner snapshot of Some b \<Rightarrow> Some b | None \<Rightarrow> ma_is_workspace_owner managed),
     ma_status := Active, ma_status_reason := None, ma_last_error := None,
     ma_rate_limits := ms_rate_limits snapshot,
     ma_rate_limits_by_limit_id := ms_rate_limits_by_limit_id snapshot,
     ma_last_refreshed_at := Some now\<rparr>"

definition store_managed_snapshot ::
  "str \<Rightarrow> str \<Rightarrow> managed_chatgpt_snapshot \<Rightarrow> instant \<Rightarrow> instant \<Rightarrow> app_state
     \<Rightarrow> (unit, app_error) result \<times> app_state" where
  "store_managed_snapshot account_id access_token snapshot t1 t2 app =
    (case update_credential account_id (\<lambda>c. c\<lparr>cr_bearer_token := access_token,
          cr_chatgpt_account_id := (case ms_chatgpt_account_id snapshot of
            Some i \<Rightarrow> Some i | None \<Rightarrow> cr_chatgpt_account_id c),
          cr_managed_auth := Some (merged_managed snapshot t1 (managed_of c)), cr_updated_at := t2\<rparr>) app of
       None \<Rightarrow> (Inl CredentialNotFound, app)
     | Some (managed_snapshot, app) \<Rightarrow>
         (Inr (), enqueue (CredentialUpsert managed_snapshot)
            (apply_managed_rate_limits_to_account account_id (cr_managed_auth managed_snapshot) app)))"

text \<open>
  The forced refresh of the token: the access token and the (local) credential the fetch uses, and
  whether a refresh took place. The plan type the code reads from the new token goes to a local copy
  that is not read again.
\<close>

definition forced_token ::
  "provider \<Rightarrow> bool \<Rightarrow> str option \<Rightarrow> str \<Rightarrow> upstream_credential \<Rightarrow> instant \<Rightarrow> app_state
     \<Rightarrow> (str \<times> upstream_credential \<times> bool, app_error) result \<times> app_state" where
  "forced_token pv force maybe_token account_id credential now app =
    (case (force, maybe_token) of
       (True, Some token) \<Rightarrow>
         (case trade_refresh_token pv account_id token now app of
            (Inl e, app) \<Rightarrow> (Inl e, app)
          | (Inr refreshed, app) \<Rightarrow>
              (Inr (tk_access_token refreshed,
                 (if cr_chatgpt_account_id credential = None
                  then credential\<lparr>cr_chatgpt_account_id := pv_account_id pv (tk_access_token refreshed)\<rparr>
                  else credential), True), app))
     | _ \<Rightarrow> (Inr (cr_bearer_token credential, credential, False), app))"

text \<open>The snapshot, with one retry after trading the token when the first fetch is unauthorized.\<close>

definition managed_snapshot ::
  "provider \<Rightarrow> str option \<Rightarrow> str \<Rightarrow> str \<Rightarrow> upstream_credential \<Rightarrow> bool \<Rightarrow> instant \<Rightarrow> app_state
     \<Rightarrow> (str \<times> managed_chatgpt_snapshot, app_error) result \<times> app_state" where
  "managed_snapshot pv maybe_token account_id access_token credential refreshed now app =
    (case fetch_snapshot pv 0 credential access_token app of
       (Inr snapshot, app) \<Rightarrow> (Inr (access_token, snapshot), app)
     | (Inl error, app) \<Rightarrow>
         (case (me_unauthorized error \<and> \<not> refreshed, maybe_token) of
            (True, Some token) \<Rightarrow>
              (case trade_refresh_token pv account_id token now app of
                 (Inl e, app) \<Rightarrow> (Inl e, app)
               | (Inr refreshed, app) \<Rightarrow>
                   (case fetch_snapshot pv 1 credential (tk_access_token refreshed) app of
                      (Inr snapshot, app) \<Rightarrow> (Inr (tk_access_token refreshed, snapshot), app)
                    | (Inl error, app) \<Rightarrow> fetch_failed account_id error now app))
          | _ \<Rightarrow> fetch_failed account_id error now app))"

definition refresh_managed_account ::
  "provider \<Rightarrow> bool \<Rightarrow> (nat \<Rightarrow> instant) \<Rightarrow> str \<Rightarrow> app_state \<Rightarrow> (unit, app_error) result \<times> app_state" where
  "refresh_managed_account pv force_token_refresh t account_id app =
    (case hm_get (rt_credentials (ap_runtime app)) account_id of
       None \<Rightarrow> (Inl CredentialNotFound, app)
     | Some credential \<Rightarrow>
         if cr_managed_auth credential = None then (Inr (), app)
         else (case managed_refresh_token_for pv credential app of
            Inl e \<Rightarrow> (Inl e, app)
          | Inr maybe_token \<Rightarrow>
              (case forced_token pv force_token_refresh maybe_token account_id credential (t 0) app of
                 (Inl e, app) \<Rightarrow> (Inl e, app)
               | (Inr (access_token, credential, refreshed), app) \<Rightarrow>
                   (case managed_snapshot pv maybe_token account_id access_token credential refreshed (t 1) app of
                      (Inl e, app) \<Rightarrow> (Inl e, app)
                    | (Inr (access_token, snapshot), app) \<Rightarrow>
                        store_managed_snapshot account_id access_token snapshot (t 2) (t 3) app))))"

definition stale_managed_accounts :: "instant \<Rightarrow> runtime_state \<Rightarrow> str list" where
  "stale_managed_accounts threshold rt = map cr_account_id (filter (\<lambda>credential.
     case Option.bind (cr_managed_auth credential) ma_last_refreshed_at of
       Some refreshed_at \<Rightarrow> refreshed_at < threshold | None \<Rightarrow> True) (hm_values (rt_credentials rt)))"

definition refresh_stale_managed_accounts ::
  "(str \<Rightarrow> provider) \<Rightarrow> (str \<Rightarrow> nat \<Rightarrow> instant) \<Rightarrow> instant \<Rightarrow> int \<Rightarrow> app_state \<Rightarrow> app_state" where
  "refresh_stale_managed_accounts pv t now max_staleness app =
     fold (\<lambda>account_id app. snd (refresh_managed_account (pv account_id) False (t account_id) account_id app))
       (stale_managed_accounts (now - max_staleness) (ap_runtime app)) app"

subsection \<open>Attaching managed auth, login\<close>

definition attach_managed_openai_auth ::
  "provider \<Rightarrow> str \<Rightarrow> str option \<Rightarrow> str option \<Rightarrow> str option \<Rightarrow> instant \<Rightarrow> (nat \<Rightarrow> instant) \<Rightarrow> app_state
     \<Rightarrow> (unit, app_error) result \<times> app_state" where
  "attach_managed_openai_auth pv account_id email chatgpt_account_id refresh_token now t app =
    (case (case (non_empty_trimmed refresh_token, cf_account_encryption_key (ap_config app)) of
             (Some token, Some secret) \<Rightarrow> (case pv_encrypt pv secret token of
               Inl e \<Rightarrow> Inl (External e) | Inr c \<Rightarrow> Inr (Some c, app))
           | (Some token, None) \<Rightarrow> Inr (None, remember_token account_id token app)
           | (None, _) \<Rightarrow> Inr (None, app)) of
       Inl e \<Rightarrow> (Inl e, app)
     | Inr (encrypted, app) \<Rightarrow>
         (case update_credential account_id (\<lambda>c. c\<lparr>
               cr_chatgpt_account_id := (case non_blank chatgpt_account_id of
                 Some i \<Rightarrow> Some i | None \<Rightarrow> cr_chatgpt_account_id c),
               cr_managed_auth := Some ((managed_of c)\<lparr>ma_email := email, ma_refresh_token_encrypted := encrypted\<rparr>),
               cr_updated_at := now\<rparr>) app of
            None \<Rightarrow> (Inl CredentialNotFound, app)
          | Some (snapshot, app) \<Rightarrow>
              refresh_managed_account pv False t account_id (enqueue (CredentialUpsert snapshot) app)))"

definition default_oauth_models :: "str list" where
  "default_oauth_models = [''gpt-5.4'', ''gpt-5.3-codex'', ''gpt-5.2'']"

definition default_oauth_base_url :: str where
  "default_oauth_base_url = ''https://chatgpt.com/backend-api/codex''"

text \<open>\<open>encode\<close> is the percent-encoding of the crate \<open>urlencoding\<close>.\<close>

definition build_authorize_url :: "(str \<Rightarrow> str) \<Rightarrow> str \<Rightarrow> str \<Rightarrow> str \<Rightarrow> str" where
  "build_authorize_url encode redirect_uri code_challenge state =
     ''https://auth.openai.com'' @ ''/oauth/authorize?'' @
     join ''&'' (map (\<lambda>(key, value). key @ ''='' @ encode value)
       [(''response_type'', ''code''), (''client_id'', ''app_EMoamEEZ73f0CkXaXp7hrann''),
        (''redirect_uri'', redirect_uri),
        (''scope'', ''openid profile email offline_access api.connectors.read api.connectors.invoke''),
        (''code_challenge'', code_challenge), (''code_challenge_method'', ''S256''),
        (''id_token_add_organizations'', ''true''), (''codex_cli_simplified_flow'', ''true''),
        (''state'', state), (''originator'', ''codex_cli_rs'')])"

text \<open>
  \<open>parse_url\<close> is \<open>reqwest::Url::parse\<close> followed by its rendering, with the error text of the
  operation; \<open>pkce\<close> the fresh code verifier and challenge, \<open>login_id\<close> the fresh state.
\<close>

definition start_openai_login ::
  "(str \<Rightarrow> (str, str) result) \<Rightarrow> (str \<Rightarrow> str) \<Rightarrow> openai_login_start_request \<Rightarrow> str \<times> str \<Rightarrow> str \<Rightarrow> uuid
     \<Rightarrow> instant \<Rightarrow> instant \<Rightarrow> app_state \<Rightarrow> (openai_login_start_response, app_error) result \<times> app_state" where
  "start_openai_login parse_url encode request pkce login_id new_id t1 t2 app =
    (case resolve_openai_login_tenant (lo_tenant_id request) new_id t1 app of
       (Inl e, app) \<Rightarrow> (Inl e, app)
     | (Inr tenant_id, app) \<Rightarrow>
         (case parse_url (lo_redirect_uri request) of
            Inl message \<Rightarrow> (Inl (External message), app)
          | Inr redirect_uri \<Rightarrow>
              (let auth_url = build_authorize_url encode redirect_uri (snd pkce) login_id;
                   session = \<lparr>lg_login_id = login_id, lg_tenant_id = tenant_id,
                     lg_label = non_blank (lo_label request), lg_note = non_blank (lo_note request),
                     lg_redirect_uri = redirect_uri, lg_auth_url = auth_url, lg_code_verifier = fst pkce,
                     lg_status = ''pending'', lg_error = None, lg_imported_account_id = None,
                     lg_imported_account_label = None,
                     lg_models = unwrap_or (lo_models request) default_oauth_models,
                     lg_base_url = unwrap_or (non_blank (lo_base_url request)) default_oauth_base_url,
                     lg_created_at = t2, lg_updated_at = t2\<rparr>
               in (Inr \<lparr>lr_login_id = login_id, lr_auth_url = auth_url, lr_redirect_uri = redirect_uri\<rparr>,
                   on_runtime (\<lambda>rt. rt\<lparr>rt_openai_login_sessions :=
                     hm_insert login_id session (rt_openai_login_sessions rt)\<rparr>) app))))"

definition login_view :: "openai_login_session_state \<Rightarrow> openai_login_session_view" where
  "login_view s = \<lparr>lv_login_id = lg_login_id s, lv_tenant_id = lg_tenant_id s, lv_label = lg_label s,
     lv_note = lg_note s, lv_redirect_uri = lg_redirect_uri s, lv_auth_url = lg_auth_url s,
     lv_status = lg_status s, lv_error = lg_error s, lv_imported_account_id = lg_imported_account_id s,
     lv_imported_account_label = lg_imported_account_label s, lv_created_at = lg_created_at s,
     lv_updated_at = lg_updated_at s\<rparr>"

definition openai_login_status :: "app_state \<Rightarrow> str \<Rightarrow> openai_login_session_view option" where
  "openai_login_status app login_id =
     map_option login_view (hm_get (rt_openai_login_sessions (ap_runtime app)) login_id)"

text \<open>The account a completed login imports.\<close>

definition login_import ::
  "provider \<Rightarrow> openai_login_session_state \<Rightarrow> token_response \<Rightarrow> id_token_claims
     \<Rightarrow> import_account_request \<times> str option" where
  "login_import pv session tokens claims =
    (let label = (case lg_label session of Some l \<Rightarrow> l | None \<Rightarrow>
           (case ic_email claims of Some e \<Rightarrow> e | None \<Rightarrow>
             (case lg_note session of Some n \<Rightarrow> n | None \<Rightarrow> ''OpenAI '' @ ic_sub claims)));
         chatgpt_account_id = (case pv_account_id pv (tk_id_token tokens) of Some i \<Rightarrow> Some i | None \<Rightarrow>
           (case ic_chatgpt_account_id claims of Some i \<Rightarrow> Some i | None \<Rightarrow>
             (case pv_account_id pv (tk_access_token tokens) of Some i \<Rightarrow> Some i | None \<Rightarrow> ic_workspace_id claims)))
     in (\<lparr>qi_tenant_id = lg_tenant_id session, qi_label = label, qi_models = lg_models session,
          qi_quota_headroom = Some (dec 8 10), qi_quota_headroom_5h = Some (dec 8 10),
          qi_quota_headroom_7d = Some (dec 8 10), qi_health_score = Some (dec 9 10),
          qi_egress_stability = Some (dec 85 100), qi_base_url = Some (lg_base_url session),
          qi_bearer_token = Some (tk_access_token tokens), qi_chatgpt_account_id = chatgpt_account_id,
          qi_extra_headers = None\<rparr>, chatgpt_account_id))"

definition exchange_login ::
  "provider \<Rightarrow> openai_login_session_state \<Rightarrow> str \<Rightarrow> str \<Rightarrow> str \<Rightarrow> (nat \<Rightarrow> instant) \<Rightarrow> app_state
     \<Rightarrow> (upstream_account, app_error) result \<times> app_state" where
  "exchange_login pv session redirect_uri code simple t app =
    (let app = pv_during pv app
     in case pv_exchange pv redirect_uri (lg_code_verifier session) code of
       Inl message \<Rightarrow> (Inl (External message), app)
     | Inr tokens \<Rightarrow>
         (case pv_claims pv (tk_id_token tokens) of
            Inl message \<Rightarrow> (Inl (External message), app)
          | Inr claims \<Rightarrow>
              (let (request, chatgpt_account_id) = login_import pv session tokens claims;
                   (account, app) = import_account request simple (t 4) (t 5) app
               in case attach_managed_openai_auth pv (ac_id account) (ic_email claims) chatgpt_account_id
                    (tk_refresh_token tokens) (t 6) t app of
                  (Inl e, app) \<Rightarrow> (Inl e, app)
                | (Inr _, app) \<Rightarrow> (Inr account, app))))"

definition update_login ::
  "str \<Rightarrow> (openai_login_session_state \<Rightarrow> openai_login_session_state) \<Rightarrow> app_state \<Rightarrow> app_state" where
  "update_login state f app =
    (case hm_get (rt_openai_login_sessions (ap_runtime app)) state of
       None \<Rightarrow> app
     | Some active \<Rightarrow> on_runtime (\<lambda>rt. rt\<lparr>rt_openai_login_sessions :=
         hm_insert state (f active) (rt_openai_login_sessions rt)\<rparr>) app)"

definition settled ::
  "(upstream_account, app_error) result \<Rightarrow> instant \<Rightarrow> openai_login_session_state \<Rightarrow> openai_login_session_state" where
  "settled result now active =
    (case result of
       Inr account \<Rightarrow> active\<lparr>lg_updated_at := now, lg_status := ''success'', lg_error := None,
         lg_imported_account_id := Some (ac_id account), lg_imported_account_label := Some (ac_label account)\<rparr>
     | Inl error \<Rightarrow> active\<lparr>lg_updated_at := now, lg_status := ''failed'', lg_error := Some error\<rparr>)"

definition complete_openai_login ::
  "provider \<Rightarrow> openai_login_complete_request \<Rightarrow> str \<Rightarrow> (nat \<Rightarrow> instant) \<Rightarrow> app_state
     \<Rightarrow> (upstream_account, app_error) result \<times> app_state" where
  "complete_openai_login pv request simple t app =
    (case hm_get (rt_openai_login_sessions (ap_runtime app)) (lc_state request) of
       None \<Rightarrow> (Inl UnknownLogin, app)
     | Some session \<Rightarrow>
         (case (if lg_status session = ''success''
                then Option.bind (lg_imported_account_id session) (hm_get (rt_accounts (ap_runtime app)))
                else None) of
            Some existing \<Rightarrow> (Inr existing, app)
          | None \<Rightarrow>
              (let redirect_uri = unwrap_or (non_blank (lc_redirect_uri request)) (lg_redirect_uri session);
                   app = update_login (lc_state request) (\<lambda>active. active\<lparr>lg_status := ''exchanging'',
                     lg_error := None, lg_updated_at := t 7\<rparr>) app;
                   (result, app) = exchange_login pv session redirect_uri (lc_code request) simple t app
               in (result, update_login (lc_state request) (settled result (t 8)) app))))"

subsection \<open>Quota and model refresh\<close>

definition refresh_account_quota ::
  "provider \<Rightarrow> (nat \<Rightarrow> instant) \<Rightarrow> str \<Rightarrow> app_state \<Rightarrow> (account_summary, app_error) result \<times> app_state" where
  "refresh_account_quota pv t account_id app =
    (if hm_get (rt_accounts (ap_runtime app)) account_id = None then (Inl AccountNotFound, app)
     else case hm_get (rt_credentials (ap_runtime app)) account_id of
       None \<Rightarrow> (Inl CredentialNotFound, app)
     | Some credential \<Rightarrow>
         if cr_managed_auth credential = None then (Inl NotManagedAccount, app)
         else (case refresh_managed_account pv False t account_id app of
            (Inl e, app) \<Rightarrow> (Inl e, app)
          | (Inr _, app) \<Rightarrow>
              (case account_summary_for app account_id (t 9) of
                 None \<Rightarrow> (Inl AccountNotFound, app)
               | Some summary \<Rightarrow> (Inr summary, app))))"

definition normalized_models :: "str list \<Rightarrow> str list" where
  "normalized_models models = dedup (sort_by cmp (filter (\<lambda>v. v \<noteq> []) (map trim models)))"

text \<open>\<open>list_models\<close> is the upstream's model list for a credential and a route mode.\<close>

definition model_updates ::
  "(upstream_credential \<Rightarrow> route_mode \<Rightarrow> (str list, str) result) \<Rightarrow> runtime_state \<Rightarrow> (str \<times> str list) list" where
  "model_updates list_models rt = List.map_filter (\<lambda>account.
     case hm_get (rt_credentials rt) (ac_id account) of
       None \<Rightarrow> None
     | Some credential \<Rightarrow>
         (case list_models credential (ac_current_mode account) of
            Inr models \<Rightarrow>
              if models \<noteq> [] \<and> normalized_models models \<noteq> ac_models account
              then Some (ac_id account, normalized_models models) else None
          | Inl _ \<Rightarrow> None)) (hm_values (rt_accounts rt))"

fun store_models ::
  "(str \<times> str list) list \<Rightarrow> (str, upstream_account) hmap \<Rightarrow> upstream_account list \<times> (str, upstream_account) hmap" where
  "store_models [] accounts = ([], accounts)"
| "store_models ((account_id, models) # updates) accounts =
    (case hm_get accounts account_id of
       None \<Rightarrow> store_models updates accounts
     | Some account \<Rightarrow>
         (let account = account\<lparr>ac_models := models\<rparr>
          in map_prod (Cons account) id (store_models updates (hm_insert account_id account accounts))))"

definition refresh_account_models ::
  "(upstream_credential \<Rightarrow> route_mode \<Rightarrow> (str list, str) result) \<Rightarrow> (app_state \<Rightarrow> app_state) \<Rightarrow> instant \<Rightarrow> app_state
     \<Rightarrow> account_summary list \<times> app_state" where
  "refresh_account_models list_models during now app =
    (let updates = model_updates list_models (ap_runtime app);
         app = during app;
         app = (if updates = [] then app
                else (let (snapshots, accounts) = store_models updates (rt_accounts (ap_runtime app))
                      in enqueue_many (map AccountUpsert snapshots)
                           (on_runtime (\<lambda>rt. rt\<lparr>rt_accounts := accounts\<rparr>) app)))
     in (account_summaries app now, app))"

subsection \<open>Deletion\<close>

definition delete_account :: "str \<Rightarrow> app_state \<Rightarrow> (unit, app_error) result \<times> app_state" where
  "delete_account account_id app =
    (if hm_get (rt_accounts (ap_runtime app)) account_id = None then (Inl AccountNotFound, app)
     else
       (let app = on_runtime (\<lambda>rt. rt\<lparr>
              rt_accounts := hm_remove account_id (rt_accounts rt),
              rt_credentials := hm_remove account_id (rt_credentials rt),
              rt_route_states := hm_remove account_id (rt_route_states rt),
              rt_ephemeral_refresh_tokens := hm_remove account_id (rt_ephemeral_refresh_tokens rt),
              rt_codex_app_sessions := hm_retain (\<lambda>session. cs_account_id session \<noteq> account_id)
                (rt_codex_app_sessions rt),
              rt_execution_gates := hm_remove account_id (rt_execution_gates rt),
              rt_execution_inflight := hm_remove account_id (rt_execution_inflight rt)\<rparr>) app;
            (evicted, app) = evict_leases_for_account account_id app;
            app = (if evicted = [] then app else enqueue_many (lease_deletes evicted) app)
        in (Inr (), enqueue (AccountDelete account_id) app)))"

fun delete_accounts :: "str list \<Rightarrow> app_state \<Rightarrow> (unit, app_error) result \<times> app_state" where
  "delete_accounts [] app = (Inr (), app)"
| "delete_accounts (account_id # rest) app =
    (case delete_account account_id app of
       (Inl e, app) \<Rightarrow> (Inl e, app)
     | (Inr _, app) \<Rightarrow> delete_accounts rest app)"

definition cleanup_banned_accounts ::
  "instant \<Rightarrow> app_state \<Rightarrow> (account_cleanup_result, app_error) result \<times> app_state" where
  "cleanup_banned_accounts now app =
    (let accounts = account_summaries app now;
         deleted_account_ids = map as_id (filter (\<lambda>account. as_status account = Banned) accounts)
     in case delete_accounts deleted_account_ids app of
       (Inl e, app) \<Rightarrow> (Inl e, app)
     | (Inr _, app) \<Rightarrow>
         (Inr \<lparr>cl_scanned = length accounts, cl_deleted = length deleted_account_ids,
            cl_skipped_not_banned = length accounts - length deleted_account_ids,
            cl_deleted_account_ids = deleted_account_ids\<rparr>, app))"

end
