(* ===== verification/Execution.thy ===== *)
theory Execution
  imports Account_Ops Examples
begin

text \<open>
  The serialisation of requests on a tenant's only account (\<open>acquire_execution_guard\<close> and the \<open>Drop\<close>
  of \<open>AccountExecutionGuard\<close>, \<open>state.rs\<close>). A gate is a semaphore with one permit, shared by reference:
  \<open>rt_semaphores\<close> is the store, the gate of an account an index into it. The tasks that race for a
  gate are a step relation; mutual exclusion is an invariant of it.
\<close>

subsection \<open>Operations\<close>

record execution_guard =
  xg_account_id :: str
  xg_semaphore :: nat

definition should_serialize_account_execution :: "runtime_state \<Rightarrow> uuid \<Rightarrow> str \<Rightarrow> str \<Rightarrow> bool" where
  "should_serialize_account_execution rt tenant_id account_id model \<longleftrightarrow>
     length (filter (\<lambda>account. ac_tenant_id account = tenant_id
        \<and> list_ex (\<lambda>candidate. candidate = model) (ac_models account)
        \<and> hm_get (rt_credentials rt) (ac_id account) \<noteq> None) (hm_values (rt_accounts rt))) = 1
     \<and> hm_get (rt_accounts rt) account_id \<noteq> None"

text \<open>\<open>gates.entry(id).or_insert_with(|| Arc::new(Semaphore::new(1)))\<close>.\<close>

definition enter_gate :: "str \<Rightarrow> runtime_state \<Rightarrow> nat \<times> runtime_state" where
  "enter_gate account_id rt =
    (case hm_get (rt_execution_gates rt) account_id of
       Some semaphore \<Rightarrow> (semaphore, rt)
     | None \<Rightarrow>
         (let semaphore = length (rt_semaphores rt)
          in (semaphore, rt\<lparr>rt_execution_gates := hm_insert account_id semaphore (rt_execution_gates rt),
                rt_semaphores := rt_semaphores rt @ [1]\<rparr>)))"

text \<open>\<open>None\<close>: there is no permit and the task waits.\<close>

definition take_permit :: "execution_guard \<Rightarrow> runtime_state \<Rightarrow> runtime_state option" where
  "take_permit guard rt =
    (let permits = rt_semaphores rt ! xg_semaphore guard
     in if permits = 0 then None
        else Some (rt\<lparr>rt_semaphores := (rt_semaphores rt)[xg_semaphore guard := permits - 1],
          rt_execution_inflight := hm_insert (xg_account_id guard)
            ((case hm_get (rt_execution_inflight rt) (xg_account_id guard) of Some n \<Rightarrow> n | None \<Rightarrow> 0) + 1)
            (rt_execution_inflight rt)\<rparr>))"

datatype acquired = Unguarded | Waits execution_guard | Guarded execution_guard

definition acquire_execution_guard :: "uuid \<Rightarrow> str \<Rightarrow> str \<Rightarrow> runtime_state \<Rightarrow> acquired \<times> runtime_state" where
  "acquire_execution_guard tenant_id account_id model rt =
    (if \<not> should_serialize_account_execution rt tenant_id account_id model then (Unguarded, rt)
     else
       (let (semaphore, rt) = enter_gate account_id rt;
            guard = \<lparr>xg_account_id = account_id, xg_semaphore = semaphore\<rparr>
        in case take_permit guard rt of
             None \<Rightarrow> (Waits guard, rt)
           | Some rt \<Rightarrow> (Guarded guard, rt)))"

text \<open>The body of \<open>drop\<close>, then the drop of the permit.\<close>

definition drop_guard :: "execution_guard \<Rightarrow> runtime_state \<Rightarrow> runtime_state" where
  "drop_guard guard rt =
    (let entry = sat_sub (case hm_get (rt_execution_inflight rt) (xg_account_id guard) of
           Some n \<Rightarrow> n | None \<Rightarrow> 0) 1
     in rt\<lparr>rt_execution_inflight :=
          (if entry = 0 then hm_remove (xg_account_id guard) (rt_execution_inflight rt)
           else hm_insert (xg_account_id guard) entry (rt_execution_inflight rt)),
        rt_semaphores := (rt_semaphores rt)[xg_semaphore guard :=
          rt_semaphores rt ! xg_semaphore guard + 1]\<rparr>)"

text \<open>What a deletion does to the gates.\<close>

definition forget_gate :: "str \<Rightarrow> runtime_state \<Rightarrow> runtime_state" where
  "forget_gate account_id rt = rt\<lparr>
     rt_execution_gates := hm_remove account_id (rt_execution_gates rt),
     rt_execution_inflight := hm_remove account_id (rt_execution_inflight rt)\<rparr>"

subsection \<open>The tasks\<close>

text \<open>
  \<open>xs_waiting\<close> are the tasks that hold a reference to a gate and wait for its permit, \<open>xs_guards\<close> the
  guards that are alive, \<open>xs_forgotten\<close> (a ghost) the accounts whose gate was removed.
\<close>

record exec_system =
  xs_runtime :: runtime_state
  xs_waiting :: "execution_guard list"
  xs_guards :: "execution_guard list"
  xs_forgotten :: "str set"

definition same_gates :: "runtime_state \<Rightarrow> runtime_state \<Rightarrow> bool" where
  "same_gates a b \<longleftrightarrow> rt_execution_gates a = rt_execution_gates b \<and> rt_semaphores a = rt_semaphores b
     \<and> rt_execution_inflight a = rt_execution_inflight b"

inductive exec_step :: "exec_system \<Rightarrow> exec_system \<Rightarrow> bool" where
  enter: "enter_gate i (xs_runtime x) = (s, rt) \<Longrightarrow>
    exec_step x (x\<lparr>xs_runtime := rt, xs_waiting := \<lparr>xg_account_id = i, xg_semaphore = s\<rparr> # xs_waiting x\<rparr>)"
| acquire: "g \<in> set (xs_waiting x) \<Longrightarrow> take_permit g (xs_runtime x) = Some rt \<Longrightarrow>
    exec_step x (x\<lparr>xs_runtime := rt, xs_waiting := remove1 g (xs_waiting x), xs_guards := g # xs_guards x\<rparr>)"
| give_up: "g \<in> set (xs_waiting x) \<Longrightarrow> exec_step x (x\<lparr>xs_waiting := remove1 g (xs_waiting x)\<rparr>)"
| release: "g \<in> set (xs_guards x) \<Longrightarrow>
    exec_step x (x\<lparr>xs_runtime := drop_guard g (xs_runtime x), xs_guards := remove1 g (xs_guards x)\<rparr>)"
| forget: "exec_step x (x\<lparr>xs_runtime := forget_gate i (xs_runtime x), xs_forgotten := insert i (xs_forgotten x)\<rparr>)"
| other: "same_gates rt (xs_runtime x) \<Longrightarrow> exec_step x (x\<lparr>xs_runtime := rt\<rparr>)"

inductive exec_reachable :: "exec_system \<Rightarrow> bool" where
  start: "same_gates rt initial_runtime \<Longrightarrow>
    exec_reachable \<lparr>xs_runtime = rt, xs_waiting = [], xs_guards = [], xs_forgotten = {}\<rparr>"
| step: "exec_reachable x \<Longrightarrow> exec_step x y \<Longrightarrow> exec_reachable y"

subsection \<open>The invariant\<close>

definition holding :: "nat \<Rightarrow> execution_guard list \<Rightarrow> nat" where
  "holding s guards = length (filter (\<lambda>g. xg_semaphore g = s) guards)"

definition guards_of :: "str \<Rightarrow> execution_guard list \<Rightarrow> execution_guard list" where
  "guards_of i guards = filter (\<lambda>g. xg_account_id g = i) guards"

text \<open>Permits and guards of a semaphore add up to one.\<close>

definition permits_inv :: "exec_system \<Rightarrow> bool" where
  "permits_inv x \<longleftrightarrow>
     (\<forall>g \<in> set (xs_guards x) \<union> set (xs_waiting x). xg_semaphore g < length (rt_semaphores (xs_runtime x)))
   \<and> (\<forall>i s. hm_get (rt_execution_gates (xs_runtime x)) i = Some s \<longrightarrow> s < length (rt_semaphores (xs_runtime x)))
   \<and> (\<forall>s < length (rt_semaphores (xs_runtime x)). rt_semaphores (xs_runtime x) ! s + holding s (xs_guards x) = 1)"

text \<open>The tasks of an account that was never deleted all refer to its gate.\<close>

definition gates_inv :: "exec_system \<Rightarrow> bool" where
  "gates_inv x \<longleftrightarrow> (\<forall>g \<in> set (xs_guards x) \<union> set (xs_waiting x). xg_account_id g \<notin> xs_forgotten x \<longrightarrow>
     hm_get (rt_execution_gates (xs_runtime x)) (xg_account_id g) = Some (xg_semaphore g))"

text \<open>The in-flight table counts its guards.\<close>

definition inflight_inv :: "exec_system \<Rightarrow> bool" where
  "inflight_inv x \<longleftrightarrow> (\<forall>i. i \<notin> xs_forgotten x \<longrightarrow>
     hm_get (rt_execution_inflight (xs_runtime x)) i = (if guards_of i (xs_guards x) = [] then None else Some 1))"

lemma enter_gate_cases:
  assumes "enter_gate i rt = (s, rt')"
  obtains (old) "hm_get (rt_execution_gates rt) i = Some s" "rt' = rt"
    | (new) "hm_get (rt_execution_gates rt) i = None" "s = length (rt_semaphores rt)"
      "rt' = rt\<lparr>rt_execution_gates := hm_insert i s (rt_execution_gates rt), rt_semaphores := rt_semaphores rt @ [1]\<rparr>"
  using assms by (auto simp: enter_gate_def Let_def split: option.splits)

lemma take_permit_Some:
  assumes "take_permit g rt = Some rt'"
  shows "rt_semaphores rt ! xg_semaphore g > 0"
    and "rt' = rt\<lparr>rt_semaphores := (rt_semaphores rt)[xg_semaphore g := rt_semaphores rt ! xg_semaphore g - 1],
      rt_execution_inflight := hm_insert (xg_account_id g)
        ((case hm_get (rt_execution_inflight rt) (xg_account_id g) of Some n \<Rightarrow> n | None \<Rightarrow> 0) + 1)
        (rt_execution_inflight rt)\<rparr>"
  using assms by (auto simp: take_permit_def Let_def split: if_splits)

lemma holding_Cons: "holding s (g # gs) = (if xg_semaphore g = s then Suc (holding s gs) else holding s gs)"
  by (simp add: holding_def)

lemma holding_remove1: "g \<in> set gs \<Longrightarrow>
    holding s gs = (if xg_semaphore g = s then Suc (holding s (remove1 g gs)) else holding s (remove1 g gs))"
  by (induction gs) (auto simp: holding_def)

lemma holding_ge: "g \<in> set gs \<Longrightarrow> 0 < holding (xg_semaphore g) gs"
  by (induction gs) (auto simp: holding_def)

lemma remove1_subset: "h \<in> set (remove1 g gs) \<Longrightarrow> h \<in> set gs"
  using set_remove1_subset by fast

lemma same_gates_fields: "same_gates rt rt' \<Longrightarrow> rt_execution_gates rt = rt_execution_gates rt'
    \<and> rt_semaphores rt = rt_semaphores rt' \<and> rt_execution_inflight rt = rt_execution_inflight rt'"
  by (simp add: same_gates_def)

lemma permits_bound: "permits_inv x \<Longrightarrow> g \<in> set (xs_guards x) \<union> set (xs_waiting x) \<Longrightarrow>
    xg_semaphore g < length (rt_semaphores (xs_runtime x))"
  unfolding permits_inv_def by blast

lemma permits_sum: "permits_inv x \<Longrightarrow> g \<in> set (xs_guards x) \<union> set (xs_waiting x) \<Longrightarrow>
    rt_semaphores (xs_runtime x) ! xg_semaphore g + holding (xg_semaphore g) (xs_guards x) = 1"
  using permits_bound by (auto simp: permits_inv_def)

lemma gate_of_guard: "gates_inv x \<Longrightarrow> g \<in> set (xs_guards x) \<union> set (xs_waiting x) \<Longrightarrow>
    xg_account_id g \<notin> xs_forgotten x \<Longrightarrow>
    hm_get (rt_execution_gates (xs_runtime x)) (xg_account_id g) = Some (xg_semaphore g)"
  unfolding gates_inv_def by blast

lemma permits_inv_step:
  assumes inv: "permits_inv x" and "exec_step x y"
  shows "permits_inv y"
  using assms(2)
proof cases
  case (enter i rt s)
  from enter(2) show ?thesis
  proof (cases rule: enter_gate_cases)
    case old
    with inv enter(1) show ?thesis by (auto simp: permits_inv_def)
  next
    case new
    have "holding (length (rt_semaphores (xs_runtime x))) (xs_guards x) = 0"
      using permits_bound [OF inv] by (fastforce simp: holding_def filter_empty_conv)
    with new inv enter(1) show ?thesis
      by (auto simp: permits_inv_def nth_append less_Suc_eq split: if_splits dest: less_SucI)
  qed
next
  case (acquire g rt)
  note rt = take_permit_Some [OF acquire(3)]
  have "xg_semaphore g < length (rt_semaphores (xs_runtime x))" using inv acquire by (auto simp: permits_inv_def)
  with inv acquire rt show ?thesis
    by (auto simp: permits_inv_def holding_Cons nth_list_update dest: remove1_subset)
next
  case (give_up g)
  with inv show ?thesis by (auto simp: permits_inv_def dest: remove1_subset)
next
  case (release g)
  have "xg_semaphore g < length (rt_semaphores (xs_runtime x))" using inv release by (auto simp: permits_inv_def)
  with inv release show ?thesis
    using holding_remove1 [OF release(2)]
    by (auto simp: permits_inv_def drop_guard_def Let_def nth_list_update dest: remove1_subset split: if_splits)
next
  case (forget i)
  with inv show ?thesis by (auto simp: permits_inv_def forget_gate_def split: if_splits)
next
  case (other rt)
  with inv show ?thesis by (auto simp: permits_inv_def dest: same_gates_fields)
qed

lemma gates_inv_step:
  assumes inv: "gates_inv x" and "exec_step x y"
  shows "gates_inv y"
  using assms(2)
proof cases
  case (enter i rt s)
  from enter(2) show ?thesis
    by (cases rule: enter_gate_cases) (use inv enter(1) in \<open>auto simp: gates_inv_def\<close>)
next
  case (acquire g rt)
  with inv take_permit_Some(2) [OF acquire(3)] show ?thesis by (auto simp: gates_inv_def dest: remove1_subset)
next
  case (give_up g)
  with inv show ?thesis by (auto simp: gates_inv_def dest: remove1_subset)
next
  case (release g)
  with inv show ?thesis by (auto simp: gates_inv_def drop_guard_def Let_def dest: remove1_subset)
next
  case (forget i)
  with inv show ?thesis by (auto simp: gates_inv_def forget_gate_def)
next
  case (other rt)
  with inv show ?thesis by (auto simp: gates_inv_def dest: same_gates_fields)
qed

text \<open>At most one guard per account, as long as the account is not deleted.\<close>

lemma one_guard:
  assumes "permits_inv x" and "gates_inv x" and "i \<notin> xs_forgotten x"
  shows "length (guards_of i (xs_guards x)) \<le> 1"
proof (cases "guards_of i (xs_guards x)")
  case (Cons g gs)
  then have g: "g \<in> set (xs_guards x)" "xg_account_id g = i" by (auto simp: guards_of_def filter_eq_Cons_iff)
  have sem: "xg_semaphore h = xg_semaphore g" if "h \<in> set (xs_guards x)" "xg_account_id h = i" for h
  proof -
    have "hm_get (rt_execution_gates (xs_runtime x)) i = Some (xg_semaphore f)"
      if "f \<in> set (xs_guards x)" "xg_account_id f = i" for f
      using assms(2,3) that by (auto simp: gates_inv_def)
    from this [OF that] this [OF g] show ?thesis by simp
  qed
  have "length (guards_of i (xs_guards x)) \<le> holding (xg_semaphore g) (xs_guards x)"
  proof -
    have eq: "filter (\<lambda>h. xg_account_id h = i) (xs_guards x)
        = filter (\<lambda>h. xg_account_id h = i) (filter (\<lambda>h. xg_semaphore h = xg_semaphore g) (xs_guards x))"
      using sem by (auto intro!: filter_cong)
    show ?thesis unfolding guards_of_def holding_def by (subst eq) (rule length_filter_le)
  qed
  also have "\<dots> \<le> 1" using assms(1) g(1) permits_sum [of x g] by simp
  finally show ?thesis .
qed simp

lemma guards_of_Cons [simp]: "guards_of i (g # gs) = (if xg_account_id g = i then g # guards_of i gs else guards_of i gs)"
  by (simp add: guards_of_def)

lemma guards_of_remove1: "guards_of i (remove1 g gs) = (if xg_account_id g = i then remove1 g (guards_of i gs) else guards_of i gs)"
  by (induction gs) (auto simp: guards_of_def)

lemma no_guard_when_permit:
  assumes "permits_inv x" and "gates_inv x" and "g \<in> set (xs_waiting x)" and "xg_account_id g \<notin> xs_forgotten x"
    and "0 < rt_semaphores (xs_runtime x) ! xg_semaphore g"
  shows "guards_of (xg_account_id g) (xs_guards x) = []"
proof (rule ccontr)
  assume "guards_of (xg_account_id g) (xs_guards x) \<noteq> []"
  then obtain h where h: "h \<in> set (xs_guards x)" "xg_account_id h = xg_account_id g"
    by (auto simp: guards_of_def filter_empty_conv)
  have "xg_semaphore h = xg_semaphore g"
    using gate_of_guard [OF assms(2), of g] gate_of_guard [OF assms(2), of h] assms(3,4) h by simp
  then have "0 < holding (xg_semaphore g) (xs_guards x)" using holding_ge [OF h(1)] by simp
  moreover have "rt_semaphores (xs_runtime x) ! xg_semaphore g + holding (xg_semaphore g) (xs_guards x) = 1"
    using permits_sum [OF assms(1)] assms(3) by simp
  ultimately show False using assms(5) by simp
qed

lemma inflight_inv_step:
  assumes permits: "permits_inv x" and gates: "gates_inv x" and inv: "inflight_inv x" and "exec_step x y"
  shows "inflight_inv y"
  using assms(4)
proof cases
  case (enter i rt s)
  from enter(2) show ?thesis
    by (cases rule: enter_gate_cases) (use inv enter(1) in \<open>auto simp: inflight_inv_def\<close>)
next
  case (acquire g rt)
  note rt = take_permit_Some [OF acquire(3)]
  show ?thesis
    using inv no_guard_when_permit [OF permits gates acquire(2) _ rt(1)]
    by (auto simp: inflight_inv_def acquire(1) rt(2) split: if_splits)
next
  case (give_up g)
  with inv show ?thesis by (auto simp: inflight_inv_def)
next
  case (release g)
  show ?thesis
    unfolding inflight_inv_def
  proof (intro allI impI)
    fix i
    assume i: "i \<notin> xs_forgotten y"
    have old: "hm_get (rt_execution_inflight (xs_runtime x)) i = (if guards_of i (xs_guards x) = [] then None else Some 1)"
      using inv i release(1) by (auto simp: inflight_inv_def)
    show "hm_get (rt_execution_inflight (xs_runtime y)) i = (if guards_of i (xs_guards y) = [] then None else Some 1)"
    proof (cases "xg_account_id g = i")
      case False
      with old release show ?thesis by (auto simp: drop_guard_def Let_def guards_of_remove1)
    next
      case True
      have "g \<in> set (guards_of i (xs_guards x))" using release(2) True by (simp add: guards_of_def)
      then have "guards_of i (xs_guards x) = [g]"
        using one_guard [OF permits gates, of i] i release(1) by (cases "guards_of i (xs_guards x)") auto
      with old release True show ?thesis
        by (auto simp: drop_guard_def Let_def guards_of_remove1 sat_sub_def)
    qed
  qed
next
  case (forget i)
  with inv show ?thesis by (auto simp: inflight_inv_def forget_gate_def)
next
  case (other rt)
  with inv show ?thesis by (auto simp: inflight_inv_def dest: same_gates_fields)
qed

lemma exec_reachable_inv: "exec_reachable x \<Longrightarrow> permits_inv x \<and> gates_inv x \<and> inflight_inv x"
proof (induction rule: exec_reachable.induct)
  case (start rt)
  then show ?case
    by (auto simp: permits_inv_def gates_inv_def inflight_inv_def initial_runtime_def guards_of_def dest: same_gates_fields)
next
  case (step x y)
  then show ?case using permits_inv_step gates_inv_step inflight_inv_step by blast
qed

subsection \<open>Properties\<close>

text \<open>C12 (execution_exclusive).
  Whatever tasks enter, acquire, give up and release gates in whatever order, at most one guard of
  an account is alive until the account is deleted, and the in-flight table says so; and a waiting
  task can go on as soon as no guard of its gate is alive, so a dropped guard never blocks an
  account.\<close>

theorem execution_exclusive:
  assumes "exec_reachable x" and "i \<notin> xs_forgotten x"
  shows "length (guards_of i (xs_guards x)) \<le> 1
    \<and> hm_get (rt_execution_inflight (xs_runtime x)) i = (if guards_of i (xs_guards x) = [] then None else Some 1)
    \<and> (\<forall>g \<in> set (xs_waiting x). holding (xg_semaphore g) (xs_guards x) = 0 \<longrightarrow>
        take_permit g (xs_runtime x) \<noteq> None)"
proof -
  note inv = exec_reachable_inv [OF assms(1)]
  have "take_permit g (xs_runtime x) \<noteq> None"
    if "g \<in> set (xs_waiting x)" "holding (xg_semaphore g) (xs_guards x) = 0" for g
  proof -
    have "rt_semaphores (xs_runtime x) ! xg_semaphore g + holding (xg_semaphore g) (xs_guards x) = 1"
      using inv that(1) by (auto simp: permits_inv_def)
    with that(2) show ?thesis by (simp add: take_permit_def Let_def)
  qed
  with inv one_guard [of x i] assms(2) show ?thesis by (auto simp: inflight_inv_def)
qed

text \<open>The handler takes steps of the relation.\<close>

lemma acquire_steps:
  assumes "exec_reachable x" and "acquire_execution_guard tenant i model (xs_runtime x) = (Guarded g, rt)"
  shows "exec_reachable (x\<lparr>xs_runtime := rt, xs_guards := g # xs_guards x\<rparr>)"
proof -
  obtain s mid where e: "enter_gate i (xs_runtime x) = (s, mid)" by (cases "enter_gate i (xs_runtime x)")
  from assms(2) e have g: "g = \<lparr>xg_account_id = i, xg_semaphore = s\<rparr>" "take_permit g mid = Some rt"
    by (auto simp: acquire_execution_guard_def Let_def split: if_splits option.splits)
  let ?y = "x\<lparr>xs_runtime := mid, xs_waiting := g # xs_waiting x\<rparr>"
  have "exec_reachable ?y" using exec_reachable.step [OF assms(1) exec_step.enter [OF e]] g(1) by simp
  moreover have "exec_step ?y (?y\<lparr>xs_runtime := rt, xs_waiting := remove1 g (xs_waiting ?y), xs_guards := g # xs_guards ?y\<rparr>)"
    using g(2) by (intro exec_step.acquire) simp_all
  ultimately show ?thesis using exec_reachable.step by fastforce
qed

text \<open>Two tasks on account \<open>''a''\<close>, the first of them past the gate.\<close>

definition ex_guard :: "nat \<Rightarrow> execution_guard" where
  "ex_guard s = \<lparr>xg_account_id = ''a'', xg_semaphore = s\<rparr>"

definition ex_busy :: runtime_state where
  "ex_busy = initial_runtime\<lparr>rt_execution_gates := [(''a'', 0)], rt_semaphores := [0],
     rt_execution_inflight := [(''a'', 1)]\<rparr>"

lemma ex_busy_reachable:
  "exec_reachable \<lparr>xs_runtime = ex_busy, xs_waiting = [ex_guard 0], xs_guards = [ex_guard 0], xs_forgotten = {}\<rparr>"
proof -
  let ?x0 = "\<lparr>xs_runtime = initial_runtime, xs_waiting = [], xs_guards = [], xs_forgotten = {}\<rparr>"
  let ?gate = "initial_runtime\<lparr>rt_execution_gates := [(''a'', 0)], rt_semaphores := [1]\<rparr>"
  have r0: "exec_reachable ?x0" by (rule exec_reachable.start) (simp add: same_gates_def)
  have e: "enter_gate ''a'' initial_runtime = (0, ?gate)" "enter_gate ''a'' ?gate = (0, ?gate)"
    by (simp_all add: enter_gate_def initial_runtime_def hm_insert_def)
  have r1: "exec_reachable \<lparr>xs_runtime = ?gate, xs_waiting = [ex_guard 0], xs_guards = [], xs_forgotten = {}\<rparr>"
    using exec_reachable.step [OF r0 exec_step.enter [of "''a''" ?x0, unfolded exec_system.simps, OF e(1)]]
    by (simp add: ex_guard_def)
  have r2: "exec_reachable \<lparr>xs_runtime = ?gate, xs_waiting = [ex_guard 0, ex_guard 0], xs_guards = [], xs_forgotten = {}\<rparr>"
    using exec_reachable.step [OF r1 exec_step.enter [of "''a''"]] e(2) by (simp add: ex_guard_def)
  have t: "take_permit (ex_guard 0) ?gate = Some ex_busy"
    by (simp add: take_permit_def ex_guard_def ex_busy_def initial_runtime_def hm_insert_def)
  show ?thesis
    using exec_reachable.step [OF r2 exec_step.acquire [of "ex_guard 0"]] t by simp
qed

theorem execution_exclusive_witness:
  "\<exists>x. exec_reachable x \<and> length (guards_of ''a'' (xs_guards x)) = 1 \<and> xs_waiting x = [ex_guard 0]
    \<and> hm_get (rt_execution_inflight (xs_runtime x)) ''a'' = Some 1"
  using execution_exclusive [OF ex_busy_reachable, of "''a''"] ex_busy_reachable
  by (intro exI [of _ "\<lparr>xs_runtime = ex_busy, xs_waiting = [ex_guard 0], xs_guards = [ex_guard 0], xs_forgotten = {}\<rparr>"])
    (simp add: guards_of_def ex_guard_def)

text \<open>
  The deletion of the account is a real exception: a task that enters after it gets a new gate and
  a second guard.
\<close>

lemma two_guards_after_deletion:
  "\<exists>x. exec_reachable x \<and> length (guards_of ''a'' (xs_guards x)) = 2"
proof -
  let ?x0 = "\<lparr>xs_runtime = ex_busy, xs_waiting = [ex_guard 0], xs_guards = [ex_guard 0], xs_forgotten = {}\<rparr>"
  let ?rt1 = "ex_busy\<lparr>rt_execution_gates := [], rt_execution_inflight := []\<rparr>"
  let ?rt2 = "ex_busy\<lparr>rt_execution_gates := [(''a'', 1)], rt_semaphores := [0, 1], rt_execution_inflight := []\<rparr>"
  let ?rt3 = "ex_busy\<lparr>rt_execution_gates := [(''a'', 1)], rt_semaphores := [0, 0]\<rparr>"
  have f: "forget_gate ''a'' ex_busy = ?rt1"
    by (simp add: forget_gate_def ex_busy_def hm_remove_def)
  have r1: "exec_reachable \<lparr>xs_runtime = ?rt1, xs_waiting = [ex_guard 0], xs_guards = [ex_guard 0], xs_forgotten = {''a''}\<rparr>"
    using exec_reachable.step [OF ex_busy_reachable exec_step.forget [of _ "''a''"]] f by simp
  have e: "enter_gate ''a'' ?rt1 = (1, ?rt2)"
    by (simp add: enter_gate_def ex_busy_def hm_insert_def)
  have r2: "exec_reachable \<lparr>xs_runtime = ?rt2, xs_waiting = [ex_guard 1, ex_guard 0], xs_guards = [ex_guard 0], xs_forgotten = {''a''}\<rparr>"
    using exec_reachable.step [OF r1 exec_step.enter [of "''a''"]] e by (simp add: ex_guard_def)
  have t: "take_permit (ex_guard 1) ?rt2 = Some ?rt3"
    by (simp add: take_permit_def ex_guard_def ex_busy_def hm_insert_def)
  have "exec_reachable \<lparr>xs_runtime = ?rt3, xs_waiting = [ex_guard 0], xs_guards = [ex_guard 1, ex_guard 0], xs_forgotten = {''a''}\<rparr>"
    using exec_reachable.step [OF r2 exec_step.acquire [of "ex_guard 1"]] t by simp
  moreover have "length (guards_of ''a'' [ex_guard 1, ex_guard 0]) = 2" by (simp add: guards_of_def ex_guard_def)
  ultimately show ?thesis by (metis exec_system.select_convs(3))
qed

end
