(* ===== verification/Tenancy_Laws.thy ===== *)
theory Tenancy_Laws
  imports Tenancy Examples
begin

text \<open>
  Users, keys and sessions: unique emails, what a bearer token authenticates, errors that change
  nothing, the tenant boundary of codex sessions.
\<close>

subsection \<open>Users\<close>

text \<open>
  Every key has its own id, and no two keys of a tenant have the same non-empty email up to case.
\<close>

definition users_inv :: "runtime_state \<Rightarrow> bool" where
  "users_inv rt \<longleftrightarrow> hm_keyed ak_token (rt_api_keys rt)
     \<and> (\<forall>t u a b. hm_get (rt_api_keys rt) t = Some a \<longrightarrow> hm_get (rt_api_keys rt) u = Some b \<longrightarrow> t \<noteq> u \<longrightarrow>
          ak_id a \<noteq> ak_id b
        \<and> (ak_email a \<noteq> [] \<longrightarrow> ak_tenant_id a = ak_tenant_id b \<longrightarrow>
             \<not> eq_ignore_ascii_case (ak_email a) (ak_email b)))"

lemma users_inv_insert:
  assumes "users_inv rt" and "ak_token k = t"
    and "\<And>u a. hm_get (rt_api_keys rt) u = Some a \<Longrightarrow> u \<noteq> t \<Longrightarrow> ak_id a \<noteq> ak_id k
      \<and> (ak_email k \<noteq> [] \<longrightarrow> ak_tenant_id a = ak_tenant_id k \<longrightarrow> \<not> eq_ignore_ascii_case (ak_email a) (ak_email k))"
    and "rt_api_keys rt' = hm_insert t k (rt_api_keys rt)"
  shows "users_inv rt'"
proof -
  have keyed: "hm_keyed ak_token (rt_api_keys rt')"
    using assms(1,2,4) by (simp add: users_inv_def hm_keyed_insert)
  have empty: "eq_ignore_ascii_case a [] \<longleftrightarrow> a = []" "eq_ignore_ascii_case [] a \<longleftrightarrow> a = []" for a
    by (auto simp: eq_ignore_ascii_case_def to_ascii_lowercase_def)
  have old: "ak_id a \<noteq> ak_id b \<and> (ak_email a \<noteq> [] \<longrightarrow> ak_tenant_id a = ak_tenant_id b \<longrightarrow>
       \<not> eq_ignore_ascii_case (ak_email a) (ak_email b))"
    if "hm_get (rt_api_keys rt) x = Some a" "hm_get (rt_api_keys rt) y = Some b" "x \<noteq> y" for x y a b
    using assms(1) that by (auto simp: users_inv_def)
  show ?thesis
    unfolding users_inv_def
  proof (intro conjI allI impI)
    fix x y a b
    assume xy: "hm_get (rt_api_keys rt') x = Some a" "hm_get (rt_api_keys rt') y = Some b" "x \<noteq> y"
    have get: "hm_get (rt_api_keys rt') z = (if z = t then Some k else hm_get (rt_api_keys rt) z)" for z
      using assms(4) by simp
    have "ak_id a \<noteq> ak_id b \<and> (ak_email a \<noteq> [] \<longrightarrow> ak_tenant_id a = ak_tenant_id b \<longrightarrow>
       \<not> eq_ignore_ascii_case (ak_email a) (ak_email b))"
    proof (cases "x = t")
      case True
      then have b: "a = k" "hm_get (rt_api_keys rt) y = Some b" "y \<noteq> t" using xy get by simp_all
      from assms(3) [OF b(2,3)] b(1) eq_ignore_ascii_case_sym show ?thesis by metis
    next
      case x: False
      show ?thesis
      proof (cases "y = t")
        case True
        then have a: "b = k" "hm_get (rt_api_keys rt) x = Some a" using xy x get by simp_all
        from assms(3) [OF a(2) x] a(1) empty show ?thesis by metis
      next
        case False
        with old xy x get show ?thesis by simp
      qed
    qed
    then show "ak_id a \<noteq> ak_id b"
      "ak_email a \<noteq> [] \<Longrightarrow> ak_tenant_id a = ak_tenant_id b \<Longrightarrow> \<not> eq_ignore_ascii_case (ak_email a) (ak_email b)"
      by blast+
  qed (rule keyed)
qed

lemma put_api_key_keys [simp]: "rt_api_keys (ap_runtime (put_api_key k app)) =
    hm_insert (ak_token k) k (rt_api_keys (ap_runtime app))"
  "rt_tenants (ap_runtime (put_api_key k app)) = rt_tenants (ap_runtime app)"
  by (simp_all add: put_api_key_def)

lemma put_tenant_keys [simp]: "rt_api_keys (ap_runtime (put_tenant t app)) = rt_api_keys (ap_runtime app)"
  by (simp add: put_tenant_def)

lemma resolve_tenant_keys: "resolve_gateway_user_tenant r i t app = (result, app') \<Longrightarrow>
    rt_api_keys (ap_runtime app') = rt_api_keys (ap_runtime app)"
  by (auto simp: resolve_gateway_user_tenant_def resolve_openai_login_tenant_def ensure_default_tenant_def Let_def
      split: option.splits if_splits)

lemma email_taken_iff: "hm_wf (rt_api_keys rt) \<Longrightarrow> email_taken rt tenant e \<longleftrightarrow>
    (\<exists>t k. hm_get (rt_api_keys rt) t = Some k \<and> ak_tenant_id k = tenant \<and> eq_ignore_ascii_case (ak_email k) e)"
  by (simp add: email_taken_def list_ex_iff) (metis hm_values_get)

text \<open>A key that passes the checks of \<open>create_gateway_user\<close>.\<close>

lemma new_user_keyD:
  assumes "new_user_key rt request tenant i simple now = Inr k"
  shows "ak_id k = i" "ak_tenant_id k = tenant" "ak_token k = ''cmgr_'' @ simple" "ak_role k = qu_role request"
    "ak_email k = to_ascii_lowercase (trim (qu_email request))" "ak_email k \<noteq> []"
    "\<not> email_taken rt tenant (ak_email k)" "ak_name k = trim (qu_name request)" "ak_name k \<noteq> []"
  using assms by (auto simp: new_user_key_def Let_def split: if_splits)

lemma created_key:
  assumes "create_gateway_user request d t0 i simple now app = Returns (Inr user, app')
      \<or> create_gateway_user request d t0 i simple now app = Panics app'"
  shows "\<exists>tenant mid k. resolve_gateway_user_tenant (qu_tenant_id request) d t0 app = (Inr tenant, mid)
    \<and> new_user_key (ap_runtime mid) request tenant i simple now = Inr k \<and> app' = put_api_key k mid"
  using assms by (auto simp: create_gateway_user_def Let_def split: sum.splits option.splits prod.splits)

lemma created_token: "create_gateway_user request d t0 i simple now app = Returns (Inr user, app') \<Longrightarrow>
    cu_token user = ''cmgr_'' @ simple"
  by (auto simp: create_gateway_user_def Let_def split: sum.splits option.splits prod.splits dest: new_user_keyD(3))

lemma create_user_keeps:
  assumes "users_inv (ap_runtime app)"
    and "hm_get (rt_api_keys (ap_runtime app)) (''cmgr_'' @ simple) = None"
    and "\<forall>k \<in> set (hm_values (rt_api_keys (ap_runtime app))). ak_id k \<noteq> i"
    and "create_gateway_user request d t0 i simple now app = Returns (Inr user, app')"
  shows "users_inv (ap_runtime app')"
proof -
  obtain tenant mid k where c: "resolve_gateway_user_tenant (qu_tenant_id request) d t0 app = (Inr tenant, mid)"
      "new_user_key (ap_runtime mid) request tenant i simple now = Inr k" "app' = put_api_key k mid"
    using created_key assms(4) by blast
  have keys: "rt_api_keys (ap_runtime mid) = rt_api_keys (ap_runtime app)" using c(1) by (rule resolve_tenant_keys)
  have wf: "hm_wf (rt_api_keys (ap_runtime app))" using assms(1) by (auto simp: users_inv_def)
  note k = new_user_keyD [OF c(2)]
  show ?thesis
  proof (rule users_inv_insert [OF assms(1) refl])
    show "rt_api_keys (ap_runtime app') = hm_insert (ak_token k) k (rt_api_keys (ap_runtime app))"
      by (simp add: c(3) keys)
    fix u a
    assume a: "hm_get (rt_api_keys (ap_runtime app)) u = Some a"
    then have "ak_id a \<noteq> i" using assms(3) wf by (auto simp: hm_values_get)
    with a k(1,2,7) wf show "ak_id a \<noteq> ak_id k \<and> (ak_email k \<noteq> [] \<longrightarrow> ak_tenant_id a = ak_tenant_id k \<longrightarrow>
        \<not> eq_ignore_ascii_case (ak_email a) (ak_email k))"
      by (auto simp: email_taken_iff keys)
  qed
qed

text \<open>C33 (created_user_authenticates).
  A created user is reachable: the token it returns authenticates, as the user's role, with a tenant
  that is the requested one when one was requested; its email is the trimmed lower-cased one, and
  emails stay unique within tenants.\<close>

theorem created_user_authenticates:
  assumes "users_inv (ap_runtime app)" and "rt_inv (ap_runtime app)"
    and "hm_get (rt_api_keys (ap_runtime app)) (''cmgr_'' @ simple) = None"
    and "\<forall>k \<in> set (hm_values (rt_api_keys (ap_runtime app))). ak_id k \<noteq> i"
    and "create_gateway_user request d t0 i simple now app = Returns (Inr user, app')"
  shows "users_inv (ap_runtime app')
    \<and> (\<exists>context. auth_context_for_bearer (ap_runtime app') (cu_token user) = Some context
        \<and> ak_role (gc_api_key context) = qu_role request \<and> ak_id (gc_api_key context) = i
        \<and> ak_email (gc_api_key context) = to_ascii_lowercase (trim (qu_email request))
        \<and> tn_id (gc_tenant context) = ak_tenant_id (gc_api_key context)
        \<and> (\<forall>t. qu_tenant_id request = Some t \<longrightarrow> tn_id (gc_tenant context) = t))"
proof -
  obtain tenant mid k where c: "resolve_gateway_user_tenant (qu_tenant_id request) d t0 app = (Inr tenant, mid)"
      "new_user_key (ap_runtime mid) request tenant i simple now = Inr k" "app' = put_api_key k mid"
    using created_key assms(5) by blast
  note k = new_user_keyD [OF c(2)]
  have "\<exists>tn. hm_get (rt_tenants (ap_runtime mid)) tenant = Some tn \<and> tn_id tn = tenant
      \<and> (\<forall>t. qu_tenant_id request = Some t \<longrightarrow> tenant = t)"
  proof (cases "qu_tenant_id request")
    case (Some t)
    with c(1) rt_invD(1) [OF assms(2)] show ?thesis
      by (auto simp: resolve_gateway_user_tenant_def resolve_openai_login_tenant_def
          dest: hm_keyedD split: option.splits if_splits)
  next
    case None
    show ?thesis
    proof (cases "min_by_key tn_created_at (hm_values (rt_tenants (ap_runtime app)))")
      case (Some tn)
      then have "tn \<in> set (hm_values (rt_tenants (ap_runtime app)))" by (rule min_by_key_mem)
      then have "hm_get (rt_tenants (ap_runtime app)) (tn_id tn) = Some tn"
        using rt_invD(1) [OF assms(2)] by (simp add: hm_keyed_get)
      with Some None c(1) show ?thesis
        by (auto simp: resolve_gateway_user_tenant_def resolve_openai_login_tenant_def ensure_default_tenant_def)
    next
      case None': None
      with None c(1) show ?thesis
        by (auto simp: resolve_gateway_user_tenant_def resolve_openai_login_tenant_def ensure_default_tenant_def
            put_tenant_def Let_def)
    qed
  qed
  then obtain tn where tn: "hm_get (rt_tenants (ap_runtime mid)) tenant = Some tn" "tn_id tn = tenant"
      "\<forall>t. qu_tenant_id request = Some t \<longrightarrow> tenant = t" by blast
  have "auth_context_for_bearer (ap_runtime app') (cu_token user) = Some \<lparr>gc_tenant = tn, gc_api_key = k\<rparr>"
    using tn k(2,3) created_token [OF assms(5)] by (simp add: auth_context_for_bearer_def c(3))
  with tn k create_user_keeps [OF assms(1,3,4,5)] show ?thesis by simp
qed

text \<open>Fact (rejected_user_leaves_tenant).
  A rejected creation stores no key. It may still store a tenant: with an empty tenant table and no
  tenant in the request, the default tenant is created and sent before the name is checked.\<close>

theorem rejected_user_leaves_tenant:
  assumes "rt_tenants (ap_runtime app) = []" and "qu_tenant_id request = None"
    and "trim (qu_name request) = []"
  shows "\<exists>app'. create_gateway_user request d t0 i simple now app = Returns (Inl EmptyUserName, app')
    \<and> rt_api_keys (ap_runtime app') = rt_api_keys (ap_runtime app)
    \<and> (\<exists>tenant. hm_get (rt_tenants (ap_runtime app')) d = Some tenant
        \<and> sent app app' = [TenantUpsert tenant])"
  using assms
  by (simp add: create_gateway_user_def resolve_gateway_user_tenant_def resolve_openai_login_tenant_def
      ensure_default_tenant_def hm_values_def new_user_key_def Let_def put_tenant_def sent_def)

subsection \<open>Updates\<close>

lemma those_map: "those xs = Some ys \<Longrightarrow> xs = map Some ys"
  by (induction xs arbitrary: ys) (auto split: option.splits)

lemma user_view_found:
  assumes "user_view_of rt k = Some found" and "k \<in> set (hm_values (rt_api_keys rt))"
  shows "\<exists>v. found = Some v \<and> uv_id v = ak_id k"
proof -
  obtain views where v: "gateway_user_views rt (rt_request_logs rt) = Some views"
      and f: "found = find (\<lambda>item. uv_id item = ak_id k) views"
    using assms(1) by (auto simp: user_view_of_def)
  have "\<exists>v \<in> set views. uv_id v = ak_id k"
  proof -
    let ?f = "\<lambda>api_key. gateway_user_view_of api_key (length (logs_of api_key (rt_request_logs rt)))
        (f_sum (List.map_filter re_estimated_cost_usd (logs_of api_key (rt_request_logs rt))))
        (max_by cmp (map re_created_at (logs_of api_key (rt_request_logs rt))))"
    let ?ks = "sort_by (\<lambda>a b. cmp (ak_created_at a) (ak_created_at b)) (hm_values (rt_api_keys rt))"
    have eq: "map ?f ?ks = map Some views"
      using those_map [OF v [unfolded gateway_user_views_def]] .
    have "?f k \<in> set (map ?f ?ks)" using assms(2) by simp
    then obtain v where "?f k = Some v" "v \<in> set views" unfolding eq by auto
    moreover from this have "uv_id v = ak_id k" by (auto simp: gateway_user_view_of_def)
    ultimately show ?thesis by blast
  qed
  then obtain v where "find (\<lambda>item. uv_id item = ak_id k) views = Some v" "uv_id v = ak_id k"
    using find_Some_ex [of views "\<lambda>item. uv_id item = ak_id k"] by blast
  with f show ?thesis by blast
qed

lemma updated_userD:
  assumes "updated_user request email now k = Inr k'"
  shows "ak_id k' = ak_id k" "ak_token k' = ak_token k" "ak_tenant_id k' = ak_tenant_id k"
    "ak_created_at k' = ak_created_at k"
    "ak_email k' = (case email of Some e \<Rightarrow> e | None \<Rightarrow> ak_email k)"
  using assms by (auto simp: updated_user_def split: option.splits list.splits)

lemma check_email_free:
  assumes "check_new_email rt user_id (Some e) = None" and "users_inv rt"
    and "hm_get (rt_api_keys rt) t = Some k" and "ak_id k = user_id"
    and "hm_get (rt_api_keys rt) u = Some a" and "u \<noteq> t" and "ak_tenant_id a = ak_tenant_id k"
  shows "\<not> eq_ignore_ascii_case (ak_email a) e"
proof -
  have wf: "hm_wf (rt_api_keys rt)" using assms(2) by (auto simp: users_inv_def)
  obtain current where cur: "find (\<lambda>api_key. ak_id api_key = user_id) (hm_values (rt_api_keys rt)) = Some current"
    and free: "\<not> list_ex (\<lambda>api_key. ak_id api_key \<noteq> user_id \<and> ak_tenant_id api_key = ak_tenant_id current
        \<and> eq_ignore_ascii_case (ak_email api_key) e) (hm_values (rt_api_keys rt))"
    using assms(1) by (auto simp: check_new_email_def split: if_splits option.splits)
  obtain v where v: "hm_get (rt_api_keys rt) v = Some current" "ak_id current = user_id"
    using find_SomeD [OF cur] hm_values_get [OF wf] by blast
  have inj: "x = y" if "hm_get (rt_api_keys rt) x = Some b" "hm_get (rt_api_keys rt) y = Some c" "ak_id b = ak_id c" for x y b c
    using assms(2) that by (auto simp: users_inv_def)
  have "current = k" using inj [OF v(1) assms(3)] v assms(3,4) by simp
  moreover have "ak_id a \<noteq> user_id" using inj [OF assms(5,3)] assms(4,6) by auto
  moreover have "a \<in> set (hm_values (rt_api_keys rt))" using assms(5) hm_values_get [OF wf] by blast
  ultimately show ?thesis using free assms(7) by (auto simp: list_ex_iff)
qed

lemma update_found:
  assumes "users_inv rt" and "find (\<lambda>(_, k). ak_id k = user_id) (rt_api_keys rt) = Some (t, k)"
  shows "hm_get (rt_api_keys rt) t = Some k" and "ak_token k = t" and "ak_id k = user_id"
proof -
  have keyed: "hm_keyed ak_token (rt_api_keys rt)" using assms(1) by (simp add: users_inv_def)
  then have wf: "hm_wf (rt_api_keys rt)" by (simp add: hm_keyed_def)
  have "(t, k) \<in> set (rt_api_keys rt)" and id: "ak_id k = user_id" using find_SomeD [OF assms(2)] by simp_all
  then show get: "hm_get (rt_api_keys rt) t = Some k" using hm_get_mem [OF wf] by blast
  from hm_keyedD [OF keyed get] show "ak_token k = t" .
  show "ak_id k = user_id" by (rule id)
qed

lemma update_cases:
  assumes "update_gateway_user user_id request now app = Returns (result, app')"
  obtains (rejected) e where "result = Inl e" "app' = app"
    | (changed) t k k' email where "check_new_email (ap_runtime app) user_id email = None"
      "find (\<lambda>(_, k). ak_id k = user_id) (rt_api_keys (ap_runtime app)) = Some (t, k)"
      "updated_user request email now k = Inr k'"
      "app' = enqueue (ApiKeyUpsert k') (on_runtime (\<lambda>rt. rt\<lparr>rt_api_keys := hm_insert t k' (rt_api_keys rt)\<rparr>) app)"
      "user_view_of (ap_runtime app') k' = Some (case result of Inl _ \<Rightarrow> None | Inr v \<Rightarrow> Some v)"
proof -
  let ?email = "map_option (\<lambda>v. to_ascii_lowercase (trim v)) (uu_email request)"
  show ?thesis
  proof (cases "check_new_email (ap_runtime app) user_id ?email")
    case (Some e)
    with assms show ?thesis by (intro rejected [of e]) (simp_all add: update_gateway_user_def)
  next
    case check: None
    show ?thesis
    proof (cases "find (\<lambda>(_, k). ak_id k = user_id) (rt_api_keys (ap_runtime app))")
      case None
      with check assms show ?thesis by (intro rejected [of UserNotFound]) (simp_all add: update_gateway_user_def)
    next
      case (Some tk)
      obtain t k where tk: "tk = (t, k)" by (cases tk)
      show ?thesis
      proof (cases "updated_user request ?email now k")
        case (Inl e)
        with check Some tk assms show ?thesis
          by (intro rejected [of e]) (simp_all add: update_gateway_user_def)
      next
        case (Inr k')
        define mid where "mid =
          enqueue (ApiKeyUpsert k') (on_runtime (\<lambda>rt. rt\<lparr>rt_api_keys := hm_insert t k' (rt_api_keys rt)\<rparr>) app)"
        have eq: "update_gateway_user user_id request now app = (case user_view_of (ap_runtime mid) k' of
            None \<Rightarrow> Panics mid | Some None \<Rightarrow> Returns (Inl UserNotFound, mid)
          | Some (Some user) \<Rightarrow> Returns (Inr user, mid))"
          unfolding mid_def using check Some tk Inr by (simp add: update_gateway_user_def Let_def)
        have "app' = mid \<and> user_view_of (ap_runtime mid) k' = Some (case result of Inl _ \<Rightarrow> None | Inr v \<Rightarrow> Some v)"
          using assms unfolding eq by (auto split: option.splits)
        then have app': "app' = mid" and view: "user_view_of (ap_runtime app') k' =
            Some (case result of Inl _ \<Rightarrow> None | Inr v \<Rightarrow> Some v)" by blast+
        show ?thesis
          using changed [OF check Some [unfolded tk] Inr app' [unfolded mid_def] view] .
      qed
    qed
  qed
qed

lemma updated_keeps:
  assumes "users_inv rt" and "check_new_email rt user_id email = None"
    and "hm_get (rt_api_keys rt) t = Some k" and "ak_token k = t" and "ak_id k = user_id"
    and "updated_user request email now k = Inr k'" and "rt_api_keys rt' = hm_insert t k' (rt_api_keys rt)"
  shows "users_inv rt'"
proof (rule users_inv_insert [OF assms(1) _ _ assms(7)])
  note k' = updated_userD [OF assms(6)]
  show "ak_token k' = t" using k'(2) assms(4) by simp
  fix u a
  assume a: "hm_get (rt_api_keys rt) u = Some a" "u \<noteq> t"
  then have old: "ak_id a \<noteq> ak_id k \<and> (ak_email a \<noteq> [] \<longrightarrow> ak_tenant_id a = ak_tenant_id k \<longrightarrow>
      \<not> eq_ignore_ascii_case (ak_email a) (ak_email k))"
    using assms(1,3) unfolding users_inv_def by blast
  show "ak_id a \<noteq> ak_id k' \<and> (ak_email k' \<noteq> [] \<longrightarrow> ak_tenant_id a = ak_tenant_id k' \<longrightarrow>
      \<not> eq_ignore_ascii_case (ak_email a) (ak_email k'))"
  proof (cases email)
    case None
    have "ak_email a \<noteq> []" if "ak_email k \<noteq> []" "eq_ignore_ascii_case (ak_email a) (ak_email k)"
      using that by (auto simp: eq_ignore_ascii_case_def to_ascii_lowercase_def)
    moreover have "ak_email k' = ak_email k" using k'(5) None by simp
    ultimately show ?thesis using old k'(1,3) by metis
  next
    case (Some e)
    have "\<not> eq_ignore_ascii_case (ak_email a) e" if "ak_tenant_id a = ak_tenant_id k"
      using check_email_free [OF _ assms(1,3,5) a that] assms(2) Some by simp
    moreover have "ak_email k' = e" using k'(5) Some by simp
    ultimately show ?thesis using old k'(1,3) by metis
  qed
qed

text \<open>Fact (update_user_sound).
  An update either is rejected and changes nothing, or changes the one key of the user and keeps its
  id, token and tenant, so the user's bearer token stays valid; emails stay unique.\<close>

theorem update_user_sound:
  assumes "users_inv (ap_runtime app)"
    and "update_gateway_user user_id request now app = Returns (result, app')"
  shows "users_inv (ap_runtime app') \<and> (case result of
      Inl e \<Rightarrow> app' = app
    | Inr view \<Rightarrow> uv_id view = user_id \<and> (\<exists>t k k'. hm_get (rt_api_keys (ap_runtime app)) t = Some k
        \<and> ak_id k = user_id \<and> ak_id k' = user_id \<and> ak_token k' = t \<and> ak_tenant_id k' = ak_tenant_id k
        \<and> rt_api_keys (ap_runtime app') = hm_insert t k' (rt_api_keys (ap_runtime app))))"
  using assms(2)
proof (cases rule: update_cases)
  case (rejected e)
  with assms(1) show ?thesis by simp
next
  case (changed t k k' email)
  note found = update_found [OF assms(1) changed(2)]
  note k' = updated_userD [OF changed(3)]
  have keys: "rt_api_keys (ap_runtime app') = hm_insert t k' (rt_api_keys (ap_runtime app))"
    by (simp add: changed(4))
  have inv: "users_inv (ap_runtime app')"
    using updated_keeps [OF assms(1) changed(1) found changed(3) keys] .
  then have wf: "hm_wf (rt_api_keys (ap_runtime app'))" by (simp add: users_inv_def hm_keyed_def)
  have "hm_get (rt_api_keys (ap_runtime app')) t = Some k'" by (simp add: keys)
  then have mem: "k' \<in> set (hm_values (rt_api_keys (ap_runtime app')))" using hm_values_get [OF wf] by blast
  obtain v where "(case result of Inl _ \<Rightarrow> None | Inr v \<Rightarrow> Some v) = Some v" "uv_id v = ak_id k'"
    using user_view_found [OF changed(5) mem] by blast
  then have v: "result = Inr v" "uv_id v = user_id" using k'(1) found(3) by (cases result; simp)+
  have "uv_id v = user_id \<and> (\<exists>t k k'. hm_get (rt_api_keys (ap_runtime app)) t = Some k
        \<and> ak_id k = user_id \<and> ak_id k' = user_id \<and> ak_token k' = t \<and> ak_tenant_id k' = ak_tenant_id k
        \<and> rt_api_keys (ap_runtime app') = hm_insert t k' (rt_api_keys (ap_runtime app)))"
    using v(2) found k'(1,2,3) keys by metis
  with inv v(1) show ?thesis by simp
qed

subsection \<open>Codex sessions\<close>

lemma pick_session_account_sound:
  "pick_session_account accounts tenant credentials fallback = Some i \<Longrightarrow> fallback = Some i
    \<or> (\<exists>c \<in> set credentials. cr_account_id c = i
        \<and> (\<exists>account. hm_get accounts i = Some account \<and> ac_tenant_id account = tenant))"
proof (induction credentials arbitrary: fallback)
  case (Cons c rest)
  show ?case
  proof (cases "\<exists>account. hm_get accounts (cr_account_id c) = Some account \<and> ac_tenant_id account = tenant")
    case False
    then have "pick_session_account accounts tenant rest fallback = Some i"
      using Cons.prems by (auto split: option.splits if_splits)
    from Cons.IH [OF this] show ?thesis by auto
  next
    case True
    then consider "cr_account_id c = i"
      | "pick_session_account accounts tenant rest (Some (cr_account_id c)) = Some i"
      | "pick_session_account accounts tenant rest fallback = Some i"
      using Cons.prems by (auto split: option.splits if_splits)
    then show ?thesis using True Cons.IH by cases fastforce+
  qed
qed simp

lemma session_account_sound:
  assumes "rt_inv rt" and "session_account rt tenant requested = Inr i"
  shows "\<exists>account credential. hm_get (rt_accounts rt) i = Some account \<and> ac_tenant_id account = tenant
    \<and> hm_get (rt_credentials rt) i = Some credential \<and> (\<forall>r. requested = Some r \<longrightarrow> i = r)"
proof (cases requested)
  case (Some r)
  with assms(2) show ?thesis by (auto simp: session_account_def split: option.splits if_splits)
next
  case None
  then have "pick_session_account (rt_accounts rt) tenant (hm_values (rt_credentials rt)) None = Some i"
    using assms(2) by (auto simp: session_account_def split: option.splits)
  from pick_session_account_sound [OF this] obtain c account where
    "c \<in> set (hm_values (rt_credentials rt))" "cr_account_id c = i"
    "hm_get (rt_accounts rt) i = Some account" "ac_tenant_id account = tenant" by blast
  moreover from this have "hm_get (rt_credentials rt) i = Some c"
    using hm_keyed_get [OF rt_invD(4) [OF assms(1)]] by blast
  ultimately show ?thesis using None by blast
qed

lemma created_session:
  assumes "create_codex_app_session refresh request tenant url token now app = (Inr response, app')"
  shows "\<exists>mid i. session_account (ap_runtime app) tenant (sq_account_id request) = Inr i
    \<and> (mid = app \<or> refresh i app = (Inr (), mid)) \<and> sr_account_id response = i
    \<and> sr_remote_app_server_auth_token response = token \<and> sr_expires_at response = now + mins 10
    \<and> (sq_tenant_id request = None \<or> sq_tenant_id request = Some tenant)
    \<and> rt_codex_app_sessions (ap_runtime app') = hm_insert token
        \<lparr>cs_tenant_id = tenant, cs_account_id = i, cs_expires_at = now + mins 10\<rparr>
        (rt_codex_app_sessions (ap_runtime mid))"
proof -
  obtain i credential where i: "session_account (ap_runtime app) tenant (sq_account_id request) = Inr i"
      "hm_get (rt_credentials (ap_runtime app)) i = Some credential"
      "sq_tenant_id request = None \<or> sq_tenant_id request = Some tenant"
    using assms by (auto simp: create_codex_app_session_def split: if_splits sum.splits option.splits prod.splits)
  show ?thesis
  proof (cases "cr_managed_auth credential = None")
    case True
    with assms i show ?thesis
      by (intro exI [of _ app] exI [of _ i]) (auto simp: create_codex_app_session_def Let_def)
  next
    case False
    obtain r mid where r: "refresh i app = (r, mid)" by (cases "refresh i app")
    with False assms i show ?thesis
      by (intro exI [of _ mid] exI [of _ i])
         (auto simp: create_codex_app_session_def Let_def split: sum.splits)
  qed
qed

text \<open>Fact (session_stays_in_tenant).
  A codex session is only opened for an account of the authorized tenant that has a credential, and
  for the requested account when one was requested. Its token is then accepted until ten minutes
  after the opening and never later, whatever is looked up, and the tokens of other sessions are
  not affected.\<close>

theorem session_stays_in_tenant:
  assumes "rt_inv (ap_runtime app)"
    and "\<forall>i r mid. refresh i app = (r, mid) \<longrightarrow>
      rt_codex_app_sessions (ap_runtime mid) = rt_codex_app_sessions (ap_runtime app)"
    and "create_codex_app_session refresh request tenant url token now app = (Inr response, app')"
  shows "(\<exists>account credential. hm_get (rt_accounts (ap_runtime app)) (sr_account_id response) = Some account
      \<and> ac_tenant_id account = tenant
      \<and> hm_get (rt_credentials (ap_runtime app)) (sr_account_id response) = Some credential
      \<and> (\<forall>i. sq_account_id request = Some i \<longrightarrow> sr_account_id response = i))
    \<and> fst (codex_app_session_for_token (sr_remote_app_server_auth_token response) t app') =
        (if t < now + mins 10 then Some \<lparr>cs_tenant_id = tenant, cs_account_id = sr_account_id response,
           cs_expires_at = now + mins 10\<rparr> else None)
    \<and> (u \<noteq> token \<longrightarrow> fst (codex_app_session_for_token u t app') = fst (codex_app_session_for_token u t app))"
proof -
  obtain mid i where s: "session_account (ap_runtime app) tenant (sq_account_id request) = Inr i"
      "mid = app \<or> refresh i app = (Inr (), mid)" "sr_account_id response = i"
      "sr_remote_app_server_auth_token response = token"
      "rt_codex_app_sessions (ap_runtime app') = hm_insert token
        \<lparr>cs_tenant_id = tenant, cs_account_id = i, cs_expires_at = now + mins 10\<rparr>
        (rt_codex_app_sessions (ap_runtime mid))"
    using created_session [OF assms(3)] by blast
  have same: "rt_codex_app_sessions (ap_runtime mid) = rt_codex_app_sessions (ap_runtime app)"
    using s(2) assms(2) by blast
  have wf: "hm_wf (rt_codex_app_sessions (ap_runtime app))" using assms(1) by (simp add: rt_inv_def)
  have "fst (codex_app_session_for_token token t app') =
      (if t < now + mins 10 then Some \<lparr>cs_tenant_id = tenant, cs_account_id = i,
           cs_expires_at = now + mins 10\<rparr> else None)"
    and "u \<noteq> token \<Longrightarrow> fst (codex_app_session_for_token u t app') = fst (codex_app_session_for_token u t app)"
    using wf by (simp_all add: codex_app_session_for_token_def Let_def s(5) same hm_get_retain)
  with session_account_sound [OF assms(1) s(1)] s(3,4) show ?thesis by blast
qed

subsection \<open>Witnesses\<close>

definition ex_user_request :: "str \<Rightarrow> uuid option \<Rightarrow> create_gateway_user_request" where
  "ex_user_request name tenant_id = \<lparr>qu_tenant_id = tenant_id, qu_name = name, qu_email = '' Ada@x '',
     qu_role = Viewer, qu_default_model = None, qu_reasoning_effort = None,
     qu_force_model_override = None, qu_force_reasoning_effort = None\<rparr>"

lemma ex_users_inv: "users_inv ex_pool" "users_inv initial_runtime"
  by (simp_all add: users_inv_def ex_pool_def initial_runtime_def)

theorem rejected_user_leaves_tenant_witness:
  "\<exists>app'. create_gateway_user (ex_user_request ''  '' None) 7 0 8 ''x'' 0 (ex_app initial_runtime)
      = Returns (Inl EmptyUserName, app')
    \<and> rt_api_keys (ap_runtime app') = []
    \<and> (\<exists>tenant. hm_get (rt_tenants (ap_runtime app')) 7 = Some tenant
        \<and> sent (ex_app initial_runtime) app' = [TenantUpsert tenant])"
proof -
  have "trim ''  '' = []" by code_simp
  then show ?thesis
    using rejected_user_leaves_tenant [of "ex_app initial_runtime" "ex_user_request ''  '' None" 7 0 8 "''x''" 0]
    by (simp add: ex_user_request_def initial_runtime_def)
qed

lemma ex_created: "case create_gateway_user (ex_user_request ''Ada'' (Some 1)) 7 0 8
      ''0123456789abcdef0123456789abcdef'' 5 (ex_app ex_pool) of
    Returns (Inr user, _) \<Rightarrow> True | _ \<Rightarrow> False"
  by code_simp

theorem created_user_authenticates_witness:
  "\<exists>user app'. create_gateway_user (ex_user_request ''Ada'' (Some 1)) 7 0 8
      ''0123456789abcdef0123456789abcdef'' 5 (ex_app ex_pool) = Returns (Inr user, app')
    \<and> users_inv (ap_runtime app')
    \<and> (\<exists>context. auth_context_for_bearer (ap_runtime app') (cu_token user) = Some context
        \<and> ak_role (gc_api_key context) = Viewer \<and> tn_id (gc_tenant context) = 1)"
proof -
  obtain user app' where c: "create_gateway_user (ex_user_request ''Ada'' (Some 1)) 7 0 8
      ''0123456789abcdef0123456789abcdef'' 5 (ex_app ex_pool) = Returns (Inr user, app')"
    using ex_created by (auto split: outcome.splits sum.splits prod.splits)
  have "rt_api_keys ex_pool = []" by (simp add: ex_pool_def initial_runtime_def)
  then show ?thesis
    using created_user_authenticates [OF _ _ _ _ c] c
    by (auto simp: ex_users_inv hm_values_def ex_user_request_def)
qed

definition ex_user_update :: update_gateway_user_request where
  "ex_user_update = \<lparr>uu_name = Some ''Ada'', uu_email = Some ''ada@y'', uu_role = Some Admin,
     uu_default_model = None, uu_reasoning_effort = None, uu_force_model_override = None,
     uu_force_reasoning_effort = None\<rparr>"

definition ex_key :: "uuid \<Rightarrow> str \<Rightarrow> gateway_api_key" where
  "ex_key i token = \<lparr>ak_id = i, ak_tenant_id = 1, ak_name = ''k'', ak_email = [], ak_role = Viewer,
     ak_token = token, ak_default_model = None, ak_reasoning_effort = None,
     ak_force_model_override = False, ak_force_reasoning_effort = False,
     ak_created_at = 0, ak_updated_at = 0\<rparr>"

definition ex_keys :: runtime_state where
  "ex_keys = ex_pool\<lparr>rt_api_keys := [(''cmgr_0123456789'', ex_key 1 ''cmgr_0123456789''),
     (''cmgr_9876543210'', ex_key 2 ''cmgr_9876543210'')]\<rparr>"

lemma ex_updated: "case update_gateway_user 2 ex_user_update 5 (ex_app ex_keys) of
    Returns (Inr view, _) \<Rightarrow> uv_email view = ''ada@y'' | _ \<Rightarrow> False"
  by code_simp

theorem update_user_sound_witness:
  "\<exists>view app'. update_gateway_user 2 ex_user_update 5 (ex_app ex_keys) = Returns (Inr view, app')
    \<and> users_inv (ap_runtime app') \<and> uv_id view = 2"
proof -
  obtain view app' where u: "update_gateway_user 2 ex_user_update 5 (ex_app ex_keys) = Returns (Inr view, app')"
    using ex_updated by (auto split: outcome.splits sum.splits prod.splits)
  have "users_inv ex_keys"
    by (auto simp: users_inv_def ex_keys_def hm_keyed_iff ex_key_def split: if_splits)
  with update_user_sound [OF _ u] u show ?thesis by auto
qed

theorem session_stays_in_tenant_witness:
  "\<exists>response app'. create_codex_app_session (\<lambda>i app. (Inr (), app)) \<lparr>sq_tenant_id = None, sq_account_id = Some ''b''\<rparr>
      1 ''ws://'' ''tok'' 0 (ex_app ex_pool) = (Inr response, app')
    \<and> sr_account_id response = ''b''
    \<and> fst (codex_app_session_for_token ''tok'' (mins 9) app') = Some \<lparr>cs_tenant_id = 1, cs_account_id = ''b'',
           cs_expires_at = mins 10\<rparr>
    \<and> fst (codex_app_session_for_token ''tok'' (mins 10) app') = None
    \<and> fst (codex_app_session_for_token ''other'' 0 app') = None"
proof -
  let ?s = "create_codex_app_session (\<lambda>i app. (Inr (), app)) \<lparr>sq_tenant_id = None, sq_account_id = Some ''b''\<rparr>
      1 ''ws://'' ''tok'' 0 (ex_app ex_pool)"
  have ok: "case ?s of (Inr r, _) \<Rightarrow> sr_remote_app_server_auth_token r = ''tok'' | _ \<Rightarrow> False" by code_simp
  obtain response app' where s: "?s = (Inr response, app')"
      and tok: "sr_remote_app_server_auth_token response = ''tok''"
    using ok by (auto split: sum.splits prod.splits)
  note * = session_stays_in_tenant [OF _ _ s]
  have "rt_codex_app_sessions ex_pool = []" by (simp add: ex_pool_def initial_runtime_def)
  then have "fst (codex_app_session_for_token ''other'' 0 (ex_app ex_pool)) = None"
    by (simp add: codex_app_session_for_token_def Let_def hm_retain_def)
  then show ?thesis
    using s tok * [of "mins 9" "''other''"] * [of "mins 10" "''other''"] * [of 0 "''other''"]
    by (auto simp: codex_app_session_for_token_def Let_def)
qed

end
