(* ===== verification/Account_Laws.thy ===== *)
theory Account_Laws
  imports Account_Ops Route_Laws
begin

text \<open>
  Correctness of the account operations: a deletion leaves no trace and reaches the replicas, the
  cleanup deletes the banned accounts and no others, an imported account can be selected, headrooms
  are numbers of the unit interval, a refresh that races with a deletion does not bring the account
  back.
\<close>

subsection \<open>Deletion\<close>

definition deleted :: "str \<Rightarrow> runtime_state \<Rightarrow> runtime_state" where
  "deleted i rt = rt\<lparr>
     rt_accounts := hm_remove i (rt_accounts rt),
     rt_credentials := hm_remove i (rt_credentials rt),
     rt_route_states := hm_remove i (rt_route_states rt),
     rt_ephemeral_refresh_tokens := hm_remove i (rt_ephemeral_refresh_tokens rt),
     rt_codex_app_sessions := hm_retain (\<lambda>session. cs_account_id session \<noteq> i) (rt_codex_app_sessions rt),
     rt_execution_gates := hm_remove i (rt_execution_gates rt),
     rt_execution_inflight := hm_remove i (rt_execution_inflight rt),
     rt_leases := drop_leases i (rt_leases rt)\<rparr>"

lemma enqueue_many_Nil [simp]: "enqueue_many [] app = app"
  by (simp add: enqueue_many_def)

lemma delete_account_eq:
  assumes "rt_inv (ap_runtime app)"
  shows "delete_account i app = (if hm_get (rt_accounts (ap_runtime app)) i = None then (Inl AccountNotFound, app)
    else (Inr (), enqueue (AccountDelete i) (enqueue_many (lease_deletes (fst (evict_leases_for_account i app)))
      (on_runtime (deleted i) app))))"
proof (cases "hm_get (rt_accounts (ap_runtime app)) i")
  case None
  then show ?thesis by (simp add: delete_account_def)
next
  case (Some a)
  define mid where "mid = on_runtime (\<lambda>rt. rt\<lparr>
     rt_accounts := hm_remove i (rt_accounts rt),
     rt_credentials := hm_remove i (rt_credentials rt),
     rt_route_states := hm_remove i (rt_route_states rt),
     rt_ephemeral_refresh_tokens := hm_remove i (rt_ephemeral_refresh_tokens rt),
     rt_codex_app_sessions := hm_retain (\<lambda>session. cs_account_id session \<noteq> i) (rt_codex_app_sessions rt),
     rt_execution_gates := hm_remove i (rt_execution_gates rt),
     rt_execution_inflight := hm_remove i (rt_execution_inflight rt)\<rparr>) app"
  have leases: "rt_leases (ap_runtime mid) = rt_leases (ap_runtime app)" by (simp add: mid_def)
  have e1: "fst (evict_leases_for_account i mid) = fst (evict_leases_for_account i app)"
    by (rule evict_fst [OF leases])
  have e2: "snd (evict_leases_for_account i mid) = on_runtime (deleted i) app"
    using evict_snd [of mid i] rt_invD(6) [OF assms] leases
    by (simp add: mid_def on_runtime_def deleted_def)
  have "delete_account i app = (let (evicted, app) = evict_leases_for_account i mid;
      app = (if evicted = [] then app else enqueue_many (lease_deletes evicted) app)
    in (Inr (), enqueue (AccountDelete i) app))"
    using Some by (simp add: delete_account_def mid_def Let_def)
  also have "\<dots> = (Inr (), enqueue (AccountDelete i) (enqueue_many (lease_deletes (fst (evict_leases_for_account i mid)))
      (snd (evict_leases_for_account i mid))))"
    by (simp add: case_prod_beta' Let_def lease_deletes_def)
  finally show ?thesis unfolding e1 e2 using Some by simp
qed

lemma deleted_inv [inv_intros]: "rt_inv rt \<Longrightarrow> rt_inv (deleted i rt)"
  using rt_invD(6) [of rt]
  by (auto simp: deleted_def rt_inv_def hm_keyed_remove drop_leases_keyed)

lemma deleted_routes [inv_intros]: "routes_inv rt \<Longrightarrow> routes_inv (deleted i rt)"
  by (auto simp: routes_inv_def deleted_def split: if_splits)

lemma deleted_synced [inv_intros]: "modes_synced rt \<Longrightarrow> modes_synced (deleted i rt)"
  by (auto simp: modes_synced_def deleted_def split: if_splits)

lemma deleted_published:
  assumes "rt_inv (ap_runtime app)"
  shows "same_tables (apply_messages (lease_deletes (fst (evict_leases_for_account i app)) @ [AccountDelete i])
    (ap_runtime app)) (deleted i (ap_runtime app))"
proof -
  let ?rt = "ap_runtime app"
  have keyed: "hm_keyed ls_principal_id (drop_leases i (rt_leases ?rt))"
    using rt_invD(6) [OF assms] by (rule drop_leases_keyed)
  have "hm_retain (\<lambda>lease. ls_account_id lease \<noteq> i) (drop_leases i (rt_leases ?rt)) = drop_leases i (rt_leases ?rt)"
  proof -
    have "ls_account_id l \<noteq> i" if "(p, l) \<in> set (drop_leases i (rt_leases ?rt))" for p l
    proof -
      have "hm_get (drop_leases i (rt_leases ?rt)) p = Some l"
        using hm_get_mem [OF hm_keyed_wf [OF keyed]] that by blast
      then show ?thesis
        using drop_leases_get [OF rt_invD(6) [OF assms], of i p] by (auto split: option.splits if_splits)
    qed
    then show ?thesis unfolding hm_retain_def by (intro filter_True) auto
  qed
  then show ?thesis
    using evict_eq(2) [OF assms refl, of i]
    by (simp add: same_tables_def bus_delete_account_def deleted_def)
qed

lemma delete_published:
  assumes "rt_inv (ap_runtime app)" and "delete_account i app = (Inr (), app')"
  shows "published app app'" and "ap_runtime app' = deleted i (ap_runtime app)"
proof -
  have app': "app' = enqueue_many (lease_deletes (fst (evict_leases_for_account i app)) @ [AccountDelete i])
      (on_runtime (deleted i) app)"
    using assms by (auto simp: delete_account_eq enqueue_many_def split: if_splits)
  show "published app app'" unfolding app'
    using deleted_published [OF assms(1)] by (rule published_enqueue_many)
  show "ap_runtime app' = deleted i (ap_runtime app)" by (simp add: app')
qed

text \<open>C28 (delete_leaves_no_trace).
  Deleting an account fails without a change when there is none, and otherwise leaves nothing of it:
  no account, credential, route state, refresh token, execution gate, lease or session. Everything
  of other accounts stays, and a replica that applies the messages sent follows.\<close>

theorem delete_leaves_no_trace:
  assumes "pool_inv (ap_runtime app)" and "delete_account i app = (result, app')"
  shows "case result of
      Inl e \<Rightarrow> e = AccountNotFound \<and> app' = app \<and> hm_get (rt_accounts (ap_runtime app)) i = None
    | Inr _ \<Rightarrow> pool_inv (ap_runtime app') \<and> published app app'
        \<and> (\<forall>j. hm_get (rt_accounts (ap_runtime app')) j
              = (if j = i then None else hm_get (rt_accounts (ap_runtime app)) j)
          \<and> hm_get (rt_credentials (ap_runtime app')) j
              = (if j = i then None else hm_get (rt_credentials (ap_runtime app)) j)
          \<and> hm_get (rt_route_states (ap_runtime app')) j
              = (if j = i then None else hm_get (rt_route_states (ap_runtime app)) j)
          \<and> hm_get (rt_ephemeral_refresh_tokens (ap_runtime app')) j
              = (if j = i then None else hm_get (rt_ephemeral_refresh_tokens (ap_runtime app)) j)
          \<and> hm_get (rt_execution_gates (ap_runtime app')) j
              = (if j = i then None else hm_get (rt_execution_gates (ap_runtime app)) j))
        \<and> (\<forall>p. hm_get (rt_leases (ap_runtime app')) p = (case hm_get (rt_leases (ap_runtime app)) p of
              None \<Rightarrow> None | Some l \<Rightarrow> if ls_account_id l = i then None else Some l))
        \<and> (\<forall>t. hm_get (rt_codex_app_sessions (ap_runtime app')) t =
            (case hm_get (rt_codex_app_sessions (ap_runtime app)) t of
              None \<Rightarrow> None | Some s \<Rightarrow> if cs_account_id s = i then None else Some s))"
proof -
  have inv: "rt_inv (ap_runtime app)" using assms(1) by (simp add: pool_inv_def)
  then have wf: "hm_wf (rt_codex_app_sessions (ap_runtime app))" by (simp add: rt_inv_def)
  show ?thesis
  proof (cases result)
    case (Inl e)
    with assms(2) inv show ?thesis by (auto simp: delete_account_eq split: if_splits)
  next
    case (Inr u)
    then have d: "delete_account i app = (Inr (), app')" using assms(2) by simp
    note pub = delete_published [OF inv d]
    have "pool_inv (ap_runtime app')" unfolding pub(2)
      using assms(1) by (simp add: pool_inv_def inv_intros)
    moreover have "hm_get (rt_codex_app_sessions (deleted i (ap_runtime app))) t =
        (case hm_get (rt_codex_app_sessions (ap_runtime app)) t of
              None \<Rightarrow> None | Some s \<Rightarrow> if cs_account_id s = i then None else Some s)" for t
      by (simp add: deleted_def hm_get_retain [OF wf] split: option.splits)
    ultimately show ?thesis using Inr pub(1) drop_leases_get [OF rt_invD(6) [OF inv]]
      unfolding pub(2) by (simp add: deleted_def)
  qed
qed

interpretation delete: publishing "\<lambda>_. True" "\<lambda>app. snd (delete_account i app)" for i
proof (unfold_locales, goal_cases)
  case (1 app)
  then show ?case by (simp add: delete_account_eq inv_intros)
next
  case (2 app)
  show ?case
  proof (cases "delete_account i app")
    case (Pair r app')
    with 2 delete_published [of app i] show ?thesis
      by (cases r) (auto simp: delete_account_eq split: if_splits)
  qed
qed

theorem delete_leaves_no_trace_witness:
  "\<exists>app'. delete_account ''a'' (ex_app ex_pool) = (Inr (), app') \<and> published (ex_app ex_pool) app'
    \<and> hm_get (rt_accounts (ap_runtime app')) ''a'' = None
    \<and> hm_get (rt_accounts (ap_runtime app')) ''b'' = Some (ex_account ''b'' 1)
    \<and> hm_get (rt_leases (ap_runtime app')) ''p'' = None"
proof -
  have inv: "pool_inv (ap_runtime (ex_app ex_pool))"
    by (auto simp: pool_inv_def routes_inv_def modes_synced_def ex_pool_tables cf_inv_fresh
        split: if_splits) (simp_all add: ex_account_def fresh_route_state_def)
  obtain app' where d: "delete_account ''a'' (ex_app ex_pool) = (Inr (), app')"
    by (simp add: delete_account_eq ex_pool_tables)
  show ?thesis using delete_leaves_no_trace [OF inv d] d by (simp add: ex_pool_tables ex_lease_def)
qed

subsection \<open>Cleanup\<close>

text \<open>The upstream has told that the account is deactivated.\<close>

definition banned :: "runtime_state \<Rightarrow> str \<Rightarrow> bool" where
  "banned rt i \<longleftrightarrow> (case Option.bind (hm_get (rt_credentials rt) i) cr_managed_auth of
     None \<Rightarrow> False | Some m \<Rightarrow> ma_status m = Banned)"

lemma delete_accounts_all:
  assumes "rt_inv (ap_runtime app)" and "distinct ids"
    and "\<And>i. i \<in> set ids \<Longrightarrow> hm_get (rt_accounts (ap_runtime app)) i \<noteq> None"
  shows "\<exists>app'. delete_accounts ids app = (Inr (), app') \<and> rt_inv (ap_runtime app') \<and> published app app'
    \<and> (\<forall>j. hm_get (rt_accounts (ap_runtime app')) j
        = (if j \<in> set ids then None else hm_get (rt_accounts (ap_runtime app)) j))"
  using assms
proof (induction ids arbitrary: app)
  case (Cons i ids)
  obtain mid where mid: "delete_account i app = (Inr (), mid)"
    using Cons.prems(1,3) by (fastforce simp: delete_account_eq)
  note pub = delete_published [OF Cons.prems(1) mid]
  have inv: "rt_inv (ap_runtime mid)" using Cons.prems(1) pub(2) by (simp add: inv_intros)
  have get: "hm_get (rt_accounts (ap_runtime mid)) j
      = (if j = i then None else hm_get (rt_accounts (ap_runtime app)) j)" for j
    by (simp add: pub(2) deleted_def)
  obtain app' where "delete_accounts ids mid = (Inr (), app')" "rt_inv (ap_runtime app')" "published mid app'"
      "\<forall>j. hm_get (rt_accounts (ap_runtime app')) j
        = (if j \<in> set ids then None else hm_get (rt_accounts (ap_runtime mid)) j)"
    using Cons.IH [OF inv] Cons.prems(2,3) get by (metis distinct.simps(2) list.set_intros(2))
  then show ?case
    using mid get published_trans [OF pub(1) _ Cons.prems(1) inv] by (intro exI [of _ app']) auto
qed simp

lemma summary_status: "as_status (account_summary_of c r cr infl now a) =
    (case Option.bind (hm_get cr (ac_id a)) cr_managed_auth of Some m \<Rightarrow> ma_status m | None \<Rightarrow> Active)"
  by (simp add: account_summary_of_def Let_def)

text \<open>C29 (cleanup_exact).
  The cleanup never fails. It deletes the accounts whose upstream state is banned and no others, its
  report names exactly the deleted ones, counts add up, and replicas follow.\<close>

theorem cleanup_exact:
  assumes "rt_inv (ap_runtime app)"
  shows "\<exists>r app'. cleanup_banned_accounts now app = (Inr r, app') \<and> rt_inv (ap_runtime app') \<and> published app app'
    \<and> (\<forall>j. hm_get (rt_accounts (ap_runtime app')) j
        = (if banned (ap_runtime app) j then None else hm_get (rt_accounts (ap_runtime app)) j))
    \<and> set (cl_deleted_account_ids r)
        = {j. hm_get (rt_accounts (ap_runtime app)) j \<noteq> None \<and> banned (ap_runtime app) j}
    \<and> distinct (cl_deleted_account_ids r) \<and> cl_deleted r = length (cl_deleted_account_ids r)
    \<and> cl_scanned r = cl_deleted r + cl_skipped_not_banned r"
proof -
  let ?rt = "ap_runtime app" and ?all = "account_summaries app now"
  let ?ids = "map as_id (filter (\<lambda>a. as_status a = Banned) ?all)"
  note keyed = rt_invD(3) [OF assms]
  have "distinct (map as_id ?all)"
    using mset_summary_ids [of app now] hm_keyed_distinct_values [OF keyed] mset_eq_imp_distinct_iff by blast
  then have dist: "distinct ?ids" by (rule distinct_map_filter)
  have set_ids: "set ?ids = {j. hm_get (rt_accounts ?rt) j \<noteq> None \<and> banned ?rt j}"
  proof -
    have "set ?ids = ac_id ` {a \<in> set (hm_values (rt_accounts ?rt)). banned ?rt (ac_id a)}"
    proof -
      let ?f = "account_summary_of (ap_config app) (rt_route_states ?rt) (rt_credentials ?rt) (rt_execution_inflight ?rt) now"
      have "set ?ids = as_id ` ?f ` {a \<in> set (hm_values (rt_accounts ?rt)). as_status (?f a) = Banned}"
        by (auto simp: set_account_summaries)
      also have "\<dots> = ac_id ` {a \<in> set (hm_values (rt_accounts ?rt)). banned ?rt (ac_id a)}"
        by (simp add: image_image summary_status banned_def option.case_eq_if cong: image_cong_simp conj_cong)
      finally show ?thesis .
    qed
    also have "\<dots> = {j. hm_get (rt_accounts ?rt) j \<noteq> None \<and> banned ?rt j}"
      using hm_values_get [OF hm_keyed_wf [OF keyed]] hm_keyedD [OF keyed] by (auto simp: image_iff)
    finally show ?thesis .
  qed
  obtain app' where a: "delete_accounts ?ids app = (Inr (), app')" "rt_inv (ap_runtime app')" "published app app'"
      "\<forall>j. hm_get (rt_accounts (ap_runtime app')) j
        = (if j \<in> set ?ids then None else hm_get (rt_accounts ?rt) j)"
    using delete_accounts_all [OF assms dist] set_ids by blast
  have get: "\<forall>j. hm_get (rt_accounts (ap_runtime app')) j
        = (if banned ?rt j then None else hm_get (rt_accounts ?rt) j)"
    using a(4) unfolding set_ids by auto
  have le: "length ?ids \<le> length ?all" by simp
  have c: "cleanup_banned_accounts now app = (Inr \<lparr>cl_scanned = length ?all, cl_deleted = length ?ids,
      cl_skipped_not_banned = length ?all - length ?ids, cl_deleted_account_ids = ?ids\<rparr>, app')"
    using a(1) by (simp add: cleanup_banned_accounts_def Let_def)
  show ?thesis
    using c a(2,3) get set_ids dist le by (intro exI [of _ app'] exI conjI) (rule c, simp_all)
qed

definition ex_banned :: runtime_state where
  "ex_banned = ex_pool\<lparr>rt_credentials := [(''a'', (ex_credential ''a'')\<lparr>cr_managed_auth :=
     Some (managed_auth_state_default\<lparr>ma_status := Banned\<rparr>)\<rparr>), (''b'', ex_credential ''b'')]\<rparr>"

lemma ex_banned_inv: "rt_inv ex_banned"
  using ex_inv by (simp add: rt_inv_def ex_banned_def hm_keyed_iff ex_credential_def)

theorem cleanup_exact_witness:
  "\<exists>r app'. cleanup_banned_accounts 0 (ex_app ex_banned) = (Inr r, app') \<and> set (cl_deleted_account_ids r) = {''a''}
    \<and> hm_get (rt_accounts (ap_runtime app')) ''a'' = None
    \<and> hm_get (rt_accounts (ap_runtime app')) ''b'' = Some (ex_account ''b'' 1)"
proof -
  have tables: "rt_accounts ex_banned = rt_accounts ex_pool" by (simp add: ex_banned_def)
  have banned: "banned ex_banned j \<longleftrightarrow> j = ''a''" for j
    by (simp add: banned_def ex_banned_def ex_credential_def)
  obtain r app' where c: "cleanup_banned_accounts 0 (ex_app ex_banned) = (Inr r, app')"
      "\<forall>j. hm_get (rt_accounts (ap_runtime app')) j = (if j = ''a'' then None else hm_get (rt_accounts ex_pool) j)"
      "set (cl_deleted_account_ids r) = {j. hm_get (rt_accounts ex_pool) j \<noteq> None \<and> j = ''a''}"
    using cleanup_exact [of "ex_app ex_banned" 0] ex_banned_inv by (auto simp: tables banned)
  then show ?thesis by (intro exI [of _ r] exI [of _ app']) (auto simp: ex_pool_tables)
qed

subsection \<open>Import\<close>

lemma import_eq:
  assumes "import_account request simple t1 t2 app = (account, app')"
    and "build_credential_template request t1 = Some template"
  shows "account = imported_account request simple t2"
    and "app' = enqueue_many [AccountUpsert account, CredentialUpsert (template\<lparr>cr_account_id := ac_id account\<rparr>),
        RouteStateUpsert (fresh_route_state (ac_id account))]
      (on_runtime (\<lambda>rt. rt\<lparr>
        rt_route_states := hm_insert (ac_id account) (fresh_route_state (ac_id account)) (rt_route_states rt),
        rt_accounts := hm_insert (ac_id account) account (rt_accounts rt),
        rt_credentials := hm_insert (ac_id account) (template\<lparr>cr_account_id := ac_id account\<rparr>) (rt_credentials rt)\<rparr>) app)"
  using assms by (auto simp: import_account_def Let_def enqueue_many_def)

lemma imported_fields [simp]:
  "ac_id (imported_account request simple t) = ''acc_'' @ simple"
  "ac_tenant_id (imported_account request simple t) = qi_tenant_id request"
  "ac_models (imported_account request simple t) = qi_models request"
  "ac_current_mode (imported_account request simple t) = Direct"
  by (simp_all add: imported_account_def Let_def)

lemma fresh_fields [simp]: "rs_account_id (fresh_route_state i) = i" "rs_route_mode (fresh_route_state i) = Direct"
    "rs_cooldown_until (fresh_route_state i) = None"
  by (simp_all add: fresh_route_state_def)

text \<open>Fact (imported_account_selectable).
  An account imported with a bearer token serves at once: a request of its tenant for one of its
  models is bound to some account, whatever the state of the others; the tables stay well-formed and
  replicas follow.\<close>

theorem imported_account_selectable:
  assumes "pool_inv (ap_runtime app)"
    and "import_account request simple t1 t2 app = (account, app')"
    and "qi_bearer_token request = Some token" and "trim token \<noteq> []"
    and "lq_tenant_id q = qi_tenant_id request" and "lq_model q \<in> set (qi_models request)"
  shows "pool_inv (ap_runtime app') \<and> published app app'
    \<and> (\<exists>lease key warmup app''. resolve_lease_outcome sha256 q now reuse_now app' = (Selected lease key warmup, app''))"
proof -
  let ?rt = "ap_runtime app" and ?rt' = "ap_runtime app'" and ?i = "ac_id account"
  obtain template where tm: "build_credential_template request t1 = Some template" "cr_managed_auth template = None"
    using assms(3,4) by (cases "trim token") (auto simp: build_credential_template_def)
  note imp = import_eq [OF assms(2) tm(1)]
  have inv: "rt_inv ?rt" "routes_inv ?rt" "modes_synced ?rt" using assms(1) by (simp_all add: pool_inv_def)
  have rt': "rt_inv ?rt'" using inv(1) by (simp add: imp(2) rt_inv_def hm_keyed_insert)
  moreover have "routes_inv ?rt'" "modes_synced ?rt'"
    using inv(2,3) by (auto simp: imp routes_inv_def modes_synced_def cf_inv_fresh)
  moreover have "published app app'"
    unfolding imp(2) by (rule published_enqueue_many)
      (simp add: handler_defs same_tables_def Let_def imp(1) imported_account_def)
  moreover have "\<exists>lease key warmup app''.
      resolve_lease_outcome sha256 q now reuse_now app' = (Selected lease key warmup, app'')"
  proof (rule selected_if_ready [OF rt'])
    show "hm_get (rt_accounts ?rt') ?i = Some account" by (simp add: imp(2))
    show "can_serve ?rt' (lq_tenant_id q) (lq_model q) account"
      using assms(5,6) tm(2) by (simp add: can_serve_def imp credential_is_routable_for_selection_def
          managed_status_for_selection_def)
    show "\<not> cooling (rt_route_states ?rt') now account"
      by (simp add: cooling_def imp is_in_cooldown_def)
  qed
  ultimately show ?thesis by (simp add: pool_inv_def)
qed

subsection \<open>Headrooms\<close>

lemma headroom_not_nan: "f_sub (Fin 1) (f_div (f_of_int n) (Fin 100)) \<noteq> NaN"
proof -
  have "f_div x (Fin 100) \<noteq> NaN" if "x \<noteq> NaN" for x
    using that by (cases x) auto
  moreover have "f_sub (Fin 1) y \<noteq> NaN" if "y \<noteq> NaN" for y
    using that by (cases y) (auto simp: f_sub_def)
  ultimately show ?thesis by (simp add: f_of_int_def)
qed

lemma window_headroom_unit: "f_unit (window_headroom w)"
  unfolding window_headroom_def by (rule f_clamp_unit) (rule headroom_not_nan)

lemma default_headroom_eq: "fst (managed_headrooms limits) =
    (case rl_primary limits of Some w \<Rightarrow> window_headroom w | None \<Rightarrow> Fin 1)"
  by (auto simp: managed_headrooms_def Let_def window_headroom_def f_clamp_def split: option.splits)

lemma take_window_unit: "f_unit (fst h) \<Longrightarrow> f_unit (snd h) \<Longrightarrow>
    f_unit (fst (take_window w h)) \<and> f_unit (snd (take_window w h))"
  by (auto simp: take_window_def window_headroom_unit split: option.splits)

lemma take_windows_unit: "f_unit (fst h) \<Longrightarrow> f_unit (snd h) \<Longrightarrow>
    f_unit (fst (fold take_window ws h)) \<and> f_unit (snd (fold take_window ws h))"
  by (induction ws arbitrary: h) (auto simp: take_window_unit)

lemma managed_headrooms_unit:
  "f_unit (fst (managed_headrooms limits))
    \<and> f_unit (fst (snd (managed_headrooms limits))) \<and> f_unit (snd (snd (managed_headrooms limits)))"
proof -
  have "f_unit (fst (managed_headrooms limits))"
    by (auto simp: default_headroom_eq window_headroom_unit f_unit_iff [of "Fin 1"] split: option.splits)
  moreover have "snd (managed_headrooms limits) =
      fold take_window (List.map_filter id [rl_primary limits, rl_secondary limits])
        (fst (managed_headrooms limits), fst (managed_headrooms limits))"
    by (simp add: managed_headrooms_def Let_def)
  moreover note take_windows_unit [of "(fst (managed_headrooms limits), fst (managed_headrooms limits))"
      "List.map_filter id [rl_primary limits, rl_secondary limits]"]
  ultimately show ?thesis by auto
qed

lemma managed_headrooms_usual:
  assumes "rl_primary limits = Some p" and "rl_secondary limits = Some q"
    and "rw_window_duration_mins p = Some m5" and "sint m5 \<le> 300"
    and "rw_window_duration_mins q = Some m7" and "10080 \<le> sint m7"
  shows "managed_headrooms limits = (window_headroom p, window_headroom p, window_headroom q)"
  using assms default_headroom_eq [of limits]
  by (simp add: managed_headrooms_def Let_def take_window_def map_filter_simps)

lemma f_min_unit: "f_unit x \<Longrightarrow> f_unit y \<Longrightarrow> f_unit (f_min x y)"
  by (auto simp: f_unit_iff min_def)

text \<open>C30 (rate_limits_applied).
  Applying the upstream's rate limits to an account replaces its three headrooms by numbers of the
  unit interval, whatever the upstream reports, so no score sees a NaN; of the usual pair of windows
  the 5-hour one decides the 5-hour headroom and the 7-day one the other. Nothing else of the account
  changes, none of its other signals, and no other table; the tables stay well-formed and replicas
  follow.\<close>

theorem rate_limits_applied:
  assumes "pool_inv (ap_runtime app)" and "hm_get (rt_accounts (ap_runtime app)) i = Some account"
    and "ma_rate_limits managed = Some limits"
    and "app' = apply_managed_rate_limits_to_account i (Some managed) app"
  shows "\<exists>h h5 h7 signals. signals = (ac_signals account)
        \<lparr>sg_quota_headroom := h, sg_quota_headroom_5h := h5, sg_quota_headroom_7d := h7\<rparr>
    \<and> ap_runtime app' = (ap_runtime app)\<lparr>rt_accounts :=
        hm_insert i (account\<lparr>ac_signals := signals\<rparr>) (rt_accounts (ap_runtime app))\<rparr>
    \<and> f_unit (sg_quota_headroom signals) \<and> f_unit (sg_quota_headroom_5h signals)
    \<and> f_unit (sg_quota_headroom_7d signals) \<and> f_unit (effective_quota_headroom signals)
    \<and> (\<forall>p q m5 m7. rl_primary limits = Some p \<and> rw_window_duration_mins p = Some m5 \<and> sint m5 \<le> 300
        \<and> rl_secondary limits = Some q \<and> rw_window_duration_mins q = Some m7 \<and> 10080 \<le> sint m7
        \<longrightarrow> sg_quota_headroom_5h signals = window_headroom p \<and> sg_quota_headroom_7d signals = window_headroom q)
    \<and> pool_inv (ap_runtime app') \<and> published app app'"
proof -
  obtain h h5 h7 where h: "managed_headrooms limits = (h, h5, h7)" by (cases "managed_headrooms limits")
  let ?signals = "(ac_signals account)\<lparr>sg_quota_headroom := h, sg_quota_headroom_5h := h5, sg_quota_headroom_7d := h7\<rparr>"
  let ?account = "account\<lparr>ac_signals := ?signals\<rparr>"
  have app': "app' = enqueue_many [AccountUpsert ?account]
      (on_runtime (\<lambda>rt. rt\<lparr>rt_accounts := hm_insert i ?account (rt_accounts rt)\<rparr>) app)"
    using assms(2,3,4) h by (simp add: apply_managed_rate_limits_to_account_def enqueue_many_def Let_def)
  have units: "f_unit h" "f_unit h5" "f_unit h7" using managed_headrooms_unit [of limits] h by simp_all
  have id: "ac_id account = i" using pool_inv_ids(1) [OF assms(1,2)] .
  have "pool_inv (ap_runtime app')"
    using assms(1,2) id by (auto simp: app' pool_inv_def rt_inv_def hm_keyed_insert routes_inv_def modes_synced_def)
  moreover have "published app app'"
    unfolding app' by (rule published_enqueue_many) (simp add: handler_defs same_tables_def id)
  ultimately show ?thesis
    using units managed_headrooms_usual [of limits] h
    by (intro exI [of _ h] exI [of _ h5] exI [of _ h7] exI [of _ ?signals])
      (auto simp: app' effective_quota_headroom_def f_min_unit)
qed

subsection \<open>A refresh that races with a deletion\<close>

text \<open>The account has no entry left.\<close>

definition gone :: "str \<Rightarrow> app_state \<Rightarrow> bool" where
  "gone i app \<longleftrightarrow> hm_get (rt_accounts (ap_runtime app)) i = None \<and> hm_get (rt_credentials (ap_runtime app)) i = None"

lemma update_gone: "gone i app \<Longrightarrow> update_credential i f app = None"
  by (simp add: gone_def update_credential_def)

lemma failure_gone: "gone i app \<Longrightarrow> record_managed_account_failure i m u now app = app"
  by (simp add: record_managed_account_failure_def case_prod_beta' Let_def update_gone)

lemma remember_gone [simp]: "gone i (remember_token j token app) = gone i app"
  by (simp add: gone_def remember_token_def)

lemma rotated_gone: "gone i app \<Longrightarrow> attach_rotated_refresh_token pv i token now app = (r, app') \<Longrightarrow> gone i app'"
  by (auto simp: attach_rotated_refresh_token_def update_gone split: option.splits sum.splits)

lemma trade_gone: "(\<And>a. gone i (pv_during pv a)) \<Longrightarrow> trade_refresh_token pv i token now app = (r, app') \<Longrightarrow> gone i app'"
  by (auto simp: trade_refresh_token_def Let_def failure_gone dest: rotated_gone [rotated]
      split: sum.splits option.splits prod.splits)

lemma forced_gone:
  assumes "\<And>a. gone i (pv_during pv a)" and "forced_token pv force token i credential now app = (r, app')"
  shows "(case r of Inl _ \<Rightarrow> gone i app' | Inr _ \<Rightarrow> True)"
  using assms(2) trade_gone [OF assms(1)]
  by (auto simp: forced_token_def split: bool.splits option.splits sum.splits prod.splits)

lemma snapshot_gone:
  assumes "\<And>a. gone i (pv_during pv a)" and "managed_snapshot pv token i access credential traded now app = (r, app')"
  shows "gone i app'"
proof -
  have failed: "fetch_failed i e now (pv_during pv a) = (r', b) \<Longrightarrow> gone i b" for e a b and r' :: "(str \<times> managed_chatgpt_snapshot, app_error) result"
    using assms(1) by (auto simp: fetch_failed_def failure_gone)
  obtain f0 where f0: "fetch_snapshot pv 0 credential access app = (f0, pv_during pv app)"
    by (simp add: fetch_snapshot_def)
  show ?thesis
  proof (cases f0)
    case (Inr snapshot)
    with assms(2) f0 assms(1) show ?thesis by (auto simp: managed_snapshot_def)
  next
    case (Inl error)
    show ?thesis
    proof (cases "me_unauthorized error \<and> \<not> traded \<and> token \<noteq> None")
      case False
      with assms(2) f0 Inl show ?thesis
        by (cases token) (auto simp: managed_snapshot_def dest: failed split: bool.splits)
    next
      case True
      then obtain t where t: "token = Some t" by auto
      obtain r1 mid where tr: "trade_refresh_token pv i t now (pv_during pv app) = (r1, mid)"
        by (cases "trade_refresh_token pv i t now (pv_during pv app)")
      have "gone i mid" using trade_gone [OF assms(1) tr] .
      with True t tr f0 Inl assms(2) show ?thesis
        using assms(1)
        by (cases r1) (auto simp: managed_snapshot_def fetch_snapshot_def dest: failed split: sum.splits)
    qed
  qed
qed

lemma store_gone: "gone i app \<Longrightarrow> store_managed_snapshot i access snapshot t1 t2 app = (Inl CredentialNotFound, app)"
  by (simp add: store_managed_snapshot_def update_gone)

text \<open>Fact (refresh_of_deleted_account).
  A refresh during whose network calls the account is deleted fails and does not bring the account
  or its credential back.\<close>

theorem refresh_of_deleted_account:
  assumes "\<And>a. gone i (pv_during pv a)"
    and "hm_get (rt_credentials (ap_runtime app)) i = Some credential" and "cr_managed_auth credential \<noteq> None"
    and "managed_refresh_token_for pv credential app = Inr token"
  shows "\<exists>e app'. refresh_managed_account pv force t i app = (Inl e, app') \<and> gone i app'"
proof -
  obtain r mid where f: "forced_token pv force token i credential (t 0) app = (r, mid)"
    by (cases "forced_token pv force token i credential (t 0) app")
  show ?thesis
  proof (cases r)
    case (Inl e)
    with f assms forced_gone [OF assms(1) f] show ?thesis by (auto simp: refresh_managed_account_def)
  next
    case (Inr triple)
    obtain access c traded where triple: "triple = (access, c, traded)" by (cases triple)
    obtain r2 app2 where s: "managed_snapshot pv token i access c traded (t 1) mid = (r2, app2)"
      by (cases "managed_snapshot pv token i access c traded (t 1) mid")
    have g: "gone i app2" using snapshot_gone [OF assms(1) s] .
    show ?thesis
    proof (cases r2)
      case (Inl e)
      with g s f Inr triple assms show ?thesis by (simp add: refresh_managed_account_def)
    next
      case r2: (Inr p)
      with g s f Inr triple assms show ?thesis
        by (cases p) (simp add: refresh_managed_account_def store_gone)
    qed
  qed
qed

subsection \<open>Login\<close>

lemma refresh_without_token:
  assumes "hm_get (rt_credentials (ap_runtime app)) i = Some credential" and "cr_managed_auth credential = Some m"
    and "ma_refresh_token_encrypted m = None" and "cr_account_id credential = i"
    and "hm_get (rt_ephemeral_refresh_tokens (ap_runtime app)) i = None"
    and "pv_during pv = (\<lambda>a. a)"
    and "pv_fetch pv 0 (cr_base_url credential) (cr_bearer_token credential) (cr_chatgpt_account_id credential) = Inl error"
  shows "refresh_managed_account pv False t i app = (Inl (External (me_message error)),
    record_managed_account_failure i (me_message error) (me_unauthorized error) (t 1) app)"
  using assms by (simp add: refresh_managed_account_def managed_refresh_token_for_def forced_token_def
      managed_snapshot_def fetch_snapshot_def fetch_failed_def split: bool.splits)

lemma update_Some: "hm_get (rt_credentials (ap_runtime app)) i = Some c \<Longrightarrow> update_credential i f app =
    Some (f c, on_runtime (\<lambda>rt. rt\<lparr>rt_credentials := hm_insert i (f c) (rt_credentials rt)\<rparr>) app)"
  by (simp add: update_credential_def)

lemma failure_accounts [simp]:
  "rt_accounts (ap_runtime (record_managed_account_failure i m u now app)) = rt_accounts (ap_runtime app)"
  "rt_openai_login_sessions (ap_runtime (record_managed_account_failure i m u now app)) =
     rt_openai_login_sessions (ap_runtime app)"
  by (simp_all add: record_managed_account_failure_def case_prod_beta' Let_def update_credential_def split: option.splits)

text \<open>Fact (failed_login_keeps_account).
  A login whose token exchange succeeds but whose first refresh fails is reported as failed, and the
  account it imported stays in the pool: a second login imports another one.\<close>

theorem failed_login_keeps_account:
  assumes "hm_get (rt_openai_login_sessions (ap_runtime app)) (lc_state request) = Some session"
    and "lg_status session = ''pending''" and "pv_during pv = (\<lambda>a. a)"
    and "\<And>u v c. pv_exchange pv u v c = Inr tokens" and "\<And>x. pv_claims pv x = Inr claims"
    and "trim (tk_access_token tokens) \<noteq> []" and "tk_refresh_token tokens = None"
    and "hm_get (rt_ephemeral_refresh_tokens (ap_runtime app)) (''acc_'' @ simple) = None"
    and "\<And>b x c. pv_fetch pv 0 b x c = Inl error"
  shows "\<exists>app'. complete_openai_login pv request simple t app = (Inl (External (me_message error)), app')
    \<and> (\<exists>account. hm_get (rt_accounts (ap_runtime app')) (''acc_'' @ simple) = Some account
        \<and> ac_tenant_id account = lg_tenant_id session)
    \<and> (\<exists>session'. hm_get (rt_openai_login_sessions (ap_runtime app')) (lc_state request) = Some session'
        \<and> lg_status session' = ''failed'' \<and> lg_imported_account_id session' = lg_imported_account_id session)"
proof -
  define started where "started = update_login (lc_state request) (\<lambda>active. active\<lparr>lg_status := ''exchanging'',
      lg_error := None, lg_updated_at := t 7\<rparr>) app"
  obtain q chatgpt where q: "login_import pv session tokens claims = (q, chatgpt)"
    by (cases "login_import pv session tokens claims")
  obtain account imported where imp: "import_account q simple (t 4) (t 5) started = (account, imported)"
    by (cases "import_account q simple (t 4) (t 5) started")
  have qf: "qi_bearer_token q = Some (tk_access_token tokens)" "qi_tenant_id q = lg_tenant_id session"
    using q by (auto simp: login_import_def Let_def)
  obtain template where tm: "build_credential_template q (t 4) = Some template"
    using qf(1) assms(6) by (cases "trim (tk_access_token tokens)") (auto simp: build_credential_template_def)
  note imp_eqs = import_eq [OF imp tm]
  obtain i where i: "''acc_'' @ simple = i" by simp
  have id: "ac_id account = i" "ac_tenant_id account = lg_tenant_id session"
    using imp_eqs(1) qf(2) i by simp_all
  have cred: "hm_get (rt_credentials (ap_runtime imported)) i = Some (template\<lparr>cr_account_id := i\<rparr>)"
    by (simp add: imp_eqs(2) id)
  have eph: "rt_ephemeral_refresh_tokens (ap_runtime imported) = rt_ephemeral_refresh_tokens (ap_runtime app)"
    by (simp add: imp_eqs(2) started_def update_login_def split: option.splits)
  obtain attached where att: "attach_managed_openai_auth pv i (ic_email claims) chatgpt None (t 6) t imported
      = (Inl (External (me_message error)), attached)"
    "rt_accounts (ap_runtime attached) = rt_accounts (ap_runtime imported)"
    "rt_openai_login_sessions (ap_runtime attached) = rt_openai_login_sessions (ap_runtime imported)"
  proof -
    obtain c mid where upd: "update_credential i (\<lambda>c. c\<lparr>
          cr_chatgpt_account_id := (case non_blank chatgpt of Some i \<Rightarrow> Some i | None \<Rightarrow> cr_chatgpt_account_id c),
          cr_managed_auth := Some ((managed_of c)\<lparr>ma_email := ic_email claims, ma_refresh_token_encrypted := None\<rparr>),
          cr_updated_at := t 6\<rparr>) imported = Some (c, mid)"
        and mid: "hm_get (rt_credentials (ap_runtime mid)) i = Some c" "cr_account_id c = i"
          "\<exists>m. cr_managed_auth c = Some m \<and> ma_refresh_token_encrypted m = None"
          "rt_accounts (ap_runtime mid) = rt_accounts (ap_runtime imported)"
          "rt_openai_login_sessions (ap_runtime mid) = rt_openai_login_sessions (ap_runtime imported)"
          "rt_ephemeral_refresh_tokens (ap_runtime mid) = rt_ephemeral_refresh_tokens (ap_runtime imported)"
      by (rule that [OF update_Some [OF cred]]) simp_all
    have "attach_managed_openai_auth pv i (ic_email claims) chatgpt None (t 6) t imported =
        refresh_managed_account pv False t i (enqueue (CredentialUpsert c) mid)"
      by (simp add: attach_managed_openai_auth_def non_empty_trimmed_def upd)
    also have "\<dots> = (Inl (External (me_message error)), record_managed_account_failure i (me_message error)
        (me_unauthorized error) (t 1) (enqueue (CredentialUpsert c) mid))"
    proof -
      obtain m where m: "cr_managed_auth c = Some m" "ma_refresh_token_encrypted m = None" using mid(3) by blast
      show ?thesis
        by (rule refresh_without_token [OF _ m mid(2) _ assms(3) assms(9)])
           (simp_all add: mid(1,6) eph assms(8) [unfolded i])
    qed
    finally show ?thesis by (rule that) (simp_all add: mid(4,5))
  qed
  have ex: "exchange_login pv session (unwrap_or (non_blank (lc_redirect_uri request)) (lg_redirect_uri session))
      (lc_code request) simple t started = (Inl (External (me_message error)), attached)"
    using assms(3,4,5,7) q imp id att(1) by (simp add: exchange_login_def)
  have "complete_openai_login pv request simple t app = (Inl (External (me_message error)),
      update_login (lc_state request) (settled (Inl (External (me_message error))) (t 8)) attached)"
    using assms(1,2) ex by (simp add: complete_openai_login_def Let_def started_def [symmetric])
  moreover have "rt_openai_login_sessions (ap_runtime attached) = rt_openai_login_sessions (ap_runtime started)"
    by (simp add: att(3) imp_eqs(2))
  moreover have "hm_get (rt_accounts (ap_runtime attached)) i = Some account"
    by (simp add: att(2) imp_eqs(2) id)
  ultimately show ?thesis
    unfolding i using assms(1) id(2) by (auto simp: update_login_def started_def settled_def)
qed

subsection \<open>Witnesses\<close>

definition ex_import :: import_account_request where
  "ex_import = \<lparr>qi_tenant_id = 1, qi_label = ''new'', qi_models = [''m''], qi_quota_headroom = None,
     qi_quota_headroom_5h = None, qi_quota_headroom_7d = None, qi_health_score = None,
     qi_egress_stability = None, qi_base_url = None, qi_bearer_token = Some ''t'',
     qi_chatgpt_account_id = None, qi_extra_headers = None\<rparr>"

lemma ex_dry_pool_inv: "pool_inv ex_dry"
  by (auto simp: pool_inv_def routes_inv_def modes_synced_def ex_dry_tables split: if_splits)
    (simp_all add: cf_inv_def ex_account_def ex_spent_def fresh_route_state_def)

text \<open>Both accounts of the pool are in cooldown; the imported one serves.\<close>

theorem imported_account_selectable_witness:
  "\<exists>account app'. import_account ex_import ''x'' 0 0 (ex_app ex_dry) = (account, app') \<and> pool_inv (ap_runtime app')
    \<and> (\<exists>lease key warmup app''. resolve_lease_outcome (\<lambda>_. []) (ex_request ''p'' 1) 5 6 app' = (Selected lease key warmup, app''))"
proof -
  obtain account app' where imp: "import_account ex_import ''x'' 0 0 (ex_app ex_dry) = (account, app')"
    by (cases "import_account ex_import ''x'' 0 0 (ex_app ex_dry)")
  have "trim ''t'' \<noteq> []" by code_simp
  with imported_account_selectable [OF _ imp, of "''t''" "ex_request ''p'' 1"] imp show ?thesis
    by (simp add: ex_dry_pool_inv ex_import_def ex_request_def)
qed

definition ex_limits :: managed_rate_limit_snapshot where
  "ex_limits = \<lparr>rl_limit_id = None, rl_limit_name = None,
     rl_primary = Some \<lparr>rw_used_percent = 150, rw_window_duration_mins = Some 300, rw_resets_at = None\<rparr>,
     rl_secondary = Some \<lparr>rw_used_percent = 50, rw_window_duration_mins = Some 10080, rw_resets_at = None\<rparr>,
     rl_credits = None, rl_spend_control = None, rl_plan_type = None\<rparr>"

theorem rate_limits_applied_witness:
  "\<exists>signals. hm_get (rt_accounts (ap_runtime (apply_managed_rate_limits_to_account ''a''
        (Some (managed_auth_state_default\<lparr>ma_rate_limits := Some ex_limits\<rparr>)) (ex_app ex_dry)))) ''a''
      = Some ((ex_account ''a'' 1)\<lparr>ac_signals := signals\<rparr>)
    \<and> sg_health_score signals = sg_health_score (ac_signals (ex_account ''a'' 1))
    \<and> f_unit (effective_quota_headroom signals)"
  using rate_limits_applied [of "ex_app ex_dry" "''a''" "ex_account ''a'' 1"
      "managed_auth_state_default\<lparr>ma_rate_limits := Some ex_limits\<rparr>" ex_limits, OF _ _ _ refl]
  by (auto simp: ex_dry_pool_inv ex_dry_tables)

definition ex_error :: managed_chatgpt_snapshot_error where
  "ex_error = \<lparr>me_message = ''503'', me_unauthorized = False\<rparr>"

definition ex_provider :: "(app_state \<Rightarrow> app_state) \<Rightarrow> provider" where
  "ex_provider during = \<lparr>
     pv_exchange = \<lambda>_ _ _. Inr \<lparr>tk_id_token = ''i'', tk_access_token = ''t'', tk_refresh_token = None\<rparr>,
     pv_refresh = \<lambda>_. Inl ''down'', pv_fetch = \<lambda>_ _ _ _. Inl ex_error,
     pv_claims = \<lambda>_. Inr \<lparr>ic_sub = ''s'', ic_email = None, ic_workspace_id = None, ic_chatgpt_account_id = None\<rparr>,
     pv_account_id = \<lambda>_. None, pv_encrypt = \<lambda>_ x. Inr x, pv_decrypt = \<lambda>_ x. Inr x, pv_during = during\<rparr>"

theorem refresh_of_deleted_account_witness:
  "\<exists>e app'. refresh_managed_account (ex_provider (\<lambda>app. on_runtime (deleted ''a'') app)) True (\<lambda>_. 0) ''a''
      (ex_app ex_banned) = (Inl e, app') \<and> gone ''a'' app'"
proof (rule refresh_of_deleted_account)
  show "gone ''a'' (pv_during (ex_provider (\<lambda>app. on_runtime (deleted ''a'') app)) a)" for a
    by (simp add: ex_provider_def gone_def deleted_def)
  show "hm_get (rt_credentials (ap_runtime (ex_app ex_banned))) ''a'' = Some ((ex_credential ''a'')\<lparr>cr_managed_auth :=
     Some (managed_auth_state_default\<lparr>ma_status := Banned\<rparr>)\<rparr>)"
    by (simp add: ex_banned_def)
  show "managed_refresh_token_for (ex_provider (\<lambda>app. on_runtime (deleted ''a'') app))
      ((ex_credential ''a'')\<lparr>cr_managed_auth := Some (managed_auth_state_default\<lparr>ma_status := Banned\<rparr>)\<rparr>)
      (ex_app ex_banned) = Inr None"
    by (simp add: managed_refresh_token_for_def ex_banned_def ex_pool_def initial_runtime_def
        managed_auth_state_default_def)
qed simp

definition ex_login :: openai_login_session_state where
  "ex_login = \<lparr>lg_login_id = ''l'', lg_tenant_id = 1, lg_label = None, lg_note = None, lg_redirect_uri = ''u'',
     lg_auth_url = ''a'', lg_code_verifier = ''v'', lg_status = ''pending'', lg_error = None,
     lg_imported_account_id = None, lg_imported_account_label = None, lg_models = [''m''],
     lg_base_url = ''b'', lg_created_at = 0, lg_updated_at = 0\<rparr>"

theorem failed_login_keeps_account_witness:
  "\<exists>app'. complete_openai_login (ex_provider (\<lambda>a. a)) \<lparr>lc_state = ''l'', lc_code = ''c'', lc_redirect_uri = None\<rparr>
      ''x'' (\<lambda>_. 0) (ex_app (ex_pool\<lparr>rt_openai_login_sessions := [(''l'', ex_login)]\<rparr>)) = (Inl (External ''503''), app')
    \<and> (\<exists>account. hm_get (rt_accounts (ap_runtime app')) ''acc_x'' = Some account)"
proof -
  have "trim ''t'' \<noteq> []" by code_simp
  then show ?thesis
    using failed_login_keeps_account [of "ex_app (ex_pool\<lparr>rt_openai_login_sessions := [(''l'', ex_login)]\<rparr>)"
        "\<lparr>lc_state = ''l'', lc_code = ''c'', lc_redirect_uri = None\<rparr>" ex_login "ex_provider (\<lambda>a. a)"
        "\<lparr>tk_id_token = ''i'', tk_access_token = ''t'', tk_refresh_token = None\<rparr>"
        "\<lparr>ic_sub = ''s'', ic_email = None, ic_workspace_id = None, ic_chatgpt_account_id = None\<rparr>" "''x''" ex_error "\<lambda>_. 0"]
    by (auto simp: ex_login_def ex_provider_def ex_error_def ex_pool_def initial_runtime_def)
qed

end
