(* ===== verification/Snapshot.thy ===== *)
theory Snapshot
  imports Route_Laws
begin

text \<open>
  The start of an instance (\<open>AppState::new\<close>, \<open>state.rs\<close>): restoring the persisted snapshot, the demo
  data, the bootstrap batch. The connection and the query are the parameter \<open>loaded\<close>: \<open>None\<close> without a
  database, otherwise the snapshot or the error.
\<close>

definition load_snapshot :: "persistence_snapshot \<Rightarrow> runtime_state \<Rightarrow> runtime_state" where
  "load_snapshot s rt = rt\<lparr>
     rt_tenants := hm_load tn_id (sn_tenants s),
     rt_api_keys := hm_load ak_token (sn_api_keys s),
     rt_accounts := hm_load ac_id (sn_accounts s),
     rt_credentials := hm_load cr_account_id (sn_credentials s),
     rt_route_states := hm_load rs_account_id (sn_route_states s),
     rt_leases := hm_load ls_principal_id (sn_leases s),
     rt_cf_incidents := sn_cf_incidents s,
     rt_conversation_contexts := hm_load cc_principal_id (sn_conversation_contexts s),
     rt_conversation_threads := hm_load th_thread_id (sn_conversation_threads s),
     rt_thread_edges := sn_thread_edges s,
     rt_request_logs := sn_request_logs s,
     rt_cache_metrics := (case sn_cache_metrics s of Some m \<Rightarrow> m | None \<Rightarrow> rt_cache_metrics rt)\<rparr>"

definition runtime_snapshot_batch :: "runtime_state \<Rightarrow> persistence_message list" where
  "runtime_snapshot_batch rt =
     map TenantUpsert (hm_values (rt_tenants rt))
   @ map ApiKeyUpsert (hm_values (rt_api_keys rt))
   @ map AccountUpsert (hm_values (rt_accounts rt))
   @ map CredentialUpsert (hm_values (rt_credentials rt))
   @ map RouteStateUpsert (hm_values (rt_route_states rt))
   @ map LeaseUpsert (hm_values (rt_leases rt))
   @ map IncidentInsert (rt_cf_incidents rt)
   @ map ConversationContextUpsert (hm_values (rt_conversation_contexts rt))
   @ map ConversationThreadUpsert (hm_values (rt_conversation_threads rt))
   @ map ThreadEdgeUpsert (rt_thread_edges rt)
   @ map RequestLogInsert (rt_request_logs rt)
   @ [CacheMetricsUpsert (rt_cache_metrics rt)]"

subsection \<open>Demo data\<close>

definition demo_account ::
  "uuid \<Rightarrow> str \<Rightarrow> str \<Rightarrow> route_mode \<Rightarrow> f64 \<Rightarrow> f64 \<Rightarrow> f64 \<Rightarrow> instant \<Rightarrow> upstream_account" where
  "demo_account tenant_id i label mode quota_headroom health_score egress_stability now =
    \<lparr>ac_id = i, ac_tenant_id = tenant_id, ac_label = label, ac_models = [''gpt-5.4'', ''gpt-5.3-codex''],
     ac_current_mode = mode,
     ac_signals = \<lparr>sg_quota_headroom = quota_headroom, sg_quota_headroom_5h = quota_headroom,
       sg_quota_headroom_7d = quota_headroom, sg_health_score = health_score,
       sg_egress_stability = egress_stability, sg_fairness_bias = dec 72 100, sg_inflight = 0, sg_capacity = 4\<rparr>,
     ac_created_at = now\<rparr>"

definition demo_accounts :: "uuid \<Rightarrow> instant \<Rightarrow> upstream_account list" where
  "demo_accounts tenant_id now =
    [demo_account tenant_id ''acc_demo_1'' ''Meridian'' Direct (dec 92 100) (dec 96 100) (dec 88 100) now,
     demo_account tenant_id ''acc_demo_2'' ''Mistral Wing'' Warp (dec 83 100) (dec 82 100) (dec 94 100) now,
     demo_account tenant_id ''acc_demo_3'' ''Copperline'' Direct (dec 74 100) (dec 89 100) (dec 71 100) now,
     demo_account tenant_id ''acc_demo_4'' ''Delta North'' Direct (dec 61 100) (dec 78 100) (dec 67 100) now]"

definition demo_route_state :: "instant \<Rightarrow> upstream_account \<Rightarrow> account_route_state" where
  "demo_route_state now account =
    \<lparr>rs_account_id = ac_id account, rs_route_mode = ac_current_mode account, rs_direct_cf_streak = 0,
     rs_warp_cf_streak = (if ac_current_mode account = Warp then 1 else 0),
     rs_cooldown_level = (if ac_current_mode account = Warp then 2 else 0),
     rs_cooldown_until = None, rs_cooldown_reason = None,
     rs_warp_entered_at = (if ac_current_mode account = Warp then Some now else None),
     rs_last_cf_at = None, rs_success_streak = 0, rs_last_success_at = None\<rparr>"

definition demo_lease :: "uuid \<Rightarrow> str \<Rightarrow> str \<Rightarrow> str \<Rightarrow> route_mode \<Rightarrow> u32 \<Rightarrow> u32 \<Rightarrow> instant \<Rightarrow> cli_lease" where
  "demo_lease tenant_id principal_id account_id label mode generation subagents now =
    \<lparr>ls_principal_id = principal_id, ls_tenant_id = tenant_id, ls_account_id = account_id,
     ls_account_label = label, ls_model = ''gpt-5.4'', ls_reasoning_effort = Some ''high'', ls_route_mode = mode,
     ls_generation = generation, ls_active_subagents = subagents, ls_created_at = now, ls_last_used_at = now\<rparr>"

text \<open>One clock reading \<open>now\<close> stands for the readings of the seed.\<close>

definition demo_tenant :: "uuid \<Rightarrow> instant \<Rightarrow> tenant" where
  "demo_tenant tenant_id now =
    \<lparr>tn_id = tenant_id, tn_slug = ''demo'', tn_name = ''Demo Tenant'', tn_created_at = now\<rparr>"

definition demo_key :: "uuid \<Rightarrow> uuid \<Rightarrow> instant \<Rightarrow> gateway_api_key" where
  "demo_key tenant_id key_id now =
    \<lparr>ak_id = key_id, ak_tenant_id = tenant_id, ak_name = ''Demo Gateway Key'', ak_email = ''demo@codex.local'',
     ak_role = Admin, ak_token = ''cmgr_demo_key'', ak_default_model = Some ''gpt-5.4'',
     ak_reasoning_effort = Some ''high'', ak_force_model_override = False, ak_force_reasoning_effort = False,
     ak_created_at = now, ak_updated_at = now\<rparr>"

definition demo_leases :: "uuid \<Rightarrow> instant \<Rightarrow> cli_lease list" where
  "demo_leases tenant_id now =
    [demo_lease tenant_id ''tenant:demo/principal:atlas-shell'' ''acc_demo_1'' ''Meridian'' Direct 8 3 now,
     demo_lease tenant_id ''tenant:demo/principal:review-bot'' ''acc_demo_2'' ''Mistral Wing'' Warp 3 1 now]"

definition seed_demo :: "uuid \<Rightarrow> uuid \<Rightarrow> instant \<Rightarrow> runtime_state \<Rightarrow> runtime_state" where
  "seed_demo tenant_id key_id now rt =
    (let rt = rt\<lparr>rt_tenants := hm_insert tenant_id (demo_tenant tenant_id now) (rt_tenants rt),
           rt_api_keys := hm_insert ''cmgr_demo_key'' (demo_key tenant_id key_id now) (rt_api_keys rt)\<rparr>;
         rt = fold (\<lambda>account rt. rt\<lparr>
             rt_route_states := hm_insert (ac_id account) (demo_route_state now account) (rt_route_states rt),
             rt_accounts := hm_insert (ac_id account) account (rt_accounts rt)\<rparr>) (demo_accounts tenant_id now) rt
     in fold (\<lambda>lease rt. rt\<lparr>rt_leases := hm_insert (ls_principal_id lease) lease (rt_leases rt)\<rparr>)
          (demo_leases tenant_id now) rt)"

subsection \<open>The start of an instance\<close>

text \<open>
  The second component is the bootstrap batch handed to the database, when there is one.
\<close>

definition start_instance ::
  "config \<Rightarrow> (persistence_snapshot, str) result option \<Rightarrow> bool \<Rightarrow> uuid \<Rightarrow> uuid \<Rightarrow> instant
     \<Rightarrow> app_state \<times> persistence_message list option" where
  "start_instance config loaded bus_connected tenant_id key_id now =
    (let app = \<lparr>ap_config = config, ap_runtime = initial_runtime, ap_writer_tx = [],
           ap_bus_tx = (if bus_connected then Some [] else None), ap_recover_tasks = []\<rparr>
     in case (case loaded of
                Some (Inr snapshot) \<Rightarrow> if has_data snapshot then Some snapshot else None
              | _ \<Rightarrow> None) of
          Some snapshot \<Rightarrow> (on_runtime (load_snapshot snapshot) app, None)
        | None \<Rightarrow>
            if cf_enable_demo_seed config then
              (let app = on_runtime (seed_demo tenant_id key_id now) app
               in (app, if loaded = None then None else Some (runtime_snapshot_batch (ap_runtime app))))
            else (app, None))"

subsection \<open>Laws\<close>

text \<open>What the storage holds of an instance, the rows of a table in any order.\<close>

definition snapshot_of :: "persistence_snapshot \<Rightarrow> runtime_state \<Rightarrow> bool" where
  "snapshot_of s rt \<longleftrightarrow>
     mset (sn_tenants s) = mset (hm_values (rt_tenants rt))
   \<and> mset (sn_api_keys s) = mset (hm_values (rt_api_keys rt))
   \<and> mset (sn_accounts s) = mset (hm_values (rt_accounts rt))
   \<and> mset (sn_credentials s) = mset (hm_values (rt_credentials rt))
   \<and> mset (sn_route_states s) = mset (hm_values (rt_route_states rt))
   \<and> mset (sn_leases s) = mset (hm_values (rt_leases rt))
   \<and> mset (sn_conversation_contexts s) = mset (hm_values (rt_conversation_contexts rt))
   \<and> mset (sn_conversation_threads s) = mset (hm_values (rt_conversation_threads rt))
   \<and> sn_cf_incidents s = rt_cf_incidents rt \<and> sn_thread_edges s = rt_thread_edges rt
   \<and> sn_request_logs s = rt_request_logs rt \<and> sn_cache_metrics s = Some (rt_cache_metrics rt)"

lemma hm_load_permuted:
  assumes "hm_keyed key m" and "mset vs = mset (hm_values m)"
  shows "hm_get (hm_load key vs) = hm_get m"
proof
  fix k
  have "mset (map key vs) = mset (map key (hm_values m))" by (simp add: assms(2))
  then have dist: "distinct (map key vs)"
    using hm_keyed_distinct_values [OF assms(1)] mset_eq_imp_distinct_iff by blast
  have vs: "v \<in> set vs \<longleftrightarrow> hm_get m (key v) = Some v" for v
    using hm_keyed_get [OF assms(1), of v] mset_eq_setD [OF assms(2)] by simp
  show "hm_get (hm_load key vs) k = hm_get m k"
  proof (cases "hm_get m k")
    case (Some v)
    then have "key v = k" by (rule hm_keyedD [OF assms(1)])
    then have "hm_get (hm_load key vs) (key v) = Some v" unfolding hm_load_def
      using vs [of v] Some by (intro hm.get_put_all_distinct dist) simp_all
    with Some \<open>key v = k\<close> show ?thesis by simp
  next
    case None
    have "hm_get (hm_load key vs) k \<noteq> Some w" for w
      using hm.get_put_all_mem [of "[]" key vs k w] None vs [of w] by (auto simp: hm_load_def)
    with None show ?thesis by (metis not_None_eq)
  qed
qed

end
