(* ===== verification/Storage.thy ===== *)
theory Storage
  imports Snapshot
begin

text \<open>
  The Postgres storage, \<open>storage.rs\<close>. A table is a map from its primary key to the row the statement
  binds; a row has the columns' types (\<open>integer\<close> is a signed 32-bit word, an enum is its text). The
  constraints of the migrations (foreign keys with \<open>on delete cascade\<close>, unique columns) are part of
  the statements' effect: a violated one is the error of the statement. \<open>jsonb\<close> columns hold the value
  that was serialised. \<open>st\<close>, a parameter, is what a \<open>timestamptz\<close> column makes of an instant (it keeps
  microseconds).
\<close>

named_theorems bind_defs \<open>rows bound by a statement and values read from a row\<close>

subsection \<open>Rows\<close>

definition max_zero :: "'a::len word \<Rightarrow> 'a word" where
  "max_zero w = (if sint w < 0 then 0 else w)"

lemma max_zero_eq: "max_zero w = (if bit w (LENGTH('a) - Suc 0) then 0 else w :: 'a::len word)"
  by (simp add: max_zero_def bit_last_iff)

lemma max_zero_id:
  assumes "unat w < 2 ^ (LENGTH('a) - 1)"
  shows "max_zero w = (w :: 'a::len word)"
proof -
  have "\<not> bit (unat w) (LENGTH('a) - 1)" using assms by (simp add: bit_iff_odd)
  then have "\<not> bit w (LENGTH('a) - Suc 0)" by (simp add: bit_unsigned_iff)
  then show ?thesis by (simp add: max_zero_eq)
qed

record api_key_row =
  kr_id :: uuid
  kr_tenant_id :: uuid
  kr_name :: str
  kr_email :: "str option"
  kr_role :: str
  kr_token :: str
  kr_default_model :: "str option"
  kr_reasoning_effort :: "str option"
  kr_force_model_override :: bool
  kr_force_reasoning_effort :: bool
  kr_created_at :: instant
  kr_updated_at :: instant

record account_row =
  ar_id :: str
  ar_tenant_id :: uuid
  ar_label :: str
  ar_models :: "str list"
  ar_current_mode :: str
  ar_signals :: scheduling_signals
  ar_created_at :: instant

record route_state_row =
  rr_account_id :: str
  rr_route_mode :: str
  rr_direct_cf_streak :: i32
  rr_warp_cf_streak :: i32
  rr_cooldown_level :: i32
  rr_cooldown_until :: "instant option"
  rr_cooldown_reason :: "str option"
  rr_warp_entered_at :: "instant option"
  rr_last_cf_at :: "instant option"
  rr_success_streak :: i32
  rr_last_success_at :: "instant option"

record lease_row =
  lr_principal_id :: str
  lr_tenant_id :: uuid
  lr_account_id :: str
  lr_account_label :: str
  lr_model :: str
  lr_reasoning_effort :: "str option"
  lr_route_mode :: str
  lr_generation :: i32
  lr_active_subagents :: i32
  lr_created_at :: instant
  lr_last_used_at :: instant

record incident_row =
  ir_id :: str
  ir_account_id :: str
  ir_account_label :: str
  ir_route_mode :: str
  ir_severity :: str
  ir_happened_at :: instant
  ir_cooldown_level :: i32

record metrics_row =
  xr_cached_tokens :: i64
  xr_replay_tokens :: i64
  xr_prefix_hit_ratio :: f64
  xr_warmup_roi :: f64
  xr_static_prefix_tokens :: i64

record log_row =
  gr_id :: str
  gr_api_key_id :: uuid
  gr_tenant_id :: uuid
  gr_user_name :: str
  gr_user_email :: "str option"
  gr_principal_id :: str
  gr_account_id :: str
  gr_account_label :: str
  gr_method :: str
  gr_endpoint :: str
  gr_requested_model :: str
  gr_effective_model :: str
  gr_reasoning_effort :: "str option"
  gr_route_mode :: str
  gr_status_code :: i32
  gr_usage :: request_log_usage
  gr_estimated_cost_usd :: "f64 option"
  gr_created_at :: instant

subsection \<open>What the statements bind\<close>

definition bind_tenant :: "(instant \<Rightarrow> instant) \<Rightarrow> tenant \<Rightarrow> tenant" where
  "bind_tenant st tenant = tenant\<lparr>tn_created_at := st (tn_created_at tenant)\<rparr>"

definition bind_api_key :: "(instant \<Rightarrow> instant) \<Rightarrow> gateway_api_key \<Rightarrow> api_key_row" where
  "bind_api_key st k =
    \<lparr>kr_id = ak_id k, kr_tenant_id = ak_tenant_id k, kr_name = ak_name k, kr_email = Some (ak_email k),
     kr_role = gateway_user_role_as_str (ak_role k), kr_token = ak_token k,
     kr_default_model = ak_default_model k, kr_reasoning_effort = ak_reasoning_effort k,
     kr_force_model_override = ak_force_model_override k,
     kr_force_reasoning_effort = ak_force_reasoning_effort k,
     kr_created_at = st (ak_created_at k), kr_updated_at = st (ak_updated_at k)\<rparr>"

definition bind_account :: "(instant \<Rightarrow> instant) \<Rightarrow> upstream_account \<Rightarrow> account_row" where
  "bind_account st a =
    \<lparr>ar_id = ac_id a, ar_tenant_id = ac_tenant_id a, ar_label = ac_label a, ar_models = ac_models a,
     ar_current_mode = route_mode_as_str (ac_current_mode a), ar_signals = ac_signals a,
     ar_created_at = st (ac_created_at a)\<rparr>"

definition bind_credential :: "(instant \<Rightarrow> instant) \<Rightarrow> upstream_credential \<Rightarrow> upstream_credential" where
  "bind_credential st c =
     c\<lparr>cr_created_at := st (cr_created_at c), cr_updated_at := st (cr_updated_at c)\<rparr>"

definition bind_route_state :: "(instant \<Rightarrow> instant) \<Rightarrow> account_route_state \<Rightarrow> route_state_row" where
  "bind_route_state st r =
    \<lparr>rr_account_id = rs_account_id r, rr_route_mode = route_mode_as_str (rs_route_mode r),
     rr_direct_cf_streak = rs_direct_cf_streak r, rr_warp_cf_streak = rs_warp_cf_streak r,
     rr_cooldown_level = word_of_nat (rs_cooldown_level r),
     rr_cooldown_until = map_option st (rs_cooldown_until r), rr_cooldown_reason = rs_cooldown_reason r,
     rr_warp_entered_at = map_option st (rs_warp_entered_at r), rr_last_cf_at = map_option st (rs_last_cf_at r),
     rr_success_streak = rs_success_streak r, rr_last_success_at = map_option st (rs_last_success_at r)\<rparr>"

definition bind_lease_row :: "(instant \<Rightarrow> instant) \<Rightarrow> cli_lease \<Rightarrow> lease_row" where
  "bind_lease_row st l =
    \<lparr>lr_principal_id = ls_principal_id l, lr_tenant_id = ls_tenant_id l, lr_account_id = ls_account_id l,
     lr_account_label = ls_account_label l, lr_model = ls_model l, lr_reasoning_effort = ls_reasoning_effort l,
     lr_route_mode = route_mode_as_str (ls_route_mode l), lr_generation = ls_generation l,
     lr_active_subagents = ls_active_subagents l, lr_created_at = st (ls_created_at l),
     lr_last_used_at = st (ls_last_used_at l)\<rparr>"

definition bind_incident :: "(instant \<Rightarrow> instant) \<Rightarrow> cf_incident \<Rightarrow> incident_row" where
  "bind_incident st i =
    \<lparr>ir_id = ci_id i, ir_account_id = ci_account_id i, ir_account_label = ci_account_label i,
     ir_route_mode = route_mode_as_str (ci_route_mode i), ir_severity = ci_severity i,
     ir_happened_at = st (ci_happened_at i), ir_cooldown_level = word_of_nat (ci_cooldown_level i)\<rparr>"

definition bind_context :: "(instant \<Rightarrow> instant) \<Rightarrow> conversation_context \<Rightarrow> conversation_context" where
  "bind_context st c = c\<lparr>cc_updated_at := map_option st (cc_updated_at c)\<rparr>"

definition bind_thread :: "(instant \<Rightarrow> instant) \<Rightarrow> conversation_thread \<Rightarrow> conversation_thread" where
  "bind_thread st t =
     t\<lparr>th_last_compaction_at := map_option st (th_last_compaction_at t),
       th_created_at := st (th_created_at t), th_updated_at := st (th_updated_at t)\<rparr>"

definition bind_edge :: "(instant \<Rightarrow> instant) \<Rightarrow> thread_edge \<Rightarrow> thread_edge" where
  "bind_edge st e = e\<lparr>te_created_at := st (te_created_at e)\<rparr>"

definition bind_metrics :: "cache_metrics \<Rightarrow> metrics_row" where
  "bind_metrics m =
    \<lparr>xr_cached_tokens = cm_cached_tokens m, xr_replay_tokens = cm_replay_tokens m,
     xr_prefix_hit_ratio = cm_prefix_hit_ratio m, xr_warmup_roi = cm_warmup_roi m,
     xr_static_prefix_tokens = cm_static_prefix_tokens m\<rparr>"

definition bind_log :: "(instant \<Rightarrow> instant) \<Rightarrow> request_log_entry \<Rightarrow> log_row" where
  "bind_log st e =
    \<lparr>gr_id = re_id e, gr_api_key_id = re_api_key_id e, gr_tenant_id = re_tenant_id e,
     gr_user_name = re_user_name e, gr_user_email = Some (re_user_email e),
     gr_principal_id = re_principal_id e, gr_account_id = re_account_id e,
     gr_account_label = re_account_label e, gr_method = re_method e, gr_endpoint = re_endpoint e,
     gr_requested_model = re_requested_model e, gr_effective_model = re_effective_model e,
     gr_reasoning_effort = re_reasoning_effort e, gr_route_mode = route_mode_as_str (re_route_mode e),
     gr_status_code = ucast (re_status_code e), gr_usage = re_usage e,
     gr_estimated_cost_usd = re_estimated_cost_usd e, gr_created_at = st (re_created_at e)\<rparr>"

subsection \<open>What a row is read as\<close>

definition read_api_key :: "api_key_row \<Rightarrow> gateway_api_key" where
  "read_api_key r =
    \<lparr>ak_id = kr_id r, ak_tenant_id = kr_tenant_id r, ak_name = kr_name r,
     ak_email = (case kr_email r of Some e \<Rightarrow> e | None \<Rightarrow> []),
     ak_role = gateway_user_role_from_db (kr_role r), ak_token = kr_token r,
     ak_default_model = kr_default_model r, ak_reasoning_effort = kr_reasoning_effort r,
     ak_force_model_override = kr_force_model_override r,
     ak_force_reasoning_effort = kr_force_reasoning_effort r,
     ak_created_at = kr_created_at r, ak_updated_at = kr_updated_at r\<rparr>"

definition read_account :: "account_row \<Rightarrow> upstream_account" where
  "read_account r =
    \<lparr>ac_id = ar_id r, ac_tenant_id = ar_tenant_id r, ac_label = ar_label r, ac_models = ar_models r,
     ac_current_mode = route_mode_from_db (ar_current_mode r), ac_signals = ar_signals r,
     ac_created_at = ar_created_at r\<rparr>"

definition read_route_state :: "route_state_row \<Rightarrow> account_route_state" where
  "read_route_state r =
    \<lparr>rs_account_id = rr_account_id r, rs_route_mode = route_mode_from_db (rr_route_mode r),
     rs_direct_cf_streak = max_zero (rr_direct_cf_streak r), rs_warp_cf_streak = max_zero (rr_warp_cf_streak r),
     rs_cooldown_level = unat (max_zero (rr_cooldown_level r)), rs_cooldown_until = rr_cooldown_until r,
     rs_cooldown_reason = rr_cooldown_reason r, rs_warp_entered_at = rr_warp_entered_at r,
     rs_last_cf_at = rr_last_cf_at r, rs_success_streak = max_zero (rr_success_streak r),
     rs_last_success_at = rr_last_success_at r\<rparr>"

definition read_lease :: "lease_row \<Rightarrow> cli_lease" where
  "read_lease r =
    \<lparr>ls_principal_id = lr_principal_id r, ls_tenant_id = lr_tenant_id r, ls_account_id = lr_account_id r,
     ls_account_label = lr_account_label r, ls_model = lr_model r, ls_reasoning_effort = lr_reasoning_effort r,
     ls_route_mode = route_mode_from_db (lr_route_mode r), ls_generation = max_zero (lr_generation r),
     ls_active_subagents = max_zero (lr_active_subagents r), ls_created_at = lr_created_at r,
     ls_last_used_at = lr_last_used_at r\<rparr>"

definition read_incident :: "incident_row \<Rightarrow> cf_incident" where
  "read_incident r =
    \<lparr>ci_id = ir_id r, ci_account_id = ir_account_id r, ci_account_label = ir_account_label r,
     ci_route_mode = route_mode_from_db (ir_route_mode r), ci_severity = ir_severity r,
     ci_happened_at = ir_happened_at r, ci_cooldown_level = unat (max_zero (ir_cooldown_level r))\<rparr>"

definition read_metrics :: "metrics_row \<Rightarrow> cache_metrics" where
  "read_metrics r =
    (let cached_tokens = max_zero (xr_cached_tokens r); replay_tokens = max_zero (xr_replay_tokens r)
     in \<lparr>cm_cached_tokens = cached_tokens, cm_replay_tokens = replay_tokens,
         cm_prefix_hit_ratio = xr_prefix_hit_ratio r, cm_request_hit_ratio = xr_prefix_hit_ratio r,
         cm_token_hit_ratio = (if 0 < replay_tokens then f_div (f_of_word cached_tokens) (f_of_word replay_tokens)
           else Fin 0),
         cm_warmup_roi = xr_warmup_roi r, cm_static_prefix_tokens = max_zero (xr_static_prefix_tokens r)\<rparr>)"

definition read_log :: "log_row \<Rightarrow> request_log_entry" where
  "read_log r =
    \<lparr>re_id = gr_id r, re_api_key_id = gr_api_key_id r, re_tenant_id = gr_tenant_id r,
     re_user_name = gr_user_name r, re_user_email = (case gr_user_email r of Some e \<Rightarrow> e | None \<Rightarrow> []),
     re_principal_id = gr_principal_id r, re_account_id = gr_account_id r,
     re_account_label = gr_account_label r, re_method = gr_method r, re_endpoint = gr_endpoint r,
     re_requested_model = gr_requested_model r, re_effective_model = gr_effective_model r,
     re_reasoning_effort = gr_reasoning_effort r, re_route_mode = route_mode_from_db (gr_route_mode r),
     re_status_code = ucast (max_zero (gr_status_code r)), re_usage = gr_usage r,
     re_estimated_cost_usd = gr_estimated_cost_usd r, re_created_at = gr_created_at r\<rparr>"

subsection \<open>Tables\<close>

record database =
  db_tenants :: "(uuid, tenant) hmap"
  db_api_keys :: "(uuid, api_key_row) hmap"
  db_accounts :: "(str, account_row) hmap"
  db_credentials :: "(str, upstream_credential) hmap"
  db_route_states :: "(str, route_state_row) hmap"
  db_leases :: "(str, lease_row) hmap"
  db_incidents :: "(str, incident_row) hmap"
  db_contexts :: "(str, conversation_context) hmap"
  db_threads :: "(str, conversation_thread) hmap"
  db_edges :: "(str \<times> str \<times> str, thread_edge) hmap"
  db_metrics :: "metrics_row option"
  db_logs :: "(str, log_row) hmap"

definition empty_database :: database where
  "empty_database = \<lparr>db_tenants = [], db_api_keys = [], db_accounts = [], db_credentials = [],
     db_route_states = [], db_leases = [], db_incidents = [], db_contexts = [], db_threads = [],
     db_edges = [], db_metrics = None, db_logs = []\<rparr>"

datatype sql_error = Foreign_Key_Violation | Unique_Violation

text \<open>The references and unique columns of a statement, then its effect.\<close>

definition sql_exec :: "bool \<Rightarrow> bool \<Rightarrow> database \<Rightarrow> (database, sql_error) result" where
  "sql_exec unique references db =
     (if \<not> unique then Inl Unique_Violation else if \<not> references then Inl Foreign_Key_Violation else Inr db)"

definition taken_by_other :: "('v \<Rightarrow> 'c) \<Rightarrow> 'k \<Rightarrow> 'c \<Rightarrow> ('k, 'v) hmap \<Rightarrow> bool" where
  "taken_by_other column k c table \<longleftrightarrow> list_ex (\<lambda>(k', row). k' \<noteq> k \<and> column row = c) table"

definition edge_key :: "thread_edge \<Rightarrow> str \<times> str \<times> str" where
  "edge_key e = (te_parent_thread_id e, te_child_thread_id e, te_relation e)"

text \<open>\<open>on delete cascade\<close> from \<open>upstream_accounts\<close>.\<close>

definition sql_delete_account :: "str \<Rightarrow> database \<Rightarrow> database" where
  "sql_delete_account account_id db = db\<lparr>
     db_accounts := hm_remove account_id (db_accounts db),
     db_credentials := hm_retain (\<lambda>r. cr_account_id r \<noteq> account_id) (db_credentials db),
     db_route_states := hm_retain (\<lambda>r. rr_account_id r \<noteq> account_id) (db_route_states db),
     db_leases := hm_retain (\<lambda>r. lr_account_id r \<noteq> account_id) (db_leases db),
     db_incidents := hm_retain (\<lambda>r. ir_account_id r \<noteq> account_id) (db_incidents db)\<rparr>"

fun persist_message :: "(instant \<Rightarrow> instant) \<Rightarrow> persistence_message \<Rightarrow> database \<Rightarrow> (database, sql_error) result" where
  "persist_message st (TenantUpsert t) db =
     sql_exec (\<not> taken_by_other tn_slug (tn_id t) (tn_slug t) (db_tenants db)) True
       (db\<lparr>db_tenants := hm_insert (tn_id t) (bind_tenant st t) (db_tenants db)\<rparr>)"
| "persist_message st (ApiKeyUpsert k) db =
     sql_exec (\<not> taken_by_other kr_token (ak_id k) (ak_token k) (db_api_keys db))
       (hm_get (db_tenants db) (ak_tenant_id k) \<noteq> None)
       (db\<lparr>db_api_keys := hm_insert (ak_id k) (bind_api_key st k) (db_api_keys db)\<rparr>)"
| "persist_message st (AccountUpsert a) db =
     sql_exec True (hm_get (db_tenants db) (ac_tenant_id a) \<noteq> None)
       (db\<lparr>db_accounts := hm_insert (ac_id a) (bind_account st a) (db_accounts db)\<rparr>)"
| "persist_message st (AccountDelete account_id) db = Inr (sql_delete_account account_id db)"
| "persist_message st (CredentialUpsert c) db =
     sql_exec True (hm_get (db_accounts db) (cr_account_id c) \<noteq> None)
       (db\<lparr>db_credentials := hm_insert (cr_account_id c) (bind_credential st c) (db_credentials db)\<rparr>)"
| "persist_message st (RouteStateUpsert r) db =
     sql_exec True (hm_get (db_accounts db) (rs_account_id r) \<noteq> None)
       (db\<lparr>db_route_states := hm_insert (rs_account_id r) (bind_route_state st r) (db_route_states db)\<rparr>)"
| "persist_message st (LeaseUpsert l) db =
     sql_exec True (hm_get (db_tenants db) (ls_tenant_id l) \<noteq> None \<and> hm_get (db_accounts db) (ls_account_id l) \<noteq> None)
       (db\<lparr>db_leases := hm_insert (ls_principal_id l) (bind_lease_row st l) (db_leases db)\<rparr>)"
| "persist_message st (LeaseDelete principal_id) db =
     Inr (db\<lparr>db_leases := hm_remove principal_id (db_leases db)\<rparr>)"
| "persist_message st (IncidentInsert i) db =
     (if hm_get (db_incidents db) (ci_id i) \<noteq> None then Inr db
      else sql_exec True (hm_get (db_accounts db) (ci_account_id i) \<noteq> None)
        (db\<lparr>db_incidents := hm_insert (ci_id i) (bind_incident st i) (db_incidents db)\<rparr>))"
| "persist_message st (ConversationContextUpsert c) db =
     Inr (db\<lparr>db_contexts := hm_insert (cc_principal_id c) (bind_context st c) (db_contexts db)\<rparr>)"
| "persist_message st (ConversationThreadUpsert t) db =
     sql_exec (\<not> taken_by_other th_principal_id (th_thread_id t) (th_principal_id t) (db_threads db))
       (hm_get (db_tenants db) (th_tenant_id t) \<noteq> None)
       (db\<lparr>db_threads := hm_insert (th_thread_id t) (bind_thread st t) (db_threads db)\<rparr>)"
| "persist_message st (ThreadEdgeUpsert e) db =
     sql_exec True (hm_get (db_threads db) (te_parent_thread_id e) \<noteq> None
         \<and> hm_get (db_threads db) (te_child_thread_id e) \<noteq> None)
       (db\<lparr>db_edges := hm_insert (edge_key e) (bind_edge st e) (db_edges db)\<rparr>)"
| "persist_message st (CacheMetricsUpsert m) db = Inr (db\<lparr>db_metrics := Some (bind_metrics m)\<rparr>)"
| "persist_message st (RequestLogInsert e) db =
     (if hm_get (db_logs db) (re_id e) \<noteq> None then Inr db
      else sql_exec True (hm_get (db_api_keys db) (re_api_key_id e) \<noteq> None
          \<and> hm_get (db_tenants db) (re_tenant_id e) \<noteq> None)
        (db\<lparr>db_logs := hm_insert (re_id e) (bind_log st e) (db_logs db)\<rparr>))"

text \<open>The statements of a batch run in one transaction: an error ends it without a commit.\<close>

fun persist_all :: "(instant \<Rightarrow> instant) \<Rightarrow> persistence_message list \<Rightarrow> database \<Rightarrow> (database, sql_error) result" where
  "persist_all st [] tx = Inr tx"
| "persist_all st (message # batch) tx =
    (case persist_message st message tx of Inl error \<Rightarrow> Inl error | Inr tx \<Rightarrow> persist_all st batch tx)"

definition persist_batch ::
  "(instant \<Rightarrow> instant) \<Rightarrow> persistence_message list \<Rightarrow> database \<Rightarrow> (unit, sql_error) result \<times> database" where
  "persist_batch st batch db =
    (case persist_all st batch db of Inl error \<Rightarrow> (Inl error, db) | Inr tx \<Rightarrow> (Inr (), tx))"

text \<open>\<open>desc\<close> on a nullable column puts the nulls first.\<close>

fun desc_nulls_first :: "instant option \<Rightarrow> instant option \<Rightarrow> ordering" where
  "desc_nulls_first (Some a) (Some b) = cmp b a"
| "desc_nulls_first None (Some _) = Less"
| "desc_nulls_first (Some _) None = Greater"
| "desc_nulls_first None None = Equal"

text \<open>The rows of a query come in the order of its \<open>order by\<close>; rows that tie, in any order.\<close>

definition storage_load_snapshot :: "database \<Rightarrow> persistence_snapshot" where
  "storage_load_snapshot db =
    \<lparr>sn_tenants = sort_by (\<lambda>a b. cmp (tn_created_at a) (tn_created_at b)) (hm_values (db_tenants db)),
     sn_api_keys = sort_by (\<lambda>a b. cmp (ak_created_at a) (ak_created_at b))
       (map read_api_key (hm_values (db_api_keys db))),
     sn_accounts = sort_by (\<lambda>a b. cmp (ac_created_at a) (ac_created_at b))
       (map read_account (hm_values (db_accounts db))),
     sn_credentials = sort_by (\<lambda>a b. cmp (cr_updated_at a) (cr_updated_at b)) (hm_values (db_credentials db)),
     sn_route_states = map read_route_state (hm_values (db_route_states db)),
     sn_leases = sort_by (\<lambda>a b. cmp (ls_last_used_at b) (ls_last_used_at a))
       (map read_lease (hm_values (db_leases db))),
     sn_cf_incidents = take 128 (sort_by (\<lambda>a b. cmp (ci_happened_at b) (ci_happened_at a))
       (map read_incident (hm_values (db_incidents db)))),
     sn_conversation_contexts = sort_by (\<lambda>a b. desc_nulls_first (cc_updated_at a) (cc_updated_at b))
       (hm_values (db_contexts db)),
     sn_conversation_threads = sort_by (\<lambda>a b. cmp (th_created_at a) (th_created_at b)) (hm_values (db_threads db)),
     sn_thread_edges = sort_by (\<lambda>a b. cmp (te_created_at a) (te_created_at b)) (hm_values (db_edges db)),
     sn_cache_metrics = map_option read_metrics (db_metrics db),
     sn_request_logs = take 512 (sort_by (\<lambda>a b. cmp (re_created_at b) (re_created_at a))
       (map read_log (hm_values (db_logs db))))\<rparr>"

text \<open>
  The writer task: it takes what has arrived, at most 64 messages, and stores it; a batch whose
  transaction fails is logged and dropped.
\<close>

inductive writer_step ::
  "(instant \<Rightarrow> instant) \<Rightarrow> persistence_message list \<times> database \<Rightarrow> persistence_message list \<times> database \<Rightarrow> bool"
  for st where
  "batch \<noteq> [] \<Longrightarrow> length batch \<le> 64 \<Longrightarrow>
     writer_step st (batch @ queue, db) (queue, snd (persist_batch st batch db))"

inductive_cases writer_stepE [elim!]: "writer_step st x y"

end
