(* ===== verification/Storage_Laws.thy ===== *)
theory Storage_Laws
  imports Storage
begin

text \<open>
  The database as a refinement of the bus: what a committed batch stores is what a peer that handles
  the messages holds, up to the mode of an account (which a route state message changes at a peer
  and the \<open>upstream_accounts\<close> row of the database only with the account's own message). So an
  instance that restarts finds the tables of the instance that stopped.
\<close>

subsection \<open>Rows read back\<close>

definition storable_times :: "(instant \<Rightarrow> instant) \<Rightarrow> instant list \<Rightarrow> instant option list \<Rightarrow> bool" where
  "storable_times st ts os \<longleftrightarrow> list_all (\<lambda>t. st t = t) ts \<and> list_all (\<lambda>t. map_option st t = t) os"

definition small :: "u32 \<Rightarrow> bool" where
  "small n \<longleftrightarrow> unat n < 2 ^ 31"

text \<open>The instants have the precision of the column, the counters fit an \<open>integer\<close>.\<close>

fun storable :: "(instant \<Rightarrow> instant) \<Rightarrow> persistence_message \<Rightarrow> bool" where
  "storable st (TenantUpsert t) \<longleftrightarrow> storable_times st [tn_created_at t] []"
| "storable st (ApiKeyUpsert k) \<longleftrightarrow> storable_times st [ak_created_at k, ak_updated_at k] []"
| "storable st (AccountUpsert a) \<longleftrightarrow> storable_times st [ac_created_at a] []"
| "storable st (CredentialUpsert c) \<longleftrightarrow> storable_times st [cr_created_at c, cr_updated_at c] []"
| "storable st (RouteStateUpsert r) \<longleftrightarrow>
     storable_times st [] [rs_cooldown_until r, rs_warp_entered_at r, rs_last_cf_at r, rs_last_success_at r]
     \<and> small (rs_direct_cf_streak r) \<and> small (rs_warp_cf_streak r) \<and> small (rs_success_streak r)
     \<and> rs_cooldown_level r < 2 ^ 31"
| "storable st (LeaseUpsert l) \<longleftrightarrow> storable_times st [ls_created_at l, ls_last_used_at l] []
     \<and> small (ls_generation l) \<and> small (ls_active_subagents l)"
| "storable st (IncidentInsert i) \<longleftrightarrow> storable_times st [ci_happened_at i] [] \<and> ci_cooldown_level i < 2 ^ 31"
| "storable st (ConversationContextUpsert c) \<longleftrightarrow> storable_times st [] [cc_updated_at c]"
| "storable st (ConversationThreadUpsert t) \<longleftrightarrow>
     storable_times st [th_created_at t, th_updated_at t] [th_last_compaction_at t]"
| "storable st (ThreadEdgeUpsert e) \<longleftrightarrow> storable_times st [te_created_at e] []"
| "storable st (RequestLogInsert e) \<longleftrightarrow> storable_times st [re_created_at e] []"
| "storable st _ \<longleftrightarrow> True"

lemma max_zero_small: "small n \<Longrightarrow> max_zero n = n"
  by (rule max_zero_id) (simp add: small_def)

lemma max_zero_level: "n < 2 ^ 31 \<Longrightarrow> unat (max_zero (word_of_nat n :: 32 word)) = n"
  by (subst max_zero_id) (simp_all add: unat_of_nat)

lemma max_zero_status: "ucast (max_zero (ucast (n :: u16) :: 32 word)) = n"
proof -
  have "unat (ucast n :: 32 word) < 2 ^ 31"
    using unsigned_less [of n, where 'a = nat] by (simp add: unsigned_ucast_eq take_bit_eq_mod)
  then show ?thesis by (subst max_zero_id) (simp_all add: ucast_up_ucast_id is_up)
qed

lemma read_bound:
  "storable st (TenantUpsert t) \<Longrightarrow> bind_tenant st t = t"
  "storable st (ApiKeyUpsert k) \<Longrightarrow> read_api_key (bind_api_key st k) = k"
  "storable st (AccountUpsert a) \<Longrightarrow> read_account (bind_account st a) = a"
  "storable st (CredentialUpsert c) \<Longrightarrow> bind_credential st c = c"
  "storable st (RouteStateUpsert r) \<Longrightarrow> read_route_state (bind_route_state st r) = r"
  "storable st (LeaseUpsert l) \<Longrightarrow> read_lease (bind_lease_row st l) = l"
  "storable st (IncidentInsert i) \<Longrightarrow> read_incident (bind_incident st i) = i"
  "storable st (ConversationContextUpsert x) \<Longrightarrow> bind_context st x = x"
  "storable st (ConversationThreadUpsert h) \<Longrightarrow> bind_thread st h = h"
  "storable st (ThreadEdgeUpsert e) \<Longrightarrow> bind_edge st e = e"
  "storable st (RequestLogInsert g) \<Longrightarrow> read_log (bind_log st g) = g"
  by (simp_all add: storable_times_def max_zero_small max_zero_level max_zero_status
      bind_tenant_def read_api_key_def bind_api_key_def read_account_def bind_account_def
      bind_credential_def read_route_state_def bind_route_state_def read_lease_def bind_lease_row_def
      read_incident_def bind_incident_def bind_context_def bind_thread_def bind_edge_def
      read_log_def bind_log_def route_mode_roundtrip role_roundtrip)

subsection \<open>The database mirrors the tables of an instance\<close>

abbreviation modeless :: "upstream_account \<Rightarrow> upstream_account" where
  "modeless a \<equiv> a\<lparr>ac_current_mode := Direct\<rparr>"

definition db_inv :: "database \<Rightarrow> bool" where
  "db_inv db \<longleftrightarrow> hm_keyed tn_id (db_tenants db) \<and> hm_keyed kr_id (db_api_keys db)
     \<and> hm_keyed ar_id (db_accounts db) \<and> hm_keyed cr_account_id (db_credentials db)
     \<and> hm_keyed rr_account_id (db_route_states db) \<and> hm_keyed lr_principal_id (db_leases db)
     \<and> hm_keyed ir_id (db_incidents db) \<and> hm_keyed cc_principal_id (db_contexts db)
     \<and> hm_keyed th_thread_id (db_threads db) \<and> hm_keyed edge_key (db_edges db)
     \<and> hm_keyed gr_id (db_logs db)"

text \<open>The table of the keys is by token in an instance, by id in the database.\<close>

definition mirrors_keys :: "database \<Rightarrow> runtime_state \<Rightarrow> bool" where
  "mirrors_keys db rt \<longleftrightarrow> (\<forall>t k. hm_get (rt_api_keys rt) t = Some k \<longleftrightarrow>
     ak_token k = t \<and> (\<exists>i row. hm_get (db_api_keys db) i = Some row \<and> read_api_key row = k))"

definition mirrors :: "database \<Rightarrow> runtime_state \<Rightarrow> bool" where
  "mirrors db rt \<longleftrightarrow>
     hm_get (db_tenants db) = hm_get (rt_tenants rt) \<and> mirrors_keys db rt
   \<and> (\<forall>i. map_option (modeless \<circ> read_account) (hm_get (db_accounts db) i) = map_option modeless (hm_get (rt_accounts rt) i))
   \<and> hm_get (db_credentials db) = hm_get (rt_credentials rt)
   \<and> (\<forall>i. map_option read_route_state (hm_get (db_route_states db) i) = hm_get (rt_route_states rt) i)
   \<and> (\<forall>p. map_option read_lease (hm_get (db_leases db) p) = hm_get (rt_leases rt) p)
   \<and> hm_get (db_contexts db) = hm_get (rt_conversation_contexts rt)
   \<and> hm_get (db_threads db) = hm_get (rt_conversation_threads rt)
   \<and> dom (hm_get (db_edges db)) = edge_key ` set (rt_thread_edges rt)"

lemma bind_keys [simp]:
  "tn_id (bind_tenant st t) = tn_id t" "kr_id (bind_api_key st k) = ak_id k"
  "ar_id (bind_account st a) = ac_id a" "cr_account_id (bind_credential st c) = cr_account_id c"
  "rr_account_id (bind_route_state st r) = rs_account_id r" "lr_principal_id (bind_lease_row st l) = ls_principal_id l"
  "ir_id (bind_incident st i) = ci_id i" "cc_principal_id (bind_context st x) = cc_principal_id x"
  "th_thread_id (bind_thread st h) = th_thread_id h" "edge_key (bind_edge st e) = edge_key e"
  "gr_id (bind_log st g) = re_id g"
  by (simp_all add: bind_tenant_def bind_api_key_def bind_account_def bind_credential_def
      bind_route_state_def bind_lease_row_def bind_incident_def bind_context_def bind_thread_def bind_edge_def
      bind_log_def edge_key_def)

lemma sql_exec_Inr [simp]: "sql_exec u r db = Inr db' \<longleftrightarrow> u \<and> r \<and> db' = db"
  by (auto simp: sql_exec_def)

lemma persist_message_inv: "db_inv db \<Longrightarrow> persist_message st m db = Inr db' \<Longrightarrow> db_inv db'"
  by (cases m) (auto simp: db_inv_def sql_delete_account_def intro!: inv_intros split: if_splits)

lemma hm_get_retain_key: "hm_keyed key m \<Longrightarrow> hm_get (hm_retain (\<lambda>v. key v \<noteq> i) m) = (hm_get m)(i := None)"
  by (auto simp: hm_get_retain fun_eq_iff dest: hm_keyedD split: option.splits)

lemma map_retain:
  assumes "hm_wf a" and "hm_wf b" and "map_option f (hm_get a k) = hm_get b k" and "\<And>v. P v = Q (f v)"
  shows "map_option f (hm_get (hm_retain P a) k) = hm_get (hm_retain Q b) k"
  using assms(3) [symmetric] by (simp add: hm_get_retain assms(1,2,4) split: option.split)

lemma edge_key_eq: "edge_key a = edge_key b \<longleftrightarrow> same_edge a b"
  by (simp add: edge_key_def same_edge_def)

lemma list_ex_edge: "list_ex (\<lambda>x. same_edge x e) es \<longleftrightarrow> edge_key e \<in> edge_key ` set es"
  unfolding edge_key_eq [symmetric] list_ex_iff by (metis (no_types, lifting) imageE imageI)

text \<open>
  The API keys of an instance and of a list of messages. A key's id is drawn when it is made and its
  token never changes, so that no two of them have one id and different tokens.
\<close>

definition keys_of :: "runtime_state \<Rightarrow> persistence_message list \<Rightarrow> gateway_api_key set" where
  "keys_of rt ms = ran (hm_get (rt_api_keys rt)) \<union> {k. ApiKeyUpsert k \<in> set ms}"

definition one_token_each :: "gateway_api_key set \<Rightarrow> bool" where
  "one_token_each ks \<longleftrightarrow> (\<forall>k \<in> ks. \<forall>k' \<in> ks. ak_id k = ak_id k' \<longrightarrow> ak_token k = ak_token k')"

lemma one_token_mono: "one_token_each ks' \<Longrightarrow> ks \<subseteq> ks' \<Longrightarrow> one_token_each ks"
  by (auto simp: one_token_each_def)

lemma keys_of_apply: "keys_of (apply_message m rt) ms \<subseteq> keys_of rt (m # ms)"
  by (cases m) (auto simp: keys_of_def handler_defs bus_delete_account_def upsert_route_state_def Let_def ran_def
      split: if_splits option.splits)

lemma key_stored_mirrors:
  assumes "mirrors_keys db rt" and "hm_keyed kr_id (db_api_keys db)" and "storable st (ApiKeyUpsert k)"
    and "one_token_each (keys_of rt [ApiKeyUpsert k])"
    and "\<not> taken_by_other kr_token (ak_id k) (ak_token k) (db_api_keys db)"
  shows "mirrors_keys (db\<lparr>db_api_keys := hm_insert (ak_id k) (bind_api_key st k) (db_api_keys db)\<rparr>)
    (upsert_api_key k rt)"
  unfolding mirrors_keys_def
proof (intro allI)
  fix t k'
  have old: "hm_get (rt_api_keys rt) t = Some k' \<longleftrightarrow>
      ak_token k' = t \<and> (\<exists>i row. hm_get (db_api_keys db) i = Some row \<and> read_api_key row = k')"
    using assms(1) by (simp add: mirrors_keys_def)
  have id: "ak_id k'' = i" if "hm_get (db_api_keys db) i = Some row" "read_api_key row = k''" for i row k''
    using hm_keyedD [OF assms(2) that(1)] that(2) by (auto simp: read_api_key_def)
  have free: "ak_token k'' \<noteq> ak_token k"
    if "hm_get (db_api_keys db) i = Some row" "read_api_key row = k''" "i \<noteq> ak_id k" for i row k''
    using assms(5) that map_of_SomeD [OF that(1)]
    by (force simp: taken_by_other_def list_ex_iff read_api_key_def)
  have same: "ak_token k'' = ak_token k" if "hm_get (rt_api_keys rt) t' = Some k''" "ak_id k'' = ak_id k" for t' k''
    using assms(4) that by (auto simp: one_token_each_def keys_of_def ran_def)
  note bound = read_bound(2) [OF assms(3)]
  show "hm_get (rt_api_keys (upsert_api_key k rt)) t = Some k' \<longleftrightarrow> ak_token k' = t \<and>
      (\<exists>i row. hm_get (db_api_keys (db\<lparr>db_api_keys := hm_insert (ak_id k) (bind_api_key st k) (db_api_keys db)\<rparr>)) i
        = Some row \<and> read_api_key row = k')" (is "?l \<longleftrightarrow> ak_token k' = t \<and> ?r")
  proof (cases "ak_id k' = ak_id k")
    case True
    have "k' = k" if r: "?r"
    proof -
      from r obtain i row where i: "(if i = ak_id k then Some (bind_api_key st k) else hm_get (db_api_keys db) i) = Some row"
        "read_api_key row = k'" by auto
      then have "i = ak_id k" using id [of i row k'] True by (auto split: if_splits)
      with i bound show ?thesis by simp
    qed
    moreover have ?r if "k' = k"
      using that bound by (intro exI [of _ "ak_id k"] exI [of _ "bind_api_key st k"]) simp
    ultimately have "?r \<longleftrightarrow> k' = k" by blast
    moreover have "ak_token k' = ak_token k" if "hm_get (rt_api_keys rt) t = Some k'" using same [OF that True] .
    ultimately show ?thesis using old by (auto simp: upsert_api_key_def)
  next
    case False
    have r: "?r \<longleftrightarrow> (\<exists>i row. hm_get (db_api_keys db) i = Some row \<and> read_api_key row = k')" (is "_ \<longleftrightarrow> ?old")
    proof
      assume "?r"
      then obtain i row where i: "(if i = ak_id k then Some (bind_api_key st k) else hm_get (db_api_keys db) i) = Some row"
        "read_api_key row = k'" by auto
      with False bound have "hm_get (db_api_keys db) i = Some row" by (auto split: if_splits)
      with i show ?old by blast
    next
      assume ?old
      then obtain i row where i: "hm_get (db_api_keys db) i = Some row" "read_api_key row = k'" by blast
      with id [OF i] False show "?r" by (intro exI [of _ i] exI [of _ row]) simp
    qed
    have "ak_token k' \<noteq> ak_token k" if new: ?r
    proof -
      obtain i row where i: "hm_get (db_api_keys db) i = Some row" "read_api_key row = k'"
        using iffD1 [OF r new] by blast
      show ?thesis using free [OF i] id [OF i] False by simp
    qed
    moreover have "hm_get (rt_api_keys (upsert_api_key k rt)) t = (if t = ak_token k then Some k else hm_get (rt_api_keys rt) t)"
      by (simp add: upsert_api_key_def)
    ultimately show ?thesis using r old False by (auto split: if_splits)
  qed
qed

lemma persist_message_mirrors:
  assumes "mirrors db rt" and "db_inv db" and "rt_inv rt" and "storable st m"
    and "persist_message st m db = Inr db'" and "one_token_each (keys_of rt [m])"
  shows "mirrors db' (apply_message m rt)"
proof (cases m)
  case (AccountDelete i)
  have "lr_account_id r = ls_account_id (read_lease r)" for r by (simp add: read_lease_def)
  then have "map_option read_lease (hm_get (hm_retain (\<lambda>r. lr_account_id r \<noteq> i) (db_leases db)) p)
      = hm_get (hm_retain (\<lambda>l. ls_account_id l \<noteq> i) (rt_leases rt)) p" for p
    using assms(1-3) by (intro map_retain) (auto simp: mirrors_def db_inv_def rt_inv_def)
  moreover have "hm_keyed cr_account_id (db_credentials db)" "hm_keyed rr_account_id (db_route_states db)"
    using assms(2) by (auto simp: db_inv_def)
  moreover have "db' = sql_delete_account i db" using assms(5) AccountDelete by simp
  ultimately show ?thesis
    using assms(1) AccountDelete
    by (simp add: mirrors_def mirrors_keys_def sql_delete_account_def bus_delete_account_def hm_get_retain_key)
next
  case (ThreadEdgeUpsert e)
  with assms(1,5) show ?thesis
    by (auto simp: mirrors_def mirrors_keys_def upsert_thread_edge_def list_ex_edge)
next
  case (RouteStateUpsert r)
  with assms(1-5) show ?thesis
    by (auto simp: mirrors_def mirrors_keys_def upsert_route_state_def Let_def read_bound split: option.splits)
next
  case (ApiKeyUpsert k)
  have "hm_keyed kr_id (db_api_keys db)" using assms(2) by (simp add: db_inv_def)
  with assms ApiKeyUpsert show ?thesis
    using key_stored_mirrors [of db rt st k]
    by (auto simp: mirrors_def simp del: storable.simps) (simp_all add: upsert_api_key_def)
qed (use assms(1-5) in \<open>clarsimp simp: mirrors_def mirrors_keys_def handler_defs read_bound simp del: storable.simps split: if_splits\<close>)+

lemma persist_all_append:
  "persist_all st (ms @ ms') db = (case persist_all st ms db of Inl e \<Rightarrow> Inl e | Inr mid \<Rightarrow> persist_all st ms' mid)"
  by (induction ms arbitrary: db) (auto split: sum.splits)

lemma persist_all_inv: "db_inv db \<Longrightarrow> persist_all st ms db = Inr db' \<Longrightarrow> db_inv db'"
  by (induction ms arbitrary: db) (auto split: sum.splits dest: persist_message_inv)

lemma persist_all_mirrors:
  "mirrors db rt \<Longrightarrow> db_inv db \<Longrightarrow> rt_inv rt \<Longrightarrow> list_all (storable st) ms \<Longrightarrow> one_token_each (keys_of rt ms) \<Longrightarrow>
     persist_all st ms db = Inr db' \<Longrightarrow> mirrors db' (apply_messages ms rt)"
proof (induction ms arbitrary: db rt)
  case (Cons m ms)
  then obtain mid where "persist_message st m db = Inr mid" "persist_all st ms mid = Inr db'"
    by (auto split: sum.splits)
  moreover have "one_token_each (keys_of rt [m])" "one_token_each (keys_of (apply_message m rt) ms)"
    using Cons.prems(5) keys_of_apply [of m rt ms] by (auto elim!: one_token_mono simp: keys_of_def)
  ultimately show ?case
    using Cons persist_message_mirrors [of db rt st m mid] persist_message_inv [of db st m mid]
    by (simp add: rt_inv_apply_message)
qed simp

lemma mirrors_same_tables: "mirrors db a \<Longrightarrow> same_tables a b \<Longrightarrow> mirrors db b"
  by (simp add: mirrors_def mirrors_keys_def same_tables_def)

subsection \<open>Restart\<close>

definition restores :: "runtime_state \<Rightarrow> runtime_state \<Rightarrow> bool" where
  "restores r rt \<longleftrightarrow>
     hm_get (rt_tenants r) = hm_get (rt_tenants rt)
   \<and> hm_get (rt_api_keys r) = hm_get (rt_api_keys rt)
   \<and> (\<forall>i. map_option modeless (hm_get (rt_accounts r) i) = map_option modeless (hm_get (rt_accounts rt) i))
   \<and> hm_get (rt_credentials r) = hm_get (rt_credentials rt)
   \<and> hm_get (rt_route_states r) = hm_get (rt_route_states rt)
   \<and> hm_get (rt_leases r) = hm_get (rt_leases rt)
   \<and> hm_get (rt_conversation_contexts r) = hm_get (rt_conversation_contexts rt)
   \<and> hm_get (rt_conversation_threads r) = hm_get (rt_conversation_threads rt)
   \<and> edge_key ` set (rt_thread_edges r) = edge_key ` set (rt_thread_edges rt)"

lemma read_keys [simp]:
  "ac_id (read_account r) = ar_id r" "rs_account_id (read_route_state x) = rr_account_id x"
  "ls_principal_id (read_lease l) = lr_principal_id l"
  by (simp_all add: read_account_def read_route_state_def read_lease_def)

lemma hm_keyed_map_key: "hm_keyed key m \<Longrightarrow> (\<And>v. key' (f v) = key v) \<Longrightarrow> hm_keyed key' (hm_map f m)"
  by (auto simp: hm_keyed_def)

lemma hm_keyed_dom:
  assumes "hm_keyed key m"
  shows "key ` set (hm_values m) = dom (hm_get m)"
proof (intro equalityI subsetI)
  fix k assume "k \<in> key ` set (hm_values m)"
  then obtain v where "v \<in> set (hm_values m)" "k = key v" by blast
  then have "hm_get m k = Some v" using hm_keyed_get [OF assms] by metis
  then show "k \<in> dom (hm_get m)" by (rule domI)
next
  fix k assume "k \<in> dom (hm_get m)"
  then obtain v where v: "hm_get m k = Some v" by blast
  then have "key v = k" by (rule hm_keyedD [OF assms])
  moreover from v this have "v \<in> set (hm_values m)" using hm_keyed_get [OF assms] by metis
  ultimately show "k \<in> key ` set (hm_values m)" by blast
qed

text \<open>Loading the rows of a table, in any order.\<close>

lemma hm_load_rows:
  assumes "hm_keyed key m" and "\<And>v. key' (f v) = key v" and "mset vs = mset (map f (hm_values m))"
  shows "hm_get (hm_load key' vs) = (\<lambda>k. map_option f (hm_get m k))"
  using hm_load_permuted [OF hm_keyed_map_key [where f = f, OF assms(1,2)], of vs] assms(3) by (simp add: fun_eq_iff)

lemma hm_load_functional:
  assumes "\<And>v w. v \<in> set vs \<Longrightarrow> w \<in> set vs \<Longrightarrow> key v = key w \<Longrightarrow> v = w"
  shows "hm_get (hm_load key vs) k = Some v \<longleftrightarrow> v \<in> set vs \<and> key v = k"
proof
  assume "hm_get (hm_load key vs) k = Some v"
  then show "v \<in> set vs \<and> key v = k" using hm.get_put_all_mem [of "[]" key vs k v] by (simp add: hm_load_def)
next
  assume v: "v \<in> set vs \<and> key v = k"
  then obtain w where w: "find (\<lambda>v. key v = k) (rev vs) = Some w" "w \<in> set vs" "key w = k"
    using find_Some_ex [of "rev vs" "\<lambda>v. key v = k"] by auto
  then have "w = v" using assms v by blast
  with w show "hm_get (hm_load key vs) k = Some v" by (simp add: hm_load_def hm.get_put_all)
qed

lemma load_snapshot_fields:
  "rt_tenants (load_snapshot s rt) = hm_load tn_id (sn_tenants s)"
  "rt_api_keys (load_snapshot s rt) = hm_load ak_token (sn_api_keys s)"
  "rt_accounts (load_snapshot s rt) = hm_load ac_id (sn_accounts s)"
  "rt_credentials (load_snapshot s rt) = hm_load cr_account_id (sn_credentials s)"
  "rt_route_states (load_snapshot s rt) = hm_load rs_account_id (sn_route_states s)"
  "rt_leases (load_snapshot s rt) = hm_load ls_principal_id (sn_leases s)"
  "rt_conversation_contexts (load_snapshot s rt) = hm_load cc_principal_id (sn_conversation_contexts s)"
  "rt_conversation_threads (load_snapshot s rt) = hm_load th_thread_id (sn_conversation_threads s)"
  "rt_thread_edges (load_snapshot s rt) = sn_thread_edges s"
  by (simp_all add: load_snapshot_def)

lemma loaded_keys:
  assumes "mirrors_keys db rt" and "db_inv db"
  shows "hm_get (hm_load ak_token (sn_api_keys (storage_load_snapshot db))) = hm_get (rt_api_keys rt)"
proof -
  let ?ks = "sn_api_keys (storage_load_snapshot db)"
  have "hm_keyed kr_id (db_api_keys db)" using assms(2) by (simp add: db_inv_def)
  then have "hm_wf (db_api_keys db)" by (rule hm_keyed_wf)
  then have "row \<in> set (hm_values (db_api_keys db)) \<longleftrightarrow> (\<exists>i. hm_get (db_api_keys db) i = Some row)" for row
    by (rule hm_values_get)
  moreover have "set ?ks = read_api_key ` set (hm_values (db_api_keys db))" by (simp add: storage_load_snapshot_def)
  ultimately have keys: "k \<in> set ?ks \<longleftrightarrow> (\<exists>i row. hm_get (db_api_keys db) i = Some row \<and> read_api_key row = k)" for k
    by (simp only: image_iff) blast
  then have mem: "hm_get (rt_api_keys rt) t = Some k \<longleftrightarrow> k \<in> set ?ks \<and> ak_token k = t" for t k
    using assms(1) keys [of k] unfolding mirrors_keys_def by (auto simp only: conj_commute)
  have one: "v = w" if "v \<in> set ?ks" "w \<in> set ?ks" "ak_token v = ak_token w" for v w
  proof -
    have "hm_get (rt_api_keys rt) (ak_token v) = Some v" by (rule iffD2 [OF mem], intro conjI that(1) refl)
    moreover have "hm_get (rt_api_keys rt) (ak_token v) = Some w"
      by (rule iffD2 [OF mem], intro conjI that(2) that(3) [symmetric])
    ultimately show ?thesis by simp
  qed
  have "hm_get (hm_load ak_token ?ks) t = Some k \<longleftrightarrow> hm_get (rt_api_keys rt) t = Some k" for t k
    by (simp only: hm_load_functional [of ?ks ak_token t k, OF one] mem [of t k])
  then have "hm_get (hm_load ak_token ?ks) t = hm_get (rt_api_keys rt) t" for t by (metis option.exhaust)
  then show ?thesis by (rule ext)
qed

lemma load_mirrored:
  assumes "mirrors db rt" and "db_inv db"
  shows "restores (load_snapshot (storage_load_snapshot db) rt0) rt"
proof -
  have "hm_keyed tn_id (db_tenants db)" "hm_keyed ar_id (db_accounts db)" "hm_keyed cr_account_id (db_credentials db)"
      "hm_keyed rr_account_id (db_route_states db)" "hm_keyed lr_principal_id (db_leases db)"
      "hm_keyed cc_principal_id (db_contexts db)" "hm_keyed th_thread_id (db_threads db)"
      "hm_keyed edge_key (db_edges db)"
    using assms(2) by (simp_all add: db_inv_def)
  note rows = hm_load_permuted [OF this(1) mset_sort_by] hm_load_permuted [OF this(3) mset_sort_by]
    hm_load_permuted [OF this(6) mset_sort_by] hm_load_permuted [OF this(7) mset_sort_by]
    hm_load_rows [where f = read_account, OF this(2) read_keys(1) mset_sort_by]
    hm_load_rows [where f = read_route_state, OF this(4) read_keys(2) refl]
    hm_load_rows [where f = read_lease, OF this(5) read_keys(3) mset_sort_by]
  have "edge_key ` set (hm_values (db_edges db)) = dom (hm_get (db_edges db))"
    using \<open>hm_keyed edge_key (db_edges db)\<close> by (rule hm_keyed_dom)
  then have edges: "edge_key ` set (sn_thread_edges (storage_load_snapshot db)) = dom (hm_get (db_edges db))"
    by (simp add: storage_load_snapshot_def)
  let ?r = "load_snapshot (storage_load_snapshot db) rt0"
  have "hm_get (rt_tenants ?r) = hm_get (db_tenants db)"
      "hm_get (rt_accounts ?r) = (\<lambda>i. map_option read_account (hm_get (db_accounts db) i))"
      "hm_get (rt_credentials ?r) = hm_get (db_credentials db)"
      "hm_get (rt_route_states ?r) = (\<lambda>i. map_option read_route_state (hm_get (db_route_states db) i))"
      "hm_get (rt_leases ?r) = (\<lambda>i. map_option read_lease (hm_get (db_leases db) i))"
      "hm_get (rt_conversation_contexts ?r) = hm_get (db_contexts db)"
      "hm_get (rt_conversation_threads ?r) = hm_get (db_threads db)"
      "rt_thread_edges ?r = sn_thread_edges (storage_load_snapshot db)"
    unfolding load_snapshot_fields storage_load_snapshot_def persistence_snapshot.simps rows by (rule refl)+
  note tables = this
  show ?thesis
    using assms(1) loaded_keys [OF _ assms(2), of rt]
    unfolding restores_def mirrors_def tables option.map_comp edges load_snapshot_fields(2) by (auto intro: ext)
qed

lemma load_snapshot_inv: "rt_inv (load_snapshot (storage_load_snapshot db) initial_runtime)"
  unfolding rt_inv_def load_snapshot_fields
  by (simp add: hm_load_keyed load_snapshot_def initial_runtime_def storage_load_snapshot_def
      INCIDENT_CAP_def REQUEST_LOG_CAP_def)

end
