(* ===== verification/Storage_Properties.thy ===== *)
theory Storage_Properties
  imports Storage_Laws Account_Laws Tenancy
begin

text \<open>
  What survives a restart, what the writer task stores, and the batch that no database accepts.
\<close>

subsection \<open>Restart\<close>

text \<open>Fact (restart_continues).
  Let the database mirror the tables of an instance, let an operation of the instance publish its
  effect, and let the database commit what was sent (with instants of the column's precision and
  counters below \<open>2 ^ 31\<close>, and one token to each id of an API key). An instance that then starts from
  the database has the tables in which the operation ended: tenants, API keys, credentials, route
  states, leases, contexts and threads exactly, accounts up to their mode, edges by their keys; and it
  satisfies the invariant of the runtime state.\<close>

theorem restart_continues:
  assumes "mirrors db (ap_runtime app)" and "db_inv db" and "rt_inv (ap_runtime app)"
    and "published app app'" and "list_all (storable st) (sent app app')"
    and "persist_batch st (sent app app') db = (Inr (), db')"
    and "has_data (storage_load_snapshot db')"
    and "one_token_each (keys_of (ap_runtime app) (sent app app'))"
  shows "restores (ap_runtime (fst (start_instance config (Some (Inr (storage_load_snapshot db'))) bus_connected i k now)))
      (ap_runtime app')
    \<and> rt_inv (ap_runtime (fst (start_instance config (Some (Inr (storage_load_snapshot db'))) bus_connected i k now)))
    \<and> mirrors db' (ap_runtime app') \<and> db_inv db'"
proof -
  have all: "persist_all st (sent app app') db = Inr db'"
    using assms(6) by (auto simp: persist_batch_def split: sum.splits)
  have inv: "db_inv db'" using assms(2) all by (rule persist_all_inv)
  have mirrored: "mirrors db' (ap_runtime app')"
    using persist_all_mirrors [OF assms(1-3,5,8) all] assms(4)
    by (auto simp: published_def intro: mirrors_same_tables)
  have started: "ap_runtime (fst (start_instance config (Some (Inr (storage_load_snapshot db'))) bus_connected i k now))
      = load_snapshot (storage_load_snapshot db') initial_runtime"
    using assms(7) by (simp add: start_instance_def Let_def)
  show ?thesis
    unfolding started using load_mirrored [OF mirrored inv] load_snapshot_inv mirrored inv by blast
qed

text \<open>A database in microseconds that mirrors \<open>ex_pool\<close>; the account \<open>''b''\<close> is deleted.\<close>

definition micros :: "instant \<Rightarrow> instant" where
  "micros t = t div 1000 * 1000"

definition ex_database :: database where
  "ex_database = empty_database\<lparr>
     db_tenants := [(1, ex_tenant)],
     db_accounts := [(''a'', bind_account micros (ex_account ''a'' 1)), (''b'', bind_account micros (ex_account ''b'' 1))],
     db_credentials := [(''a'', ex_credential ''a''), (''b'', ex_credential ''b'')],
     db_route_states := [(''a'', bind_route_state micros (fresh_route_state ''a'')),
       (''b'', bind_route_state micros (fresh_route_state ''b''))],
     db_leases := [(''p'', bind_lease_row micros (ex_lease ''p'' 1 ''a''))]\<rparr>"

lemma ex_database_inv: "db_inv ex_database"
  by (simp add: db_inv_def ex_database_def empty_database_def hm_keyed_iff ex_tenant_def ex_account_def
      ex_credential_def fresh_route_state_def ex_lease_def)

lemma ex_database_mirrors: "mirrors ex_database ex_pool"
  by (simp add: mirrors_def mirrors_keys_def ex_database_def empty_database_def ex_pool_tables read_bound storable_times_def
      micros_def ex_account_def ex_credential_def fresh_route_state_def ex_lease_def small_def)
    (simp add: ex_pool_def initial_runtime_def)

lemma ex_one_token: "one_token_each (keys_of ex_pool [AccountDelete i])"
  by (simp add: one_token_each_def keys_of_def ex_pool_def initial_runtime_def)

definition ex_after_delete :: app_state where
  "ex_after_delete = snd (delete_account ''b'' (ex_app ex_pool))"

definition ex_database_after :: database where
  "ex_database_after = snd (persist_batch micros (sent (ex_app ex_pool) ex_after_delete) ex_database)"

lemma ex_delete_commits:
  "delete_account ''b'' (ex_app ex_pool) = (Inr (), ex_after_delete)"
  "sent (ex_app ex_pool) ex_after_delete = [AccountDelete ''b'']"
  "persist_batch micros (sent (ex_app ex_pool) ex_after_delete) ex_database = (Inr (), ex_database_after)"
  by code_simp+

theorem restart_continues_witness:
  "restores (ap_runtime (fst (start_instance ex_config (Some (Inr (storage_load_snapshot ex_database_after))) False 0 0 5)))
      (ap_runtime ex_after_delete)
    \<and> hm_get (rt_leases (ap_runtime ex_after_delete)) ''p'' = Some (ex_lease ''p'' 1 ''a'')
    \<and> hm_get (rt_accounts (ap_runtime ex_after_delete)) ''b'' = None"
proof -
  have inv: "rt_inv (ap_runtime (ex_app ex_pool))" by simp
  have "list_all (storable micros) (sent (ex_app ex_pool) ex_after_delete)" by (simp add: ex_delete_commits)
  moreover have "has_data (storage_load_snapshot ex_database_after)" by code_simp
  moreover have "hm_get (rt_leases (ap_runtime ex_after_delete)) ''p'' = Some (ex_lease ''p'' 1 ''a'')
      \<and> hm_get (rt_accounts (ap_runtime ex_after_delete)) ''b'' = None"
    by code_simp
  ultimately show ?thesis
    using restart_continues [of ex_database "ex_app ex_pool" ex_after_delete micros ex_database_after]
      ex_database_mirrors ex_database_inv inv delete_published(1) [OF inv ex_delete_commits(1)] ex_delete_commits(2,3)
      ex_one_token
    by simp
qed

subsection \<open>The demo instance\<close>

lemma demo_seeded: "seed_demo i k now initial_runtime = initial_runtime\<lparr>
    rt_tenants := [(i, demo_tenant i now)],
    rt_api_keys := [(''cmgr_demo_key'', demo_key i k now)],
    rt_accounts := map (\<lambda>a. (ac_id a, a)) (demo_accounts i now),
    rt_route_states := map (\<lambda>a. (ac_id a, demo_route_state now a)) (demo_accounts i now),
    rt_leases := map (\<lambda>l. (ls_principal_id l, l)) (demo_leases i now)\<rparr>"
  by (simp add: seed_demo_def demo_tenant_def demo_key_def demo_leases_def demo_accounts_def demo_account_def demo_lease_def
      initial_runtime_def Let_def hm_insert_def)

definition demo_database :: "uuid \<Rightarrow> uuid \<Rightarrow> instant \<Rightarrow> database" where
  "demo_database i k now = empty_database\<lparr>
    db_tenants := [(i, demo_tenant i now)],
    db_api_keys := [(k, bind_api_key (\<lambda>t. t) (demo_key i k now))],
    db_accounts := map (\<lambda>a. (ac_id a, bind_account (\<lambda>t. t) a)) (demo_accounts i now),
    db_route_states := map (\<lambda>a. (ac_id a, bind_route_state (\<lambda>t. t) (demo_route_state now a))) (demo_accounts i now),
    db_leases := map (\<lambda>l. (ls_principal_id l, bind_lease_row (\<lambda>t. t) l)) (demo_leases i now),
    db_metrics := Some (bind_metrics default_cache_metrics)\<rparr>"

lemmas demo_defs = demo_tenant_def demo_key_def demo_leases_def demo_accounts_def demo_account_def demo_lease_def
  demo_route_state_def

lemma demo_persisted:
  assumes "st now = now"
  shows "persist_all st (runtime_snapshot_batch (seed_demo i k now initial_runtime)) empty_database
    = Inr (demo_database i k now)"
  unfolding demo_seeded
  by (simp add: runtime_snapshot_batch_def initial_runtime_def hm_values_def demo_defs sql_exec_def
      empty_database_def taken_by_other_def demo_database_def assms hm_insert_def
      bind_tenant_def bind_api_key_def bind_account_def bind_route_state_def bind_lease_row_def)

lemma demo_loaded:
  "load_snapshot (storage_load_snapshot (demo_database i k now)) initial_runtime = seed_demo i k now initial_runtime"
proof -
  have numbers: "max_zero 0 = (0 :: 32 word)" "max_zero 1 = (1 :: 32 word)" "max_zero 2 = (2 :: 32 word)"
      "max_zero 3 = (3 :: 32 word)" "max_zero 8 = (8 :: 32 word)" "max_zero 0 = (0 :: 64 word)"
    by (simp_all add: max_zero_def)
  show ?thesis
    unfolding demo_seeded
    by (simp add: load_snapshot_def storage_load_snapshot_def demo_database_def demo_defs empty_database_def
        hm_values_def sort_by_def cmp_def initial_runtime_def hm_load_def hm_insert_def numbers
        read_api_key_def bind_api_key_def read_account_def bind_account_def route_mode_roundtrip role_roundtrip
        read_route_state_def bind_route_state_def read_lease_def bind_lease_row_def read_metrics_def bind_metrics_def
        default_cache_metrics_def route_mode_from_db_def gateway_user_role_from_db_def)
qed

text \<open>C35 (demo_restart).
  The demo instance comes back as it was: started on an empty database with demo data enabled, its
  bootstrap batch is accepted in full (every row after the rows it refers to), and an instance that
  starts from what was stored does not seed again and has the same persisted and replicated tables
  (\<open>same_tables\<close>). The seed is taken to read the clock once, and that reading to be of the precision of
  the columns (\<open>st now = now\<close>); a finer instant would come back rounded.\<close>

theorem demo_restart:
  assumes "cf_enable_demo_seed config" and "st now = now"
  shows "\<exists>app batch db. start_instance config (Some (Inr (storage_load_snapshot empty_database))) b i k now = (app, Some batch)
    \<and> persist_batch st batch empty_database = (Inr (), db)
    \<and> snd (start_instance config (Some (Inr (storage_load_snapshot db))) b' i' k' now') = None
    \<and> same_tables (ap_runtime (fst (start_instance config (Some (Inr (storage_load_snapshot db))) b' i' k' now')))
        (ap_runtime app)"
proof (intro exI conjI)
  let ?app = "\<lparr>ap_config = config, ap_runtime = seed_demo i k now initial_runtime, ap_writer_tx = [],
    ap_bus_tx = (if b then Some [] else None), ap_recover_tasks = []\<rparr>"
  have "has_data (storage_load_snapshot (demo_database i k now))"
    by (simp add: has_data_def storage_load_snapshot_def demo_database_def hm_values_def)
  then have restarted: "start_instance config (Some (Inr (storage_load_snapshot (demo_database i k now)))) b' i' k' now'
      = (\<lparr>ap_config = config, ap_runtime = seed_demo i k now initial_runtime, ap_writer_tx = [],
          ap_bus_tx = (if b' then Some [] else None), ap_recover_tasks = []\<rparr>, None)"
    by (simp add: start_instance_def Let_def demo_loaded)
  show "start_instance config (Some (Inr (storage_load_snapshot empty_database))) b i k now
      = (?app, Some (runtime_snapshot_batch (seed_demo i k now initial_runtime)))"
    using assms(1)
    by (simp add: start_instance_def Let_def has_data_def storage_load_snapshot_def empty_database_def)
  show "persist_batch st (runtime_snapshot_batch (seed_demo i k now initial_runtime)) empty_database
      = (Inr (), demo_database i k now)"
    using assms(2) by (simp add: persist_batch_def demo_persisted)
  show "snd (start_instance config (Some (Inr (storage_load_snapshot (demo_database i k now)))) b' i' k' now') = None"
    by (simp add: restarted)
  show "same_tables (ap_runtime (fst (start_instance config (Some (Inr (storage_load_snapshot (demo_database i k now))))
      b' i' k' now'))) (ap_runtime ?app)"
    by (simp add: restarted)
qed

theorem demo_restart_witness:
  "\<exists>app batch db. start_instance (ex_config\<lparr>cf_enable_demo_seed := True\<rparr>)
        (Some (Inr (storage_load_snapshot empty_database))) True 1 2 5000 = (app, Some batch)
    \<and> persist_batch micros batch empty_database = (Inr (), db)
    \<and> same_tables (ap_runtime (fst (start_instance (ex_config\<lparr>cf_enable_demo_seed := True\<rparr>)
        (Some (Inr (storage_load_snapshot db))) True 3 4 9000))) (ap_runtime app)"
proof -
  have "cf_enable_demo_seed (ex_config\<lparr>cf_enable_demo_seed := True\<rparr>)" "micros 5000 = 5000"
    by (simp_all add: micros_def)
  from demo_restart [of "ex_config\<lparr>cf_enable_demo_seed := True\<rparr>" micros 5000, OF this, of True 1 2 True 3 4 9000]
  show ?thesis by blast
qed

subsection \<open>The writer task\<close>

lemma writer_step_all:
  "writer_step st x y \<Longrightarrow> persist_all st (fst x) (snd x) = Inr d \<Longrightarrow> persist_all st (fst y) (snd y) = Inr d"
  by (auto simp: persist_all_append persist_batch_def split: sum.splits)

lemma writer_steps_all:
  "(writer_step st)\<^sup>*\<^sup>* x y \<Longrightarrow> persist_all st (fst x) (snd x) = Inr d \<Longrightarrow> persist_all st (fst y) (snd y) = Inr d"
  by (induction rule: rtranclp_induct) (simp, metis writer_step_all)

lemma writer_can_drain: "\<exists>d. (writer_step st)\<^sup>*\<^sup>* (queue, db) ([], d)"
proof (induction queue arbitrary: db)
  case (Cons m queue)
  have "writer_step st ([m] @ queue, db) (queue, snd (persist_batch st [m] db))"
    by (rule writer_step.intros) simp_all
  then have "writer_step st (m # queue, db) (queue, snd (persist_batch st [m] db))" by simp
  moreover obtain d where "(writer_step st)\<^sup>*\<^sup>* (queue, snd (persist_batch st [m] db)) ([], d)"
    using Cons by blast
  ultimately show ?case by (meson converse_rtranclp_into_rtranclp)
qed blast

text \<open>Fact (writer_drains).
  However the messages fall into batches, a writer that has stored the whole queue has stored every
  message in order, when the database accepts them one after the other; and it can always empty the
  queue.\<close>

theorem writer_drains:
  assumes "persist_all st queue db = Inr d"
  shows "(\<exists>d'. (writer_step st)\<^sup>*\<^sup>* (queue, db) ([], d'))
    \<and> (\<forall>d'. (writer_step st)\<^sup>*\<^sup>* (queue, db) ([], d') \<longrightarrow> d' = d)"
proof -
  have "d' = d" if "(writer_step st)\<^sup>*\<^sup>* (queue, db) ([], d')" for d'
    using writer_steps_all [OF that, of d] assms by simp
  with writer_can_drain show ?thesis by blast
qed

subsection \<open>A batch that no database accepts\<close>

lemma persist_keeps_tenants:
  "persist_message st m db = Inr db' \<Longrightarrow> (\<forall>t. m \<noteq> TenantUpsert t) \<Longrightarrow> db_tenants db' = db_tenants db"
  by (cases m) (auto simp: sql_delete_account_def split: if_splits)

lemma persist_all_keeps_tenants:
  "persist_all st ms db = Inr db' \<Longrightarrow> (\<forall>t. TenantUpsert t \<notin> set ms) \<Longrightarrow> db_tenants db' = db_tenants db"
proof (induction ms arbitrary: db)
  case (Cons m ms)
  then obtain mid where "persist_message st m db = Inr mid" "persist_all st ms mid = Inr db'"
    by (auto split: sum.splits)
  with Cons show ?case using persist_keeps_tenants [of st m db mid] by auto
qed simp

text \<open>Fact (duplicate_slug_loses_batch).
  \<open>create_tenant\<close> accepts a slug that another tenant has: the instance serves the tenant, but the
  database's unique slug refuses it, and with it every message of its batch, those of other tenants
  included.\<close>

theorem duplicate_slug_loses_batch:
  assumes "mirrors db (ap_runtime app)" and "db_inv db"
    and "hm_get (rt_tenants (ap_runtime app)) i = Some other" and "tn_slug other = qt_slug request" and "new_id \<noteq> i"
    and "create_tenant request new_id now app = (created, app')"
    and "\<forall>t. TenantUpsert t \<notin> set before"
  shows "hm_get (rt_tenants (ap_runtime app')) new_id = Some created
    \<and> sent app app' = [TenantUpsert created]
    \<and> (\<exists>e. persist_batch st (before @ sent app app' @ after) db = (Inl e, db))"
proof -
  have created: "tn_id created = new_id" "tn_slug created = qt_slug request"
      "app' = put_tenant created app"
    using assms(6) by (auto simp: create_tenant_def Let_def)
  have "hm_get (db_tenants db) i = Some other" using assms(1,3) by (simp add: mirrors_def)
  then have "(i, other) \<in> set (db_tenants db)" by (rule map_of_SomeD)
  then have taken: "taken_by_other tn_slug new_id (qt_slug request) (db_tenants db)"
    using assms(4,5) by (force simp: taken_by_other_def list_ex_iff)
  have sent: "sent app app' = [TenantUpsert created]" by (simp add: created(3) put_tenant_def sent_def)
  have "\<exists>e. persist_all st (before @ TenantUpsert created # after) db = Inl e"
  proof (cases "persist_all st before db")
    case (Inr mid)
    then have "db_tenants mid = db_tenants db" using assms(7) by (rule persist_all_keeps_tenants)
    with Inr taken created show ?thesis by (simp add: persist_all_append sql_exec_def)
  qed (simp add: persist_all_append)
  then show ?thesis
    using sent by (auto simp: persist_batch_def created(1,3) put_tenant_def)
qed

theorem writer_drains_witness:
  "\<exists>d. (\<forall>d'. (writer_step micros)\<^sup>*\<^sup>* ([TenantUpsert ex_tenant, AccountUpsert (ex_account ''a'' 1)], empty_database) ([], d') = (d' = d))
    \<and> db_accounts d \<noteq> []"
proof -
  let ?q = "[TenantUpsert ex_tenant, AccountUpsert (ex_account ''a'' 1)]"
  obtain d where d: "persist_all micros ?q empty_database = Inr d" "db_accounts d \<noteq> []"
    by (simp add: empty_database_def sql_exec_def taken_by_other_def ex_tenant_def ex_account_def hm_insert_def)
  with writer_drains [OF d(1)] show ?thesis by blast
qed

text \<open>\<open>ex_pool\<close> has a tenant with slug \<open>t\<close>; the lease in the same batch is lost.\<close>

definition ex_slug_request :: create_tenant_request where
  "ex_slug_request = \<lparr>qt_slug = ''t'', qt_name = ''Other''\<rparr>"

theorem duplicate_slug_loses_batch_witness:
  "\<exists>e. persist_batch micros ([LeaseUpsert (ex_lease ''q'' 1 ''a'')]
      @ sent (ex_app ex_pool) (snd (create_tenant ex_slug_request 2 0 (ex_app ex_pool))) @ []) ex_database = (Inl e, ex_database)"
proof -
  have t: "hm_get (rt_tenants (ap_runtime (ex_app ex_pool))) 1 = Some ex_tenant" "tn_slug ex_tenant = qt_slug ex_slug_request"
    by (simp_all add: ex_pool_tables ex_tenant_def ex_slug_request_def)
  have c: "create_tenant ex_slug_request 2 0 (ex_app ex_pool)
      = (fst (create_tenant ex_slug_request 2 0 (ex_app ex_pool)), snd (create_tenant ex_slug_request 2 0 (ex_app ex_pool)))"
    by simp
  show ?thesis
    using duplicate_slug_loses_batch [of ex_database "ex_app ex_pool" 1 ex_tenant ex_slug_request 2 0, OF _ ex_database_inv t _ c,
        of "[LeaseUpsert (ex_lease ''q'' 1 ''a'')]" micros "[]"] ex_database_mirrors
    by auto
qed

end
