(* ===== verification/Json_Ops.thy ===== *)
theory Json_Ops
  imports Json
begin

text \<open>
  What the gateway does with JSON values beyond reading a string field. An object is the list of its
  entries in the order of their keys (\<open>serde_json::Map\<close> is a \<open>BTreeMap\<close> here). Parsing and printing are
  the library's: the definitions that need them take them as parameters.
\<close>

fun json_as_array :: "json \<Rightarrow> json list option" where
  "json_as_array (JArray items) = Some items"
| "json_as_array _ = None"

fun json_as_object :: "json \<Rightarrow> (str \<times> json) list option" where
  "json_as_object (JObject m) = Some m"
| "json_as_object _ = None"

fun json_as_bool :: "json \<Rightarrow> bool option" where
  "json_as_bool (JBool b) = Some b"
| "json_as_bool _ = None"

fun json_as_u64 :: "json \<Rightarrow> u64 option" where
  "json_as_u64 (JPosInt n) = Some n"
| "json_as_u64 _ = None"

fun json_as_i64 :: "json \<Rightarrow> i64 option" where
  "json_as_i64 (JPosInt n) = (if uint n < 2 ^ 63 then Some n else None)"
| "json_as_i64 (JNegInt n) = Some n"
| "json_as_i64 _ = None"

text \<open>\<open>Map::insert\<close> and \<open>Map::remove\<close>.\<close>

fun obj_insert :: "str \<Rightarrow> json \<Rightarrow> (str \<times> json) list \<Rightarrow> (str \<times> json) list" where
  "obj_insert k v [] = [(k, v)]"
| "obj_insert k v ((k', v') # m) =
    (if k = k' then (k, v) # m else if k < k' then (k, v) # (k', v') # m else (k', v') # obj_insert k v m)"

definition obj_remove :: "str \<Rightarrow> (str \<times> json) list \<Rightarrow> (str \<times> json) list" where
  "obj_remove k m = filter (\<lambda>(k', _). k' \<noteq> k) m"

definition obj_has :: "str \<Rightarrow> (str \<times> json) list \<Rightarrow> bool" where
  "obj_has k m \<longleftrightarrow> map_of m k \<noteq> None"

text \<open>\<open>json!({k: v, ...})\<close>.\<close>

definition json_obj :: "(str \<times> json) list \<Rightarrow> json" where
  "json_obj kvs = JObject (fold (\<lambda>(k, v). obj_insert k v) kvs [])"

lemma map_of_obj_insert [simp]: "map_of (obj_insert k v m) = (map_of m)(k \<mapsto> v)"
  by (induction k v m rule: obj_insert.induct) (auto simp: fun_eq_iff)

lemma map_of_obj_remove [simp]: "map_of (obj_remove k m) = (map_of m)(k := None)"
  by (induction m) (auto simp: obj_remove_def fun_eq_iff)

lemma set_obj_insert: "set (obj_insert k v m) \<subseteq> insert (k, v) (set m)"
  by (induction k v m rule: obj_insert.induct) auto

definition obj_sorted :: "(str \<times> json) list \<Rightarrow> bool" where
  "obj_sorted m \<longleftrightarrow> sorted_wrt (<) (map fst m)"

lemma fst_obj_insert: "fst ` set (obj_insert k v m) = insert k (fst ` set m)"
  by (induction k v m rule: obj_insert.induct) auto

lemma obj_sorted_Cons [simp]: "obj_sorted ((k, v) # m) \<longleftrightarrow> (\<forall>x \<in> fst ` set m. k < x) \<and> obj_sorted m"
  by (simp add: obj_sorted_def)

lemma obj_sorted_insert: "obj_sorted m \<Longrightarrow> obj_sorted (obj_insert k v m)"
proof (induction k v m rule: obj_insert.induct)
  case (2 k v k' v' m)
  consider "k = k'" | "k < k'" | "k' < k" by (rule linorder_cases)
  then show ?case
  proof cases
    case 2
    then have "\<forall>x \<in> fst ` set m. k < x" using \<open>obj_sorted ((k', v') # m)\<close> order.strict_trans by fastforce
    with 2 \<open>obj_sorted ((k', v') # m)\<close> show ?thesis by simp
  next
    case 3
    then have "k \<noteq> k'" "\<not> k < k'" by auto
    with 2 3 show ?thesis by (simp add: fst_obj_insert)
  qed (use 2 in simp)
qed (simp add: obj_sorted_def)

lemma obj_sorted_remove: "obj_sorted m \<Longrightarrow> obj_sorted (obj_remove k m)"
  unfolding obj_sorted_def obj_remove_def sorted_wrt_map by (rule sorted_wrt_filter)

lemma json_get_obj [simp]: "json_get (JObject m) k = map_of m k"
  by simp

text \<open>For the termination of functions on values.\<close>

lemma size_member:
  "x \<in> set items \<Longrightarrow> size (x :: json) < Suc (size_list size items)"
  "(k :: str, x) \<in> set m \<Longrightarrow> size (x :: json) < Suc (size_list (size_prod (\<lambda>_. 0) size) m)"
  using size_list_estimation' [of x items "size x" size]
    size_list_estimation' [of "(k, x)" m "size x" "size_prod (\<lambda>_. 0) size"] by simp_all

end
