(* ===== verification/Upstream.thy ===== *)
theory Upstream
  imports Json_Ops Models Runtime
begin

text \<open>
  The upstream client, \<open>upstream.rs\<close>: the request it builds, the egress it picks, and what it makes
  of a response. Sending, zstd and the JSON library are parameters. Header values are the text they
  convert to (\<open>None\<close> when they do not), under lower-case names.
\<close>

type_synonym headers = "(str \<times> str option) list"
type_synonym status_code = nat

definition header_text :: "headers \<Rightarrow> str \<Rightarrow> str option" where
  "header_text headers name = Option.bind (map_of headers name) (\<lambda>v. v)"

definition contains_any :: "str \<Rightarrow> str list \<Rightarrow> bool" where
  "contains_any s needles \<longleftrightarrow> list_ex (str_contains s) needles"

record forward_context =
  fc_conversation_id :: str
  fc_request_id :: str
  fc_subagent :: "str option"
  fc_originator :: "str option"
  fc_window_id :: "str option"
  fc_parent_thread_id :: "str option"

datatype upstream_failure_kind = KCf | KAuth | KQuota | KRateLimited | KCapability | KLength | KContinuation | KGeneric

fun requires_failover :: "upstream_failure_kind \<Rightarrow> bool" where
  "requires_failover KCf = True"
| "requires_failover KAuth = True"
| "requires_failover KQuota = True"
| "requires_failover KRateLimited = True"
| "requires_failover KCapability = True"
| "requires_failover KLength = False"
| "requires_failover KContinuation = False"
| "requires_failover KGeneric = False"

fun kind_cooldown_seconds :: "upstream_failure_kind \<Rightarrow> i64" where
  "kind_cooldown_seconds KCf = 300"
| "kind_cooldown_seconds KAuth = 300"
| "kind_cooldown_seconds KQuota = 1800"
| "kind_cooldown_seconds KRateLimited = 45"
| "kind_cooldown_seconds KCapability = 300"
| "kind_cooldown_seconds KLength = 0"
| "kind_cooldown_seconds KContinuation = 0"
| "kind_cooldown_seconds KGeneric = 0"

fun kind_severity :: "upstream_failure_kind \<Rightarrow> str" where
  "kind_severity KCf = ''cf''"
| "kind_severity KAuth = ''auth''"
| "kind_severity KQuota = ''quota''"
| "kind_severity KRateLimited = ''rate_limited''"
| "kind_severity KCapability = ''capability''"
| "kind_severity KLength = ''length''"
| "kind_severity KContinuation = ''continuation''"
| "kind_severity KGeneric = ''generic''"

datatype upstream_failure_subkind = Quota429 | Cf429 | Ambiguous429

fun subkind_as_str :: "upstream_failure_subkind \<Rightarrow> str" where
  "subkind_as_str Quota429 = ''quota_429''"
| "subkind_as_str Cf429 = ''cf_429''"
| "subkind_as_str Ambiguous429 = ''ambiguous_429''"

record upstream_failure =
  uf_status :: "status_code option"
  uf_body :: "str option"
  uf_kind :: upstream_failure_kind
  uf_subkind :: "upstream_failure_subkind option"
  uf_cf_ray :: "str option"
  uf_reset_at :: "instant option"

subsection \<open>Egress\<close>

record 'c upstream_client =
  uc_default_client :: 'c
  uc_direct_client :: "'c option"
  uc_warp_client :: "'c option"

text \<open>\<open>build\<close> makes a client with a proxy; when it fails the client is left out.\<close>

definition new_upstream_client :: "'c \<Rightarrow> (str \<Rightarrow> 'c option) \<Rightarrow> config \<Rightarrow> 'c upstream_client" where
  "new_upstream_client default_client build config =
    \<lparr>uc_default_client = default_client,
     uc_direct_client = Option.bind (cf_direct_proxy_url config) build,
     uc_warp_client = Option.bind (cf_warp_proxy_url config) build\<rparr>"

definition client_for_route_mode :: "'c upstream_client \<Rightarrow> route_mode \<Rightarrow> 'c" where
  "client_for_route_mode client mode =
    (case mode of
       Direct \<Rightarrow> (case uc_direct_client client of Some c \<Rightarrow> c | None \<Rightarrow> uc_default_client client)
     | Warp \<Rightarrow> (case uc_warp_client client of Some c \<Rightarrow> c | None \<Rightarrow> uc_default_client client))"

subsection \<open>The request\<close>

definition slash :: char where
  "slash = CHR ''/''"

definition trim_start_slashes :: "str \<Rightarrow> str" where
  "trim_start_slashes s = dropWhile (\<lambda>c. c = slash) s"

definition trim_end_slashes :: "str \<Rightarrow> str" where
  "trim_end_slashes s = rev (dropWhile (\<lambda>c. c = slash) (rev s))"

definition ends_with :: "str \<Rightarrow> str \<Rightarrow> bool" where
  "ends_with s p \<longleftrightarrow> starts_with (rev s) (rev p)"

definition endpoint_url :: "str \<Rightarrow> str \<Rightarrow> str" where
  "endpoint_url base_url path =
    (let normalized_base = trim_end_slashes base_url; normalized_path = trim_start_slashes path
     in if ends_with normalized_base normalized_path then normalized_base
        else normalized_base @ [slash] @ normalized_path)"

definition is_codex_chatgpt_backend :: "str \<Rightarrow> bool" where
  "is_codex_chatgpt_backend base_url \<longleftrightarrow> str_contains (to_ascii_lowercase base_url) ''/backend-api/codex''"

definition should_use_zstd_request_compression :: "str \<Rightarrow> str \<Rightarrow> bool" where
  "should_use_zstd_request_compression base_url path \<longleftrightarrow>
     is_codex_chatgpt_backend base_url
   \<and> to_ascii_lowercase (trim_end_slashes (trim_start_slashes path)) \<in> {''responses'', ''responses/compact''}"

definition build_request_body :: "(json \<Rightarrow> str) \<Rightarrow> (str \<Rightarrow> str option) \<Rightarrow> json \<Rightarrow> bool \<Rightarrow> str \<times> bool" where
  "build_request_body render zstd payload compress =
    (let raw = render payload
     in if \<not> compress then (raw, False)
        else case zstd raw of Some compressed \<Rightarrow> (compressed, True) | None \<Rightarrow> (raw, False))"

record upstream_request =
  ur_url :: str
  ur_headers :: "(str \<times> str) list"
  ur_timeout :: "int option"
  ur_body :: str

definition opt_header :: "str \<Rightarrow> str option \<Rightarrow> (str \<times> str) list" where
  "opt_header name v = (case v of Some v \<Rightarrow> [(name, v)] | None \<Rightarrow> [])"

definition upstream_request_of ::
  "(json \<Rightarrow> str) \<Rightarrow> (str \<Rightarrow> str option) \<Rightarrow> upstream_credential \<Rightarrow> str \<Rightarrow> json \<Rightarrow> forward_context \<Rightarrow> bool
     \<Rightarrow> upstream_request" where
  "upstream_request_of render zstd credential path payload context stream =
    (let (body, compressed) = build_request_body render zstd payload
           (should_use_zstd_request_compression (cr_base_url credential) path)
     in \<lparr>ur_url = endpoint_url (cr_base_url credential) path,
         ur_headers =
            [(''authorization'', ''Bearer '' @ cr_bearer_token credential),
             (''session_id'', fc_conversation_id context), (''x-client-request-id'', fc_request_id context),
             (''content-type'', ''application/json'')]
          @ (if stream then [(''accept'', ''text/event-stream'')] else [])
          @ (if compressed then [(''content-encoding'', ''zstd'')] else [])
          @ opt_header ''ChatGPT-Account-ID'' (cr_chatgpt_account_id credential)
          @ opt_header ''x-openai-subagent'' (fc_subagent context)
          @ opt_header ''originator'' (fc_originator context)
          @ opt_header ''x-codex-window-id'' (fc_window_id context)
          @ opt_header ''x-codex-parent-thread-id'' (fc_parent_thread_id context)
          @ cr_extra_headers credential,
         ur_timeout = (if stream then None else Some (secs 300)),
         ur_body = body\<rparr>)"

subsection \<open>Classification of failures\<close>

definition cf_needles :: "str list" where
  "cf_needles = [''cloudflare'', ''cf-ray'', ''attention required'', ''challenge-platform'',
     ''/cdn-cgi/challenge-platform'', ''just a moment'']"

definition looks_like_cf :: "status_code \<Rightarrow> headers \<Rightarrow> str \<Rightarrow> bool" where
  "looks_like_cf status headers body \<longleftrightarrow>
     (status = 403 \<or> status = 429)
   \<and> (map_of headers ''cf-ray'' \<noteq> None \<or> contains_any (to_ascii_lowercase body) cf_needles)"

definition length_needles :: "str list" where
  "length_needles = [''context_length_exceeded'', ''context window'', ''maximum context length'',
     ''input too large'', ''payload too large'', ''request body too large'']"

definition continuation_needles :: "str list" where
  "continuation_needles = [''previous_response_id'', ''previous response id'', ''previous_response_not_found'',
     ''previous response not found'']"

definition classify_failure_body :: "str \<Rightarrow> upstream_failure_kind option" where
  "classify_failure_body body =
    (let lowered = to_ascii_lowercase body in
     if contains_any lowered cf_needles then Some KCf
     else if contains_any lowered [''invalid_api_key'', ''invalid api key'', ''authentication'', ''unauthorized'',
       ''token expired'', ''auth'', ''forbidden''] then Some KAuth
     else if contains_any lowered [''insufficient_quota'', ''usage_limit_reached'', ''quota'', ''billing'',
       ''rate limit reached for this model'', ''usage limit''] then Some KQuota
     else if contains_any lowered length_needles then Some KLength
     else if contains_any lowered continuation_needles then Some KContinuation
     else if contains_any lowered [''reasoning_effort'', ''does not support'', ''unsupported'', ''model not found'',
       ''unknown model'', ''model_not_found'', ''unknown_model''] then Some KCapability
     else None)"

definition classify_failure :: "status_code \<Rightarrow> headers \<Rightarrow> str \<Rightarrow> upstream_failure_kind" where
  "classify_failure status headers body =
    (let body_kind = classify_failure_body body in
     if status = 401 \<or> body_kind = Some KAuth then KAuth
     else if body_kind = Some KQuota then KQuota
     else if (status = 400 \<or> status = 404) \<and> body_kind = Some KCapability then KCapability
     else if looks_like_cf status headers body then KCf
     else if status = 429 then KRateLimited
     else case body_kind of Some kind \<Rightarrow> kind | None \<Rightarrow> KGeneric)"

definition classify_failure_subkind ::
  "status_code \<Rightarrow> headers \<Rightarrow> str \<Rightarrow> upstream_failure_kind \<Rightarrow> upstream_failure_subkind option" where
  "classify_failure_subkind status headers body kind =
    (if status \<noteq> 429 then None
     else case kind of
       KQuota \<Rightarrow> Some Quota429
     | KCf \<Rightarrow> Some Cf429
     | KRateLimited \<Rightarrow> Some (if looks_like_cf status headers body then Cf429 else Ambiguous429)
     | _ \<Rightarrow> None)"

text \<open>\<open>parse\<close> is \<open>serde_json::from_str\<close>.\<close>

definition extract_quota_reset_at :: "(str \<Rightarrow> json option) \<Rightarrow> str \<Rightarrow> instant option" where
  "extract_quota_reset_at parse body =
    (case parse body of
       None \<Rightarrow> None
     | Some v \<Rightarrow>
         map_option (\<lambda>t. secs (sint t))
           (case Option.bind (Option.bind (json_get v ''error'') (\<lambda>e. json_get e ''resets_at'')) json_as_i64 of
              Some t \<Rightarrow> Some t
            | None \<Rightarrow> Option.bind (json_get v ''resets_at'') json_as_i64))"

text \<open>The result of \<open>post_json\<close> from what the transport returns, \<open>None\<close> for no response.\<close>

record 'b transport_response =
  tr_status :: status_code
  tr_headers :: headers
  tr_body :: 'b

definition is_success :: "status_code \<Rightarrow> bool" where
  "is_success status \<longleftrightarrow> 200 \<le> status \<and> status < 300"

definition post_json_result ::
  "(str \<Rightarrow> json option) \<Rightarrow> ('b \<Rightarrow> str) \<Rightarrow> 'b transport_response option
     \<Rightarrow> ('b transport_response, upstream_failure) result" where
  "post_json_result parse text_of response =
    (case response of
       None \<Rightarrow> Inl \<lparr>uf_status = None, uf_body = None, uf_kind = KGeneric, uf_subkind = None,
                uf_cf_ray = None, uf_reset_at = None\<rparr>
     | Some r \<Rightarrow>
         if is_success (tr_status r) then Inr r
         else
           (let status = tr_status r; body = text_of (tr_body r);
                kind = classify_failure status (tr_headers r) body;
                subkind = classify_failure_subkind status (tr_headers r) body kind
            in Inl \<lparr>uf_status = Some status, uf_body = Some body, uf_kind = kind, uf_subkind = subkind,
                 uf_cf_ray = header_text (tr_headers r) ''cf-ray'',
                 uf_reset_at = (if subkind = Some Quota429 \<or> kind = KQuota \<and> status = 429
                   then extract_quota_reset_at parse body else None)\<rparr>))"

definition catalog_models :: "json \<Rightarrow> str list" where
  "catalog_models v =
    (case Option.bind (json_get v ''data'') json_as_array of
       None \<Rightarrow> []
     | Some items \<Rightarrow> List.map_filter (\<lambda>item. json_str_field item ''id'') items)"

text \<open>
  \<open>list_models\<close>: \<open>transport\<close> is what a client does with a request, an error or a status and what became
  of the body as JSON; \<open>show_status\<close> and \<open>render\<close> are the texts of a status and of a value.
\<close>

definition catalog_request_of :: "upstream_credential \<Rightarrow> upstream_request" where
  "catalog_request_of credential =
    \<lparr>ur_url = endpoint_url (cr_base_url credential) ''v1/models'',
     ur_headers = (''authorization'', ''Bearer '' @ cr_bearer_token credential)
       # opt_header ''ChatGPT-Account-ID'' (cr_chatgpt_account_id credential) @ cr_extra_headers credential,
     ur_timeout = Some (secs 30), ur_body = []\<rparr>"

definition client_list_models ::
  "('c \<Rightarrow> upstream_request \<Rightarrow> (status_code \<times> (json, str) result, str) result) \<Rightarrow> (status_code \<Rightarrow> str) \<Rightarrow> (json \<Rightarrow> str)
     \<Rightarrow> 'c upstream_client \<Rightarrow> upstream_credential \<Rightarrow> route_mode \<Rightarrow> (str list, str) result" where
  "client_list_models transport show_status render client credential route_mode =
    (case transport (client_for_route_mode client route_mode) (catalog_request_of credential) of
       Inl error \<Rightarrow> Inl (''upstream model catalog request failed: '' @ error)
     | Inr (_, Inl error) \<Rightarrow> Inl (''invalid upstream model catalog payload: '' @ error)
     | Inr (status, Inr value) \<Rightarrow>
         if \<not> is_success status
         then Inl (''upstream model catalog returned '' @ show_status status @ '': '' @ render value)
         else Inr (catalog_models value))"

end
