(* ===== verification/Failures.thy ===== *)
theory Failures
  imports Upstream Leases Route_Events
begin

text \<open>
  What the gateway (\<open>http/data.rs\<close>) does about a failed upstream call: the failures hidden in a
  successful response, the reasons shown to the client, the retry policy, and the report to the
  account's route state. Printing a floating point number is the parameter \<open>sf\<close>.
\<close>

subsection \<open>Summaries of values\<close>

definition truncate_text :: "str \<Rightarrow> nat \<Rightarrow> str" where
  "truncate_text s limit = (if limit < char_count s then take_chars limit s @ ''...'' else take_chars limit s)"

fun show_number :: "(f64 \<Rightarrow> str) \<Rightarrow> json \<Rightarrow> str" where
  "show_number sf (JPosInt n) = show_word n"
| "show_number sf (JNegInt n) = (if sint n < 0 then ''-'' @ show_nat (nat (- sint n)) else show_nat (nat (sint n)))"
| "show_number sf (JFloat x) = sf x"
| "show_number sf _ = []"

lemma json_size_object: "kv \<in> set m \<Longrightarrow> size (snd kv) < size (JObject m)"
  by (induction m) (auto simp: less_Suc_eq_le prod.size_gen_o_map split: prod.splits)

function summarize_value :: "(f64 \<Rightarrow> str) \<Rightarrow> json \<Rightarrow> str" where
  "summarize_value sf JNull = ''empty''"
| "summarize_value sf (JBool b) = (if b then ''true'' else ''false'')"
| "summarize_value sf (JPosInt n) = show_number sf (JPosInt n)"
| "summarize_value sf (JNegInt n) = show_number sf (JNegInt n)"
| "summarize_value sf (JFloat x) = show_number sf (JFloat x)"
| "summarize_value sf (JString s) = truncate_text s 160"
| "summarize_value sf (JArray items) =
    (let summary = join '' | '' (take 4 (map (summarize_value sf) items))
     in if summary = [] then ''empty'' else truncate_text summary 200)"
| "summarize_value sf (JObject m) =
    (let summaries = map (\<lambda>kv. (fst kv, summarize_value sf (snd kv))) m
     in case find (\<lambda>s. s \<noteq> ''empty'')
          (List.map_filter (map_of summaries) [''text'', ''input'', ''content'', ''value'']) of
          Some s \<Rightarrow> s
        | None \<Rightarrow> truncate_text (join '', '' (map (\<lambda>(k, s). k @ ''='' @ s) (take 5 summaries))) 200)"
  by pat_completeness auto

termination
  by (relation "measure (\<lambda>(sf, v). size v)") (auto simp: less_Suc_eq_le size_list_estimation' dest: json_size_object)

subsection \<open>Usage and model of a response\<close>

definition usage_object :: "json \<Rightarrow> (str \<times> json) list option" where
  "usage_object v =
    (case Option.bind (Option.bind (json_get v ''response'') (\<lambda>r. json_get r ''usage'')) json_as_object of
       Some m \<Rightarrow> Some m
     | None \<Rightarrow> Option.bind (json_get v ''usage'') json_as_object)"

text \<open>\<open>keys.iter().find_map(|key| usage.get(key))\<close>.\<close>

fun find_key :: "(str \<times> json) list \<Rightarrow> str list \<Rightarrow> json option" where
  "find_key m [] = None"
| "find_key m (k # ks) = (case map_of m k of Some v \<Rightarrow> Some v | None \<Rightarrow> find_key m ks)"

definition usage_value :: "json \<Rightarrow> str list \<Rightarrow> u64" where
  "usage_value v keys =
    (case Option.bind (Option.bind (usage_object v) (\<lambda>usage. find_key usage keys)) json_as_u64 of
       Some n \<Rightarrow> n | None \<Rightarrow> 0)"

definition cached_tokens_in :: "(str \<times> json) list \<Rightarrow> str \<Rightarrow> u64 option" where
  "cached_tokens_in usage details =
    Option.bind (Option.bind (Option.bind (map_of usage details) json_as_object)
      (\<lambda>d. find_key d [''cached_tokens'', ''cached_input_tokens''])) json_as_u64"

definition request_usage_from_value :: "json \<Rightarrow> request_log_usage" where
  "request_usage_from_value v =
    (let input_tokens = usage_value v [''input_tokens'', ''prompt_tokens''];
         output_tokens = usage_value v [''output_tokens'', ''completion_tokens''];
         cached = (case usage_object v of
             None \<Rightarrow> None
           | Some usage \<Rightarrow>
               (case cached_tokens_in usage ''input_tokens_details'' of
                  Some n \<Rightarrow> Some n
                | None \<Rightarrow>
                    (case cached_tokens_in usage ''prompt_tokens_details'' of
                       Some n \<Rightarrow> Some n
                     | None \<Rightarrow> Option.bind (map_of usage ''cache_read_input_tokens'') json_as_u64)))
     in \<lparr>ru_input_tokens = input_tokens,
         ru_cached_input_tokens = (case cached of Some n \<Rightarrow> n | None \<Rightarrow> 0),
         ru_output_tokens = output_tokens,
         ru_total_tokens = max (usage_value v [''total_tokens'']) (input_tokens + output_tokens)\<rparr>)"

definition merge_request_usage :: "request_log_usage \<Rightarrow> request_log_usage \<Rightarrow> request_log_usage" where
  "merge_request_usage target nxt =
    \<lparr>ru_input_tokens = max (ru_input_tokens target) (ru_input_tokens nxt),
     ru_cached_input_tokens = max (ru_cached_input_tokens target) (ru_cached_input_tokens nxt),
     ru_output_tokens = max (ru_output_tokens target) (ru_output_tokens nxt),
     ru_total_tokens = max (ru_total_tokens target) (ru_total_tokens nxt)\<rparr>"

definition model_header :: "headers \<Rightarrow> str option" where
  "model_header headers =
    (case map_of headers ''openai-model'' of
       Some v \<Rightarrow> v
     | None \<Rightarrow> header_text headers ''x-openai-model'')"

definition observed_model_from_headers :: "headers \<Rightarrow> str option" where
  "observed_model_from_headers headers = model_header headers"

definition response_field :: "json \<Rightarrow> str \<Rightarrow> str option" where
  "response_field v k = Option.bind (json_get v ''response'') (\<lambda>r. json_str_field r k)"

definition observed_model_from_value :: "json \<Rightarrow> str option" where
  "observed_model_from_value v =
    (case json_str_field v ''model'' of Some m \<Rightarrow> Some m | None \<Rightarrow> response_field v ''model'')"

subsection \<open>Failures hidden in a response\<close>

definition is_digit :: "char \<Rightarrow> bool" where
  "is_digit c \<longleftrightarrow> 48 \<le> byte c \<and> byte c \<le> 57"

definition model_matches_expected :: "str \<Rightarrow> str \<Rightarrow> bool" where
  "model_matches_expected actual expected \<longleftrightarrow>
     actual = expected
   \<or> starts_with actual (expected @ ''-'')
     \<and> (let suffix = drop (length expected + 1) actual
        in suffix \<noteq> [] \<and> list_all (\<lambda>c. is_digit c \<or> c = CHR ''-'') suffix)"

definition hidden_failure_kind_from_code :: "str \<Rightarrow> upstream_failure_kind option" where
  "hidden_failure_kind_from_code code =
    (let normalized = to_ascii_lowercase code in
     if contains_any normalized [''rate_limit_exceeded'', ''insufficient_quota'', ''usage_limit_reached'',
       ''usage_not_included''] then Some KQuota
     else if contains_any normalized [''invalid_api_key'', ''invalid_token'', ''token_expired'', ''unauthorized'',
       ''authentication'', ''proxy_auth_required''] then Some KAuth
     else if contains_any normalized length_needles then Some KLength
     else if contains_any normalized continuation_needles then Some KContinuation
     else if contains_any normalized [''does not support'', ''unsupported'', ''unknown_model'', ''model_not_found'',
       ''reasoning_effort'', ''model_mismatch''] then Some KCapability
     else if contains_any normalized [''cloudflare'', ''cf-ray'', ''challenge-platform''] then Some KCf
     else None)"

fun first_code_kind :: "json \<Rightarrow> str list \<Rightarrow> upstream_failure_kind option" where
  "first_code_kind error [] = None"
| "first_code_kind error (k # ks) =
    (case Option.bind (json_str_field error k) hidden_failure_kind_from_code of
       Some kind \<Rightarrow> Some kind | None \<Rightarrow> first_code_kind error ks)"

definition hidden_failure_kind_from_error_object ::
  "(f64 \<Rightarrow> str) \<Rightarrow> json \<Rightarrow> upstream_failure_kind option" where
  "hidden_failure_kind_from_error_object sf error =
    (case first_code_kind error [''code'', ''type'', ''message''] of
       Some kind \<Rightarrow> Some kind
     | None \<Rightarrow> classify_failure_body (summarize_value sf error))"

definition hidden_failure_kind_from_error_value ::
  "(f64 \<Rightarrow> str) \<Rightarrow> json \<Rightarrow> upstream_failure_kind option" where
  "hidden_failure_kind_from_error_value sf v =
    (case (case json_get v ''error'' of
             Some e \<Rightarrow> Some e | None \<Rightarrow> Option.bind (json_get v ''response'') (\<lambda>r. json_get r ''error'')) of
       Some error \<Rightarrow> hidden_failure_kind_from_error_object sf error
     | None \<Rightarrow> Option.bind (json_str_field v ''type'') hidden_failure_kind_from_code)"

definition mismatches :: "str option \<Rightarrow> str \<Rightarrow> bool" where
  "mismatches actual expected_model \<longleftrightarrow>
    (case actual of Some m \<Rightarrow> \<not> model_matches_expected m expected_model | None \<Rightarrow> False)"

definition hidden_failure_kind_from_headers :: "headers \<Rightarrow> str \<Rightarrow> upstream_failure_kind option" where
  "hidden_failure_kind_from_headers headers expected_model =
    (if mismatches (model_header headers) expected_model then Some KCapability else None)"

definition says_failed :: "str option \<Rightarrow> bool" where
  "says_failed status \<longleftrightarrow> (case status of Some s \<Rightarrow> eq_ignore_ascii_case s ''failed'' | None \<Rightarrow> False)"

definition hidden_failure_kind_from_json ::
  "(f64 \<Rightarrow> str) \<Rightarrow> json \<Rightarrow> str \<Rightarrow> headers \<Rightarrow> upstream_failure_kind option" where
  "hidden_failure_kind_from_json sf v expected_model headers =
    (if hidden_failure_kind_from_headers headers expected_model \<noteq> None then Some KCapability
     else if mismatches (json_str_field v ''model'') expected_model then Some KCapability
     else case hidden_failure_kind_from_error_value sf v of
       Some kind \<Rightarrow> Some kind
     | None \<Rightarrow>
         if mismatches (response_field v ''model'') expected_model then Some KCapability
         else if says_failed (json_str_field v ''status'') \<or> says_failed (response_field v ''status'')
           \<or> json_str_field v ''type'' = Some ''response.failed''
         then (case hidden_failure_kind_from_error_value sf v of Some kind \<Rightarrow> Some kind | None \<Rightarrow> Some KGeneric)
         else None)"

subsection \<open>What the client is told\<close>

datatype gateway_failure_reason = GQueue | GQuota | GCapability | GUpstreamFailure

fun reason_str :: "gateway_failure_reason \<Rightarrow> str" where
  "reason_str GQueue = ''queue''"
| "reason_str GQuota = ''quota''"
| "reason_str GCapability = ''capability''"
| "reason_str GUpstreamFailure = ''upstream_failure''"

fun reason_message :: "gateway_failure_reason \<Rightarrow> str" where
  "reason_message GQueue = ''Gateway queue active.''"
| "reason_message GQuota = ''Gateway upstream quota exhausted.''"
| "reason_message GCapability = ''Gateway capability match unavailable.''"
| "reason_message GUpstreamFailure = ''Gateway upstream request failed.''"

fun gateway_failure_reason_from_upstream :: "upstream_failure_kind \<Rightarrow> gateway_failure_reason" where
  "gateway_failure_reason_from_upstream KQuota = GQuota"
| "gateway_failure_reason_from_upstream KCapability = GCapability"
| "gateway_failure_reason_from_upstream _ = GUpstreamFailure"

fun gateway_failure_reason_from_selection :: "lease_selection_exhausted_kind \<Rightarrow> gateway_failure_reason" where
  "gateway_failure_reason_from_selection QuotaExhausted = GQuota"
| "gateway_failure_reason_from_selection Capability = GCapability"
| "gateway_failure_reason_from_selection Cooldown = GQueue"
| "gateway_failure_reason_from_selection NoneAvailable = GUpstreamFailure"

definition gateway_error_value :: "gateway_failure_reason \<Rightarrow> json" where
  "gateway_error_value reason = json_obj
    [(''code'', JString ''server_busy''), (''message'', JString (reason_message reason)),
     (''type'', JString ''server_busy''), (''reason'', JString (reason_str reason)), (''retryable'', JBool True)]"

definition response_failure_value :: "str \<Rightarrow> str option \<Rightarrow> gateway_failure_reason \<Rightarrow> json" where
  "response_failure_value simple response_id reason = json_obj
    [(''type'', JString ''response.failed''),
     (''response'', json_obj
        [(''id'', JString (case response_id of Some i \<Rightarrow> i | None \<Rightarrow> ''resp_failed_'' @ simple)),
         (''status'', JString ''failed''), (''error'', gateway_error_value reason)])]"

text \<open>A reply of the gateway: a JSON body with a status, or a stream of named events.\<close>

datatype reply = Json_Reply status_code json | Event_Reply "(str \<times> json) list"

text \<open>\<open>simple\<close> is the fresh UUID of the response id.\<close>

definition gateway_failure_response :: "str \<Rightarrow> bool \<Rightarrow> gateway_failure_reason \<Rightarrow> reply" where
  "gateway_failure_response simple stream_requested reason =
    (let response_id = ''resp_failed_'' @ simple in
     if stream_requested then
       Event_Reply
         [(''response.created'', json_obj [(''type'', JString ''response.created''),
             (''response'', json_obj [(''id'', JString response_id), (''status'', JString ''in_progress'')])]),
          (''response.failed'', response_failure_value simple (Some response_id) reason)]
     else Json_Reply 503 (json_obj [(''error'', gateway_error_value reason)]))"

subsection \<open>Retry policy\<close>

definition should_retry_via_selection :: "upstream_failure_kind \<Rightarrow> nat \<Rightarrow> nat \<Rightarrow> bool" where
  "should_retry_via_selection kind non_quota_failovers max_non_quota_failovers \<longleftrightarrow>
     requires_failover kind \<and> (kind = KQuota \<or> non_quota_failovers < max_non_quota_failovers)"

definition is_server_error :: "status_code \<Rightarrow> bool" where
  "is_server_error status \<longleftrightarrow> 500 \<le> status \<and> status < 600"

definition is_client_error :: "status_code \<Rightarrow> bool" where
  "is_client_error status \<longleftrightarrow> 400 \<le> status \<and> status < 500"

definition is_retryable_generic_status :: "status_code option \<Rightarrow> bool" where
  "is_retryable_generic_status status =
    (case status of None \<Rightarrow> True | Some s \<Rightarrow> is_server_error s \<or> s \<in> {408, 502, 503, 504})"

definition should_retry_hidden_failure :: "upstream_failure_kind \<Rightarrow> nat \<Rightarrow> nat \<Rightarrow> bool" where
  "should_retry_hidden_failure kind non_quota_failovers max_non_quota_failovers =
    (if kind = KGeneric then non_quota_failovers < max_non_quota_failovers
     else should_retry_via_selection kind non_quota_failovers max_non_quota_failovers)"

definition should_retry_upstream_failure :: "upstream_failure \<Rightarrow> nat \<Rightarrow> nat \<Rightarrow> bool" where
  "should_retry_upstream_failure error non_quota_failovers max_non_quota_failovers =
    (if uf_kind error = KGeneric
     then non_quota_failovers < max_non_quota_failovers \<and> is_retryable_generic_status (uf_status error)
     else should_retry_via_selection (uf_kind error) non_quota_failovers max_non_quota_failovers)"

definition non_quota_retry_budget_for_matching_accounts :: "nat \<Rightarrow> nat" where
  "non_quota_retry_budget_for_matching_accounts matching_accounts =
    (if matching_accounts = 0 then 0 else if matching_accounts = 1 then 1 else matching_accounts - 1)"

definition non_quota_retry_budget :: "runtime_state \<Rightarrow> lease_selection_request \<Rightarrow> nat" where
  "non_quota_retry_budget rt request =
    non_quota_retry_budget_for_matching_accounts
      (length (filter (\<lambda>account. ac_tenant_id account = lq_tenant_id request
         \<and> hm_get (rt_credentials rt) (ac_id account) \<noteq> None
         \<and> list_ex (\<lambda>model. model = lq_model request) (ac_models account)) (hm_values (rt_accounts rt))))"

text \<open>The counters \<open>(attempt, non_quota_failovers)\<close>.\<close>

definition note_retry_attempt :: "upstream_failure_kind \<Rightarrow> nat \<times> nat \<Rightarrow> nat \<times> nat" where
  "note_retry_attempt kind counters =
    (fst counters + 1, if kind \<noteq> KQuota then snd counters + 1 else snd counters)"

definition selection_wait_interval :: "instant option \<Rightarrow> instant option \<Rightarrow> instant \<Rightarrow> int" where
  "selection_wait_interval earliest_retry_at earliest_reset_at now =
    (case (case earliest_retry_at of Some t \<Rightarrow> Some t | None \<Rightarrow> earliest_reset_at) of
       None \<Rightarrow> secs 5
     | Some reset_at \<Rightarrow> min (if reset_at \<le> now then secs 1 else reset_at - now) (secs 5))"

definition should_retry_compact_with_standard_responses :: "str \<Rightarrow> upstream_failure \<Rightarrow> bool" where
  "should_retry_compact_with_standard_responses base_url error =
    (if \<not> is_codex_chatgpt_backend base_url then False
     else case uf_kind error of
       KGeneric \<Rightarrow> True
     | KCf \<Rightarrow> True
     | KCapability \<Rightarrow> (case uf_status error of
           Some status \<Rightarrow> status \<in> {400, 404, 405, 501, 503, 502, 504} | None \<Rightarrow> True)
     | _ \<Rightarrow> False)"

definition should_passthrough_compact_upstream_error :: "upstream_failure \<Rightarrow> bool" where
  "should_passthrough_compact_upstream_error error =
    (case uf_status error of
       None \<Rightarrow> False
     | Some status \<Rightarrow>
         if status = 413 then True
         else if is_client_error status \<and> \<not> requires_failover (uf_kind error) then True
         else contains_any (to_ascii_lowercase (case uf_body error of Some b \<Rightarrow> b | None \<Rightarrow> []))
           [''context_length_exceeded'', ''context window'', ''input too large'', ''payload too large'',
            ''request body too large''])"

definition should_transparent_compact_hidden_failure :: "upstream_failure_kind \<Rightarrow> bool" where
  "should_transparent_compact_hidden_failure kind \<longleftrightarrow> kind = KLength"

subsection \<open>Reports to the route state\<close>

text \<open>\<open>iid\<close> is the fresh id of the incident, \<open>now\<close> the clock of the operation.\<close>

definition handle_hidden_failure ::
  "str \<Rightarrow> instant \<Rightarrow> cli_lease \<Rightarrow> upstream_failure_kind \<Rightarrow> app_state \<Rightarrow> app_state" where
  "handle_hidden_failure iid now lease kind app =
    (case kind of
       KCf \<Rightarrow> snd (record_route_event iid (ls_account_id lease)
          \<lparr>ev_mode = ls_route_mode lease, ev_kind = ''cf_hit''\<rparr> now app)
     | KAuth \<Rightarrow> snd (failover_account iid (ls_account_id lease) (kind_severity kind)
          (kind_cooldown_seconds kind) True now app)
     | KQuota \<Rightarrow> snd (mark_account_quota_exhausted iid (ls_account_id lease) None (Some ''hidden_quota'') now app)
     | KLength \<Rightarrow> app
     | KRateLimited \<Rightarrow> snd (failover_account iid (ls_account_id lease) (kind_severity kind)
          (kind_cooldown_seconds kind) False now app)
     | KCapability \<Rightarrow> snd (failover_account iid (ls_account_id lease) (kind_severity kind)
          (kind_cooldown_seconds kind) False now app)
     | KContinuation \<Rightarrow> app
     | KGeneric \<Rightarrow> snd (failover_account iid (ls_account_id lease) ''upstream_generic'' 30 False now app))"

definition handle_upstream_failure ::
  "str \<Rightarrow> instant \<Rightarrow> cli_lease \<Rightarrow> upstream_failure \<Rightarrow> app_state \<Rightarrow> app_state" where
  "handle_upstream_failure iid now lease error app =
    (let kind = uf_kind error in
     case kind of
       KCf \<Rightarrow> snd (record_route_event iid (ls_account_id lease)
          \<lparr>ev_mode = ls_route_mode lease, ev_kind = ''cf_hit''\<rparr> now app)
     | KAuth \<Rightarrow> snd (failover_account iid (ls_account_id lease) (kind_severity kind)
          (kind_cooldown_seconds kind) True now app)
     | KQuota \<Rightarrow> snd (mark_account_quota_exhausted iid (ls_account_id lease) (uf_reset_at error)
          (Some (if uf_subkind error = Some Quota429 then ''quota_429'' else ''quota'')) now app)
     | KLength \<Rightarrow> app
     | KRateLimited \<Rightarrow> snd (failover_account iid (ls_account_id lease) (kind_severity kind)
          (kind_cooldown_seconds kind) False now app)
     | KCapability \<Rightarrow> snd (failover_account iid (ls_account_id lease) (kind_severity kind)
          (kind_cooldown_seconds kind) False now app)
     | KContinuation \<Rightarrow> app
     | KGeneric \<Rightarrow>
         if is_retryable_generic_status (uf_status error)
         then snd (failover_account iid (ls_account_id lease) ''upstream_generic'' 30 False now app)
         else app)"

end
