(* ===== verification/Payloads.thy ===== *)
theory Payloads
  imports Failures Replay Tenancy
begin

text \<open>
  The bodies of the data plane (\<open>http/data.rs\<close>, wire types in \<open>models.rs\<close>): how a request is read,
  what the key's policy makes of it, and the body sent upstream. Printing JSON is the parameter
  \<open>render\<close>, printing a float \<open>sf\<close>, SHA-256 \<open>sha256\<close>.
\<close>

subsection \<open>Requests on the wire\<close>

record responses_request =
  rb_model :: str
  rb_input :: json
  rb_stream :: "bool option"
  rb_reasoning :: "json option"
  rb_prompt_cache_key :: "str option"
  rb_extra :: "(str \<times> json) list"

record chat_message =
  mg_role :: str
  mg_content :: json

record chat_completions_request =
  ch_model :: str
  ch_messages :: "chat_message list"
  ch_stream :: "bool option"
  ch_reasoning_effort :: "str option"
  ch_extra :: "(str \<times> json) list"

text \<open>
  The derived \<open>Deserialize\<close> and \<open>Serialize\<close>: field names in camel case, an absent or null option is
  \<open>None\<close>, unknown keys are collected in \<open>extra\<close>.
\<close>

definition responses_fields :: "str list" where
  "responses_fields = [''model'', ''input'', ''stream'', ''reasoning'', ''promptCacheKey'']"

definition chat_fields :: "str list" where
  "chat_fields = [''model'', ''messages'', ''stream'', ''reasoningEffort'']"

text \<open>\<open>None\<close>: an error.\<close>

definition opt_field :: "(json \<Rightarrow> 'a option) \<Rightarrow> json option \<Rightarrow> 'a option option" where
  "opt_field conv v = (case v of None \<Rightarrow> Some None | Some JNull \<Rightarrow> Some None | Some x \<Rightarrow> map_option Some (conv x))"

definition unknown_fields :: "str list \<Rightarrow> (str \<times> json) list \<Rightarrow> (str \<times> json) list" where
  "unknown_fields known m = filter (\<lambda>(k, _). k \<notin> set known) m"

definition responses_request_of :: "json \<Rightarrow> responses_request option" where
  "responses_request_of v =
    (case v of
       JObject m \<Rightarrow>
         (case (Option.bind (map_of m ''model'') json_as_str, map_of m ''input'',
                opt_field json_as_bool (map_of m ''stream''), opt_field Some (map_of m ''reasoning''),
                opt_field json_as_str (map_of m ''promptCacheKey'')) of
            (Some model, Some input, Some stream, Some reasoning, Some key) \<Rightarrow>
              Some \<lparr>rb_model = model, rb_input = input, rb_stream = stream, rb_reasoning = reasoning,
                rb_prompt_cache_key = key, rb_extra = unknown_fields responses_fields m\<rparr>
          | _ \<Rightarrow> None)
     | _ \<Rightarrow> None)"

text \<open>A message is an object, or (as for every derived struct) the array of its fields.\<close>

fun chat_message_of :: "json \<Rightarrow> chat_message option" where
  "chat_message_of (JObject m) =
    (case (Option.bind (map_of m ''role'') json_as_str, map_of m ''content'') of
       (Some role, Some content) \<Rightarrow> Some \<lparr>mg_role = role, mg_content = content\<rparr> | _ \<Rightarrow> None)"
| "chat_message_of (JArray [JString role, content]) = Some \<lparr>mg_role = role, mg_content = content\<rparr>"
| "chat_message_of _ = None"

fun all_of :: "('a \<Rightarrow> 'b option) \<Rightarrow> 'a list \<Rightarrow> 'b list option" where
  "all_of f [] = Some []"
| "all_of f (x # xs) =
    (case f x of None \<Rightarrow> None | Some y \<Rightarrow> map_option (\<lambda>ys. y # ys) (all_of f xs))"

definition chat_request_of :: "json \<Rightarrow> chat_completions_request option" where
  "chat_request_of v =
    (case v of
       JObject m \<Rightarrow>
         (case (Option.bind (map_of m ''model'') json_as_str,
                Option.bind (Option.bind (map_of m ''messages'') json_as_array) (all_of chat_message_of),
                opt_field json_as_bool (map_of m ''stream''),
                opt_field json_as_str (map_of m ''reasoningEffort'')) of
            (Some model, Some messages, Some stream, Some effort) \<Rightarrow>
              Some \<lparr>ch_model = model, ch_messages = messages, ch_stream = stream,
                ch_reasoning_effort = effort, ch_extra = unknown_fields chat_fields m\<rparr>
          | _ \<Rightarrow> None)
     | _ \<Rightarrow> None)"

definition opt_json :: "('a \<Rightarrow> json) \<Rightarrow> 'a option \<Rightarrow> json" where
  "opt_json f v = (case v of None \<Rightarrow> JNull | Some x \<Rightarrow> f x)"

definition insert_all :: "(str \<times> json) list \<Rightarrow> (str \<times> json) list \<Rightarrow> (str \<times> json) list" where
  "insert_all kvs m = fold (\<lambda>(k, v). obj_insert k v) kvs m"

definition responses_request_json :: "responses_request \<Rightarrow> json" where
  "responses_request_json r = JObject (insert_all (rb_extra r) (insert_all
     [(''model'', JString (rb_model r)), (''input'', rb_input r), (''stream'', opt_json JBool (rb_stream r)),
      (''reasoning'', opt_json (\<lambda>v. v) (rb_reasoning r)),
      (''promptCacheKey'', opt_json JString (rb_prompt_cache_key r))] []))"

subsection \<open>The policy of the key\<close>

definition authenticated_context :: "runtime_state \<Rightarrow> headers \<Rightarrow> gateway_auth_context option" where
  "authenticated_context rt headers =
    Option.bind (header_text headers ''authorization'') (\<lambda>auth.
      if starts_with auth ''Bearer '' then auth_context_for_bearer rt (drop 7 auth) else None)"

definition codex_worker_model_fallback :: "str \<Rightarrow> str option \<Rightarrow> str option" where
  "codex_worker_model_fallback requested_model default_model =
    (let normalized = to_ascii_lowercase (trim requested_model);
         trimmed_default = non_empty_trimmed default_model;
         default_model_or = (\<lambda>fallback. case trimmed_default of Some m \<Rightarrow> Some m | None \<Rightarrow> Some fallback);
         codex_default_or = (\<lambda>fallback.
           case trimmed_default of
             Some m \<Rightarrow> if str_contains (to_ascii_lowercase m) ''codex'' then Some m else Some fallback
           | None \<Rightarrow> Some fallback)
     in if normalized = ''gpt-5.1-codex-mini'' \<or> starts_with normalized ''gpt-5.1-codex-mini-''
           \<or> str_contains normalized ''-codex-mini-''
        then default_model_or ''gpt-5.3-codex''
        else if normalized \<in> {''gpt-5'', ''gpt-5.1'', ''gpt-5.1-low'', ''gpt-5.1-medium'', ''gpt-5.1-high''}
        then default_model_or ''gpt-5.4''
        else if normalized = ''gpt-5-codex'' \<or> normalized = ''gpt-5.1-codex'' \<or> starts_with normalized ''gpt-5.1-codex-''
        then codex_default_or ''gpt-5.3-codex''
        else None)"

definition resolve_effective_model :: "gateway_api_key \<Rightarrow> str \<Rightarrow> str" where
  "resolve_effective_model api_key requested_model =
    (let requested_model = trim requested_model;
         default_model = (case ak_default_model api_key of
            Some m \<Rightarrow> if trim m \<noteq> [] then Some m else None | None \<Rightarrow> None)
     in if ak_force_model_override api_key
        then (case default_model of Some m \<Rightarrow> m | None \<Rightarrow> requested_model)
        else (case codex_worker_model_fallback requested_model default_model of
                Some m \<Rightarrow> m | None \<Rightarrow> requested_model))"

definition resolve_effective_reasoning_for_chat ::
  "gateway_api_key \<Rightarrow> chat_completions_request \<Rightarrow> str option" where
  "resolve_effective_reasoning_for_chat api_key payload =
    (if ak_force_reasoning_effort api_key then ak_reasoning_effort api_key else ch_reasoning_effort payload)"

definition resolve_effective_reasoning_for_responses ::
  "gateway_api_key \<Rightarrow> responses_request \<Rightarrow> str option" where
  "resolve_effective_reasoning_for_responses api_key payload =
    (if ak_force_reasoning_effort api_key then ak_reasoning_effort api_key
     else Option.bind (rb_reasoning payload) (\<lambda>r. json_str_field r ''effort''))"

definition apply_chat_policy :: "chat_completions_request \<Rightarrow> str \<Rightarrow> str option \<Rightarrow> chat_completions_request" where
  "apply_chat_policy payload effective_model reasoning_effort =
     payload\<lparr>ch_model := effective_model, ch_reasoning_effort := reasoning_effort\<rparr>"

definition apply_responses_policy :: "responses_request \<Rightarrow> str \<Rightarrow> str option \<Rightarrow> responses_request" where
  "apply_responses_policy payload effective_model reasoning_effort =
    (let nxt = payload\<lparr>rb_model := effective_model\<rparr>
     in case reasoning_effort of
          None \<Rightarrow> nxt
        | Some level \<Rightarrow>
            (let reasoning = (case Option.bind (rb_reasoning nxt) json_as_object of Some m \<Rightarrow> m | None \<Rightarrow> [])
             in nxt\<lparr>rb_reasoning := Some (JObject (obj_insert ''effort'' (JString level) reasoning))\<rparr>))"

subsection \<open>Input items\<close>

definition user_text :: "str \<Rightarrow> json" where
  "user_text text = json_obj [(''role'', JString ''user''),
     (''content'', JArray [json_obj [(''type'', JString ''input_text''), (''text'', JString text)]])]"

definition normalize_responses_input :: "(f64 \<Rightarrow> str) \<Rightarrow> json \<Rightarrow> json list" where
  "normalize_responses_input sf input =
    (case input of
       JString text \<Rightarrow> [user_text text]
     | JArray items \<Rightarrow> items
     | JObject m \<Rightarrow> if obj_has ''role'' m \<and> obj_has ''content'' m then [JObject m]
                   else [user_text (summarize_value sf input)]
     | other \<Rightarrow> [user_text (summarize_value sf other)])"

definition replay_context_message :: "str \<Rightarrow> json" where
  "replay_context_message replay_context = json_obj [(''role'', JString ''system''),
     (''content'', JArray [json_obj [(''type'', JString ''input_text''), (''text'', JString replay_context)]])]"

definition chat_message_to_responses_input :: "chat_message \<Rightarrow> json" where
  "chat_message_to_responses_input message =
     json_obj [(''role'', JString (mg_role message)), (''content'', mg_content message)]"

definition prepend_context_messages :: "json list \<Rightarrow> json list \<Rightarrow> str option \<Rightarrow> json list" where
  "prepend_context_messages input replay_prefix_items replay_context =
     replay_prefix_items
   @ (case replay_context of
        Some c \<Rightarrow> if trim c \<noteq> [] then [replay_context_message c] else []
      | None \<Rightarrow> [])
   @ input"

definition instruction_text_from_value :: "(f64 \<Rightarrow> str) \<Rightarrow> json \<Rightarrow> str option" where
  "instruction_text_from_value sf v =
    (case v of
       JNull \<Rightarrow> None
     | JString text \<Rightarrow> if trim text \<noteq> [] then Some (trim text) else None
     | other \<Rightarrow> (let text = trim (summarize_value sf other) in if text \<noteq> [] then Some text else None))"

definition part_text :: "json \<Rightarrow> str option" where
  "part_text item =
    (case item of
       JString s \<Rightarrow> Some s
     | _ \<Rightarrow> if json_str_field item ''type'' \<in> {Some ''input_text'', Some ''output_text'', Some ''text''}
           then json_str_field item ''text'' else None)"

definition responses_input_message_text :: "(f64 \<Rightarrow> str) \<Rightarrow> json \<Rightarrow> str" where
  "responses_input_message_text sf message =
    (case json_get message ''content'' of
       None \<Rightarrow> summarize_value sf message
     | Some (JString text) \<Rightarrow> text
     | Some (JArray items) \<Rightarrow>
         (let text = concat (List.map_filter part_text items)
          in if text = [] then summarize_value sf (JArray items) else text)
     | Some other \<Rightarrow> summarize_value sf other)"

definition is_system_item :: "json \<Rightarrow> bool" where
  "is_system_item item \<longleftrightarrow>
    (case json_str_field item ''role'' of Some role \<Rightarrow> eq_ignore_ascii_case role ''system'' | None \<Rightarrow> False)"

definition responses_input_function_call_output_call_ids :: "(f64 \<Rightarrow> str) \<Rightarrow> json \<Rightarrow> str list" where
  "responses_input_function_call_output_call_ids sf input =
     List.map_filter (\<lambda>item. json_str_field item ''call_id'')
       (filter (\<lambda>item. json_str_field item ''type'' = Some ''function_call_output'') (normalize_responses_input sf input))"

definition codex_instructions_and_input :: "(f64 \<Rightarrow> str) \<Rightarrow> json list \<Rightarrow> json option \<Rightarrow> str \<times> json list" where
  "codex_instructions_and_input sf input explicit_instructions =
    (let explicit = (case Option.bind explicit_instructions (instruction_text_from_value sf) of
             Some t \<Rightarrow> [t] | None \<Rightarrow> []);
         system = filter (\<lambda>t. t \<noteq> []) (map (responses_input_message_text sf) (filter is_system_item input));
         instructions = explicit @ system
     in (if instructions = [] then ''You are Codex.'' else join (nl @ nl) instructions,
         filter (\<lambda>item. \<not> is_system_item item) input))"

subsection \<open>Bodies for upstream\<close>

definition codex_passthrough_extra_key :: "str \<Rightarrow> bool \<Rightarrow> bool" where
  "codex_passthrough_extra_key key replay_active \<longleftrightarrow>
     key \<notin> {''instructions'', ''store'', ''stream'', ''prompt_cache_key'', ''max_output_tokens''}
   \<and> \<not> (replay_active \<and> key = ''previous_response_id'')"

definition normalize_include_field :: "json \<Rightarrow> json list" where
  "normalize_include_field v = (case v of JArray items \<Rightarrow> items | JString item \<Rightarrow> [JString item] | _ \<Rightarrow> [])"

definition encrypted_content :: json where
  "encrypted_content = JString ''reasoning.encrypted_content''"

definition ensure_reasoning_include_field :: "(str \<times> json) list \<Rightarrow> bool \<Rightarrow> (str \<times> json) list" where
  "ensure_reasoning_include_field object reasoning_requested =
    (if \<not> reasoning_requested then object
     else
       (let items = (case map_of object ''include'' of Some v \<Rightarrow> normalize_include_field v | None \<Rightarrow> []);
            items = (if encrypted_content \<in> set items then items else items @ [encrypted_content])
        in obj_insert ''include'' (JArray items) (obj_remove ''include'' object)))"

text \<open>\<open>if keep(key) && !object.contains_key(key)\<close>.\<close>

definition insert_extra :: "(str \<Rightarrow> bool) \<Rightarrow> (str \<times> json) list \<Rightarrow> (str \<times> json) list \<Rightarrow> (str \<times> json) list" where
  "insert_extra keep extra object =
     fold (\<lambda>(k, v) obj. if keep k \<and> \<not> obj_has k obj then obj_insert k v obj else obj) extra object"

definition opt_entry :: "str \<Rightarrow> json option \<Rightarrow> (str \<times> json) list" where
  "opt_entry k v = (case v of Some x \<Rightarrow> [(k, x)] | None \<Rightarrow> [])"

definition codex_responses_payload ::
  "(f64 \<Rightarrow> str) \<Rightarrow> responses_request \<Rightarrow> str \<Rightarrow> replay_plan \<Rightarrow> json list \<Rightarrow> json" where
  "codex_responses_payload sf payload cache_key plan codex_input_prefix =
    (let input = prepend_context_messages
           (codex_input_prefix @ normalize_responses_input sf (rb_input payload))
           (rp_input_items plan) (rp_fallback_text plan);
         (instructions, input) = codex_instructions_and_input sf input (map_of (rb_extra payload) ''instructions'');
         object = insert_all
           ([(''model'', JString (rb_model payload)), (''instructions'', JString instructions),
             (''input'', JArray input), (''stream'', JBool True), (''store'', JBool False),
             (''prompt_cache_key'', JString (case rb_prompt_cache_key payload of Some k \<Rightarrow> k | None \<Rightarrow> cache_key))]
            @ opt_entry ''reasoning'' (rb_reasoning payload)) [];
         object = insert_extra (\<lambda>k. codex_passthrough_extra_key k (rp_drop_previous_response_id plan))
           (rb_extra payload) object
     in JObject (ensure_reasoning_include_field object (obj_has ''reasoning'' object)))"

definition replay_augmented_responses_input :: "(f64 \<Rightarrow> str) \<Rightarrow> json \<Rightarrow> replay_plan \<Rightarrow> json list" where
  "replay_augmented_responses_input sf input plan =
     prepend_context_messages (normalize_responses_input sf input) (rp_input_items plan) (rp_fallback_text plan)"

definition responses_payload_for_upstream ::
  "(f64 \<Rightarrow> str) \<Rightarrow> responses_request \<Rightarrow> str \<Rightarrow> replay_plan \<Rightarrow> bool \<Rightarrow> json list \<Rightarrow> json" where
  "responses_payload_for_upstream sf payload cache_key plan codex_protocol codex_input_prefix =
    (if codex_protocol then codex_responses_payload sf payload cache_key plan codex_input_prefix
     else
       (let p = (if rb_prompt_cache_key payload = None then payload\<lparr>rb_prompt_cache_key := Some cache_key\<rparr> else payload);
            p = (if rp_drop_previous_response_id plan
              then p\<lparr>rb_extra := obj_remove ''previous_response_id'' (rb_extra p)\<rparr> else p);
            p = (if rp_input_items plan \<noteq> [] \<or> rp_fallback_text plan \<noteq> None
              then p\<lparr>rb_input := JArray (replay_augmented_responses_input sf (rb_input p) plan)\<rparr> else p)
        in responses_request_json p))"

definition compact_retry_request_from_responses ::
  "(f64 \<Rightarrow> str) \<Rightarrow> responses_request \<Rightarrow> replay_plan \<Rightarrow> responses_request" where
  "compact_retry_request_from_responses sf payload plan =
     payload\<lparr>rb_input := JArray (replay_augmented_responses_input sf (rb_input payload) plan),
       rb_stream := Some False, rb_extra := obj_remove ''previous_response_id'' (rb_extra payload)\<rparr>"

definition chat_input :: "chat_completions_request \<Rightarrow> replay_plan \<Rightarrow> json list" where
  "chat_input payload plan = prepend_context_messages (map chat_message_to_responses_input (ch_messages payload))
     (rp_input_items plan) (rp_fallback_text plan)"

definition compact_retry_request_from_chat :: "chat_completions_request \<Rightarrow> replay_plan \<Rightarrow> responses_request" where
  "compact_retry_request_from_chat payload plan =
     \<lparr>rb_model = ch_model payload, rb_input = JArray (chat_input payload plan), rb_stream = Some False,
      rb_reasoning = map_option (\<lambda>effort. json_obj [(''effort'', JString effort)]) (ch_reasoning_effort payload),
      rb_prompt_cache_key = None, rb_extra = ch_extra payload\<rparr>"

definition compact_payload_object :: "(f64 \<Rightarrow> str) \<Rightarrow> responses_request \<Rightarrow> (str \<times> json) list" where
  "compact_payload_object sf payload = insert_all
    ([(''model'', JString (rb_model payload)), (''input'', JArray (normalize_responses_input sf (rb_input payload)))]
     @ opt_entry ''instructions'' (map_option JString
         (Option.bind (map_of (rb_extra payload) ''instructions'') (instruction_text_from_value sf)))
     @ [(''tools'', JArray (case Option.bind (map_of (rb_extra payload) ''tools'') json_as_array of
            Some t \<Rightarrow> t | None \<Rightarrow> [])),
        (''parallel_tool_calls'', JBool (case Option.bind (map_of (rb_extra payload) ''parallel_tool_calls'') json_as_bool of
            Some b \<Rightarrow> b | None \<Rightarrow> False))]
     @ opt_entry ''reasoning'' (rb_reasoning payload)
     @ opt_entry ''text'' (map_of (rb_extra payload) ''text'')) []"

definition compact_payload_for_upstream :: "(f64 \<Rightarrow> str) \<Rightarrow> responses_request \<Rightarrow> json" where
  "compact_payload_for_upstream sf payload = JObject (compact_payload_object sf payload)"

definition compact_payload_for_standard_responses :: "(f64 \<Rightarrow> str) \<Rightarrow> responses_request \<Rightarrow> json" where
  "compact_payload_for_standard_responses sf payload =
     JObject (obj_insert ''stream'' (JBool False) (compact_payload_object sf payload))"

definition responses_payload_from_chat_input ::
  "(f64 \<Rightarrow> str) \<Rightarrow> chat_completions_request \<Rightarrow> json list \<Rightarrow> str \<Rightarrow> replay_plan \<Rightarrow> bool \<Rightarrow> json" where
  "responses_payload_from_chat_input sf payload input cache_key plan codex_protocol =
    (let object = insert_all
           ([(''model'', JString (ch_model payload))]
            @ (if codex_protocol then
                 (case codex_instructions_and_input sf input (map_of (ch_extra payload) ''instructions'') of
                    (instructions, input) \<Rightarrow>
                      [(''instructions'', JString instructions), (''input'', JArray input),
                       (''stream'', JBool True), (''store'', JBool False)])
               else [(''input'', JArray input),
                     (''stream'', JBool (case ch_stream payload of Some b \<Rightarrow> b | None \<Rightarrow> False))])
            @ [(''prompt_cache_key'', JString cache_key)]
            @ opt_entry ''reasoning'' (map_option (\<lambda>effort. json_obj [(''effort'', JString effort)])
                (ch_reasoning_effort payload))) [];
         object = insert_extra (\<lambda>k. \<not> codex_protocol
             \<or> codex_passthrough_extra_key k (rp_drop_previous_response_id plan)) (ch_extra payload) object
     in JObject (ensure_reasoning_include_field object (obj_has ''reasoning'' object)))"

definition responses_payload_from_chat_request ::
  "(f64 \<Rightarrow> str) \<Rightarrow> chat_completions_request \<Rightarrow> str \<Rightarrow> replay_plan \<Rightarrow> bool \<Rightarrow> json" where
  "responses_payload_from_chat_request sf payload cache_key plan codex_protocol =
     responses_payload_from_chat_input sf payload (chat_input payload plan) cache_key plan codex_protocol"

definition responses_payload_from_compacted_chat_input ::
  "(f64 \<Rightarrow> str) \<Rightarrow> chat_completions_request \<Rightarrow> json list \<Rightarrow> str \<Rightarrow> bool \<Rightarrow> json" where
  "responses_payload_from_compacted_chat_input sf payload input cache_key codex_protocol =
     responses_payload_from_chat_input sf payload input cache_key replay_plan_default codex_protocol"

subsection \<open>Summaries\<close>

definition summarize_messages :: "(f64 \<Rightarrow> str) \<Rightarrow> chat_message list \<Rightarrow> str" where
  "summarize_messages sf messages =
    (let joined = join '' | '' (map (\<lambda>m. mg_role m @ '': '' @ summarize_value sf (mg_content m)) (take 4 messages))
     in if joined = [] then ''empty'' else truncate_text joined 220)"

definition tool_call_summary :: "json \<Rightarrow> str" where
  "tool_call_summary item =
    (let name = (case json_str_field item ''name'' of Some n \<Rightarrow> n | None \<Rightarrow> ''tool'')
     in case non_empty_trimmed (json_str_field item ''arguments'') of
          Some arguments \<Rightarrow> name @ ''('' @ truncate_text arguments 80 @ '')''
        | None \<Rightarrow> name @ ''()'')"

definition summarize_response_output_items :: "(f64 \<Rightarrow> str) \<Rightarrow> json list \<Rightarrow> str option" where
  "summarize_response_output_items sf items =
    (let assistant_text = join nl (filter (\<lambda>t. trim t \<noteq> []) (map (responses_input_message_text sf)
           (filter (\<lambda>i. json_str_field i ''role'' = Some ''assistant'')
             (filter (\<lambda>i. json_str_field i ''type'' = Some ''message'') items))));
         tool_calls = map tool_call_summary
           (take 3 (filter (\<lambda>i. json_str_field i ''type'' = Some ''function_call'') items))
     in if trim assistant_text \<noteq> [] then Some (truncate_text assistant_text 240)
        else if tool_calls \<noteq> []
        then Some (truncate_text (''assistant requested tools: '' @ join ''; '' tool_calls) 240)
        else None)"

definition success_response_summary :: "(f64 \<Rightarrow> str) \<Rightarrow> str option \<Rightarrow> json list \<Rightarrow> str \<Rightarrow> str" where
  "success_response_summary sf output_summary items fallback =
    (case non_empty_trimmed output_summary of
       Some summary \<Rightarrow> truncate_text summary 240
     | None \<Rightarrow> (case summarize_response_output_items sf items of Some s \<Rightarrow> s | None \<Rightarrow> fallback))"

subsection \<open>Cache affinity\<close>

lemma set_insert_all: "set (insert_all kvs m) \<subseteq> set kvs \<union> set m"
  unfolding insert_all_def
proof (induction kvs arbitrary: m)
  case (Cons kv kvs)
  then show ?case using set_obj_insert [of "fst kv" "snd kv" m] by (cases kv) fastforce
qed simp

function canonicalize_json :: "json \<Rightarrow> json" where
  "canonicalize_json (JArray items) = JArray (map canonicalize_json items)"
| "canonicalize_json (JObject m) =
    JObject (insert_all (map (\<lambda>kv. (fst kv, canonicalize_json (snd kv))) (insert_all m [])) [])"
| "canonicalize_json JNull = JNull"
| "canonicalize_json (JBool b) = JBool b"
| "canonicalize_json (JPosInt n) = JPosInt n"
| "canonicalize_json (JNegInt n) = JNegInt n"
| "canonicalize_json (JFloat x) = JFloat x"
| "canonicalize_json (JString s) = JString s"
  by pat_completeness auto

termination
proof (relation "measure size", goal_cases)
  case (3 m kv)
  then have "kv \<in> set m" using set_insert_all [of m "[]"] by auto
  then show ?case using json_size_object by simp
qed (auto simp: less_Suc_eq_le size_list_estimation')

fun hex_digits :: "nat \<Rightarrow> nat \<Rightarrow> str" where
  "hex_digits 0 n = []"
| "hex_digits (Suc k) n = hex_digits k (n div 16) @ [''0123456789abcdef'' ! (n mod 16)]"

definition stable_value_digest :: "(json \<Rightarrow> str) \<Rightarrow> (str \<Rightarrow> str) \<Rightarrow> json \<Rightarrow> str" where
  "stable_value_digest render sha256 v =
     concat (map (\<lambda>c. hex_digits 2 (byte c)) (take 6 (sha256 (render (canonicalize_json v)))))"

text \<open>The hyphenated form of a UUID.\<close>

definition show_uuid :: "uuid \<Rightarrow> str" where
  "show_uuid u = (let h = hex_digits 32 (unat u)
     in take 8 h @ ''-'' @ take 4 (drop 8 h) @ ''-'' @ take 4 (drop 12 h) @ ''-'' @ take 4 (drop 16 h)
        @ ''-'' @ drop 20 h)"

definition exact_prefix_cache_affinity_key ::
  "(json \<Rightarrow> str) \<Rightarrow> (str \<Rightarrow> str) \<Rightarrow> (f64 \<Rightarrow> str) \<Rightarrow> uuid \<Rightarrow> str option \<Rightarrow> str \<Rightarrow> json option \<Rightarrow> json option
     \<Rightarrow> json list \<Rightarrow> str" where
  "exact_prefix_cache_affinity_key render sha256 sf tenant_id continuity_anchor model explicit tools input =
    (let system_messages = map (responses_input_message_text sf) (filter is_system_item input);
         seed = json_obj
           [(''tenant_id'', JString (show_uuid tenant_id)),
            (''continuity_anchor'', opt_json JString continuity_anchor), (''model'', JString model),
            (''instructions'', json_obj [(''explicit'', opt_json (\<lambda>v. v) explicit),
               (''system_messages'', JArray (map JString system_messages))]),
            (''tools'', opt_json (\<lambda>v. v) tools), (''gateway_policy'', JString ''quality-first-v1'')]
     in ''tenant:'' @ show_uuid tenant_id @ ''/prefix:'' @ stable_value_digest render sha256 seed)"

definition responses_cache_affinity_key ::
  "(json \<Rightarrow> str) \<Rightarrow> (str \<Rightarrow> str) \<Rightarrow> (f64 \<Rightarrow> str) \<Rightarrow> uuid \<Rightarrow> str option \<Rightarrow> responses_request \<Rightarrow> str" where
  "responses_cache_affinity_key render sha256 sf tenant_id anchor payload =
     exact_prefix_cache_affinity_key render sha256 sf tenant_id anchor (rb_model payload)
       (map_of (rb_extra payload) ''instructions'') (map_of (rb_extra payload) ''tools'')
       (normalize_responses_input sf (rb_input payload))"

definition chat_cache_affinity_key ::
  "(json \<Rightarrow> str) \<Rightarrow> (str \<Rightarrow> str) \<Rightarrow> (f64 \<Rightarrow> str) \<Rightarrow> uuid \<Rightarrow> str option \<Rightarrow> chat_completions_request \<Rightarrow> str" where
  "chat_cache_affinity_key render sha256 sf tenant_id anchor payload =
     exact_prefix_cache_affinity_key render sha256 sf tenant_id anchor (ch_model payload)
       (map_of (ch_extra payload) ''instructions'') (map_of (ch_extra payload) ''tools'')
       (map chat_message_to_responses_input (ch_messages payload))"

end
