(* ===== verification/Payload_Laws.thy ===== *)
theory Payload_Laws
  imports Payloads
begin

text \<open>
  What the bodies the gateway sends contain, for every request: the lookups of the object builders,
  the contract of the Codex protocol, and the wire format of a request.
\<close>

subsection \<open>Objects\<close>

lemma map_of_insert_all: "map_of (insert_all kvs m) = map_of m ++ map_of (rev kvs)"
  unfolding insert_all_def by (induction kvs arbitrary: m) (auto simp: map_add_def fun_eq_iff split: option.splits)

lemma insert_extra_simps [simp]:
  "insert_extra keep [] object = object"
  "insert_extra keep ((k, v) # extra) object =
     insert_extra keep extra (if keep k \<and> \<not> obj_has k object then obj_insert k v object else object)"
  by (simp_all add: insert_extra_def)

lemma map_of_insert_extra:
  "map_of (insert_extra keep extra object) k =
     (case map_of object k of Some v \<Rightarrow> Some v | None \<Rightarrow> if keep k then map_of extra k else None)"
proof (induction extra arbitrary: object)
  case (Cons kv extra)
  then show ?case by (cases kv) (auto simp: obj_has_def split: option.split)
qed (simp split: option.split)

lemma map_of_filter_key: "map_of (filter (\<lambda>(k, _). P k) m) k = (if P k then map_of m k else None)"
  by (induction m) auto

lemma map_of_unknown_fields: "map_of (unknown_fields known m) k = (if k \<in> set known then None else map_of m k)"
  by (simp add: unknown_fields_def map_of_filter_key)

lemma map_of_ensure_include:
  "k \<noteq> ''include'' \<Longrightarrow> map_of (ensure_reasoning_include_field object requested) k = map_of object k"
  by (simp add: ensure_reasoning_include_field_def Let_def)

lemma ensure_include_has:
  "\<exists>items. map_of (ensure_reasoning_include_field object True) ''include'' = Some (JArray items)
     \<and> encrypted_content \<in> set items"
  by (auto simp: ensure_reasoning_include_field_def Let_def)

lemma map_of_opt_entry [simp]: "map_of (opt_entry k v) x = (if x = k then v else None)"
  by (simp add: opt_entry_def split: option.split)

lemma obj_sorted_insert_all: "obj_sorted m \<Longrightarrow> obj_sorted (insert_all kvs m)"
  unfolding insert_all_def by (induction kvs arbitrary: m) (auto intro: obj_sorted_insert)

lemma obj_sorted_Nil [simp]: "obj_sorted []"
  by (simp add: obj_sorted_def)

lemma obj_sorted_least:
  assumes "obj_sorted ((k, v) # m)" and "map_of ((k, v) # m) x = Some y"
  shows "k \<le> x"
proof (cases "x = k")
  case False
  then have "(x, y) \<in> set m" using assms(2) by (auto dest: map_of_SomeD)
  then have "x \<in> fst ` set m" by force
  with assms(1) show ?thesis by (auto intro: order.strict_implies_order)
qed simp

lemma obj_sorted_fresh: "obj_sorted ((k, v) # m) \<Longrightarrow> map_of m k = None"
  by (auto simp: map_of_eq_None_iff)

text \<open>A map is determined by its lookups.\<close>

lemma obj_sorted_ext: "obj_sorted a \<Longrightarrow> obj_sorted b \<Longrightarrow> map_of a = map_of b \<Longrightarrow> a = b"
proof (induction a arbitrary: b)
  case Nil
  then show ?case by (metis map_of.simps(1) map_of_eq_empty_iff)
next
  case (Cons kv a)
  obtain k v where kv: "kv = (k, v)" by (cases kv)
  have "b \<noteq> []" using Cons.prems(3) kv by (metis map_of.simps(1) map_of_eq_empty_iff list.distinct(1))
  then obtain k' v' b' where b: "b = (k', v') # b'" by (metis neq_Nil_conv surj_pair)
  have "map_of (kv # a) k' = Some v'" by (subst Cons.prems(3)) (simp add: b)
  then have "k \<le> k'" using obj_sorted_least [of k v a k' v'] Cons.prems(1) kv by simp
  moreover have "map_of b k = Some v" by (subst Cons.prems(3) [symmetric]) (simp add: kv)
  then have "k' \<le> k" using obj_sorted_least [of k' v' b' k v] Cons.prems(2) b by simp
  ultimately have k: "k = k'" by simp
  have v: "v = v'" using \<open>map_of b k = Some v\<close> b k by simp
  have "map_of a = map_of b'"
  proof
    fix x
    show "map_of a x = map_of b' x"
    proof (cases "x = k")
      case True
      then show ?thesis
        using obj_sorted_fresh [of k v a] obj_sorted_fresh [of k' v' b'] Cons.prems(1,2) kv b k by simp
    next
      case False
      then show ?thesis using fun_cong [OF Cons.prems(3), of x] kv b k by simp
    qed
  qed
  with Cons kv b k v show ?case by simp
qed

lemma obj_sorted_filter: "obj_sorted m \<Longrightarrow> obj_sorted (filter P m)"
  unfolding obj_sorted_def sorted_wrt_map by (rule sorted_wrt_filter)

lemma map_of_rev_distinct: "distinct (map fst m) \<Longrightarrow> map_of (rev m) = map_of m"
proof (rule ext)
  fix x
  assume d: "distinct (map fst m)"
  then have "map_of (rev m) x = Some y \<longleftrightarrow> map_of m x = Some y" for y by (simp add: rev_map [symmetric])
  then show "map_of (rev m) x = map_of m x" by (metis option.exhaust)
qed

lemma rev_opt_entry [simp]: "rev (opt_entry k v) = opt_entry k v"
  by (simp add: opt_entry_def split: option.split)

subsection \<open>The Codex protocol\<close>

lemma join_Nil_iff: "join sep xs = [] \<Longrightarrow> xs \<noteq> [] \<Longrightarrow> \<exists>x \<in> set xs. x = []"
  by (induction sep xs rule: join.induct) auto

lemma instructions_not_empty: "fst (codex_instructions_and_input sf input explicit) \<noteq> []"
proof -
  have "Option.bind explicit (instruction_text_from_value sf) = Some t \<Longrightarrow> t \<noteq> []" for t
    by (cases explicit) (auto simp: instruction_text_from_value_def Let_def split: json.splits if_splits)
  then show ?thesis
    by (auto simp: codex_instructions_and_input_def Let_def dest!: join_Nil_iff split: option.splits)
qed

lemma codex_input: "snd (codex_instructions_and_input sf input explicit) = filter (\<lambda>i. \<not> is_system_item i) input"
  by (simp add: codex_instructions_and_input_def Let_def)

lemma context_message_is_system [simp]: "is_system_item (replay_context_message c)"
  by (simp add: is_system_item_def replay_context_message_def json_obj_def json_str_field_def)

definition codex_object ::
  "(f64 \<Rightarrow> str) \<Rightarrow> responses_request \<Rightarrow> str \<Rightarrow> replay_plan \<Rightarrow> json list \<Rightarrow> (str \<times> json) list" where
  "codex_object sf payload key plan prefix = the (json_as_object (codex_responses_payload sf payload key plan prefix))"

lemma codex_object_of: "codex_responses_payload sf payload key plan prefix = JObject (codex_object sf payload key plan prefix)"
  by (simp add: codex_object_def codex_responses_payload_def Let_def split: prod.split)

text \<open>C17 (codex_payload_contract).
  Whatever the client asks for at the responses endpoint, the body made for a Codex backend
  (\<open>codex_responses_payload\<close>; compactions and chat requests have bodies of their own) streams, is not
  stored, names the request's model and non-empty instructions, and its input holds exactly the replayed
  items, the replayed tool calls and the client's items without the system messages; a client extra
  cannot override these, the output limit is dropped, and when reasoning is requested the encrypted
  reasoning is included.\<close>

theorem codex_payload_contract:
  "\<exists>m instructions items.
     codex_responses_payload sf payload key plan prefix = JObject m
   \<and> map_of m ''stream'' = Some (JBool True) \<and> map_of m ''store'' = Some (JBool False)
   \<and> map_of m ''model'' = Some (JString (rb_model payload))
   \<and> map_of m ''instructions'' = Some (JString instructions) \<and> instructions \<noteq> []
   \<and> map_of m ''input'' = Some (JArray items)
   \<and> items = filter (\<lambda>i. \<not> is_system_item i)
       (rp_input_items plan @ prefix @ normalize_responses_input sf (rb_input payload))
   \<and> map_of m ''max_output_tokens'' = None
   \<and> (if rp_drop_previous_response_id plan then map_of m ''previous_response_id'' = None
      else map_of m ''previous_response_id'' = map_of (rb_extra payload) ''previous_response_id'')
   \<and> (if rb_reasoning payload = None then True
      else \<exists>include. map_of m ''include'' = Some (JArray include) \<and> encrypted_content \<in> set include)"
proof -
  define input where "input = prepend_context_messages (prefix @ normalize_responses_input sf (rb_input payload))
      (rp_input_items plan) (rp_fallback_text plan)"
  obtain instructions items where ci: "codex_instructions_and_input sf input (map_of (rb_extra payload) ''instructions'')
      = (instructions, items)" by fastforce
  define object where "object = insert_extra (\<lambda>k. codex_passthrough_extra_key k (rp_drop_previous_response_id plan))
      (rb_extra payload) (insert_all
           ([(''model'', JString (rb_model payload)), (''instructions'', JString instructions),
             (''input'', JArray items), (''stream'', JBool True), (''store'', JBool False),
             (''prompt_cache_key'', JString (case rb_prompt_cache_key payload of Some k \<Rightarrow> k | None \<Rightarrow> key))]
            @ opt_entry ''reasoning'' (rb_reasoning payload)) [])"
  have m: "codex_responses_payload sf payload key plan prefix
      = JObject (ensure_reasoning_include_field object (obj_has ''reasoning'' object))"
    using ci by (simp add: codex_responses_payload_def Let_def object_def input_def)
  have "instructions \<noteq> []" using instructions_not_empty ci by (metis fst_conv)
  moreover have "items = filter (\<lambda>i. \<not> is_system_item i)
       (rp_input_items plan @ prefix @ normalize_responses_input sf (rb_input payload))"
    using codex_input [of sf input "map_of (rb_extra payload) ''instructions''"] ci
    by (simp add: input_def prepend_context_messages_def split: option.splits if_splits)
  moreover have has: "rb_reasoning payload \<noteq> None \<Longrightarrow> obj_has ''reasoning'' object"
    by (auto simp: obj_has_def object_def map_of_insert_extra map_of_insert_all)
  moreover have "if rb_reasoning payload = None then True
      else \<exists>include. map_of (ensure_reasoning_include_field object (obj_has ''reasoning'' object)) ''include''
        = Some (JArray include) \<and> encrypted_content \<in> set include"
    using has ensure_include_has [of object] by auto
  moreover note l = map_of_ensure_include [of _ object "obj_has ''reasoning'' object"]
  ultimately show ?thesis
    apply (intro exI [of _ "ensure_reasoning_include_field object (obj_has ''reasoning'' object)"]
        exI [of _ instructions] exI [of _ items] conjI m)
             apply (simp_all only: l list.simps char.inject simp_thms)
    apply (simp_all add: l object_def map_of_insert_extra map_of_insert_all map_add_def codex_passthrough_extra_key_def)
    done
qed

subsection \<open>The wire format\<close>

definition wire_ok :: "responses_request \<Rightarrow> bool" where
  "wire_ok r \<longleftrightarrow> obj_sorted (rb_extra r) \<and> list_all (\<lambda>(k, _). k \<notin> set responses_fields) (rb_extra r)
     \<and> rb_reasoning r \<noteq> Some JNull"

lemma unknown_fields_of_json:
  assumes "wire_ok r" and "responses_request_json r = JObject m"
  shows "unknown_fields responses_fields m = rb_extra r"
proof (rule obj_sorted_ext)
  show "obj_sorted (unknown_fields responses_fields m)"
    using assms by (auto simp: unknown_fields_def responses_request_json_def
        intro!: obj_sorted_filter obj_sorted_insert_all)
  show "obj_sorted (rb_extra r)" using assms by (simp add: wire_ok_def)
  have k: "map_of (rb_extra r) k = None" if "k \<in> set responses_fields" for k
    using assms that by (auto simp: wire_ok_def list_all_iff map_of_eq_None_iff)
  have d: "distinct (map fst (rb_extra r))"
    using assms by (simp add: wire_ok_def obj_sorted_def strict_sorted_iff)
  show "map_of (unknown_fields responses_fields m) = map_of (rb_extra r)"
  proof
    fix x
    show "map_of (unknown_fields responses_fields m) x = map_of (rb_extra r) x"
    proof (cases "x \<in> set responses_fields")
      case True
      then show ?thesis using k by (simp add: map_of_unknown_fields)
    next
      case False
      then have "map_of (rev [(''model'', a), (''input'', b), (''stream'', c), (''reasoning'', d), (''promptCacheKey'', e)]) x
          = None" for a b c d e :: json by (simp add: responses_fields_def)
      with False assms(2) show ?thesis
        by (auto simp: map_of_unknown_fields responses_request_json_def map_of_insert_all
            map_of_rev_distinct [OF d] map_add_def split: option.split)
    qed
  qed
qed

lemma wire_lookup:
  assumes "wire_ok r" and "k \<in> set responses_fields"
  shows "map_of (insert_all (rb_extra r) base) k = map_of base k"
proof -
  have "map_of (rev (rb_extra r)) k = None"
    using assms by (auto simp: wire_ok_def list_all_iff map_of_eq_None_iff)
  then show ?thesis by (simp add: map_of_insert_all map_add_def)
qed

text \<open>C34 (request_wire_roundtrip).
  Printing a responses request and reading it back gives the request: every known field and every
  unknown key. The unknown keys are in order, none of them twice and none a known field, and the
  reasoning is not null (\<open>wire_ok\<close>).\<close>

theorem request_wire_roundtrip:
  assumes "wire_ok r"
  shows "responses_request_of (responses_request_json r) = Some r"
proof -
  obtain m where m: "responses_request_json r = JObject m" by (simp add: responses_request_json_def)
  have l: "map_of m k = map_of (insert_all
     [(''model'', JString (rb_model r)), (''input'', rb_input r), (''stream'', opt_json JBool (rb_stream r)),
      (''reasoning'', opt_json (\<lambda>v. v) (rb_reasoning r)),
      (''promptCacheKey'', opt_json JString (rb_prompt_cache_key r))] []) k" if "k \<in> set responses_fields" for k
    using wire_lookup [OF assms that] m unfolding responses_request_json_def by auto
  have reasoning: "opt_field Some (Some (opt_json (\<lambda>v. v) (rb_reasoning r))) = Some (rb_reasoning r)"
    using assms by (auto simp: opt_field_def opt_json_def wire_ok_def split: option.splits json.splits)
  have o: "opt_field json_as_bool (Some (opt_json JBool (rb_stream r))) = Some (rb_stream r)"
      "opt_field json_as_str (Some (opt_json JString (rb_prompt_cache_key r))) = Some (rb_prompt_cache_key r)"
    by (simp_all add: opt_field_def opt_json_def split: option.split)
  show ?thesis
    unfolding m responses_request_of_def
    by (simp add: l responses_fields_def map_of_insert_all reasoning o
        unknown_fields_of_json [OF assms m, unfolded responses_fields_def])
qed

definition ex_request_body :: responses_request where
  "ex_request_body = \<lparr>rb_model = ''gpt-5.4'', rb_input = JString ''hi'', rb_stream = Some True, rb_reasoning = None,
     rb_prompt_cache_key = None, rb_extra = [(''store'', JBool True), (''temperature'', JPosInt 1)]\<rparr>"

theorem request_wire_roundtrip_witness:
  "responses_request_of (responses_request_json ex_request_body) = Some ex_request_body \<and> wire_ok ex_request_body"
proof -
  have "wire_ok ex_request_body" by code_simp
  with request_wire_roundtrip [OF this] show ?thesis by simp
qed

text \<open>Fact (snake_case_bypasses_policy).
  The request types rename their fields to camel case, but the clients of the API send snake case: a
  chat request's reasoning effort is never seen by the key's policy. It stays among the unknown keys
  and goes upstream unchanged even when the key forces another effort.\<close>

theorem snake_case_bypasses_policy:
  assumes "chat_request_of (JObject m) = Some r" and "map_of m ''reasoning_effort'' = Some (JString effort)"
    and "map_of m ''reasoningEffort'' = None"
    and "ak_force_reasoning_effort key" and "ak_reasoning_effort key = Some forced"
  shows "ch_reasoning_effort r = None
    \<and> json_get (responses_payload_from_chat_request sf
          (apply_chat_policy r (resolve_effective_model key (ch_model r)) (resolve_effective_reasoning_for_chat key r))
          cache_key plan False) ''reasoning_effort'' = Some (JString effort)
    \<and> json_get (responses_payload_from_chat_request sf
          (apply_chat_policy r (resolve_effective_model key (ch_model r)) (resolve_effective_reasoning_for_chat key r))
          cache_key plan False) ''reasoning'' = Some (json_obj [(''effort'', JString forced)])"
proof -
  have "ch_reasoning_effort r = None" "ch_extra r = unknown_fields chat_fields m"
    using assms(1,3) by (auto simp: chat_request_of_def opt_field_def split: option.splits)
  then show ?thesis using assms(2-)
    by (simp add: responses_payload_from_chat_request_def responses_payload_from_chat_input_def Let_def
        map_of_ensure_include map_of_insert_extra map_of_insert_all map_of_unknown_fields chat_fields_def
        apply_chat_policy_def resolve_effective_reasoning_for_chat_def map_add_def)
qed

definition ex_forced_key :: gateway_api_key where
  "ex_forced_key = \<lparr>ak_id = 1, ak_tenant_id = 1, ak_name = ''n'', ak_email = ''e'', ak_role = Admin, ak_token = ''t'',
     ak_default_model = None, ak_reasoning_effort = Some ''low'', ak_force_model_override = False,
     ak_force_reasoning_effort = True, ak_created_at = 0, ak_updated_at = 0\<rparr>"

definition ex_chat_body :: "(str \<times> json) list" where
  "ex_chat_body = [(''messages'', JArray []), (''model'', JString ''m''), (''reasoning_effort'', JString ''high'')]"

definition ex_chat_request :: chat_completions_request where
  "ex_chat_request = \<lparr>ch_model = ''m'', ch_messages = [], ch_stream = None, ch_reasoning_effort = None,
     ch_extra = [(''reasoning_effort'', JString ''high'')]\<rparr>"

theorem snake_case_bypasses_policy_witness:
  "chat_request_of (JObject ex_chat_body) = Some ex_chat_request
    \<and> (\<exists>sf. json_get (responses_payload_from_chat_request sf
          (apply_chat_policy ex_chat_request ''m'' (resolve_effective_reasoning_for_chat ex_forced_key ex_chat_request))
          ''k'' replay_plan_default False) ''reasoning_effort'' = Some (JString ''high''))"
proof -
  have r: "chat_request_of (JObject ex_chat_body) = Some ex_chat_request" "resolve_effective_model ex_forced_key (ch_model ex_chat_request) = ''m''"
      "map_of ex_chat_body ''reasoning_effort'' = Some (JString ''high'')" "map_of ex_chat_body ''reasoningEffort'' = None"
    by code_simp+
  have k: "ak_force_reasoning_effort ex_forced_key" "ak_reasoning_effort ex_forced_key = Some ''low''"
    by (simp_all add: ex_forced_key_def)
  show ?thesis
    using r(1) snake_case_bypasses_policy [OF r(1,3,4) k, of "\<lambda>_. []" "''k''" replay_plan_default] unfolding r(2) by blast
qed

end
