(* ===== verification/Payload_Types.thy ===== *)
theory Payload_Types
  imports Payload_Laws
begin

text \<open>
  The values of \<open>serde_json\<close> among those of the type \<open>json\<close>: objects sorted by their keys without
  repetition, negative numbers below zero, floats that are numbers. Everything the gateway builds from
  such values is one again, so that printing a body and reading it back are inverse.
\<close>

function json_ok :: "json \<Rightarrow> bool" where
  "json_ok v = (case v of
       JNegInt n \<Rightarrow> sint n < 0
     | JFloat x \<Rightarrow> (case x of Fin _ \<Rightarrow> True | _ \<Rightarrow> False)
     | JArray items \<Rightarrow> list_all json_ok items
     | JObject m \<Rightarrow> obj_sorted m \<and> list_all (\<lambda>kv. json_ok (snd kv)) m
     | _ \<Rightarrow> True)"
  by pat_completeness auto
termination
  by (relation "measure size") (auto dest: size_member)

declare json_ok.simps [simp del]

lemma json_ok_simps [simp]:
  "json_ok JNull" "json_ok (JBool b)" "json_ok (JPosInt n)" "json_ok (JString s)"
  "json_ok (JNegInt k) \<longleftrightarrow> sint k < 0"
  "json_ok (JArray items) \<longleftrightarrow> list_all json_ok items"
  by (simp_all add: json_ok.simps [of JNull] json_ok.simps [of "JBool b"] json_ok.simps [of "JPosInt n"]
      json_ok.simps [of "JString s"] json_ok.simps [of "JNegInt k"] json_ok.simps [of "JArray items"])

text \<open>The entries of an object.\<close>

definition entries_ok :: "(str \<times> json) list \<Rightarrow> bool" where
  "entries_ok m \<longleftrightarrow> obj_sorted m \<and> (\<forall>v \<in> snd ` set m. json_ok v)"

lemma json_ok_object [simp]: "json_ok (JObject m) \<longleftrightarrow> entries_ok m"
  by (auto simp: json_ok.simps [of "JObject m"] entries_ok_def list_all_iff)

named_theorems typing \<open>what is built from well-typed values is well-typed\<close>

lemma entries_ok_Nil [simp]: "entries_ok []"
  by (simp add: entries_ok_def)

lemma entries_ok_single [simp]: "entries_ok [(k, v)] \<longleftrightarrow> json_ok v"
  by (simp add: entries_ok_def obj_sorted_def)

lemma entries_list: "entries_ok m \<Longrightarrow> list_all (\<lambda>kv. json_ok (snd kv)) m"
  by (auto simp: entries_ok_def list_all_iff)

lemma entries_ok_insert [typing]: "entries_ok m \<Longrightarrow> json_ok v \<Longrightarrow> entries_ok (obj_insert k v m)"
  using set_obj_insert [of k v m] by (fastforce simp: entries_ok_def obj_sorted_insert)

lemma entries_ok_remove [typing]: "entries_ok m \<Longrightarrow> entries_ok (obj_remove k m)"
  by (auto simp: entries_ok_def obj_sorted_remove) (auto simp: obj_remove_def)

lemma entries_ok_filter [typing]: "entries_ok m \<Longrightarrow> entries_ok (filter P m)"
  by (auto simp: entries_ok_def obj_sorted_filter)

lemma entries_ok_get: "entries_ok m \<Longrightarrow> map_of m k = Some v \<Longrightarrow> json_ok v"
  by (auto simp: entries_ok_def dest!: map_of_SomeD)

lemma entries_ok_insert_all [typing]:
  "entries_ok m \<Longrightarrow> list_all (\<lambda>kv. json_ok (snd kv)) kvs \<Longrightarrow> entries_ok (insert_all kvs m)"
  unfolding insert_all_def by (induction kvs arbitrary: m) (auto simp: entries_ok_insert)

lemma json_ok_obj [typing]: "list_all (\<lambda>kv. json_ok (snd kv)) kvs \<Longrightarrow> json_ok (json_obj kvs)"
  using entries_ok_insert_all [of "[]" kvs] by (simp add: json_obj_def insert_all_def)

lemma entries_ok_extra [typing]:
  "entries_ok m \<Longrightarrow> entries_ok extra \<Longrightarrow> entries_ok (insert_extra keep extra m)"
proof -
  have "list_all (\<lambda>kv. json_ok (snd kv)) kvs \<Longrightarrow> entries_ok m \<Longrightarrow> entries_ok (insert_extra keep kvs m)" for kvs
    unfolding insert_extra_def by (induction kvs arbitrary: m) (auto simp: entries_ok_insert)
  then show "entries_ok m \<Longrightarrow> entries_ok extra \<Longrightarrow> ?thesis" by (auto simp: entries_ok_def list_all_iff)
qed

lemma opt_entry_ok [simp]: "list_all (\<lambda>kv. json_ok (snd kv)) (opt_entry k v) \<longleftrightarrow> (\<forall>x. v = Some x \<longrightarrow> json_ok x)"
  by (auto simp: opt_entry_def split: option.split)

subsection \<open>Items\<close>

lemma user_text_ok [simp]: "json_ok (user_text t)"
  by (simp add: user_text_def json_ok_obj)

lemma input_ok [typing]: "json_ok v \<Longrightarrow> list_all json_ok (normalize_responses_input sf v)"
  by (auto simp: normalize_responses_input_def split: json.split)

lemma prepended_ok [typing]:
  "list_all json_ok items \<Longrightarrow> list_all json_ok prefix \<Longrightarrow> list_all json_ok (prepend_context_messages items prefix context)"
  by (auto simp: prepend_context_messages_def replay_context_message_def json_ok_obj split: option.split)

lemma split_input_ok [typing]:
  "list_all json_ok items \<Longrightarrow> list_all json_ok (snd (codex_instructions_and_input sf items explicit))"
  by (auto simp: codex_input list_all_iff)

lemma include_ok [typing]: "entries_ok m \<Longrightarrow> entries_ok (ensure_reasoning_include_field m asked)"
proof -
  have "json_ok v \<Longrightarrow> list_all json_ok (normalize_include_field v)" for v
    by (cases v) (auto simp: normalize_include_field_def)
  moreover have "json_ok encrypted_content" by (simp add: encrypted_content_def)
  ultimately show "entries_ok m \<Longrightarrow> ?thesis"
    by (auto simp: ensure_reasoning_include_field_def Let_def dest: entries_ok_get
        intro!: entries_ok_insert entries_ok_remove split: option.split)
qed

subsection \<open>Requests and bodies\<close>

definition request_ok :: "responses_request \<Rightarrow> bool" where
  "request_ok r \<longleftrightarrow> json_ok (rb_input r) \<and> (\<forall>v. rb_reasoning r = Some v \<longrightarrow> json_ok v) \<and> entries_ok (rb_extra r)"

definition chat_ok :: "chat_completions_request \<Rightarrow> bool" where
  "chat_ok r \<longleftrightarrow> list_all (\<lambda>m. json_ok (mg_content m)) (ch_messages r) \<and> entries_ok (ch_extra r)"

lemma request_read: "json_ok body \<Longrightarrow> responses_request_of body = Some r \<Longrightarrow> request_ok r"
proof (cases body)
  case (JObject m)
  assume ok: "json_ok body" and read: "responses_request_of body = Some r"
  have m: "map_of m ''input'' = Some (rb_input r)" "opt_field Some (map_of m ''reasoning'') = Some (rb_reasoning r)"
      "rb_extra r = unknown_fields responses_fields m"
    using read JObject by (auto simp: responses_request_of_def split: option.splits)
  have "json_ok v" if "rb_reasoning r = Some v" for v
    using m(2) that ok JObject entries_ok_get by (auto simp: opt_field_def split: option.splits json.splits)
  then show ?thesis
    using m(1,3) ok JObject entries_ok_get by (auto simp: request_ok_def unknown_fields_def entries_ok_filter)
qed (auto simp: responses_request_of_def)

lemma messages_read:
  "all_of chat_message_of items = Some ms \<Longrightarrow> list_all json_ok items \<Longrightarrow> list_all (\<lambda>m. json_ok (mg_content m)) ms"
proof (induction items arbitrary: ms)
  case (Cons v items)
  obtain m ms' where m: "chat_message_of v = Some m" "all_of chat_message_of items = Some ms'" "ms = m # ms'"
    using Cons.prems(1) by (auto split: option.splits)
  have "json_ok (mg_content m)"
    using m(1) Cons.prems(2)
    by (cases v rule: chat_message_of.cases) (auto dest: entries_ok_get split: option.splits)
  with Cons m show ?case by simp
qed simp

lemma chat_read: "json_ok body \<Longrightarrow> chat_request_of body = Some r \<Longrightarrow> chat_ok r"
proof (cases body)
  case (JObject m)
  assume ok: "json_ok body" and read: "chat_request_of body = Some r"
  obtain ms v where ms: "all_of chat_message_of ms = Some (ch_messages r)" "map_of m ''messages'' = Some v"
      "json_as_array v = Some ms" and extra: "ch_extra r = unknown_fields chat_fields m"
    using read JObject by (auto simp: chat_request_of_def bind_eq_Some_conv split: option.splits)
  have "json_ok v" using ok JObject ms(2) entries_ok_get by simp
  then have "list_all json_ok ms" using ms(3) by (cases v) simp_all
  from messages_read [OF ms(1) this] ok JObject extra show ?thesis
    by (simp add: chat_ok_def unknown_fields_def entries_ok_filter)
qed (auto simp: chat_request_of_def)

lemma policy_ok [typing]: "request_ok r \<Longrightarrow> request_ok (apply_responses_policy r model effort)"
proof -
  have "json_as_object v = Some m \<Longrightarrow> json_ok v \<Longrightarrow> entries_ok m" for v m by (cases v) auto
  then show "request_ok r \<Longrightarrow> ?thesis"
    by (auto simp: request_ok_def apply_responses_policy_def Let_def bind_eq_Some_conv intro!: entries_ok_insert
        split: option.split)
qed

lemma request_json_ok [typing]: "request_ok r \<Longrightarrow> json_ok (responses_request_json r)"
  by (auto simp: responses_request_json_def request_ok_def opt_json_def entries_list
      intro!: entries_ok_insert_all split: option.split)

lemma codex_body_ok [typing]:
  assumes "request_ok r" and "list_all json_ok (rp_input_items plan)" and "list_all json_ok prefix"
  shows "json_ok (codex_responses_payload sf r key plan prefix)"
proof -
  have "list_all json_ok (snd (codex_instructions_and_input sf
      (prepend_context_messages (prefix @ normalize_responses_input sf (rb_input r)) (rp_input_items plan)
        (rp_fallback_text plan)) (map_of (rb_extra r) ''instructions'')))"
    using assms by (intro split_input_ok prepended_ok) (simp_all add: request_ok_def input_ok)
  with assms(1) show ?thesis
    by (auto simp: codex_responses_payload_def Let_def request_ok_def split: prod.split
        intro!: include_ok entries_ok_extra entries_ok_insert_all)
qed

lemma upstream_body_ok [typing]:
  assumes "request_ok r" and "list_all json_ok (rp_input_items plan)" and "list_all json_ok prefix"
  shows "json_ok (responses_payload_for_upstream sf r key plan codex prefix)"
proof (cases codex)
  case True
  with assms show ?thesis by (simp add: responses_payload_for_upstream_def codex_body_ok)
next
  case False
  have "list_all json_ok (replay_augmented_responses_input sf (rb_input r) plan)"
    using assms by (auto simp: replay_augmented_responses_input_def request_ok_def intro: prepended_ok input_ok)
  with False assms show ?thesis
    by (auto simp: responses_payload_for_upstream_def Let_def request_ok_def intro!: request_json_ok entries_ok_remove)
qed

lemma as_array_ok: "json_ok v \<Longrightarrow> json_as_array v = Some items \<Longrightarrow> list_all json_ok items"
  by (cases v) auto

lemma compact_object_ok [typing]:
  assumes "request_ok r"
  shows "entries_ok (compact_payload_object sf r)"
proof -
  have "list_all json_ok t" if "Option.bind (map_of (rb_extra r) ''tools'') json_as_array = Some t" for t
    using that assms by (auto simp: request_ok_def bind_eq_Some_conv dest: entries_ok_get as_array_ok)
  then show ?thesis
    using assms unfolding compact_payload_object_def
    by (intro entries_ok_insert_all) (auto simp: request_ok_def input_ok dest: entries_ok_get split: option.split)
qed

lemma chat_body_ok [typing]:
  assumes "chat_ok r" and "list_all json_ok (rp_input_items plan)"
  shows "json_ok (responses_payload_from_chat_request sf r key plan codex)"
proof -
  have input: "list_all json_ok (chat_input r plan)"
    using assms unfolding chat_input_def chat_ok_def
    by (intro prepended_ok) (auto simp: list_all_iff chat_message_to_responses_input_def intro!: json_ok_obj)
  have effort: "\<forall>x. map_option (\<lambda>effort. json_obj [(''effort'', JString effort)]) e = Some x \<longrightarrow> json_ok x" for e
    by (auto simp: json_ok_obj)
  have "entries_ok (ch_extra r)" using assms(1) by (simp add: chat_ok_def)
  then show ?thesis
    using input effort split_input_ok [OF input]
    by (auto simp: responses_payload_from_chat_request_def responses_payload_from_chat_input_def Let_def
        split: prod.split intro!: include_ok entries_ok_extra entries_ok_insert_all) (metis snd_conv)
qed

text \<open>Fact (bodies_well_typed).
  From a body the JSON parser can return, replayed items and tool calls that are JSON values, whatever
  the policy of the key makes of the request, the bodies made of a responses request, of a compaction and
  of a chat request are JSON values as the library prints and reads them: objects with their keys in order and none twice, negative numbers
  below zero, no float that is not a number.\<close>

theorem bodies_well_typed:
  assumes "json_ok body" and "responses_request_of body = Some request" and "json_ok chat_body"
    and "chat_request_of chat_body = Some chat" and "list_all json_ok (rp_input_items plan)" and "list_all json_ok prefix"
  shows "json_ok (responses_payload_for_upstream sf (apply_responses_policy request model effort) key plan codex prefix)
    \<and> json_ok (compact_payload_for_upstream sf (apply_responses_policy request model effort))
    \<and> json_ok (compact_payload_for_standard_responses sf (apply_responses_policy request model effort))
    \<and> json_ok (responses_payload_from_chat_request sf (apply_chat_policy chat model effort) key plan codex)"
proof -
  have r: "request_ok (apply_responses_policy request model effort)"
    using policy_ok [OF request_read [OF assms(1,2)]] .
  have "chat_ok (apply_chat_policy chat model effort)"
    using chat_read [OF assms(3,4)] by (simp add: chat_ok_def apply_chat_policy_def)
  with r assms(5,6) show ?thesis
    by (simp add: upstream_body_ok chat_body_ok compact_payload_for_upstream_def
        compact_payload_for_standard_responses_def compact_object_ok entries_ok_insert)
qed

definition ex_body :: json where
  "ex_body = JObject [(''input'', JString ''hello''), (''model'', JString ''m''), (''n'', JNegInt (- 1))]"

definition ex_body_chat :: json where
  "ex_body_chat = JObject [(''messages'', JArray []), (''model'', JString ''m'')]"

lemma ex_bodies_ok: "json_ok ex_body" "json_ok ex_body_chat"
  by (simp_all add: ex_body_def ex_body_chat_def entries_ok_def)

theorem bodies_well_typed_witness:
  "\<exists>request chat. responses_request_of ex_body = Some request \<and> chat_request_of ex_body_chat = Some chat
    \<and> json_ok (responses_payload_for_upstream (\<lambda>_. []) (apply_responses_policy request ''m'' (Some ''low'')) ''k''
         replay_plan_default True [])"
proof -
  obtain request where r: "responses_request_of ex_body = Some request"
    by (simp add: responses_request_of_def ex_body_def opt_field_def)
  obtain chat where c: "chat_request_of ex_body_chat = Some chat"
    by (simp add: chat_request_of_def ex_body_chat_def opt_field_def)
  have "list_all json_ok (rp_input_items replay_plan_default)" by (simp add: replay_plan_default_def)
  from bodies_well_typed [OF ex_bodies_ok(1) r ex_bodies_ok(2) c this, of "[]"] r c show ?thesis by auto
qed

end
