(* ===== verification/Sse.thy ===== *)
theory Sse
  imports Failures
begin

text \<open>
  Server-sent events as the gateway reads them (\<open>http/data.rs\<close>): the decoding of the chunks a
  response body arrives in, the records cut out of the buffer, and what one record says. \<open>parse\<close> is
  \<open>serde_json::from_str\<close>.
\<close>

subsection \<open>Chunks\<close>

text \<open>
  \<open>String::from_utf8_lossy\<close>: an ill-formed sequence (a maximal part of a well-formed one, or a
  single byte) becomes U+FFFD.
\<close>

definition replacement :: str where
  "replacement = bytes [0xEF, 0xBF, 0xBD]"

definition second_ok :: "nat \<Rightarrow> nat \<Rightarrow> bool" where
  "second_ok a b \<longleftrightarrow>
     (if a = 0xE0 then 0xA0 \<le> b \<and> b \<le> 0xBF else if a = 0xED then 0x80 \<le> b \<and> b \<le> 0x9F
      else if a = 0xF0 then 0x90 \<le> b \<and> b \<le> 0xBF else if a = 0xF4 then 0x80 \<le> b \<and> b \<le> 0x8F
      else 0x80 \<le> b \<and> b \<le> 0xBF)"

definition utf8_width :: "nat \<Rightarrow> nat" where
  "utf8_width a = (if a < 0x80 then 1 else if 0xC2 \<le> a \<and> a \<le> 0xDF then 2
     else if 0xE0 \<le> a \<and> a \<le> 0xEF then 3 else if 0xF0 \<le> a \<and> a \<le> 0xF4 then 4 else 0)"

text \<open>How many bytes are consumed, and whether they are one character.\<close>

fun utf8_step :: "str \<Rightarrow> nat \<times> bool" where
  "utf8_step [] = (0, True)"
| "utf8_step (a # s) =
    (let w = utf8_width (byte a) in
     if w = 1 then (1, True)
     else if w = 0 then (1, False)
     else case s of
       [] \<Rightarrow> (1, False)
     | b # s \<Rightarrow>
         if \<not> second_ok (byte a) (byte b) then (1, False)
         else if w = 2 then (2, True)
         else case s of
           [] \<Rightarrow> (2, False)
         | c # s \<Rightarrow>
             if \<not> is_cont c then (2, False)
             else if w = 3 then (3, True)
             else case s of
               [] \<Rightarrow> (3, False)
             | d # _ \<Rightarrow> if is_cont d then (4, True) else (3, False))"

lemma utf8_step_pos: "s \<noteq> [] \<Longrightarrow> 0 < fst (utf8_step s)"
  by (cases s) (auto simp: Let_def split: list.splits)

function from_utf8_lossy :: "str \<Rightarrow> str" where
  "from_utf8_lossy s =
    (if s = [] then []
     else case utf8_step s of (n, ok) \<Rightarrow> (if ok then take n s else replacement) @ from_utf8_lossy (drop n s))"
  by pat_completeness auto
termination
proof (relation "measure length", goal_cases)
  case (2 s n ok)
  then have "0 < n" using utf8_step_pos [of s] by (metis fst_conv)
  with 2 show ?case by (cases s) simp_all
qed simp

declare from_utf8_lossy.simps [simp del]

abbreviation lf :: char where
  "lf \<equiv> CHR 0x0A"

abbreviation cr :: char where
  "cr \<equiv> CHR 0x0D"

text \<open>Every CR LF of a chunk becomes LF.\<close>

fun replace_crlf :: "str \<Rightarrow> str" where
  "replace_crlf (a # b # s) = (if a = cr \<and> b = lf then lf # replace_crlf s else a # replace_crlf (b # s))"
| "replace_crlf s = s"

definition chunk_text :: "str \<Rightarrow> str" where
  "chunk_text chunk = replace_crlf (from_utf8_lossy chunk)"

subsection \<open>Records\<close>

text \<open>\<open>None\<close>: the buffer holds no complete record; otherwise the record and the buffer after it.\<close>

fun take_sse_record :: "str \<Rightarrow> (str \<times> str) option" where
  "take_sse_record (a # b # s) =
    (if a = lf \<and> b = lf then Some ([], s)
     else map_option (\<lambda>(record, buffer). (a # record, buffer)) (take_sse_record (b # s)))"
| "take_sse_record _ = None"

lemma take_sse_record_split: "take_sse_record buffer = Some (r, rest) \<Longrightarrow> buffer = r @ [lf, lf] @ rest"
  by (induction buffer arbitrary: r rest rule: take_sse_record.induct) (auto split: if_splits)

lemma take_sse_record_shorter: "take_sse_record buffer = Some (record, rest) \<Longrightarrow> length rest < length buffer"
  by (drule take_sse_record_split) simp

text \<open>\<open>while let Some(record) = take_sse_record(&mut buffer)\<close>.\<close>

function drain_records :: "str \<Rightarrow> str list \<times> str" where
  "drain_records buffer =
    (case take_sse_record buffer of
       None \<Rightarrow> ([], buffer)
     | Some (record, rest) \<Rightarrow> (case drain_records rest of (records, b) \<Rightarrow> (record # records, b)))"
  by pat_completeness auto
termination
  by (relation "measure length") (auto dest: take_sse_record_shorter)

declare drain_records.simps [simp del]

fun strip_prefix :: "str \<Rightarrow> str \<Rightarrow> str option" where
  "strip_prefix s [] = Some s"
| "strip_prefix [] (p # ps) = None"
| "strip_prefix (c # cs) (p # ps) = (if c = p then strip_prefix cs ps else None)"

lemma strip_prefix_iff: "strip_prefix s p = Some t \<longleftrightarrow> s = p @ t"
  by (induction s p rule: strip_prefix.induct) auto

definition sse_line :: "str \<Rightarrow> str \<times> str list \<Rightarrow> str \<times> str list" where
  "sse_line line acc =
    (case strip_prefix line ''event:'' of
       Some v \<Rightarrow> (trim v, snd acc)
     | None \<Rightarrow>
         (case strip_prefix line ''data:'' of
            Some v \<Rightarrow> (fst acc, snd acc @ [trim_start v])
          | None \<Rightarrow> acc))"

definition parse_sse_record :: "str \<Rightarrow> (str \<times> str) option" where
  "parse_sse_record record =
    (let (event, data) = fold sse_line (str_lines record) ([], [])
     in if event = [] \<and> data = [] then None else Some (event, join nl data))"

definition response_value_from_sse_record :: "(str \<Rightarrow> json option) \<Rightarrow> str \<Rightarrow> json option" where
  "response_value_from_sse_record parse record = Option.bind (parse_sse_record record) (\<lambda>(_, data). parse data)"

definition hidden_failure_kind_from_sse_record ::
  "(str \<Rightarrow> json option) \<Rightarrow> (f64 \<Rightarrow> str) \<Rightarrow> str \<Rightarrow> str \<Rightarrow> upstream_failure_kind option" where
  "hidden_failure_kind_from_sse_record parse sf record expected_model =
    Option.bind (response_value_from_sse_record parse record)
      (\<lambda>v. hidden_failure_kind_from_json sf v expected_model [])"

definition sse_resolved_event_name :: "(str \<Rightarrow> json option) \<Rightarrow> str \<Rightarrow> str option" where
  "sse_resolved_event_name parse record =
    (case parse_sse_record record of
       None \<Rightarrow> None
     | Some (event_name, data) \<Rightarrow>
         if event_name \<noteq> [] then Some event_name
         else Option.bind (parse data) (\<lambda>v. json_str_field v ''type''))"

definition is_stream_release_event :: "str \<Rightarrow> bool" where
  "is_stream_release_event event_name \<longleftrightarrow> event_name \<in>
     {''response.created'', ''response.in_progress'', ''response.output_text.delta'', ''response.output_item.added'',
      ''response.output_item.done'', ''response.function_call_arguments.delta'',
      ''response.function_call_arguments.done'', ''response.reasoning_summary_text.delta'', ''response.completed''}"

subsection \<open>What responses say\<close>

definition items_of :: "json option \<Rightarrow> json list" where
  "items_of v = (case Option.bind v json_as_array of Some items \<Rightarrow> items | None \<Rightarrow> [])"

definition content_text :: "json \<Rightarrow> str option" where
  "content_text part =
    (if json_str_field part ''type'' = Some ''output_text'' \<or> json_str_field part ''type'' = Some ''input_text''
     then json_str_field part ''text'' else None)"

definition extract_response_output_text :: "json \<Rightarrow> str" where
  "extract_response_output_text v =
    concat (concat (map (\<lambda>item. List.map_filter content_text (items_of (json_get item ''content'')))
      (filter (\<lambda>item. json_str_field item ''role'' = Some ''assistant'') (items_of (json_get v ''output'')))))"

definition response_root_value :: "json \<Rightarrow> json" where
  "response_root_value v = (case json_get v ''response'' of Some r \<Rightarrow> r | None \<Rightarrow> v)"

definition response_id_from_value :: "json \<Rightarrow> str option" where
  "response_id_from_value v = json_str_field (response_root_value v) ''id''"

definition response_output_items_from_value :: "json \<Rightarrow> json list" where
  "response_output_items_from_value v = items_of (json_get (response_root_value v) ''output'')"

definition response_output_item_from_stream_value :: "json \<Rightarrow> (nat \<times> json) option" where
  "response_output_item_from_stream_value v =
    (if json_str_field v ''type'' = Some ''response.output_item.added''
        \<or> json_str_field v ''type'' = Some ''response.output_item.done''
     then (case Option.bind (json_get v ''output_index'') json_as_u64 of
             None \<Rightarrow> None
           | Some index \<Rightarrow> map_option (\<lambda>item. (unat index, item)) (json_get v ''item''))
     else None)"

definition response_status_is_completed :: "json \<Rightarrow> bool" where
  "response_status_is_completed v \<longleftrightarrow>
    (case json_str_field (response_root_value v) ''status'' of
       Some status \<Rightarrow> eq_ignore_ascii_case status ''completed'' | None \<Rightarrow> False)"

definition response_delta_text :: "(str \<Rightarrow> json option) \<Rightarrow> str \<Rightarrow> str option" where
  "response_delta_text parse record =
    (case response_value_from_sse_record parse record of
       None \<Rightarrow> None
     | Some v \<Rightarrow>
         if json_str_field v ''type'' = Some ''response.output_text.delta'' then json_str_field v ''delta''
         else if json_str_field v ''type'' = Some ''response.completed''
         then (let content = extract_response_output_text (response_root_value v)
               in if content \<noteq> [] then Some content else None)
         else None)"

text \<open>A \<open>BTreeMap<usize, Value>\<close>: the entries in the order of their indices.\<close>

type_synonym item_map = "(nat \<times> json) list"

fun item_insert :: "nat \<Rightarrow> json \<Rightarrow> item_map \<Rightarrow> item_map" where
  "item_insert k v [] = [(k, v)]"
| "item_insert k v ((k', v') # m) =
    (if k = k' then (k, v) # m else if k < k' then (k, v) # (k', v') # m else (k', v') # item_insert k v m)"

record stream_metadata =
  sm_response_id :: "str option"
  sm_output_items :: item_map
  sm_completed_response :: "json option"

definition no_metadata :: stream_metadata where
  "no_metadata = \<lparr>sm_response_id = None, sm_output_items = [], sm_completed_response = None\<rparr>"

definition capture_stream_response_metadata :: "json \<Rightarrow> stream_metadata \<Rightarrow> stream_metadata" where
  "capture_stream_response_metadata v m =
    (let m = (if sm_response_id m = None then m\<lparr>sm_response_id := response_id_from_value v\<rparr> else m);
         m = (case response_output_item_from_stream_value v of
                Some (index, item) \<Rightarrow> m\<lparr>sm_output_items := item_insert index item (sm_output_items m)\<rparr>
              | None \<Rightarrow> m);
         m = m\<lparr>sm_output_items := fold (\<lambda>(index, item). item_insert index item)
               (enumerate 0 (response_output_items_from_value v)) (sm_output_items m)\<rparr>
     in if response_status_is_completed v then m\<lparr>sm_completed_response := Some (response_root_value v)\<rparr> else m)"

definition finalize_stream_response :: "stream_metadata \<Rightarrow> json option" where
  "finalize_stream_response m =
    (case sm_completed_response m of
       None \<Rightarrow> None
     | Some (JObject object) \<Rightarrow>
         (let object = (case sm_response_id m of
                Some i \<Rightarrow> if obj_has ''id'' object then object else obj_insert ''id'' (JString i) object
              | None \<Rightarrow> object);
              merged_output = fold (\<lambda>(index, item). item_insert index item) (sm_output_items m)
                (enumerate 0 (items_of (map_of object ''output'')))
          in Some (JObject (if merged_output \<noteq> []
                then obj_insert ''output'' (JArray (map snd merged_output)) object else object)))
     | Some response \<Rightarrow> Some response)"

end
