(* ===== verification/Chat_Stream.thy ===== *)
theory Chat_Stream
  imports Payloads Sse
begin

text \<open>
  The chat completions that the gateway makes of responses (\<open>http/data.rs\<close>): of a whole response,
  and record by record of a stream (\<open>ChatStreamAdapterState\<close>).
\<close>

subsection \<open>How a response ended\<close>

definition response_incomplete_reason :: "json \<Rightarrow> str option" where
  "response_incomplete_reason v =
    Option.bind (Option.bind (Option.bind (json_get (response_root_value v) ''incomplete_details'') json_as_object)
      (\<lambda>details. map_of details ''reason'')) json_as_str"

definition error_code_in :: "json \<Rightarrow> str option" where
  "error_code_in v =
    Option.bind (Option.bind (Option.bind (json_get v ''error'') json_as_object) (\<lambda>error. map_of error ''code'')) json_as_str"

definition response_error_code :: "json \<Rightarrow> str option" where
  "response_error_code v = (case error_code_in v of Some c \<Rightarrow> Some c | None \<Rightarrow> error_code_in (response_root_value v))"

definition is_length_terminal_reason :: "str \<Rightarrow> bool" where
  "is_length_terminal_reason reason \<longleftrightarrow> contains_any (to_ascii_lowercase reason)
     [''length'', ''max_output_tokens'', ''max_tokens'', ''context_length_exceeded'', ''context window'', ''token limit'',
      ''truncat'']"

definition is_content_filter_terminal_reason :: "str \<Rightarrow> bool" where
  "is_content_filter_terminal_reason reason \<longleftrightarrow>
     contains_any (to_ascii_lowercase reason) [''content_filter'', ''content filter'']"

definition holds :: "('a \<Rightarrow> bool) \<Rightarrow> 'a option \<Rightarrow> bool" where
  "holds P v \<longleftrightarrow> (case v of Some x \<Rightarrow> P x | None \<Rightarrow> False)"

definition response_has_length_terminal :: "json \<Rightarrow> bool" where
  "response_has_length_terminal v =
    (if holds is_length_terminal_reason (response_error_code v) then True
     else if holds (\<lambda>status. eq_ignore_ascii_case status ''incomplete'') (json_str_field (response_root_value v) ''status'')
     then (case response_incomplete_reason v of Some reason \<Rightarrow> is_length_terminal_reason reason | None \<Rightarrow> True)
     else holds is_length_terminal_reason (json_str_field (response_root_value v) ''truncation''))"

definition response_has_content_filter_terminal :: "json \<Rightarrow> bool" where
  "response_has_content_filter_terminal v \<longleftrightarrow>
     holds is_content_filter_terminal_reason (response_error_code v)
   \<or> holds is_content_filter_terminal_reason (response_incomplete_reason v)"

definition response_to_chat_finish_reason :: "json \<Rightarrow> bool \<Rightarrow> str" where
  "response_to_chat_finish_reason v saw_tool_call =
    (if saw_tool_call then ''tool_calls''
     else if response_has_content_filter_terminal v then ''content_filter''
     else if response_has_length_terminal v then ''length''
     else ''stop'')"

subsection \<open>A whole response\<close>

definition json_nat :: "nat \<Rightarrow> json" where
  "json_nat n = JPosInt (of_nat n)"

definition json_i64 :: "i64 \<Rightarrow> json" where
  "json_i64 n = (if sint n < 0 then JNegInt n else JPosInt n)"

definition str_or :: "str option \<Rightarrow> str \<Rightarrow> str" where
  "str_or v fallback = (case v of Some s \<Rightarrow> s | None \<Rightarrow> fallback)"

definition tool_call_entry :: "nat \<Rightarrow> json \<Rightarrow> json" where
  "tool_call_entry index item = json_obj
    [(''index'', json_nat index), (''id'', JString (str_or (json_str_field item ''call_id'') ''call_proxy'')),
     (''type'', JString ''function''),
     (''function'', json_obj [(''name'', JString (str_or (json_str_field item ''name'') ''tool'')),
        (''arguments'', JString (str_or (json_str_field item ''arguments'') []))])]"

definition extract_response_tool_calls :: "json \<Rightarrow> json list" where
  "extract_response_tool_calls v = map (\<lambda>(index, item). tool_call_entry index item)
     (enumerate 0 (filter (\<lambda>item. json_str_field item ''type'' = Some ''function_call'') (items_of (json_get v ''output''))))"

text \<open>\<open>created\<close> is the clock.\<close>

definition responses_json_to_chat_completion :: "i64 \<Rightarrow> json \<Rightarrow> str \<Rightarrow> json" where
  "responses_json_to_chat_completion created v fallback_model =
    (let prompt_tokens = usage_value v [''input_tokens'', ''prompt_tokens''];
         completion_tokens = usage_value v [''output_tokens'', ''completion_tokens''];
         content = extract_response_output_text v;
         tool_calls = extract_response_tool_calls v;
         message = insert_all ([(''role'', JString ''assistant''),
             (''content'', if content = [] then JNull else JString content)]
             @ opt_entry ''tool_calls'' (if tool_calls \<noteq> [] then Some (JArray tool_calls) else None)) []
     in json_obj
       [(''id'', JString (str_or (json_str_field v ''id'') ''chatcmpl_proxy'')),
        (''object'', JString ''chat.completion''), (''created'', json_i64 created),
        (''model'', JString (str_or (json_str_field v ''model'') fallback_model)),
        (''choices'', JArray [json_obj [(''index'', json_nat 0), (''message'', JObject message),
           (''finish_reason'', JString (response_to_chat_finish_reason v (tool_calls \<noteq> [])))]]),
        (''usage'', json_obj [(''prompt_tokens'', JPosInt prompt_tokens),
           (''completion_tokens'', JPosInt completion_tokens),
           (''total_tokens'', JPosInt (prompt_tokens + completion_tokens))])])"

subsection \<open>The adapter of a stream\<close>

record chat_tool_call_state =
  tc_output_index :: "i64 option"
  tc_call_id :: str
  tc_name :: str
  tc_arguments :: str
  tc_emitted_open_chunk :: bool

record chat_stream_adapter_state =
  ad_chat_id :: str
  ad_model :: str
  ad_created :: i64
  ad_emitted_role :: bool
  ad_saw_text_output :: bool
  ad_saw_tool_call :: bool
  ad_finished :: bool
  ad_tool_calls :: "chat_tool_call_state list"

text \<open>What is sent: a data event with a value, a named event, or \<open>[DONE]\<close>.\<close>

datatype chat_event = Data json | Named str json | Done

definition new_adapter :: "str \<Rightarrow> str \<Rightarrow> i64 \<Rightarrow> chat_stream_adapter_state" where
  "new_adapter simple fallback_model created =
    \<lparr>ad_chat_id = ''chatcmpl_'' @ simple, ad_model = fallback_model, ad_created = created, ad_emitted_role = False,
     ad_saw_text_output = False, ad_saw_tool_call = False, ad_finished = False, ad_tool_calls = []\<rparr>"

fun position :: "('a \<Rightarrow> bool) \<Rightarrow> 'a list \<Rightarrow> nat option" where
  "position P [] = None"
| "position P (x # xs) = (if P x then Some 0 else map_option Suc (position P xs))"

definition update_tool :: "nat \<Rightarrow> (chat_tool_call_state \<Rightarrow> chat_tool_call_state)
    \<Rightarrow> chat_stream_adapter_state \<Rightarrow> chat_stream_adapter_state" where
  "update_tool i f s = s\<lparr>ad_tool_calls := (ad_tool_calls s)[i := f (ad_tool_calls s ! i)]\<rparr>"

definition with_some :: "('a \<Rightarrow> 'b \<Rightarrow> 'b) \<Rightarrow> 'a option \<Rightarrow> 'b \<Rightarrow> 'b" where
  "with_some f v x = (case v of Some a \<Rightarrow> f a x | None \<Rightarrow> x)"

definition ensure_tool_call ::
  "i64 option \<Rightarrow> str option \<Rightarrow> str option \<Rightarrow> chat_stream_adapter_state \<Rightarrow> nat \<times> chat_stream_adapter_state" where
  "ensure_tool_call output_index call_id name s =
    (let set_name = with_some (\<lambda>n t. t\<lparr>tc_name := n\<rparr>) name
     in case Option.bind call_id (\<lambda>c. position (\<lambda>t. tc_call_id t = c) (ad_tool_calls s)) of
          Some index \<Rightarrow>
            (index, update_tool index (\<lambda>t. set_name
               (with_some (\<lambda>i t. t\<lparr>tc_output_index := Some i\<rparr>) output_index t)) s)
        | None \<Rightarrow>
            (case Option.bind output_index (\<lambda>i. position (\<lambda>t. tc_output_index t = Some i) (ad_tool_calls s)) of
               Some index \<Rightarrow>
                 (index, update_tool index (\<lambda>t. set_name (with_some (\<lambda>c t. t\<lparr>tc_call_id := c\<rparr>) call_id t)) s)
             | None \<Rightarrow>
                 (let index = length (ad_tool_calls s)
                  in (index, s\<lparr>ad_tool_calls := ad_tool_calls s @
                       [\<lparr>tc_output_index = output_index,
                         tc_call_id = str_or call_id (''call_proxy_'' @ show_nat index),
                         tc_name = str_or name ''tool'', tc_arguments = [], tc_emitted_open_chunk = False\<rparr>]\<rparr>))))"

subsection \<open>Chunks\<close>

definition chat_completion_chunk :: "str \<Rightarrow> str \<Rightarrow> i64 \<Rightarrow> json \<Rightarrow> str option \<Rightarrow> json" where
  "chat_completion_chunk i model created delta finish_reason = json_obj
    [(''id'', JString i), (''object'', JString ''chat.completion.chunk''), (''created'', json_i64 created),
     (''model'', JString model),
     (''choices'', JArray [json_obj [(''index'', json_nat 0), (''delta'', delta),
        (''finish_reason'', opt_json JString finish_reason)]])]"

definition chunk :: "chat_stream_adapter_state \<Rightarrow> json \<Rightarrow> str option \<Rightarrow> chat_event" where
  "chunk s delta finish_reason =
     Data (chat_completion_chunk (ad_chat_id s) (ad_model s) (ad_created s) delta finish_reason)"

definition role_delta :: json where
  "role_delta = json_obj [(''role'', JString ''assistant'')]"

definition content_delta :: "str \<Rightarrow> json" where
  "content_delta text = json_obj [(''content'', JString text)]"

definition tool_open_delta :: "nat \<Rightarrow> chat_tool_call_state \<Rightarrow> str \<Rightarrow> json" where
  "tool_open_delta index tool arguments = json_obj [(''tool_calls'', JArray [json_obj
     [(''index'', json_nat index), (''id'', JString (tc_call_id tool)), (''type'', JString ''function''),
      (''function'', json_obj [(''name'', JString (tc_name tool)), (''arguments'', JString arguments)])]])]"

definition tool_arguments_delta :: "nat \<Rightarrow> str \<Rightarrow> json" where
  "tool_arguments_delta index arguments = json_obj [(''tool_calls'', JArray [json_obj
     [(''index'', json_nat index), (''function'', json_obj [(''arguments'', JString arguments)])]])]"

definition ensure_assistant_role_event ::
  "chat_stream_adapter_state \<Rightarrow> chat_event list \<times> chat_stream_adapter_state" where
  "ensure_assistant_role_event s =
    (if ad_emitted_role s then ([], s)
     else (let s = s\<lparr>ad_emitted_role := True\<rparr> in ([chunk s role_delta None], s)))"

definition chat_terminal_failure_events ::
  "chat_stream_adapter_state \<Rightarrow> str \<Rightarrow> chat_event list \<times> chat_stream_adapter_state" where
  "chat_terminal_failure_events s finish_reason =
    (let (out, s) = ensure_assistant_role_event (s\<lparr>ad_finished := True\<rparr>)
     in (out @ [chunk s (JObject []) (Some finish_reason), Done], s))"

definition chat_gateway_failure_events ::
  "chat_stream_adapter_state \<Rightarrow> upstream_failure_kind \<Rightarrow> chat_event list \<times> chat_stream_adapter_state" where
  "chat_gateway_failure_events s kind =
    ([Named ''error'' (gateway_error_value (gateway_failure_reason_from_upstream kind)), Done], s\<lparr>ad_finished := True\<rparr>)"

definition chat_failure_events_from_response_record ::
  "(f64 \<Rightarrow> str) \<Rightarrow> json \<Rightarrow> chat_stream_adapter_state \<Rightarrow> chat_event list \<times> chat_stream_adapter_state" where
  "chat_failure_events_from_response_record sf v s =
    (let response = response_root_value v in
     if response_has_content_filter_terminal response then chat_terminal_failure_events s ''content_filter''
     else if response_has_length_terminal response then chat_terminal_failure_events s ''length''
     else chat_gateway_failure_events s
       (case hidden_failure_kind_from_json sf v (ad_model s) [] of Some kind \<Rightarrow> kind | None \<Rightarrow> KGeneric))"

subsection \<open>One record\<close>

definition translate_created :: "json \<Rightarrow> chat_stream_adapter_state \<Rightarrow> chat_event list \<times> chat_stream_adapter_state" where
  "translate_created v s =
    (let s = with_some (\<lambda>i s. s\<lparr>ad_chat_id := i\<rparr>) (response_field v ''id'') s;
         s = with_some (\<lambda>m s. s\<lparr>ad_model := m\<rparr>) (response_field v ''model'') s
     in ensure_assistant_role_event s)"

definition translate_text_delta :: "json \<Rightarrow> chat_stream_adapter_state \<Rightarrow> chat_event list \<times> chat_stream_adapter_state" where
  "translate_text_delta v s =
    (let delta = str_or (json_str_field v ''delta'') []; (out, s) = ensure_assistant_role_event s
     in if delta = [] then (out, s)
        else (let s = s\<lparr>ad_saw_text_output := True\<rparr> in (out @ [chunk s (content_delta delta) None], s)))"

text \<open>The opening chunk of a tool call, unless it was sent: \<open>args\<close> gives its arguments.\<close>

definition open_tool ::
  "nat \<Rightarrow> (chat_tool_call_state \<Rightarrow> str) \<Rightarrow> chat_stream_adapter_state \<Rightarrow> chat_event list \<times> chat_stream_adapter_state" where
  "open_tool index args s =
    (let tool = ad_tool_calls s ! index in
     if tc_emitted_open_chunk tool then ([], s)
     else ([chunk s (tool_open_delta index tool (args tool)) None],
           update_tool index (\<lambda>t. t\<lparr>tc_emitted_open_chunk := True\<rparr>) s))"

definition v_output_index :: "json \<Rightarrow> i64 option" where
  "v_output_index v = Option.bind (json_get v ''output_index'') json_as_i64"

definition translate_item_added :: "json \<Rightarrow> chat_stream_adapter_state \<Rightarrow> chat_event list \<times> chat_stream_adapter_state" where
  "translate_item_added v s =
    (case json_get v ''item'' of
       None \<Rightarrow> ([], s)
     | Some item \<Rightarrow>
         if json_str_field item ''type'' \<noteq> Some ''function_call'' then ([], s)
         else
           (let (out, s) = ensure_assistant_role_event (s\<lparr>ad_saw_tool_call := True\<rparr>);
                (index, s) = ensure_tool_call (v_output_index v) (json_str_field item ''call_id'')
                  (json_str_field item ''name'') s;
                (opened, s) = open_tool index tc_arguments s
            in (out @ opened, s)))"

text \<open>The arguments to send for a tool and the arguments it has then.\<close>

definition arguments_event :: "bool \<Rightarrow> str \<Rightarrow> str \<Rightarrow> str \<times> str" where
  "arguments_event final arguments held =
    (if arguments = [] then ([], held)
     else (if final \<and> starts_with arguments held then drop (length held) arguments else arguments,
           if final then arguments else held @ arguments))"

definition send_arguments ::
  "nat \<Rightarrow> bool \<Rightarrow> str \<Rightarrow> chat_stream_adapter_state \<Rightarrow> chat_event list \<times> chat_stream_adapter_state" where
  "send_arguments index final arguments s =
    (let (opened, s) = open_tool index (\<lambda>_. []) s;
         (emitted, held) = arguments_event final arguments (tc_arguments (ad_tool_calls s ! index));
         s = update_tool index (\<lambda>t. t\<lparr>tc_arguments := held\<rparr>) s
     in (opened @ (if emitted = [] then [] else [chunk s (tool_arguments_delta index emitted) None]), s))"

definition translate_arguments ::
  "bool \<Rightarrow> json \<Rightarrow> chat_stream_adapter_state \<Rightarrow> chat_event list \<times> chat_stream_adapter_state" where
  "translate_arguments final v s =
    (let arguments = (case json_str_field v ''delta'' of Some d \<Rightarrow> d | None \<Rightarrow> str_or (json_str_field v ''arguments'') []);
         (out, s) = ensure_assistant_role_event (s\<lparr>ad_saw_tool_call := True\<rparr>);
         (index, s) = ensure_tool_call (v_output_index v) (json_str_field v ''call_id'') (json_str_field v ''name'') s;
         (sent, s) = send_arguments index final arguments s
     in (out @ sent, s))"

definition translate_item_done :: "json \<Rightarrow> chat_stream_adapter_state \<Rightarrow> chat_event list \<times> chat_stream_adapter_state" where
  "translate_item_done v s =
    (case json_get v ''item'' of
       None \<Rightarrow> ([], s)
     | Some item \<Rightarrow>
         if json_str_field item ''type'' = Some ''function_call'' then
           (let (out, s) = ensure_assistant_role_event (s\<lparr>ad_saw_tool_call := True\<rparr>);
                (index, s) = ensure_tool_call (v_output_index v) (json_str_field item ''call_id'')
                  (json_str_field item ''name'') s;
                (sent, s) = send_arguments index True (str_or (json_str_field item ''arguments'') []) s
            in (out @ sent, s))
         else if json_str_field item ''type'' = Some ''message'' \<and> \<not> ad_saw_text_output s then
           (let content = concat (List.map_filter content_text (items_of (json_get item ''content'')))
            in if content = [] then ([], s)
               else (let (out, s) = ensure_assistant_role_event (s\<lparr>ad_saw_text_output := True\<rparr>)
                     in (out @ [chunk s (content_delta content) None], s)))
         else ([], s))"

definition translate_completed :: "json \<Rightarrow> chat_stream_adapter_state \<Rightarrow> chat_event list \<times> chat_stream_adapter_state" where
  "translate_completed v s =
    (let response = response_root_value v;
         content = extract_response_output_text response;
         (out, s) = (if \<not> ad_saw_text_output s \<and> content \<noteq> []
            then (let (out, s) = ensure_assistant_role_event (s\<lparr>ad_saw_text_output := True\<rparr>)
                  in (out @ [chunk s (content_delta content) None], s))
            else ([], s));
         s = s\<lparr>ad_finished := True\<rparr>
     in (out @ [chunk s (JObject []) (Some (response_to_chat_finish_reason response (ad_saw_tool_call s))), Done], s))"

definition resolved_event :: "(str \<Rightarrow> json option) \<Rightarrow> str \<Rightarrow> (str \<times> json) option" where
  "resolved_event parse record = map_option (\<lambda>(event_name, data).
     let v = (case parse data of Some v \<Rightarrow> v | None \<Rightarrow> JNull)
     in (if event_name = [] then str_or (json_str_field v ''type'') [] else event_name, v)) (parse_sse_record record)"

definition translate_event ::
  "(f64 \<Rightarrow> str) \<Rightarrow> str \<Rightarrow> json \<Rightarrow> chat_stream_adapter_state \<Rightarrow> chat_event list \<times> chat_stream_adapter_state" where
  "translate_event sf event v s =
    (if event = ''response.created'' then translate_created v s
     else if event = ''response.output_text.delta'' then translate_text_delta v s
     else if event = ''response.output_item.added'' then translate_item_added v s
     else if event = ''response.function_call_arguments.delta'' then translate_arguments False v s
     else if event = ''response.function_call_arguments.done'' then translate_arguments True v s
     else if event = ''response.output_item.done'' then translate_item_done v s
     else if event = ''response.completed'' then translate_completed v s
     else if event = ''response.failed'' then chat_failure_events_from_response_record sf v s
     else ([], s))"

definition translate_response_record_to_chat_events ::
  "(str \<Rightarrow> json option) \<Rightarrow> (f64 \<Rightarrow> str) \<Rightarrow> str \<Rightarrow> chat_stream_adapter_state
     \<Rightarrow> chat_event list \<times> chat_stream_adapter_state" where
  "translate_response_record_to_chat_events parse sf record s =
    (case resolved_event parse record of None \<Rightarrow> ([], s) | Some (event, v) \<Rightarrow> translate_event sf event v s)"

end
