(* ===== verification/Chat_Laws.thy ===== *)
theory Chat_Laws
  imports Chat_Stream "HOL-Library.Sublist"
begin

text \<open>
  The stream of chat chunks the adapter makes of any sequence of upstream records: the assistant's
  role comes first and once, every end of a response sends one \<open>[DONE]\<close>, and the argument deltas of a
  tool call add up.
\<close>

subsection \<open>Reading chunks\<close>

lemma json_get_json_obj [simp]: "json_get (json_obj kvs) k = map_of (rev kvs) k"
proof -
  have "json_obj kvs = JObject (insert_all kvs [])" by (simp add: json_obj_def insert_all_def)
  moreover have "map_of (insert_all kvs []) = map_of (rev kvs)"
    unfolding insert_all_def by (induction kvs rule: rev_induct) (auto simp: fun_eq_iff)
  ultimately show ?thesis by simp
qed

fun event_delta :: "chat_event \<Rightarrow> json option" where
  "event_delta (Data v) =
    (case Option.bind (json_get v ''choices'') json_as_array of
       Some [choice] \<Rightarrow> json_get choice ''delta'' | _ \<Rightarrow> None)"
| "event_delta _ = None"

lemma event_delta_chunk [simp]: "event_delta (chunk s d f) = Some d"
  by (simp add: chunk_def chat_completion_chunk_def)

lemma chunk_not_done [simp]: "chunk s d f \<noteq> Done" "Done \<noteq> chunk s d f"
  by (simp_all add: chunk_def)

text \<open>The role automaton: \<open>None\<close> when the role comes twice or after a content or tool chunk.\<close>

definition role_step :: "chat_event \<Rightarrow> bool \<Rightarrow> bool option" where
  "role_step e seen =
    (case event_delta e of
       None \<Rightarrow> Some seen
     | Some d \<Rightarrow>
         if json_get d ''role'' \<noteq> None then (if seen then None else Some True)
         else if json_get d ''content'' \<noteq> None \<or> json_get d ''tool_calls'' \<noteq> None then (if seen then Some True else None)
         else Some seen)"

fun role_run :: "chat_event list \<Rightarrow> bool \<Rightarrow> bool option" where
  "role_run [] seen = Some seen"
| "role_run (e # es) seen = Option.bind (role_step e seen) (role_run es)"

lemma role_run_append: "role_run (a @ b) seen = Option.bind (role_run a seen) (role_run b)"
  by (induction a arbitrary: seen) (auto simp: Option.bind_eq_Some_conv split: Option.bind_split)

text \<open>The one entry of a chunk about a tool call.\<close>

fun tool_entry :: "json option \<Rightarrow> json option" where
  "tool_entry (Some d) =
    (case Option.bind (json_get d ''tool_calls'') json_as_array of Some [t] \<Rightarrow> Some t | _ \<Rightarrow> None)"
| "tool_entry None = None"

text \<open>
  The automaton of tool call \<open>i\<close>: \<open>None\<close> when its opening chunk, the one with the id, comes twice or
  after a delta of its arguments.
\<close>

definition tool_step :: "nat \<Rightarrow> chat_event \<Rightarrow> bool \<Rightarrow> bool option" where
  "tool_step i e opened =
    (case tool_entry (event_delta e) of
       None \<Rightarrow> Some opened
     | Some t \<Rightarrow>
         if json_get t ''index'' \<noteq> Some (json_nat i) then Some opened
         else if json_get t ''id'' \<noteq> None then (if opened then None else Some True)
         else (if opened then Some True else None))"

fun tool_run :: "nat \<Rightarrow> chat_event list \<Rightarrow> bool \<Rightarrow> bool option" where
  "tool_run i [] opened = Some opened"
| "tool_run i (e # es) opened = Option.bind (tool_step i e opened) (tool_run i es)"

lemma tool_run_append: "tool_run i (a @ b) opened = Option.bind (tool_run i a opened) (tool_run i b)"
  by (induction a arbitrary: opened) (auto simp: Option.bind_eq_Some_conv split: Option.bind_split)

text \<open>The arguments of the tool call with index \<open>i\<close> in a stream of events.\<close>

definition event_arguments :: "nat \<Rightarrow> chat_event \<Rightarrow> str" where
  "event_arguments i e =
    (case tool_entry (event_delta e) of
       None \<Rightarrow> []
     | Some t \<Rightarrow>
         if json_get t ''index'' = Some (json_nat i)
         then str_or (Option.bind (json_get t ''function'') (\<lambda>f. json_str_field f ''arguments'')) [] else [])"

definition streamed :: "nat \<Rightarrow> chat_event list \<Rightarrow> str" where
  "streamed i out = concat (map (event_arguments i) out)"

lemma streamed_simps [simp]:
  "streamed i [] = []"
  "streamed i (e # es) = event_arguments i e @ streamed i es"
  "streamed i (a @ b) = streamed i a @ streamed i b"
  by (simp_all add: streamed_def)

definition small :: "nat \<Rightarrow> bool" where
  "small i \<longleftrightarrow> i < 2 ^ 64"

lemma json_nat_inject: "small i \<Longrightarrow> small j \<Longrightarrow> json_nat i = json_nat j \<longleftrightarrow> i = j"
  by (simp add: json_nat_def small_def word_of_nat_eq_iff take_bit_nat_eq_self)

lemma delta_arguments [simp]:
  "event_arguments i (chunk s role_delta f) = []"
  "event_arguments i (chunk s (content_delta t) f) = []"
  "event_arguments i (chunk s (JObject []) f) = []"
  "event_arguments i Done = []"
  "event_arguments i (Named n v) = []"
  by (simp_all add: event_arguments_def role_delta_def content_delta_def)

lemma tool_delta_arguments:
  assumes "small i" and "small j"
  shows "event_arguments i (chunk s (tool_open_delta j t a) f) = (if i = j then a else [])"
    and "event_arguments i (chunk s (tool_arguments_delta j a) f) = (if i = j then a else [])"
  using json_nat_inject [OF assms]
  by (auto simp: event_arguments_def tool_open_delta_def tool_arguments_delta_def str_or_def json_str_field_def)

lemma other_tool_steps [simp]:
  "tool_step i (chunk s role_delta f) b = Some b"
  "tool_step i (chunk s (content_delta t) f) b = Some b"
  "tool_step i (chunk s (JObject []) f) b = Some b"
  "tool_step i Done b = Some b"
  "tool_step i (Named n v) b = Some b"
  by (simp_all add: tool_step_def role_delta_def content_delta_def)

lemma tool_delta_steps:
  assumes "small i" and "small j"
  shows "tool_step i (chunk s (tool_open_delta j t a) f) b = (if i = j then if b then None else Some True else Some b)"
    and "tool_step i (chunk s (tool_arguments_delta j a) f) b = (if i = j then if b then Some True else None else Some b)"
  using json_nat_inject [OF assms]
  by (auto simp: tool_step_def tool_open_delta_def tool_arguments_delta_def)

lemma role_steps [simp]:
  "role_step (chunk s role_delta f) seen = (if seen then None else Some True)"
  "role_step (chunk s (content_delta t) f) seen = (if seen then Some True else None)"
  "role_step (chunk s (tool_open_delta j u a) f) seen = (if seen then Some True else None)"
  "role_step (chunk s (tool_arguments_delta j a) f) seen = (if seen then Some True else None)"
  "role_step (chunk s (JObject []) f) seen = Some seen"
  "role_step Done seen = Some seen"
  "role_step (Named n v) seen = Some seen"
  by (simp_all add: role_step_def role_delta_def content_delta_def tool_open_delta_def tool_arguments_delta_def)

subsection \<open>The steps of the adapter\<close>

text \<open>What is known of the tool calls: \<open>f i\<close> is what was sent of the arguments of call \<open>i\<close> so far.\<close>

definition tools_inv :: "chat_stream_adapter_state \<Rightarrow> (nat \<Rightarrow> str) \<Rightarrow> bool" where
  "tools_inv s f \<longleftrightarrow>
    (\<forall>i. small i \<longrightarrow>
       (if i < length (ad_tool_calls s)
        then suffix (tc_arguments (ad_tool_calls s ! i)) (f i)
           \<and> (tc_emitted_open_chunk (ad_tool_calls s ! i) \<or> f i = [] \<and> tc_arguments (ad_tool_calls s ! i) = [])
        else f i = []))"

text \<open>Whether the opening chunk of call \<open>i\<close> was sent.\<close>

definition is_open :: "chat_stream_adapter_state \<Rightarrow> nat \<Rightarrow> bool" where
  "is_open s i \<longleftrightarrow> i < length (ad_tool_calls s) \<and> tc_emitted_open_chunk (ad_tool_calls s ! i)"

text \<open>A step: the events \<open>out\<close> lead from \<open>s\<close> to \<open>s'\<close>, sending \<open>[DONE]\<close> \<open>n\<close> times.\<close>

definition step_ok ::
  "nat \<Rightarrow> chat_stream_adapter_state \<Rightarrow> chat_event list \<times> chat_stream_adapter_state \<Rightarrow> bool" where
  "step_ok n s r \<longleftrightarrow>
     role_run (fst r) (ad_emitted_role s) = Some (ad_emitted_role (snd r))
   \<and> count_list (fst r) Done = n
   \<and> (ad_finished (snd r) \<longleftrightarrow> ad_finished s \<or> 0 < n)
   \<and> length (ad_tool_calls s) \<le> length (ad_tool_calls (snd r))
   \<and> (\<forall>f. small (length (ad_tool_calls (snd r))) \<longrightarrow> tools_inv s f \<longrightarrow>
        tools_inv (snd r) (\<lambda>i. f i @ streamed i (fst r)))
   \<and> (\<forall>i. small (length (ad_tool_calls (snd r))) \<longrightarrow> small i \<longrightarrow>
        tool_run i (fst r) (is_open s i) = Some (is_open (snd r) i))"

lemma step_ok_refl: "step_ok 0 s ([], s)"
  by (simp add: step_ok_def)

lemma small_mono: "small n \<Longrightarrow> m \<le> n \<Longrightarrow> small m"
  by (simp add: small_def)

lemma step_ok_trans:
  assumes "step_ok m s r1" and "step_ok n (snd r1) r2"
  shows "step_ok (m + n) s (fst r1 @ fst r2, snd r2)"
proof -
  have "tools_inv (snd r2) (\<lambda>i. f i @ streamed i (fst r1 @ fst r2))"
    if "small (length (ad_tool_calls (snd r2)))" and "tools_inv s f" for f
  proof -
    have "small (length (ad_tool_calls (snd r1)))" using assms(2) that(1) small_mono by (auto simp: step_ok_def)
    then have "tools_inv (snd r1) (\<lambda>i. f i @ streamed i (fst r1))" using assms(1) that(2) by (simp add: step_ok_def)
    then have "tools_inv (snd r2) (\<lambda>i. (f i @ streamed i (fst r1)) @ streamed i (fst r2))"
      using assms(2) that(1) by (simp only: step_ok_def)
    then show ?thesis by simp
  qed
  moreover have "tool_run i (fst r1 @ fst r2) (is_open s i) = Some (is_open (snd r2) i)"
    if "small (length (ad_tool_calls (snd r2)))" and "small i" for i
  proof -
    have "small (length (ad_tool_calls (snd r1)))" using assms(2) that(1) small_mono by (auto simp: step_ok_def)
    then have "tool_run i (fst r1) (is_open s i) = Some (is_open (snd r1) i)"
      using assms(1) that(2) by (simp add: step_ok_def)
    moreover have "tool_run i (fst r2) (is_open (snd r1) i) = Some (is_open (snd r2) i)"
      using assms(2) that by (simp add: step_ok_def)
    ultimately show ?thesis by (simp add: tool_run_append)
  qed
  ultimately show ?thesis using assms by (auto simp: step_ok_def role_run_append)
qed

lemma tools_inv_fields [simp]:
  "tools_inv (s\<lparr>ad_emitted_role := b\<rparr>) f = tools_inv s f"
  "tools_inv (s\<lparr>ad_finished := b\<rparr>) f = tools_inv s f"
  "tools_inv (s\<lparr>ad_saw_tool_call := b\<rparr>) f = tools_inv s f"
  "tools_inv (s\<lparr>ad_saw_text_output := b\<rparr>) f = tools_inv s f"
  "tools_inv (s\<lparr>ad_chat_id := i\<rparr>) f = tools_inv s f"
  "tools_inv (s\<lparr>ad_model := i\<rparr>) f = tools_inv s f"
  by (simp_all add: tools_inv_def)

lemma is_open_fields [simp]:
  "is_open (s\<lparr>ad_emitted_role := b\<rparr>) i = is_open s i"
  "is_open (s\<lparr>ad_finished := b\<rparr>) i = is_open s i"
  "is_open (s\<lparr>ad_saw_tool_call := b\<rparr>) i = is_open s i"
  "is_open (s\<lparr>ad_saw_text_output := b\<rparr>) i = is_open s i"
  "is_open (s\<lparr>ad_chat_id := t\<rparr>) i = is_open s i"
  "is_open (s\<lparr>ad_model := t\<rparr>) i = is_open s i"
  by (simp_all add: is_open_def)

text \<open>Silent changes: nothing is sent and the fields the invariant reads stay.\<close>

lemma step_ok_silent [simp]:
  "step_ok n (s\<lparr>ad_saw_tool_call := b\<rparr>) r = step_ok n s r"
  "step_ok n (s\<lparr>ad_saw_text_output := b\<rparr>) r = step_ok n s r"
  "step_ok n (s\<lparr>ad_chat_id := i\<rparr>) r = step_ok n s r"
  "step_ok n (s\<lparr>ad_model := i\<rparr>) r = step_ok n s r"
  by (simp_all add: step_ok_def)

lemma ensure_role_ok: "step_ok 0 s (ensure_assistant_role_event s)"
  by (simp add: ensure_assistant_role_event_def step_ok_def Let_def)

lemma role_emitted [simp]: "ad_emitted_role (snd (ensure_assistant_role_event s))"
  by (simp add: ensure_assistant_role_event_def Let_def)

lemma ensure_role_keeps [simp]:
  "ad_tool_calls (snd (ensure_assistant_role_event s)) = ad_tool_calls s"
  "ad_finished (snd (ensure_assistant_role_event s)) = ad_finished s"
  "ad_saw_tool_call (snd (ensure_assistant_role_event s)) = ad_saw_tool_call s"
  by (simp_all add: ensure_assistant_role_event_def Let_def)

lemma content_ok: "ad_emitted_role s \<Longrightarrow> step_ok 0 s ([chunk s' (content_delta t) None], s)"
  by (simp add: step_ok_def)

lemma position_less: "position P xs = Some i \<Longrightarrow> i < length xs"
  by (induction xs arbitrary: i) (auto split: if_splits)

lemma ensure_tool_call_ok:
  assumes "ensure_tool_call oi c n s = (i, s')"
  shows "i < length (ad_tool_calls s')" and "step_ok 0 s ([], s')" and "ad_emitted_role s' = ad_emitted_role s"
proof -
  have found: "i < length (ad_tool_calls s') \<and> step_ok 0 s ([], s') \<and> ad_emitted_role s' = ad_emitted_role s"
    if "i < length (ad_tool_calls s)" and "s' = update_tool i g s"
      and "\<And>t. tc_arguments (g t) = tc_arguments t \<and> tc_emitted_open_chunk (g t) = tc_emitted_open_chunk t" for g
    using that by (auto simp: update_tool_def step_ok_def tools_inv_def is_open_def nth_list_update)
  have set_fields: "tc_arguments (with_some h v t) = tc_arguments t \<and> tc_emitted_open_chunk (with_some h v t) = tc_emitted_open_chunk t"
    if "\<And>x u. tc_arguments (h x u) = tc_arguments u \<and> tc_emitted_open_chunk (h x u) = tc_emitted_open_chunk u"
    for h :: "'x \<Rightarrow> chat_tool_call_state \<Rightarrow> chat_tool_call_state" and v t
    using that by (simp add: with_some_def split: option.split)
  have new: "i < length (ad_tool_calls s') \<and> step_ok 0 s ([], s') \<and> ad_emitted_role s' = ad_emitted_role s"
    if "i = length (ad_tool_calls s)" and "s' = s\<lparr>ad_tool_calls := ad_tool_calls s @ [t]\<rparr>" and "tc_arguments t = []"
      and "\<not> tc_emitted_open_chunk t" for t
    using that by (auto simp: step_ok_def tools_inv_def is_open_def nth_append less_Suc_eq)
  have "i < length (ad_tool_calls s') \<and> step_ok 0 s ([], s') \<and> ad_emitted_role s' = ad_emitted_role s"
  proof (cases "Option.bind c (\<lambda>c. position (\<lambda>t. tc_call_id t = c) (ad_tool_calls s))")
    case (Some index)
    then have "index < length (ad_tool_calls s)" by (auto simp: bind_eq_Some_conv dest: position_less)
    with assms Some show ?thesis
      by (intro found [where g = "\<lambda>t. with_some (\<lambda>n t. t\<lparr>tc_name := n\<rparr>) n
          (with_some (\<lambda>i t. t\<lparr>tc_output_index := Some i\<rparr>) oi t)"]) (auto simp: ensure_tool_call_def set_fields)
  next
    case None
    show ?thesis
    proof (cases "Option.bind oi (\<lambda>i. position (\<lambda>t. tc_output_index t = Some i) (ad_tool_calls s))")
      case (Some index)
      then have "index < length (ad_tool_calls s)" by (auto simp: bind_eq_Some_conv dest: position_less)
      with assms None Some show ?thesis
        by (intro found [where g = "\<lambda>t. with_some (\<lambda>n t. t\<lparr>tc_name := n\<rparr>) n
            (with_some (\<lambda>c t. t\<lparr>tc_call_id := c\<rparr>) c t)"]) (auto simp: ensure_tool_call_def set_fields)
    next
      case No: None
      with assms None show ?thesis by (intro new) (auto simp: ensure_tool_call_def Let_def)
    qed
  qed
  then show "i < length (ad_tool_calls s')" and "step_ok 0 s ([], s')" and "ad_emitted_role s' = ad_emitted_role s"
    by simp_all
qed

lemma arguments_event_suffix:
  assumes "suffix held snt" and "arguments_event final arguments held = (emitted, held')"
  shows "suffix held' (snt @ emitted)"
proof -
  obtain x where x: "snt = x @ held" using assms(1) by (auto simp: suffix_def)
  show ?thesis
  proof (cases "final \<and> starts_with arguments held \<and> arguments \<noteq> []")
    case True
    then obtain t where "arguments = held @ t" by (auto simp: starts_with_iff)
    with True assms(2) x show ?thesis by (auto simp: arguments_event_def suffix_def)
  next
    case False
    with assms x show ?thesis by (auto simp: arguments_event_def suffix_def split: if_splits)
  qed
qed

text \<open>Any step on tool call \<open>i\<close> alone.\<close>

lemma tool_step_ok:
  assumes "i < length (ad_tool_calls s)" and "ad_tool_calls s' = (ad_tool_calls s)[i := t]"
    and "ad_emitted_role s'" and "ad_emitted_role s" and "ad_finished s' = ad_finished s"
    and "tc_emitted_open_chunk t"
    and "role_run out True = Some True" and "count_list out Done = 0"
    and "\<And>j. small i \<Longrightarrow> small j \<Longrightarrow> j \<noteq> i \<Longrightarrow> streamed j out = []"
    and "\<And>snt. small i \<Longrightarrow> suffix (tc_arguments (ad_tool_calls s ! i)) snt \<Longrightarrow>
      tc_emitted_open_chunk (ad_tool_calls s ! i) \<or> snt = [] \<and> tc_arguments (ad_tool_calls s ! i) = [] \<Longrightarrow>
      suffix (tc_arguments t) (snt @ streamed i out)"
    and "\<And>j b. small i \<Longrightarrow> small j \<Longrightarrow> j \<noteq> i \<Longrightarrow> tool_run j out b = Some b"
    and "small i \<Longrightarrow> tool_run i out (tc_emitted_open_chunk (ad_tool_calls s ! i)) = Some True"
  shows "step_ok 0 s (out, s')"
proof -
  have "tools_inv s' (\<lambda>j. f j @ streamed j out)" if "small (length (ad_tool_calls s))" and inv: "tools_inv s f" for f
  proof -
    have i: "small i" using that(1) assms(1) small_mono by (meson less_imp_le)
    have "suffix (tc_arguments t) (f i @ streamed i out)"
      using inv i assms(1) by (intro assms(10)) (auto simp: tools_inv_def)
    moreover have "f j @ streamed j out = f j" if "small j" "j \<noteq> i" for j
      using assms(9) [OF i that] by simp
    ultimately show ?thesis using inv assms(1,2,6) unfolding tools_inv_def
      by (auto simp: nth_list_update)
  qed
  moreover have "tool_run j out (is_open s j) = Some (is_open s' j)"
    if "small (length (ad_tool_calls s))" and "small j" for j
  proof -
    have i: "small i" using that(1) assms(1) small_mono by (meson less_imp_le)
    show ?thesis
      using assms(1,2,6,12) assms(11) [OF i that(2)] i by (cases "j = i") (auto simp: is_open_def)
  qed
  ultimately show ?thesis using assms(1-10) by (simp add: step_ok_def)
qed

lemma open_tool_ok:
  assumes "i < length (ad_tool_calls s)" and "ad_emitted_role s"
  shows "step_ok 0 s (open_tool i tc_arguments s)"
proof (cases "tc_emitted_open_chunk (ad_tool_calls s ! i)")
  case True
  then show ?thesis by (simp add: open_tool_def step_ok_refl)
next
  case False
  with assms show ?thesis
    by (auto simp: open_tool_def update_tool_def tool_delta_arguments tool_delta_steps Let_def intro!: tool_step_ok [of i])
qed

lemma tool_already_open:
  "tc_emitted_open_chunk t \<Longrightarrow> t\<lparr>tc_arguments := h\<rparr> = t\<lparr>tc_emitted_open_chunk := True, tc_arguments := h\<rparr>"
  by (cases t) simp

lemma send_arguments_ok:
  assumes "i < length (ad_tool_calls s)" and "ad_emitted_role s"
  shows "step_ok 0 s (send_arguments i final a s)"
proof -
  define tool where "tool = ad_tool_calls s ! i"
  obtain emitted held where e: "arguments_event final a (tc_arguments tool) = (emitted, held)" by fastforce
  define opened where "opened = fst (open_tool i (\<lambda>_. []) s)"
  define s' where "s' = update_tool i (\<lambda>t. t\<lparr>tc_emitted_open_chunk := True, tc_arguments := held\<rparr>) s"
  have opened: "opened = (if tc_emitted_open_chunk tool then [] else [chunk s (tool_open_delta i tool []) None])"
    by (simp add: opened_def open_tool_def tool_def)
  have "s' = update_tool i (\<lambda>t. t\<lparr>tc_arguments := held\<rparr>) s" if "tc_emitted_open_chunk tool"
    using tool_already_open [OF that] by (simp add: s'_def update_tool_def tool_def)
  then have r: "send_arguments i final a s
      = (opened @ (if emitted = [] then [] else [chunk s (tool_arguments_delta i emitted) None]), s')"
    using assms(1) e
    by (cases "tc_emitted_open_chunk tool")
      (simp_all add: send_arguments_def open_tool_def opened_def tool_def s'_def update_tool_def Let_def chunk_def)
  show ?thesis
    unfolding r using assms arguments_event_suffix [OF _ e] arguments_event_suffix [OF _ e, of "[]"]
    by (intro tool_step_ok [of i s s' "tool\<lparr>tc_emitted_open_chunk := True, tc_arguments := held\<rparr>"])
      (auto simp: s'_def update_tool_def opened tool_delta_arguments tool_delta_steps tool_def)
qed

subsection \<open>Records\<close>

lemma step_ok_role_then:
  assumes "step_ok n (snd (ensure_assistant_role_event s)) r"
  shows "step_ok n s (fst (ensure_assistant_role_event s) @ fst r, snd r)"
  using step_ok_trans [OF ensure_role_ok assms] by simp

lemma ensured_ok:
  assumes "ensure_tool_call oi c n s = (i, s')" and "ad_emitted_role s"
    and "\<And>s. i < length (ad_tool_calls s) \<Longrightarrow> ad_emitted_role s \<Longrightarrow> step_ok 0 s (F s)"
  shows "step_ok 0 s (F s')"
  using step_ok_trans [OF ensure_tool_call_ok(2) [OF assms(1)], of 0 "F s'"] ensure_tool_call_ok(1,3) [OF assms(1)] assms(2,3)
  by simp

lemma translate_created_ok: "step_ok 0 s (translate_created v s)"
  using ensure_role_ok by (auto simp: translate_created_def Let_def with_some_def split: option.split)
    (metis ensure_role_ok step_ok_silent(3,4))+

lemma translate_text_delta_ok: "step_ok 0 s (translate_text_delta v s)"
proof -
  let ?r = "ensure_assistant_role_event s"
  have "step_ok 0 (snd ?r) ([chunk s1 (content_delta t) None], (snd ?r)\<lparr>ad_saw_text_output := True\<rparr>)" for s1 t
    by (simp add: step_ok_def)
  from step_ok_role_then [OF this] show ?thesis
    using ensure_role_ok [of s] by (simp add: translate_text_delta_def Let_def case_prod_unfold)
qed

lemma tool_item_ok:
  assumes "\<And>i s. i < length (ad_tool_calls s) \<Longrightarrow> ad_emitted_role s \<Longrightarrow> step_ok 0 s (F i s)"
  shows "step_ok 0 s (let (out, s) = ensure_assistant_role_event (s\<lparr>ad_saw_tool_call := True\<rparr>);
     (index, s) = ensure_tool_call oi c n s; (snt, s) = F index s in (out @ snt, s))"
proof -
  define s0 where "s0 = s\<lparr>ad_saw_tool_call := True\<rparr>"
  obtain i s' where e: "ensure_tool_call oi c n (snd (ensure_assistant_role_event s0)) = (i, s')" by fastforce
  have "step_ok 0 (snd (ensure_assistant_role_event s0)) (F i s')"
    using ensured_ok [OF e, of "F i"] assms by simp
  from step_ok_role_then [OF this] have "step_ok 0 s (fst (ensure_assistant_role_event s0) @ fst (F i s'), snd (F i s'))"
    by (simp add: s0_def)
  then show ?thesis using e by (simp add: s0_def [symmetric] case_prod_unfold Let_def)
qed

lemma translate_item_added_ok: "step_ok 0 s (translate_item_added v s)"
  using tool_item_ok [of "\<lambda>i. open_tool i tc_arguments", OF open_tool_ok]
  by (auto simp: translate_item_added_def step_ok_refl split: option.split)

lemma translate_arguments_ok: "step_ok 0 s (translate_arguments final v s)"
proof -
  define a where "a = (case json_str_field v ''delta'' of Some d \<Rightarrow> d | None \<Rightarrow> str_or (json_str_field v ''arguments'') [])"
  show ?thesis
    using tool_item_ok [of "\<lambda>i. send_arguments i final a", OF send_arguments_ok]
    unfolding translate_arguments_def a_def [symmetric] Let_def [of a] .
qed

lemma content_then_ok:
  "step_ok 0 s (let (out, s) = ensure_assistant_role_event (s\<lparr>ad_saw_text_output := True\<rparr>)
     in (out @ [chunk s (content_delta t) None], s))"
proof -
  let ?r = "ensure_assistant_role_event (s\<lparr>ad_saw_text_output := True\<rparr>)"
  have "step_ok 0 (snd ?r) ([chunk (snd ?r) (content_delta t) None], snd ?r)" by (simp add: step_ok_def)
  from step_ok_role_then [OF this] show ?thesis by (simp add: case_prod_unfold Let_def)
qed

lemma translate_item_done_ok: "step_ok 0 s (translate_item_done v s)"
proof (cases "json_get v ''item''")
  case (Some item)
  show ?thesis
    using tool_item_ok [of "\<lambda>i. send_arguments i True (str_or (json_str_field item ''arguments'') [])", OF send_arguments_ok]
      content_then_ok step_ok_refl
    by (simp add: translate_item_done_def Some Let_def [of "concat _"])
qed (simp add: translate_item_done_def step_ok_refl)

lemma finish_ok: "step_ok (Suc 0) s ([chunk s' (JObject []) f, Done], s\<lparr>ad_finished := True\<rparr>)"
  by (simp add: step_ok_def)

lemma translate_completed_ok: "step_ok (Suc 0) s (translate_completed v s)"
proof -
  define c where "c = extract_response_output_text (response_root_value v)"
  define r where "r = (if \<not> ad_saw_text_output s \<and> c \<noteq> []
      then (let (out, s) = ensure_assistant_role_event (s\<lparr>ad_saw_text_output := True\<rparr>)
            in (out @ [chunk s (content_delta c) None], s)) else ([], s))"
  have r: "step_ok 0 s r" using content_then_ok step_ok_refl by (simp add: r_def)
  have "step_ok 1 s (fst r @ [chunk ((snd r)\<lparr>ad_finished := True\<rparr>) (JObject [])
     (Some (response_to_chat_finish_reason (response_root_value v) (ad_saw_tool_call (snd r)))), Done],
      (snd r)\<lparr>ad_finished := True\<rparr>)"
    using step_ok_trans [OF r finish_ok] by simp
  then show ?thesis
    unfolding translate_completed_def Let_def [of "response_root_value _"] Let_def [of "extract_response_output_text _"]
      c_def [symmetric] r_def [symmetric]
    by (simp add: Let_def case_prod_unfold)
qed

lemma gateway_failure_ok: "step_ok (Suc 0) s (chat_gateway_failure_events s kind)"
  by (simp add: chat_gateway_failure_events_def step_ok_def)

lemma terminal_failure_ok: "step_ok (Suc 0) s (chat_terminal_failure_events s reason)"
proof -
  let ?r = "ensure_assistant_role_event (s\<lparr>ad_finished := True\<rparr>)"
  have "tools_inv (snd ?r) f = tools_inv s f" "is_open (snd ?r) i = is_open s i" for f i
    by (simp_all add: tools_inv_def is_open_def)
  then show ?thesis
    using ensure_role_ok [of "s\<lparr>ad_finished := True\<rparr>"]
    by (simp add: chat_terminal_failure_events_def step_ok_def role_run_append tool_run_append case_prod_unfold Let_def)
qed

lemma failure_ok: "step_ok (Suc 0) s (chat_failure_events_from_response_record sf v s)"
  by (simp add: chat_failure_events_from_response_record_def Let_def gateway_failure_ok terminal_failure_ok)

text \<open>The records that end a response.\<close>

definition ends_response :: "(str \<Rightarrow> json option) \<Rightarrow> str \<Rightarrow> bool" where
  "ends_response parse record \<longleftrightarrow>
    (case resolved_event parse record of
       Some (event, _) \<Rightarrow> event = ''response.completed'' \<or> event = ''response.failed'' | None \<Rightarrow> False)"

lemma translate_ok:
  "step_ok (if ends_response parse record then 1 else 0) s (translate_response_record_to_chat_events parse sf record s)"
proof (cases "resolved_event parse record")
  case None
  then show ?thesis by (simp add: translate_response_record_to_chat_events_def ends_response_def step_ok_refl)
next
  case (Some e)
  then show ?thesis
    by (cases e) (simp add: translate_response_record_to_chat_events_def ends_response_def translate_event_def
        translate_created_ok translate_text_delta_ok translate_item_added_ok translate_arguments_ok
        translate_item_done_ok translate_completed_ok failure_ok step_ok_refl)
qed

fun translate_records ::
  "(str \<Rightarrow> json option) \<Rightarrow> (f64 \<Rightarrow> str) \<Rightarrow> str list \<Rightarrow> chat_stream_adapter_state
     \<Rightarrow> chat_event list \<times> chat_stream_adapter_state" where
  "translate_records parse sf [] s = ([], s)"
| "translate_records parse sf (r # rs) s =
    (let (out, s) = translate_response_record_to_chat_events parse sf r s;
         (more, s) = translate_records parse sf rs s
     in (out @ more, s))"

lemma translate_records_ok:
  "step_ok (length (filter (ends_response parse) rs)) s (translate_records parse sf rs s)"
proof (induction rs arbitrary: s)
  case Nil
  then show ?case by (simp add: step_ok_refl)
next
  case (Cons r rs)
  let ?r = "translate_response_record_to_chat_events parse sf r s"
  show ?case using step_ok_trans [OF translate_ok [of parse r s sf] Cons [of "snd ?r"]]
    by (simp add: case_prod_unfold Let_def split: if_splits)
qed

lemma translate_records_append:
  "translate_records parse sf (a @ b) s =
    (let (out, s) = translate_records parse sf a s; (more, s) = translate_records parse sf b s in (out @ more, s))"
  by (induction a arbitrary: s) (simp_all add: Let_def case_prod_unfold)

lemma new_adapter_fields [simp]:
  "\<not> ad_emitted_role (new_adapter simple model created)" "\<not> ad_finished (new_adapter simple model created)"
  "ad_tool_calls (new_adapter simple model created) = []"
  by (simp_all add: new_adapter_def)

lemma tools_inv_new: "tools_inv (new_adapter simple model created) (\<lambda>_. [])"
  by (simp add: tools_inv_def new_adapter_def)

subsection \<open>Properties\<close>

text \<open>C20 (chat_stream_wellformed).
  Whatever records an upstream sends, the chunks made of them are a well-formed chat stream: the
  assistant's role comes at most once and before the first content or tool chunk, one [DONE] is sent
  for each record that ends the response, and the adapter is finished exactly when one was sent.\<close>

theorem chat_stream_wellformed:
  "\<exists>out s. translate_records parse sf records (new_adapter simple model created) = (out, s)
    \<and> role_run out False = Some (ad_emitted_role s)
    \<and> count_list out Done = length (filter (ends_response parse) records)
    \<and> (ad_finished s \<longleftrightarrow> list_ex (ends_response parse) records)"
proof -
  obtain out s where r: "translate_records parse sf records (new_adapter simple model created) = (out, s)" by fastforce
  have "0 < length (filter (ends_response parse) records) \<longleftrightarrow> list_ex (ends_response parse) records"
    by (simp add: length_greater_0_conv filter_empty_conv list_ex_iff)
  then show ?thesis
    using translate_records_ok [of parse records "new_adapter simple model created" sf]
    by (simp add: r step_ok_def)
qed


text \<open>An example stream: the JSON parser reads the values the example's data lines stand for.\<close>

definition ex_item :: "str \<Rightarrow> json" where
  "ex_item arguments = json_obj [(''output_index'', JPosInt 0), (''item'', json_obj
     [(''type'', JString ''function_call''), (''call_id'', JString ''c''), (''name'', JString ''f''),
      (''arguments'', JString arguments)])]"

definition ex_parse :: "str \<Rightarrow> json option" where
  "ex_parse data =
    (if data = ''d1'' then Some (json_obj [(''output_index'', JPosInt 0), (''delta'', JString ''{1'')])
     else if data = ''d2'' then Some (json_obj [(''output_index'', JPosInt 0), (''delta'', JString ''}'')])
     else if data = ''done'' then Some (ex_item ''{1}'')
     else if data = ''other'' then Some (ex_item ''{ 1}'')
     else None)"

definition ex_record :: "str \<Rightarrow> str \<Rightarrow> str" where
  "ex_record event data = ''event: '' @ event @ nl @ ''data: '' @ data"

definition ex_records :: "str \<Rightarrow> str list" where
  "ex_records final = [ex_record ''response.function_call_arguments.delta'' ''d1'',
     ex_record ''response.function_call_arguments.delta'' ''d2'', ex_record ''response.output_item.done'' final]"

definition ex_run :: "str \<Rightarrow> chat_event list \<times> chat_stream_adapter_state" where
  "ex_run final = translate_records ex_parse (\<lambda>_. []) (ex_records final) (new_adapter ''x'' ''m'' 0)"


text \<open>Fact (final_arguments_repeat).
  When the final version of a tool call's arguments is not an extension of the deltas sent before -
  here it differs by a space - the adapter sends it again in full: the client that puts the deltas
  together, as the protocol says, gets both versions one after the other.\<close>

theorem final_arguments_repeat:
  "streamed 0 (fst (ex_run ''other'')) = ''{1}{ 1}''
    \<and> tc_arguments (ad_tool_calls (snd (ex_run ''other'')) ! 0) = ''{ 1}''"
  by code_simp

end
