(* ===== verification/Streams.thy ===== *)
theory Streams
  imports Chat_Stream Metrics
begin

text \<open>
  Responses on their way to the client (\<open>http/data.rs\<close>): whole bodies, streams collected into a body,
  and streams relayed record by record as responses or as chat chunks. A stream is the list of what
  the transport and the heartbeat timer deliver; the relay runs to the end of the list (a client that
  goes away drops the relay, which then does nothing more). JSON parsing, JSON printing and float
  printing are the parameters \<open>parse\<close>, \<open>render\<close>, \<open>sf\<close>.
\<close>

subsection \<open>Request logs\<close>

record request_log_seed =
  sd_api_key :: gateway_api_key
  sd_tenant_id :: uuid
  sd_principal_id :: str
  sd_endpoint :: str
  sd_method :: str
  sd_requested_model :: str
  sd_effective_model :: str
  sd_reasoning_effort :: "str option"

text \<open>\<open>simple\<close> is the fresh UUID, \<open>now\<close> the clock.\<close>

definition build_request_log_entry ::
  "str \<Rightarrow> instant \<Rightarrow> request_log_seed \<Rightarrow> cli_lease \<Rightarrow> status_code \<Rightarrow> request_log_usage \<Rightarrow> str option \<Rightarrow> request_log_entry"
where
  "build_request_log_entry simple now seed lease status usage observed_model =
    (let effective_model = str_or observed_model (sd_effective_model seed) in
     \<lparr>re_id = ''log_'' @ simple, re_api_key_id = ak_id (sd_api_key seed), re_tenant_id = sd_tenant_id seed,
      re_user_name = ak_name (sd_api_key seed), re_user_email = ak_email (sd_api_key seed),
      re_principal_id = sd_principal_id seed, re_account_id = ls_account_id lease,
      re_account_label = ls_account_label lease, re_method = sd_method seed, re_endpoint = sd_endpoint seed,
      re_requested_model = sd_requested_model seed, re_effective_model = effective_model,
      re_reasoning_effort = sd_reasoning_effort seed, re_route_mode = ls_route_mode lease,
      re_status_code = of_nat status, re_usage = usage,
      re_estimated_cost_usd = estimate_cost_usd effective_model usage, re_created_at = now\<rparr>)"

text \<open>
  The fresh ids and clock readings of one attempt: of the incident it may report, of the turn it
  records, of the compaction that may follow, and of the request log.
\<close>

record readings =
  rd_incident :: str
  rd_now :: instant
  rd_turn :: "instant \<times> instant"
  rd_compaction :: "instant \<times> instant \<times> instant \<times> instant"
  rd_log_id :: str
  rd_log_at :: instant
  rd_simple :: str

text \<open>What a success leaves behind: a success of the route, the turn, the request log.\<close>

definition record_success ::
  "readings \<Rightarrow> request_log_seed \<Rightarrow> cli_lease \<Rightarrow> str \<Rightarrow> str \<Rightarrow> str option \<Rightarrow> json list
     \<Rightarrow> status_code \<Rightarrow> request_log_usage \<Rightarrow> str option \<Rightarrow> app_state \<Rightarrow> (app_state, app_state) outcome" where
  "record_success rd seed lease principal_id summary response_id items status usage observed_model app =
    (let app = snd (record_route_event (rd_incident rd) (ls_account_id lease)
           \<lparr>ev_mode = ls_route_mode lease, ev_kind = ''success''\<rparr> (rd_now rd) app)
     in case record_context_output_with_response principal_id summary response_id items
               (fst (rd_turn rd)) (snd (rd_turn rd)) (rd_compaction rd) app of
          Panics app \<Rightarrow> Panics app
        | Returns app \<Rightarrow> Returns (record_request_log
            (build_request_log_entry (rd_log_id rd) (rd_log_at rd) seed lease status usage observed_model) app))"

subsection \<open>Headers of the reply\<close>

definition copied_headers :: "str list" where
  "copied_headers = [''cache-control'', ''x-request-id'', ''openai-model'', ''openai-processing-ms'']"

definition copy_upstream_headers_to_response :: "headers \<Rightarrow> headers" where
  "copy_upstream_headers_to_response headers =
     List.map_filter (\<lambda>name. map_option (\<lambda>v. (name, v)) (map_of headers name)) copied_headers"

definition copy_upstream_headers :: "headers \<Rightarrow> headers" where
  "copy_upstream_headers headers =
     (case header_text headers ''content-type'' of
        Some v \<Rightarrow> if starts_with v ''text/event-stream'' then [(''content-type'', Some ''text/event-stream; charset=utf-8'')]
                  else [(''content-type'', Some v)]
      | None \<Rightarrow> (case map_of headers ''content-type'' of Some v \<Rightarrow> [(''content-type'', v)] | None \<Rightarrow> []))
     @ copy_upstream_headers_to_response headers"

subsection \<open>Whole bodies\<close>

record forward_success =
  fs_status :: status_code
  fs_headers :: headers
  fs_body :: str
  fs_output_summary :: "str option"
  fs_usage :: request_log_usage
  fs_observed_model :: "str option"
  fs_response_id :: "str option"
  fs_response_output_items :: "json list"

text \<open>\<open>ForwardOutcome\<close>: a hidden failure, or a reply.\<close>

type_synonym 'a forward_outcome = "(upstream_failure_kind, 'a) sum"

definition no_usage :: request_log_usage where
  "no_usage = \<lparr>ru_input_tokens = 0, ru_cached_input_tokens = 0, ru_output_tokens = 0, ru_total_tokens = 0\<rparr>"

definition non_empty :: "str \<Rightarrow> str option" where
  "non_empty s = (if s = [] then None else Some s)"

text \<open>\<open>std::str::from_utf8(..).ok()\<close>: well-formed text is what the lossy decoding leaves alone.\<close>

definition from_utf8 :: "str \<Rightarrow> str option" where
  "from_utf8 s = (if from_utf8_lossy s = s then Some s else None)"

definition or_else :: "'a option \<Rightarrow> 'a option \<Rightarrow> 'a option" where
  "or_else a b = (case a of Some x \<Rightarrow> Some x | None \<Rightarrow> b)"

text \<open>A response whose body could not be read has the empty body.\<close>

definition upstream_json_response ::
  "(str \<Rightarrow> json option) \<Rightarrow> (f64 \<Rightarrow> str) \<Rightarrow> str transport_response \<Rightarrow> str \<Rightarrow> forward_success forward_outcome" where
  "upstream_json_response parse sf response expected_model =
    (let headers = tr_headers response; body = tr_body response; parsed = parse body
     in case or_else (Option.bind parsed (\<lambda>v. hidden_failure_kind_from_json sf v expected_model headers))
               (Option.bind (from_utf8 body) classify_failure_body) of
          Some kind \<Rightarrow> Inl kind
        | None \<Rightarrow> Inr
            \<lparr>fs_status = tr_status response, fs_headers = copy_upstream_headers headers, fs_body = body,
             fs_output_summary = Option.bind parsed (\<lambda>v. non_empty (extract_response_output_text v)),
             fs_usage = (case parsed of Some v \<Rightarrow> request_usage_from_value v | None \<Rightarrow> no_usage),
             fs_observed_model = or_else (Option.bind parsed observed_model_from_value) (observed_model_from_headers headers),
             fs_response_id = Option.bind parsed response_id_from_value,
             fs_response_output_items = (case parsed of Some v \<Rightarrow> response_output_items_from_value v | None \<Rightarrow> [])\<rparr>)"

text \<open>The reply of a value: \<open>payload\<close> is what the client gets for it.\<close>

definition value_response ::
  "(json \<Rightarrow> str) \<Rightarrow> (f64 \<Rightarrow> str) \<Rightarrow> status_code \<Rightarrow> headers \<Rightarrow> headers \<Rightarrow> str \<Rightarrow> json \<Rightarrow> json \<Rightarrow> forward_success forward_outcome"
where
  "value_response render sf status headers out_headers expected_model v payload =
    (case hidden_failure_kind_from_json sf v expected_model headers of
       Some kind \<Rightarrow> Inl kind
     | None \<Rightarrow> Inr
         \<lparr>fs_status = status, fs_headers = out_headers, fs_body = render payload,
          fs_output_summary = non_empty (extract_response_output_text v), fs_usage = request_usage_from_value v,
          fs_observed_model = or_else (observed_model_from_value v) (observed_model_from_headers headers),
          fs_response_id = response_id_from_value v,
          fs_response_output_items = response_output_items_from_value v\<rparr>)"

definition upstream_responses_json_to_chat_response ::
  "(str \<Rightarrow> json option) \<Rightarrow> (json \<Rightarrow> str) \<Rightarrow> (f64 \<Rightarrow> str) \<Rightarrow> i64 \<Rightarrow> str transport_response \<Rightarrow> str
     \<Rightarrow> forward_success forward_outcome" where
  "upstream_responses_json_to_chat_response parse render sf created response fallback_model =
    (let headers = tr_headers response;
         v = (case parse (tr_body response) of Some v \<Rightarrow> v | None \<Rightarrow> json_obj [(''status'', JString ''incomplete'')])
     in value_response render sf (tr_status response) headers (copy_upstream_headers headers) fallback_model v
          (responses_json_to_chat_completion created v fallback_model))"

subsection \<open>Streams\<close>

datatype stream_event = Arrives str | Breaks | Beat

definition capture_record :: "(str \<Rightarrow> json option) \<Rightarrow> str \<Rightarrow> stream_metadata \<Rightarrow> stream_metadata" where
  "capture_record parse record m =
    (case response_value_from_sse_record parse record of
       Some v \<Rightarrow> capture_stream_response_metadata v m | None \<Rightarrow> m)"

text \<open>Folding over records until one is a hidden failure.\<close>

fun collect_records ::
  "(str \<Rightarrow> json option) \<Rightarrow> (f64 \<Rightarrow> str) \<Rightarrow> str \<Rightarrow> str list \<Rightarrow> stream_metadata
     \<Rightarrow> (upstream_failure_kind, stream_metadata) sum" where
  "collect_records parse sf expected_model [] m = Inr m"
| "collect_records parse sf expected_model (r # rs) m =
    (case hidden_failure_kind_from_sse_record parse sf r expected_model of
       Some kind \<Rightarrow> Inl kind
     | None \<Rightarrow> collect_records parse sf expected_model rs (capture_record parse r m))"

fun collect_stream ::
  "(str \<Rightarrow> json option) \<Rightarrow> (f64 \<Rightarrow> str) \<Rightarrow> str \<Rightarrow> stream_event list \<Rightarrow> str \<Rightarrow> stream_metadata
     \<Rightarrow> (upstream_failure_kind, str \<times> stream_metadata) sum" where
  "collect_stream parse sf expected_model [] buffer m = Inr (buffer, m)"
| "collect_stream parse sf expected_model (Beat # es) buffer m = collect_stream parse sf expected_model es buffer m"
| "collect_stream parse sf expected_model (Breaks # es) buffer m = Inl KGeneric"
| "collect_stream parse sf expected_model (Arrives c # es) buffer m =
    (case drain_records (buffer @ chunk_text c) of
       (records, buffer) \<Rightarrow>
         (case collect_records parse sf expected_model records m of
            Inl kind \<Rightarrow> Inl kind
          | Inr m \<Rightarrow> collect_stream parse sf expected_model es buffer m))"

definition collect_completed_response_from_stream ::
  "(str \<Rightarrow> json option) \<Rightarrow> (f64 \<Rightarrow> str) \<Rightarrow> stream_event list transport_response \<Rightarrow> str
     \<Rightarrow> (upstream_failure_kind, json) sum" where
  "collect_completed_response_from_stream parse sf response expected_model =
    (case hidden_failure_kind_from_headers (tr_headers response) expected_model of
       Some kind \<Rightarrow> Inl kind
     | None \<Rightarrow>
         (case collect_stream parse sf expected_model (tr_body response) [] no_metadata of
            Inl kind \<Rightarrow> Inl kind
          | Inr (buffer, m) \<Rightarrow>
              (case collect_records parse sf expected_model (if trim buffer = [] then [] else [trim buffer]) m of
                 Inl kind \<Rightarrow> Inl kind
               | Inr m \<Rightarrow> (case finalize_stream_response m of Some v \<Rightarrow> Inr v | None \<Rightarrow> Inl KGeneric))))"

definition json_headers :: "headers \<Rightarrow> headers" where
  "json_headers headers = copy_upstream_headers_to_response headers @ [(''content-type'', Some ''application/json'')]"

definition upstream_stream_to_json_response ::
  "(str \<Rightarrow> json option) \<Rightarrow> (json \<Rightarrow> str) \<Rightarrow> (f64 \<Rightarrow> str) \<Rightarrow> stream_event list transport_response \<Rightarrow> str
     \<Rightarrow> forward_success forward_outcome" where
  "upstream_stream_to_json_response parse render sf response expected_model =
    (case collect_completed_response_from_stream parse sf response expected_model of
       Inl kind \<Rightarrow> Inl kind
     | Inr v \<Rightarrow> value_response render sf (tr_status response) (tr_headers response)
         (json_headers (tr_headers response)) expected_model v v)"

definition upstream_stream_to_chat_json_response ::
  "(str \<Rightarrow> json option) \<Rightarrow> (json \<Rightarrow> str) \<Rightarrow> (f64 \<Rightarrow> str) \<Rightarrow> i64 \<Rightarrow> stream_event list transport_response \<Rightarrow> str
     \<Rightarrow> forward_success forward_outcome" where
  "upstream_stream_to_chat_json_response parse render sf created response fallback_model =
    (case collect_completed_response_from_stream parse sf response fallback_model of
       Inl kind \<Rightarrow> Inl kind
     | Inr v \<Rightarrow> value_response render sf (tr_status response) (tr_headers response)
         (json_headers (tr_headers response)) fallback_model v
         (responses_json_to_chat_completion created v fallback_model))"

subsection \<open>Preflight\<close>

text \<open>
  The records held back until one shows that the response has begun: a hidden failure, or the records,
  the rest of the buffer and whether the response has begun.
\<close>

function preflight_buffer ::
  "(str \<Rightarrow> json option) \<Rightarrow> (f64 \<Rightarrow> str) \<Rightarrow> str \<Rightarrow> str \<Rightarrow> (upstream_failure_kind, str list \<times> str \<times> bool) sum" where
  "preflight_buffer parse sf expected_model buffer =
    (case take_sse_record buffer of
       None \<Rightarrow> Inr ([], buffer, False)
     | Some (record, rest) \<Rightarrow>
         (case hidden_failure_kind_from_sse_record parse sf record expected_model of
            Some kind \<Rightarrow> Inl kind
          | None \<Rightarrow>
              (let kept = (if trim record = [] then [] else [record]) in
               if holds is_stream_release_event (sse_resolved_event_name parse record) then Inr (kept, rest, True)
               else case preflight_buffer parse sf expected_model rest of
                 Inl kind \<Rightarrow> Inl kind
               | Inr (records, b, begun) \<Rightarrow> Inr (kept @ records, b, begun))))"
  by pat_completeness auto
termination
  by (relation "measure (\<lambda>(_, _, _, buffer). length buffer)") (auto dest: take_sse_record_shorter)

declare preflight_buffer.simps [simp del]

text \<open>The rest of the stream, the records and the buffer the relay starts with.\<close>

fun preflight_response_stream ::
  "(str \<Rightarrow> json option) \<Rightarrow> (f64 \<Rightarrow> str) \<Rightarrow> str \<Rightarrow> stream_event list \<Rightarrow> str
     \<Rightarrow> (upstream_failure_kind, stream_event list \<times> str list \<times> str) sum" where
  "preflight_response_stream parse sf expected_model [] buffer = Inr ([], [], buffer)"
| "preflight_response_stream parse sf expected_model (Beat # es) buffer =
     preflight_response_stream parse sf expected_model es buffer"
| "preflight_response_stream parse sf expected_model (Breaks # es) buffer = Inl KGeneric"
| "preflight_response_stream parse sf expected_model (Arrives c # es) buffer =
    (case preflight_buffer parse sf expected_model (buffer @ chunk_text c) of
       Inl kind \<Rightarrow> Inl kind
     | Inr (records, buffer, begun) \<Rightarrow>
         if begun then Inr (es, records, buffer)
         else case preflight_response_stream parse sf expected_model es buffer of
           Inl kind \<Rightarrow> Inl kind
         | Inr (es, outs, buffer) \<Rightarrow> Inr (es, records @ outs, buffer))"

subsection \<open>The relay\<close>

record relay =
  ry_usage :: request_log_usage
  ry_observed_model :: "str option"
  ry_output_summary :: str
  ry_metadata :: stream_metadata

definition new_relay :: "headers \<Rightarrow> relay" where
  "new_relay headers = \<lparr>ry_usage = no_usage, ry_observed_model = observed_model_from_headers headers,
     ry_output_summary = [], ry_metadata = no_metadata\<rparr>"

definition note_value :: "(str \<Rightarrow> json option) \<Rightarrow> str \<Rightarrow> relay \<Rightarrow> relay" where
  "note_value parse record ry =
    (case response_value_from_sse_record parse record of
       None \<Rightarrow> ry
     | Some v \<Rightarrow> ry\<lparr>ry_usage := merge_request_usage (ry_usage ry) (request_usage_from_value v),
         ry_observed_model := or_else (ry_observed_model ry) (observed_model_from_value v),
         ry_metadata := capture_stream_response_metadata v (ry_metadata ry)\<rparr>)"

definition note_record :: "(str \<Rightarrow> json option) \<Rightarrow> str \<Rightarrow> relay \<Rightarrow> relay" where
  "note_record parse record ry =
    (let ry = note_value parse record ry
     in ry\<lparr>ry_output_summary := ry_output_summary ry @ str_or (response_delta_text parse record) []\<rparr>)"

definition record_bytes :: "str \<Rightarrow> str" where
  "record_bytes record = record @ nl @ nl"

definition response_failed_sse_bytes :: "(json \<Rightarrow> str) \<Rightarrow> str \<Rightarrow> str option \<Rightarrow> gateway_failure_reason \<Rightarrow> str" where
  "response_failed_sse_bytes render simple response_id reason =
    ''event: response.failed'' @ nl @ ''data: '' @ render (response_failure_value simple response_id reason) @ nl @ nl"

definition heartbeat_bytes :: str where
  "heartbeat_bytes = '': heartbeat'' @ nl @ nl"

text \<open>The records of one chunk: what is sent, the failure found in one of them, and the buffer left.\<close>

function relay_buffer ::
  "(str \<Rightarrow> json option) \<Rightarrow> (f64 \<Rightarrow> str) \<Rightarrow> str \<Rightarrow> str \<Rightarrow> relay
     \<Rightarrow> str list \<times> upstream_failure_kind option \<times> str \<times> relay" where
  "relay_buffer parse sf expected_model buffer ry =
    (case take_sse_record buffer of
       None \<Rightarrow> ([], None, buffer, ry)
     | Some (record, rest) \<Rightarrow>
         (let ry = note_record parse record ry in
          case hidden_failure_kind_from_sse_record parse sf record expected_model of
            Some kind \<Rightarrow> ([record_bytes record], Some kind, rest, ry)
          | None \<Rightarrow>
              (case relay_buffer parse sf expected_model rest ry of
                 (out, failure, buffer, ry) \<Rightarrow> (record_bytes record # out, failure, buffer, ry))))"
  by pat_completeness auto
termination
  by (relation "measure (\<lambda>(_, _, _, buffer, _). length buffer)") (auto dest: take_sse_record_shorter)

declare relay_buffer.simps [simp del]

text \<open>The relay loop; the second result is the failure it ended with.\<close>

fun relay_loop ::
  "(str \<Rightarrow> json option) \<Rightarrow> (json \<Rightarrow> str) \<Rightarrow> (f64 \<Rightarrow> str) \<Rightarrow> str \<Rightarrow> str \<Rightarrow> stream_event list \<Rightarrow> str \<Rightarrow> relay
     \<Rightarrow> str list \<times> upstream_failure_kind option \<times> relay" where
  "relay_loop parse render sf simple expected_model [] buffer ry = ([], None, ry)"
| "relay_loop parse render sf simple expected_model (Beat # es) buffer ry =
    (case relay_loop parse render sf simple expected_model es buffer ry of
       (out, failure, ry) \<Rightarrow> (heartbeat_bytes # out, failure, ry))"
| "relay_loop parse render sf simple expected_model (Breaks # es) buffer ry =
    ([response_failed_sse_bytes render simple (sm_response_id (ry_metadata ry)) GUpstreamFailure], Some KGeneric, ry)"
| "relay_loop parse render sf simple expected_model (Arrives c # es) buffer ry =
    (case relay_buffer parse sf expected_model (buffer @ chunk_text c) ry of
       (out, Some kind, buffer, ry) \<Rightarrow> (out, Some kind, ry)
     | (out, None, buffer, ry) \<Rightarrow>
         (case relay_loop parse render sf simple expected_model es buffer ry of
            (outs, failure, ry) \<Rightarrow> (out @ outs, failure, ry)))"

text \<open>The end of a relay: a failure discards the turn, a success records it.\<close>

definition relayed_failure ::
  "readings \<Rightarrow> cli_lease \<Rightarrow> str \<Rightarrow> upstream_failure_kind \<Rightarrow> app_state \<Rightarrow> app_state" where
  "relayed_failure rd lease principal_id kind app =
     discard_pending_context_turn principal_id (fst (rd_turn rd))
       (handle_hidden_failure (rd_incident rd) (rd_now rd) lease kind app)"

definition finalized_id :: "stream_metadata \<Rightarrow> str option" where
  "finalized_id m = Option.bind (finalize_stream_response m) response_id_from_value"

definition finalized_items :: "stream_metadata \<Rightarrow> json list" where
  "finalized_items m = (case finalize_stream_response m of Some v \<Rightarrow> response_output_items_from_value v | None \<Rightarrow> [])"

definition relayed_summary :: "relay \<Rightarrow> str" where
  "relayed_summary ry =
    (if trim (ry_output_summary ry) = [] then ''streamed assistant response delivered''
     else truncate_text (ry_output_summary ry) 240)"

definition finish_relay ::
  "readings \<Rightarrow> request_log_seed \<Rightarrow> cli_lease \<Rightarrow> str \<Rightarrow> status_code \<Rightarrow> upstream_failure_kind option \<Rightarrow> relay
     \<Rightarrow> app_state \<Rightarrow> (app_state, app_state) outcome" where
  "finish_relay rd seed lease principal_id status failure ry app =
    (case failure of
       Some kind \<Rightarrow> Returns (relayed_failure rd lease principal_id kind app)
     | None \<Rightarrow> record_success rd seed lease principal_id (relayed_summary ry) (finalized_id (ry_metadata ry))
         (finalized_items (ry_metadata ry)) status (ry_usage ry) (ry_observed_model ry) app)"

text \<open>
  A hidden failure before the response has begun, or the reply's headers, its body and what the
  body's task leaves of the state when it ends.
\<close>

definition upstream_stream_response ::
  "(str \<Rightarrow> json option) \<Rightarrow> (json \<Rightarrow> str) \<Rightarrow> (f64 \<Rightarrow> str) \<Rightarrow> readings \<Rightarrow> stream_event list transport_response
     \<Rightarrow> cli_lease \<Rightarrow> request_log_seed \<Rightarrow> str \<Rightarrow> str \<Rightarrow> app_state
     \<Rightarrow> (headers \<times> str list \<times> (app_state, app_state) outcome) forward_outcome" where
  "upstream_stream_response parse render sf rd response lease seed principal_id expected_model app =
    (let headers = tr_headers response in
     case hidden_failure_kind_from_headers headers expected_model of
       Some kind \<Rightarrow> Inl kind
     | None \<Rightarrow>
         (case preflight_response_stream parse sf expected_model (tr_body response) [] of
            Inl kind \<Rightarrow> Inl kind
          | Inr (upstream, records, buffer) \<Rightarrow>
              (case relay_loop parse render sf (rd_simple rd) expected_model upstream buffer
                      (fold (note_record parse) records (new_relay headers)) of
                 (out, failure, ry) \<Rightarrow>
                   Inr (copy_upstream_headers headers, map record_bytes records @ out,
                     finish_relay rd seed lease principal_id (tr_status response) failure ry app))))"

subsection \<open>The relay as chat chunks\<close>

type_synonym chat_relay = "relay \<times> chat_stream_adapter_state"

definition chat_record ::
  "(str \<Rightarrow> json option) \<Rightarrow> (f64 \<Rightarrow> str) \<Rightarrow> str \<Rightarrow> chat_relay \<Rightarrow> chat_event list \<times> chat_relay" where
  "chat_record parse sf record cw =
    (case translate_response_record_to_chat_events parse sf record (snd cw) of
       (out, s) \<Rightarrow> (out, (note_value parse record (fst cw), s)))"

fun chat_records ::
  "(str \<Rightarrow> json option) \<Rightarrow> (f64 \<Rightarrow> str) \<Rightarrow> str list \<Rightarrow> chat_relay \<Rightarrow> chat_event list \<times> chat_relay" where
  "chat_records parse sf [] cw = ([], cw)"
| "chat_records parse sf (r # rs) cw =
    (case chat_record parse sf r cw of
       (out, cw) \<Rightarrow> (case chat_records parse sf rs cw of (outs, cw) \<Rightarrow> (out @ outs, cw)))"

definition chat_failure :: "upstream_failure_kind \<Rightarrow> chat_relay \<Rightarrow> chat_event list \<times> chat_relay" where
  "chat_failure kind cw =
    (if ad_finished (snd cw) then ([], cw)
     else case chat_gateway_failure_events (snd cw) kind of (out, s) \<Rightarrow> (out, (fst cw, s)))"

function chat_buffer ::
  "(str \<Rightarrow> json option) \<Rightarrow> (f64 \<Rightarrow> str) \<Rightarrow> str \<Rightarrow> str \<Rightarrow> chat_relay
     \<Rightarrow> chat_event list \<times> upstream_failure_kind option \<times> str \<times> chat_relay" where
  "chat_buffer parse sf fallback_model buffer cw =
    (case take_sse_record buffer of
       None \<Rightarrow> ([], None, buffer, cw)
     | Some (record, rest) \<Rightarrow>
         (case chat_record parse sf record cw of
            (out, cw) \<Rightarrow>
              (case hidden_failure_kind_from_sse_record parse sf record fallback_model of
                 Some kind \<Rightarrow> (case chat_failure kind cw of (outs, cw) \<Rightarrow> (out @ outs, Some kind, rest, cw))
               | None \<Rightarrow>
                   (case chat_buffer parse sf fallback_model rest cw of
                      (outs, failure, buffer, cw) \<Rightarrow> (out @ outs, failure, buffer, cw)))))"
  by pat_completeness auto
termination
  by (relation "measure (\<lambda>(_, _, _, buffer, _). length buffer)") (auto dest: take_sse_record_shorter)

declare chat_buffer.simps [simp del]

fun chat_loop ::
  "(str \<Rightarrow> json option) \<Rightarrow> (f64 \<Rightarrow> str) \<Rightarrow> str \<Rightarrow> stream_event list \<Rightarrow> str \<Rightarrow> chat_relay
     \<Rightarrow> chat_event list \<times> upstream_failure_kind option \<times> chat_relay" where
  "chat_loop parse sf fallback_model [] buffer cw = ([], None, cw)"
| "chat_loop parse sf fallback_model (Beat # es) buffer cw = chat_loop parse sf fallback_model es buffer cw"
| "chat_loop parse sf fallback_model (Breaks # es) buffer cw =
    (case chat_gateway_failure_events (snd cw) KGeneric of (out, s) \<Rightarrow> (out, Some KGeneric, (fst cw, s)))"
| "chat_loop parse sf fallback_model (Arrives c # es) buffer cw =
    (case chat_buffer parse sf fallback_model (buffer @ chunk_text c) cw of
       (out, Some kind, buffer, cw) \<Rightarrow> (out, Some kind, cw)
     | (out, None, buffer, cw) \<Rightarrow>
         (case chat_loop parse sf fallback_model es buffer cw of (outs, failure, cw) \<Rightarrow> (out @ outs, failure, cw)))"

definition chat_summary :: "chat_stream_adapter_state \<Rightarrow> str" where
  "chat_summary s =
    (if ad_saw_tool_call s
     then ''streamed tool call response via '' @ (case ad_tool_calls s of t # _ \<Rightarrow> tc_name t | [] \<Rightarrow> ''tool'')
     else ''streamed chat completion delivered'')"

definition chat_closing :: "upstream_failure_kind option \<Rightarrow> chat_stream_adapter_state \<Rightarrow> chat_event list" where
  "chat_closing failure s =
    (if \<not> ad_finished s \<and> failure = None then [chunk s (JObject []) (Some ''stop''), Done] else [])"

definition upstream_responses_stream_to_chat_response ::
  "(str \<Rightarrow> json option) \<Rightarrow> (f64 \<Rightarrow> str) \<Rightarrow> readings \<Rightarrow> i64 \<Rightarrow> stream_event list transport_response
     \<Rightarrow> cli_lease \<Rightarrow> request_log_seed \<Rightarrow> str \<Rightarrow> str \<Rightarrow> bool \<Rightarrow> app_state
     \<Rightarrow> (headers \<times> chat_event list \<times> (app_state, app_state) outcome) forward_outcome" where
  "upstream_responses_stream_to_chat_response parse sf rd created response lease seed principal_id fallback_model
     near_quota_guard app =
    (let headers = tr_headers response in
     case hidden_failure_kind_from_headers headers fallback_model of
       Some kind \<Rightarrow> Inl kind
     | None \<Rightarrow>
         (case (if near_quota_guard then preflight_response_stream parse sf fallback_model (tr_body response) []
                else Inr (tr_body response, [], [])) of
            Inl kind \<Rightarrow> Inl kind
          | Inr (upstream, records, buffer) \<Rightarrow>
              (case chat_records parse sf records (new_relay headers, new_adapter (rd_simple rd) fallback_model created) of
                 (out, cw) \<Rightarrow>
                   (case chat_loop parse sf fallback_model upstream buffer cw of
                      (outs, failure, (ry, s)) \<Rightarrow>
                        Inr (copy_upstream_headers_to_response headers, out @ outs @ chat_closing failure s,
                          case failure of
                            Some kind \<Rightarrow> Returns (relayed_failure rd lease principal_id kind app)
                          | None \<Rightarrow> record_success rd seed lease principal_id (chat_summary s)
                              (finalized_id (ry_metadata ry)) (finalized_items (ry_metadata ry)) (tr_status response)
                              (ry_usage ry) (or_else (ry_observed_model ry) (Some (ad_model s))) app)))))"

end
