(* ===== verification/Routing.thy ===== *)
theory Routing
  imports Payloads Threads
begin

text \<open>
  The scope of a request (\<open>http/data.rs\<close>): which conversation its headers name, the principal it
  leases as, and what is forwarded upstream.
\<close>

datatype continuity_mode = CodexWindow | SessionAffinity | EphemeralRequest

fun continuity_as_str :: "continuity_mode \<Rightarrow> str" where
  "continuity_as_str CodexWindow = ''codex_window''"
| "continuity_as_str SessionAffinity = ''session_affinity''"
| "continuity_as_str EphemeralRequest = ''ephemeral_request''"

record request_routing_scope =
  rg_principal_id :: str
  rg_lease_principal_id :: str
  rg_placement_affinity_key :: str
  rg_session_key :: str
  rg_window_id :: "str option"
  rg_parent_thread_id :: "str option"
  rg_thread_family_id :: "str option"
  rg_continuity_mode :: continuity_mode

subsection \<open>Headers\<close>

definition nonempty_header_str :: "headers \<Rightarrow> str \<Rightarrow> str option" where
  "nonempty_header_str headers name = non_empty_trimmed (header_text headers name)"

definition legacy_affinity_key :: "headers \<Rightarrow> str option" where
  "legacy_affinity_key headers =
    (case nonempty_header_str headers ''x-codex-cli-affinity-id'' of
       Some v \<Rightarrow> Some v | None \<Rightarrow> nonempty_header_str headers ''session_id'')"

definition DEFAULT_ORIGINATOR :: str where
  "DEFAULT_ORIGINATOR = ''codex_cli_rs''"

definition is_codex_cli_originator :: "str \<Rightarrow> bool" where
  "is_codex_cli_originator originator \<longleftrightarrow>
     eq_ignore_ascii_case originator DEFAULT_ORIGINATOR
   \<or> starts_with originator ''codex_cli'' \<and> (drop 9 originator = [] \<or> starts_with (drop 9 originator) ''_'')"

definition requires_codex_window_id :: "headers \<Rightarrow> bool" where
  "requires_codex_window_id headers \<longleftrightarrow>
     nonempty_header_str headers ''x-codex-parent-thread-id'' \<noteq> None
   \<or> (case nonempty_header_str headers ''originator'' of Some v \<Rightarrow> is_codex_cli_originator v | None \<Rightarrow> False)"

text \<open>\<open>nonce\<close> is the fresh UUID in its simple form.\<close>

definition ephemeral_request_key :: "str \<Rightarrow> headers \<Rightarrow> str" where
  "ephemeral_request_key nonce headers =
    (case nonempty_header_str headers ''x-client-request-id'' of
       Some request_id \<Rightarrow> request_id @ ''::req:'' @ nonce | None \<Rightarrow> ''req_'' @ nonce)"

subsection \<open>Window ids\<close>

record parsed_codex_window_id =
  pw_thread_id :: str
  pw_generation :: u32
  pw_canonical :: str

text \<open>\<open>rsplit_once\<close>: what is before and after the last separator.\<close>

fun split_once :: "char \<Rightarrow> str \<Rightarrow> (str \<times> str) option" where
  "split_once c [] = None"
| "split_once c (x # xs) = (if x = c then Some ([], xs) else map_option (\<lambda>(a, b). (x # a, b)) (split_once c xs))"

definition rsplit_once :: "char \<Rightarrow> str \<Rightarrow> (str \<times> str) option" where
  "rsplit_once c s = map_option (\<lambda>(a, b). (rev b, rev a)) (split_once c (rev s))"

text \<open>\<open>parse::<u32>()\<close>: an optional plus sign and digits.\<close>

fun digits_value :: "str \<Rightarrow> int \<Rightarrow> int option" where
  "digits_value [] n = Some n"
| "digits_value (c # cs) n = (if is_digit c then digits_value cs (10 * n + (int (byte c) - 48)) else None)"

definition parse_unsigned :: "str \<Rightarrow> int \<Rightarrow> int option" where
  "parse_unsigned s bound =
    (let ds = (if starts_with s ''+'' then drop 1 s else s)
     in if ds = [] then None
        else case digits_value ds 0 of Some n \<Rightarrow> if n < bound then Some n else None | None \<Rightarrow> None)"

definition parse_u32 :: "str \<Rightarrow> u32 option" where
  "parse_u32 s = map_option word_of_int (parse_unsigned s (2 ^ 32))"

definition normalize_header_thread_id :: "str \<Rightarrow> str" where
  "normalize_header_thread_id v = replace_byte (CHR '' '') (CHR ''_'') (trim v)"

definition parse_codex_window_id :: "str \<Rightarrow> (parsed_codex_window_id, str) result" where
  "parse_codex_window_id v =
    (case rsplit_once (CHR '':'') (trim v) of
       None \<Rightarrow> Inl ''x-codex-window-id must use the official <thread_id>:<generation> format.''
     | Some (thread_id, generation) \<Rightarrow>
         (let thread_id = normalize_header_thread_id thread_id in
          if thread_id = [] then Inl ''x-codex-window-id must include a non-empty thread id.''
          else case parse_u32 generation of
            None \<Rightarrow> Inl ''x-codex-window-id generation must be an unsigned integer.''
          | Some generation \<Rightarrow> Inr \<lparr>pw_thread_id = thread_id, pw_generation = generation,
              pw_canonical = thread_id @ '':'' @ show_word generation\<rparr>))"

subsection \<open>The scope\<close>

definition session_scope :: "tenant \<Rightarrow> str \<Rightarrow> request_routing_scope" where
  "session_scope tenant affinity =
    (let principal_id = ''tenant:'' @ tn_slug tenant @ ''/principal:'' @ affinity in
     \<lparr>rg_principal_id = principal_id, rg_lease_principal_id = principal_id, rg_placement_affinity_key = principal_id,
      rg_session_key = affinity, rg_window_id = None, rg_parent_thread_id = None, rg_thread_family_id = None,
      rg_continuity_mode = SessionAffinity\<rparr>)"

definition ephemeral_scope :: "tenant \<Rightarrow> str \<Rightarrow> request_routing_scope" where
  "ephemeral_scope tenant request_key =
    (let principal_id = ''tenant:'' @ tn_slug tenant @ ''/request:'' @ request_key in
     \<lparr>rg_principal_id = principal_id, rg_lease_principal_id = principal_id,
      rg_placement_affinity_key = ''tenant:'' @ show_uuid (tn_id tenant) @ ''/request:'' @ request_key,
      rg_session_key = request_key, rg_window_id = None, rg_parent_thread_id = None, rg_thread_family_id = None,
      rg_continuity_mode = EphemeralRequest\<rparr>)"

definition window_scope :: "tenant \<Rightarrow> conversation_thread \<Rightarrow> str \<Rightarrow> request_routing_scope" where
  "window_scope tenant thread canonical =
     \<lparr>rg_principal_id = th_principal_id thread,
      rg_lease_principal_id = ''tenant:'' @ tn_slug tenant @ ''/thread-family:'' @ th_root_thread_id thread,
      rg_placement_affinity_key = ''tenant:'' @ show_uuid (tn_id tenant) @ ''/thread-family:'' @ th_root_thread_id thread,
      rg_session_key = th_root_thread_id thread, rg_window_id = Some canonical,
      rg_parent_thread_id = th_parent_thread_id thread, rg_thread_family_id = Some (th_root_thread_id thread),
      rg_continuity_mode = CodexWindow\<rparr>"

definition resolve_request_scope ::
  "str \<Rightarrow> instant \<times> instant \<times> instant \<Rightarrow> gateway_auth_context \<Rightarrow> headers \<Rightarrow> str \<Rightarrow> app_state
     \<Rightarrow> (request_routing_scope, str) result \<times> app_state" where
  "resolve_request_scope nonce clock auth headers model app =
    (case nonempty_header_str headers ''x-codex-window-id'' of
       None \<Rightarrow>
         if requires_codex_window_id headers
         then (Inl ''Codex CLI requests must include x-codex-window-id; refusing to fall back to request-scoped continuity.'', app)
         else (case legacy_affinity_key headers of
             Some affinity \<Rightarrow> (Inr (session_scope (gc_tenant auth) affinity), app)
           | None \<Rightarrow> (Inr (ephemeral_scope (gc_tenant auth) (ephemeral_request_key nonce headers)), app))
     | Some window_id \<Rightarrow>
         (case parse_codex_window_id window_id of
            Inl error \<Rightarrow> (Inl error, app)
          | Inr parsed \<Rightarrow>
              (let parent = (case map_option normalize_header_thread_id
                       (nonempty_header_str headers ''x-codex-parent-thread-id'') of
                     Some p \<Rightarrow> if p \<noteq> [] then Some p else None | None \<Rightarrow> None);
                   (thread, app) = ensure_conversation_thread (gc_tenant auth) (pw_thread_id parsed) parent (Some model)
                     ''codex_window'' clock app
               in (Inr (window_scope (gc_tenant auth) thread (pw_canonical parsed)), app))))"

definition cache_continuity_anchor :: "request_routing_scope \<Rightarrow> str option" where
  "cache_continuity_anchor routing =
    (if rg_continuity_mode routing = EphemeralRequest then None else Some (rg_session_key routing))"

definition forward_context_of :: "headers \<Rightarrow> request_routing_scope \<Rightarrow> forward_context" where
  "forward_context_of headers routing =
    (let conversation_id = rg_session_key routing in
     \<lparr>fc_conversation_id = conversation_id,
      fc_request_id = (case nonempty_header_str headers ''x-client-request-id'' of Some r \<Rightarrow> r | None \<Rightarrow> conversation_id),
      fc_subagent = header_text headers ''x-openai-subagent'', fc_originator = header_text headers ''originator'',
      fc_window_id = rg_window_id routing, fc_parent_thread_id = rg_parent_thread_id routing\<rparr>)"

definition subagent_count_of :: "headers \<Rightarrow> u32" where
  "subagent_count_of headers = (if map_of headers ''x-openai-subagent'' \<noteq> None then 1 else 0)"

text \<open>The number of replayed turns that the log line of an attempt shows.\<close>

fun drop_prefixes :: "nat \<Rightarrow> str \<Rightarrow> str \<Rightarrow> str" where
  "drop_prefixes 0 p s = s"
| "drop_prefixes (Suc n) p s = (if starts_with s p \<and> p \<noteq> [] then drop_prefixes n p (drop (length p) s) else s)"

fun split_once_str :: "str \<Rightarrow> str \<Rightarrow> (str \<times> str) option" where
  "split_once_str p [] = (if p = [] then Some ([], []) else None)"
| "split_once_str p (x # xs) =
    (if starts_with (x # xs) p then Some ([], drop (length p) (x # xs))
     else map_option (\<lambda>(a, b). (x # a, b)) (split_once_str p xs))"

definition is_turn_line :: "str \<Rightarrow> bool" where
  "is_turn_line line \<longleftrightarrow>
    (case split_once_str ''. '' line of
       Some (index, tail) \<Rightarrow> list_all is_digit index \<and> starts_with (trim_start tail) ''g'' | None \<Rightarrow> False)"

definition replay_turn_count :: "str option \<Rightarrow> nat" where
  "replay_turn_count replay_context =
    (case replay_context of
       None \<Rightarrow> 0
     | Some context \<Rightarrow>
         (case find (\<lambda>line. starts_with line ''turns='') (str_lines context) of
            Some turns_line \<Rightarrow>
              (case parse_unsigned (trim (drop_prefixes (length turns_line) ''turns='' turns_line)) (2 ^ 64) of
                 Some n \<Rightarrow> nat n | None \<Rightarrow> 0)
          | None \<Rightarrow> length (filter is_turn_line (str_lines context))))"

end
