(* ===== verification/Gateway.thy ===== *)
theory Gateway
  imports Streams Routing
begin

text \<open>
  The request handlers of the data plane (\<open>http/data.rs\<close>): a request is scoped, leased, sent upstream
  and answered, in a loop that retries on another account, recovers a lost continuation or compacts an
  overlong context. One iteration of a handler's loop is a definition; the loop runs over the list of
  what each iteration meets (clocks, fresh ids, the answers of the upstream), so a list that is too
  short leaves the request unanswered. The execution guard an iteration holds only delays it and is
  modelled in \<open>Execution\<close>.
\<close>

subsection \<open>The libraries and the upstream\<close>

text \<open>JSON parsing and printing, float printing, SHA-256, zstd, and the names of HTTP statuses.\<close>

record library =
  lb_parse :: "str \<Rightarrow> json option"
  lb_render :: "json \<Rightarrow> str"
  lb_float :: "f64 \<Rightarrow> str"
  lb_sha256 :: "str \<Rightarrow> str"
  lb_zstd :: "str \<Rightarrow> str option"
  lb_status_reason :: "status_code \<Rightarrow> str option"

type_synonym response = "stream_event list transport_response"
type_synonym upstream = "route_mode \<Rightarrow> upstream_request \<Rightarrow> response option"

text \<open>The bytes of a body, empty when it breaks off.\<close>

fun body_bytes :: "stream_event list \<Rightarrow> str option" where
  "body_bytes [] = Some []"
| "body_bytes (Arrives c # es) = map_option (\<lambda>b. c @ b) (body_bytes es)"
| "body_bytes (Beat # es) = body_bytes es"
| "body_bytes (Breaks # es) = None"

definition whole_body :: "response \<Rightarrow> str transport_response" where
  "whole_body r = \<lparr>tr_status = tr_status r, tr_headers = tr_headers r, tr_body = str_or (body_bytes (tr_body r)) []\<rparr>"

definition post_json ::
  "library \<Rightarrow> upstream \<Rightarrow> upstream_credential \<Rightarrow> str \<Rightarrow> json \<Rightarrow> forward_context \<Rightarrow> bool \<Rightarrow> route_mode
     \<Rightarrow> (response, upstream_failure) result" where
  "post_json lib up credential path payload context stream mode =
     post_json_result (lb_parse lib) (\<lambda>b. from_utf8_lossy (str_or (body_bytes b) []))
       (up mode (upstream_request_of (lb_render lib) (lb_zstd lib) credential path payload context stream))"

definition compacted_output :: "library \<Rightarrow> str \<Rightarrow> response \<Rightarrow> json list option" where
  "compacted_output lib expected_model r =
    (case Option.bind (body_bytes (tr_body r)) (lb_parse lib) of
       None \<Rightarrow> None
     | Some v \<Rightarrow>
         if hidden_failure_kind_from_json (lb_float lib) v expected_model (tr_headers r) \<noteq> None then None
         else (case Option.bind (json_get v ''output'') json_as_array of
                 Some items \<Rightarrow> if items \<noteq> [] then Some items else None | None \<Rightarrow> None))"

definition compact_retry_output_items ::
  "library \<Rightarrow> upstream \<Rightarrow> upstream_credential \<Rightarrow> cli_lease \<Rightarrow> forward_context \<Rightarrow> str \<Rightarrow> responses_request
     \<Rightarrow> json list option" where
  "compact_retry_output_items lib up credential lease context expected_model request =
    (case post_json lib up credential ''responses/compact'' (compact_payload_for_upstream (lb_float lib) request)
            context False (ls_route_mode lease) of
       Inr r \<Rightarrow> compacted_output lib expected_model r
     | Inl error \<Rightarrow>
         if \<not> should_retry_compact_with_standard_responses (cr_base_url credential) error then None
         else (case post_json lib up credential ''responses''
                       (compact_payload_for_standard_responses (lb_float lib) request) context False (ls_route_mode lease) of
                 Inr r \<Rightarrow> compacted_output lib expected_model r
               | Inl _ \<Rightarrow> None))"

subsection \<open>Waiting for a lease\<close>

text \<open>A round of the wait: what other tasks did before it and the clocks of the selection.\<close>

type_synonym round = "(app_state \<Rightarrow> app_state) \<times> instant \<times> instant"
type_synonym selected = "cli_lease \<times> str"

text \<open>\<open>None\<close>: still waiting when the rounds run out.\<close>

fun resolve_http_selection_or_wait ::
  "(str \<Rightarrow> str) \<Rightarrow> lease_selection_request \<Rightarrow> round list \<Rightarrow> app_state
     \<Rightarrow> (gateway_failure_reason, selected) sum option \<times> app_state" where
  "resolve_http_selection_or_wait sha256 request [] app = (None, app)"
| "resolve_http_selection_or_wait sha256 request ((others, now, reuse_now) # rounds) app =
    (case resolve_lease_outcome sha256 request now reuse_now (others app) of
       (Selected lease prompt_cache_key _, app) \<Rightarrow> (Some (Inr (lease, prompt_cache_key)), app)
     | (Exhausted e, app) \<Rightarrow>
         if le_kind e = QuotaExhausted \<or> le_kind e = Cooldown
         then resolve_http_selection_or_wait sha256 request rounds app
         else (Some (Inl (gateway_failure_reason_from_selection (le_kind e))), app))"

subsection \<open>One iteration\<close>

text \<open>
  What a request keeps through its loop, and what one iteration meets. \<open>it_others n\<close> is what other tasks
  do to the instance meanwhile: 0 while the request waits for its execution guard (its entry into the
  gate included), 1 while it waits for the upstream and reads the answer up to its first event or whole,
  2 while a context is compacted after a failure, 3 while the rest of a stream is passed on.
\<close>

record gateway_request =
  gq_seed :: request_log_seed
  gq_selection :: lease_selection_request
  gq_context :: forward_context
  gq_principal_id :: str
  gq_model :: str
  gq_stream_requested :: bool
  gq_max_non_quota_failovers :: nat

record iteration =
  it_turn :: "instant \<times> instant"
  it_readings :: readings
  it_upstream :: upstream
  it_rounds :: "round list"
  it_others :: "nat \<Rightarrow> app_state \<Rightarrow> app_state"
  it_created :: i64

datatype gateway_reply =
    Refused reply
  | Whole forward_success
  | Streamed headers "str list"
  | Chat_Streamed headers "chat_event list"
  | Passed status_code str str

text \<open>The end of an iteration: a reply, another iteration, no lease yet, or a panic.\<close>

datatype 'l step_result = Replies gateway_reply | Continues 'l | Waits_On | Crashes

definition replies_after ::
  "gateway_reply \<Rightarrow> (app_state, app_state) outcome \<Rightarrow> 'l step_result \<times> app_state" where
  "replies_after r outcome = (case outcome of Returns app \<Rightarrow> (Replies r, app) | Panics app \<Rightarrow> (Crashes, app))"

definition credential_for_account :: "app_state \<Rightarrow> str \<Rightarrow> upstream_credential option" where
  "credential_for_account app account_id = hm_get (rt_credentials (ap_runtime app)) account_id"

text \<open>\<open>refuse\<close> makes the failure reply of the endpoint; \<open>put\<close> stores the selection and counters.\<close>

definition reselect ::
  "library \<Rightarrow> gateway_request \<Rightarrow> iteration \<Rightarrow> (gateway_failure_reason \<Rightarrow> reply) \<Rightarrow> (selected \<Rightarrow> 'l) \<Rightarrow> app_state
     \<Rightarrow> 'l step_result \<times> app_state" where
  "reselect lib q it refuse put app =
    (case resolve_http_selection_or_wait (lb_sha256 lib) (gq_selection q) (it_rounds it) app of
       (None, app) \<Rightarrow> (Waits_On, app)
     | (Some (Inl reason), app) \<Rightarrow> (Replies (Refused (refuse reason)), app)
     | (Some (Inr s), app) \<Rightarrow> (Continues (put s), app))"

definition give_up ::
  "gateway_request \<Rightarrow> iteration \<Rightarrow> (gateway_failure_reason \<Rightarrow> reply) \<Rightarrow> gateway_failure_reason \<Rightarrow> app_state
     \<Rightarrow> 'l step_result \<times> app_state" where
  "give_up q it refuse reason app =
    (Replies (Refused (refuse reason)),
     discard_pending_context_turn (gq_principal_id q) (fst (rd_turn (it_readings it))) app)"

definition report_missing_credential :: "iteration \<Rightarrow> cli_lease \<Rightarrow> app_state \<Rightarrow> app_state" where
  "report_missing_credential it lease app =
     snd (failover_account (rd_incident (it_readings it)) (ls_account_id lease) ''credential-missing'' 300 True
       (rd_now (it_readings it)) app)"

subsection \<open>The responses endpoint\<close>

record responses_loop =
  lp_payload :: responses_request
  lp_input_summary :: str
  lp_queued_same_lease :: "selected option"
  lp_selection :: "selected option"
  lp_recorded_input :: bool
  lp_continuation_recovery :: bool
  lp_transparent_compaction_attempted :: bool
  lp_compacted_retry_active :: bool
  lp_attempt :: nat
  lp_non_quota_failovers :: nat

definition previous_response_id_of :: "responses_request \<Rightarrow> str option" where
  "previous_response_id_of payload = Option.bind (map_of (rb_extra payload) ''previous_response_id'') json_as_str"

definition forget_previous_response :: "responses_request \<Rightarrow> responses_request" where
  "forget_previous_response payload = payload\<lparr>rb_extra := obj_remove ''previous_response_id'' (rb_extra payload)\<rparr>"

definition note_retry :: "upstream_failure_kind \<Rightarrow> responses_loop \<Rightarrow> responses_loop" where
  "note_retry kind lp =
    (case note_retry_attempt kind (lp_attempt lp, lp_non_quota_failovers lp) of
       (attempt, non_quota) \<Rightarrow> lp\<lparr>lp_attempt := attempt, lp_non_quota_failovers := non_quota\<rparr>)"

definition select_lp :: "responses_loop \<Rightarrow> selected \<Rightarrow> responses_loop" where
  "select_lp lp s = lp\<lparr>lp_selection := Some s\<rparr>"

definition recover_continuation :: "responses_loop \<Rightarrow> selected \<Rightarrow> responses_loop" where
  "recover_continuation lp s =
     lp\<lparr>lp_continuation_recovery := True, lp_compacted_retry_active := False,
       lp_payload := forget_previous_response (lp_payload lp), lp_queued_same_lease := Some s\<rparr>"

definition retry_compacted :: "responses_loop \<Rightarrow> selected \<Rightarrow> json list \<Rightarrow> responses_loop" where
  "retry_compacted lp s output =
     lp\<lparr>lp_transparent_compaction_attempted := True, lp_compacted_retry_active := True,
       lp_continuation_recovery := False,
       lp_payload := forget_previous_response ((lp_payload lp)\<lparr>rb_input := JArray output\<rparr>),
       lp_queued_same_lease := Some s\<rparr>"

text \<open>The failure reply of an HTTP request for responses.\<close>

definition refuse_responses :: "gateway_request \<Rightarrow> iteration \<Rightarrow> gateway_failure_reason \<Rightarrow> reply" where
  "refuse_responses q it reason = gateway_failure_response (rd_simple (it_readings it)) (gq_stream_requested q) reason"

definition plan_of :: "gateway_request \<Rightarrow> responses_loop \<Rightarrow> cli_lease \<Rightarrow> app_state \<Rightarrow> replay_plan" where
  "plan_of q lp lease app =
    (if lp_continuation_recovery lp
     then continuation_recovery_plan_for_request app (gq_principal_id q) (previous_response_id_of (lp_payload lp))
     else if lp_compacted_retry_active lp then replay_plan_default
     else replay_plan_for_request app (gq_principal_id q) (ls_generation lease) (previous_response_id_of (lp_payload lp)))"

definition upstream_value_of ::
  "library \<Rightarrow> gateway_request \<Rightarrow> responses_loop \<Rightarrow> selected \<Rightarrow> replay_plan \<Rightarrow> bool \<Rightarrow> app_state \<Rightarrow> json" where
  "upstream_value_of lib q lp s plan codex_protocol app =
    (let replayed = (if codex_protocol \<and> rp_input_items plan = [] \<and> \<not> lp_compacted_retry_active lp
           then replay_tool_call_items_for app (gq_principal_id q) (previous_response_id_of (lp_payload lp))
                  (responses_input_function_call_output_call_ids (lb_float lib) (rb_input (lp_payload lp)))
           else [])
     in responses_payload_for_upstream (lb_float lib) (lp_payload lp) (snd s) plan codex_protocol replayed)"

text \<open>
  A failure that the same lease may still answer: the continuation is recovered once, the context is
  compacted once; \<open>compactable\<close> says whether this failure calls for compaction, \<open>otherwise\<close> is the
  rest of the branch.
\<close>

definition same_lease_retry ::
  "library \<Rightarrow> gateway_request \<Rightarrow> iteration \<Rightarrow> responses_loop \<Rightarrow> selected \<Rightarrow> upstream_credential \<Rightarrow> replay_plan
     \<Rightarrow> upstream_failure_kind \<Rightarrow> bool \<Rightarrow> responses_loop option" where
  "same_lease_retry lib q it lp s credential plan kind compactable =
    (if previous_response_id_of (lp_payload lp) \<noteq> None \<and> kind = KContinuation \<and> \<not> lp_continuation_recovery lp
     then Some (recover_continuation lp s)
     else if \<not> lp_transparent_compaction_attempted lp \<and> compactable
     then map_option (retry_compacted lp s)
       (compact_retry_output_items lib (it_upstream it) credential (fst s) (gq_context q) (gq_model q)
          (compact_retry_request_from_responses (lb_float lib) (lp_payload lp) plan))
     else None)"

definition responses_hidden_failure ::
  "library \<Rightarrow> gateway_request \<Rightarrow> iteration \<Rightarrow> responses_loop \<Rightarrow> selected \<Rightarrow> upstream_credential \<Rightarrow> replay_plan
     \<Rightarrow> upstream_failure_kind \<Rightarrow> app_state \<Rightarrow> responses_loop step_result \<times> app_state" where
  "responses_hidden_failure lib q it lp s credential plan kind app =
    (case same_lease_retry lib q it lp s credential plan kind (should_transparent_compact_hidden_failure kind) of
       Some lp \<Rightarrow> (Continues lp, app)
     | None \<Rightarrow>
         (let app = handle_hidden_failure (rd_incident (it_readings it)) (rd_now (it_readings it)) (fst s) kind app in
          if should_retry_hidden_failure kind (lp_non_quota_failovers lp) (gq_max_non_quota_failovers q)
          then reselect lib q it (refuse_responses q it) (select_lp (note_retry kind lp)) app
          else give_up q it (refuse_responses q it) (gateway_failure_reason_from_upstream kind) app))"

definition responses_upstream_failure ::
  "library \<Rightarrow> gateway_request \<Rightarrow> iteration \<Rightarrow> responses_loop \<Rightarrow> selected \<Rightarrow> upstream_credential \<Rightarrow> replay_plan
     \<Rightarrow> upstream_failure \<Rightarrow> app_state \<Rightarrow> responses_loop step_result \<times> app_state" where
  "responses_upstream_failure lib q it lp s credential plan error app =
    (let app = it_others it 2
           (handle_upstream_failure (rd_incident (it_readings it)) (rd_now (it_readings it)) (fst s) error app) in
     case same_lease_retry lib q it lp s credential plan (uf_kind error)
            (should_passthrough_compact_upstream_error error) of
       Some lp \<Rightarrow> (Continues lp, app)
     | None \<Rightarrow>
         if should_retry_upstream_failure error (lp_non_quota_failovers lp) (gq_max_non_quota_failovers q)
         then reselect lib q it (refuse_responses q it) (select_lp (note_retry (uf_kind error) lp)) app
         else give_up q it (refuse_responses q it) (gateway_failure_reason_from_upstream (uf_kind error)) app)"

definition record_whole ::
  "library \<Rightarrow> gateway_request \<Rightarrow> iteration \<Rightarrow> cli_lease \<Rightarrow> forward_success \<Rightarrow> app_state \<Rightarrow> (app_state, app_state) outcome"
where
  "record_whole lib q it lease success app =
     record_success (it_readings it) (gq_seed q) lease (gq_principal_id q)
       (success_response_summary (lb_float lib) (fs_output_summary success) (fs_response_output_items success)
          ''assistant response delivered'')
       (fs_response_id success) (fs_response_output_items success) (fs_status success) (fs_usage success)
       (fs_observed_model success) app"

definition responses_answer ::
  "library \<Rightarrow> gateway_request \<Rightarrow> iteration \<Rightarrow> responses_loop \<Rightarrow> selected \<Rightarrow> upstream_credential \<Rightarrow> replay_plan
     \<Rightarrow> response \<Rightarrow> app_state \<Rightarrow> responses_loop step_result \<times> app_state" where
  "responses_answer lib q it lp s credential plan r app =
    (if gq_stream_requested q then
       (case upstream_stream_response (lb_parse lib) (lb_render lib) (lb_float lib) (it_readings it) r (fst s) (gq_seed q)
               (gq_principal_id q) (gq_model q) (it_others it 3 app) of
          Inr (headers, out, outcome) \<Rightarrow> replies_after (Streamed headers out) outcome
        | Inl kind \<Rightarrow> responses_hidden_failure lib q it lp s credential plan kind app)
     else
       (case (if is_codex_chatgpt_backend (cr_base_url credential)
              then upstream_stream_to_json_response (lb_parse lib) (lb_render lib) (lb_float lib) r (gq_model q)
              else upstream_json_response (lb_parse lib) (lb_float lib) (whole_body r) (gq_model q)) of
          Inr success \<Rightarrow> replies_after (Whole success) (record_whole lib q it (fst s) success app)
        | Inl kind \<Rightarrow> responses_hidden_failure lib q it lp s credential plan kind app))"

definition begin_turn_once ::
  "library \<Rightarrow> gateway_request \<Rightarrow> iteration \<Rightarrow> responses_loop \<Rightarrow> cli_lease \<Rightarrow> app_state \<Rightarrow> app_state" where
  "begin_turn_once lib q it lp lease app =
    (if lp_recorded_input lp then app
     else begin_context_turn (gq_principal_id q) (gq_model q) (ls_generation lease) (lp_input_summary lp)
       (normalize_responses_input (lb_float lib) (rb_input (lp_payload lp))) (fst (it_turn it)) (snd (it_turn it)) app)"

text \<open>An iteration with a lease.\<close>

definition responses_with_lease ::
  "library \<Rightarrow> gateway_request \<Rightarrow> iteration \<Rightarrow> responses_loop \<Rightarrow> selected \<Rightarrow> app_state
     \<Rightarrow> responses_loop step_result \<times> app_state" where
  "responses_with_lease lib q it lp s app =
    (let lease = fst s;
         app = begin_turn_once lib q it lp lease (it_others it 0 app);
         lp = lp\<lparr>lp_recorded_input := True\<rparr>
     in case credential_for_account app (ls_account_id lease) of
          None \<Rightarrow>
            (let app = report_missing_credential it lease app in
             if lp_non_quota_failovers lp = 0
             then reselect lib q it (refuse_responses q it) (select_lp (lp\<lparr>lp_attempt := lp_attempt lp + 1,
                    lp_non_quota_failovers := lp_non_quota_failovers lp + 1\<rparr>)) app
             else give_up q it (refuse_responses q it) GUpstreamFailure app)
        | Some credential \<Rightarrow>
            (let codex_protocol = is_codex_chatgpt_backend (cr_base_url credential);
                 plan = plan_of q lp lease app;
                 v = upstream_value_of lib q lp s plan codex_protocol app
             in case post_json lib (it_upstream it) credential ''responses'' v (gq_context q)
                       (codex_protocol \<or> gq_stream_requested q) (ls_route_mode lease) of
                  Inr r \<Rightarrow> responses_answer lib q it lp s credential plan r (it_others it 1 app)
                | Inl error \<Rightarrow> responses_upstream_failure lib q it lp s credential plan error (it_others it 1 app)))"

text \<open>The lease of an iteration is taken out of the loop's state.\<close>

definition responses_iteration ::
  "library \<Rightarrow> gateway_request \<Rightarrow> iteration \<Rightarrow> responses_loop \<Rightarrow> app_state
     \<Rightarrow> responses_loop step_result \<times> app_state" where
  "responses_iteration lib q it lp app =
    (case lp_queued_same_lease lp of
       Some s \<Rightarrow> responses_with_lease lib q it (lp\<lparr>lp_queued_same_lease := None\<rparr>) s app
     | None \<Rightarrow>
         (case lp_selection lp of
            Some s \<Rightarrow> responses_with_lease lib q it (lp\<lparr>lp_selection := None\<rparr>) s app
          | None \<Rightarrow> (Replies (Refused (refuse_responses q it GUpstreamFailure)), app)))"

fun responses_iterations ::
  "library \<Rightarrow> gateway_request \<Rightarrow> iteration list \<Rightarrow> responses_loop \<Rightarrow> app_state
     \<Rightarrow> responses_loop step_result \<times> app_state" where
  "responses_iterations lib q [] lp app = (Continues lp, app)"
| "responses_iterations lib q (it # its) lp app =
    (case responses_iteration lib q it lp app of
       (Continues lp, app) \<Rightarrow> responses_iterations lib q its lp app
     | r \<Rightarrow> r)"

text \<open>Before the loop: who asks, for what, in which conversation. \<open>Inl\<close>: the request is refused.\<close>

record entry =
  en_nonce :: str
  en_clock :: "instant \<times> instant \<times> instant"
  en_rounds :: "round list"
  en_simple :: str

datatype refusal = Unauthorized | Invalid_Request str

definition selection_request_of ::
  "gateway_auth_context \<Rightarrow> request_routing_scope \<Rightarrow> str \<Rightarrow> str option \<Rightarrow> headers \<Rightarrow> str \<Rightarrow> lease_selection_request" where
  "selection_request_of auth routing model effort headers cache_affinity_key =
    \<lparr>lq_tenant_id = tn_id (gc_tenant auth), lq_principal_id = rg_lease_principal_id routing, lq_model = model,
     lq_reasoning_effort = effort, lq_subagent_count = subagent_count_of headers,
     lq_cache_affinity_key = cache_affinity_key, lq_placement_affinity_key = rg_placement_affinity_key routing\<rparr>"

definition seed_of ::
  "gateway_auth_context \<Rightarrow> request_routing_scope \<Rightarrow> str \<Rightarrow> str \<Rightarrow> str \<Rightarrow> str option \<Rightarrow> request_log_seed" where
  "seed_of auth routing endpoint requested_model model effort =
    \<lparr>sd_api_key = gc_api_key auth, sd_tenant_id = tn_id (gc_tenant auth), sd_principal_id = rg_principal_id routing,
     sd_endpoint = endpoint, sd_method = ''POST'', sd_requested_model = requested_model,
     sd_effective_model = model, sd_reasoning_effort = effort\<rparr>"

definition gateway_request_of ::
  "gateway_auth_context \<Rightarrow> request_routing_scope \<Rightarrow> headers \<Rightarrow> str \<Rightarrow> str \<Rightarrow> str \<Rightarrow> str option \<Rightarrow> str \<Rightarrow> bool \<Rightarrow> app_state
     \<Rightarrow> gateway_request" where
  "gateway_request_of auth routing headers endpoint requested_model model effort cache_affinity_key stream app =
    (let selection = selection_request_of auth routing model effort headers cache_affinity_key in
     \<lparr>gq_seed = seed_of auth routing endpoint requested_model model effort, gq_selection = selection,
      gq_context = forward_context_of headers routing, gq_principal_id = rg_principal_id routing, gq_model = model,
      gq_stream_requested = stream,
      gq_max_non_quota_failovers = non_quota_retry_budget (ap_runtime app) selection\<rparr>)"

definition begin_responses ::
  "library \<Rightarrow> entry \<Rightarrow> headers \<Rightarrow> responses_request \<Rightarrow> app_state
     \<Rightarrow> (refusal, gateway_request \<times> responses_loop) sum \<times> app_state" where
  "begin_responses lib en headers payload app =
    (case authenticated_context (ap_runtime app) headers of
       None \<Rightarrow> (Inl Unauthorized, app)
     | Some auth \<Rightarrow>
         (let requested_model = rb_model payload;
              effort = resolve_effective_reasoning_for_responses (gc_api_key auth) payload;
              payload = apply_responses_policy payload (resolve_effective_model (gc_api_key auth) requested_model) effort;
              model = rb_model payload
          in case resolve_request_scope (en_nonce en) (en_clock en) auth headers model app of
               (Inl error, app) \<Rightarrow> (Inl (Invalid_Request error), app)
             | (Inr routing, app) \<Rightarrow>
                 (let key = responses_cache_affinity_key (lb_render lib) (lb_sha256 lib) (lb_float lib)
                        (tn_id (gc_tenant auth)) (cache_continuity_anchor routing) payload
                  in (Inr (gateway_request_of auth routing headers ''/v1/responses'' requested_model model effort key
                         (case rb_stream payload of Some b \<Rightarrow> b | None \<Rightarrow> False) app,
                       \<lparr>lp_payload = payload, lp_input_summary = summarize_value (lb_float lib) (rb_input payload),
                        lp_queued_same_lease = None, lp_selection = None, lp_recorded_input = False,
                        lp_continuation_recovery = False, lp_transparent_compaction_attempted = False,
                        lp_compacted_retry_active = False, lp_attempt = 0, lp_non_quota_failovers = 0\<rparr>), app))))"

text \<open>The whole handler; the budget is read after the first selection.\<close>

definition responses ::
  "library \<Rightarrow> entry \<Rightarrow> headers \<Rightarrow> responses_request \<Rightarrow> iteration list \<Rightarrow> app_state
     \<Rightarrow> (refusal, responses_loop step_result) sum \<times> app_state" where
  "responses lib en headers payload its app =
    (case begin_responses lib en headers payload app of
       (Inl refusal, app) \<Rightarrow> (Inl refusal, app)
     | (Inr (q, lp), app) \<Rightarrow>
         (case resolve_http_selection_or_wait (lb_sha256 lib) (gq_selection q) (en_rounds en) app of
            (None, app) \<Rightarrow> (Inr Waits_On, app)
          | (Some (Inl reason), app) \<Rightarrow>
              (Inr (Replies (Refused (gateway_failure_response (en_simple en) (gq_stream_requested q) reason))), app)
          | (Some (Inr s), app) \<Rightarrow>
              (let q = q\<lparr>gq_max_non_quota_failovers := non_quota_retry_budget (ap_runtime app) (gq_selection q)\<rparr>
               in case responses_iterations lib q its (select_lp lp s) app of (r, app) \<Rightarrow> (Inr r, app))))"

end
