(* ===== verification/Gateway_Ws.thy ===== *)
theory Gateway_Ws
  imports Gateway
begin

text \<open>
  The WebSocket side of the data plane (\<open>http/data.rs\<close>): the messages of a connection, the requests in
  them, and the relay of a stream to the socket. A socket accepts some number of further messages and
  then fails, which is how a client that goes away looks to the code.
\<close>

subsection \<open>The socket\<close>

datatype ws_message = Ws_Text str | Ws_Ping | Ws_Pong str

record socket =
  so_accepts :: nat
  so_messages :: "ws_message list"

definition ws_send :: "ws_message \<Rightarrow> socket \<Rightarrow> bool \<times> socket" where
  "ws_send m so =
    (if so_accepts so = 0 then (False, so)
     else (True, so\<lparr>so_accepts := so_accepts so - 1, so_messages := so_messages so @ [m]\<rparr>))"

definition send_ws_json :: "library \<Rightarrow> json \<Rightarrow> socket \<Rightarrow> bool \<times> socket" where
  "send_ws_json lib v so = ws_send (Ws_Text (lb_render lib v)) so"

definition send_ws_record :: "str \<Rightarrow> socket \<Rightarrow> bool \<times> socket" where
  "send_ws_record record so =
    (case parse_sse_record record of
       None \<Rightarrow> (True, so)
     | Some (_, data) \<Rightarrow>
         if trim data = [] \<or> trim data = ''[DONE]'' then (True, so) else ws_send (Ws_Text (trim data)) so)"

definition send_ws_gateway_failure_response ::
  "library \<Rightarrow> str \<Rightarrow> gateway_failure_reason \<Rightarrow> socket \<Rightarrow> bool \<times> socket" where
  "send_ws_gateway_failure_response lib simple reason so = send_ws_json lib (response_failure_value simple None reason) so"

definition send_ws_empty_response :: "library \<Rightarrow> str \<Rightarrow> str \<Rightarrow> socket \<Rightarrow> bool \<times> socket" where
  "send_ws_empty_response lib simple model so =
    (let part = (\<lambda>event status. json_obj [(''type'', JString event),
           (''response'', json_obj [(''id'', JString (''resp_ws_empty_'' @ simple)), (''model'', JString model),
              (''status'', JString status), (''output'', JArray [])])])
     in case send_ws_json lib (part ''response.created'' ''in_progress'') so of
          (False, so) \<Rightarrow> (False, so)
        | (True, so) \<Rightarrow> send_ws_json lib (part ''response.completed'' ''completed'') so)"

definition send_ws_failure_response :: "library \<Rightarrow> str option \<Rightarrow> str \<Rightarrow> str \<Rightarrow> socket \<Rightarrow> bool \<times> socket" where
  "send_ws_failure_response lib response_id code message so =
     send_ws_json lib (json_obj [(''type'', JString ''response.failed''),
       (''response'', JObject (insert_all (opt_entry ''id'' (map_option JString response_id)
          @ [(''status'', JString ''failed''),
             (''error'', json_obj [(''code'', JString code), (''message'', JString message)])]) []))]) so"

subsection \<open>Requests\<close>

text \<open>\<open>json_error\<close> and \<open>decode_error\<close> are the texts of the JSON library's errors.\<close>

definition parse_responses_ws_create ::
  "library \<Rightarrow> (str \<Rightarrow> str) \<Rightarrow> (json \<Rightarrow> str) \<Rightarrow> str \<Rightarrow> (responses_request, str) result" where
  "parse_responses_ws_create lib json_error decode_error message =
    (case lb_parse lib message of
       None \<Rightarrow> Inl (''invalid JSON: '' @ json_error message)
     | Some v \<Rightarrow>
         (case json_as_object v of
            None \<Rightarrow> Inl ''invalid websocket payload: expected a JSON object''
          | Some object \<Rightarrow>
              (case Option.bind (map_of object ''type'') json_as_str of
                 None \<Rightarrow> Inl ''invalid websocket payload: missing type''
               | Some event_type \<Rightarrow>
                   if event_type \<noteq> ''response.create'' then Inl (''unsupported websocket event type: '' @ event_type)
                   else
                     (let v = JObject (obj_remove ''background'' (obj_remove ''type'' object))
                      in case responses_request_of v of
                           Some r \<Rightarrow> Inr r | None \<Rightarrow> Inl (''invalid response.create payload: '' @ decode_error v)))))"

definition extract_ws_generate :: "responses_request \<Rightarrow> (bool, str) result \<times> responses_request" where
  "extract_ws_generate payload =
    ((case map_of (rb_extra payload) ''generate'' of
        None \<Rightarrow> Inr True
      | Some (JBool generate) \<Rightarrow> Inr generate
      | Some _ \<Rightarrow> Inl ''invalid response.create payload: generate must be a boolean''),
     payload\<lparr>rb_extra := obj_remove ''generate'' (rb_extra payload)\<rparr>)"

subsection \<open>The relay to the socket\<close>

text \<open>How a part of the relay ended.\<close>

datatype ws_end = Ws_Goes_On | Ws_Disconnected | Ws_Failed upstream_failure_kind

fun ws_buffered ::
  "(str \<Rightarrow> json option) \<Rightarrow> str list \<Rightarrow> relay \<Rightarrow> socket \<Rightarrow> bool \<times> relay \<times> socket" where
  "ws_buffered parse [] ry so = (True, ry, so)"
| "ws_buffered parse (r # rs) ry so =
    (let ry = note_record parse r ry in
     case send_ws_record r so of
       (False, so) \<Rightarrow> (False, ry, so)
     | (True, so) \<Rightarrow> ws_buffered parse rs ry so)"

function ws_relay_buffer ::
  "(str \<Rightarrow> json option) \<Rightarrow> (f64 \<Rightarrow> str) \<Rightarrow> str \<Rightarrow> str \<Rightarrow> relay \<Rightarrow> socket
     \<Rightarrow> ws_end \<times> str \<times> relay \<times> socket" where
  "ws_relay_buffer parse sf expected_model buffer ry so =
    (case take_sse_record buffer of
       None \<Rightarrow> (Ws_Goes_On, buffer, ry, so)
     | Some (record, rest) \<Rightarrow>
         (let ry = note_record parse record ry in
          case send_ws_record record so of
            (False, so) \<Rightarrow> (Ws_Disconnected, rest, ry, so)
          | (True, so) \<Rightarrow>
              (case hidden_failure_kind_from_sse_record parse sf record expected_model of
                 Some kind \<Rightarrow> (Ws_Failed kind, rest, ry, so)
               | None \<Rightarrow> ws_relay_buffer parse sf expected_model rest ry so)))"
  by pat_completeness auto
termination
  by (relation "measure (\<lambda>(_, _, _, buffer, _). length buffer)") (auto dest: take_sse_record_shorter)

declare ws_relay_buffer.simps [simp del]

text \<open>
  The loop. When the transport breaks the gateway's failure is sent; a client gone by then counts as a
  disconnection, although the failure was reported to the route: the flag says so.
\<close>

fun ws_relay_loop ::
  "library \<Rightarrow> str \<Rightarrow> str \<Rightarrow> stream_event list \<Rightarrow> str \<Rightarrow> relay \<Rightarrow> socket \<Rightarrow> ws_end \<times> bool \<times> relay \<times> socket" where
  "ws_relay_loop lib simple expected_model [] buffer ry so = (Ws_Goes_On, False, ry, so)"
| "ws_relay_loop lib simple expected_model (Beat # es) buffer ry so =
    (case ws_send Ws_Ping so of
       (False, so) \<Rightarrow> (Ws_Disconnected, False, ry, so)
     | (True, so) \<Rightarrow> ws_relay_loop lib simple expected_model es buffer ry so)"
| "ws_relay_loop lib simple expected_model (Breaks # es) buffer ry so =
    (case send_ws_gateway_failure_response lib simple GUpstreamFailure so of
       (False, so) \<Rightarrow> (Ws_Disconnected, True, ry, so)
     | (True, so) \<Rightarrow> (Ws_Failed KGeneric, True, ry, so))"
| "ws_relay_loop lib simple expected_model (Arrives c # es) buffer ry so =
    (case ws_relay_buffer (lb_parse lib) (lb_float lib) expected_model (buffer @ chunk_text c) ry so of
       (Ws_Goes_On, buffer, ry, so) \<Rightarrow> ws_relay_loop lib simple expected_model es buffer ry so
     | (Ws_Disconnected, buffer, ry, so) \<Rightarrow> (Ws_Disconnected, False, ry, so)
     | (Ws_Failed kind, buffer, ry, so) \<Rightarrow> (Ws_Failed kind, False, ry, so))"

definition discard_turn :: "readings \<Rightarrow> str \<Rightarrow> app_state \<Rightarrow> app_state" where
  "discard_turn rd principal_id app = discard_pending_context_turn principal_id (fst (rd_turn rd)) app"

definition upstream_stream_to_ws_response ::
  "library \<Rightarrow> readings \<Rightarrow> response \<Rightarrow> cli_lease \<Rightarrow> request_log_seed \<Rightarrow> str \<Rightarrow> str \<Rightarrow> socket \<Rightarrow> app_state
     \<Rightarrow> (upstream_failure_kind, socket \<times> (app_state, app_state) outcome) sum" where
  "upstream_stream_to_ws_response lib rd r lease seed principal_id expected_model so app =
    (case hidden_failure_kind_from_headers (tr_headers r) expected_model of
       Some kind \<Rightarrow> Inl kind
     | None \<Rightarrow>
         (case preflight_response_stream (lb_parse lib) (lb_float lib) expected_model (tr_body r) [] of
            Inl kind \<Rightarrow> Inl kind
          | Inr (upstream, records, buffer) \<Rightarrow>
              (case ws_buffered (lb_parse lib) records (new_relay (tr_headers r)) so of
                 (False, ry, so) \<Rightarrow> Inr (so, Returns (discard_turn rd principal_id app))
               | (True, ry, so) \<Rightarrow>
                   (case ws_relay_loop lib (rd_simple rd) expected_model upstream buffer ry so of
                      (Ws_Goes_On, _, ry, so) \<Rightarrow>
                        Inr (so, finish_relay rd seed lease principal_id (tr_status r) None ry app)
                    | (Ws_Disconnected, reported, ry, so) \<Rightarrow>
                        Inr (so, Returns (if reported then relayed_failure rd lease principal_id KGeneric app
                          else discard_turn rd principal_id app))
                    | (Ws_Failed kind, _, ry, so) \<Rightarrow>
                        Inr (so, Returns (relayed_failure rd lease principal_id kind app))))))"

subsection \<open>Waiting for a lease\<close>

text \<open>\<open>Ws_Selected\<close>, or the request is over; the socket is pinged in every round.\<close>

datatype ws_selection = Ws_Selected selected | Ws_Refused | Ws_Waits

fun resolve_ws_selection_or_wait ::
  "library \<Rightarrow> str \<Rightarrow> lease_selection_request \<Rightarrow> round list \<Rightarrow> socket \<Rightarrow> app_state
     \<Rightarrow> ws_selection \<times> socket \<times> app_state" where
  "resolve_ws_selection_or_wait lib simple request [] so app = (Ws_Waits, so, app)"
| "resolve_ws_selection_or_wait lib simple request ((others, now, reuse_now) # rounds) so app =
    (case resolve_lease_outcome (lb_sha256 lib) request now reuse_now (others app) of
       (Selected lease prompt_cache_key _, app) \<Rightarrow> (Ws_Selected (lease, prompt_cache_key), so, app)
     | (Exhausted e, app) \<Rightarrow>
         if le_kind e = QuotaExhausted \<or> le_kind e = Cooldown
         then (case ws_send Ws_Ping so of
                 (False, so) \<Rightarrow> (Ws_Refused, so, app)
               | (True, so) \<Rightarrow> resolve_ws_selection_or_wait lib simple request rounds so app)
         else (case send_ws_gateway_failure_response lib simple (gateway_failure_reason_from_selection (le_kind e)) so of
                 (_, so) \<Rightarrow> (Ws_Refused, so, app)))"

subsection \<open>One iteration\<close>

text \<open>The request is over and the connection goes on (\<open>True\<close>) or ends; another iteration; no lease yet; a panic.\<close>

datatype ws_step = Ws_Over bool | Ws_Again responses_loop | Ws_Waiting | Ws_Crashes

type_synonym ws_state = "socket \<times> app_state"

definition ws_reselect ::
  "library \<Rightarrow> gateway_request \<Rightarrow> iteration \<Rightarrow> responses_loop \<Rightarrow> ws_state \<Rightarrow> ws_step \<times> ws_state" where
  "ws_reselect lib q it lp w =
    (case resolve_ws_selection_or_wait lib (rd_simple (it_readings it)) (gq_selection q) (it_rounds it) (fst w) (snd w) of
       (Ws_Selected s, so, app) \<Rightarrow> (Ws_Again (select_lp lp s), so, app)
     | (Ws_Refused, so, app) \<Rightarrow> (Ws_Over False, so, app)
     | (Ws_Waits, so, app) \<Rightarrow> (Ws_Waiting, so, app))"

definition ws_give_up ::
  "library \<Rightarrow> gateway_request \<Rightarrow> iteration \<Rightarrow> gateway_failure_reason \<Rightarrow> ws_state \<Rightarrow> ws_step \<times> ws_state" where
  "ws_give_up lib q it reason w =
    (let app = discard_turn (it_readings it) (gq_principal_id q) (snd w)
     in case send_ws_gateway_failure_response lib (rd_simple (it_readings it)) reason (fst w) of
          (accepted, so) \<Rightarrow> (Ws_Over accepted, so, app))"

definition ws_hidden_failure ::
  "library \<Rightarrow> gateway_request \<Rightarrow> iteration \<Rightarrow> responses_loop \<Rightarrow> selected \<Rightarrow> upstream_credential \<Rightarrow> replay_plan
     \<Rightarrow> upstream_failure_kind \<Rightarrow> ws_state \<Rightarrow> ws_step \<times> ws_state" where
  "ws_hidden_failure lib q it lp s credential plan kind w =
    (case same_lease_retry lib q it lp s credential plan kind (should_transparent_compact_hidden_failure kind) of
       Some lp \<Rightarrow> (Ws_Again lp, w)
     | None \<Rightarrow>
         (let w = (fst w, handle_hidden_failure (rd_incident (it_readings it)) (rd_now (it_readings it)) (fst s) kind (snd w)) in
          if should_retry_hidden_failure kind (lp_non_quota_failovers lp) (gq_max_non_quota_failovers q)
          then ws_reselect lib q it (note_retry kind lp) w
          else ws_give_up lib q it (gateway_failure_reason_from_upstream kind) w))"

definition ws_upstream_failure ::
  "library \<Rightarrow> gateway_request \<Rightarrow> iteration \<Rightarrow> responses_loop \<Rightarrow> selected \<Rightarrow> upstream_credential \<Rightarrow> replay_plan
     \<Rightarrow> upstream_failure \<Rightarrow> ws_state \<Rightarrow> ws_step \<times> ws_state" where
  "ws_upstream_failure lib q it lp s credential plan error w =
    (let w = (fst w, it_others it 2
           (handle_upstream_failure (rd_incident (it_readings it)) (rd_now (it_readings it)) (fst s) error (snd w))) in
     case same_lease_retry lib q it lp s credential plan (uf_kind error)
            (should_passthrough_compact_upstream_error error) of
       Some lp \<Rightarrow> (Ws_Again lp, w)
     | None \<Rightarrow>
         if should_retry_upstream_failure error (lp_non_quota_failovers lp) (gq_max_non_quota_failovers q)
         then ws_reselect lib q it (note_retry (uf_kind error) lp) w
         else ws_give_up lib q it (gateway_failure_reason_from_upstream (uf_kind error)) w)"

definition ws_with_lease ::
  "library \<Rightarrow> gateway_request \<Rightarrow> iteration \<Rightarrow> responses_loop \<Rightarrow> selected \<Rightarrow> ws_state \<Rightarrow> ws_step \<times> ws_state" where
  "ws_with_lease lib q it lp s w =
    (let lease = fst s;
         so = fst w;
         app = begin_turn_once lib q it lp lease (it_others it 0 (snd w));
         lp = lp\<lparr>lp_recorded_input := True\<rparr>
     in case credential_for_account app (ls_account_id lease) of
          None \<Rightarrow>
            (let app = report_missing_credential it lease app in
             if lp_non_quota_failovers lp = 0
             then ws_reselect lib q it (lp\<lparr>lp_attempt := lp_attempt lp + 1,
                    lp_non_quota_failovers := lp_non_quota_failovers lp + 1\<rparr>) (so, app)
             else ws_give_up lib q it GUpstreamFailure (so, app))
        | Some credential \<Rightarrow>
            (let codex_protocol = is_codex_chatgpt_backend (cr_base_url credential);
                 plan = plan_of q lp lease app;
                 v = upstream_value_of lib q lp s plan codex_protocol app;
                 app = it_others it 1 app
             in case post_json lib (it_upstream it) credential ''responses'' v (gq_context q) True (ls_route_mode lease) of
                  Inr r \<Rightarrow>
                    (case upstream_stream_to_ws_response lib (it_readings it) r lease (gq_seed q) (gq_principal_id q)
                            (gq_model q) so (it_others it 3 app) of
                       Inr (so, Returns app) \<Rightarrow> (Ws_Over True, so, app)
                     | Inr (so, Panics app) \<Rightarrow> (Ws_Crashes, so, app)
                     | Inl kind \<Rightarrow> ws_hidden_failure lib q it lp s credential plan kind (so, app))
                | Inl error \<Rightarrow> ws_upstream_failure lib q it lp s credential plan error (so, app)))"

definition ws_iteration ::
  "library \<Rightarrow> gateway_request \<Rightarrow> iteration \<Rightarrow> responses_loop \<Rightarrow> ws_state \<Rightarrow> ws_step \<times> ws_state" where
  "ws_iteration lib q it lp w =
    (case lp_queued_same_lease lp of
       Some s \<Rightarrow> ws_with_lease lib q it (lp\<lparr>lp_queued_same_lease := None\<rparr>) s w
     | None \<Rightarrow>
         (case lp_selection lp of
            Some s \<Rightarrow> ws_with_lease lib q it (lp\<lparr>lp_selection := None\<rparr>) s w
          | None \<Rightarrow>
              (case send_ws_gateway_failure_response lib (rd_simple (it_readings it)) GUpstreamFailure (fst w) of
                 (accepted, so) \<Rightarrow> (Ws_Over accepted, so, snd w))))"

fun ws_iterations ::
  "library \<Rightarrow> gateway_request \<Rightarrow> iteration list \<Rightarrow> responses_loop \<Rightarrow> ws_state \<Rightarrow> ws_step \<times> ws_state" where
  "ws_iterations lib q [] lp w = (Ws_Again lp, w)"
| "ws_iterations lib q (it # its) lp w =
    (case ws_iteration lib q it lp w of
       (Ws_Again lp, w) \<Rightarrow> ws_iterations lib q its lp w
     | r \<Rightarrow> r)"

subsection \<open>A connection\<close>

text \<open>
  The request of a text message, for an authenticated connection. It streams, whatever it says, and
  does not run in the background.
\<close>

definition ws_payload :: "gateway_auth_context \<Rightarrow> responses_request \<Rightarrow> responses_request" where
  "ws_payload auth payload =
    (let p = apply_responses_policy payload (resolve_effective_model (gc_api_key auth) (rb_model payload))
           (resolve_effective_reasoning_for_responses (gc_api_key auth) payload)
     in p\<lparr>rb_stream := Some True, rb_extra := obj_remove ''background'' (rb_extra p)\<rparr>)"

definition ws_request ::
  "library \<Rightarrow> gateway_auth_context \<Rightarrow> headers \<Rightarrow> request_routing_scope \<Rightarrow> responses_request \<Rightarrow> app_state
     \<Rightarrow> gateway_request \<times> responses_loop" where
  "ws_request lib auth headers routing payload app =
    (let requested_model = rb_model payload;
         effort = resolve_effective_reasoning_for_responses (gc_api_key auth) payload;
         p = ws_payload auth payload;
         key = responses_cache_affinity_key (lb_render lib) (lb_sha256 lib) (lb_float lib)
           (tn_id (gc_tenant auth)) (cache_continuity_anchor routing) p;
         q = gateway_request_of auth routing headers ''/v1/responses'' requested_model (rb_model p) effort key True app
     in (q\<lparr>gq_seed := (gq_seed q)\<lparr>sd_method := ''WS''\<rparr>\<rparr>,
         \<lparr>lp_payload = p, lp_input_summary = summarize_value (lb_float lib) (rb_input p),
          lp_queued_same_lease = None, lp_selection = None, lp_recorded_input = False,
          lp_continuation_recovery = False, lp_transparent_compaction_attempted = False,
          lp_compacted_retry_active = False, lp_attempt = 0, lp_non_quota_failovers = 0\<rparr>))"

text \<open>What a message meets: the entry of the request and its iterations.\<close>

record ws_script =
  wt_entry :: entry
  wt_iterations :: "iteration list"

definition forward_responses_ws ::
  "library \<Rightarrow> ws_script \<Rightarrow> gateway_auth_context \<Rightarrow> headers \<Rightarrow> responses_request \<Rightarrow> ws_state \<Rightarrow> ws_step \<times> ws_state" where
  "forward_responses_ws lib script auth headers payload w =
    (case extract_ws_generate payload of
       (Inl error, _) \<Rightarrow>
         (case send_ws_failure_response lib None ''invalid_request_error'' error (fst w) of
            (accepted, so) \<Rightarrow> (Ws_Over accepted, so, snd w))
     | (Inr False, payload) \<Rightarrow>
         (case send_ws_empty_response lib (en_simple (wt_entry script)) (rb_model payload) (fst w) of
            (accepted, so) \<Rightarrow> (Ws_Over accepted, so, snd w))
     | (Inr True, payload) \<Rightarrow>
         (case resolve_request_scope (en_nonce (wt_entry script)) (en_clock (wt_entry script)) auth headers
                 (rb_model (ws_payload auth payload)) (snd w) of
            (Inl error, app) \<Rightarrow>
              (case send_ws_failure_response lib None ''invalid_request_error'' error (fst w) of
                 (accepted, so) \<Rightarrow> (Ws_Over accepted, so, app))
          | (Inr routing, app) \<Rightarrow>
              (case ws_request lib auth headers routing payload app of
                 (q, lp) \<Rightarrow>
                   (case resolve_ws_selection_or_wait lib (en_simple (wt_entry script)) (gq_selection q)
                           (en_rounds (wt_entry script)) (fst w) app of
                      (Ws_Waits, so, app) \<Rightarrow> (Ws_Waiting, so, app)
                    | (Ws_Refused, so, app) \<Rightarrow> (Ws_Over False, so, app)
                    | (Ws_Selected s, so, app) \<Rightarrow>
                        ws_iterations lib
                          (q\<lparr>gq_max_non_quota_failovers := non_quota_retry_budget (ap_runtime app) (gq_selection q)\<rparr>)
                          (wt_iterations script) (select_lp lp s) (so, app)))))"

datatype ws_incoming = In_Text str ws_script | In_Binary | In_Ping str | In_Pong | In_Close | In_Error

text \<open>\<open>True\<close>: the connection goes on after the message.\<close>

definition handle_ws_message ::
  "library \<Rightarrow> (str \<Rightarrow> str) \<Rightarrow> (json \<Rightarrow> str) \<Rightarrow> gateway_auth_context \<Rightarrow> headers \<Rightarrow> ws_incoming \<Rightarrow> ws_state
     \<Rightarrow> ws_step \<times> ws_state" where
  "handle_ws_message lib json_error decode_error auth headers m w =
    (case m of
       In_Text text script \<Rightarrow>
         (case parse_responses_ws_create lib json_error decode_error text of
            Inl error \<Rightarrow>
              (case send_ws_failure_response lib None ''invalid_request_error'' error (fst w) of
                 (accepted, so) \<Rightarrow> (Ws_Over accepted, so, snd w))
          | Inr payload \<Rightarrow> forward_responses_ws lib script auth headers payload w)
     | In_Binary \<Rightarrow>
         (case send_ws_failure_response lib None ''invalid_request_error''
                 ''binary websocket frames are not supported on /v1/responses'' (fst w) of
            (accepted, so) \<Rightarrow> (Ws_Over accepted, so, snd w))
     | In_Ping payload \<Rightarrow> (case ws_send (Ws_Pong payload) (fst w) of (accepted, so) \<Rightarrow> (Ws_Over accepted, so, snd w))
     | In_Pong \<Rightarrow> (Ws_Over True, w)
     | In_Close \<Rightarrow> (Ws_Over False, w)
     | In_Error \<Rightarrow> (Ws_Over False, w))"

text \<open>The connection ends at the first message that ends it; a message may leave it waiting.\<close>

fun handle_responses_ws ::
  "library \<Rightarrow> (str \<Rightarrow> str) \<Rightarrow> (json \<Rightarrow> str) \<Rightarrow> gateway_auth_context \<Rightarrow> headers \<Rightarrow> ws_incoming list \<Rightarrow> ws_state
     \<Rightarrow> ws_step \<times> ws_state" where
  "handle_responses_ws lib json_error decode_error auth headers [] w = (Ws_Over False, w)"
| "handle_responses_ws lib json_error decode_error auth headers (m # ms) w =
    (case handle_ws_message lib json_error decode_error auth headers m w of
       (Ws_Over True, w) \<Rightarrow> handle_responses_ws lib json_error decode_error auth headers ms w
     | r \<Rightarrow> r)"

end
