(* ===== verification/Stream_Laws.thy ===== *)
theory Stream_Laws
  imports Gateway_Ws Chat_Laws Examples
begin

text \<open>
  Streams of records: how chunks, records and the replies relate. What a stream delivers depends on the
  bytes that arrive and not on how they are cut into chunks, as long as no character and no CR LF is
  cut and a chunk arrives after the response has begun; the lemmas about the exceptions show what is
  lost or corrupted.
\<close>

subsection \<open>Records of a text\<close>

lemma take_sse_record_append:
  "take_sse_record a = Some (r, rest) \<Longrightarrow> take_sse_record (a @ b) = Some (r, rest @ b)"
  by (induction a arbitrary: r rest rule: take_sse_record.induct) (auto split: if_splits)

lemma drain_records_stop: "take_sse_record a = None \<Longrightarrow> drain_records a = ([], a)"
  by (simp add: drain_records.simps)

lemma drain_records_step: "take_sse_record a = Some (r, rest) \<Longrightarrow>
    drain_records a = (r # fst (drain_records rest), snd (drain_records rest))"
  by (subst drain_records.simps) (simp add: case_prod_unfold)

lemma drain_records_append:
  "drain_records (a @ b) = (fst (drain_records a) @ fst (drain_records (snd (drain_records a) @ b)),
     snd (drain_records (snd (drain_records a) @ b)))"
proof (induction a rule: drain_records.induct)
  case (1 a)
  show ?case
  proof (cases "take_sse_record a")
    case (Some p)
    obtain r rest where p: "p = (r, rest)" by (cases p)
    note t = Some [unfolded p]
    show ?thesis
      using 1 [OF t refl] by (simp add: drain_records_step [OF t] drain_records_step [OF take_sse_record_append [OF t]])
  qed (simp add: drain_records_stop)
qed

lemma drain_records_rest: "take_sse_record (snd (drain_records a)) = None"
proof (induction a rule: drain_records.induct)
  case (1 a)
  then show ?case
    by (cases "take_sse_record a") (auto simp: drain_records_stop drain_records_step)
qed

lemma record_bytes_append: "record_bytes r @ x = r @ [lf, lf] @ x"
  by (simp add: record_bytes_def)

lemma drain_records_concat: "concat (map record_bytes (fst (drain_records a))) @ snd (drain_records a) = a"
proof (induction a rule: drain_records.induct)
  case (1 a)
  show ?case
  proof (cases "take_sse_record a")
    case (Some p)
    obtain r rest where p: "p = (r, rest)" by (cases p)
    note t = Some [unfolded p]
    show ?thesis
      using 1 [OF t refl]
      by (subst (3) take_sse_record_split [OF t]) (simp add: drain_records_step [OF t] record_bytes_append)
  qed (simp add: drain_records_stop)
qed

text \<open>Draining text behind a rest, given with names.\<close>

lemma drain_records_from:
  assumes "drain_records a = (rs, rest)" and "drain_records (rest @ b) = (rs', rest')"
  shows "drain_records (a @ b) = (rs @ rs', rest')"
  using assms drain_records_append [of a b] by simp

subsection \<open>What arrives\<close>

fun arrived :: "stream_event list \<Rightarrow> str" where
  "arrived [] = []"
| "arrived (Arrives c # es) = c @ arrived es"
| "arrived (Beat # es) = arrived es"
| "arrived (Breaks # es) = arrived es"

text \<open>No transport error, and no chunk that decoding changes.\<close>

fun clean :: "stream_event list \<Rightarrow> bool" where
  "clean [] \<longleftrightarrow> True"
| "clean (Arrives c # es) \<longleftrightarrow> chunk_text c = c \<and> clean es"
| "clean (Beat # es) \<longleftrightarrow> clean es"
| "clean (Breaks # es) \<longleftrightarrow> False"

fun arrives_later :: "stream_event list \<Rightarrow> bool" where
  "arrives_later [] \<longleftrightarrow> False"
| "arrives_later (Arrives c # es) \<longleftrightarrow> True"
| "arrives_later (Beat # es) \<longleftrightarrow> arrives_later es"
| "arrives_later (Breaks # es) \<longleftrightarrow> False"

lemma from_utf8_lossy_Cons_ascii: "byte c < 128 \<Longrightarrow> from_utf8_lossy (c # s) = c # from_utf8_lossy s"
  by (subst from_utf8_lossy.simps) (simp add: utf8_width_def)

lemma from_utf8_lossy_Nil [simp]: "from_utf8_lossy [] = []"
  by (simp add: from_utf8_lossy.simps)

lemma from_utf8_lossy_ascii_append: "is_ascii a \<Longrightarrow> from_utf8_lossy (a @ b) = a @ from_utf8_lossy b"
  by (induction a) (simp_all add: from_utf8_lossy_Cons_ascii is_ascii_def)

lemma replace_crlf_id: "cr \<notin> set s \<Longrightarrow> replace_crlf s = s"
  by (induction s rule: replace_crlf.induct) auto

lemma ascii_chunk: "is_ascii c \<Longrightarrow> cr \<notin> set c \<Longrightarrow> chunk_text c = c"
  using from_utf8_lossy_ascii_append [of c "[]"] by (simp add: chunk_text_def replace_crlf_id)

subsection \<open>Collecting\<close>

abbreviation sound_record :: "(str \<Rightarrow> json option) \<Rightarrow> (f64 \<Rightarrow> str) \<Rightarrow> str \<Rightarrow> str \<Rightarrow> bool" where
  "sound_record parse sf expected_model r \<equiv> hidden_failure_kind_from_sse_record parse sf r expected_model = None"

lemma collect_records_append:
  "collect_records parse sf model (xs @ ys) m =
    (case collect_records parse sf model xs m of Inl kind \<Rightarrow> Inl kind | Inr m \<Rightarrow> collect_records parse sf model ys m)"
  by (induction xs arbitrary: m) (simp_all split: option.split)

lemma collect_records_sound:
  "list_all (sound_record parse sf model) rs \<Longrightarrow> collect_records parse sf model rs m = Inr (fold (capture_record parse) rs m)"
  by (induction rs arbitrary: m) simp_all

lemma collect_stream_clean:
  assumes "clean es" and "take_sse_record buffer = None"
  shows "collect_stream parse sf model es buffer m =
    (case collect_records parse sf model (fst (drain_records (buffer @ arrived es))) m of
       Inl kind \<Rightarrow> Inl kind | Inr m \<Rightarrow> Inr (snd (drain_records (buffer @ arrived es)), m))"
  using assms
proof (induction es arbitrary: buffer m rule: clean.induct)
  case (2 c es)
  note rest = drain_records_rest [of "buffer @ c"]
  show ?case
    using 2 rest drain_records_append [of "buffer @ c" "arrived es"]
    by (simp add: case_prod_unfold collect_records_append split: sum.split)
qed (simp_all add: drain_records_stop split: sum.split)

subsection \<open>Relaying\<close>

lemma relay_buffer_stop: "take_sse_record b = None \<Longrightarrow> relay_buffer parse sf model b ry = ([], None, b, ry)"
  by (simp add: relay_buffer.simps)

lemma relay_buffer_sound:
  assumes "list_all (sound_record parse sf model) (fst (drain_records buffer))"
  shows "relay_buffer parse sf model buffer ry =
    (map record_bytes (fst (drain_records buffer)), None, snd (drain_records buffer),
     fold (note_record parse) (fst (drain_records buffer)) ry)"
  using assms
proof (induction buffer arbitrary: ry rule: drain_records.induct)
  case (1 a)
  show ?case
  proof (cases "take_sse_record a")
    case (Some p)
    obtain r rest where p: "p = (r, rest)" by (cases p)
    note t = Some [unfolded p]
    show ?thesis
      using 1(1) [OF t refl] 1(2) by (subst relay_buffer.simps) (simp add: drain_records_step [OF t] t Let_def)
  qed (simp add: drain_records_stop relay_buffer_stop)
qed

text \<open>Bytes of a reply that carry something: not a heartbeat, and some visible character.\<close>

definition carries :: "str \<Rightarrow> bool" where
  "carries b \<longleftrightarrow> b \<noteq> heartbeat_bytes \<and> list_ex (\<lambda>c. 33 \<le> byte c \<and> byte c < 128) b"

lemma heartbeat_carries [simp]: "\<not> carries heartbeat_bytes"
  by (simp add: carries_def)

lemma relay_loop_sound:
  assumes "clean es" and "arrives_later es \<or> take_sse_record buffer = None"
    and "list_all (sound_record parse sf model) (fst (drain_records (buffer @ arrived es)))"
  shows "\<exists>out. relay_loop parse render sf simple model es buffer ry =
      (out, None, fold (note_record parse) (fst (drain_records (buffer @ arrived es))) ry)
    \<and> filter carries out = filter carries (map record_bytes (fst (drain_records (buffer @ arrived es))))"
  using assms
proof (induction es arbitrary: buffer ry rule: clean.induct)
  case (2 c es)
  let ?rest = "snd (drain_records (buffer @ c))"
  let ?ry = "fold (note_record parse) (fst (drain_records (buffer @ c))) ry"
  note a = drain_records_append [of "buffer @ c" "arrived es", unfolded append_assoc]
  have c: "chunk_text c = c" "clean es" using 2(2) by simp_all
  have ok: "list_all (sound_record parse sf model) (fst (drain_records (buffer @ c)))"
    "list_all (sound_record parse sf model) (fst (drain_records (?rest @ arrived es)))"
    using 2(4) by (simp_all add: a)
  obtain out where out: "relay_loop parse render sf simple model es ?rest ?ry
      = (out, None, fold (note_record parse) (fst (drain_records (?rest @ arrived es))) ?ry)"
    "filter carries out = filter carries (map record_bytes (fst (drain_records (?rest @ arrived es))))"
    using 2(1) [OF c(2) disjI2 [OF drain_records_rest] ok(2), of ?ry] by blast
  show ?case
  proof (intro exI conjI)
    show "relay_loop parse render sf simple model (Arrives c # es) buffer ry =
      (map record_bytes (fst (drain_records (buffer @ c))) @ out, None,
       fold (note_record parse) (fst (drain_records (buffer @ arrived (Arrives c # es)))) ry)"
      by (simp add: c(1) relay_buffer_sound [OF ok(1)] out(1) a)
    show "filter carries (map record_bytes (fst (drain_records (buffer @ c))) @ out) =
      filter carries (map record_bytes (fst (drain_records (buffer @ arrived (Arrives c # es)))))"
      using out(2) by (simp add: a)
  qed
next
  case (3 es)
  then obtain out where "relay_loop parse render sf simple model es buffer ry =
      (out, None, fold (note_record parse) (fst (drain_records (buffer @ arrived es))) ry)"
    "filter carries out = filter carries (map record_bytes (fst (drain_records (buffer @ arrived es))))"
    unfolding clean.simps arrived.simps arrives_later.simps by blast
  then show ?case by simp
qed (simp_all add: drain_records_stop)

subsection \<open>The preflight\<close>

lemma filter_kept: "(if trim r = [] then [] else [r]) @ filter (\<lambda>r. trim r \<noteq> []) rs = filter (\<lambda>r. trim r \<noteq> []) (r # rs)"
  by simp

text \<open>
  What the preflight holds back are the first records of the text, the blank ones left out; the rest is
  in the buffer it returns and in the events it leaves.
\<close>

lemma preflight_buffer_records:
  assumes "preflight_buffer parse sf model buffer = Inr (held, rest, begun)"
  shows "\<exists>rs. held = filter (\<lambda>r. trim r \<noteq> []) rs \<and> list_all (sound_record parse sf model) rs
    \<and> drain_records (buffer @ b) = (rs @ fst (drain_records (rest @ b)), snd (drain_records (rest @ b)))
    \<and> (\<not> begun \<longrightarrow> take_sse_record rest = None)"
  using assms
proof (induction buffer arbitrary: held rest begun rule: drain_records.induct)
  case (1 a)
  show ?case
  proof (cases "take_sse_record a")
    case None
    then have "held = [] \<and> rest = a \<and> \<not> begun" using 1(2) by (simp add: preflight_buffer.simps)
    then show ?thesis using None by (intro exI [of _ "[]"]) simp
  next
    case (Some p)
    obtain r a' where p: "p = (r, a')" by (cases p)
    note t = Some [unfolded p]
    note t' = take_sse_record_append [OF t, of b]
    have sound: "sound_record parse sf model r"
      using 1(2) by (auto simp: preflight_buffer.simps [of _ _ _ a] t split: option.splits)
    show ?thesis
    proof (cases "holds is_stream_release_event (sse_resolved_event_name parse r)")
      case True
      then have "held = filter (\<lambda>r. trim r \<noteq> []) [r] \<and> rest = a' \<and> begun"
        using 1(2) sound by (simp add: preflight_buffer.simps [of _ _ _ a] t Let_def split: if_splits)
      then show ?thesis using sound by (intro exI [of _ "[r]"]) (simp add: drain_records_step [OF t'])
    next
      case False
      then obtain held' where h: "preflight_buffer parse sf model a' = Inr (held', rest, begun)"
        "held = (if trim r = [] then [] else [r]) @ held'"
        using 1(2) sound by (auto simp: preflight_buffer.simps [of _ _ _ a] t Let_def split: sum.splits)
      obtain rs where "held' = filter (\<lambda>r. trim r \<noteq> []) rs" "list_all (sound_record parse sf model) rs"
        "drain_records (a' @ b) = (rs @ fst (drain_records (rest @ b)), snd (drain_records (rest @ b)))"
        "\<not> begun \<longrightarrow> take_sse_record rest = None"
        using 1(1) [OF t refl h(1)] by blast
      then show ?thesis using sound
        by (intro exI [of _ "r # rs"]) (simp add: drain_records_step [OF t'] h(2))
    qed
  qed
qed

lemma preflight_buffer_sound:
  "list_all (sound_record parse sf model) (fst (drain_records buffer)) \<Longrightarrow> \<exists>r. preflight_buffer parse sf model buffer = Inr r"
proof (induction buffer rule: drain_records.induct)
  case (1 a)
  show ?case
  proof (cases "take_sse_record a")
    case (Some p)
    obtain r a' where p: "p = (r, a')" by (cases p)
    note t = Some [unfolded p]
    then obtain x where "preflight_buffer parse sf model a' = Inr x"
      using 1(1) [OF t refl] 1(2) by (auto simp: drain_records_step [OF t])
    then show ?thesis
      using 1(2) by (cases x) (auto simp: preflight_buffer.simps [of _ _ _ a] t Let_def drain_records_step [OF t])
  qed (auto simp: preflight_buffer.simps)
qed

lemma preflight_stream_records:
  assumes "preflight_response_stream parse sf model es buffer = Inr (later, held, rest)" and "clean es"
  shows "\<exists>rs. held = filter (\<lambda>r. trim r \<noteq> []) rs \<and> list_all (sound_record parse sf model) rs \<and> clean later
    \<and> drain_records (buffer @ arrived es) =
        (rs @ fst (drain_records (rest @ arrived later)), snd (drain_records (rest @ arrived later)))"
  using assms
proof (induction es arbitrary: buffer held rule: clean.induct)
  case (2 c es)
  obtain held1 rest1 begun where p: "preflight_buffer parse sf model (buffer @ c) = Inr (held1, rest1, begun)"
    using 2(2,3) by (auto split: sum.splits)
  obtain rs where rs: "held1 = filter (\<lambda>r. trim r \<noteq> []) rs" "list_all (sound_record parse sf model) rs"
    "drain_records (buffer @ c @ arrived es) =
       (rs @ fst (drain_records (rest1 @ arrived es)), snd (drain_records (rest1 @ arrived es)))"
    using preflight_buffer_records [OF p, of "arrived es"] by auto
  show ?case
  proof (cases begun)
    case True
    then show ?thesis using 2(2,3) rs by (intro exI [of _ rs]) (simp add: p)
  next
    case False
    then obtain held2 where h: "preflight_response_stream parse sf model es rest1 = Inr (later, held2, rest)"
      "held = held1 @ held2"
      using 2(2,3) by (auto simp: p split: sum.splits)
    then obtain rs' where "held2 = filter (\<lambda>r. trim r \<noteq> []) rs'" "list_all (sound_record parse sf model) rs'" "clean later"
      "drain_records (rest1 @ arrived es) =
         (rs' @ fst (drain_records (rest @ arrived later)), snd (drain_records (rest @ arrived later)))"
      using 2(1,3) by fastforce
    then show ?thesis using rs h(2) by (intro exI [of _ "rs @ rs'"]) simp
  qed
next
  case 1
  then show ?case by (intro exI [of _ "[]"]) simp
qed auto

subsection \<open>Blank records\<close>

lemma ws_len_stop: "33 \<le> byte c \<Longrightarrow> byte c < 128 \<Longrightarrow> ws_len (x @ c # b) \<le> length x"
  by (cases x rule: ws_len.cases; cases b rule: ws_len.cases)
    (auto simp: ws2_def ws3_def is_ascii_ws_def)

lemma strip_start_stop:
  assumes "33 \<le> byte c" and "byte c < 128"
  shows "\<exists>y. strip_with ws_len (x @ c # b) = y @ c # b"
proof (induction x rule: length_induct)
  case (1 x)
  let ?n = "ws_len (x @ c # b)"
  have n: "?n \<le> length x" using assms by (rule ws_len_stop)
  show ?case
  proof (cases "?n = 0")
    case True
    then show ?thesis by (simp add: strip_with_fix)
  next
    case False
    with n have "length (drop ?n x) < length x" by simp
    with 1 obtain y where "strip_with ws_len (drop ?n x @ c # b) = y @ c # b" by blast
    with False n show ?thesis by (simp add: strip_with.simps [of _ "x @ c # b"])
  qed
qed

lemma visible_not_blank: "c \<in> set s \<Longrightarrow> 33 \<le> byte c \<Longrightarrow> byte c < 128 \<Longrightarrow> trim s \<noteq> []"
proof -
  assume c: "c \<in> set s" "33 \<le> byte c" "byte c < 128"
  then obtain x b where "s = x @ c # b" by (auto simp: in_set_conv_decomp)
  then obtain y where y: "trim_start s = y @ c # b" using strip_start_stop [OF c(2,3)] by (auto simp: trim_start_def)
  then obtain z where "strip_with ws_len_rev (rev b @ c # rev y) = z @ c # rev y" using strip_stop [OF c(2,3)] by blast
  then show ?thesis by (simp add: trim_def trim_end_def y)
qed

lemma set_lines_acc: "l \<in> set (lines_acc cur s) \<Longrightarrow> set l \<subseteq> set cur \<union> set s"
proof (induction cur s arbitrary: l rule: lines_acc.induct)
  case (2 cur c cs)
  have "set (strip_cr (rev cur)) \<subseteq> set cur" by (auto simp: strip_cr_def dest: in_set_butlastD list.set_sel(2) split: if_splits)
  with 2 show ?case by (fastforce split: if_splits)
qed (auto split: if_splits)

lemma sse_lines_skip:
  "\<forall>l \<in> set ls. strip_prefix l ''event:'' = None \<and> strip_prefix l ''data:'' = None \<Longrightarrow> fold sse_line ls acc = acc"
  by (induction ls) (simp_all add: sse_line_def)

lemma blank_record:
  assumes "trim r = []"
  shows "parse_sse_record r = None"
proof -
  have "strip_prefix l p = None" if l: "l \<in> set (str_lines r)" and p: "p = ''event:'' \<or> p = ''data:''" for l p
  proof (rule ccontr)
    assume "strip_prefix l p \<noteq> None"
    then obtain t where "l = p @ t" using strip_prefix_iff by fastforce
    then have "CHR '':'' \<in> set l" using p by auto
    then have "CHR '':'' \<in> set r" using set_lines_acc l unfolding str_lines_def by fastforce
    then show False using visible_not_blank [of "CHR '':''" r] assms by (simp add: byte_def)
  qed
  then have "fold sse_line (str_lines r) ([], []) = ([], [])" by (intro sse_lines_skip) simp
  then show ?thesis by (simp add: parse_sse_record_def)
qed

lemma blank_noted: "trim r = [] \<Longrightarrow> note_record parse r ry = ry"
  by (simp add: note_record_def note_value_def response_delta_text_def response_value_from_sse_record_def blank_record str_or_def)

lemma blank_sound: "trim r = [] \<Longrightarrow> sound_record parse sf model r"
  by (simp add: hidden_failure_kind_from_sse_record_def response_value_from_sse_record_def blank_record)

lemma blanks_noted: "fold (note_record parse) (filter (\<lambda>r. trim r \<noteq> []) rs) ry = fold (note_record parse) rs ry"
  by (induction rs arbitrary: ry) (auto simp: blank_noted)

lemma blank_carries: "trim r = [] \<Longrightarrow> \<not> carries (record_bytes r)"
  using visible_not_blank [of _ r] by (auto simp: carries_def record_bytes_def list_ex_iff byte_def)

lemma filter_blank_carries:
  "filter carries (map record_bytes (filter (\<lambda>r. trim r \<noteq> []) rs)) = filter carries (map record_bytes rs)"
  by (induction rs) (auto simp: blank_carries)

subsection \<open>Streams delivered\<close>

lemma relayed_in_full:
  assumes "clean (tr_body r)" and "hidden_failure_kind_from_headers (tr_headers r) model = None"
    and "drain_records (arrived (tr_body r)) = (records, tail)"
    and "list_all (\<lambda>record. hidden_failure_kind_from_sse_record parse sf record model = None) records"
    and "preflight_response_stream parse sf model (tr_body r) [] = Inr (later, held, buffer)"
    and "arrives_later later \<or> take_sse_record buffer = None"
  shows "\<exists>out. upstream_stream_response parse render sf rd r lease seed principal_id model app =
      Inr (copy_upstream_headers (tr_headers r), out,
        finish_relay rd seed lease principal_id (tr_status r) None
          (fold (note_record parse) records (new_relay (tr_headers r))) app)
    \<and> filter carries out = filter carries (map record_bytes records)"
proof -
  obtain rs where rs: "held = filter (\<lambda>r. trim r \<noteq> []) rs" "clean later"
    "drain_records (arrived (tr_body r)) =
       (rs @ fst (drain_records (buffer @ arrived later)), snd (drain_records (buffer @ arrived later)))"
    using preflight_stream_records [OF assms(5,1)] by auto
  have "records = rs @ fst (drain_records (buffer @ arrived later))" using assms(3) rs(3) by simp
  with assms(4) have sound: "list_all (sound_record parse sf model) (fst (drain_records (buffer @ arrived later)))"
    by (simp only: list_all_append)
  let ?ry = "fold (note_record parse) held (new_relay (tr_headers r))"
  obtain out where out: "relay_loop parse render sf (rd_simple rd) model later buffer ?ry =
      (out, None, fold (note_record parse) (fst (drain_records (buffer @ arrived later))) ?ry)"
    "filter carries out = filter carries (map record_bytes (fst (drain_records (buffer @ arrived later))))"
    using relay_loop_sound [OF rs(2) assms(6) sound, of render "rd_simple rd" ?ry] by blast
  have noted: "fold (note_record parse) (fst (drain_records (buffer @ arrived later))) ?ry =
      fold (note_record parse) records (new_relay (tr_headers r))"
    using assms(3) rs(1,3) by (auto simp: blanks_noted)
  show ?thesis
  proof (intro exI conjI)
    show "upstream_stream_response parse render sf rd r lease seed principal_id model app =
      Inr (copy_upstream_headers (tr_headers r), map record_bytes held @ out,
        finish_relay rd seed lease principal_id (tr_status r) None
          (fold (note_record parse) records (new_relay (tr_headers r))) app)"
      by (simp add: upstream_stream_response_def Let_def assms(2,5) out(1) noted)
    show "filter carries (map record_bytes held @ out) = filter carries (map record_bytes records)"
      using assms(3) rs(1,3) out(2) by (auto simp: filter_blank_carries)
  qed
qed

text \<open>C7 (stream_relays_every_record).
  A stream whose chunks arrive clean (no transport error, no chunk that cuts a character or a CR LF) and
  whose records show no hidden failure is relayed in full: the reply holds every record of the text in
  order, whatever the chunks and however many heartbeats come between, and what is recorded (usage,
  model, summary, response id and output items, a success of the route) is read from all of them. The
  exception is in the hypotheses: a chunk must still arrive after the one that shows that the response
  has begun, or that one must end with its record.\<close>

theorem stream_relays_every_record:
  assumes "clean (tr_body r)" and "hidden_failure_kind_from_headers (tr_headers r) model = None"
    and "drain_records (arrived (tr_body r)) = (records, tail)"
    and "list_all (\<lambda>record. hidden_failure_kind_from_sse_record parse sf record model = None) records"
    and "preflight_response_stream parse sf model (tr_body r) [] = Inr (later, held, buffer)"
    and "arrives_later later \<or> take_sse_record buffer = None"
  shows "\<exists>out. upstream_stream_response parse render sf rd r lease seed principal_id model app =
      Inr (copy_upstream_headers (tr_headers r), out,
        finish_relay rd seed lease principal_id (tr_status r) None
          (fold (note_record parse) records (new_relay (tr_headers r))) app)
    \<and> filter carries out = filter carries (map record_bytes records)"
  using assms by (rule relayed_in_full)

text \<open>C18 (last_chunk_lost).
  Let the chunks of a stream be clean and neither its headers nor what the preflight reads be a failure.
  When no chunk arrives after the one that shows that the response has begun - a short response often is
  a single chunk - every record behind that one is lost: the text holds the records \<open>first\<close> of the
  preflight and then the \<open>lost\<close> ones, the reply ends with the first ones (and heartbeats), and the
  stream counts as a success of which only those are recorded.\<close>

theorem last_chunk_lost:
  assumes "clean (tr_body r)" and "hidden_failure_kind_from_headers (tr_headers r) model = None"
    and "preflight_response_stream parse sf model (tr_body r) [] = Inr (replicate n Beat, held, buffer)"
    and "drain_records buffer = (lost, tail)"
  shows "\<exists>first. drain_records (arrived (tr_body r)) = (first @ lost, tail)
    \<and> held = filter (\<lambda>record. trim record \<noteq> []) first
    \<and> upstream_stream_response parse render sf rd r lease seed principal_id model app =
        Inr (copy_upstream_headers (tr_headers r), map record_bytes held @ replicate n heartbeat_bytes,
          finish_relay rd seed lease principal_id (tr_status r) None
            (fold (note_record parse) first (new_relay (tr_headers r))) app)"
proof -
  have a: "arrived (replicate n Beat) = []" by (induction n) simp_all
  obtain first where f: "held = filter (\<lambda>r. trim r \<noteq> []) first" "drain_records (arrived (tr_body r)) = (first @ lost, tail)"
    using preflight_stream_records [OF assms(3,1)] assms(4) by (auto simp: a)
  have "relay_loop parse render sf simple model (replicate n Beat) buffer ry = (replicate n heartbeat_bytes, None, ry)"
    for simple ry by (induction n) simp_all
  with f show ?thesis
    by (intro exI [of _ first]) (simp add: upstream_stream_response_def Let_def assms(2,3) blanks_noted)
qed

subsection \<open>Streams collected\<close>

lemma collect_clean:
  assumes "clean (tr_body r)"
  shows "collect_completed_response_from_stream parse sf r model =
    (case hidden_failure_kind_from_headers (tr_headers r) model of
       Some kind \<Rightarrow> Inl kind
     | None \<Rightarrow>
         (case drain_records (arrived (tr_body r)) of (records, tail) \<Rightarrow>
            (case collect_records parse sf model (records @ (if trim tail = [] then [] else [trim tail])) no_metadata of
               Inl kind \<Rightarrow> Inl kind
             | Inr m \<Rightarrow> (case finalize_stream_response m of Some v \<Rightarrow> Inr v | None \<Rightarrow> Inl KGeneric))))"
proof -
  have "collect_stream parse sf model (tr_body r) [] no_metadata =
    (case collect_records parse sf model (fst (drain_records (arrived (tr_body r)))) no_metadata of
       Inl kind \<Rightarrow> Inl kind | Inr m \<Rightarrow> Inr (snd (drain_records (arrived (tr_body r))), m))"
    by (simp add: collect_stream_clean [OF assms, of "[]", unfolded append_Nil])
  then show ?thesis
    by (simp add: collect_completed_response_from_stream_def case_prod_unfold collect_records_append
        split: option.split sum.split)
qed

lemma note_record_metadata: "ry_metadata (note_record parse r ry) = capture_record parse r (ry_metadata ry)"
  by (simp add: note_record_def note_value_def capture_record_def Let_def split: option.split)

lemma notes_metadata: "ry_metadata (fold (note_record parse) rs ry) = fold (capture_record parse) rs (ry_metadata ry)"
  by (induction rs arbitrary: ry) (simp_all add: note_record_metadata)

text \<open>C21 (streaming_agrees_with_collecting).
  Two streams with the same headers and the same text, however cut into clean chunks, are collected to
  the same response. When the text ends with its last record, and neither the headers nor a record show
  a hidden failure, then what a client that wants one body gets of either is the response that the relay
  of the other has read when it ends, whose id and output items are recorded; for the relay, that a
  chunk arrives after the one that shows that the response has begun, or that one ends with its record
  (else it loses records: \<open>last_chunk_lost\<close>).\<close>

theorem streaming_agrees_with_collecting:
  assumes "clean (tr_body r)" and "clean (tr_body r')" and "arrived (tr_body r') = arrived (tr_body r)"
    and "tr_headers r' = tr_headers r"
  shows "collect_completed_response_from_stream parse sf r' model = collect_completed_response_from_stream parse sf r model
    \<and> (\<forall>records tail later held buffer.
        hidden_failure_kind_from_headers (tr_headers r) model = None
      \<longrightarrow> drain_records (arrived (tr_body r)) = (records, tail) \<longrightarrow> trim tail = []
      \<longrightarrow> list_all (\<lambda>record. hidden_failure_kind_from_sse_record parse sf record model = None) records
      \<longrightarrow> preflight_response_stream parse sf model (tr_body r) [] = Inr (later, held, buffer)
      \<longrightarrow> arrives_later later \<or> take_sse_record buffer = None
      \<longrightarrow> (\<exists>out ry. upstream_stream_response parse render sf rd r lease seed principal_id model app =
            Inr (copy_upstream_headers (tr_headers r), out, finish_relay rd seed lease principal_id (tr_status r) None ry app)
          \<and> collect_completed_response_from_stream parse sf r' model =
              (case finalize_stream_response (ry_metadata ry) of Some v \<Rightarrow> Inr v | None \<Rightarrow> Inl KGeneric)))"
proof (intro conjI allI impI)
  show same: "collect_completed_response_from_stream parse sf r' model = collect_completed_response_from_stream parse sf r model"
    by (simp only: collect_clean [OF assms(1)] collect_clean [OF assms(2)] assms(3,4))
  fix records tail later held buffer
  assume h: "hidden_failure_kind_from_headers (tr_headers r) model = None"
      "drain_records (arrived (tr_body r)) = (records, tail)" "trim tail = []"
      "list_all (\<lambda>record. hidden_failure_kind_from_sse_record parse sf record model = None) records"
    and p: "preflight_response_stream parse sf model (tr_body r) [] = Inr (later, held, buffer)"
      "arrives_later later \<or> take_sse_record buffer = None"
  let ?ry = "fold (note_record parse) records (new_relay (tr_headers r))"
  have "collect_completed_response_from_stream parse sf r' model =
      (case finalize_stream_response (ry_metadata ?ry) of Some v \<Rightarrow> Inr v | None \<Rightarrow> Inl KGeneric)"
    by (simp add: collect_clean assms h notes_metadata collect_records_sound [OF h(4)] new_relay_def)
  moreover obtain out where "upstream_stream_response parse render sf rd r lease seed principal_id model app =
      Inr (copy_upstream_headers (tr_headers r), out, finish_relay rd seed lease principal_id (tr_status r) None ?ry app)"
    using relayed_in_full [OF assms(1) h(1,2,4) p] by blast
  ultimately show "\<exists>out ry. upstream_stream_response parse render sf rd r lease seed principal_id model app =
            Inr (copy_upstream_headers (tr_headers r), out, finish_relay rd seed lease principal_id (tr_status r) None ry app)
          \<and> collect_completed_response_from_stream parse sf r' model =
              (case finalize_stream_response (ry_metadata ry) of Some v \<Rightarrow> Inr v | None \<Rightarrow> Inl KGeneric)" by blast
qed

subsection \<open>Characters that a chunk cuts\<close>

lemma utf8_pair:
  assumes "0xC2 \<le> byte a" and "byte a \<le> 0xDF" and "is_cont b"
  shows "from_utf8_lossy [a] = replacement" and "from_utf8_lossy (b # y) = replacement @ from_utf8_lossy y"
    and "from_utf8_lossy (a # b # y) = a # b # from_utf8_lossy y"
proof -
  have b: "0x80 \<le> byte b" "byte b \<le> 0xBF" using assms(3) by (auto simp: is_cont_def)
  have w: "utf8_width (byte a) = 2" "utf8_width (byte b) = 0" using assms(1,2) b by (simp_all add: utf8_width_def)
  have s: "second_ok (byte a) (byte b)" using assms(1,2) b by (simp add: second_ok_def)
  show "from_utf8_lossy [a] = replacement" by (subst from_utf8_lossy.simps) (simp add: w)
  show "from_utf8_lossy (b # y) = replacement @ from_utf8_lossy y" by (subst from_utf8_lossy.simps) (simp add: w)
  show "from_utf8_lossy (a # b # y) = a # b # from_utf8_lossy y" by (subst from_utf8_lossy.simps) (simp add: w s)
qed

lemma take_sse_record_line: "lf \<notin> set z \<Longrightarrow> take_sse_record (z @ [lf, lf]) = Some (z, [])"
proof (induction z)
  case (Cons c z)
  then show ?case by (cases z) auto
qed simp

lemma take_sse_record_no_lf: "lf \<notin> set z \<Longrightarrow> take_sse_record z = None"
  by (induction z rule: take_sse_record.induct) auto

lemma relay_one_record:
  assumes "lf \<notin> set z" shows "fst (relay_buffer parse sf model (z @ [lf, lf]) ry) = [record_bytes z]"
  by (subst relay_buffer.simps)
    (simp add: take_sse_record_line [OF assms] Let_def relay_buffer_stop split: option.split)

lemma relay_single:
  "fst (relay_loop parse render sf simple model [Arrives c] buffer ry) =
     fst (relay_buffer parse sf model (buffer @ chunk_text c) ry)"
  by (simp add: case_prod_unfold split: option.split)

lemma relay_loop_wait:
  "take_sse_record (buffer @ chunk_text c) = None \<Longrightarrow> relay_loop parse render sf simple model (Arrives c # es) buffer ry =
     relay_loop parse render sf simple model es (buffer @ chunk_text c) ry"
  by (cases "relay_loop parse render sf simple model es (buffer @ chunk_text c) ry") (simp add: relay_buffer_stop)

text \<open>Fact (split_character_corrupts).
  Each chunk is decoded by itself: a record with a two-byte character reaches the client as it is when it
  arrives in one chunk; when the chunk boundary falls inside the character, both halves are replaced by
  U+FFFD and the client gets a different text.\<close>

theorem split_character_corrupts:
  assumes "0xC2 \<le> byte a" and "byte a \<le> 0xDF" and "is_cont b" and "is_ascii x" and "is_ascii y"
    and "cr \<notin> set (x @ y)" and "lf \<notin> set (x @ y)"
  shows "fst (relay_loop parse render sf simple model [Arrives (x @ [a, b] @ y @ [lf, lf])] [] ry) =
      [record_bytes (x @ [a, b] @ y)]
    \<and> fst (relay_loop parse render sf simple model [Arrives (x @ [a]), Arrives ([b] @ y @ [lf, lf])] [] ry) =
      [record_bytes (x @ replacement @ replacement @ y)]"
proof -
  note p = utf8_pair [OF assms(1-3)]
  have cont: "0x80 \<le> byte b" using assms(3) by (simp add: is_cont_def)
  have ascii: "is_ascii (y @ [lf, lf])" using assms(5) by (auto simp: is_ascii_def byte_def)
  have ne: "a \<noteq> cr" "a \<noteq> lf" "b \<noteq> cr" "b \<noteq> lf" using assms(1) cont by (auto simp: byte_def)
  have r: "cr \<notin> set replacement" "lf \<notin> set replacement" by code_simp+
  have y: "from_utf8_lossy (y @ [lf, lf]) = y @ [lf, lf]"
    using from_utf8_lossy_ascii_append [OF ascii, of "[]"] by simp
  have c1: "chunk_text (x @ [a, b] @ y @ [lf, lf]) = (x @ [a, b] @ y) @ [lf, lf]"
    using assms(6) ne by (simp add: chunk_text_def from_utf8_lossy_ascii_append [OF assms(4)] p y replace_crlf_id)
  have c2: "chunk_text (x @ [a]) = x @ replacement"
    using assms(6) r by (simp add: chunk_text_def from_utf8_lossy_ascii_append [OF assms(4)] p replace_crlf_id)
  have c3: "chunk_text ([b] @ y @ [lf, lf]) = replacement @ y @ [lf, lf]"
    using assms(6) r by (simp add: chunk_text_def p y replace_crlf_id)
  have z: "lf \<notin> set (x @ [a, b] @ y)" "lf \<notin> set (x @ replacement)" "lf \<notin> set (x @ replacement @ replacement @ y)"
    using assms(7) ne r by auto
  have "relay_loop parse render sf simple model [Arrives (x @ [a]), Arrives ([b] @ y @ [lf, lf])] [] ry =
      relay_loop parse render sf simple model [Arrives ([b] @ y @ [lf, lf])] (x @ replacement) ry"
    by (subst relay_loop_wait) (simp_all only: c2 append_Nil take_sse_record_no_lf [OF z(2)])
  then show ?thesis
    unfolding relay_single c1 c3 append_Nil 
    using relay_one_record [OF z(1)] relay_one_record [OF z(3)] by (simp only: relay_single c3 append_assoc)
qed

subsection \<open>Chat streams\<close>

lemma chat_record_ok: "\<exists>n. step_ok n (snd cw) (fst (chat_record parse sf r cw), snd (snd (chat_record parse sf r cw)))"
  using translate_ok [of parse r "snd cw" sf] by (auto simp: chat_record_def case_prod_unfold intro: exI [of _ 1] exI [of _ 0])

lemma chat_records_ok: "\<exists>n. step_ok n (snd cw) (fst (chat_records parse sf rs cw), snd (snd (chat_records parse sf rs cw)))"
proof (induction rs arbitrary: cw)
  case (Cons r rs)
  obtain m where "step_ok m (snd cw) (fst (chat_record parse sf r cw), snd (snd (chat_record parse sf r cw)))"
    using chat_record_ok by blast
  with Cons [of "snd (chat_record parse sf r cw)"] step_ok_trans show ?case
    by (fastforce simp: case_prod_unfold)
qed (use step_ok_refl in auto)

lemma chat_failure_ok:
  "(\<exists>n. step_ok n (snd cw) (fst (chat_failure kind cw), snd (snd (chat_failure kind cw))))
   \<and> ad_finished (snd (snd (chat_failure kind cw)))"
  using gateway_failure_ok [of "snd cw" kind] step_ok_refl [of "snd cw"]
  by (auto simp: chat_failure_def case_prod_unfold step_ok_def)

text \<open>Steps of the relay: the events of a well-formed stream; after a failure the adapter is finished.\<close>

definition chat_steps ::
  "chat_relay \<Rightarrow> chat_event list \<Rightarrow> upstream_failure_kind option \<Rightarrow> chat_relay \<Rightarrow> bool" where
  "chat_steps cw out failure cw' \<longleftrightarrow>
     (\<exists>n. step_ok n (snd cw) (out, snd cw')) \<and> (failure \<noteq> None \<longrightarrow> ad_finished (snd cw'))"

lemma chat_steps_then:
  "\<exists>n. step_ok n (snd cw) (out, snd cw1) \<Longrightarrow> chat_steps cw1 outs failure cw2 \<Longrightarrow> chat_steps cw (out @ outs) failure cw2"
  using step_ok_trans [of _ "snd cw" "(out, snd cw1)" _ "(outs, snd cw2)"] by (fastforce simp: chat_steps_def)

lemma chat_buffer_ok:
  "chat_buffer parse sf model buffer cw = (out, failure, rest, cw') \<Longrightarrow> chat_steps cw out failure cw'"
proof (induction buffer arbitrary: cw out rule: drain_records.induct)
  case (1 a)
  show ?case
  proof (cases "take_sse_record a")
    case None
    then show ?thesis using 1(2) step_ok_refl by (auto simp: chat_buffer.simps [of _ _ _ a] chat_steps_def)
  next
    case (Some p)
    obtain r a' where p: "p = (r, a')" by (cases p)
    note t = Some [unfolded p]
    obtain o1 c1 where c: "chat_record parse sf r cw = (o1, c1)" by (meson surj_pair)
    have s1: "\<exists>n. step_ok n (snd cw) (o1, snd c1)" using chat_record_ok [of cw parse sf r] by (simp add: c)
    show ?thesis
    proof (cases "hidden_failure_kind_from_sse_record parse sf r model")
      case None
      obtain o2 where o2: "chat_buffer parse sf model a' c1 = (o2, failure, rest, cw')" "out = o1 @ o2"
        using 1(2) by (auto simp: chat_buffer.simps [of _ _ _ a] t c None split: prod.splits)
      show ?thesis unfolding o2(2) by (rule chat_steps_then [OF s1 1(1) [OF t refl o2(1)]])
    next
      case (Some kind)
      then have "out = o1 @ fst (chat_failure kind c1)" "cw' = snd (chat_failure kind c1)" "failure = Some kind"
        using 1(2) by (auto simp: chat_buffer.simps [of _ _ _ a] t c case_prod_unfold)
      then show ?thesis
        using chat_steps_then [OF s1, of "fst (chat_failure kind c1)" failure cw'] chat_failure_ok [of c1 kind]
        by (simp add: chat_steps_def)
    qed
  qed
qed

lemma chat_loop_ok:
  "chat_loop parse sf model es buffer cw = (out, failure, cw') \<Longrightarrow> chat_steps cw out failure cw'"
proof (induction es arbitrary: buffer cw out rule: arrived.induct)
  case 1
  then show ?case using step_ok_refl by (auto simp: chat_steps_def)
next
  case (2 c es)
  obtain o1 f1 b1 c1 where b: "chat_buffer parse sf model (buffer @ chunk_text c) cw = (o1, f1, b1, c1)"
    by (metis prod_cases4)
  note s1 = chat_buffer_ok [OF b]
  show ?case
  proof (cases f1)
    case None
    obtain o2 where o2: "chat_loop parse sf model es b1 c1 = (o2, failure, cw')" "out = o1 @ o2"
      using 2(2) by (auto simp: b None split: prod.splits)
    show ?thesis
      unfolding o2(2) by (rule chat_steps_then [OF _ 2(1) [OF o2(1)]]) (use s1 in \<open>simp add: chat_steps_def\<close>)
  next
    case (Some kind)
    then show ?thesis using 2(2) s1 by (simp add: b)
  qed
next
  case 4
  then show ?case using gateway_failure_ok [of "snd cw" KGeneric]
    by (auto simp: chat_steps_def step_ok_def case_prod_unfold)
qed simp

text \<open>C22 (chat_reply_terminated).
  A streamed chat reply always ends properly, whatever the upstream sends, however it is cut into chunks
  and wherever the transport breaks: it holds at least one [DONE], and the assistant's role comes at most
  once and before the first content or tool chunk.\<close>

theorem chat_reply_terminated:
  assumes "upstream_responses_stream_to_chat_response parse sf rd created r lease seed principal_id model guard app
    = Inr (headers, events, outcome)"
  shows "1 \<le> count_list events Done \<and> role_run events False \<noteq> None"
proof -
  let ?cw = "(new_relay (tr_headers r), new_adapter (rd_simple rd) model created)"
  obtain upstream records buffer o1 c1 o2 failure ry s where
    r: "chat_records parse sf records ?cw = (o1, c1)" and
    l: "chat_loop parse sf model upstream buffer c1 = (o2, failure, (ry, s))" and
    e: "events = o1 @ o2 @ chat_closing failure s"
    using assms
    by (auto simp: upstream_responses_stream_to_chat_response_def Let_def split: option.splits sum.splits prod.splits)
  have "chat_steps ?cw (o1 @ o2) failure (ry, s)"
    using chat_steps_then [OF _ chat_loop_ok [OF l]] chat_records_ok [of ?cw parse sf records] by (simp add: r)
  then obtain n where n: "step_ok n (new_adapter (rd_simple rd) model created) (o1 @ o2, s)"
    "failure \<noteq> None \<longrightarrow> ad_finished s" by (auto simp: chat_steps_def)
  then have "role_run (o1 @ o2) False = Some (ad_emitted_role s)" "count_list (o1 @ o2) Done = n"
    "ad_finished s \<longleftrightarrow> 0 < n" by (simp_all add: step_ok_def)
  then show ?thesis using n(2)
    by (auto simp: e chat_closing_def role_run_append simp flip: append_assoc)
qed

lemma translate_records_append_eq:
  "translate_records parse sf (a @ b) s = (fst (translate_records parse sf a s) @ fst (translate_records parse sf b
     (snd (translate_records parse sf a s))), snd (translate_records parse sf b (snd (translate_records parse sf a s))))"
  by (simp add: translate_records_append Let_def case_prod_unfold)

lemma translate_records_Cons_eq:
  "translate_records parse sf (r # rs) s = (fst (translate_response_record_to_chat_events parse sf r s)
     @ fst (translate_records parse sf rs (snd (translate_response_record_to_chat_events parse sf r s))),
     snd (translate_records parse sf rs (snd (translate_response_record_to_chat_events parse sf r s))))"
  by (simp add: Let_def case_prod_unfold)

lemma chat_buffer_sound:
  assumes "list_all (sound_record parse sf model) (fst (drain_records buffer))"
  shows "chat_buffer parse sf model buffer (ry, s) =
    (fst (translate_records parse sf (fst (drain_records buffer)) s), None, snd (drain_records buffer),
     (fold (note_value parse) (fst (drain_records buffer)) ry, snd (translate_records parse sf (fst (drain_records buffer)) s)))"
  using assms
proof (induction buffer arbitrary: ry s rule: drain_records.induct)
  case (1 a)
  show ?case
  proof (cases "take_sse_record a")
    case None
    then show ?thesis by (simp add: drain_records_stop chat_buffer.simps [of _ _ _ a])
  next
    case (Some p)
    obtain r rest where p: "p = (r, rest)" by (cases p)
    note t = Some [unfolded p]
    show ?thesis
      using 1(1) [OF t refl] 1(2)
      by (simp add: chat_buffer.simps [of _ _ _ a] drain_records_step [OF t] t chat_record_def case_prod_unfold Let_def)
  qed
qed

lemma chat_loop_sound:
  assumes "clean es" and "arrives_later es \<or> take_sse_record buffer = None"
    and "list_all (sound_record parse sf model) (fst (drain_records (buffer @ arrived es)))"
  shows "chat_loop parse sf model es buffer (ry, s) =
    (fst (translate_records parse sf (fst (drain_records (buffer @ arrived es))) s), None,
     (fold (note_value parse) (fst (drain_records (buffer @ arrived es))) ry,
      snd (translate_records parse sf (fst (drain_records (buffer @ arrived es))) s)))"
  using assms
proof (induction es arbitrary: buffer ry s rule: clean.induct)
  case (2 c es)
  let ?rest = "snd (drain_records (buffer @ c))"
  note a = drain_records_append [of "buffer @ c" "arrived es", unfolded append_assoc]
  have c: "chunk_text c = c" "clean es" using 2(2) by simp_all
  have ok: "list_all (sound_record parse sf model) (fst (drain_records (buffer @ c)))"
    "list_all (sound_record parse sf model) (fst (drain_records (?rest @ arrived es)))"
    using 2(4) by (simp_all add: a)
  note ih = 2(1) [OF c(2) disjI2 [OF drain_records_rest] ok(2)]
  show ?case by (simp add: c(1) chat_buffer_sound [OF ok(1)] ih a translate_records_append_eq del: translate_records.simps)
qed (simp_all add: drain_records_stop)

definition completes :: "(str \<Rightarrow> json option) \<Rightarrow> str \<Rightarrow> bool" where
  "completes parse record \<longleftrightarrow>
    (case response_value_from_sse_record parse record of Some v \<Rightarrow> response_status_is_completed v | None \<Rightarrow> False)"

lemma never_completed:
  "\<forall>record \<in> set rs. \<not> completes parse record \<Longrightarrow>
     sm_completed_response (fold (capture_record parse) rs m) = sm_completed_response m"
proof (induction rs arbitrary: m)
  case (Cons r rs)
  have "sm_completed_response (capture_record parse r m) = sm_completed_response m"
    using Cons(2) by (auto simp: capture_record_def completes_def capture_stream_response_metadata_def Let_def
        split: option.splits prod.split)
  with Cons show ?case by simp
qed simp

text \<open>Fact (truncated_answer_misread).
  An answer that the upstream ends as incomplete (its output limit, say) is a sound stream none of whose
  records completes or fails the response. A client of the chat endpoint that streams it is told that
  the model stopped by itself (finish reason "stop"); a client that wants one body makes the gateway
  treat the answer as a generic failure of the upstream.\<close>

theorem truncated_answer_misread:
  assumes "clean (tr_body r)" and "hidden_failure_kind_from_headers (tr_headers r) model = None"
    and "drain_records (arrived (tr_body r)) = (records, tail)" and "trim tail = []"
    and "list_all (\<lambda>record. hidden_failure_kind_from_sse_record parse sf record model = None) records"
    and "list_all (\<lambda>record. \<not> completes parse record \<and> \<not> ends_response parse record) records"
  shows "collect_completed_response_from_stream parse sf r model = Inl KGeneric
    \<and> (\<exists>out s outcome. upstream_responses_stream_to_chat_response parse sf rd created r lease seed principal_id model False app
         = Inr (copy_upstream_headers_to_response (tr_headers r),
             out @ [chunk s (JObject []) (Some ''stop''), Done], outcome))"
proof
  have "finalize_stream_response (fold (capture_record parse) records no_metadata) = None"
    using never_completed [of records parse no_metadata] assms(6)
    by (simp add: finalize_stream_response_def no_metadata_def list_all_iff)
  then show "collect_completed_response_from_stream parse sf r model = Inl KGeneric"
    by (simp add: collect_clean assms collect_records_sound [OF assms(5)])
next
  let ?s = "new_adapter (rd_simple rd) model created"
  obtain out s where t: "translate_records parse sf records ?s = (out, s)" by fastforce
  have "length (filter (ends_response parse) records) = 0"
    using assms(6) by (auto simp: list_all_iff filter_empty_conv)
  with translate_records_ok [of parse records ?s sf] have "\<not> ad_finished s" by (simp add: t step_ok_def)
  moreover have "list_all (sound_record parse sf model) (fst (drain_records ([] @ arrived (tr_body r))))"
    using assms(3,5) by simp
  note chat_loop_sound [OF assms(1) disjI2 this, of "new_relay (tr_headers r)" ?s]
  ultimately show "\<exists>out s outcome. upstream_responses_stream_to_chat_response parse sf rd created r lease seed principal_id model False app
         = Inr (copy_upstream_headers_to_response (tr_headers r),
             out @ [chunk s (JObject []) (Some ''stop''), Done], outcome)"
    by (intro exI [of _ out] exI [of _ s] exI)
      (simp add: upstream_responses_stream_to_chat_response_def Let_def assms(2,3) t chat_closing_def)
qed

subsection \<open>Streams of the witnesses\<close>

definition ex_event :: "str \<Rightarrow> json option" where
  "ex_event data =
    (if data = ''c'' then Some (json_obj [(''type'', JString ''response.created''),
       (''response'', json_obj [(''id'', JString ''r'')])])
     else if data = ''t'' then Some (json_obj [(''type'', JString ''response.output_text.delta''), (''delta'', JString ''hi'')])
     else if data = ''e'' then Some (json_obj [(''type'', JString ''response.completed''),
       (''response'', json_obj [(''id'', JString ''r''), (''status'', JString ''completed'')])])
     else None)"

definition ex_opening :: str where
  "ex_opening = ''data: c'' @ [lf, lf]"

definition ex_rest :: str where
  "ex_rest = ''data: t'' @ [lf, lf] @ ''data: e'' @ [lf, lf]"

definition ex_stream :: "stream_event list \<Rightarrow> response" where
  "ex_stream es = \<lparr>tr_status = 200, tr_headers = [], tr_body = es\<rparr>"

definition ex_readings :: readings where
  "ex_readings = \<lparr>rd_incident = ''i'', rd_now = 0, rd_turn = (0, 0), rd_compaction = (0, 0, 0, 0),
     rd_log_id = ''l'', rd_log_at = 0, rd_simple = ''s''\<rparr>"

definition ex_api_key :: gateway_api_key where
  "ex_api_key = \<lparr>ak_id = 1, ak_tenant_id = 1, ak_name = ''u'', ak_email = ''u@x'', ak_role = Viewer, ak_token = ''t'',
     ak_default_model = None, ak_reasoning_effort = None, ak_force_model_override = False,
     ak_force_reasoning_effort = False, ak_created_at = 0, ak_updated_at = 0\<rparr>"

definition ex_seed :: request_log_seed where
  "ex_seed = \<lparr>sd_api_key = ex_api_key, sd_tenant_id = 1, sd_principal_id = ''p'', sd_endpoint = ''/v1/responses'',
     sd_method = ''POST'', sd_requested_model = ''m'', sd_effective_model = ''m'', sd_reasoning_effort = None\<rparr>"

lemma ex_no_headers: "copy_upstream_headers [] = []" "tr_headers (ex_stream es) = []" "tr_status (ex_stream es) = 200"
  by (simp_all add: copy_upstream_headers_def copy_upstream_headers_to_response_def copied_headers_def header_text_def
      map_filter_simps ex_stream_def)

lemma ex_clean: "clean [Arrives ex_opening, Beat, Arrives ex_rest]" "clean [Arrives (ex_opening @ ex_rest), Beat]"
  by code_simp+

lemma ex_drained:
  "drain_records (ex_opening @ ex_rest) = ([''data: c'', ''data: t'', ''data: e''], [])"
  "drain_records ex_rest = ([''data: t'', ''data: e''], [])" "take_sse_record [] = None"
  by code_simp+

lemma ex_preflights:
  "preflight_response_stream ex_event (\<lambda>_. []) ''m'' [Arrives ex_opening, Beat, Arrives ex_rest] [] =
     Inr ([Beat, Arrives ex_rest], [''data: c''], [])"
  "preflight_response_stream ex_event (\<lambda>_. []) ''m'' [Arrives (ex_opening @ ex_rest), Beat] [] =
     Inr ([Beat], [''data: c''], ex_rest)"
  by code_simp+

lemma ex_sound:
  "list_all (\<lambda>record. hidden_failure_kind_from_sse_record ex_event (\<lambda>_. []) record ''m'' = None)
     [''data: c'', ''data: t'', ''data: e'']" "hidden_failure_kind_from_headers [] ''m'' = None"
  by code_simp+

text \<open>The same stream, ended as incomplete.\<close>

definition ex_incomplete :: str where
  "ex_incomplete = ''data: t'' @ [lf, lf] @ ''event: response.incomplete'' @ [lf] @ ''data: i'' @ [lf, lf]"

lemma ex_incomplete_facts:
  "clean [Arrives ex_incomplete]"
  "drain_records ex_incomplete = ([''data: t'', ''event: response.incomplete'' @ [lf] @ ''data: i''], [])"
  "list_all (\<lambda>record. hidden_failure_kind_from_sse_record ex_event (\<lambda>_. []) record ''m'' = None)
     [''data: t'', ''event: response.incomplete'' @ [lf] @ ''data: i'']"
  "list_all (\<lambda>record. \<not> completes ex_event record \<and> \<not> ends_response ex_event record)
     [''data: t'', ''event: response.incomplete'' @ [lf] @ ''data: i'']"
  by code_simp+

subsection \<open>Witnesses\<close>

theorem stream_relays_every_record_witness:
  "\<exists>out. upstream_stream_response ex_event (\<lambda>_. []) (\<lambda>_. []) ex_readings
      (ex_stream [Arrives ex_opening, Beat, Arrives ex_rest]) (ex_lease ''p'' 1 ''a'') ex_seed ''p'' ''m'' (ex_app ex_pool)
     = Inr ([], out, finish_relay ex_readings ex_seed (ex_lease ''p'' 1 ''a'') ''p'' 200 None
         (fold (note_record ex_event) [''data: c'', ''data: t'', ''data: e''] (new_relay [])) (ex_app ex_pool))
    \<and> length (filter carries out) = 3"
proof -
  let ?r = "ex_stream [Arrives ex_opening, Beat, Arrives ex_rest]"
  have h: "clean (tr_body ?r)" "hidden_failure_kind_from_headers (tr_headers ?r) ''m'' = None"
    "drain_records (arrived (tr_body ?r)) = ([''data: c'', ''data: t'', ''data: e''], [])"
    "preflight_response_stream ex_event (\<lambda>_. []) ''m'' (tr_body ?r) [] = Inr ([Beat, Arrives ex_rest], [''data: c''], [])"
    "arrives_later [Beat, Arrives ex_rest] \<or> take_sse_record [] = None"
    using ex_clean(1) ex_sound(2) ex_drained(1) ex_preflights(1) by (simp_all add: ex_stream_def)
  have n: "length (filter carries (map record_bytes [''data: c'', ''data: t'', ''data: e''])) = 3"
    by code_simp
  from stream_relays_every_record [OF h(1-3) ex_sound(1) h(4,5), of "\<lambda>_. []" ex_readings "ex_lease ''p'' 1 ''a''" ex_seed
      "''p''" "ex_app ex_pool"] n
  show ?thesis by (auto simp: ex_no_headers)
qed

theorem last_chunk_lost_witness:
  "upstream_stream_response ex_event (\<lambda>_. []) (\<lambda>_. []) ex_readings
      (ex_stream [Arrives (ex_opening @ ex_rest), Beat]) (ex_lease ''p'' 1 ''a'') ex_seed ''p'' ''m'' (ex_app ex_pool)
     = Inr ([], [record_bytes ''data: c'', heartbeat_bytes],
         finish_relay ex_readings ex_seed (ex_lease ''p'' 1 ''a'') ''p'' 200 None
           (fold (note_record ex_event) [''data: c''] (new_relay [])) (ex_app ex_pool))
    \<and> fst (drain_records (ex_opening @ ex_rest)) = [''data: c'', ''data: t'', ''data: e'']"
proof -
  let ?r = "ex_stream [Arrives (ex_opening @ ex_rest), Beat]"
  have h: "clean (tr_body ?r)" "hidden_failure_kind_from_headers (tr_headers ?r) ''m'' = None"
    "preflight_response_stream ex_event (\<lambda>_. []) ''m'' (tr_body ?r) [] = Inr (replicate 1 Beat, [''data: c''], ex_rest)"
    using ex_clean(2) ex_sound(2) ex_preflights(2) by (simp_all add: ex_stream_def)
  have n: "arrived (tr_body ?r) = ex_opening @ ex_rest" by (simp add: ex_stream_def)
  obtain first where f: "drain_records (arrived (tr_body ?r)) = (first @ [''data: t'', ''data: e''], [])"
    "upstream_stream_response ex_event (\<lambda>_. []) (\<lambda>_. []) ex_readings ?r (ex_lease ''p'' 1 ''a'') ex_seed ''p'' ''m'' (ex_app ex_pool)
     = Inr (copy_upstream_headers (tr_headers ?r), map record_bytes [''data: c''] @ replicate 1 heartbeat_bytes,
         finish_relay ex_readings ex_seed (ex_lease ''p'' 1 ''a'') ''p'' (tr_status ?r) None
           (fold (note_record ex_event) first (new_relay (tr_headers ?r))) (ex_app ex_pool))"
    using last_chunk_lost [OF h ex_drained(2), of "\<lambda>_. []" ex_readings "ex_lease ''p'' 1 ''a''" ex_seed "''p''" "ex_app ex_pool"]
    by blast
  have "first = [''data: c'']" using f(1) by (simp add: n ex_drained)
  with f(2) show ?thesis by (simp add: ex_no_headers ex_drained)
qed

theorem streaming_agrees_with_collecting_witness:
  "\<exists>out ry. upstream_stream_response ex_event (\<lambda>_. []) (\<lambda>_. []) ex_readings (ex_stream [Arrives ex_opening, Beat, Arrives ex_rest])
      (ex_lease ''p'' 1 ''a'') ex_seed ''p'' ''m'' (ex_app ex_pool)
      = Inr ([], out, finish_relay ex_readings ex_seed (ex_lease ''p'' 1 ''a'') ''p'' 200 None ry (ex_app ex_pool))
    \<and> collect_completed_response_from_stream ex_event (\<lambda>_. []) (ex_stream [Arrives (ex_opening @ ex_rest), Beat]) ''m'' =
        (case finalize_stream_response (ry_metadata ry) of Some v \<Rightarrow> Inr v | None \<Rightarrow> Inl KGeneric)"
proof -
  let ?r = "ex_stream [Arrives ex_opening, Beat, Arrives ex_rest]" and ?r' = "ex_stream [Arrives (ex_opening @ ex_rest), Beat]"
  have c: "clean (tr_body ?r)" "clean (tr_body ?r')" "arrived (tr_body ?r') = arrived (tr_body ?r)" "tr_headers ?r' = tr_headers ?r"
    using ex_clean by (simp_all add: ex_stream_def)
  have h: "hidden_failure_kind_from_headers (tr_headers ?r) ''m'' = None"
    "drain_records (arrived (tr_body ?r)) = ([''data: c'', ''data: t'', ''data: e''], [])" "trim [] = []"
    "preflight_response_stream ex_event (\<lambda>_. []) ''m'' (tr_body ?r) [] = Inr ([Beat, Arrives ex_rest], [''data: c''], [])"
    "arrives_later [Beat, Arrives ex_rest] \<or> take_sse_record [] = None"
    using ex_sound(2) ex_drained(1) ex_preflights(1) by (simp_all add: ex_stream_def)
  note agree = conjunct2 [OF streaming_agrees_with_collecting [OF c, of ex_event "\<lambda>_. []" "''m''" "\<lambda>_. []" ex_readings
      "ex_lease ''p'' 1 ''a''" ex_seed "''p''" "ex_app ex_pool"], rule_format, OF h(1-3) ex_sound(1) h(4,5)]
  show ?thesis using agree by (simp add: ex_no_headers)
qed

theorem split_character_corrupts_witness:
  "fst (relay_loop ex_event (\<lambda>_. []) (\<lambda>_. []) ''s'' ''m''
      [Arrives (''data: '' @ bytes [0xC3]), Arrives (bytes [0xA9] @ [lf, lf])] [] (new_relay [])) =
    [record_bytes (''data: '' @ bytes [0xEF, 0xBF, 0xBD, 0xEF, 0xBF, 0xBD])]"
proof -
  have h: "0xC2 \<le> byte (CHR 0xC3)" "byte (CHR 0xC3) \<le> 0xDF" "is_cont (CHR 0xA9)" "is_ascii ''data: ''" "is_ascii []"
    "cr \<notin> set (''data: '' @ [])" "lf \<notin> set (''data: '' @ [])" by code_simp+
  have b: "bytes [0xC3] = [CHR 0xC3]" "bytes [0xA9] = [CHR 0xA9]"
    "bytes [0xEF, 0xBF, 0xBD, 0xEF, 0xBF, 0xBD] = replacement @ replacement @ []" by code_simp+
  show ?thesis
    using split_character_corrupts [OF h, of ex_event "\<lambda>_. []" "\<lambda>_. []" "''s''" "''m''" "new_relay []"]
    unfolding b by (simp only: append_Nil)
qed

theorem chat_reply_terminated_witness:
  "\<exists>headers events outcome. upstream_responses_stream_to_chat_response ex_event (\<lambda>_. []) ex_readings 0
      (ex_stream [Arrives ex_opening, Breaks]) (ex_lease ''p'' 1 ''a'') ex_seed ''p'' ''m'' False (ex_app ex_pool)
     = Inr (headers, events, outcome) \<and> 1 \<le> count_list events Done"
proof -
  obtain headers events outcome where r: "upstream_responses_stream_to_chat_response ex_event (\<lambda>_. []) ex_readings 0
      (ex_stream [Arrives ex_opening, Breaks]) (ex_lease ''p'' 1 ''a'') ex_seed ''p'' ''m'' False (ex_app ex_pool)
     = Inr (headers, events, outcome)"
    using ex_sound(2)
    by (simp add: upstream_responses_stream_to_chat_response_def ex_stream_def Let_def case_prod_unfold del: chat_loop.simps)
  with chat_reply_terminated [OF r] show ?thesis by blast
qed

theorem truncated_answer_misread_witness:
  "collect_completed_response_from_stream ex_event (\<lambda>_. []) (ex_stream [Arrives ex_incomplete]) ''m'' = Inl KGeneric"
proof -
  have h: "clean (tr_body (ex_stream [Arrives ex_incomplete]))"
    "hidden_failure_kind_from_headers (tr_headers (ex_stream [Arrives ex_incomplete])) ''m'' = None"
    "drain_records (arrived (tr_body (ex_stream [Arrives ex_incomplete]))) =
      ([''data: t'', ''event: response.incomplete'' @ [lf] @ ''data: i''], [])" "trim [] = []"
    using ex_incomplete_facts(1,2) ex_sound(2) by (simp_all add: ex_stream_def)
  show ?thesis
    using truncated_answer_misread [OF h ex_incomplete_facts(3,4), of ex_readings 0 "ex_lease ''p'' 1 ''a''" ex_seed "''p''" "ex_app ex_pool"]
    by (rule conjunct1)
qed

end
