(* ===== verification/Gateway_Chat.thy ===== *)
theory Gateway_Chat
  imports Gateway
begin

text \<open>
  The other request handlers of the data plane (\<open>http/data.rs\<close>): chat completions and the compaction
  of responses, in the same form as \<open>Gateway\<close>, and the list of models.
\<close>

subsection \<open>Chat completions\<close>

record chat_loop_state =
  qh_payload :: chat_completions_request
  qh_message_summary :: str
  qh_selection :: "selected option"
  qh_recorded_input :: bool
  qh_transparent_compaction_attempted :: bool
  qh_compacted_retry_input :: "json list option"
  qh_attempt :: nat
  qh_non_quota_failovers :: nat

text \<open>\<open>gateway_chat_failure_response\<close>: a JSON body also for a stream.\<close>

definition refuse_chat :: "iteration \<Rightarrow> gateway_failure_reason \<Rightarrow> reply" where
  "refuse_chat it reason = gateway_failure_response (rd_simple (it_readings it)) False reason"

text \<open>While it waits for a lease the handler refuses as the responses endpoint does.\<close>

definition refuse_chat_selection :: "gateway_request \<Rightarrow> iteration \<Rightarrow> gateway_failure_reason \<Rightarrow> reply" where
  "refuse_chat_selection q it reason = refuse_responses q it reason"

definition select_chat :: "chat_loop_state \<Rightarrow> selected \<Rightarrow> chat_loop_state" where
  "select_chat h s = h\<lparr>qh_selection := Some s\<rparr>"

definition note_chat_retry :: "upstream_failure_kind \<Rightarrow> chat_loop_state \<Rightarrow> chat_loop_state" where
  "note_chat_retry kind h =
    (case note_retry_attempt kind (qh_attempt h, qh_non_quota_failovers h) of
       (attempt, non_quota) \<Rightarrow> h\<lparr>qh_attempt := attempt, qh_non_quota_failovers := non_quota\<rparr>)"

text \<open>The loop's state after the context was compacted: the lease is not put back.\<close>

definition compacted_chat ::
  "library \<Rightarrow> gateway_request \<Rightarrow> iteration \<Rightarrow> chat_loop_state \<Rightarrow> cli_lease \<Rightarrow> upstream_credential \<Rightarrow> replay_plan
     \<Rightarrow> bool \<Rightarrow> chat_loop_state option" where
  "compacted_chat lib q it h lease credential plan compactable =
    (if \<not> qh_transparent_compaction_attempted h \<and> compactable
     then map_option (\<lambda>output. h\<lparr>qh_transparent_compaction_attempted := True, qh_compacted_retry_input := Some output\<rparr>)
       (compact_retry_output_items lib (it_upstream it) credential lease (gq_context q) (ch_model (qh_payload h))
          (compact_retry_request_from_chat (qh_payload h) plan))
     else None)"

definition chat_hidden_failure ::
  "library \<Rightarrow> gateway_request \<Rightarrow> iteration \<Rightarrow> chat_loop_state \<Rightarrow> cli_lease \<Rightarrow> upstream_credential \<Rightarrow> replay_plan
     \<Rightarrow> upstream_failure_kind \<Rightarrow> app_state \<Rightarrow> chat_loop_state step_result \<times> app_state" where
  "chat_hidden_failure lib q it h lease credential plan kind app =
    (case compacted_chat lib q it h lease credential plan (should_transparent_compact_hidden_failure kind) of
       Some h \<Rightarrow> (Continues h, app)
     | None \<Rightarrow>
         (let app = handle_hidden_failure (rd_incident (it_readings it)) (rd_now (it_readings it)) lease kind app in
          if should_retry_hidden_failure kind (qh_non_quota_failovers h) (gq_max_non_quota_failovers q)
          then reselect lib q it (refuse_chat_selection q it) (select_chat (note_chat_retry kind h)) app
          else give_up q it (refuse_chat it) (gateway_failure_reason_from_upstream kind) app))"

definition chat_upstream_failure ::
  "library \<Rightarrow> gateway_request \<Rightarrow> iteration \<Rightarrow> chat_loop_state \<Rightarrow> cli_lease \<Rightarrow> upstream_credential \<Rightarrow> replay_plan
     \<Rightarrow> upstream_failure \<Rightarrow> app_state \<Rightarrow> chat_loop_state step_result \<times> app_state" where
  "chat_upstream_failure lib q it h lease credential plan error app =
    (let app = it_others it 2
           (handle_upstream_failure (rd_incident (it_readings it)) (rd_now (it_readings it)) lease error app) in
     case compacted_chat lib q it h lease credential plan (should_passthrough_compact_upstream_error error) of
       Some h \<Rightarrow> (Continues h, app)
     | None \<Rightarrow>
         if should_retry_upstream_failure error (qh_non_quota_failovers h) (gq_max_non_quota_failovers q)
         then reselect lib q it (refuse_chat_selection q it) (select_chat (note_chat_retry (uf_kind error) h)) app
         else give_up q it (refuse_chat it) (gateway_failure_reason_from_upstream (uf_kind error)) app)"

definition chat_answer ::
  "library \<Rightarrow> gateway_request \<Rightarrow> iteration \<Rightarrow> chat_loop_state \<Rightarrow> cli_lease \<Rightarrow> upstream_credential \<Rightarrow> replay_plan
     \<Rightarrow> response \<Rightarrow> app_state \<Rightarrow> chat_loop_state step_result \<times> app_state" where
  "chat_answer lib q it h lease credential plan r app =
    (let model = ch_model (qh_payload h) in
     if gq_stream_requested q then
       (let guard = (case hm_get (rt_accounts (ap_runtime app)) (ls_account_id lease) of
              Some account \<Rightarrow> near_quota_guard_enabled (ac_signals account) | None \<Rightarrow> False)
        in case upstream_responses_stream_to_chat_response (lb_parse lib) (lb_float lib) (it_readings it) (it_created it) r
                  lease (gq_seed q) (gq_principal_id q) model guard (it_others it 3 app) of
             Inr (headers, out, outcome) \<Rightarrow> replies_after (Chat_Streamed headers out) outcome
           | Inl kind \<Rightarrow> chat_hidden_failure lib q it h lease credential plan kind app)
     else
       (case (if is_codex_chatgpt_backend (cr_base_url credential)
              then upstream_stream_to_chat_json_response (lb_parse lib) (lb_render lib) (lb_float lib) (it_created it) r model
              else upstream_responses_json_to_chat_response (lb_parse lib) (lb_render lib) (lb_float lib) (it_created it)
                (whole_body r) model) of
          Inr success \<Rightarrow> replies_after (Whole success) (record_whole lib q it lease success app)
        | Inl kind \<Rightarrow> chat_hidden_failure lib q it h lease credential plan kind app))"

definition chat_value ::
  "library \<Rightarrow> chat_loop_state \<Rightarrow> str \<Rightarrow> replay_plan \<Rightarrow> bool \<Rightarrow> json" where
  "chat_value lib h prompt_cache_key plan codex_protocol =
    (case qh_compacted_retry_input h of
       Some input \<Rightarrow> responses_payload_from_compacted_chat_input (lb_float lib) (qh_payload h) input prompt_cache_key codex_protocol
     | None \<Rightarrow> responses_payload_from_chat_request (lb_float lib) (qh_payload h) prompt_cache_key plan codex_protocol)"

definition chat_iteration ::
  "library \<Rightarrow> gateway_request \<Rightarrow> iteration \<Rightarrow> chat_loop_state \<Rightarrow> app_state
     \<Rightarrow> chat_loop_state step_result \<times> app_state" where
  "chat_iteration lib q it h app =
    (case qh_selection h of
       None \<Rightarrow> (Replies (Refused (refuse_chat it GUpstreamFailure)), app)
     | Some (lease, prompt_cache_key) \<Rightarrow>
         (let app = (if qh_recorded_input h then app
                else begin_context_turn (gq_principal_id q) (gq_model q) (ls_generation lease) (qh_message_summary h)
                  (map chat_message_to_responses_input (ch_messages (qh_payload h))) (fst (it_turn it)) (snd (it_turn it)) app);
              h = h\<lparr>qh_selection := None, qh_recorded_input := True\<rparr>
          in case credential_for_account app (ls_account_id lease) of
               None \<Rightarrow>
                 (let app = report_missing_credential it lease app in
                  if qh_non_quota_failovers h = 0
                  then reselect lib q it (refuse_chat_selection q it) (select_chat (h\<lparr>qh_attempt := qh_attempt h + 1,
                         qh_non_quota_failovers := qh_non_quota_failovers h + 1\<rparr>)) app
                  else give_up q it (refuse_chat it) GUpstreamFailure app)
             | Some credential \<Rightarrow>
                 (let codex_protocol = is_codex_chatgpt_backend (cr_base_url credential);
                      plan = (if qh_compacted_retry_input h \<noteq> None then replay_plan_default
                        else replay_plan_for_request app (gq_principal_id q) (ls_generation lease) None)
                  in case post_json lib (it_upstream it) credential ''responses''
                            (chat_value lib h prompt_cache_key plan codex_protocol) (gq_context q)
                            (codex_protocol \<or> gq_stream_requested q) (ls_route_mode lease) of
                       Inr r \<Rightarrow> chat_answer lib q it h lease credential plan r (it_others it 1 app)
                     | Inl error \<Rightarrow> chat_upstream_failure lib q it h lease credential plan error (it_others it 1 app))))"

fun chat_iterations ::
  "library \<Rightarrow> gateway_request \<Rightarrow> iteration list \<Rightarrow> chat_loop_state \<Rightarrow> app_state
     \<Rightarrow> chat_loop_state step_result \<times> app_state" where
  "chat_iterations lib q [] h app = (Continues h, app)"
| "chat_iterations lib q (it # its) h app =
    (case chat_iteration lib q it h app of
       (Continues h, app) \<Rightarrow> chat_iterations lib q its h app
     | r \<Rightarrow> r)"

definition begin_chat ::
  "library \<Rightarrow> entry \<Rightarrow> headers \<Rightarrow> chat_completions_request \<Rightarrow> app_state
     \<Rightarrow> (refusal, gateway_request \<times> chat_loop_state) sum \<times> app_state" where
  "begin_chat lib en headers payload app =
    (case authenticated_context (ap_runtime app) headers of
       None \<Rightarrow> (Inl Unauthorized, app)
     | Some auth \<Rightarrow>
         (let requested_model = ch_model payload;
              effort = resolve_effective_reasoning_for_chat (gc_api_key auth) payload;
              payload = apply_chat_policy payload (resolve_effective_model (gc_api_key auth) requested_model) effort;
              model = ch_model payload
          in case resolve_request_scope (en_nonce en) (en_clock en) auth headers model app of
               (Inl error, app) \<Rightarrow> (Inl (Invalid_Request error), app)
             | (Inr routing, app) \<Rightarrow>
                 (let key = chat_cache_affinity_key (lb_render lib) (lb_sha256 lib) (lb_float lib)
                        (tn_id (gc_tenant auth)) (cache_continuity_anchor routing) payload
                  in (Inr (gateway_request_of auth routing headers ''/v1/chat/completions'' requested_model model effort key
                         (case ch_stream payload of Some b \<Rightarrow> b | None \<Rightarrow> False) app,
                       \<lparr>qh_payload = payload, qh_message_summary = summarize_messages (lb_float lib) (ch_messages payload),
                        qh_selection = None, qh_recorded_input = False, qh_transparent_compaction_attempted = False,
                        qh_compacted_retry_input = None, qh_attempt = 0, qh_non_quota_failovers = 0\<rparr>), app))))"

definition chat_completions ::
  "library \<Rightarrow> entry \<Rightarrow> headers \<Rightarrow> chat_completions_request \<Rightarrow> iteration list \<Rightarrow> app_state
     \<Rightarrow> (refusal, chat_loop_state step_result) sum \<times> app_state" where
  "chat_completions lib en headers payload its app =
    (case begin_chat lib en headers payload app of
       (Inl refusal, app) \<Rightarrow> (Inl refusal, app)
     | (Inr (q, h), app) \<Rightarrow>
         (case resolve_http_selection_or_wait (lb_sha256 lib) (gq_selection q) (en_rounds en) app of
            (None, app) \<Rightarrow> (Inr Waits_On, app)
          | (Some (Inl reason), app) \<Rightarrow>
              (Inr (Replies (Refused (gateway_failure_response (en_simple en) (gq_stream_requested q) reason))), app)
          | (Some (Inr s), app) \<Rightarrow>
              (let q = q\<lparr>gq_max_non_quota_failovers := non_quota_retry_budget (ap_runtime app) (gq_selection q)\<rparr>
               in case chat_iterations lib q its (select_chat h s) app of (r, app) \<Rightarrow> (Inr r, app))))"

subsection \<open>Compaction\<close>

record compact_loop =
  qc_payload :: responses_request
  qc_selection :: "selected option"
  qc_attempt :: nat
  qc_non_quota_failovers :: nat

text \<open>The status, the content type and the body.\<close>

definition passthrough_upstream_error_response :: "library \<Rightarrow> status_code \<Rightarrow> str \<Rightarrow> gateway_reply" where
  "passthrough_upstream_error_response lib status body =
     Passed status
       (if starts_with (trim_start body) ''{'' \<or> starts_with (trim_start body) ''['' then ''application/json''
        else ''text/plain; charset=utf-8'')
       (if body = [] then str_or (lb_status_reason lib status) ''upstream error'' else body)"

definition refuse_compact :: "iteration \<Rightarrow> gateway_failure_reason \<Rightarrow> reply" where
  "refuse_compact it reason = gateway_failure_response (rd_simple (it_readings it)) False reason"

definition select_compact :: "compact_loop \<Rightarrow> selected \<Rightarrow> compact_loop" where
  "select_compact c s = c\<lparr>qc_selection := Some s\<rparr>"

definition note_compact_retry :: "upstream_failure_kind \<Rightarrow> compact_loop \<Rightarrow> compact_loop" where
  "note_compact_retry kind c =
    (case note_retry_attempt kind (qc_attempt c, qc_non_quota_failovers c) of
       (attempt, non_quota) \<Rightarrow> c\<lparr>qc_attempt := attempt, qc_non_quota_failovers := non_quota\<rparr>)"

text \<open>No turn is recorded: a success of the route and the request log.\<close>

definition compact_success ::
  "gateway_request \<Rightarrow> iteration \<Rightarrow> cli_lease \<Rightarrow> forward_success \<Rightarrow> app_state \<Rightarrow> compact_loop step_result \<times> app_state" where
  "compact_success q it lease success app =
    (let rd = it_readings it;
         app = snd (record_route_event (rd_incident rd) (ls_account_id lease)
           \<lparr>ev_mode = ls_route_mode lease, ev_kind = ''success''\<rparr> (rd_now rd) app)
     in (Replies (Whole success), record_request_log (build_request_log_entry (rd_log_id rd) (rd_log_at rd) (gq_seed q) lease
           (fs_status success) (fs_usage success) (fs_observed_model success)) app))"

definition failure_of_kind :: "upstream_failure_kind \<Rightarrow> upstream_failure" where
  "failure_of_kind kind = \<lparr>uf_status = None, uf_body = None, uf_kind = kind, uf_subkind = None, uf_cf_ray = None, uf_reset_at = None\<rparr>"

text \<open>The standard endpoint as a fallback: its reply, or the failure that stands.\<close>

definition compact_fallback ::
  "library \<Rightarrow> gateway_request \<Rightarrow> iteration \<Rightarrow> compact_loop \<Rightarrow> cli_lease \<Rightarrow> upstream_credential \<Rightarrow> upstream_failure
     \<Rightarrow> (forward_success, upstream_failure) sum" where
  "compact_fallback lib q it c lease credential error =
    (if \<not> should_retry_compact_with_standard_responses (cr_base_url credential) error then Inr error
     else case post_json lib (it_upstream it) credential ''responses''
                 (compact_payload_for_standard_responses (lb_float lib) (qc_payload c)) (gq_context q) False (ls_route_mode lease) of
            Inl fallback_error \<Rightarrow> Inr fallback_error
          | Inr r \<Rightarrow>
              (case upstream_json_response (lb_parse lib) (lb_float lib) (whole_body r) (gq_model q) of
                 Inr success \<Rightarrow> Inl success
               | Inl kind \<Rightarrow> Inr (failure_of_kind kind)))"

definition compact_failure ::
  "library \<Rightarrow> gateway_request \<Rightarrow> iteration \<Rightarrow> compact_loop \<Rightarrow> cli_lease \<Rightarrow> upstream_failure \<Rightarrow> app_state
     \<Rightarrow> compact_loop step_result \<times> app_state" where
  "compact_failure lib q it c lease error app =
    (let app = handle_upstream_failure (rd_incident (it_readings it)) (rd_now (it_readings it)) lease error app in
     if should_retry_upstream_failure error (qc_non_quota_failovers c) (gq_max_non_quota_failovers q)
     then reselect lib q it (refuse_compact it) (select_compact (note_compact_retry (uf_kind error) c)) app
     else if should_passthrough_compact_upstream_error error
     then (Replies (passthrough_upstream_error_response lib
             (case uf_status error of Some s \<Rightarrow> s | None \<Rightarrow> 502) (str_or (uf_body error) [])), app)
     else (Replies (Refused (refuse_compact it (gateway_failure_reason_from_upstream (uf_kind error)))), app))"

definition compact_iteration ::
  "library \<Rightarrow> gateway_request \<Rightarrow> iteration \<Rightarrow> compact_loop \<Rightarrow> app_state \<Rightarrow> compact_loop step_result \<times> app_state" where
  "compact_iteration lib q it c app =
    (case qc_selection c of
       None \<Rightarrow> (Replies (Refused (refuse_compact it GUpstreamFailure)), app)
     | Some (lease, _) \<Rightarrow>
         (let c = c\<lparr>qc_selection := None\<rparr>; app = it_others it 0 app in
          case credential_for_account app (ls_account_id lease) of
            None \<Rightarrow>
              (let app = report_missing_credential it lease app in
               if qc_non_quota_failovers c = 0
               then reselect lib q it (refuse_compact it) (select_compact (c\<lparr>qc_attempt := qc_attempt c + 1,
                      qc_non_quota_failovers := qc_non_quota_failovers c + 1\<rparr>)) app
               else (Replies (Refused (refuse_compact it GUpstreamFailure)), app))
          | Some credential \<Rightarrow>
              (let app = it_others it 1 app in
               case post_json lib (it_upstream it) credential ''responses/compact''
                      (compact_payload_for_upstream (lb_float lib) (qc_payload c)) (gq_context q) False (ls_route_mode lease) of
                 Inr r \<Rightarrow>
                   (case upstream_json_response (lb_parse lib) (lb_float lib) (whole_body r) (gq_model q) of
                      Inr success \<Rightarrow> compact_success q it lease success app
                    | Inl kind \<Rightarrow>
                        (let app = handle_hidden_failure (rd_incident (it_readings it)) (rd_now (it_readings it)) lease kind app in
                         if should_retry_hidden_failure kind (qc_non_quota_failovers c) (gq_max_non_quota_failovers q)
                         then reselect lib q it (refuse_compact it) (select_compact (note_compact_retry kind c)) app
                         else (Replies (Refused (refuse_compact it (gateway_failure_reason_from_upstream kind))), app)))
               | Inl error \<Rightarrow>
                   (case compact_fallback lib q it c lease credential error of
                      Inl success \<Rightarrow> compact_success q it lease success app
                    | Inr error \<Rightarrow> compact_failure lib q it c lease error app))))"

fun compact_iterations ::
  "library \<Rightarrow> gateway_request \<Rightarrow> iteration list \<Rightarrow> compact_loop \<Rightarrow> app_state \<Rightarrow> compact_loop step_result \<times> app_state" where
  "compact_iterations lib q [] c app = (Continues c, app)"
| "compact_iterations lib q (it # its) c app =
    (case compact_iteration lib q it c app of
       (Continues c, app) \<Rightarrow> compact_iterations lib q its c app
     | r \<Rightarrow> r)"

definition begin_compact ::
  "library \<Rightarrow> entry \<Rightarrow> headers \<Rightarrow> responses_request \<Rightarrow> app_state
     \<Rightarrow> (refusal, gateway_request \<times> compact_loop) sum \<times> app_state" where
  "begin_compact lib en headers payload app =
    (case authenticated_context (ap_runtime app) headers of
       None \<Rightarrow> (Inl Unauthorized, app)
     | Some auth \<Rightarrow>
         (let requested_model = rb_model payload;
              effort = resolve_effective_reasoning_for_responses (gc_api_key auth) payload;
              payload = apply_responses_policy payload (resolve_effective_model (gc_api_key auth) requested_model) effort;
              model = rb_model payload
          in case resolve_request_scope (en_nonce en) (en_clock en) auth headers model app of
               (Inl error, app) \<Rightarrow> (Inl (Invalid_Request error), app)
             | (Inr routing, app) \<Rightarrow>
                 (let key = responses_cache_affinity_key (lb_render lib) (lb_sha256 lib) (lb_float lib)
                        (tn_id (gc_tenant auth)) (cache_continuity_anchor routing) payload
                  in (Inr (gateway_request_of auth routing headers ''/v1/responses/compact'' requested_model model effort key
                         False app,
                       \<lparr>qc_payload = payload, qc_selection = None, qc_attempt = 0, qc_non_quota_failovers = 0\<rparr>), app))))"

definition responses_compact ::
  "library \<Rightarrow> entry \<Rightarrow> headers \<Rightarrow> responses_request \<Rightarrow> iteration list \<Rightarrow> app_state
     \<Rightarrow> (refusal, compact_loop step_result) sum \<times> app_state" where
  "responses_compact lib en headers payload its app =
    (case begin_compact lib en headers payload app of
       (Inl refusal, app) \<Rightarrow> (Inl refusal, app)
     | (Inr (q, c), app) \<Rightarrow>
         (case resolve_http_selection_or_wait (lb_sha256 lib) (gq_selection q) (en_rounds en) app of
            (None, app) \<Rightarrow> (Inr Waits_On, app)
          | (Some (Inl reason), app) \<Rightarrow>
              (Inr (Replies (Refused (gateway_failure_response (en_simple en) False reason))), app)
          | (Some (Inr s), app) \<Rightarrow>
              (let q = q\<lparr>gq_max_non_quota_failovers := non_quota_retry_budget (ap_runtime app) (gq_selection q)\<rparr>
               in case compact_iterations lib q its (select_compact c s) app of (r, app) \<Rightarrow> (Inr r, app))))"

subsection \<open>The models of a tenant\<close>

definition tenant_models :: "runtime_state \<Rightarrow> gateway_auth_context \<Rightarrow> str list" where
  "tenant_models rt auth = dedup (sort_by (\<lambda>a b. cmp a b)
     (concat (map ac_models (filter (\<lambda>account. ac_tenant_id account = tn_id (gc_tenant auth)) (hm_values (rt_accounts rt))))))"

text \<open>\<open>None\<close>: unauthorized.\<close>

definition models_endpoint :: "runtime_state \<Rightarrow> headers \<Rightarrow> json option" where
  "models_endpoint rt headers = map_option (\<lambda>auth. json_obj
     [(''object'', JString ''list''),
      (''data'', JArray (map (\<lambda>i. json_obj [(''id'', JString i), (''object'', JString ''model'')]) (tenant_models rt auth)))])
     (authenticated_context rt headers)"

end
