(* ===== verification/Failure_Laws.thy ===== *)
theory Failure_Laws
  imports Failures Route_Properties
begin

text \<open>
  The reports of failures keep the invariant of the pool, publish what they do, and take the failed
  account out of rotation for as long as its kind of failure says.
\<close>

lemma handle_hidden_as_upstream:
  "kind \<noteq> KQuota \<Longrightarrow> handle_hidden_failure iid now lease kind app = handle_upstream_failure iid now lease
     \<lparr>uf_status = None, uf_body = None, uf_kind = kind, uf_subkind = None, uf_cf_ray = None, uf_reset_at = None\<rparr> app"
  by (cases kind)
    (simp_all add: handle_hidden_failure_def handle_upstream_failure_def is_retryable_generic_status_def)

lemma handle_upstream_failure_ok:
  assumes "pool_inv (ap_runtime app)" and "known_account (ls_account_id lease) app"
  shows "pool_inv (ap_runtime (handle_upstream_failure iid now lease error app))"
    and "fresh_incident iid app \<Longrightarrow> published app (handle_upstream_failure iid now lease error app)"
  using assms failover_ok [OF assms refl] quota_ok [OF assms refl] event_ok [OF assms _ refl]
  by (cases "uf_kind error"; simp add: handle_upstream_failure_def)+

lemma handle_hidden_failure_ok:
  assumes "pool_inv (ap_runtime app)" and "known_account (ls_account_id lease) app"
  shows "pool_inv (ap_runtime (handle_hidden_failure iid now lease kind app))"
    and "fresh_incident iid app \<Longrightarrow> published app (handle_hidden_failure iid now lease kind app)"
  using assms failover_ok [OF assms refl] quota_ok [OF assms refl] event_ok [OF assms _ refl]
  by (cases kind; simp add: handle_hidden_failure_def)+

text \<open>The instant until which a failure takes an account out of rotation, if it does.\<close>

definition rests_until :: "upstream_failure \<Rightarrow> instant \<Rightarrow> instant option" where
  "rests_until error now =
    (case uf_kind error of
       KAuth \<Rightarrow> Some (now + secs 300)
     | KQuota \<Rightarrow> Some (case uf_reset_at error of Some t \<Rightarrow> t | None \<Rightarrow> now + mins 30)
     | KRateLimited \<Rightarrow> Some (now + secs 45)
     | KCapability \<Rightarrow> Some (now + secs 300)
     | KGeneric \<Rightarrow> if is_retryable_generic_status (uf_status error) then Some (now + secs 30) else None
     | _ \<Rightarrow> None)"

lemma quota_default: "mark_account_quota_exhausted iid i None message now app
    = mark_account_quota_exhausted iid i (Some (now + mins 30)) message now app"
  by (simp add: mark_account_quota_exhausted_def)

text \<open>C6 (failure_rests_account).
  Whatever failure the gateway reports that takes an account out of rotation - an authentication
  error, a rate limit, a missing capability, a retryable server error, an exhausted quota (until its
  reset) - no lease on the account is left afterwards, and no request is bound to it before the
  failure's instant; the pool keeps its invariant, and replicas learn of it. A tenant's only account
  is exempt unless its quota is exhausted.\<close>

theorem failure_rests_account:
  assumes "pool_inv (ap_runtime app)" and "known_account (ls_account_id lease) app" and "fresh_incident iid app"
    and "uf_kind error = KQuota \<or> \<not> should_protect_sole_account (ap_runtime app) (ls_account_id lease) None"
    and "rests_until error now = Some until_t" and "later \<le> reuse_later" and "reuse_later < until_t"
  shows "(\<forall>p l. hm_get (rt_leases (ap_runtime (handle_upstream_failure iid now lease error app))) p = Some l \<longrightarrow>
        ls_account_id l \<noteq> ls_account_id lease)
    \<and> (\<forall>sha256 request l key warmup app2.
        resolve_lease_outcome sha256 request later reuse_later (handle_upstream_failure iid now lease error app)
          = (Selected l key warmup, app2) \<longrightarrow> ls_account_id l \<noteq> ls_account_id lease)
    \<and> pool_inv (ap_runtime (handle_upstream_failure iid now lease error app))
    \<and> published app (handle_upstream_failure iid now lease error app)"
proof -
  have inv: "rt_inv (ap_runtime app)" using assms(1) by (simp add: pool_inv_def)
  note ok = handle_upstream_failure_ok(1) [OF assms(1,2)] handle_upstream_failure_ok(2) [OF assms(1,2,3)]
  show ?thesis
  proof (cases "uf_kind error = KQuota")
    case True
    define reset where "reset = (case uf_reset_at error of Some t \<Rightarrow> t | None \<Rightarrow> now + mins 30)"
    have h: "handle_upstream_failure iid now lease error app = snd (mark_account_quota_exhausted iid (ls_account_id lease)
        (Some reset) (Some (if uf_subkind error = Some Quota429 then ''quota_429'' else ''quota'')) now app)"
      using quota_default by (simp add: handle_upstream_failure_def True reset_def split: option.split)
    have "reuse_later < reset" using assms(5,7) True by (simp add: rests_until_def reset_def)
    note out = quota_mark_out [OF inv assms(2) h assms(6) this]
    show ?thesis by (intro conjI conjunct1 [OF out] conjunct2 [OF conjunct2 [OF out]] ok)
  next
    case False
    define severity where "severity = (if uf_kind error = KGeneric then ''upstream_generic'' else kind_severity (uf_kind error))"
    define cd where "cd = (if uf_kind error = KGeneric then 30 else kind_cooldown_seconds (uf_kind error))"
    obtain rec where h: "handle_upstream_failure iid now lease error app
        = snd (failover_account iid (ls_account_id lease) severity cd rec now app)" and u: "until_t = now + secs (sint cd)"
      using False assms(5)
      by (cases "uf_kind error") (auto simp: rests_until_def handle_upstream_failure_def severity_def cd_def split: if_splits)
    have "severity = ''quota'' \<or> \<not> should_protect_sole_account (ap_runtime app) (ls_account_id lease) None"
      using assms(4) False by simp
    note out = failover_out [OF inv assms(2) this h assms(6) assms(7) [unfolded u]]
    show ?thesis by (intro conjI conjunct1 [OF out] conjunct2 [OF out] ok)
  qed
qed

definition ex_rate_limited :: upstream_failure where
  "ex_rate_limited = \<lparr>uf_status = Some 429, uf_body = Some [], uf_kind = KRateLimited,
     uf_subkind = Some Ambiguous429, uf_cf_ray = None, uf_reset_at = None\<rparr>"

lemma ex_pool_ok: "pool_inv ex_pool"
  by (auto simp: pool_inv_def routes_inv_def modes_synced_def ex_pool_tables cf_inv_fresh
      split: if_splits) (simp_all add: ex_account_def fresh_route_state_def)

theorem failure_rests_account_witness:
  "\<exists>app. app = handle_upstream_failure ''i'' 0 (ex_lease ''p'' 1 ''a'') ex_rate_limited (ex_app ex_pool)
    \<and> pool_inv (ap_runtime app) \<and> published (ex_app ex_pool) app
    \<and> \<not> (\<exists>sha256 l key warmup app2. resolve_lease_outcome sha256 (ex_request ''p'' 1) (secs 10) (secs 10) app
          = (Selected l key warmup, app2) \<and> ls_account_id l = ''a'')"
proof -
  have inv: "pool_inv (ap_runtime (ex_app ex_pool))" by (simp add: ex_pool_ok)
  have h: "known_account (ls_account_id (ex_lease ''p'' 1 ''a'')) (ex_app ex_pool)"
      "fresh_incident ''i'' (ex_app ex_pool)"
      "\<not> should_protect_sole_account (ap_runtime (ex_app ex_pool)) (ls_account_id (ex_lease ''p'' 1 ''a'')) None"
      "rests_until ex_rate_limited 0 = Some (secs 45)"
    by code_simp+
  note r = failure_rests_account [OF inv h(1,2) disjI2 [OF h(3)] h(4), of "secs 10" "secs 10"]
  show ?thesis
  proof (intro exI conjI)
    show "\<not> (\<exists>sha256 l key warmup app2. resolve_lease_outcome sha256 (ex_request ''p'' 1) (secs 10) (secs 10)
        (handle_upstream_failure ''i'' 0 (ex_lease ''p'' 1 ''a'') ex_rate_limited (ex_app ex_pool))
          = (Selected l key warmup, app2) \<and> ls_account_id l = ''a'')"
      using r by (simp add: ex_lease_account) blast
  qed (use r in \<open>simp_all\<close>)
qed

end
