(* ===== verification/Gateway_Laws.thy ===== *)
theory Gateway_Laws
  imports Stream_Laws Gateway_Chat Failure_Laws
begin

text \<open>
  The retry loops of the data plane. The four handlers (responses, chat completions, compaction,
  WebSocket) run the same kind of loop; what they share is proved once, in the locale \<open>retry_loop\<close>, and
  each handler is an interpretation of it.
\<close>

subsection \<open>Retry loops\<close>

text \<open>
  A loop whose iterations go on or end. Going on is paid for: either it uses up a part of a budget, or
  it is a retry after an exhausted quota, which is free.
\<close>

locale retry_loop =
  fixes step :: "'it \<Rightarrow> 'l \<Rightarrow> 's \<Rightarrow> 'r"
    and goes_on :: "'r \<Rightarrow> ('l \<times> 's) option"
    and pause :: "'l \<Rightarrow> 's \<Rightarrow> 'r"
    and run :: "'it list \<Rightarrow> 'l \<Rightarrow> 's \<Rightarrow> 'r"
    and sound :: "'l \<Rightarrow> bool"
    and budget :: "'l \<Rightarrow> nat"
    and quota_retries :: "'l \<Rightarrow> nat"
  assumes run_Nil: "run [] l s = pause l s"
    and run_Cons: "run (it # its) l s = (case goes_on (step it l s) of Some (l, s) \<Rightarrow> run its l s | None \<Rightarrow> step it l s)"
    and pause_goes_on: "goes_on (pause l s) = Some (l, s)"
    and step_sound: "sound l \<Longrightarrow> goes_on (step it l s) = Some (l', s') \<Longrightarrow> sound l'"
    and step_pays: "sound l \<Longrightarrow> goes_on (step it l s) = Some (l', s') \<Longrightarrow>
      budget l' < budget l \<and> quota_retries l' = quota_retries l
      \<or> budget l' \<le> budget l \<and> quota_retries l' = Suc (quota_retries l)"
begin

lemma run_pays:
  assumes "sound l" and "goes_on (run its l s) = Some (l', s')"
  shows "length its + budget l' + quota_retries l \<le> budget l + quota_retries l'"
  using assms
proof (induction its arbitrary: l s)
  case Nil
  then show ?case by (simp add: run_Nil pause_goes_on)
next
  case (Cons it its)
  show ?case
  proof (cases "goes_on (step it l s)")
    case None
    with Cons show ?thesis by (simp add: run_Cons)
  next
    case (Some p)
    then obtain m t where p: "goes_on (step it l s) = Some (m, t)" by (cases p) simp
    have "length its + budget l' + quota_retries m \<le> budget m + quota_retries l'"
      using Cons(1) [OF step_sound [OF Cons(2) p]] Cons(3) by (simp add: run_Cons p)
    with step_pays [OF Cons(2) p] show ?thesis by auto
  qed
qed

text \<open>Enough iterations end the loop, as long as quotas do not run out without end.\<close>

lemma run_ends:
  assumes "sound l" and "goes_on (run its l s) = Some (l', s')"
    and "budget l + quota_retries l' < length its + quota_retries l"
  shows False
  using run_pays [OF assms(1,2)] assms(3) by simp

end

subsection \<open>What an iteration of the responses endpoint does to the loop\<close>

fun continued :: "'l step_result \<times> app_state \<Rightarrow> ('l \<times> app_state) option" where
  "continued (Continues l, app) = Some (l, app)"
| "continued _ = None"

lemma continued_Some: "continued r = Some (l, app) \<longleftrightarrow> r = (Continues l, app)"
  by (cases r rule: continued.cases) auto

lemma continued_simps [simp]:
  "continued (replies_after r outcome) = None" "continued (give_up q it refuse reason app) = None"
  by (cases outcome; simp add: replies_after_def) (simp add: give_up_def)

lemma reselect_continues:
  "continued (reselect lib q it refuse put app) = Some (l, app') \<Longrightarrow> \<exists>s. l = put s"
  by (auto simp: reselect_def split: prod.splits option.splits sum.splits)

definition lp_budget :: "gateway_request \<Rightarrow> responses_loop \<Rightarrow> nat" where
  "lp_budget q lp = max 1 (gq_max_non_quota_failovers q) - lp_non_quota_failovers lp
     + of_bool (\<not> lp_transparent_compaction_attempted lp) + of_bool (previous_response_id_of (lp_payload lp) \<noteq> None)"

definition lp_quota_retries :: "responses_loop \<Rightarrow> nat" where
  "lp_quota_retries lp = lp_attempt lp - lp_non_quota_failovers lp"

definition lp_sound :: "responses_loop \<Rightarrow> bool" where
  "lp_sound lp \<longleftrightarrow> lp_non_quota_failovers lp \<le> lp_attempt lp"

lemma forgotten [simp]: "previous_response_id_of (forget_previous_response p) = None"
  by (simp add: previous_response_id_of_def forget_previous_response_def)

text \<open>The loop's payment, as a relation between its state before and after.\<close>

definition lp_pays :: "gateway_request \<Rightarrow> responses_loop \<Rightarrow> responses_loop \<Rightarrow> bool" where
  "lp_pays q lp lp' \<longleftrightarrow> lp_sound lp' \<and>
     (lp_budget q lp' < lp_budget q lp \<and> lp_quota_retries lp' = lp_quota_retries lp
      \<or> lp_budget q lp' \<le> lp_budget q lp \<and> lp_quota_retries lp' = Suc (lp_quota_retries lp))"

lemmas lp_pays_defs = lp_pays_def lp_sound_def lp_budget_def lp_quota_retries_def

lemma lp_fields [simp]:
  "lp_budget q (lp\<lparr>lp_selection := x\<rparr>) = lp_budget q lp" "lp_quota_retries (lp\<lparr>lp_selection := x\<rparr>) = lp_quota_retries lp"
  "lp_sound (lp\<lparr>lp_selection := x\<rparr>) = lp_sound lp"
  "lp_budget q (lp\<lparr>lp_queued_same_lease := x\<rparr>) = lp_budget q lp"
  "lp_quota_retries (lp\<lparr>lp_queued_same_lease := x\<rparr>) = lp_quota_retries lp"
  "lp_sound (lp\<lparr>lp_queued_same_lease := x\<rparr>) = lp_sound lp"
  "lp_budget q (lp\<lparr>lp_recorded_input := b\<rparr>) = lp_budget q lp"
  "lp_quota_retries (lp\<lparr>lp_recorded_input := b\<rparr>) = lp_quota_retries lp"
  "lp_sound (lp\<lparr>lp_recorded_input := b\<rparr>) = lp_sound lp"
  by (simp_all add: lp_budget_def lp_quota_retries_def lp_sound_def)

lemma lp_pays_fields [simp]:
  "lp_pays q (lp\<lparr>lp_selection := x\<rparr>) lp' = lp_pays q lp lp'"
  "lp_pays q (lp\<lparr>lp_queued_same_lease := x\<rparr>) lp' = lp_pays q lp lp'"
  "lp_pays q (lp\<lparr>lp_recorded_input := b\<rparr>) lp' = lp_pays q lp lp'"
  "lp_pays q lp (select_lp lp' s) = lp_pays q lp lp'"
  by (simp_all add: lp_pays_def select_lp_def)

lemma same_lease_pays:
  assumes "lp_sound lp" and "same_lease_retry lib q it lp s credential plan kind compactable = Some lp'"
  shows "lp_pays q lp lp'"
proof (cases "previous_response_id_of (lp_payload lp) \<noteq> None \<and> kind = KContinuation \<and> \<not> lp_continuation_recovery lp")
  case True
  then have "lp' = recover_continuation lp s" using assms(2) by (simp add: same_lease_retry_def)
  then show ?thesis using assms(1) True by (simp add: lp_pays_defs recover_continuation_def)
next
  case False
  then obtain items where "lp' = retry_compacted lp s items" "\<not> lp_transparent_compaction_attempted lp"
    using assms(2) by (auto simp: same_lease_retry_def split: if_splits)
  then show ?thesis using assms(1) by (simp add: lp_pays_defs retry_compacted_def)
qed

lemma note_retry_pays:
  assumes "lp_sound lp" and "kind = KQuota \<or> lp_non_quota_failovers lp < gq_max_non_quota_failovers q"
  shows "lp_pays q lp (note_retry kind lp)"
  using assms by (auto simp: lp_pays_defs note_retry_def note_retry_attempt_def)

lemma should_retry_hidden: "should_retry_hidden_failure kind n m \<Longrightarrow> kind = KQuota \<or> n < m"
  by (auto simp: should_retry_hidden_failure_def should_retry_via_selection_def split: if_splits)

lemma should_retry_upstream: "should_retry_upstream_failure error n m \<Longrightarrow> uf_kind error = KQuota \<or> n < m"
  by (auto simp: should_retry_upstream_failure_def should_retry_via_selection_def split: if_splits)

lemma missing_credential_pays:
  "lp_sound lp \<Longrightarrow> lp_non_quota_failovers lp = 0 \<Longrightarrow>
     lp_pays q lp (lp\<lparr>lp_attempt := lp_attempt lp + 1, lp_non_quota_failovers := lp_non_quota_failovers lp + 1\<rparr>)"
  by (simp add: lp_pays_defs)

lemma reselect_pays:
  assumes "continued (reselect lib q it refuse (select_lp lp) app) = Some (lp', app')" and "lp_pays q lp0 lp"
  shows "lp_pays q lp0 lp'"
  using reselect_continues [OF assms(1)] assms(2) by auto

lemma hidden_failure_pays:
  assumes "lp_sound lp" and "continued (responses_hidden_failure lib q it lp s credential plan kind app) = Some (lp', app')"
  shows "lp_pays q lp lp'"
  using assms same_lease_pays [OF assms(1)] note_retry_pays [OF assms(1) should_retry_hidden] reselect_pays
  by (auto simp: responses_hidden_failure_def Let_def split: option.splits if_splits)

lemma upstream_failure_pays:
  assumes "lp_sound lp" and "continued (responses_upstream_failure lib q it lp s credential plan error app) = Some (lp', app')"
  shows "lp_pays q lp lp'"
  using assms same_lease_pays [OF assms(1)] note_retry_pays [OF assms(1) should_retry_upstream] reselect_pays
  by (auto simp: responses_upstream_failure_def Let_def split: option.splits if_splits)

lemma answer_pays:
  assumes "lp_sound lp" and "continued (responses_answer lib q it lp s credential plan r app) = Some (lp', app')"
  shows "lp_pays q lp lp'"
  using assms(2) hidden_failure_pays [OF assms(1)]
  by (auto simp: responses_answer_def split: if_splits sum.splits prod.splits)

lemma with_lease_pays:
  assumes "lp_sound lp" and "continued (responses_with_lease lib q it lp s app) = Some (lp', app')"
  shows "lp_pays q lp lp'"
proof -
  define lp1 where "lp1 = lp\<lparr>lp_recorded_input := True\<rparr>"
  have sound: "lp_sound lp1" and pays: "lp_pays q lp1 lp' = lp_pays q lp lp'" using assms(1) by (simp_all add: lp1_def)
  have "lp_pays q lp1 lp'"
    using assms(2) answer_pays [OF sound] upstream_failure_pays [OF sound] reselect_pays
      missing_credential_pays [OF sound]
    unfolding responses_with_lease_def Let_def lp1_def [symmetric]
    by (auto split: option.splits sum.splits if_splits)
  with pays show ?thesis by simp
qed

lemma iteration_pays:
  assumes "lp_sound lp" and "continued (responses_iteration lib q it lp app) = Some (lp', app')"
  shows "lp_pays q lp lp'"
  using assms with_lease_pays [of "lp\<lparr>lp_queued_same_lease := x\<rparr>" for x] with_lease_pays [of "lp\<lparr>lp_selection := x\<rparr>" for x]
  by (auto simp: responses_iteration_def split: option.splits)

interpretation responses_retries: retry_loop "responses_iteration lib q" continued "\<lambda>lp app. (Continues lp, app)"
  "responses_iterations lib q" lp_sound "lp_budget q" lp_quota_retries for lib q
proof unfold_locales
  fix lp lp' app app' it its
  show "responses_iterations lib q [] lp app = (Continues lp, app)" by simp
  show "continued (Continues lp, app) = Some (lp, app)" by simp
  show "responses_iterations lib q (it # its) lp app =
      (case continued (responses_iteration lib q it lp app) of
         Some (lp, app) \<Rightarrow> responses_iterations lib q its lp app | None \<Rightarrow> responses_iteration lib q it lp app)"
    by (cases "responses_iteration lib q it lp app" rule: continued.cases) simp_all
  assume "lp_sound lp" "continued (responses_iteration lib q it lp app) = Some (lp', app')"
  from iteration_pays [OF this] show "lp_sound lp'"
    and "lp_budget q lp' < lp_budget q lp \<and> lp_quota_retries lp' = lp_quota_retries lp
      \<or> lp_budget q lp' \<le> lp_budget q lp \<and> lp_quota_retries lp' = Suc (lp_quota_retries lp)"
    by (simp_all add: lp_pays_def)
qed

subsection \<open>The same for the other endpoints\<close>

definition qh_budget :: "gateway_request \<Rightarrow> chat_loop_state \<Rightarrow> nat" where
  "qh_budget q h = max 1 (gq_max_non_quota_failovers q) - qh_non_quota_failovers h
     + of_bool (\<not> qh_transparent_compaction_attempted h)"

definition qh_quota_retries :: "chat_loop_state \<Rightarrow> nat" where
  "qh_quota_retries h = qh_attempt h - qh_non_quota_failovers h"

definition qh_sound :: "chat_loop_state \<Rightarrow> bool" where
  "qh_sound h \<longleftrightarrow> qh_non_quota_failovers h \<le> qh_attempt h"

definition qh_pays :: "gateway_request \<Rightarrow> chat_loop_state \<Rightarrow> chat_loop_state \<Rightarrow> bool" where
  "qh_pays q h h' \<longleftrightarrow> qh_sound h' \<and>
     (qh_budget q h' < qh_budget q h \<and> qh_quota_retries h' = qh_quota_retries h
      \<or> qh_budget q h' \<le> qh_budget q h \<and> qh_quota_retries h' = Suc (qh_quota_retries h))"

lemmas qh_pays_defs = qh_pays_def qh_sound_def qh_budget_def qh_quota_retries_def

lemma compacted_chat_pays:
  assumes "qh_sound h" and "compacted_chat lib q it h lease credential plan compactable = Some h'"
  shows "qh_pays q h h'"
  using assms by (auto simp: compacted_chat_def qh_pays_defs split: if_splits)

lemma chat_retry_pays:
  assumes "qh_sound h" and "kind = KQuota \<or> qh_non_quota_failovers h < gq_max_non_quota_failovers q"
  shows "qh_pays q h (note_chat_retry kind h)"
  using assms by (auto simp: qh_pays_defs note_chat_retry_def note_retry_attempt_def)

lemma qh_pays_select [simp]: "qh_pays q h0 (select_chat h s) = qh_pays q h0 h"
  by (simp add: select_chat_def qh_pays_defs)

lemma reselect_chat_pays:
  assumes "continued (reselect lib q it refuse (select_chat h) app) = Some (h', app')" and "qh_pays q h0 h"
  shows "qh_pays q h0 h'"
  using reselect_continues [OF assms(1)] assms(2) by auto

lemma chat_hidden_failure_pays:
  assumes "qh_sound h" and "continued (chat_hidden_failure lib q it h lease credential plan kind app) = Some (h', app')"
  shows "qh_pays q h h'"
  using assms compacted_chat_pays [OF assms(1)] chat_retry_pays [OF assms(1) should_retry_hidden] reselect_chat_pays
  by (auto simp: chat_hidden_failure_def Let_def split: option.splits if_splits)

lemma chat_upstream_failure_pays:
  assumes "qh_sound h" and "continued (chat_upstream_failure lib q it h lease credential plan error app) = Some (h', app')"
  shows "qh_pays q h h'"
  using assms compacted_chat_pays [OF assms(1)] chat_retry_pays [OF assms(1) should_retry_upstream] reselect_chat_pays
  by (auto simp: chat_upstream_failure_def Let_def split: option.splits if_splits)

lemma chat_answer_pays:
  assumes "qh_sound h" and "continued (chat_answer lib q it h lease credential plan r app) = Some (h', app')"
  shows "qh_pays q h h'"
  using assms(2) chat_hidden_failure_pays [OF assms(1)]
  by (auto simp: chat_answer_def Let_def split: if_splits sum.splits prod.splits)

lemma chat_iteration_pays:
  assumes "qh_sound h" and "continued (chat_iteration lib q it h app) = Some (h', app')"
  shows "qh_pays q h h'"
proof -
  obtain lease key where s: "qh_selection h = Some (lease, key)"
    using assms(2) by (auto simp: chat_iteration_def split: option.splits)
  define h1 where "h1 = h\<lparr>qh_selection := None, qh_recorded_input := True\<rparr>"
  have sound: "qh_sound h1" and pays: "qh_pays q h1 h' = qh_pays q h h'" using assms(1) by (simp_all add: h1_def qh_pays_defs)
  have missing: "qh_non_quota_failovers h1 = 0 \<Longrightarrow>
      qh_pays q h1 (h1\<lparr>qh_attempt := qh_attempt h1 + 1, qh_non_quota_failovers := qh_non_quota_failovers h1 + 1\<rparr>)"
    using sound by (simp add: qh_pays_defs)
  have "qh_pays q h1 h'"
    using assms(2) chat_answer_pays [OF sound] chat_upstream_failure_pays [OF sound] reselect_chat_pays missing
    unfolding chat_iteration_def s Let_def h1_def [symmetric]
    by (auto split: option.splits sum.splits if_splits)
  with pays show ?thesis by simp
qed

interpretation chat_retries: retry_loop "chat_iteration lib q" continued "\<lambda>h app. (Continues h, app)"
  "chat_iterations lib q" qh_sound "qh_budget q" qh_quota_retries for lib q
proof unfold_locales
  fix h h' app app' it its
  show "chat_iterations lib q [] h app = (Continues h, app)" by simp
  show "continued (Continues h, app) = Some (h, app)" by simp
  show "chat_iterations lib q (it # its) h app =
      (case continued (chat_iteration lib q it h app) of
         Some (h, app) \<Rightarrow> chat_iterations lib q its h app | None \<Rightarrow> chat_iteration lib q it h app)"
    by (cases "chat_iteration lib q it h app" rule: continued.cases) simp_all
  assume "qh_sound h" "continued (chat_iteration lib q it h app) = Some (h', app')"
  from chat_iteration_pays [OF this] show "qh_sound h'"
    and "qh_budget q h' < qh_budget q h \<and> qh_quota_retries h' = qh_quota_retries h
      \<or> qh_budget q h' \<le> qh_budget q h \<and> qh_quota_retries h' = Suc (qh_quota_retries h)"
    by (simp_all add: qh_pays_def)
qed

definition qc_budget :: "gateway_request \<Rightarrow> compact_loop \<Rightarrow> nat" where
  "qc_budget q c = max 1 (gq_max_non_quota_failovers q) - qc_non_quota_failovers c"

definition qc_quota_retries :: "compact_loop \<Rightarrow> nat" where
  "qc_quota_retries c = qc_attempt c - qc_non_quota_failovers c"

definition qc_sound :: "compact_loop \<Rightarrow> bool" where
  "qc_sound c \<longleftrightarrow> qc_non_quota_failovers c \<le> qc_attempt c"

definition qc_pays :: "gateway_request \<Rightarrow> compact_loop \<Rightarrow> compact_loop \<Rightarrow> bool" where
  "qc_pays q c c' \<longleftrightarrow> qc_sound c' \<and>
     (qc_budget q c' < qc_budget q c \<and> qc_quota_retries c' = qc_quota_retries c
      \<or> qc_budget q c' \<le> qc_budget q c \<and> qc_quota_retries c' = Suc (qc_quota_retries c))"

lemmas qc_pays_defs = qc_pays_def qc_sound_def qc_budget_def qc_quota_retries_def

lemma compact_retry_pays:
  assumes "qc_sound c" and "kind = KQuota \<or> qc_non_quota_failovers c < gq_max_non_quota_failovers q"
  shows "qc_pays q c (note_compact_retry kind c)"
  using assms by (auto simp: qc_pays_defs note_compact_retry_def note_retry_attempt_def)

lemma qc_pays_select [simp]: "qc_pays q c0 (select_compact c s) = qc_pays q c0 c"
  by (simp add: select_compact_def qc_pays_defs)

lemma reselect_compact_pays:
  assumes "continued (reselect lib q it refuse (select_compact c) app) = Some (c', app')" and "qc_pays q c0 c"
  shows "qc_pays q c0 c'"
  using reselect_continues [OF assms(1)] assms(2) by auto

lemma compact_iteration_pays:
  assumes "qc_sound c" and "continued (compact_iteration lib q it c app) = Some (c', app')"
  shows "qc_pays q c c'"
proof -
  obtain lease key where s: "qc_selection c = Some (lease, key)"
    using assms(2) by (auto simp: compact_iteration_def split: option.splits)
  define c1 where "c1 = c\<lparr>qc_selection := None\<rparr>"
  have sound: "qc_sound c1" and pays: "qc_pays q c1 c' = qc_pays q c c'" using assms(1) by (simp_all add: c1_def qc_pays_defs)
  have missing: "qc_non_quota_failovers c1 = 0 \<Longrightarrow>
      qc_pays q c1 (c1\<lparr>qc_attempt := qc_attempt c1 + 1, qc_non_quota_failovers := qc_non_quota_failovers c1 + 1\<rparr>)"
    using sound by (simp add: qc_pays_defs)
  have success: "continued (compact_success q it lease success app0) = None" for success app0
    by (simp add: compact_success_def Let_def)
  have failed: "qc_pays q c1 c'" if "continued (compact_failure lib q it c1 lease error app0) = Some (c', app')" for error app0
    using that chat_retry_pays compact_retry_pays [OF sound should_retry_upstream] reselect_compact_pays
    by (auto simp: compact_failure_def Let_def split: if_splits)
  have "qc_pays q c1 c'"
    using assms(2) failed success reselect_compact_pays missing compact_retry_pays [OF sound should_retry_hidden]
    unfolding compact_iteration_def s Let_def c1_def [symmetric]
    by (auto split: option.splits sum.splits if_splits)
  with pays show ?thesis by simp
qed

interpretation compact_retries: retry_loop "compact_iteration lib q" continued "\<lambda>c app. (Continues c, app)"
  "compact_iterations lib q" qc_sound "qc_budget q" qc_quota_retries for lib q
proof unfold_locales
  fix c c' app app' it its
  show "compact_iterations lib q [] c app = (Continues c, app)" by simp
  show "continued (Continues c, app) = Some (c, app)" by simp
  show "compact_iterations lib q (it # its) c app =
      (case continued (compact_iteration lib q it c app) of
         Some (c, app) \<Rightarrow> compact_iterations lib q its c app | None \<Rightarrow> compact_iteration lib q it c app)"
    by (cases "compact_iteration lib q it c app" rule: continued.cases) simp_all
  assume "qc_sound c" "continued (compact_iteration lib q it c app) = Some (c', app')"
  from compact_iteration_pays [OF this] show "qc_sound c'"
    and "qc_budget q c' < qc_budget q c \<and> qc_quota_retries c' = qc_quota_retries c
      \<or> qc_budget q c' \<le> qc_budget q c \<and> qc_quota_retries c' = Suc (qc_quota_retries c)"
    by (simp_all add: qc_pays_def)
qed

fun ws_continued :: "ws_step \<times> ws_state \<Rightarrow> (responses_loop \<times> ws_state) option" where
  "ws_continued (Ws_Again lp, w) = Some (lp, w)"
| "ws_continued _ = None"

lemma ws_reselect_pays:
  assumes "ws_continued (ws_reselect lib q it lp w) = Some (lp', w')" and "lp_pays q lp0 lp"
  shows "lp_pays q lp0 lp'"
  using assms by (auto simp: ws_reselect_def split: prod.splits ws_selection.splits)

lemma ws_give_up_ends [simp]: "ws_continued (ws_give_up lib q it reason w) = None"
  by (simp add: ws_give_up_def Let_def case_prod_unfold)

lemma ws_hidden_failure_pays:
  assumes "lp_sound lp" and "ws_continued (ws_hidden_failure lib q it lp s credential plan kind w) = Some (lp', w')"
  shows "lp_pays q lp lp'"
  using assms(2) same_lease_pays [OF assms(1)] note_retry_pays [OF assms(1) should_retry_hidden] ws_reselect_pays
  by (auto simp: ws_hidden_failure_def Let_def split: option.splits if_splits)

lemma ws_upstream_failure_pays:
  assumes "lp_sound lp" and "ws_continued (ws_upstream_failure lib q it lp s credential plan error w) = Some (lp', w')"
  shows "lp_pays q lp lp'"
  using assms(2) same_lease_pays [OF assms(1)] note_retry_pays [OF assms(1) should_retry_upstream] ws_reselect_pays
  by (auto simp: ws_upstream_failure_def Let_def split: option.splits if_splits)

lemma ws_with_lease_pays:
  assumes "lp_sound lp" and "ws_continued (ws_with_lease lib q it lp s w) = Some (lp', w')"
  shows "lp_pays q lp lp'"
proof -
  define lp1 where "lp1 = lp\<lparr>lp_recorded_input := True\<rparr>"
  have sound: "lp_sound lp1" and pays: "lp_pays q lp1 lp' = lp_pays q lp lp'" using assms(1) by (simp_all add: lp1_def)
  have "lp_pays q lp1 lp'"
    using assms(2) ws_hidden_failure_pays [OF sound] ws_upstream_failure_pays [OF sound] ws_reselect_pays
      missing_credential_pays [OF sound]
    unfolding ws_with_lease_def Let_def lp1_def [symmetric]
    by (auto split: option.splits sum.splits if_splits prod.splits outcome.splits)
  with pays show ?thesis by simp
qed

lemma ws_iteration_pays:
  assumes "lp_sound lp" and "ws_continued (ws_iteration lib q it lp w) = Some (lp', w')"
  shows "lp_pays q lp lp'"
  using assms ws_with_lease_pays [of "lp\<lparr>lp_queued_same_lease := x\<rparr>" for x] ws_with_lease_pays [of "lp\<lparr>lp_selection := x\<rparr>" for x]
  by (auto simp: ws_iteration_def case_prod_unfold split: option.splits)

interpretation ws_retries: retry_loop "ws_iteration lib q" ws_continued "\<lambda>lp w. (Ws_Again lp, w)"
  "ws_iterations lib q" lp_sound "lp_budget q" lp_quota_retries for lib q
proof unfold_locales
  fix lp lp' w w' it its
  show "ws_iterations lib q [] lp w = (Ws_Again lp, w)" by simp
  show "ws_continued (Ws_Again lp, w) = Some (lp, w)" by simp
  show "ws_iterations lib q (it # its) lp w =
      (case ws_continued (ws_iteration lib q it lp w) of
         Some (lp, w) \<Rightarrow> ws_iterations lib q its lp w | None \<Rightarrow> ws_iteration lib q it lp w)"
    by (cases "ws_iteration lib q it lp w" rule: ws_continued.cases) simp_all
  assume "lp_sound lp" "ws_continued (ws_iteration lib q it lp w) = Some (lp', w')"
  from ws_iteration_pays [OF this] show "lp_sound lp'"
    and "lp_budget q lp' < lp_budget q lp \<and> lp_quota_retries lp' = lp_quota_retries lp
      \<or> lp_budget q lp' \<le> lp_budget q lp \<and> lp_quota_retries lp' = Suc (lp_quota_retries lp)"
    by (simp_all add: lp_pays_def)
qed

lemma lp_budget_fresh: "lp_non_quota_failovers lp = 0 \<Longrightarrow> lp_budget q lp \<le> max 1 (gq_max_non_quota_failovers q) + 2"
  by (simp add: lp_budget_def of_bool_def)

lemma qh_budget_fresh: "qh_non_quota_failovers h = 0 \<Longrightarrow> qh_budget q h \<le> max 1 (gq_max_non_quota_failovers q) + 1"
  by (simp add: qh_budget_def of_bool_def)


subsection \<open>Answers read as failures\<close>

lemma classify_words:
  assumes "str_contains (to_ascii_lowercase body) word"
    and "word \<in> {''previous_response_id'', ''auth'', ''quota'', ''billing'', ''unsupported'', ''cloudflare''}"
  shows "classify_failure_body body \<noteq> None"
    and "word = ''auth'' \<Longrightarrow> \<not> contains_any (to_ascii_lowercase body) cf_needles \<Longrightarrow> classify_failure_body body = Some KAuth"
  using assms
  by (auto simp: classify_failure_body_def Let_def contains_any_def cf_needles_def length_needles_def continuation_needles_def)

lemma refused_is_no_answer:
  "fst (reselect lib q it refuse put app) \<noteq> Replies (Whole success)"
  "fst (give_up q it refuse reason app) \<noteq> Replies (Whole success)"
  by (auto simp: reselect_def give_up_def split: prod.splits option.splits sum.splits)

lemma hidden_failure_is_no_answer:
  "fst (responses_hidden_failure lib q it lp s credential plan kind app) \<noteq> Replies (Whole success)"
  by (auto simp: responses_hidden_failure_def Let_def refused_is_no_answer split: option.splits)

text \<open>C39 (answer_words_refuse).
  The text of a complete answer decides whether it is one: when a client wants one body from an account
  of the public API, an answer whose text has one of these words anywhere - in what the model wrote, or
  as the field "previous_response_id" that response objects carry - is never delivered but handled as a
  hidden failure of the account; "auth" (as in "author") makes it an authentication failure.\<close>

theorem answer_words_refuse:
  assumes "\<not> gq_stream_requested q" and "\<not> is_codex_chatgpt_backend (cr_base_url credential)"
    and "body_bytes (tr_body r) = Some body" and "from_utf8 body = Some body"
    and "str_contains (to_ascii_lowercase body) word"
    and "word \<in> {''previous_response_id'', ''auth'', ''quota'', ''billing'', ''unsupported'', ''cloudflare''}"
  shows "(\<exists>kind. responses_answer lib q it lp s credential plan r app =
        responses_hidden_failure lib q it lp s credential plan kind app)
    \<and> (\<forall>success. fst (responses_answer lib q it lp s credential plan r app) \<noteq> Replies (Whole success))
    \<and> (word = ''auth'' \<and> \<not> contains_any (to_ascii_lowercase body) cf_needles
        \<and> Option.bind (lb_parse lib body) (\<lambda>v. hidden_failure_kind_from_json (lb_float lib) v (gq_model q) (tr_headers r)) = None
       \<longrightarrow> responses_answer lib q it lp s credential plan r app =
            responses_hidden_failure lib q it lp s credential plan KAuth app)"
proof -
  let ?hidden = "Option.bind (lb_parse lib body) (\<lambda>v. hidden_failure_kind_from_json (lb_float lib) v (gq_model q) (tr_headers r))"
  have a: "responses_answer lib q it lp s credential plan r app =
      responses_hidden_failure lib q it lp s credential plan kind app"
    if "or_else ?hidden (classify_failure_body body) = Some kind" for kind
    using that assms(1-4)
    by (simp add: responses_answer_def upstream_json_response_def whole_body_def Let_def str_or_def)
  obtain kind where k: "or_else ?hidden (classify_failure_body body) = Some kind"
    using classify_words(1) [OF assms(5,6)] by (cases ?hidden) (auto simp: or_else_def)
  show ?thesis
    using a [OF k] a [of KAuth] classify_words(2) [OF assms(5,6)] hidden_failure_is_no_answer
    by (auto simp: or_else_def)
qed

subsection \<open>Compaction in a chat request\<close>

text \<open>An iteration compacted the context iff it set the flag; then it left no lease behind.\<close>

lemma reselect_flag:
  "reselect lib q it refuse (select_chat h) app = (Continues h', app') \<Longrightarrow>
     qh_transparent_compaction_attempted h' = qh_transparent_compaction_attempted h"
  using reselect_continues [of lib q it refuse "select_chat h" app h' app'] by (auto simp: continued_Some select_chat_def)

lemma note_chat_retry_flag [simp]:
  "qh_transparent_compaction_attempted (note_chat_retry kind h) = qh_transparent_compaction_attempted h"
  by (simp add: note_chat_retry_def note_retry_attempt_def)

lemma compacted_chat_selection:
  "compacted_chat lib q it h lease credential plan compactable = Some h' \<Longrightarrow> qh_selection h' = qh_selection h"
  by (auto simp: compacted_chat_def split: if_splits)

lemma chat_hidden_failure_compacts:
  "chat_hidden_failure lib q it h lease credential plan kind app = (Continues h', app') \<Longrightarrow>
     \<not> qh_transparent_compaction_attempted h \<Longrightarrow> qh_transparent_compaction_attempted h' \<Longrightarrow> qh_selection h' = qh_selection h"
  by (auto simp: chat_hidden_failure_def Let_def give_up_def dest: reselect_flag compacted_chat_selection
      split: option.splits if_splits)

lemma chat_upstream_failure_compacts:
  "chat_upstream_failure lib q it h lease credential plan error app = (Continues h', app') \<Longrightarrow>
     \<not> qh_transparent_compaction_attempted h \<Longrightarrow> qh_transparent_compaction_attempted h' \<Longrightarrow> qh_selection h' = qh_selection h"
  by (auto simp: chat_upstream_failure_def Let_def give_up_def dest: reselect_flag compacted_chat_selection
      split: option.splits if_splits)

lemma replies_after_ends [simp]: "replies_after r outcome \<noteq> (Continues l, app)"
  by (cases outcome) (simp_all add: replies_after_def)

lemma chat_answer_compacts:
  "chat_answer lib q it h lease credential plan r app = (Continues h', app') \<Longrightarrow>
     \<not> qh_transparent_compaction_attempted h \<Longrightarrow> qh_transparent_compaction_attempted h' \<Longrightarrow> qh_selection h' = qh_selection h"
  by (auto simp: chat_answer_def Let_def dest: chat_hidden_failure_compacts split: if_splits sum.splits prod.splits)

lemma chat_iteration_compacts:
  assumes "chat_iteration lib q it h app = (Continues h', app')"
    and "\<not> qh_transparent_compaction_attempted h" and "qh_transparent_compaction_attempted h'"
  shows "qh_selection h' = None"
proof -
  obtain lease key where s: "qh_selection h = Some (lease, key)"
    using assms(1) by (auto simp: chat_iteration_def split: option.splits)
  define h1 where "h1 = h\<lparr>qh_selection := None, qh_recorded_input := True\<rparr>"
  have h1: "\<not> qh_transparent_compaction_attempted h1" "qh_selection h1 = None" using assms(2) by (simp_all add: h1_def)
  have missing: "\<not> qh_transparent_compaction_attempted h'"
    if "reselect lib q it refuse (select_chat (h1\<lparr>qh_attempt := a, qh_non_quota_failovers := n\<rparr>)) app1 = (Continues h', app')"
    for refuse a n app1 using reselect_flag [OF that] h1(1) by simp
  have "qh_selection h' = qh_selection h1"
    using assms(1,3) chat_answer_compacts [OF _ h1(1)] chat_upstream_failure_compacts [OF _ h1(1)]
    unfolding chat_iteration_def s Let_def h1_def [symmetric]
    by (auto simp: give_up_def dest!: missing split: option.splits sum.splits if_splits)
  with h1(2) show ?thesis by simp
qed

text \<open>C40 (chat_compaction_dead_end).
  When a chat request runs into the context limit and the gateway compacts its context successfully, the
  request is lost: the lease was taken out of the loop's state and is not put back, so the iteration
  that follows always refuses with an upstream failure - without sending the compacted context anywhere,
  and leaving the state as it is, the pending turn included.\<close>

theorem chat_compaction_dead_end:
  assumes "chat_iteration lib q it h app = (Continues h', app')"
    and "\<not> qh_transparent_compaction_attempted h" and "qh_transparent_compaction_attempted h'"
  shows "chat_iterations lib q (it # next_it # its) h app = (Replies (Refused (refuse_chat next_it GUpstreamFailure)), app')"
  using chat_iteration_compacts [OF assms] assms(1) by (simp add: chat_iteration_def [of lib q next_it h'])

subsection \<open>Requests of the witnesses\<close>

definition ex_forward :: forward_context where
  "ex_forward = \<lparr>fc_conversation_id = ''s'', fc_request_id = ''r'', fc_subagent = None, fc_originator = None,
     fc_window_id = None, fc_parent_thread_id = None\<rparr>"

definition ex_gateway :: "bool \<Rightarrow> gateway_request" where
  "ex_gateway stream = \<lparr>gq_seed = ex_seed, gq_selection = ex_request ''p'' 1, gq_context = ex_forward, gq_principal_id = ''p'',
     gq_model = ''m'', gq_stream_requested = stream, gq_max_non_quota_failovers = 1\<rparr>"

definition ex_answer :: "status_code \<Rightarrow> str \<Rightarrow> response" where
  "ex_answer status body = \<lparr>tr_status = status, tr_headers = [], tr_body = [Arrives body]\<rparr>"

definition ex_essay :: str where
  "ex_essay = ''{'' @ [CHR 0x22] @ ''output'' @ [CHR 0x22] @ '':'' @ [CHR 0x22] @ ''The author'' @ [CHR 0x22] @ ''}''"

definition ex_json :: "str \<Rightarrow> json option" where
  "ex_json s = (if s = ''compacted'' then Some (json_obj [(''output'', JArray [JString ''summary''])])
     else if s = ex_essay then Some (json_obj [(''output'', JString ''The author'')]) else None)"

definition ex_library :: library where
  "ex_library = \<lparr>lb_parse = ex_json, lb_render = (\<lambda>_. []), lb_float = (\<lambda>_. []), lb_sha256 = (\<lambda>_. []),
     lb_zstd = (\<lambda>_. None), lb_status_reason = (\<lambda>_. None)\<rparr>"

definition ex_too_long :: upstream where
  "ex_too_long mode request =
    (if ends_with (ur_url request) ''/compact'' then Some (ex_answer 200 ''compacted'')
     else Some (ex_answer 400 ''context_length_exceeded''))"

definition ex_iteration :: "upstream \<Rightarrow> iteration" where
  "ex_iteration up = \<lparr>it_turn = (0, 0), it_readings = ex_readings, it_upstream = up, it_rounds = [(id, 5, 5)],
     it_others = (\<lambda>_. id), it_created = 0\<rparr>"

definition ex_chat_loop :: chat_loop_state where
  "ex_chat_loop = \<lparr>qh_payload = \<lparr>ch_model = ''m'', ch_messages = [], ch_stream = None, ch_reasoning_effort = None, ch_extra = []\<rparr>,
     qh_message_summary = [], qh_selection = Some (ex_lease ''p'' 1 ''a'', ''k''), qh_recorded_input = False,
     qh_transparent_compaction_attempted = False, qh_compacted_retry_input = None, qh_attempt = 0, qh_non_quota_failovers = 0\<rparr>"

definition ex_compacted :: "chat_loop_state \<times> app_state" where
  "ex_compacted = (case chat_iteration ex_library (ex_gateway False) (ex_iteration ex_too_long) ex_chat_loop (ex_app ex_pool) of
     (Continues h, app) \<Rightarrow> (h, app) | (_, app) \<Rightarrow> (ex_chat_loop, app))"

lemma ex_compacts: "qh_transparent_compaction_attempted (fst ex_compacted) \<and> \<not> qh_transparent_compaction_attempted ex_chat_loop"
  by code_simp

theorem chat_compaction_dead_end_witness:
  "chat_iterations ex_library (ex_gateway False) [ex_iteration ex_too_long, ex_iteration ex_too_long] ex_chat_loop (ex_app ex_pool)
    = (Replies (Refused (refuse_chat (ex_iteration ex_too_long) GUpstreamFailure)), snd ex_compacted)"
proof -
  obtain h' app' where r: "chat_iteration ex_library (ex_gateway False) (ex_iteration ex_too_long) ex_chat_loop (ex_app ex_pool)
      = (Continues h', app')"
    using ex_compacts by (auto simp: ex_compacted_def split: prod.splits step_result.splits)
  then have c: "ex_compacted = (h', app')" by (simp add: ex_compacted_def)
  from chat_compaction_dead_end [OF r conjunct2 [OF ex_compacts] conjunct1 [OF ex_compacts, unfolded c fst_conv], of "ex_iteration ex_too_long" "[]"] show ?thesis by (simp only: c snd_conv)
qed


definition ex_loop :: responses_loop where
  "ex_loop = \<lparr>lp_payload = \<lparr>rb_model = ''m'', rb_input = JString ''hello'', rb_stream = None, rb_reasoning = None,
       rb_prompt_cache_key = None, rb_extra = []\<rparr>, lp_input_summary = [], lp_queued_same_lease = None,
     lp_selection = Some (ex_lease ''p'' 1 ''a'', ''k''), lp_recorded_input = False, lp_continuation_recovery = False,
     lp_transparent_compaction_attempted = False, lp_compacted_retry_active = False, lp_attempt = 0,
     lp_non_quota_failovers = 0\<rparr>"

theorem answer_words_refuse_witness:
  "responses_answer ex_library (ex_gateway False) (ex_iteration ex_too_long) ex_loop (ex_lease ''p'' 1 ''a'', ''k'')
      (ex_credential ''a'') replay_plan_default (ex_answer 200 ex_essay) (ex_app ex_pool) =
   responses_hidden_failure ex_library (ex_gateway False) (ex_iteration ex_too_long) ex_loop (ex_lease ''p'' 1 ''a'', ''k'')
      (ex_credential ''a'') replay_plan_default KAuth (ex_app ex_pool)"
proof -
  have h: "\<not> gq_stream_requested (ex_gateway False)" "\<not> is_codex_chatgpt_backend (cr_base_url (ex_credential ''a''))"
    "body_bytes (tr_body (ex_answer 200 ex_essay)) = Some ex_essay" "from_utf8 ex_essay = Some ex_essay"
    "str_contains (to_ascii_lowercase ex_essay) ''auth''" by code_simp+
  have w: "''auth'' \<in> {''previous_response_id'', ''auth'', ''quota'', ''billing'', ''unsupported'', ''cloudflare''}" by simp
  have c: "\<not> contains_any (to_ascii_lowercase ex_essay) cf_needles" "Option.bind (lb_parse ex_library ex_essay)
      (\<lambda>v. hidden_failure_kind_from_json (lb_float ex_library) v (gq_model (ex_gateway False)) (tr_headers (ex_answer 200 ex_essay)))
     = None" by code_simp+
  from answer_words_refuse [OF h w, THEN conjunct2, THEN conjunct2, rule_format] c show ?thesis by blast
qed

end
