(* ===== verification/Pool_Laws.thy ===== *)
theory Pool_Laws
  imports Streams Routing Failure_Laws Lease_Properties Route_Properties Account_Laws Tenancy_Laws Thread_Laws
    Context_Laws Execution Snapshot
begin

text \<open>
  What every operation of the instance keeps of the account pool: the tables are well formed, and
  whatever refers to an account (its route state, a lease, a credential, an app session) refers to one
  that exists. Each operation is shown to keep it from any state that has it, so that what other tasks
  did in between does not matter.
\<close>

subsection \<open>The pool\<close>

definition known :: "runtime_state \<Rightarrow> str \<Rightarrow> bool" where
  "known rt i \<longleftrightarrow> hm_get (rt_accounts rt) i \<noteq> None"

text \<open>The references to accounts; every account has a route state, and no one else has.\<close>

definition refs_ok :: "runtime_state \<Rightarrow> bool" where
  "refs_ok rt \<longleftrightarrow>
     (\<forall>i. hm_get (rt_route_states rt) i \<noteq> None \<longleftrightarrow> known rt i)
   \<and> (\<forall>i. hm_get (rt_credentials rt) i \<noteq> None \<longrightarrow> known rt i)
   \<and> (\<forall>p l. hm_get (rt_leases rt) p = Some l \<longrightarrow> known rt (ls_account_id l))
   \<and> (\<forall>t s. hm_get (rt_codex_app_sessions rt) t = Some s \<longrightarrow> known rt (cs_account_id s))"

definition pool_ok :: "app_state \<Rightarrow> bool" where
  "pool_ok app \<longleftrightarrow> pool_inv (ap_runtime app) \<and> refs_ok (ap_runtime app)"

text \<open>
  An operation that keeps the pool; and one that, besides, changes nobody's access: no account,
  credential, tenant, key or session comes, goes or changes, but for the route mode accounts record.
\<close>

definition keeps :: "app_state \<Rightarrow> app_state \<Rightarrow> bool" where
  "keeps app app' \<longleftrightarrow> (pool_ok app \<longrightarrow> pool_ok app')"

definition same_access :: "app_state \<Rightarrow> app_state \<Rightarrow> bool" where
  "same_access app app' \<longleftrightarrow> (let rt = ap_runtime app; rt' = ap_runtime app' in
     ap_config app' = ap_config app \<and> rt_tenants rt' = rt_tenants rt \<and> rt_api_keys rt' = rt_api_keys rt
     \<and> rt_credentials rt' = rt_credentials rt \<and> rt_openai_login_sessions rt' = rt_openai_login_sessions rt
     \<and> rt_codex_app_sessions rt' = rt_codex_app_sessions rt
     \<and> rt_ephemeral_refresh_tokens rt' = rt_ephemeral_refresh_tokens rt
     \<and> (\<forall>i. rel_option same_but_mode (hm_get (rt_accounts rt) i) (hm_get (rt_accounts rt') i)))"

definition confined :: "app_state \<Rightarrow> app_state \<Rightarrow> bool" where
  "confined app app' \<longleftrightarrow> (pool_ok app \<longrightarrow> pool_ok app' \<and> same_access app app')"

lemma keeps_refl [simp]: "keeps app app"
  by (simp add: keeps_def)

lemma keeps_trans [trans]: "keeps app app1 \<Longrightarrow> keeps app1 app2 \<Longrightarrow> keeps app app2"
  by (simp add: keeps_def)

lemma keepsI: "(pool_ok app \<Longrightarrow> keeps app app') \<Longrightarrow> keeps app app'"
  by (auto simp: keeps_def)

lemma keeps_ok: "keeps app app' \<Longrightarrow> pool_ok app \<Longrightarrow> pool_ok app'"
  by (simp add: keeps_def)

lemma same_access_refl [simp]: "same_access app app"
  by (simp add: same_access_def option.rel_refl)

lemma same_access_trans: "same_access app app1 \<Longrightarrow> same_access app1 app2 \<Longrightarrow> same_access app app2"
  using option.rel_transp [of same_but_mode] same_but_mode_trans
  unfolding same_access_def Let_def transp_def by metis

lemma confined_refl [simp]: "confined app app"
  by (simp add: confined_def)

lemma confined_trans [trans]: "confined app app1 \<Longrightarrow> confined app1 app2 \<Longrightarrow> confined app app2"
  using same_access_trans by (auto simp: confined_def)

lemma confinedI: "(pool_ok app \<Longrightarrow> confined app app') \<Longrightarrow> confined app app'"
  by (auto simp: confined_def)

lemma confined_keeps: "confined app app' \<Longrightarrow> keeps app app'"
  by (simp add: confined_def keeps_def)

lemma confined_ok: "confined app app' \<Longrightarrow> pool_ok app \<Longrightarrow> pool_ok app'"
  by (simp add: confined_def)

lemma pool_ok_inv: "pool_ok app \<Longrightarrow> rt_inv (ap_runtime app)"
  by (simp add: pool_ok_def pool_inv_def)

lemma pool_ok_pool_inv: "pool_ok app \<Longrightarrow> pool_inv (ap_runtime app)"
  by (simp add: pool_ok_def)

lemma enqueue_keeps [simp]:
  "keeps app (enqueue m app') = keeps app app'" "keeps app (enqueue_many ms app') = keeps app app'"
  "confined app (enqueue m app') = confined app app'" "confined app (enqueue_many ms app') = confined app app'"
  by (simp_all add: keeps_def confined_def pool_ok_def same_access_def)

text \<open>An operation on other tables.\<close>

definition same_pool :: "runtime_state \<Rightarrow> runtime_state \<Rightarrow> bool" where [simp]:
  "same_pool a b \<longleftrightarrow> rt_accounts a = rt_accounts b \<and> rt_route_states a = rt_route_states b
     \<and> rt_credentials a = rt_credentials b \<and> rt_leases a = rt_leases b
     \<and> rt_codex_app_sessions a = rt_codex_app_sessions b"

lemma aside_keeps:
  assumes "rt_inv (ap_runtime app) \<Longrightarrow> rt_inv (ap_runtime app')" and "same_pool (ap_runtime app) (ap_runtime app')"
  shows "keeps app app'"
  using assms
  by (auto simp: keeps_def pool_ok_def pool_inv_def refs_ok_def known_def routes_inv_def modes_synced_def)

lemma aside_confined:
  assumes "rt_inv (ap_runtime app) \<Longrightarrow> rt_inv (ap_runtime app')" and "same_pool (ap_runtime app) (ap_runtime app')"
    and "ap_config app' = ap_config app" "rt_tenants (ap_runtime app') = rt_tenants (ap_runtime app)"
      "rt_api_keys (ap_runtime app') = rt_api_keys (ap_runtime app)"
      "rt_openai_login_sessions (ap_runtime app') = rt_openai_login_sessions (ap_runtime app)"
      "rt_ephemeral_refresh_tokens (ap_runtime app') = rt_ephemeral_refresh_tokens (ap_runtime app)"
  shows "confined app app'"
  using aside_keeps [OF assms(1,2)] assms(2-)
  by (auto simp: confined_def keeps_def same_access_def option.rel_refl)

subsection \<open>Turns and logs\<close>

lemma put_context_inv: "rt_inv (ap_runtime app) \<Longrightarrow> cc_principal_id ctx = p \<Longrightarrow> rt_inv (ap_runtime (put_context p ctx app))"
  by (simp add: rt_inv_def put_context_def inv_intros)

lemma put_context_confined: "cc_principal_id ctx = p \<Longrightarrow> confined app (put_context p ctx app)"
  by (intro aside_confined) (simp_all add: put_context_inv, simp_all add: put_context_def)

lemma context_principal:
  "pool_ok app \<Longrightarrow> context_of app p = Some ctx \<Longrightarrow> cc_principal_id ctx = p"
  using rt_invD(7) by (auto simp: context_of_def dest: hm_keyedD pool_ok_inv)

lemma begin_turn_confined: "confined app (begin_context_turn p model g summary items t1 t2 app)"
  by (auto simp: begin_context_turn_def Let_def ensure_conversation_context_def intro!: put_context_confined)

text \<open>The rest rely on the keys of the tables.\<close>

lemma discard_turn_confined: "confined app (discard_pending_context_turn p now app)"
  by (rule confinedI)
    (auto simp: discard_pending_context_turn_def Let_def intro!: put_context_confined dest: context_principal
      split: option.splits)

fun left_by :: "(app_state, app_state) outcome \<Rightarrow> app_state" where
  "left_by (Returns app) = app"
| "left_by (Panics app) = app"

lemma put_stored_thread_confined:
  "th_thread_id thread = i \<Longrightarrow>
     confined app (on_runtime (\<lambda>rt. rt\<lparr>rt_conversation_threads := hm_insert i thread (rt_conversation_threads rt)\<rparr>) app)"
  by (intro aside_confined) (simp_all add: rt_inv_def inv_intros)

lemma thread_stored:
  "pool_ok app \<Longrightarrow> hm_get (rt_conversation_threads (ap_runtime app)) i = Some t \<Longrightarrow> th_thread_id t = i"
  using rt_invD(8) by (auto dest: hm_keyedD pool_ok_inv)

lemma put_context_threads [simp]:
  "rt_conversation_threads (ap_runtime (put_context p ctx app)) = rt_conversation_threads (ap_runtime app)"
  by (simp add: put_context_def)

lemma compact_confined: "confined app (left_by (compact_thread_context thread n t1 t2 t3 t4 app))"
proof (rule confinedI)
  assume ok: "pool_ok app"
  show ?thesis
  proof (cases "context_of app (th_principal_id thread)")
    case None
    then show ?thesis by (simp add: compact_thread_context_def)
  next
    case (Some ctx)
    have id: "cc_principal_id ctx = th_principal_id thread" using ok Some by (rule context_principal)
    have put: "confined app (put_context (th_principal_id thread) c app)" if "cc_principal_id c = cc_principal_id ctx" for c
      using that id by (simp add: put_context_confined)
    have stored: "th_thread_id t = i" if "hm_get (rt_conversation_threads (ap_runtime app)) i = Some t" for i t
      using ok that by (rule thread_stored)
    have both: "confined app (on_runtime (\<lambda>rt. rt\<lparr>rt_conversation_threads := hm_insert i t (rt_conversation_threads rt)\<rparr>)
        (put_context (th_principal_id thread) c app))"
      if "cc_principal_id c = cc_principal_id ctx" "th_thread_id t = i" for c t i
      by (rule confined_trans [OF put [OF that(1)] put_stored_thread_confined [OF that(2)]])
    show ?thesis
      unfolding compact_thread_context_def Let_def Some
      by (auto simp: stored compacted_context_def intro!: put both split: option.splits)
  qed
qed

lemma record_turn_confined:
  "confined app (left_by (record_context_output_with_response p summary rid items t1 t2 ts app))"
proof (rule confinedI)
  assume ok: "pool_ok app"
  have put: "confined app (put_context p (c\<lparr>cc_pending_turn := x, cc_turns := y, cc_updated_at := z\<rparr>) app)"
    if "context_of app p = Some c" for c x y z
    using context_principal [OF ok that] by (simp add: put_context_confined)
  show ?thesis
    unfolding record_context_output_with_response_def Let_def
    by (auto split: option.splits prod.splits intro!: put confined_trans [OF _ compact_confined])
qed

lemma request_log_confined: "confined app (record_request_log e app)"
  by (intro aside_confined) (simp_all add: record_request_log_inv, simp_all add: record_request_log_def Let_def)

subsection \<open>Reports\<close>

lemma routed_refs:
  assumes "refs_ok rt" and "rt_inv rt" and "known rt i"
  shows "refs_ok (routed i a state incident evict rt)"
  using assms drop_leases_get [OF rt_invD(6) [OF assms(2)], of i]
  by (auto simp: refs_ok_def known_def routed_def split: option.splits if_splits)

text \<open>An account is known with both its entries or with neither.\<close>

lemma pool_account:
  assumes "pool_ok app"
  obtains (known) s a where "hm_get (rt_route_states (ap_runtime app)) i = Some s"
      "hm_get (rt_accounts (ap_runtime app)) i = Some a" "known_account i app" "known (ap_runtime app) i"
    | (unknown) "hm_get (rt_route_states (ap_runtime app)) i = None"
proof -
  have "hm_get (rt_route_states (ap_runtime app)) i = None \<or> (\<exists>s a. hm_get (rt_route_states (ap_runtime app)) i = Some s
      \<and> hm_get (rt_accounts (ap_runtime app)) i = Some a)"
    using assms by (auto simp: pool_ok_def refs_ok_def known_def)
  with that show ?thesis by (auto simp: known_def known_account_def)
qed

lemma rerouted_access:
  assumes "rerouted i a state incident evict app app'" and "hm_get (rt_accounts (ap_runtime app)) i = Some a"
  shows "same_access app app'"
  using assms by (auto simp: same_access_def rerouted_def routed_def option.rel_refl same_but_mode_def)

lemma rerouted_confined:
  assumes "rerouted i a state incident evict app app'" and "pool_inv (ap_runtime app')" and "known (ap_runtime app) i"
    and "hm_get (rt_accounts (ap_runtime app)) i = Some a" and "pool_ok app"
  shows "confined app app'"
  using assms routed_refs [OF _ pool_ok_inv [OF assms(5)] assms(3)] rerouted_access [OF assms(1,4)]
  by (simp add: confined_def pool_ok_def rerouted_def)

lemma failover_confined: "confined app (snd (failover_account iid i severity cd rec now app))"
proof (rule confinedI)
  assume ok: "pool_ok app"
  from ok show ?thesis
  proof (cases rule: pool_account [where i = i])
    case (known s a)
    note r = conjunct2 [OF failover_rerouted [OF pool_ok_inv [OF ok] known(1,2) refl refl]]
    show ?thesis
      by (rule rerouted_confined [OF r failover_ok(1) [OF pool_ok_pool_inv [OF ok] known(3) refl] known(4,2) ok])
  qed (simp add: failover_account_def)
qed

lemma quota_confined: "confined app (snd (mark_account_quota_exhausted iid i reset_at message now app))"
proof (rule confinedI)
  assume ok: "pool_ok app"
  from ok show ?thesis
  proof (cases rule: pool_account [where i = i])
    case (known s a)
    note r = conjunct2 [OF quota_rerouted [OF pool_ok_inv [OF ok] known(1,2) refl refl]]
    show ?thesis
      by (rule rerouted_confined [OF r quota_ok(1) [OF pool_ok_pool_inv [OF ok] known(3) refl] known(4,2) ok])
  qed (simp add: mark_account_quota_exhausted_def)
qed

lemma event_confined:
  assumes kind: "ev_kind event \<in> {''cf_hit'', ''success''}"
  shows "confined app (snd (record_route_event iid i event now app))"
proof (rule confinedI)
  assume ok: "pool_ok app"
  from ok show ?thesis
  proof (cases rule: pool_account [where i = i])
    case (known s a)
    obtain severity rec fo where "route_event_transition event s now =
       (fst (route_event_transition event s now), Some (severity, rec, fo))"
      using transition_known [OF kind] by blast
    note r = conjunct2 [OF event_rerouted [OF pool_ok_inv [OF ok] known(1,2) this]]
    show ?thesis
      by (rule rerouted_confined [OF r event_ok(1) [OF pool_ok_pool_inv [OF ok] known(3) kind refl] known(4,2) ok])
  qed (simp add: record_route_event_def)
qed

lemma failure_report_confined:
  "confined app (handle_upstream_failure iid now lease error app)"
  "confined app (handle_hidden_failure iid now lease kind app)"
  by (cases "uf_kind error"; simp add: handle_upstream_failure_def failover_confined quota_confined event_confined)
    (cases kind; simp add: handle_hidden_failure_def failover_confined quota_confined event_confined)

lemma success_confined: "confined app (left_by (record_success rd seed lease p summary rid items status usage model app))"
proof -
  define app1 where "app1 = snd (record_route_event (rd_incident rd) (ls_account_id lease)
      \<lparr>ev_mode = ls_route_mode lease, ev_kind = ''success''\<rparr> (rd_now rd) app)"
  have "confined app app1" by (simp add: app1_def event_confined)
  also have "confined app1 (left_by (record_context_output_with_response p summary rid items (fst (rd_turn rd))
      (snd (rd_turn rd)) (rd_compaction rd) app1))" by (rule record_turn_confined)
  finally show ?thesis
    by (auto simp: record_success_def Let_def app1_def [symmetric] intro: confined_trans [OF _ request_log_confined] split: outcome.split)
qed

lemma relayed_confined:
  "confined app (relayed_failure rd lease p kind app)"
  "confined app (left_by (finish_relay rd seed lease p status failure ry app))"
proof -
  show "confined app (relayed_failure rd lease p kind app)" for kind
    unfolding relayed_failure_def by (rule confined_trans [OF failure_report_confined(2) discard_turn_confined])
  then show "confined app (left_by (finish_relay rd seed lease p status failure ry app))"
    by (simp add: finish_relay_def success_confined split: option.split)
qed

subsection \<open>The scope of a request\<close>

lemma put_thread_confined: "th_thread_id thread = i \<Longrightarrow> confined app (put_thread thread i app)"
  unfolding put_thread_def by (rule put_stored_thread_confined)

lemma placeholder_confined: "confined app (ensure_parent_thread_placeholder tenant p model t1 t2 app)"
  by (auto simp: ensure_parent_thread_placeholder_def Let_def intro!: put_thread_confined)

lemma edge_confined: "confined app (append_thread_edge e app)"
  unfolding append_thread_edge_def by (auto intro!: aside_confined simp: rt_inv_def)

lemma thread_record_id:
  "(\<And>t. stored = Some t \<Longrightarrow> th_thread_id t = i) \<Longrightarrow> th_thread_id (thread_record tn i r p m ti s now stored) = i"
  by (auto simp: thread_record_def Let_def split: option.splits)

lemma put_record_confined:
  "confined app (put_thread (thread_record tn i r p m ti s now (hm_get (rt_conversation_threads (ap_runtime app)) i)) i app)"
  by (rule confinedI) (auto intro!: put_thread_confined thread_record_id dest: thread_stored)

lemma upsert_thread_confined:
  "confined app (snd (upsert_conversation_thread_record tenant i p model title source clock app))"
proof -
  obtain now t1 t2 where clock: "clock = (now, t1, t2)" by (cases clock)
  define j where "j = normalize_thread_id i"
  define np where "np = (case p of Some p \<Rightarrow> Some (normalize_thread_id p)
    | None \<Rightarrow> Option.bind (hm_get (rt_conversation_threads (ap_runtime app)) j) th_parent_thread_id)"
  define app1 where "app1 = (case np of Some p \<Rightarrow> ensure_parent_thread_placeholder tenant p model t1 t2 app | None \<Rightarrow> app)"
  have "confined app app1" by (simp add: app1_def placeholder_confined split: option.split)
  moreover have "confined app1 (put_thread (thread_record tenant j r x model title source now
      (hm_get (rt_conversation_threads (ap_runtime app1)) j)) j app1)" for r x
    by (rule put_record_confined)
  ultimately have put: "hm_get (rt_conversation_threads (ap_runtime app1)) j = stored \<Longrightarrow>
      confined app (put_thread (thread_record tenant j r x model title source now stored) j app1)" for r x stored
    using confined_trans by blast
  show ?thesis
    unfolding upsert_conversation_thread_record_def clock Let_def case_prod_conv j_def [symmetric] np_def [symmetric]
      app1_def [symmetric]
    by (auto simp: put split: option.split intro!: confined_trans [OF _ edge_confined])
qed

lemma scope_confined: "confined app (snd (resolve_request_scope nonce clock auth headers model app))"
  by (simp add: resolve_request_scope_def Let_def ensure_conversation_thread_def case_prod_beta' upsert_thread_confined
      split: option.split sum.split)

subsection \<open>Selections\<close>

lemma reconcile_config: "ap_config (reconcile_routes now app) = ap_config app"
  by (simp add: reconcile_routes_def Let_def case_prod_beta')

lemma resolve_config: "ap_config (snd (resolve_lease_outcome h request now reuse_now app)) = ap_config app"
  by (auto simp: resolve_lease_outcome_def resolve_lease_outcome_with_def Let_def select_fresh_def reuse_lease_def
      bind_lease_def reconcile_config split: option.split prod.split)

lemma reconcile_access: "same_access app (reconcile_routes now app)"
  using sync_modes_get [of "rt_accounts (ap_runtime app)" _ "changed_route_states now (ap_runtime app)"]
  by (auto simp: same_access_def reconcile_routes_runtime reconcile_config)

lemma reconcile_confined: "confined app (reconcile_routes now app)"
proof (rule confinedI)
  assume ok: "pool_ok app"
  let ?app = "reconcile_routes now app"
  have "rt_inv (ap_runtime ?app)" using ok by (simp add: reconcile_routes_inv pool_ok_inv)
  moreover have "modes_synced (ap_runtime ?app)"
    using reconcile_routes_synced [OF pool_ok_inv [OF ok]] ok by (simp add: pool_ok_def pool_inv_def)
  moreover have "routes_inv (ap_runtime ?app)"
    using ok by (auto simp: routes_inv_def reconcile_routes_runtime pool_ok_def pool_inv_def cf_inv_reconcile)
  moreover have "known (ap_runtime ?app) i \<longleftrightarrow> known (ap_runtime app) i" for i
    using reconciled_account [of app i _ now] account_before_reconcile [of now app i] by (fastforce simp: known_def)
  then have "refs_ok (ap_runtime ?app)"
    using ok by (auto simp: pool_ok_def refs_ok_def reconcile_routes_runtime)
  ultimately show "confined app ?app" using reconcile_access by (simp add: confined_def pool_ok_def pool_inv_def)
qed

lemma selection_confined:
  assumes "pool_ok app" and "resolve_lease_outcome h request now reuse_now app = (Selected lease key warmup, app')"
  shows "confined app app'"
proof -
  note inv = pool_ok_inv [OF assms(1)]
  let ?app = "reconcile_routes now app"
  obtain metrics where rt: "ap_runtime app' = (ap_runtime ?app)\<lparr>
      rt_leases := hm_insert (lq_principal_id request) lease (rt_leases (ap_runtime ?app)), rt_cache_metrics := metrics\<rparr>"
    using selected_facts(1) [OF inv assms(2)] by blast
  have ok: "pool_ok ?app" by (rule confined_ok [OF reconcile_confined assms(1)])
  have "known (ap_runtime ?app) (ls_account_id lease)"
    using selected_facts(2) [OF inv assms(2)] by (auto simp: known_def)
  then have "refs_ok (ap_runtime app')" using ok by (auto simp: rt refs_ok_def known_def pool_ok_def split: if_splits)
  moreover have "rt_inv (ap_runtime app')" using resolve_inv [OF inv, of h request now reuse_now] assms(2) by simp
  ultimately have "pool_ok app'" using ok by (simp add: pool_ok_def pool_inv_def routes_inv_def modes_synced_def rt)
  moreover have "same_access ?app app'"
    using resolve_config [of h request now reuse_now app] assms(2)
    by (simp add: same_access_def rt option.rel_refl reconcile_config)
  ultimately show "confined app app'" using same_access_trans [OF reconcile_access] by (simp add: confined_def)
qed

lemma resolve_confined: "confined app (snd (resolve_lease_outcome h request now reuse_now app))"
proof (rule confinedI)
  assume ok: "pool_ok app"
  obtain outcome app' where r: "resolve_lease_outcome h request now reuse_now app = (outcome, app')" by fastforce
  have "confined app app'"
  proof (cases outcome)
    case Selected
    with selection_confined [OF ok] r show ?thesis by simp
  next
    case (Exhausted e)
    then have "app' = reconcile_routes now app" using exhausted_report(5) [OF pool_ok_inv [OF ok]] r by blast
    then show ?thesis by (simp add: reconcile_confined)
  qed
  with r show ?thesis by simp
qed

subsection \<open>Deletion\<close>

lemma deleted_refs:
  assumes "refs_ok rt" and "rt_inv rt"
  shows "refs_ok (deleted i rt)"
proof -
  have wf: "hm_wf (rt_codex_app_sessions rt)" using assms(2) by (simp add: rt_inv_def)
  show ?thesis
    using assms(1) drop_leases_get [OF rt_invD(6) [OF assms(2)], of i]
    by (auto simp: refs_ok_def known_def deleted_def hm_get_retain [OF wf] split: option.splits if_splits)
qed

lemma delete_keeps: "keeps app (snd (delete_account i app))"
proof (rule keepsI)
  assume ok: "pool_ok app"
  have "pool_ok (on_runtime (deleted i) app)"
    using ok by (simp add: pool_ok_def pool_inv_def inv_intros deleted_refs)
  then show "keeps app (snd (delete_account i app))"
    by (simp add: delete_account_eq [OF pool_ok_inv [OF ok]] keeps_def pool_ok_def)
qed

text \<open>
  Selection decides on a snapshot and then writes the lease. With no other task in between
  (\<open>resolve_lease_outcome\<close>) it keeps the pool; with one it may not.
\<close>

text \<open>Fact (deletion_leaves_lease).
  When the selected account is deleted between the snapshot and the write, the selection answers all
  the same: the principal is bound to the account that is gone, and the binding is published after the
  deletion.\<close>

theorem deletion_leaves_lease:
  assumes inv: "rt_inv (ap_runtime app)"
    and "hm_get (rt_leases (ap_runtime app)) (lq_principal_id request) = None"
    and selected: "resolve_lease_outcome sha256 request now reuse_now app = (Selected lease key warmup, app1)"
  shows "\<exists>warmup' app'. resolve_lease_outcome_with (\<lambda>app. snd (delete_account (ls_account_id lease) app)) sha256
        request now reuse_now app = (Selected lease key warmup', app')
    \<and> hm_get (rt_leases (ap_runtime app')) (lq_principal_id request) = Some lease
    \<and> hm_get (rt_accounts (ap_runtime app')) (ls_account_id lease) = None
    \<and> (\<exists>pre post. ap_writer_tx app' = pre @ [AccountDelete (ls_account_id lease), LeaseUpsert lease] @ post)"
proof -
  define mid where "mid = reconcile_routes now app"
  define i where "i = ls_account_id lease"
  have none: "reusable_binding (ap_runtime mid) request reuse_now = None"
    using assms(2) by (simp add: reusable_binding_def mid_def)
  have here: "hm_get (rt_accounts (ap_runtime mid)) i \<noteq> None"
    using selected_facts(2) [OF inv selected] by (auto simp: mid_def i_def)
  have inv_mid: "rt_inv (ap_runtime mid)" unfolding mid_def by (rule reconcile_routes_inv [OF inv])
  have "select_fresh sha256 request now (ap_runtime mid) mid = (Selected lease key warmup, app1)"
    using selected none by (simp add: resolve_lease_outcome_def resolve_lease_outcome_with_def mid_def Let_def)
  then obtain l where l: "\<And>a. select_fresh sha256 request now (ap_runtime mid) a = bind_lease request l a"
    and "bind_lease request l mid = (Selected lease key warmup, app1)"
    by (auto simp: select_fresh_def Let_def exhausted_def split: if_splits option.splits)
  then have l_lease: "l = lease" "key = lq_cache_affinity_key request" by (auto simp: bind_lease_def Let_def)
  have "resolve_lease_outcome_with (\<lambda>app. snd (delete_account i app)) sha256 request now reuse_now app
      = bind_lease request lease (snd (delete_account i mid))"
    by (simp add: resolve_lease_outcome_with_def mid_def [symmetric] Let_def none l l_lease(1))
  moreover obtain before where "snd (delete_account i mid) = enqueue (AccountDelete i) before"
      "ap_runtime before = deleted i (ap_runtime mid)"
    using here by (simp add: delete_account_eq [OF inv_mid])
  ultimately show ?thesis
    unfolding i_def [symmetric]
    by (simp add: bind_lease_def Let_def deleted_def l_lease(2) enqueue_def enqueue_many_def) (metis append_Cons append_Nil)
qed

text \<open>The principal is new and an account of its tenant is ready.\<close>

theorem deletion_leaves_lease_witness:
  "\<exists>lease key warmup app'. resolve_lease_outcome_with (\<lambda>app. snd (delete_account (ls_account_id lease) app)) (\<lambda>_. [])
        (ex_request ''q'' 1) 5 6 (ex_app ex_pool) = (Selected lease key warmup, app')
    \<and> \<not> refs_ok (ap_runtime app')"
proof -
  obtain l k w a where sel: "resolve_lease_outcome (\<lambda>_. []) (ex_request ''q'' 1) 5 6 (ex_app ex_pool) = (Selected l k w, a)"
    using ex_selected by blast
  have "hm_get (rt_leases (ap_runtime (ex_app ex_pool))) (lq_principal_id (ex_request ''q'' 1)) = None"
    by (simp add: ex_pool_tables ex_request_def)
  from deletion_leaves_lease [OF _ this sel] show ?thesis
    by (auto simp: refs_ok_def known_def) blast
qed

end
