(* ===== verification/Request_Laws.thy ===== *)
theory Request_Laws
  imports Gateway_Laws Pool_Laws
begin

text \<open>
  The composition of the data plane with the state it works on. The locale \<open>task_step\<close> follows a request
  of any of the four handlers from step to step: what relates the states before and after each operation
  a handler calls, and whatever other tasks do meanwhile, relates the states before and after the
  request. It is interpreted for what a request keeps of the pool and for what it leaves alone.
\<close>

subsection \<open>Loops that keep a state\<close>

text \<open>
  A retry loop whose iterations, as long as they meet what is usable, keep a property of the result and
  leave the loop ready for the next iteration.
\<close>

locale keeping_loop = retry_loop +
  fixes usable :: "'a \<Rightarrow> bool" and fine :: "'b \<Rightarrow> 'c \<Rightarrow> bool" and kept :: "'d \<Rightarrow> bool"
  assumes step_kept: "usable it \<Longrightarrow> fine l s \<Longrightarrow> kept (step it l s)"
    and kept_fine: "kept r \<Longrightarrow> goes_on r = Some (l, s) \<Longrightarrow> fine l s"
    and pause_kept: "fine l s \<Longrightarrow> kept (pause l s)"
begin

lemma run_kept:
  assumes "\<forall>it \<in> set its. usable it" and "fine l s"
  shows "kept (run its l s)"
  using assms
proof (induction its arbitrary: l s)
  case Nil
  then show ?case by (simp add: run_Nil pause_kept)
next
  case (Cons it its)
  have step: "kept (step it l s)" using Cons.prems by (simp add: step_kept)
  show ?case
    using step kept_fine [OF step] Cons.IH Cons.prems(1) by (auto simp: run_Cons split: option.split)
qed

end

subsection \<open>The steps of a request\<close>

text \<open>Other tasks, while a request waits for a lease, in an iteration and in a whole request.\<close>

definition orderly :: "(app_state \<Rightarrow> app_state \<Rightarrow> bool) \<Rightarrow> round list \<Rightarrow> bool" where
  "orderly R rounds \<longleftrightarrow> (\<forall>round \<in> set rounds. \<forall>app. R app (fst round app))"

definition orderly_iteration :: "(app_state \<Rightarrow> app_state \<Rightarrow> bool) \<Rightarrow> iteration \<Rightarrow> bool" where
  "orderly_iteration R it \<longleftrightarrow> orderly R (it_rounds it) \<and> (\<forall>n app. R app (it_others it n app))"

definition orderly_request :: "(app_state \<Rightarrow> app_state \<Rightarrow> bool) \<Rightarrow> entry \<Rightarrow> iteration list \<Rightarrow> bool" where
  "orderly_request R en its \<longleftrightarrow> orderly R (en_rounds en) \<and> (\<forall>it \<in> set its. orderly_iteration R it)"

fun orderly_message :: "(app_state \<Rightarrow> app_state \<Rightarrow> bool) \<Rightarrow> ws_incoming \<Rightarrow> bool" where
  "orderly_message R (In_Text message script) \<longleftrightarrow> orderly_request R (wt_entry script) (wt_iterations script)"
| "orderly_message R _ \<longleftrightarrow> True"

lemma orderly_Cons: "orderly R ((others, now, reuse_now) # rounds) \<longleftrightarrow> (\<forall>app. R app (others app)) \<and> orderly R rounds"
  by (simp add: orderly_def)

lemma orderly_iterationD:
  "orderly_iteration R it \<Longrightarrow> orderly R (it_rounds it)" "orderly_iteration R it \<Longrightarrow> R app (it_others it n app)"
  by (simp_all add: orderly_iteration_def)

locale task_step =
  fixes R :: "app_state \<Rightarrow> app_state \<Rightarrow> bool"
  assumes refl: "R app app"
    and trans: "R app mid \<Longrightarrow> R mid app' \<Longrightarrow> R app app'"
    and begun: "R app (begin_context_turn p model g summary items t1 t2 app)"
    and discarded: "R app (discard_pending_context_turn p now app)"
    and recorded: "R app (left_by (record_context_output_with_response p summary rid items t1 t2 ts app))"
    and logged: "R app (record_request_log e app)"
    and failed_over: "R app (snd (failover_account iid i severity cd rec now app))"
    and marked: "R app (snd (mark_account_quota_exhausted iid i reset_at message now app))"
    and reported: "ev_kind event \<in> {''cf_hit'', ''success''} \<Longrightarrow> R app (snd (record_route_event iid i event now app))"
    and scoped: "R app (snd (resolve_request_scope nonce clock auth headers model app))"
    and resolved: "R app (snd (resolve_lease_outcome h request now reuse_now app))"
begin

lemma failure_reported:
  "R app (handle_upstream_failure iid now lease error app)"
  "R app (handle_hidden_failure iid now lease kind app)"
  "R app (report_missing_credential it lease app)"
proof -
  show "R app (handle_upstream_failure iid now lease error app)"
    by (cases "uf_kind error") (simp_all add: handle_upstream_failure_def failed_over marked reported refl)
  show "R app (handle_hidden_failure iid now lease kind app)"
    by (cases kind) (simp_all add: handle_hidden_failure_def failed_over marked reported refl)
  show "R app (report_missing_credential it lease app)"
    by (simp add: report_missing_credential_def failed_over)
qed

lemma succeeded: "R app (left_by (record_success rd seed lease p summary rid items status usage model app))"
proof -
  define app1 where "app1 = snd (record_route_event (rd_incident rd) (ls_account_id lease)
      \<lparr>ev_mode = ls_route_mode lease, ev_kind = ''success''\<rparr> (rd_now rd) app)"
  have "R app app1" by (simp add: app1_def reported)
  then have "R app (left_by (record_context_output_with_response p summary rid items (fst (rd_turn rd))
      (snd (rd_turn rd)) (rd_compaction rd) app1))" by (rule trans [OF _ recorded])
  then show ?thesis
    by (auto simp: record_success_def Let_def app1_def [symmetric] intro: trans [OF _ logged] split: outcome.split)
qed

lemma relayed:
  "R app (relayed_failure rd lease p kind app)"
  "R app (left_by (finish_relay rd seed lease p status failure ry app))"
proof -
  show "R app (relayed_failure rd lease p kind app)" for kind
    unfolding relayed_failure_def by (rule trans [OF failure_reported(2) discarded])
  then show "R app (left_by (finish_relay rd seed lease p status failure ry app))"
    by (simp add: finish_relay_def succeeded split: option.split)
qed

lemma streamed:
  "upstream_stream_response parse render sf rd r lease seed p model app = Inr (headers, out, outcome) \<Longrightarrow>
     R app (left_by outcome)"
  by (auto simp: upstream_stream_response_def Let_def relayed(2) split: option.splits sum.splits prod.splits)

lemma chat_streamed:
  "upstream_responses_stream_to_chat_response parse sf rd created r lease seed p model guard app
      = Inr (headers, out, outcome2) \<Longrightarrow> R app (left_by outcome2)"
  by (auto simp: upstream_responses_stream_to_chat_response_def Let_def relayed(1) succeeded
      split: option.splits sum.splits prod.splits if_splits)

lemma ws_streamed:
  "upstream_stream_to_ws_response lib rd r lease seed p model so app = Inr (so', outcome) \<Longrightarrow> R app (left_by outcome)"
  by (auto simp: upstream_stream_to_ws_response_def Let_def discard_turn_def relayed discarded
      split: option.splits sum.splits prod.splits bool.splits ws_end.splits)

lemma waited: "orderly R rounds \<Longrightarrow> R app (snd (resolve_http_selection_or_wait h request rounds app))"
proof (induction rounds arbitrary: app)
  case (Cons round rounds)
  obtain others now reuse_now where round: "round = (others, now, reuse_now)" by (cases round)
  have rest: "orderly R rounds" and o: "R app (others app)" using Cons.prems by (simp_all add: round orderly_Cons)
  have "R app (snd (resolve_lease_outcome h request now reuse_now (others app)))" using o by (rule trans [OF _ resolved])
  with Cons.IH [OF rest] show ?case
    by (auto simp: round split: prod.split lease_selection_outcome.split if_splits intro: trans)
qed (simp add: refl)

lemma ws_waited: "orderly R rounds \<Longrightarrow> R app (snd (snd (resolve_ws_selection_or_wait lib simple request rounds so app)))"
proof (induction rounds arbitrary: app so)
  case (Cons round rounds)
  obtain others now reuse_now where round: "round = (others, now, reuse_now)" by (cases round)
  have rest: "orderly R rounds" and o: "R app (others app)" using Cons.prems by (simp_all add: round orderly_Cons)
  have "R app (snd (resolve_lease_outcome (lb_sha256 lib) request now reuse_now (others app)))"
    using o by (rule trans [OF _ resolved])
  with Cons.IH [OF rest] show ?case
    by (auto simp: round split: prod.split bool.split lease_selection_outcome.split if_splits intro: trans)
qed (simp add: refl)

text \<open>\<open>finished\<close>: what an iteration that ends, or goes on, leaves behind.\<close>

lemma reselected: "orderly R (it_rounds it) \<Longrightarrow> R app (snd (reselect lib q it refuse put app))"
  using waited [of "it_rounds it" app "lb_sha256 lib" "gq_selection q"]
  by (auto simp: reselect_def split: prod.split option.split sum.split)

lemma given_up: "R app (snd (give_up q it refuse reason app))"
  by (simp add: give_up_def discarded)

lemma reply_sent: "R app (left_by outcome) \<Longrightarrow> R app (snd (replies_after r outcome))"
  by (cases outcome) (simp_all add: replies_after_def)

lemma whole: "R app (left_by (record_whole lib q it lease success app))"
  unfolding record_whole_def by (rule succeeded)

lemma hidden_failure:
  assumes "orderly_iteration R it"
  shows "R app (snd (responses_hidden_failure lib q it lp s credential plan kind app))"
proof -
  note rest = trans [OF failure_reported(2) reselected [OF orderly_iterationD(1) [OF assms]]] trans [OF failure_reported(2) given_up]
  show ?thesis by (auto simp: responses_hidden_failure_def Let_def refl rest split: option.split)
qed

lemma upstream_failure:
  assumes "orderly_iteration R it"
  shows "R app (snd (responses_upstream_failure lib q it lp s credential plan error app))"
proof -
  note step = trans [OF failure_reported(1) orderly_iterationD(2) [OF assms]]
  note rest = trans [OF step reselected [OF orderly_iterationD(1) [OF assms]]] trans [OF step given_up]
  show ?thesis by (auto simp: responses_upstream_failure_def Let_def step rest split: option.split)
qed

lemma answered:
  assumes "orderly_iteration R it"
  shows "R app (snd (responses_answer lib q it lp s credential plan r app))"
proof -
  note passed = trans [OF orderly_iterationD(2) [OF assms] streamed]
  show ?thesis
    unfolding responses_answer_def
    by (auto split: sum.split prod.split intro!: reply_sent whole hidden_failure [OF assms] intro: passed)
qed

lemma turn_begun: "R app (begin_turn_once lib q it lp lease app)"
  by (simp add: begin_turn_once_def begun refl)

lemma with_lease:
  assumes "orderly_iteration R it"
  shows "R app (snd (responses_with_lease lib q it lp s app))"
proof -
  note others = orderly_iterationD(2) [OF assms]
  note start = trans [OF others turn_begun]
  note asked = trans [OF start others]
  note missing = trans [OF start failure_reported(3)]
  note ends = trans [OF missing given_up] trans [OF missing reselected [OF orderly_iterationD(1) [OF assms]]]
    trans [OF asked answered [OF assms]] trans [OF asked upstream_failure [OF assms]]
  show ?thesis by (simp add: responses_with_lease_def Let_def ends split: option.split sum.split)
qed

lemma iteration: "orderly_iteration R it \<Longrightarrow> R app (snd (responses_iteration lib q it lp app))"
  by (simp add: responses_iteration_def with_lease refl split: option.split)

lemma chat_hidden:
  assumes "orderly_iteration R it"
  shows "R app (snd (chat_hidden_failure lib q it h lease credential plan kind app))"
proof -
  note rest = trans [OF failure_reported(2) reselected [OF orderly_iterationD(1) [OF assms]]] trans [OF failure_reported(2) given_up]
  show ?thesis by (auto simp: chat_hidden_failure_def Let_def refl rest split: option.split)
qed

lemma chat_failure:
  assumes "orderly_iteration R it"
  shows "R app (snd (chat_upstream_failure lib q it h lease credential plan error app))"
proof -
  note step = trans [OF failure_reported(1) orderly_iterationD(2) [OF assms]]
  note rest = trans [OF step reselected [OF orderly_iterationD(1) [OF assms]]] trans [OF step given_up]
  show ?thesis by (auto simp: chat_upstream_failure_def Let_def step rest split: option.split)
qed

lemma chat_answered:
  assumes "orderly_iteration R it"
  shows "R app (snd (chat_answer lib q it h lease credential plan r app))"
proof -
  note passed = trans [OF orderly_iterationD(2) [OF assms] chat_streamed]
  show ?thesis
    unfolding chat_answer_def Let_def
    by (auto split: sum.split prod.split intro!: reply_sent whole chat_hidden [OF assms] intro: passed)
qed

lemma chat_step:
  assumes "orderly_iteration R it"
  shows "R app (snd (chat_iteration lib q it h app))"
proof (cases "qh_selection h")
  case None
  then show ?thesis by (simp add: chat_iteration_def refl)
next
  case (Some s)
  obtain lease key where s: "s = (lease, key)" by (cases s)
  define app1 where "app1 = (if qh_recorded_input h then app
      else begin_context_turn (gq_principal_id q) (gq_model q) (ls_generation lease) (qh_message_summary h)
        (map chat_message_to_responses_input (ch_messages (qh_payload h))) (fst (it_turn it)) (snd (it_turn it)) app)"
  have start: "R app app1" by (simp add: app1_def begun refl)
  note asked = trans [OF start orderly_iterationD(2) [OF assms]]
  note missing = trans [OF start failure_reported(3)]
  note ends = trans [OF missing given_up] trans [OF missing reselected [OF orderly_iterationD(1) [OF assms]]]
    trans [OF asked chat_answered [OF assms]] trans [OF asked chat_failure [OF assms]]
  show ?thesis
    unfolding chat_iteration_def Some s option.case prod.case Let_def app1_def [symmetric]
    by (simp add: ends split: option.split sum.split)
qed

lemma compact_succeeded: "R app (snd (compact_success q it lease success app))"
  by (simp add: compact_success_def Let_def trans [OF reported logged])

lemma compact_failed:
  assumes "orderly_iteration R it"
  shows "R app (snd (compact_failure lib q it c lease error app))"
  by (simp add: compact_failure_def Let_def failure_reported(1)
      trans [OF failure_reported(1) reselected [OF orderly_iterationD(1) [OF assms]]])

lemma compact_step:
  assumes "orderly_iteration R it"
  shows "R app (snd (compact_iteration lib q it c app))"
proof -
  note start = orderly_iterationD(2) [OF assms, of _ 0]
  note asked = trans [OF start orderly_iterationD(2) [OF assms]]
  note again = reselected [OF orderly_iterationD(1) [OF assms]]
  note missing = trans [OF start failure_reported(3)] and hidden = trans [OF asked failure_reported(2)]
  note ends = missing trans [OF missing again] hidden trans [OF hidden again]
    trans [OF asked compact_succeeded] trans [OF asked compact_failed [OF assms]]
  show ?thesis by (simp add: compact_iteration_def Let_def ends refl split: option.split sum.split prod.split)
qed

text \<open>On a WebSocket.\<close>

lemma ws_reselected: "orderly R (it_rounds it) \<Longrightarrow> R (snd w) (snd (snd (ws_reselect lib q it lp w)))"
  using ws_waited [of "it_rounds it" "snd w" lib "rd_simple (it_readings it)" "gq_selection q" "fst w"]
  by (auto simp: ws_reselect_def split: prod.split ws_selection.split)

lemma ws_given_up: "R (snd w) (snd (snd (ws_give_up lib q it reason w)))"
  by (simp add: ws_give_up_def discard_turn_def discarded Let_def split: prod.split)

lemma ws_hidden:
  assumes "orderly_iteration R it"
  shows "R (snd w) (snd (snd (ws_hidden_failure lib q it lp s credential plan kind w)))"
proof -
  note again = ws_reselected [OF orderly_iterationD(1) [OF assms], where w = "(so, a)" for so a, unfolded snd_conv]
  note over = ws_given_up [where w = "(so, a)" for so a, unfolded snd_conv]
  show ?thesis
    by (simp add: ws_hidden_failure_def Let_def refl trans [OF failure_reported(2) again] trans [OF failure_reported(2) over]
        split: option.split)
qed

lemma ws_failure:
  assumes "orderly_iteration R it"
  shows "R (snd w) (snd (snd (ws_upstream_failure lib q it lp s credential plan error w)))"
proof -
  note again = ws_reselected [OF orderly_iterationD(1) [OF assms], where w = "(so, a)" for so a, unfolded snd_conv]
  note over = ws_given_up [where w = "(so, a)" for so a, unfolded snd_conv]
  note step = trans [OF failure_reported(1) orderly_iterationD(2) [OF assms]]
  show ?thesis
    by (simp add: ws_upstream_failure_def Let_def step trans [OF step again] trans [OF step over] split: option.split)
qed

lemma ws_leased:
  assumes "orderly_iteration R it"
  shows "R (snd w) (snd (snd (ws_with_lease lib q it lp s w)))"
proof -
  note others = orderly_iterationD(2) [OF assms]
  note start = trans [OF others turn_begun]
  note asked = trans [OF start others]
  note missing = trans [OF start failure_reported(3)]
  note again = ws_reselected [OF orderly_iterationD(1) [OF assms], where w = "(so, a)" for so a, unfolded snd_conv]
  note over = ws_given_up [where w = "(so, a)" for so a, unfolded snd_conv]
  note hidden = ws_hidden [OF assms, where w = "(so, a)" for so a, unfolded snd_conv]
  note failed = ws_failure [OF assms, where w = "(so, a)" for so a, unfolded snd_conv]
  have passed: "R a (left_by outcome)"
    if "upstream_stream_to_ws_response lib rd r lease seed p model so (it_others it n a) = Inr (so', outcome)"
    for rd r lease seed p model so n a so' outcome
    by (rule trans [OF others ws_streamed [OF that]])
  define app1 where "app1 = it_others it 1 (begin_turn_once lib q it lp (fst s) (it_others it 0 (snd w)))"
  have app1: "R (snd w) app1" unfolding app1_def by (rule asked)
  have ended: "R (snd w) a" if "upstream_stream_to_ws_response lib (it_readings it) r (fst s) (gq_seed q) (gq_principal_id q)
      (gq_model q) (fst w) (it_others it 3 app1) = Inr (so', outcome)" "outcome = Returns a \<or> outcome = Panics a" for r so' outcome a
    using trans [OF app1 passed [OF that(1)]] that(2) by auto
  show ?thesis
    unfolding ws_with_lease_def Let_def app1_def [symmetric]
    by (auto simp: trans [OF missing again] trans [OF missing over] trans [OF app1 hidden] trans [OF app1 failed]
        dest: ended split: option.split sum.split prod.split outcome.split)
qed

lemma ws_step_kept: "orderly_iteration R it \<Longrightarrow> R (snd w) (snd (snd (ws_iteration lib q it lp w)))"
  using ws_leased [of it w lib q "lp\<lparr>lp_queued_same_lease := None\<rparr>"] ws_leased [of it w lib q "lp\<lparr>lp_selection := None\<rparr>"]
  by (auto simp: ws_iteration_def refl split: option.split prod.split)

lemma keeps_going:
  "R app0 (snd r) \<Longrightarrow> continued r = Some (l, app) \<Longrightarrow> R app0 app"
  "R app0 (snd (snd r')) \<Longrightarrow> ws_continued r' = Some (lp, w) \<Longrightarrow> R app0 (snd w)"
  by (cases r rule: continued.cases; simp) (cases r' rule: ws_continued.cases; simp)

end

subsection \<open>The loops of a request\<close>

text \<open>Each retry loop keeps what its state has in common with a state before.\<close>

sublocale task_step \<subseteq> responses_keep: keeping_loop "responses_iteration lib q" continued
  "\<lambda>lp app. (Continues lp, app)" "responses_iterations lib q" lp_sound "lp_budget q" lp_quota_retries
  "orderly_iteration R" "\<lambda>lp. R app0" "\<lambda>r. R app0 (snd r)" for lib q app0
  by unfold_locales (auto intro: trans [OF _ iteration] dest: keeps_going(1))

sublocale task_step \<subseteq> chat_keep: keeping_loop "chat_iteration lib q" continued
  "\<lambda>h app. (Continues h, app)" "chat_iterations lib q" qh_sound "qh_budget q" qh_quota_retries
  "orderly_iteration R" "\<lambda>h. R app0" "\<lambda>r. R app0 (snd r)" for lib q app0
  by unfold_locales (auto intro: trans [OF _ chat_step] dest: keeps_going(1))

sublocale task_step \<subseteq> compact_keep: keeping_loop "compact_iteration lib q" continued
  "\<lambda>c app. (Continues c, app)" "compact_iterations lib q" qc_sound "qc_budget q" qc_quota_retries
  "orderly_iteration R" "\<lambda>c. R app0" "\<lambda>r. R app0 (snd r)" for lib q app0
  by unfold_locales (auto intro: trans [OF _ compact_step] dest: keeps_going(1))

sublocale task_step \<subseteq> ws_keep: keeping_loop "ws_iteration lib q" ws_continued
  "\<lambda>lp w. (Ws_Again lp, w)" "ws_iterations lib q" lp_sound "lp_budget q" lp_quota_retries
  "orderly_iteration R" "\<lambda>lp w. R app0 (snd w)" "\<lambda>r. R app0 (snd (snd r))" for lib q app0
  by unfold_locales (auto intro: trans [OF _ ws_step_kept] dest: keeps_going(2))

subsection \<open>Whole requests\<close>

context task_step begin

lemma orderly_requestD:
  "orderly_request R en its \<Longrightarrow> orderly R (en_rounds en)"
  "orderly_request R en its \<Longrightarrow> \<forall>it \<in> set its. orderly_iteration R it"
  by (simp_all add: orderly_request_def)

lemma scoped_eq: "resolve_request_scope nonce clock auth headers model app = (r, app') \<Longrightarrow> R app app'"
  using scoped [of app nonce clock auth headers model] by simp

lemma entered:
  "begin_responses lib en headers payload app = (b, app') \<Longrightarrow> R app app'"
  "begin_chat lib en headers chat app = (c, app') \<Longrightarrow> R app app'"
  "begin_compact lib en headers payload app = (d, app') \<Longrightarrow> R app app'"
  by (auto simp: begin_responses_def begin_chat_def begin_compact_def Let_def refl dest: scoped_eq
      split: option.splits prod.splits sum.splits)

text \<open>The wait for the first lease, in the form the handlers have it.\<close>

lemma served:
  assumes "R app0 app" and "orderly R rounds" and "\<And>s app. R app0 app \<Longrightarrow> R app0 (snd (serve s app))"
  shows "R app0 (snd (case resolve_http_selection_or_wait h request rounds app of
      (None, app) \<Rightarrow> (waiting, app)
    | (Some (Inl reason), app) \<Rightarrow> (refused reason, app)
    | (Some (Inr s), app) \<Rightarrow> serve s app))"
  using trans [OF assms(1) waited [OF assms(2)], of h request] assms(3) by (auto split: prod.split option.split sum.split)

lemma responses_kept:
  assumes "orderly_request R en its"
  shows "R app (snd (responses lib en headers payload its app))"
proof (cases "begin_responses lib en headers payload app")
  case (Pair b app1)
  note start = entered(1) [OF Pair] and loop = responses_keep.run_kept [OF orderly_requestD(2) [OF assms], of app]
  show ?thesis
  proof (cases b)
    case (Inr p)
    obtain q l where p: "p = (q, l)" by (cases p)
    show ?thesis
      unfolding responses_def Pair Inr p prod.case sum.case
      by (rule served [OF start orderly_requestD(1) [OF assms]]) (simp add: Let_def case_prod_beta' loop)
  qed (simp add: responses_def Pair start)
qed

lemma chat_kept:
  assumes "orderly_request R en its"
  shows "R app (snd (chat_completions lib en headers payload its app))"
proof (cases "begin_chat lib en headers payload app")
  case (Pair b app1)
  note start = entered(2) [OF Pair] and loop = chat_keep.run_kept [OF orderly_requestD(2) [OF assms], of app]
  show ?thesis
  proof (cases b)
    case (Inr p)
    obtain q l where p: "p = (q, l)" by (cases p)
    show ?thesis
      unfolding chat_completions_def Pair Inr p prod.case sum.case
      by (rule served [OF start orderly_requestD(1) [OF assms]]) (simp add: Let_def case_prod_beta' loop)
  qed (simp add: chat_completions_def Pair start)
qed

lemma compaction_kept:
  assumes "orderly_request R en its"
  shows "R app (snd (responses_compact lib en headers payload its app))"
proof (cases "begin_compact lib en headers payload app")
  case (Pair b app1)
  note start = entered(3) [OF Pair] and loop = compact_keep.run_kept [OF orderly_requestD(2) [OF assms], of app]
  show ?thesis
  proof (cases b)
    case (Inr p)
    obtain q l where p: "p = (q, l)" by (cases p)
    show ?thesis
      unfolding responses_compact_def Pair Inr p prod.case sum.case
      by (rule served [OF start orderly_requestD(1) [OF assms]]) (simp add: Let_def case_prod_beta' loop)
  qed (simp add: responses_compact_def Pair start)
qed

lemma forwarded:
  assumes "orderly_request R (wt_entry script) (wt_iterations script)"
  shows "R (snd w) (snd (snd (forward_responses_ws lib script auth headers payload w)))"
proof -
  have scope: "R (snd w) app" if "resolve_request_scope nonce clock auth headers model (snd w) = (r, app)"
    for nonce clock model r app
    using that by (rule scoped_eq)
  have wait: "R (snd w) app"
    if "resolve_request_scope nonce clock auth headers model (snd w) = (r, app0)"
      and "resolve_ws_selection_or_wait lib simple request (en_rounds (wt_entry script)) so app0 = (s, so', app)"
    for nonce clock model r app0 simple request so s so' app
    using trans [OF scope [OF that(1)] ws_waited [OF orderly_requestD(1) [OF assms], of app0 lib simple request so]] that(2) by simp
  note loop = ws_keep.run_kept [OF orderly_requestD(2) [OF assms], of "snd w", where s = "(so, a)" for so a, unfolded snd_conv]
  show ?thesis
    unfolding forward_responses_ws_def
    by (auto intro!: loop intro: scope wait simp: refl split: sum.split bool.split prod.split ws_selection.split)
qed

lemma message_kept:
  "orderly_message R m \<Longrightarrow> R (snd w) (snd (snd (handle_ws_message lib je de auth headers m w)))"
  using forwarded by (cases m) (auto simp: handle_ws_message_def refl split: sum.split prod.split)

lemma connection_kept:
  assumes "\<forall>m \<in> set ms. orderly_message R m"
  shows "R (snd w) (snd (snd (handle_responses_ws lib je de auth headers ms w)))"
  using assms
proof (induction ms arbitrary: w)
  case (Cons m ms)
  have "R (snd w) (snd (snd (handle_ws_message lib je de auth headers m w)))" using Cons.prems by (simp add: message_kept)
  with Cons.IH Cons.prems show ?case by (auto intro: trans split: prod.split ws_step.split bool.split)
qed (simp add: refl)

end

subsection \<open>What a request keeps, what it leaves alone\<close>

interpretation keeps_task: task_step keeps
  by unfold_locales (auto intro: keeps_trans confined_keeps begin_turn_confined discard_turn_confined record_turn_confined
    request_log_confined failover_confined quota_confined event_confined scope_confined resolve_confined)

interpretation confined_task: task_step confined
  by unfold_locales (auto intro: confined_trans begin_turn_confined discard_turn_confined record_turn_confined
    request_log_confined failover_confined quota_confined event_confined scope_confined resolve_confined)

text \<open>C2 (gateway_keeps_pool).
  Whatever a client sends, whatever the upstream answers (an error, a broken stream, any body) and
  whatever other tasks do whenever the request waits - for a lease, for its execution guard, for the
  upstream, for the next part of a stream - as long as they keep the pool well formed themselves, a
  request leaves it well formed: the tables keep their keys and caps, every route state is one of the
  cooldown machine's, every account has one and records its mode, and no lease, credential or app
  session refers to an account that is not there, even if the request's own account was deleted in the
  meantime. This holds for the responses, chat and compaction endpoints, and for a WebSocket connection
  with any number of messages - also when the handler panics or is still waiting for a lease.\<close>

theorem gateway_keeps_pool:
  assumes "pool_ok app" and "orderly_request keeps en its" and "\<forall>m \<in> set ms. orderly_message keeps m"
  shows "pool_ok (snd (responses lib en headers payload its app))
    \<and> pool_ok (snd (chat_completions lib en headers chat its app))
    \<and> pool_ok (snd (responses_compact lib en headers payload its app))
    \<and> pool_ok (snd (snd (handle_responses_ws lib json_error decode_error auth headers ms (so, app))))"
  using keeps_ok [OF keeps_task.responses_kept [OF assms(2)] assms(1)] keeps_ok [OF keeps_task.chat_kept [OF assms(2)] assms(1)]
    keeps_ok [OF keeps_task.compaction_kept [OF assms(2)] assms(1)]
    keeps_ok [OF keeps_task.connection_kept [OF assms(3), of "(so, app)", unfolded snd_conv] assms(1)]
  by blast

text \<open>C4 (gateway_confined).
  No request of the data plane changes anybody's access: as long as no other task does, the tenants, API
  keys, credentials, refresh tokens, login and app sessions and the configuration are what they were, no
  account comes or goes, and all that changes in one is the route mode it records - whatever is sent to
  the responses, chat and compaction endpoints or over a WebSocket, and whatever the upstream answers.\<close>

theorem gateway_confined:
  assumes "pool_ok app" and "orderly_request confined en its" and "\<forall>m \<in> set ms. orderly_message confined m"
  shows "same_access app (snd (responses lib en headers payload its app))
    \<and> same_access app (snd (chat_completions lib en headers chat its app))
    \<and> same_access app (snd (responses_compact lib en headers payload its app))
    \<and> same_access app (snd (snd (handle_responses_ws lib json_error decode_error auth headers ms (so, app))))"
  using assms(1) confined_task.responses_kept [OF assms(2), of app] confined_task.chat_kept [OF assms(2), of app]
    confined_task.compaction_kept [OF assms(2), of app] confined_task.connection_kept [OF assms(3), of "(so, app)"]
  unfolding confined_def snd_conv by blast

subsection \<open>Requests of the witnesses\<close>

definition ex_entry :: entry where
  "ex_entry = \<lparr>en_nonce = ''n'', en_clock = (1, 2, 3), en_rounds = [(reconcile_routes 4, 5, 5)], en_simple = ''s''\<rparr>"

text \<open>The account is deleted while the request waits for the upstream.\<close>

definition ex_deletion :: iteration where
  "ex_deletion = (ex_iteration ex_too_long)\<lparr>it_others := (\<lambda>n app. if n = 1 then snd (delete_account ''a'' app) else app)\<rparr>"

text \<open>A client with an API key, whose principal has a lease.\<close>

definition ex_served :: app_state where
  "ex_served = ex_app (ex_pool\<lparr>rt_api_keys := [(''k'', ex_key 1 ''k'')],
     rt_leases := [(''tenant:t/request:req_n'', ex_lease ''tenant:t/request:req_n'' 1 ''a'')]\<rparr>)"

definition ex_bearer :: headers where
  "ex_bearer = [(''authorization'', Some ''Bearer k'')]"

lemma ex_pool_well_formed: "pool_ok (ex_app ex_pool)"
  by (auto simp: pool_ok_def ex_pool_ok refs_ok_def known_def ex_pool_tables ex_lease_def split: if_splits)
    (simp_all add: ex_pool_def initial_runtime_def)

lemma ex_served_well_formed: "pool_ok ex_served"
  using ex_pool_well_formed
  by (auto simp: pool_ok_def pool_inv_def rt_inv_def routes_inv_def modes_synced_def refs_ok_def known_def ex_served_def
      hm_keyed_iff ex_key_def ex_lease_def ex_pool_tables split: if_splits)

lemma ex_orderly: "orderly_request keeps ex_entry [ex_deletion]" "orderly_request confined ex_entry [ex_iteration ex_too_long]"
  by (simp_all add: orderly_request_def orderly_iteration_def orderly_def ex_entry_def ex_iteration_def ex_deletion_def
      reconcile_confined confined_keeps delete_keeps)

text \<open>The request was served, and its account deleted under it.\<close>

theorem gateway_keeps_pool_witness:
  "let app = snd (chat_completions ex_library ex_entry ex_bearer (qh_payload ex_chat_loop) [ex_deletion] ex_served)
   in pool_ok app \<and> map fst (rt_accounts (ap_runtime app)) = [''b'']"
proof -
  have "map fst (rt_accounts (ap_runtime (snd (chat_completions ex_library ex_entry ex_bearer (qh_payload ex_chat_loop)
      [ex_deletion] ex_served)))) = [''b'']" by code_simp
  then show ?thesis
    using gateway_keeps_pool [OF ex_served_well_formed ex_orderly(1), of "[]" ex_library ex_bearer "lp_payload ex_loop" "qh_payload ex_chat_loop"]
    by (simp add: Let_def)
qed

theorem gateway_confined_witness:
  "same_access ex_served
     (snd (chat_completions ex_library ex_entry ex_bearer (qh_payload ex_chat_loop) [ex_iteration ex_too_long] ex_served))"
  using gateway_confined [OF ex_served_well_formed ex_orderly(2), of "[]" ex_library ex_bearer "lp_payload ex_loop" "qh_payload ex_chat_loop"]
  by simp

end
