(* ===== verification/Openai_Auth.thy ===== *)
theory Openai_Auth
  imports Account_Ops Routing Streams "HOL-Library.Signed_Division"
begin

text \<open>
  The identity provider's client (\<open>openai_auth.rs\<close>): the login requests, what is read out of tokens and
  usage reports, the encryption of stored refresh tokens, and the calls put together as the \<open>provider\<close>
  the account operations use. The network, base64, SHA-256, AES-GCM and the JSON parser are the record
  \<open>auth_library\<close>; random bytes are parameters.
\<close>

subsection \<open>The libraries and the network\<close>

text \<open>A reply is a status and the bytes of the body, unless the body breaks off.\<close>

record http_reply =
  hr_status :: status_code
  hr_body :: "(str, str) result"

record auth_library =
  oa_sha256 :: "str \<Rightarrow> str"
  oa_encode :: "str \<Rightarrow> str"
  oa_decode :: "str \<Rightarrow> (str, str) result"
  oa_decode_standard :: "str \<Rightarrow> (str, str) result"
  oa_seal :: "str \<Rightarrow> str \<Rightarrow> str \<Rightarrow> (str, str) result"
  oa_open :: "str \<Rightarrow> str \<Rightarrow> str \<Rightarrow> (str, str) result"
  oa_parse :: "str \<Rightarrow> (json, str) result"
  oa_read_claims :: "str \<Rightarrow> (id_token_claims, str) result"
  oa_read_tokens :: "str \<Rightarrow> (token_response, str) result"
  oa_show_status :: "status_code \<Rightarrow> str"
  oa_utf8_error :: "str \<Rightarrow> str"

text \<open>\<open>oa_seal\<close> and \<open>oa_open\<close> take the key, the nonce and the text. Requests to the provider:\<close>

datatype auth_call =
    Post_Form str "(str \<times> str) list"
  | Get_With_Auth str str "str option"

type_synonym network = "auth_call \<Rightarrow> (http_reply, str) result"

definition DEFAULT_ISSUER :: str where
  "DEFAULT_ISSUER = ''https://auth.openai.com''"

definition DEFAULT_CLIENT_ID :: str where
  "DEFAULT_CLIENT_ID = ''app_EMoamEEZ73f0CkXaXp7hrann''"

text \<open>\<open>text().await.unwrap_or_default()\<close> and \<open>json::<TokenResponse>().await\<close>.\<close>

definition reply_text :: "http_reply \<Rightarrow> str" where
  "reply_text r = (case hr_body r of Inr b \<Rightarrow> from_utf8_lossy b | Inl _ \<Rightarrow> [])"

definition token_reply :: "auth_library \<Rightarrow> str \<Rightarrow> (http_reply, str) result \<Rightarrow> (token_response, str) result" where
  "token_reply lib failed reply =
    (case reply of
       Inl error \<Rightarrow> Inl error
     | Inr r \<Rightarrow>
         if \<not> is_success (hr_status r)
         then Inl (failed @ oa_show_status lib (hr_status r) @ '': '' @ reply_text r)
         else (case hr_body r of Inl error \<Rightarrow> Inl error | Inr b \<Rightarrow> oa_read_tokens lib b))"

subsection \<open>Login\<close>

record pkce_codes =
  pk_code_verifier :: str
  pk_code_challenge :: str

definition generate_pkce :: "auth_library \<Rightarrow> str \<Rightarrow> pkce_codes" where
  "generate_pkce lib random =
    (let code_verifier = oa_encode lib random
     in \<lparr>pk_code_verifier = code_verifier, pk_code_challenge = oa_encode lib (oa_sha256 lib code_verifier)\<rparr>)"

definition generate_state :: "auth_library \<Rightarrow> str \<Rightarrow> str" where
  "generate_state lib random = oa_encode lib random"

definition token_endpoint :: str where
  "token_endpoint = DEFAULT_ISSUER @ ''/oauth/token''"

text \<open>The texts end in the same Chinese words, "interface returned".\<close>

definition endpoint_returned :: str where
  "endpoint_returned = bytes [0xE6, 0x8E, 0xA5, 0xE5, 0x8F, 0xA3, 0xE8, 0xBF, 0x94, 0xE5, 0x9B, 0x9E, 0x20]"

definition exchange_code_for_tokens ::
  "auth_library \<Rightarrow> network \<Rightarrow> str \<Rightarrow> str \<Rightarrow> str \<Rightarrow> (token_response, str) result" where
  "exchange_code_for_tokens lib net redirect_uri code_verifier code =
     token_reply lib (''OpenAI token '' @ endpoint_returned) (net (Post_Form token_endpoint
       [(''grant_type'', ''authorization_code''), (''code'', code), (''redirect_uri'', redirect_uri),
        (''client_id'', DEFAULT_CLIENT_ID), (''code_verifier'', code_verifier)]))"

definition refresh_access_token :: "auth_library \<Rightarrow> network \<Rightarrow> str \<Rightarrow> (token_response, str) result" where
  "refresh_access_token lib net refresh_token =
     token_reply lib (''OpenAI refresh '' @ endpoint_returned) (net (Post_Form token_endpoint
       [(''grant_type'', ''refresh_token''), (''refresh_token'', refresh_token), (''client_id'', DEFAULT_CLIENT_ID)]))"

subsection \<open>Tokens\<close>

text \<open>\<open>token.split('.').nth(1)\<close>: between the first and the second dot.\<close>

definition token_payload :: "str \<Rightarrow> str option" where
  "token_payload token =
    (case split_once (CHR ''.'') token of
       None \<Rightarrow> None
     | Some (_, rest) \<Rightarrow> Some (takeWhile (\<lambda>c. c \<noteq> CHR ''.'') rest))"

definition parse_id_token_claims :: "auth_library \<Rightarrow> str \<Rightarrow> (id_token_claims, str) result" where
  "parse_id_token_claims lib token =
    (case token_payload token of
       None \<Rightarrow> Inl ''invalid id_token payload''
     | Some payload \<Rightarrow> (case oa_decode lib payload of Inl error \<Rightarrow> Inl error | Inr b \<Rightarrow> oa_read_claims lib b))"

definition parse_jwt_payload :: "auth_library \<Rightarrow> str \<Rightarrow> (json, str) result" where
  "parse_jwt_payload lib token =
    (case token_payload token of
       None \<Rightarrow> Inl ''invalid JWT payload''
     | Some payload \<Rightarrow> (case oa_decode lib payload of Inl error \<Rightarrow> Inl error | Inr b \<Rightarrow> oa_parse lib b))"

definition result_ok :: "('a, 'e) result \<Rightarrow> 'a option" where
  "result_ok r = (case r of Inr x \<Rightarrow> Some x | Inl _ \<Rightarrow> None)"

definition extract_chatgpt_account_id :: "auth_library \<Rightarrow> str \<Rightarrow> str option" where
  "extract_chatgpt_account_id lib token =
    (case result_ok (parse_jwt_payload lib token) of
       None \<Rightarrow> None
     | Some v \<Rightarrow>
         (case non_blank (json_str_field v ''chatgpt_account_id'') of
            Some i \<Rightarrow> Some i
          | None \<Rightarrow> non_blank (Option.bind (json_get v ''https://api.openai.com/auth'')
              (\<lambda>auth. json_str_field auth ''chatgpt_account_id''))))"

definition extract_email_from_token :: "auth_library \<Rightarrow> str \<Rightarrow> str option" where
  "extract_email_from_token lib token =
     Option.bind (result_ok (parse_jwt_payload lib token)) (\<lambda>v. json_str_field v ''email'')"

text \<open>\<open>find_map\<close>: the first result there is.\<close>

fun find_map :: "('a \<Rightarrow> 'b option) \<Rightarrow> 'a list \<Rightarrow> 'b option" where
  "find_map f [] = None"
| "find_map f (x # xs) = (case f x of Some y \<Rightarrow> Some y | None \<Rightarrow> find_map f xs)"

lemma find_map_cong [fundef_cong]:
  "xs = ys \<Longrightarrow> (\<And>x. x \<in> set ys \<Longrightarrow> f x = g x) \<Longrightarrow> find_map f xs = find_map g ys"
  by (induction ys arbitrary: xs) (auto split: option.split)

text \<open>The first of the keys with a string value, in the value itself or in what it contains, depth first.\<close>

function extract_string_recursive :: "str list \<Rightarrow> json \<Rightarrow> str option" where
  "extract_string_recursive keys v =
    (case Option.bind (json_as_object v) (\<lambda>object. find_map (\<lambda>key. Option.bind (map_of object key) json_as_str) keys) of
       Some found \<Rightarrow> Some found
     | None \<Rightarrow>
         (case v of
            JArray items \<Rightarrow> find_map (extract_string_recursive keys) items
          | JObject object \<Rightarrow> find_map (extract_string_recursive keys) (map snd object)
          | _ \<Rightarrow> None))"
  by pat_completeness auto
termination
  by (relation "measure (\<lambda>(_, v). size v)") (auto dest: size_member)

declare extract_string_recursive.simps [simp del]

definition extract_plan_type_from_token :: "auth_library \<Rightarrow> str \<Rightarrow> str option" where
  "extract_plan_type_from_token lib token =
     Option.bind (result_ok (parse_jwt_payload lib token))
       (extract_string_recursive [''plan_type'', ''planType'', ''subscription_tier'', ''subscriptionTier'', ''tier''])"

subsection \<open>Encryption of refresh tokens\<close>

definition account_key_error :: "str \<Rightarrow> str" where
  "account_key_error rest = ''CMGR_ACCOUNT_ENCRYPTION_KEY '' @ rest"

text \<open>"must be 32 bytes in the clear or a base64-encoded 32-byte key", "is shorter than 32 bytes".\<close>

definition decode_secret_key :: "auth_library \<Rightarrow> str \<Rightarrow> (str, str) result" where
  "decode_secret_key lib secret =
    (if length secret = 32 then Inr secret
     else case (case oa_decode lib secret of Inr b \<Rightarrow> Inr b | Inl _ \<Rightarrow> oa_decode_standard lib secret) of
       Inl _ \<Rightarrow> Inl (account_key_error (bytes [0xE5, 0xBF, 0x85, 0xE9, 0xA1, 0xBB, 0xE6, 0x98, 0xAF] @ '' 32 ''
         @ bytes [0xE5, 0xAD, 0x97, 0xE8, 0x8A, 0x82, 0xE6, 0x98, 0x8E, 0xE6, 0x96, 0x87, 0xE6, 0x88, 0x96]
         @ '' base64 '' @ bytes [0xE7, 0xBC, 0x96, 0xE7, 0xA0, 0x81, 0xE7, 0x9A, 0x84] @ '' 32 ''
         @ bytes [0xE5, 0xAD, 0x97, 0xE8, 0x8A, 0x82, 0xE5, 0xAF, 0x86, 0xE9, 0x92, 0xA5]))
     | Inr decoded \<Rightarrow>
         if length decoded < 32
         then Inl (account_key_error (bytes [0xE9, 0x95, 0xBF, 0xE5, 0xBA, 0xA6, 0xE4, 0xB8, 0x8D, 0xE8, 0xB6, 0xB3]
           @ '' 32 '' @ bytes [0xE5, 0xAD, 0x97, 0xE8, 0x8A, 0x82]))
         else Inr (take 32 decoded))"

text \<open>\<open>nonce\<close>: the twelve fresh bytes. A sealed text travels behind its nonce.\<close>

definition encrypt_secret :: "auth_library \<Rightarrow> str \<Rightarrow> str \<Rightarrow> str \<Rightarrow> (str, str) result" where
  "encrypt_secret lib nonce secret plaintext =
    (case decode_secret_key lib secret of
       Inl error \<Rightarrow> Inl error
     | Inr key \<Rightarrow>
         (case oa_seal lib key nonce plaintext of
            Inl error \<Rightarrow> Inl error
          | Inr ciphertext \<Rightarrow> Inr (oa_encode lib (nonce @ ciphertext))))"

definition decrypt_secret :: "auth_library \<Rightarrow> str \<Rightarrow> str \<Rightarrow> (str, str) result" where
  "decrypt_secret lib secret ciphertext =
    (case decode_secret_key lib secret of
       Inl error \<Rightarrow> Inl error
     | Inr key \<Rightarrow>
         (case oa_decode lib ciphertext of
            Inl error \<Rightarrow> Inl error
          | Inr packed \<Rightarrow>
              if length packed < 13 then Inl ''encrypted secret payload invalid''
              else (case oa_open lib key (take 12 packed) (drop 12 packed) of
                      Inl error \<Rightarrow> Inl error
                    | Inr plaintext \<Rightarrow>
                        (case from_utf8 plaintext of Some s \<Rightarrow> Inr s | None \<Rightarrow> Inl (oa_utf8_error lib plaintext)))))"

subsection \<open>Usage reports\<close>

text \<open>A cast of a float to an integer saturates; a NaN becomes zero.\<close>

definition saturate :: "int \<Rightarrow> int \<Rightarrow> int \<Rightarrow> int" where
  "saturate lo hi n = max lo (min hi n)"

definition f_as_i32 :: "f64 \<Rightarrow> i32" where
  "f_as_i32 x = (case x of
       Fin r \<Rightarrow> word_of_int (saturate (- (2 ^ 31)) (2 ^ 31 - 1) (if 0 \<le> r then \<lfloor>r\<rfloor> else - \<lfloor>- r\<rfloor>))
     | PInf \<Rightarrow> word_of_int (2 ^ 31 - 1) | NInf \<Rightarrow> word_of_int (- (2 ^ 31)) | NaN \<Rightarrow> 0)"

fun json_as_f64 :: "json \<Rightarrow> f64 option" where
  "json_as_f64 (JPosInt n) = Some (f_of_word n)"
| "json_as_f64 (JNegInt n) = Some (f_of_int (sint n))"
| "json_as_f64 (JFloat x) = Some x"
| "json_as_f64 _ = None"

text \<open>A duration in seconds is rounded up to minutes; the sum wraps around, as in a release build.\<close>

definition minutes_of_seconds :: "i64 \<Rightarrow> i64" where
  "minutes_of_seconds seconds = word_of_int (sint (seconds + 59) sdiv 60)"

definition parse_rate_limit_window :: "json \<Rightarrow> managed_rate_limit_window option" where
  "parse_rate_limit_window v =
    map_option (\<lambda>used. \<lparr>rw_used_percent = used,
        rw_window_duration_mins =
          or_else (map_option minutes_of_seconds (Option.bind (json_get v ''limit_window_seconds'') json_as_i64))
            (Option.bind (json_get v ''windowDurationMins'') json_as_i64),
        rw_resets_at = or_else (Option.bind (json_get v ''reset_at'') json_as_i64)
          (Option.bind (json_get v ''resetsAt'') json_as_i64)\<rparr>)
      (or_else (map_option (\<lambda>x. f_as_i32 (f_round x)) (Option.bind (json_get v ''used_percent'') json_as_f64))
        (map_option ucast (Option.bind (json_get v ''usedPercent'') json_as_i64)))"

definition bool_or_false :: "json option \<Rightarrow> bool" where
  "bool_or_false v = (Option.bind v json_as_bool = Some True)"

definition parse_credits_snapshot :: "json \<Rightarrow> managed_credits_snapshot" where
  "parse_credits_snapshot v =
    \<lparr>mc_has_credits = bool_or_false (or_else (json_get v ''has_credits'') (json_get v ''hasCredits'')),
     mc_unlimited = bool_or_false (json_get v ''unlimited''), mc_balance = json_str_field v ''balance''\<rparr>"

definition parse_spend_control_snapshot :: "json \<Rightarrow> managed_spend_control_snapshot" where
  "parse_spend_control_snapshot v = \<lparr>sp_reached = bool_or_false (json_get v ''reached'')\<rparr>"

definition extract_plan_type_from_usage_value :: "json \<Rightarrow> str option" where
  "extract_plan_type_from_usage_value =
     extract_string_recursive [''plan_type'', ''planType'', ''subscription_tier'', ''subscriptionTier'', ''tier'', ''type'']"

text \<open>The snapshot of one item of \<open>additional_rate_limits\<close>, under its id.\<close>

definition additional_rate_limit :: "str option \<Rightarrow> json \<Rightarrow> str \<times> managed_rate_limit_snapshot" where
  "additional_rate_limit plan_type item =
    (let limit_id = str_or (json_str_field item ''metered_feature'') ''unknown'';
         rate_limit = (case json_get item ''rate_limit'' of Some r \<Rightarrow> r | None \<Rightarrow> item)
     in (limit_id,
         \<lparr>rl_limit_id = Some limit_id, rl_limit_name = json_str_field item ''limit_name'',
          rl_primary = Option.bind (json_get rate_limit ''primary_window'') parse_rate_limit_window,
          rl_secondary = Option.bind (json_get rate_limit ''secondary_window'') parse_rate_limit_window,
          rl_credits = None, rl_spend_control = None, rl_plan_type = plan_type\<rparr>))"

text \<open>\<open>BTreeMap::insert\<close> on the list of the map's entries.\<close>

fun tree_insert :: "str \<Rightarrow> 'v \<Rightarrow> (str \<times> 'v) list \<Rightarrow> (str \<times> 'v) list" where
  "tree_insert k v [] = [(k, v)]"
| "tree_insert k v ((k', v') # m) =
    (if k = k' then (k, v) # m else if k < k' then (k, v) # (k', v') # m else (k', v') # tree_insert k v m)"

definition extract_rate_limits_from_usage ::
  "json \<Rightarrow> managed_rate_limit_snapshot \<times> (str \<times> managed_rate_limit_snapshot) list" where
  "extract_rate_limits_from_usage v =
    (let plan_type = extract_plan_type_from_usage_value v;
         window = (\<lambda>name. Option.bind (Option.bind (json_get v ''rate_limit'') (\<lambda>r. json_get r name)) parse_rate_limit_window);
         primary = \<lparr>rl_limit_id = Some ''codex'', rl_limit_name = None, rl_primary = window ''primary_window'',
           rl_secondary = window ''secondary_window'',
           rl_credits = map_option parse_credits_snapshot (json_get v ''credits''),
           rl_spend_control = map_option parse_spend_control_snapshot (json_get v ''spend_control''),
           rl_plan_type = plan_type\<rparr>;
         items = (case Option.bind (json_get v ''additional_rate_limits'') json_as_array of Some items \<Rightarrow> items | None \<Rightarrow> [])
     in (primary, fold (\<lambda>item. case additional_rate_limit plan_type item of (k, s) \<Rightarrow> tree_insert k s) items
           [(''codex'', primary)]))"

definition workspace_role_name :: "str \<Rightarrow> str" where
  "workspace_role_name role =
    (if role = ''account_owner'' then ''account-owner''
     else if role = ''account_admin'' then ''account-admin''
     else if role = ''member'' then ''standard-user''
     else replace_byte (CHR ''_'') (CHR ''-'') role)"

definition extract_workspace_role_from_account_entry :: "json \<Rightarrow> str option" where
  "extract_workspace_role_from_account_entry v =
     map_option workspace_role_name (Option.bind (Option.bind (json_get v ''account'')
       (\<lambda>account. or_else (json_get account ''account_user_role'') (json_get account ''accountUserRole''))) json_as_str)"

definition extract_workspace_role :: "json \<Rightarrow> str option \<Rightarrow> str option" where
  "extract_workspace_role v current_account_id =
    (case Option.bind (json_get v ''accounts'') json_as_object of
       None \<Rightarrow> None
     | Some accounts \<Rightarrow>
         (let role_of = (\<lambda>i. Option.bind (map_of accounts i) extract_workspace_role_from_account_entry) in
          case current_account_id of
            Some account_id \<Rightarrow> role_of account_id
          | None \<Rightarrow>
              or_else
                (Option.bind (Option.bind (json_get v ''account_ordering'') json_as_array)
                  (find_map (\<lambda>account_id. Option.bind (json_as_str account_id) role_of)))
                (case accounts of [(_, entry)] \<Rightarrow> extract_workspace_role_from_account_entry entry | _ \<Rightarrow> None)))"

subsection \<open>The account's snapshot\<close>

definition chatgpt_backend_base :: "str \<Rightarrow> str option" where
  "chatgpt_backend_base base_url =
    (let trimmed = trim_end_slashes base_url in
     case split_once_str ''/backend-api'' trimmed of
       Some (prefix, _) \<Rightarrow> Some (prefix @ ''/backend-api'')
     | None \<Rightarrow>
         if str_contains trimmed ''chatgpt.com'' \<or> str_contains trimmed ''chat.openai.com''
         then Some (trimmed @ ''/backend-api'') else None)"

definition fetch_json_with_auth ::
  "auth_library \<Rightarrow> network \<Rightarrow> str \<Rightarrow> str \<Rightarrow> str option \<Rightarrow> (json, managed_chatgpt_snapshot_error) result" where
  "fetch_json_with_auth lib net url access_token chatgpt_account_id =
    (case net (Get_With_Auth url access_token chatgpt_account_id) of
       Inl error \<Rightarrow> Inl \<lparr>me_message = error, me_unauthorized = False\<rparr>
     | Inr r \<Rightarrow>
         if \<not> is_success (hr_status r)
         then Inl \<lparr>me_message = oa_show_status lib (hr_status r) @ '' '' @ reply_text r,
                me_unauthorized = hr_status r \<in> {401, 403}\<rparr>
         else (case oa_parse lib (reply_text r) of
                 Inr v \<Rightarrow> Inr v | Inl error \<Rightarrow> Inl \<lparr>me_message = error, me_unauthorized = False\<rparr>))"

text \<open>"the account is not on a managed ChatGPT backend."\<close>

definition not_managed :: str where
  "not_managed = bytes [0xE5, 0xBD, 0x93, 0xE5, 0x89, 0x8D, 0xE8, 0xB4, 0xA6, 0xE5, 0x8F, 0xB7, 0xE4, 0xB8, 0x8D, 0xE6, 0x98, 0xAF]
     @ '' ChatGPT '' @ bytes [0xE5, 0x8F, 0x97, 0xE7, 0xAE, 0xA1, 0xE5, 0x90, 0x8E, 0xE7, 0xAB, 0xAF, 0xE3, 0x80, 0x82]"

definition fetch_managed_chatgpt_snapshot ::
  "auth_library \<Rightarrow> network \<Rightarrow> str \<Rightarrow> str \<Rightarrow> str option
     \<Rightarrow> (managed_chatgpt_snapshot, managed_chatgpt_snapshot_error) result" where
  "fetch_managed_chatgpt_snapshot lib net base_url access_token chatgpt_account_id =
    (case chatgpt_backend_base base_url of
       None \<Rightarrow> Inl \<lparr>me_message = not_managed, me_unauthorized = False\<rparr>
     | Some api_base \<Rightarrow>
         (case fetch_json_with_auth lib net (api_base @ ''/wham/usage'') access_token chatgpt_account_id of
            Inl error \<Rightarrow> Inl error
          | Inr usage \<Rightarrow>
              (let workspace = result_ok (fetch_json_with_auth lib net (api_base @ ''/accounts/check/v4'') access_token
                     chatgpt_account_id);
                   role = Option.bind workspace (\<lambda>v. extract_workspace_role v chatgpt_account_id);
                   (primary, by_limit_id) = extract_rate_limits_from_usage usage
               in Inr \<lparr>ms_email = extract_email_from_token lib access_token,
                    ms_plan_type = or_else (extract_plan_type_from_usage_value usage)
                      (extract_plan_type_from_token lib access_token),
                    ms_workspace_role = role,
                    ms_is_workspace_owner = map_option (\<lambda>r. r \<in> {''account-owner'', ''account-admin''}) role,
                    ms_rate_limits = Some primary, ms_rate_limits_by_limit_id = by_limit_id,
                    ms_chatgpt_account_id = chatgpt_account_id\<rparr>)))"

text \<open>
  The provider of the account operations, on a network that may answer the two fetches of a refresh
  differently; \<open>nonce\<close> is fresh for each operation, \<open>during\<close> what other tasks do.
\<close>

definition openai_provider ::
  "auth_library \<Rightarrow> (nat \<Rightarrow> network) \<Rightarrow> str \<Rightarrow> (app_state \<Rightarrow> app_state) \<Rightarrow> provider" where
  "openai_provider lib net nonce during =
    \<lparr>pv_exchange = exchange_code_for_tokens lib (net 0),
     pv_refresh = refresh_access_token lib (net 0),
     pv_fetch = (\<lambda>n. fetch_managed_chatgpt_snapshot lib (net n)),
     pv_claims = parse_id_token_claims lib, pv_account_id = extract_chatgpt_account_id lib,
     pv_encrypt = encrypt_secret lib nonce, pv_decrypt = decrypt_secret lib, pv_during = during\<rparr>"

end
