(* ===== verification/App_Server.thy ===== *)
theory App_Server
  imports Openai_Auth Gateway_Ws
begin

text \<open>
  The app server of the admin plane (\<open>http/admin.rs\<close>): a JSON-RPC connection over a WebSocket on which a
  Codex client reads the managed account it was given a session for. A connection is a state machine
  (initialize, then requests, then notifications); the socket is the one of \<open>Gateway_Ws\<close>.
\<close>

subsection \<open>Models\<close>

record reasoning_effort_option =
  ro_reasoning_effort :: str
  ro_description :: str

record model_upgrade_info =
  mu_model :: str
  mu_upgrade_copy :: "str option"
  mu_model_link :: "str option"
  mu_migration_markdown :: "str option"

record known_model_metadata =
  km_display_name :: str
  km_description :: str
  km_hidden :: bool
  km_supported_reasoning_efforts :: "reasoning_effort_option list"
  km_default_reasoning_effort :: str
  km_input_modalities :: "str list"
  km_supports_personality :: bool
  km_additional_speed_tiers :: "str list"
  km_availability_nux :: "str option"
  km_upgrade :: "model_upgrade_info option"

text \<open>The metadata the client sees adds the model's name and whether it is the default.\<close>

record app_server_model_metadata =
  am_model :: str
  am_known :: known_model_metadata
  am_is_default :: bool

definition standard_reasoning_efforts :: "str \<Rightarrow> str \<Rightarrow> str \<Rightarrow> str \<Rightarrow> reasoning_effort_option list" where
  "standard_reasoning_efforts low medium high xhigh =
     [\<lparr>ro_reasoning_effort = ''low'', ro_description = low\<rparr>, \<lparr>ro_reasoning_effort = ''medium'', ro_description = medium\<rparr>,
      \<lparr>ro_reasoning_effort = ''high'', ro_description = high\<rparr>, \<lparr>ro_reasoning_effort = ''xhigh'', ro_description = xhigh\<rparr>]"

definition upgrade_to :: "str \<Rightarrow> model_upgrade_info" where
  "upgrade_to model = \<lparr>mu_model = model, mu_upgrade_copy = None, mu_model_link = None, mu_migration_markdown = None\<rparr>"

definition known_model :: "str \<Rightarrow> str \<Rightarrow> reasoning_effort_option list \<Rightarrow> str list \<Rightarrow> model_upgrade_info option
     \<Rightarrow> known_model_metadata" where
  "known_model name description efforts tiers upgrade =
     \<lparr>km_display_name = name, km_description = description, km_hidden = False, km_supported_reasoning_efforts = efforts,
      km_default_reasoning_effort = ''medium'', km_input_modalities = [''text'', ''image''],
      km_supports_personality = False, km_additional_speed_tiers = tiers, km_availability_nux = None, km_upgrade = upgrade\<rparr>"

definition known_model_metadata_for :: "str \<Rightarrow> known_model_metadata" where
  "known_model_metadata_for model =
    (if model = ''gpt-5.4'' then
       known_model ''gpt-5.4'' ''Latest frontier agentic coding model.''
         (standard_reasoning_efforts ''Fast responses with lighter reasoning''
            ''Balances speed and reasoning depth for everyday tasks''
            ''Greater reasoning depth for complex problems'' ''Extra high reasoning depth for complex problems'')
         [''fast''] None
     else if model = ''gpt-5.3-codex'' then
       known_model ''gpt-5.3-codex'' ''Latest frontier agentic coding model.''
         (standard_reasoning_efforts ''Fast responses with lighter reasoning''
            ''Balances speed and reasoning depth for everyday tasks''
            ''Greater reasoning depth for complex problems'' ''Extra high reasoning depth for complex problems'')
         [] (Some (upgrade_to ''gpt-5.4''))
     else if model = ''gpt-5.2'' then
       known_model ''gpt-5.2'' ''Latest frontier model with improvements across knowledge, reasoning and coding''
         (standard_reasoning_efforts
            ''Balances speed with some reasoning; useful for straightforward queries and short explanations''
            ''Provides a solid balance of reasoning depth and latency for general-purpose tasks''
            ''Maximizes reasoning depth for complex or ambiguous problems'' ''Extra high reasoning for complex problems'')
         [] (Some (upgrade_to ''gpt-5.4''))
     else
       known_model model ''Available model from the managed account.''
         (standard_reasoning_efforts ''Fast responses with lighter reasoning'' ''Balanced reasoning for everyday tasks''
            ''Greater reasoning depth for complex problems'' ''Extra high reasoning depth for complex problems'')
         [] None)"

definition model_metadata :: "str \<Rightarrow> bool \<Rightarrow> app_server_model_metadata" where
  "model_metadata model is_default =
     \<lparr>am_model = model, am_known = known_model_metadata_for model, am_is_default = is_default\<rparr>"

definition opt_value :: "('a \<Rightarrow> json) \<Rightarrow> 'a option \<Rightarrow> json" where
  "opt_value f v = (case v of None \<Rightarrow> JNull | Some x \<Rightarrow> f x)"

definition strings :: "str list \<Rightarrow> json" where
  "strings xs = JArray (map JString xs)"

definition upgrade_info_json :: "model_upgrade_info \<Rightarrow> json" where
  "upgrade_info_json u = json_obj ([(''model'', JString (mu_model u))]
     @ opt_entry ''upgradeCopy'' (map_option JString (mu_upgrade_copy u))
     @ opt_entry ''modelLink'' (map_option JString (mu_model_link u))
     @ opt_entry ''migrationMarkdown'' (map_option JString (mu_migration_markdown u)))"

definition model_metadata_json :: "app_server_model_metadata \<Rightarrow> json" where
  "model_metadata_json m =
    (let k = am_known m in json_obj
      [(''id'', JString (am_model m)), (''model'', JString (am_model m)),
       (''upgrade'', opt_value (\<lambda>u. JString (mu_model u)) (km_upgrade k)),
       (''upgradeInfo'', opt_value upgrade_info_json (km_upgrade k)),
       (''availabilityNux'', opt_value (\<lambda>message. json_obj [(''message'', JString message)]) (km_availability_nux k)),
       (''displayName'', JString (km_display_name k)), (''description'', JString (km_description k)),
       (''hidden'', JBool (km_hidden k)),
       (''supportedReasoningEfforts'', JArray (map (\<lambda>e. json_obj
          [(''reasoningEffort'', JString (ro_reasoning_effort e)), (''description'', JString (ro_description e))])
          (km_supported_reasoning_efforts k))),
       (''defaultReasoningEffort'', JString (km_default_reasoning_effort k)),
       (''inputModalities'', strings (km_input_modalities k)),
       (''supportsPersonality'', JBool (km_supports_personality k)),
       (''additionalSpeedTiers'', strings (km_additional_speed_tiers k)), (''isDefault'', JBool (am_is_default m))])"

definition preferred_default_model :: "str list \<Rightarrow> str option" where
  "preferred_default_model models =
    (case find (\<lambda>preferred. preferred \<in> set models) [''gpt-5.4'', ''gpt-5.3-codex'', ''gpt-5.2''] of
       Some preferred \<Rightarrow> Some preferred
     | None \<Rightarrow> (case models of model # _ \<Rightarrow> Some model | [] \<Rightarrow> None))"

fun normalize_models :: "str list \<Rightarrow> str list \<Rightarrow> str list" where
  "normalize_models normalized [] = normalized"
| "normalize_models normalized (m # ms) =
    (let model = trim m in
     normalize_models (if model = [] \<or> model \<in> set normalized then normalized else normalized @ [model]) ms)"

definition normalize_account_models :: "str list \<Rightarrow> str list" where
  "normalize_account_models models = normalize_models [] models"

definition default_app_server_models :: "str list" where
  "default_app_server_models = [''gpt-5.4'', ''gpt-5.3-codex'', ''gpt-5.2'']"

definition parse_model_list_cursor :: "str \<Rightarrow> nat option" where
  "parse_model_list_cursor v = (if trim v = [] then None else map_option nat (parse_unsigned (trim v) (2 ^ 64)))"

text \<open>
  A page of a list: the part from the cursor on, and the cursor of the next page. The sum saturates,
  which the bound by the length hides.
\<close>

definition page_bounds :: "nat \<Rightarrow> nat option \<Rightarrow> str option \<Rightarrow> nat \<times> nat" where
  "page_bounds n limit cursor =
    (let start = min (case Option.bind cursor parse_model_list_cursor of Some c \<Rightarrow> c | None \<Rightarrow> 0) n
     in (start, case limit of Some l \<Rightarrow> min (start + l) n | None \<Rightarrow> n))"

definition page_json :: "json list \<Rightarrow> nat option \<Rightarrow> str option \<Rightarrow> json" where
  "page_json items limit cursor =
    (case page_bounds (length items) limit cursor of
       (start, stop) \<Rightarrow> json_obj
         [(''data'', JArray (drop start (take stop items))),
          (''nextCursor'', if stop < length items then JString (show_nat stop) else JNull)])"

definition build_model_list_response :: "str list \<Rightarrow> bool \<Rightarrow> nat option \<Rightarrow> str option \<Rightarrow> json" where
  "build_model_list_response models include_hidden limit cursor =
    (let default_model = preferred_default_model models;
         filtered = filter (\<lambda>m. include_hidden \<or> \<not> km_hidden (am_known m))
           (map (\<lambda>model. model_metadata model (default_model = Some model)) models)
     in page_json (map model_metadata_json filtered) limit cursor)"

definition param :: "json option \<Rightarrow> str \<Rightarrow> json option" where
  "param params k = Option.bind params (\<lambda>p. json_get p k)"

definition limit_of :: "json option \<Rightarrow> nat option" where
  "limit_of params = map_option unat (Option.bind (param params ''limit'') json_as_u64)"

definition cursor_of :: "json option \<Rightarrow> str option" where
  "cursor_of params = Option.bind (param params ''cursor'') json_as_str"

text \<open>There are no MCP servers.\<close>

definition mcp_server_status_list_result :: "json option \<Rightarrow> json" where
  "mcp_server_status_list_result params = page_json [] (limit_of params) (cursor_of params)"

subsection \<open>The account\<close>

definition json_int :: "int \<Rightarrow> json" where
  "json_int n = (if 0 \<le> n then JPosInt (word_of_int n) else JNegInt (word_of_int n))"

definition rate_limit_window_json :: "managed_rate_limit_window \<Rightarrow> json" where
  "rate_limit_window_json w = json_obj
     [(''usedPercent'', json_int (sint (rw_used_percent w))),
      (''windowDurationMins'', opt_value (\<lambda>n. json_int (sint n)) (rw_window_duration_mins w)),
      (''resetsAt'', opt_value (\<lambda>n. json_int (sint n)) (rw_resets_at w))]"

definition rate_limit_json :: "managed_rate_limit_snapshot \<Rightarrow> json" where
  "rate_limit_json l = json_obj
     [(''limitId'', opt_value JString (rl_limit_id l)), (''limitName'', opt_value JString (rl_limit_name l)),
      (''primary'', opt_value rate_limit_window_json (rl_primary l)),
      (''secondary'', opt_value rate_limit_window_json (rl_secondary l)),
      (''credits'', opt_value (\<lambda>c. json_obj [(''hasCredits'', JBool (mc_has_credits c)),
         (''unlimited'', JBool (mc_unlimited c)), (''balance'', opt_value JString (mc_balance c))]) (rl_credits l)),
      (''spendControl'', opt_value (\<lambda>c. json_obj [(''reached'', JBool (sp_reached c))]) (rl_spend_control l)),
      (''planType'', opt_value JString (rl_plan_type l))]"

text \<open>\<open>ManagedRateLimitSnapshot::default()\<close>.\<close>

definition no_rate_limits :: managed_rate_limit_snapshot where
  "no_rate_limits = \<lparr>rl_limit_id = None, rl_limit_name = None, rl_primary = None, rl_secondary = None,
     rl_credits = None, rl_spend_control = None, rl_plan_type = None\<rparr>"

definition sanitize_plan_type :: "str option \<Rightarrow> str option" where
  "sanitize_plan_type v =
    map_option (\<lambda>s. let normalized = to_ascii_lowercase (trim s) in
       if normalized \<in> {''free'', ''go'', ''plus'', ''pro'', ''team'', ''self_serve_business_usage_based'', ''business'',
            ''enterprise_cbp_usage_based'', ''enterprise'', ''edu'', ''unknown''}
       then normalized else ''unknown'') v"

definition sanitize_workspace_role :: "str option \<Rightarrow> str option" where
  "sanitize_workspace_role v =
    Option.bind v (\<lambda>s. let normalized = to_ascii_lowercase (trim s) in
       if normalized \<in> {''account-owner'', ''account-admin'', ''standard-user''} then Some normalized else None)"

definition requires_openai_auth :: "account_summary option \<Rightarrow> bool" where
  "requires_openai_auth summary =
    (case Option.bind summary as_base_url of Some base_url \<Rightarrow> trim base_url \<noteq> [] | None \<Rightarrow> True)"

definition account_value_from_summary :: "account_summary \<Rightarrow> json option" where
  "account_value_from_summary summary =
    (if as_auth_mode summary = Some ''apikey'' then Some (json_obj [(''type'', JString ''apiKey'')])
     else if as_auth_mode summary = Some ''chatgpt'' then
       map_option (\<lambda>email. json_obj
         [(''type'', JString ''chatgpt''), (''email'', JString email),
          (''planType'', JString (str_or (sanitize_plan_type (as_plan_type summary)) ''unknown''))])
         (as_chatgpt_email summary)
     else None)"

text \<open>The account of a session, if it still belongs to the session's tenant.\<close>

definition managed_account_summary :: "codex_app_session_state \<Rightarrow> instant \<Rightarrow> app_state \<Rightarrow> account_summary option" where
  "managed_account_summary session now app =
     find (\<lambda>account. as_id account = cs_account_id session \<and> as_tenant_id account = cs_tenant_id session)
       (account_summaries app now)"

definition account_read_result :: "account_summary option \<Rightarrow> json" where
  "account_read_result summary = json_obj
     [(''account'', opt_value id (Option.bind summary account_value_from_summary)),
      (''workspaceRole'', opt_value JString (Option.bind summary (\<lambda>s. sanitize_workspace_role (as_workspace_role s)))),
      (''isWorkspaceOwner'', opt_value JBool (Option.bind summary as_is_workspace_owner)),
      (''requiresOpenaiAuth'', JBool (requires_openai_auth summary))]"

definition account_updated_notification :: "account_summary option \<Rightarrow> json" where
  "account_updated_notification summary = json_obj
     [(''authMode'', opt_value JString (Option.bind summary as_auth_mode)),
      (''planType'', opt_value JString (Option.bind summary (\<lambda>s. sanitize_plan_type (as_plan_type s)))),
      (''workspaceRole'', opt_value JString (Option.bind summary (\<lambda>s. sanitize_workspace_role (as_workspace_role s)))),
      (''isWorkspaceOwner'', opt_value JBool (Option.bind summary as_is_workspace_owner))]"

definition auth_status_result :: "codex_app_session_state \<Rightarrow> account_summary option \<Rightarrow> app_state \<Rightarrow> json" where
  "auth_status_result session summary app = json_obj
     [(''authMethod'', opt_value JString (case summary of
         Some s \<Rightarrow> as_auth_mode s
       | None \<Rightarrow> app_server_auth_mode_from_credential (hm_get (rt_credentials (ap_runtime app)) (cs_account_id session)))),
      (''authToken'', JNull), (''requiresOpenaiAuth'', JBool (requires_openai_auth summary))]"

definition current_rate_limits_snapshot :: "account_summary option \<Rightarrow> managed_rate_limit_snapshot" where
  "current_rate_limits_snapshot summary =
    (case Option.bind summary as_rate_limits of Some l \<Rightarrow> l | None \<Rightarrow> no_rate_limits)"

definition rate_limits_result :: "account_summary option \<Rightarrow> json" where
  "rate_limits_result summary = json_obj
     [(''rateLimits'', rate_limit_json (current_rate_limits_snapshot summary)),
      (''rateLimitsByLimitId'', case summary of
         None \<Rightarrow> JNull
       | Some s \<Rightarrow> if as_rate_limits_by_limit_id s = [] then JNull
           else json_obj (map (\<lambda>(k, l). (k, rate_limit_json l)) (as_rate_limits_by_limit_id s)))]"

definition model_list_result :: "account_summary option \<Rightarrow> json option \<Rightarrow> json" where
  "model_list_result summary params =
    (let models = (case map_option (\<lambda>s. normalize_account_models (as_models s)) summary of
           Some (m # ms) \<Rightarrow> m # ms | _ \<Rightarrow> default_app_server_models)
     in build_model_list_response models (Option.bind (param params ''includeHidden'') json_as_bool = Some True)
          (limit_of params) (cursor_of params))"

subsection \<open>The connection\<close>

text \<open>What the process knows of itself.\<close>

record server_env =
  se_version :: str
  se_codex_home :: str
  se_family :: str
  se_os :: str

definition initialize_response_value :: "server_env \<Rightarrow> json" where
  "initialize_response_value env = json_obj
     [(''userAgent'', JString (''codex-manager-app-server/'' @ se_version env)), (''codexHome'', JString (se_codex_home env)),
      (''platformFamily'', JString (se_family env)), (''platformOs'', JString (se_os env))]"

record app_connection =
  cx_initialize_seen :: bool
  cx_notifications_ready :: bool
  cx_opt_out :: "str set"

definition new_connection :: app_connection where
  "new_connection = \<lparr>cx_initialize_seen = False, cx_notifications_ready = False, cx_opt_out = {}\<rparr>"

text \<open>\<open>render\<close> is \<open>Value::to_string\<close>.\<close>

definition send_app_server_json :: "(json \<Rightarrow> str) \<Rightarrow> json \<Rightarrow> socket \<Rightarrow> bool \<times> socket" where
  "send_app_server_json render v so = ws_send (Ws_Text (render v)) so"

definition app_server_result :: "json \<Rightarrow> json \<Rightarrow> json" where
  "app_server_result i result = json_obj [(''id'', i), (''result'', result)]"

definition app_server_error :: "json \<Rightarrow> int \<Rightarrow> str \<Rightarrow> json" where
  "app_server_error i code message = json_obj
     [(''id'', i), (''error'', json_obj [(''code'', json_int code), (''message'', JString message)])]"

definition app_server_notification :: "str \<Rightarrow> json \<Rightarrow> json" where
  "app_server_notification method params = json_obj [(''method'', JString method), (''params'', params)]"

definition emit_rate_limit_notification ::
  "(json \<Rightarrow> str) \<Rightarrow> account_summary option \<Rightarrow> app_connection \<Rightarrow> socket \<Rightarrow> bool \<times> socket" where
  "emit_rate_limit_notification render summary cx so =
    (if ''account/rateLimits/updated'' \<in> cx_opt_out cx then (True, so)
     else send_app_server_json render (app_server_notification ''account/rateLimits/updated''
       (json_obj [(''rateLimits'', rate_limit_json (current_rate_limits_snapshot summary))])) so)"

definition emit_account_notifications ::
  "(json \<Rightarrow> str) \<Rightarrow> account_summary option \<Rightarrow> app_connection \<Rightarrow> socket \<Rightarrow> bool \<times> socket" where
  "emit_account_notifications render summary cx so =
    (case (if ''account/updated'' \<in> cx_opt_out cx then (True, so)
           else send_app_server_json render (app_server_notification ''account/updated''
             (account_updated_notification summary)) so) of
       (False, so) \<Rightarrow> (False, so)
     | (True, so) \<Rightarrow> emit_rate_limit_notification render summary cx so)"

text \<open>What the connection uses: its session, the provider, the clock and the libraries.\<close>

record app_server =
  sv_session :: codex_app_session_state
  sv_provider :: provider
  sv_clock :: "nat \<Rightarrow> instant"
  sv_now :: instant
  sv_env :: server_env
  sv_parse :: "str \<Rightarrow> (json, str) result"
  sv_render :: "json \<Rightarrow> str"

definition summary_of :: "app_server \<Rightarrow> app_state \<Rightarrow> account_summary option" where
  "summary_of sv app = managed_account_summary (sv_session sv) (sv_now sv) app"

definition refreshed_account :: "app_server \<Rightarrow> bool \<Rightarrow> app_state \<Rightarrow> app_state" where
  "refreshed_account sv force app =
     snd (refresh_managed_account (sv_provider sv) force (sv_clock sv) (cs_account_id (sv_session sv)) app)"

text \<open>The connection goes on (\<open>True\<close>) as long as its messages can be alive.\<close>

type_synonym app_server_state = "app_connection \<times> socket \<times> app_state"

definition opted_out :: "(str \<times> json) list \<Rightarrow> str set" where
  "opted_out object =
    (case Option.bind (param (param (map_of object ''params'') ''capabilities'') ''optOutNotificationMethods'') json_as_array of
       Some items \<Rightarrow> set (List.map_filter json_as_str items) | None \<Rightarrow> {})"

text \<open>A request of an initialized connection.\<close>

definition app_server_request ::
  "app_server \<Rightarrow> json \<Rightarrow> str \<Rightarrow> (str \<times> json) list \<Rightarrow> app_server_state \<Rightarrow> bool \<times> app_server_state" where
  "app_server_request sv i method object w =
    (case w of (cx, so, app) \<Rightarrow>
       let params = map_of object ''params'';
           answer = (\<lambda>result app. case send_app_server_json (sv_render sv) (app_server_result i result) so of
             (alive, so) \<Rightarrow> (alive, (cx, so, app)))
       in
       if method = ''account/read'' then
         (let app = (if Option.bind (param params ''refreshToken'') json_as_bool = Some True
                     then refreshed_account sv True app else app);
              summary = summary_of sv app
          in case send_app_server_json (sv_render sv) (app_server_result i (account_read_result summary)) so of
               (False, so) \<Rightarrow> (False, (cx, so, app))
             | (True, so) \<Rightarrow>
                 (case (if cx_notifications_ready cx then emit_account_notifications (sv_render sv) summary cx so
                        else (True, so)) of (alive, so) \<Rightarrow> (alive, (cx, so, app))))
       else if method = ''account/rateLimits/read'' then
         (let app = refreshed_account sv False app;
              summary = summary_of sv app
          in case send_app_server_json (sv_render sv) (app_server_result i (rate_limits_result summary)) so of
               (False, so) \<Rightarrow> (False, (cx, so, app))
             | (True, so) \<Rightarrow>
                 (case (if cx_notifications_ready cx then emit_rate_limit_notification (sv_render sv) summary cx so
                        else (True, so)) of (alive, so) \<Rightarrow> (alive, (cx, so, app))))
       else if method = ''model/list'' then answer (model_list_result (summary_of sv app) params) app
       else if method = ''getAuthStatus'' then answer (auth_status_result (sv_session sv) (summary_of sv app) app) app
       else if method \<in> {''mcpServerStatus/list'', ''mcpServers/list''} then answer (mcp_server_status_list_result params) app
       else case send_app_server_json (sv_render sv) (app_server_error i (- 32601) ''Method not found'') so of
              (alive, so) \<Rightarrow> (alive, (cx, so, app)))"

definition handle_codex_app_server_text ::
  "app_server \<Rightarrow> str \<Rightarrow> app_server_state \<Rightarrow> bool \<times> app_server_state" where
  "handle_codex_app_server_text sv message w =
    (case w of (cx, so, app) \<Rightarrow>
       let refuse = (\<lambda>i code text. case send_app_server_json (sv_render sv) (app_server_error i code text) so of
             (alive, so) \<Rightarrow> (alive, (cx, so, app)))
       in case sv_parse sv message of
         Inl error \<Rightarrow> refuse JNull (- 32700) (''invalid JSON: '' @ error)
       | Inr v \<Rightarrow>
           (case json_as_object v of
              None \<Rightarrow> refuse JNull (- 32600) ''invalid request payload''
            | Some object \<Rightarrow>
                (case Option.bind (map_of object ''method'') json_as_str of
                   None \<Rightarrow> refuse (case map_of object ''id'' of Some i \<Rightarrow> i | None \<Rightarrow> JNull) (- 32600)
                     ''invalid request payload: missing method''
                 | Some method \<Rightarrow>
                     (case map_of object ''id'' of
                        None \<Rightarrow>
                          if method = ''initialized'' \<and> cx_initialize_seen cx
                          then (case emit_account_notifications (sv_render sv) (summary_of sv app)
                                     (cx\<lparr>cx_notifications_ready := True\<rparr>) so of
                                  (alive, so) \<Rightarrow> (alive, (cx\<lparr>cx_notifications_ready := True\<rparr>, so, app)))
                          else (True, w)
                      | Some i \<Rightarrow>
                          if \<not> cx_initialize_seen cx \<and> method \<noteq> ''initialize'' then refuse i (- 32002) ''Not initialized''
                          else if method = ''initialize'' then
                            (if cx_initialize_seen cx then refuse i (- 32003) ''Already initialized''
                             else (case send_app_server_json (sv_render sv)
                                        (app_server_result i (initialize_response_value (sv_env sv))) so of
                                     (alive, so) \<Rightarrow> (alive, (cx\<lparr>cx_opt_out := opted_out object, cx_initialize_seen := True\<rparr>, so, app))))
                          else app_server_request sv i method object w))))"

datatype app_server_incoming = App_Text str | App_Binary | App_Ping str | App_Pong | App_Close | App_Error

definition handle_app_server_message ::
  "app_server \<Rightarrow> app_server_incoming \<Rightarrow> app_server_state \<Rightarrow> bool \<times> app_server_state" where
  "handle_app_server_message sv m w =
    (case m of
       App_Text text \<Rightarrow> handle_codex_app_server_text sv text w
     | App_Binary \<Rightarrow>
         (case w of (cx, so, app) \<Rightarrow>
            case send_app_server_json (sv_render sv)
                   (app_server_error JNull (- 32600) ''binary websocket frames are not supported'') so of
              (alive, so) \<Rightarrow> (alive, (cx, so, app)))
     | App_Ping payload \<Rightarrow>
         (case w of (cx, so, app) \<Rightarrow> case ws_send (Ws_Pong payload) so of (alive, so) \<Rightarrow> (alive, (cx, so, app)))
     | App_Pong \<Rightarrow> (True, w)
     | App_Close \<Rightarrow> (False, w)
     | App_Error \<Rightarrow> (False, w))"

text \<open>The connection until it ends; each message comes with its own readings of clock and network.\<close>

fun handle_codex_app_server_socket ::
  "(app_server \<times> app_server_incoming) list \<Rightarrow> app_server_state \<Rightarrow> app_server_state" where
  "handle_codex_app_server_socket [] w = w"
| "handle_codex_app_server_socket ((sv, m) # ms) w =
    (case handle_app_server_message sv m w of
       (True, w) \<Rightarrow> handle_codex_app_server_socket ms w
     | (False, w) \<Rightarrow> w)"

end
