(* ===== verification/Admin.thy ===== *)
theory Admin
  imports App_Server Threads
begin

text \<open>
  The admin plane (\<open>http/admin.rs\<close>) and the client of the browser sidecar (\<open>browser_assist.rs\<close>): each
  endpoint as the operation it calls, with the status and the type of its error replies. The bodies are
  the values that are serialized. Fresh identifiers and clock readings are the parameters the operations
  have. Only the two endpoints of app sessions ask who is calling.
\<close>

subsection \<open>Replies\<close>

text \<open>An error reply: the status, the type and the message; the text of an \<open>app_error\<close> is its own.\<close>

record admin_error =
  er_status :: status_code
  er_kind :: str
  er_message :: app_error

definition error_reply :: "status_code \<Rightarrow> str \<Rightarrow> app_error \<Rightarrow> admin_error" where
  "error_reply status kind message = \<lparr>er_status = status, er_kind = kind, er_message = message\<rparr>"

definition answered ::
  "status_code \<Rightarrow> str \<Rightarrow> ('a, app_error) result \<times> app_state \<Rightarrow> ('a, admin_error) result \<times> app_state" where
  "answered status kind r =
    (case r of (Inr x, app) \<Rightarrow> (Inr x, app) | (Inl e, app) \<Rightarrow> (Inl (error_reply status kind e), app))"

definition answered_outcome ::
  "status_code \<Rightarrow> str \<Rightarrow> (('a, app_error) result \<times> app_state, app_state) outcome
     \<Rightarrow> (('a, admin_error) result \<times> app_state, app_state) outcome" where
  "answered_outcome status kind r =
    (case r of Returns x \<Rightarrow> Returns (answered status kind x) | Panics app \<Rightarrow> Panics app)"

subsection \<open>The browser sidecar\<close>

text \<open>A task as the sidecar sends it.\<close>

record browser_task_wire =
  bw_id :: str
  bw_kind :: str
  bw_account_id :: "str option"
  bw_account_label :: "str option"
  bw_provider :: "str option"
  bw_route_mode :: "route_mode option"
  bw_status :: str
  bw_created_at :: instant
  bw_updated_at :: instant
  bw_notes :: "str option"
  bw_profile_dir :: "str option"
  bw_screenshot_path :: "str option"
  bw_storage_state_path :: "str option"
  bw_final_url :: "str option"
  bw_last_error :: "str option"
  bw_steps :: "str list"

definition map_task :: "browser_task_wire \<Rightarrow> browser_task" where
  "map_task t =
    \<lparr>bt_id = bw_id t, bt_kind = bw_kind t, bt_account_id = bw_account_id t, bt_account_label = bw_account_label t,
     bt_provider = bw_provider t, bt_route_mode = bw_route_mode t, bt_status = bw_status t,
     bt_created_at = bw_created_at t, bt_updated_at = bw_updated_at t, bt_notes = bw_notes t,
     bt_profile_dir = bw_profile_dir t, bt_screenshot_path = bw_screenshot_path t,
     bt_storage_state_path = bw_storage_state_path t, bt_final_url = bw_final_url t,
     bt_last_error = bw_last_error t, bt_step_count = length (bw_steps t)\<rparr>"

text \<open>
  The sidecar: what a request is answered with, if it is; the body is \<open>None\<close> when it cannot be read as
  a task or a list of tasks.
\<close>

record sidecar =
  si_list :: "str \<Rightarrow> (status_code \<times> browser_task_wire list option) option"
  si_submit :: "str \<Rightarrow> browser_task_payload \<Rightarrow> (status_code \<times> browser_task_wire option) option"

definition list_tasks :: "sidecar \<Rightarrow> str \<Rightarrow> browser_task list" where
  "list_tasks si browser_assist_url =
    (case si_list si (trim_end_slashes browser_assist_url @ ''/v1/tasks'') of
       Some (status, Some items) \<Rightarrow> if is_success status then map map_task items else []
     | _ \<Rightarrow> [])"

definition submit_task :: "sidecar \<Rightarrow> str \<Rightarrow> str \<Rightarrow> browser_task_payload \<Rightarrow> (browser_task, status_code) result" where
  "submit_task si browser_assist_url kind payload =
    (case si_submit si (trim_end_slashes browser_assist_url @ ''/v1/tasks/'' @ kind) payload of
       None \<Rightarrow> Inl 502
     | Some (status, task) \<Rightarrow>
         if \<not> is_success status then Inl status
         else (case task of None \<Rightarrow> Inl 502 | Some t \<Rightarrow> Inr (map_task t)))"

text \<open>A request for a task has the fields of the payload.\<close>

definition browser_endpoint ::
  "str \<Rightarrow> sidecar \<Rightarrow> browser_task_payload \<Rightarrow> app_state \<Rightarrow> (browser_task, admin_error) result \<times> app_state" where
  "browser_endpoint kind si payload app =
    (case submit_task si (cf_browser_assist_url (ap_config app)) kind payload of
       Inr task \<Rightarrow> (Inr task, app)
     | Inl status \<Rightarrow> (Inl (error_reply status ''browser_assist_unavailable'' (External ''Browser assist unavailable.'')), app))"

definition browser_login :: "sidecar \<Rightarrow> browser_task_payload \<Rightarrow> app_state \<Rightarrow> (browser_task, admin_error) result \<times> app_state" where
  "browser_login = browser_endpoint ''login''"

definition browser_recover :: "sidecar \<Rightarrow> browser_task_payload \<Rightarrow> app_state \<Rightarrow> (browser_task, admin_error) result \<times> app_state" where
  "browser_recover = browser_endpoint ''recover''"

subsection \<open>Dashboard\<close>

definition dashboard ::
  "sidecar \<Rightarrow> instant \<Rightarrow> instant \<Rightarrow> instant \<Rightarrow> app_state \<Rightarrow> dashboard_snapshot option" where
  "dashboard si now alert_now refreshed_at app =
     map_option (\<lambda>snapshot.
         (let tasks = list_tasks si (cf_browser_assist_url (ap_config app))
          in snapshot\<lparr>ds_counts := (ds_counts snapshot)\<lparr>dc_browser_tasks := length tasks\<rparr>, ds_browser_tasks := tasks\<rparr>))
       (dashboard_snapshot_of app now alert_now refreshed_at)"

definition dashboard_live_snapshot_of ::
  "(str \<Rightarrow> provider) \<Rightarrow> (str \<Rightarrow> nat \<Rightarrow> instant) \<Rightarrow> instant \<Rightarrow> instant \<Rightarrow> instant \<Rightarrow> instant \<Rightarrow> instant \<Rightarrow> app_state
     \<Rightarrow> dashboard_live_snapshot option \<times> app_state" where
  "dashboard_live_snapshot_of pv t sweep_now now alert_now refreshed_at live_at app =
    (let app = refresh_stale_managed_accounts pv t sweep_now (secs 60) app
     in (map_option (\<lambda>s. \<lparr>dl_refreshed_at = live_at, dl_cache_metrics = ds_cache_metrics s, dl_accounts = ds_accounts s,
           dl_leases = ds_leases s, dl_account_alerts = ds_account_alerts s, dl_request_logs = ds_request_logs s,
           dl_billing = ds_billing s\<rparr>) (dashboard_snapshot_of app now alert_now refreshed_at), app))"

subsection \<open>Accounts\<close>

definition admin_refresh_account_models ::
  "(upstream_credential \<Rightarrow> route_mode \<Rightarrow> (str list, str) result) \<Rightarrow> (app_state \<Rightarrow> app_state) \<Rightarrow> instant \<Rightarrow> app_state
     \<Rightarrow> (account_summary list, admin_error) result \<times> app_state" where
  "admin_refresh_account_models list_models during now app =
    (case refresh_account_models list_models during now app of
       (accounts, app) \<Rightarrow> answered 502 ''model_refresh_failed'' (Inr accounts, app))"

definition admin_refresh_account_quota ::
  "provider \<Rightarrow> (nat \<Rightarrow> instant) \<Rightarrow> str \<Rightarrow> app_state \<Rightarrow> (account_summary, admin_error) result \<times> app_state" where
  "admin_refresh_account_quota pv t account_id app =
     answered 400 ''quota_refresh_failed'' (refresh_account_quota pv t account_id app)"

definition admin_delete_account :: "str \<Rightarrow> app_state \<Rightarrow> (unit, admin_error) result \<times> app_state" where
  "admin_delete_account account_id app = answered 400 ''account_delete_failed'' (delete_account account_id app)"

definition admin_cleanup_banned_accounts ::
  "instant \<Rightarrow> app_state \<Rightarrow> (account_cleanup_result, admin_error) result \<times> app_state" where
  "admin_cleanup_banned_accounts now app = answered 400 ''account_cleanup_failed'' (cleanup_banned_accounts now app)"

text \<open>The reply to a route event is the new state, if the account and the event are known.\<close>

definition admin_route_event ::
  "str \<Rightarrow> str \<Rightarrow> route_event_request \<Rightarrow> instant \<Rightarrow> app_state \<Rightarrow> account_route_state option \<times> app_state" where
  "admin_route_event incident_id account_id payload now app = record_route_event incident_id account_id payload now app"

subsection \<open>Threads\<close>

definition start_thread ::
  "start_conversation_thread_request \<Rightarrow> str \<Rightarrow> instant \<times> instant \<times> instant \<Rightarrow> app_state
     \<Rightarrow> (conversation_thread_view, admin_error) result \<times> app_state" where
  "start_thread payload uuid clock app = answered 400 ''thread_start_failed'' (start_conversation_thread payload uuid clock app)"

definition fork_thread ::
  "fork_conversation_thread_request \<Rightarrow> str \<Rightarrow> instant \<times> instant \<times> instant \<Rightarrow> instant \<times> instant \<Rightarrow> app_state
     \<Rightarrow> (conversation_thread_view, admin_error) result \<times> app_state" where
  "fork_thread payload uuid clock us app = answered 400 ''thread_fork_failed'' (fork_conversation_thread payload uuid clock us app)"

definition compact_thread ::
  "compact_conversation_thread_request \<Rightarrow> instant \<times> instant \<times> instant \<times> instant \<Rightarrow> app_state
     \<Rightarrow> ((conversation_thread_view, admin_error) result \<times> app_state, app_state) outcome" where
  "compact_thread payload ts app = answered_outcome 400 ''thread_compact_failed'' (compact_conversation_thread payload ts app)"

definition thread_view :: "str \<Rightarrow> app_state \<Rightarrow> (conversation_thread_view, admin_error) result" where
  "thread_view thread_id app =
    (case conversation_thread_view_of app thread_id of
       Some thread \<Rightarrow> Inr thread
     | None \<Rightarrow> Inl (error_reply 404 ''not_found'' (External ''Thread not found.'')))"

subsection \<open>Users and keys\<close>

definition create_user ::
  "create_gateway_user_request \<Rightarrow> uuid \<Rightarrow> instant \<Rightarrow> uuid \<Rightarrow> str \<Rightarrow> instant \<Rightarrow> app_state
     \<Rightarrow> ((created_gateway_user, admin_error) result \<times> app_state, app_state) outcome" where
  "create_user payload default_id t0 new_id simple now app =
     answered_outcome 400 ''create_user_failed'' (create_gateway_user payload default_id t0 new_id simple now app)"

definition update_user ::
  "uuid \<Rightarrow> update_gateway_user_request \<Rightarrow> instant \<Rightarrow> app_state
     \<Rightarrow> ((gateway_user_view, admin_error) result \<times> app_state, app_state) outcome" where
  "update_user user_id payload now app =
     answered_outcome 400 ''update_user_failed'' (update_gateway_user user_id payload now app)"

definition admin_create_api_key ::
  "create_gateway_api_key_request \<Rightarrow> uuid \<Rightarrow> str \<Rightarrow> instant \<Rightarrow> instant \<Rightarrow> app_state
     \<Rightarrow> (created_gateway_api_key, admin_error) result \<times> app_state" where
  "admin_create_api_key payload new_id simple t1 t2 app =
    (case create_api_key payload new_id simple t1 t2 app of
       (Some api_key, app) \<Rightarrow> (Inr api_key, app)
     | (None, app) \<Rightarrow> (Inl (error_reply 404 ''not_found'' (External ''Tenant not found.'')), app))"

subsection \<open>Login\<close>

definition openai_login_start ::
  "(str \<Rightarrow> (str, str) result) \<Rightarrow> (str \<Rightarrow> str) \<Rightarrow> openai_login_start_request \<Rightarrow> str \<times> str \<Rightarrow> str \<Rightarrow> uuid
     \<Rightarrow> instant \<Rightarrow> instant \<Rightarrow> app_state \<Rightarrow> (openai_login_start_response, admin_error) result \<times> app_state" where
  "openai_login_start parse_url encode payload pkce login_id new_id t1 t2 app =
     answered 400 ''openai_login_start_failed'' (start_openai_login parse_url encode payload pkce login_id new_id t1 t2 app)"

definition admin_openai_login_status :: "str \<Rightarrow> app_state \<Rightarrow> (openai_login_session_view, admin_error) result" where
  "admin_openai_login_status login_id app =
    (case openai_login_status app login_id of
       Some session \<Rightarrow> Inr session
     | None \<Rightarrow> Inl (error_reply 404 ''not_found'' (External ''Login session not found.'')))"

definition openai_login_complete ::
  "provider \<Rightarrow> openai_login_complete_request \<Rightarrow> str \<Rightarrow> (nat \<Rightarrow> instant) \<Rightarrow> app_state
     \<Rightarrow> (upstream_account, admin_error) result \<times> app_state" where
  "openai_login_complete pv payload simple t app =
     answered 400 ''openai_login_complete_failed'' (complete_openai_login pv payload simple t app)"

subsection \<open>App sessions\<close>

definition bearer_token :: "headers \<Rightarrow> str option" where
  "bearer_token headers =
     Option.bind (header_text headers ''authorization'') (\<lambda>auth. if starts_with auth ''Bearer '' then Some (drop 7 auth) else None)"

definition gateway_auth_from_headers :: "headers \<Rightarrow> app_state \<Rightarrow> gateway_auth_context option" where
  "gateway_auth_from_headers headers app =
     Option.bind (bearer_token headers) (auth_context_for_bearer (ap_runtime app))"

text \<open>The clock is read a second time after the expired sessions are dropped.\<close>

definition codex_app_session_from_headers ::
  "headers \<Rightarrow> instant \<Rightarrow> instant \<Rightarrow> app_state \<Rightarrow> codex_app_session_state option \<times> app_state" where
  "codex_app_session_from_headers headers now later app =
    (case bearer_token headers of
       None \<Rightarrow> (None, app)
     | Some token \<Rightarrow>
         (case codex_app_session_for_token token now app of
            (None, app) \<Rightarrow> (None, app)
          | (Some session, app) \<Rightarrow> (if cs_expires_at session \<le> later then None else Some session, app)))"

text \<open>"no Host header, cannot build the websocket address", "no valid gateway API key".\<close>

definition no_host :: str where
  "no_host = bytes [0xE7, 0xBC, 0xBA, 0xE5, 0xB0, 0x91] @ '' Host ''
     @ bytes [0xE5, 0xA4, 0xB4, 0xEF, 0xBC, 0x8C, 0xE6, 0x97, 0xA0, 0xE6, 0xB3, 0x95, 0xE7, 0x94, 0x9F, 0xE6, 0x88, 0x90]
     @ '' websocket '' @ bytes [0xE5, 0x9C, 0xB0, 0xE5, 0x9D, 0x80, 0xE3, 0x80, 0x82]"

definition no_gateway_key :: str where
  "no_gateway_key = bytes [0xE7, 0xBC, 0xBA, 0xE5, 0xB0, 0x91, 0xE6, 0x9C, 0x89, 0xE6, 0x95, 0x88, 0xE7, 0x9A, 0x84]
     @ '' Gateway API Key'' @ bytes [0xE3, 0x80, 0x82]"

text \<open>A header that is there hides the one after it, even when it cannot be read as text.\<close>

definition first_header :: "headers \<Rightarrow> str \<Rightarrow> str \<Rightarrow> str option" where
  "first_header headers name fallback =
     Option.bind (case map_of headers name of Some v \<Rightarrow> Some v | None \<Rightarrow> map_of headers fallback) (\<lambda>v. v)"

definition websocket_public_url :: "headers \<Rightarrow> (str, str) result" where
  "websocket_public_url headers =
    (case non_blank (first_header headers ''x-forwarded-host'' ''host'') of
       None \<Rightarrow> Inl no_host
     | Some host \<Rightarrow>
         (let forwarded_proto = str_or (first_header headers ''x-forwarded-proto'' ''x-forwarded-scheme'') ''http'';
              scheme = (if eq_ignore_ascii_case forwarded_proto ''https'' \<or> eq_ignore_ascii_case forwarded_proto ''wss''
                        then ''wss'' else ''ws'')
          in Inr (scheme @ ''://'' @ host @ ''/api/v1/codex/app-server/ws'')))"

definition codex_app_session ::
  "(str \<Rightarrow> app_state \<Rightarrow> (unit, app_error) result \<times> app_state) \<Rightarrow> headers \<Rightarrow> codex_app_session_request \<Rightarrow> str \<Rightarrow> instant
     \<Rightarrow> app_state \<Rightarrow> (codex_app_session_response, admin_error) result \<times> app_state" where
  "codex_app_session refresh headers payload token now app =
    (case gateway_auth_from_headers headers app of
       None \<Rightarrow> (Inl (error_reply 401 ''unauthorized'' (External no_gateway_key)), app)
     | Some auth \<Rightarrow>
         (case websocket_public_url headers of
            Inl message \<Rightarrow> (Inl (error_reply 400 ''codex_app_session_failed'' (External message)), app)
          | Inr websocket_url \<Rightarrow> answered 400 ''codex_app_session_failed''
              (create_codex_app_session refresh payload (tn_id (gc_tenant auth)) websocket_url token now app)))"

text \<open>
  The app server's endpoint: who has no session is refused, the others are served until the connection
  ends. \<open>serve\<close> makes the parts of the connection for a session, message by message.
\<close>

definition codex_app_server_ws ::
  "headers \<Rightarrow> instant \<Rightarrow> instant \<Rightarrow> (codex_app_session_state \<Rightarrow> (app_server \<times> app_server_incoming) list) \<Rightarrow> socket
     \<Rightarrow> app_state \<Rightarrow> (app_server_state, admin_error) result \<times> app_state" where
  "codex_app_server_ws headers now later serve so app =
    (case codex_app_session_from_headers headers now later app of
       (None, app) \<Rightarrow> (Inl (error_reply 401 ''unauthorized'' (External ''Unauthorized codex app-server session.'')), app)
     | (Some session, app) \<Rightarrow>
         (let w = handle_codex_app_server_socket (serve session) (new_connection, so, app)
          in (Inr w, snd (snd w))))"

end
