(* ===== verification/Number_Text.thy ===== *)
theory Number_Text
  imports Routing
begin

text \<open>
  Numbers as text: the decimal text of a number reads back as the number, and trimming leaves it alone.
\<close>

lemma ws_len_visible:
  assumes "33 \<le> byte c" and "byte c < 128"
  shows "ws_len (c # t) = 0" "ws_len_rev (c # t) = 0"
  using assms
  by (cases "c # t" rule: ws_len.cases, auto simp: ws2_def ws3_def is_ascii_ws_def)
    (cases "c # t" rule: ws_len_rev.cases, auto simp: ws2_def ws3_def is_ascii_ws_def)

lemma trim_visible:
  assumes "ws_len s = 0" and "33 \<le> byte (last s)" and "byte (last s) < 128" and "s \<noteq> []"
  shows "trim s = s"
proof -
  have "rev s = last s # rev (butlast s)" using assms(4) by (simp add: rev_eq_Cons_iff)
  then have "ws_len_rev (rev s) = 0" by (simp only: ws_len_visible(2) [OF assms(2,3)])
  with assms(1) show ?thesis by (rule trim_fix)
qed

lemma show_nat_digits: "c \<in> set (show_nat n) \<Longrightarrow> 48 \<le> byte c \<and> byte c \<le> 57"
proof (induction n rule: show_nat.induct)
  case (1 n)
  show ?case
  proof (cases "n < 10")
    case True
    with 1 show ?thesis by (simp add: show_nat.simps [of n])
  next
    case False
    have "n mod 10 < 10" by simp
    then have "48 + n mod 10 \<le> 57" by linarith
    with False 1 show ?thesis by (auto simp: show_nat.simps [of n])
  qed
qed

lemma show_nat_not_Nil [simp]: "show_nat n \<noteq> []"
  by (simp add: show_nat.simps [of n])

lemma show_nat_ends: "33 \<le> byte (hd (show_nat n))" "byte (hd (show_nat n)) < 128"
    "33 \<le> byte (last (show_nat n))" "byte (last (show_nat n)) < 128"
  using show_nat_digits [of "hd (show_nat n)" n] show_nat_digits [of "last (show_nat n)" n] by auto

lemma trim_show_nat [simp]: "trim (show_nat n) = show_nat n"
  using ws_len_visible(1) [OF show_nat_ends(1,2), of n "tl (show_nat n)"] show_nat_ends(3,4) [of n]
  by (intro trim_visible) simp_all

lemma digits_value_append:
  "digits_value (xs @ ys) acc = Option.bind (digits_value xs acc) (digits_value ys)"
  by (induction xs arbitrary: acc) auto

lemma digit_value: "d < 10 \<Longrightarrow> is_digit (char_of (48 + d)) \<and> int (byte (char_of (48 + d))) = 48 + int d"
  by (simp add: is_digit_def)

lemma digits_value_show_nat: "digits_value (show_nat n) 0 = Some (int n)"
proof (induction n rule: show_nat.induct)
  case (1 n)
  show ?case
  proof (cases "n < 10")
    case True
    then show ?thesis by (simp add: show_nat.simps [of n] digit_value)
  next
    case False
    have "n mod 10 < 10" by simp
    with False 1 show ?thesis
      by (simp add: show_nat.simps [of n] digits_value_append digit_value) presburger
  qed
qed

lemma parse_show_nat:
  assumes "int n < bound"
  shows "parse_unsigned (show_nat n) bound = Some (int n)"
proof -
  have "\<not> starts_with (show_nat n) ''+''"
  proof
    assume "starts_with (show_nat n) ''+''"
    then have "CHR ''+'' \<in> set (show_nat n)" by (auto simp: starts_with_iff)
    from show_nat_digits [OF this] show False by (simp add: byte_def)
  qed
  with assms show ?thesis by (simp add: parse_unsigned_def digits_value_show_nat Let_def)
qed

subsection \<open>Window ids\<close>

lemma parse_show_word: "parse_u32 (show_word g) = Some g"
proof -
  have "int (unat g) < 2 ^ 32" using unsigned_less [of g] by simp
  then show ?thesis by (simp add: parse_u32_def show_word_def parse_show_nat)
qed

lemma ws_len_replaced: "ws_len s = 0 \<Longrightarrow> ws_len (replace_byte (CHR '' '') (CHR ''_'') s) = 0"
  by (cases s rule: ws_len.cases) (auto simp: replace_byte_def ws2_def ws3_def is_ascii_ws_def byte_def split: if_splits)

lemma ws_len_rev_replaced: "ws_len_rev s = 0 \<Longrightarrow> ws_len_rev (replace_byte (CHR '' '') (CHR ''_'') s) = 0"
  by (cases s rule: ws_len_rev.cases) (auto simp: replace_byte_def ws2_def ws3_def is_ascii_ws_def byte_def split: if_splits)

lemma normalized_thread_id:
  fixes t defines "n \<equiv> normalize_header_thread_id t"
  shows "ws_len n = 0" "ws_len_rev (rev n) = 0" "normalize_header_thread_id n = n"
proof -
  show a: "ws_len n = 0" by (simp add: n_def normalize_header_thread_id_def ws_len_replaced)
  have "rev n = replace_byte (CHR '' '') (CHR ''_'') (rev (trim t))"
    by (simp add: n_def normalize_header_thread_id_def replace_byte_def rev_map)
  then show b: "ws_len_rev (rev n) = 0" by (simp add: ws_len_rev_replaced)
  have "replace_byte (CHR '' '') (CHR ''_'') n = n"
    by (simp add: n_def normalize_header_thread_id_def replace_byte_def)
  with trim_fix [OF a b] show "normalize_header_thread_id n = n" by (simp add: normalize_header_thread_id_def)
qed

lemma ws_len_colon: "ws_len n = 0 \<Longrightarrow> ws_len (n @ CHR '':'' # t) = 0"
  using ws_len_visible(1) [of "CHR '':''" t]
  by (cases n rule: ws_len.cases; cases t) (auto simp: ws2_def ws3_def is_ascii_ws_def byte_def)

lemma rsplit_once_last: "c \<notin> set ds \<Longrightarrow> rsplit_once c (n @ c # ds) = Some (n, ds)"
proof -
  have "c \<notin> set xs \<Longrightarrow> split_once c (xs @ c # ys) = Some (xs, ys)" for xs ys by (induction xs) auto
  then show "c \<notin> set ds \<Longrightarrow> ?thesis" by (simp add: rsplit_once_def)
qed

text \<open>Fact (window_id_stable).
  The canonical form of a window id is read back as the same window: the spelling of the header's blanks,
  of a plus sign or of leading zeros makes no difference to the thread, and reading twice changes
  nothing.\<close>

theorem window_id_stable:
  assumes "parse_codex_window_id v = Inr w"
  shows "parse_codex_window_id (pw_canonical w) = Inr w \<and> pw_thread_id w \<noteq> []
    \<and> trim (pw_canonical w) = pw_canonical w"
proof -
  obtain t where n: "pw_thread_id w = normalize_header_thread_id t" "pw_thread_id w \<noteq> []"
      and c: "pw_canonical w = pw_thread_id w @ CHR '':'' # show_word (pw_generation w)"
    using assms by (auto simp: parse_codex_window_id_def Let_def split: option.splits if_splits)
  note norm = normalized_thread_id [of t, folded n(1)]
  have "CHR '':'' \<notin> set (show_word (pw_generation w))"
    using show_nat_digits by (force simp: show_word_def byte_def)
  then have split: "rsplit_once (CHR '':'') (pw_canonical w) = Some (pw_thread_id w, show_word (pw_generation w))"
    by (simp add: c rsplit_once_last)
  have trim: "trim (pw_canonical w) = pw_canonical w"
    using show_nat_ends(3,4) [of "unat (pw_generation w)"] ws_len_colon [OF norm(1)]
    by (intro trim_visible) (simp_all add: c show_word_def)
  have "w = \<lparr>pw_thread_id = pw_thread_id w, pw_generation = pw_generation w, pw_canonical = pw_canonical w\<rparr>" by simp
  with n(2) norm(3) c split trim show ?thesis
    by (simp add: parse_codex_window_id_def Let_def parse_show_word)
qed

theorem window_id_stable_witness:
  "\<exists>w. parse_codex_window_id ''  my thread:+007 '' = Inr w \<and> parse_codex_window_id (pw_canonical w) = Inr w
    \<and> pw_canonical w = ''my_thread:7''"
proof -
  have "case parse_codex_window_id ''  my thread:+007 '' of Inr w \<Rightarrow> pw_canonical w = ''my_thread:7'' | Inl _ \<Rightarrow> False"
    by code_simp
  then obtain w where w: "parse_codex_window_id ''  my thread:+007 '' = Inr w" "pw_canonical w = ''my_thread:7''"
    by (auto split: sum.splits)
  with window_id_stable [OF w(1)] show ?thesis by blast
qed

end
