(* ===== verification/App_Server_Laws.thy ===== *)
theory App_Server_Laws
  imports Admin Request_Laws Account_Laws Number_Text
begin

text \<open>
  What an app-server connection may do to the instance, the shape of its answers and the paging of its
  lists. The refresh of an account is followed step by step by the locale \<open>account_step\<close>.
\<close>

subsection \<open>The steps of a refresh\<close>

text \<open>
  A relation between states that the primitive steps of a refresh of account \<open>i\<close> satisfy is one the
  whole refresh satisfies, with what other tasks do meanwhile.
\<close>

locale account_step =
  fixes R :: "str \<Rightarrow> app_state \<Rightarrow> app_state \<Rightarrow> bool"
  assumes refl: "R i app app"
    and trans: "R i app mid \<Longrightarrow> R i mid app' \<Longrightarrow> R i app app'"
    and changed: "update_credential i f app = Some (c, app') \<Longrightarrow> (\<And>c. cr_account_id (f c) = cr_account_id c)
      \<Longrightarrow> R i app (enqueue (CredentialUpsert c) app')"
    and limited: "update_credential i f app = Some (c, app') \<Longrightarrow> (\<And>c. cr_account_id (f c) = cr_account_id c)
      \<Longrightarrow> R i app (enqueue (CredentialUpsert c) (apply_managed_rate_limits_to_account i m app'))"
    and token: "R i app (remember_token i t app)"
begin

lemma failed: "R i app (record_managed_account_failure i m u now app)"
proof -
  have "R i app (enqueue (CredentialUpsert c) app')"
    if "update_credential i (\<lambda>c. c\<lparr>cr_managed_auth := f c, cr_updated_at := now\<rparr>) app = Some (c, app')" for f c app'
    using that by (rule changed) simp
  then show ?thesis
    by (auto simp: record_managed_account_failure_def Let_def refl split: prod.split option.split)
qed

lemma rotated:
  assumes "attach_rotated_refresh_token pv i token now app = (r, app')"
  shows "R i app app'"
proof -
  have step: "R i a (enqueue (CredentialUpsert c) b)"
    if "update_credential i (\<lambda>c. c\<lparr>cr_managed_auth := f c, cr_updated_at := now\<rparr>) a = Some (c, b)" for f c a b
    using that by (rule changed) simp
  show ?thesis
    using assms
    by (auto simp: attach_rotated_refresh_token_def refl token intro: step trans [OF token step]
        split: option.splits sum.splits)
qed

lemma traded:
  assumes "\<And>a. R i a (pv_during pv a)" and "trade_refresh_token pv i token now app = (r, app')"
  shows "R i app app'"
  using assms(2) trans [OF assms(1) failed] trans [OF assms(1) rotated]
  by (auto simp: trade_refresh_token_def Let_def assms(1) split: sum.splits option.splits prod.splits)

lemma forced:
  assumes "\<And>a. R i a (pv_during pv a)" and "forced_token pv force token i credential now app = (r, app')"
  shows "R i app app'"
  using assms(2) traded [OF assms(1)]
  by (auto simp: forced_token_def refl split: bool.splits option.splits sum.splits prod.splits)

lemma snapped:
  assumes "\<And>a. R i a (pv_during pv a)"
    and "managed_snapshot pv token i access credential traded now app = (r, app')"
  shows "R i app app'"
proof -
  have fail: "R i a b" if "fetch_failed i e now (pv_during pv a) = (r', b)"
    for e a b and r' :: "(str \<times> managed_chatgpt_snapshot, app_error) result"
    using that trans [OF assms(1) failed] by (auto simp: fetch_failed_def)
  obtain f0 where f0: "fetch_snapshot pv 0 credential access app = (f0, pv_during pv app)"
    by (simp add: fetch_snapshot_def)
  show ?thesis
  proof (cases "\<exists>error t. f0 = Inl error \<and> me_unauthorized error \<and> \<not> traded \<and> token = Some t")
    case False
    then show ?thesis
      using assms(2) f0 assms(1)
      by (cases f0; cases token) (auto simp: managed_snapshot_def dest: fail split: bool.splits)
  next
    case True
    then obtain error t where e: "f0 = Inl error" "me_unauthorized error" "\<not> traded" "token = Some t" by blast
    obtain r1 mid where tr: "trade_refresh_token pv i t now (pv_during pv app) = (r1, mid)"
      by (cases "trade_refresh_token pv i t now (pv_during pv app)")
    have "R i app mid" using assms(1) traded [OF assms(1) tr] by (rule trans)
    then show ?thesis
      using e tr f0 assms(2) trans [of i app mid] fail assms(1)
      by (cases r1) (auto simp: managed_snapshot_def fetch_snapshot_def split: sum.splits)
  qed
qed

lemma stored: "R i app (snd (store_managed_snapshot i access snapshot t1 t2 app))"
proof -
  have "R i app (enqueue (CredentialUpsert c) (apply_managed_rate_limits_to_account i m app'))"
    if "update_credential i (\<lambda>c. c\<lparr>cr_bearer_token := access, cr_chatgpt_account_id := f c,
          cr_managed_auth := g c, cr_updated_at := t2\<rparr>) app = Some (c, app')" for f g c m app'
    by (rule limited [OF that]) simp
  then show ?thesis by (auto simp: store_managed_snapshot_def refl split: option.split)
qed

lemma refreshed:
  assumes "\<And>a. R i a (pv_during pv a)"
  shows "R i app (snd (refresh_managed_account pv force t i app))"
proof (cases "refresh_managed_account pv force t i app")
  case (Pair r app')
  have "R i app app'"
  proof (cases "\<exists>credential token. hm_get (rt_credentials (ap_runtime app)) i = Some credential
      \<and> cr_managed_auth credential \<noteq> None \<and> managed_refresh_token_for pv credential app = Inr token")
    case False
    then show ?thesis using Pair
      by (auto simp: refresh_managed_account_def refl split: option.splits sum.splits if_splits)
  next
    case True
    then obtain credential token where c: "hm_get (rt_credentials (ap_runtime app)) i = Some credential"
        "cr_managed_auth credential \<noteq> None" "managed_refresh_token_for pv credential app = Inr token" by blast
    obtain r1 app1 where f: "forced_token pv force token i credential (t 0) app = (r1, app1)"
      by (cases "forced_token pv force token i credential (t 0) app")
    have r1: "R i app app1" using forced [OF assms f] .
    show ?thesis
    proof (cases r1)
      case (Inl e)
      with Pair c f r1 show ?thesis by (simp add: refresh_managed_account_def)
    next
      case (Inr triple)
      obtain access c' traded where triple: "triple = (access, c', traded)" by (cases triple)
      obtain r2 app2 where s: "managed_snapshot pv token i access c' traded (t 1) app1 = (r2, app2)"
        by (cases "managed_snapshot pv token i access c' traded (t 1) app1")
      have r2: "R i app app2" using r1 snapped [OF assms s] by (rule trans)
      show ?thesis
      proof (cases r2)
        case (Inl e)
        with Pair c f s Inr triple r2 show ?thesis by (simp add: refresh_managed_account_def)
      next
        case (Inr pair)
        obtain access2 snapshot where pair: "pair = (access2, snapshot)" by (cases pair)
        have "R i app (snd (store_managed_snapshot i access2 snapshot (t 2) (t 3) app2))"
          using r2 stored by (rule trans)
        moreover have "store_managed_snapshot i access2 snapshot (t 2) (t 3) app2 = (r, app')"
          using Pair c f s \<open>r1 = Inr triple\<close> triple Inr pair by (simp add: refresh_managed_account_def)
        ultimately show ?thesis by simp
      qed
    qed
  qed
  with Pair show ?thesis by simp
qed

end

text \<open>
  Nothing changes but the entries of account \<open>i\<close> in the accounts, the credentials and the refresh
  tokens in memory.
\<close>

definition elsewhere :: "runtime_state \<Rightarrow> runtime_state" where
  "elsewhere rt = rt\<lparr>rt_accounts := [], rt_credentials := [], rt_ephemeral_refresh_tokens := []\<rparr>"

definition only_account :: "str \<Rightarrow> app_state \<Rightarrow> app_state \<Rightarrow> bool" where
  "only_account i app app' \<longleftrightarrow> ap_config app' = ap_config app \<and> ap_recover_tasks app' = ap_recover_tasks app
     \<and> elsewhere (ap_runtime app') = elsewhere (ap_runtime app)
     \<and> (\<forall>j. j \<noteq> i \<longrightarrow> hm_get (rt_accounts (ap_runtime app')) j = hm_get (rt_accounts (ap_runtime app)) j
          \<and> hm_get (rt_credentials (ap_runtime app')) j = hm_get (rt_credentials (ap_runtime app)) j
          \<and> hm_get (rt_ephemeral_refresh_tokens (ap_runtime app')) j
              = hm_get (rt_ephemeral_refresh_tokens (ap_runtime app)) j)"

interpretation frame: account_step only_account
proof
  fix i app c app' f m
  assume "update_credential i f app = Some (c, app')"
  then have u: "only_account i app (enqueue (CredentialUpsert c) app')" and app': "only_account i app app'"
    by (auto simp: only_account_def update_credential_def elsewhere_def on_runtime_def enqueue_def)
  have "only_account i app' (apply_managed_rate_limits_to_account i m app')"
    by (auto simp: only_account_def apply_managed_rate_limits_to_account_def elsewhere_def on_runtime_def
        enqueue_def Let_def split: option.split prod.split)
  with app' show "only_account i app (enqueue (CredentialUpsert c) (apply_managed_rate_limits_to_account i m app'))"
    by (auto simp: only_account_def enqueue_def)
  from u show "only_account i app (enqueue (CredentialUpsert c) app')" .
qed (auto simp: only_account_def elsewhere_def remember_token_def on_runtime_def enqueue_def)

lemma stored_account_keeps:
  assumes "hm_get (rt_accounts (ap_runtime app)) i = Some account"
    and "ac_id new = ac_id account" "ac_current_mode new = ac_current_mode account"
  shows "keeps app (on_runtime (\<lambda>rt. rt\<lparr>rt_accounts := hm_insert i new (rt_accounts rt)\<rparr>) app)"
proof (rule keepsI)
  assume ok: "pool_ok app"
  then have "ac_id account = i" using assms by (auto dest: hm_keyedD rt_invD(3) pool_ok_inv)
  with ok assms show ?thesis
    by (auto simp: keeps_def pool_ok_def pool_inv_def rt_inv_def routes_inv_def modes_synced_def refs_ok_def known_def
        hm_keyed_insert)
qed

lemma stored_credential_keeps:
  assumes "hm_get (rt_accounts (ap_runtime app)) i \<noteq> None \<or> hm_get (rt_credentials (ap_runtime app)) i \<noteq> None"
    and "cr_account_id new = i"
  shows "keeps app (on_runtime (\<lambda>rt. rt\<lparr>rt_credentials := hm_insert i new (rt_credentials rt)\<rparr>) app)"
  using assms
  by (auto simp: keeps_def pool_ok_def pool_inv_def rt_inv_def routes_inv_def modes_synced_def refs_ok_def known_def
      hm_keyed_insert)

lemma limits_keep: "keeps app (apply_managed_rate_limits_to_account i m app)"
  by (auto simp: apply_managed_rate_limits_to_account_def Let_def intro!: stored_account_keeps split: option.split prod.split)

lemma update_keeps:
  assumes u: "update_credential i f app = Some (c, app')" and same: "\<And>c. cr_account_id (f c) = cr_account_id c"
  shows "keeps app app'"
proof (rule keepsI)
  assume "pool_ok app"
  then have keyed: "hm_keyed cr_account_id (rt_credentials (ap_runtime app))" by (simp add: rt_invD(4) pool_ok_inv)
  from u obtain credential where stored: "hm_get (rt_credentials (ap_runtime app)) i = Some credential"
      and app': "app' = on_runtime (\<lambda>rt. rt\<lparr>rt_credentials := hm_insert i (f credential) (rt_credentials rt)\<rparr>) app"
    by (auto simp: update_credential_def)
  have "cr_account_id (f credential) = i" using same hm_keyedD [OF keyed stored] by simp
  then show ?thesis unfolding app' by (intro stored_credential_keeps) (simp_all add: stored)
qed

interpretation pool: account_step "\<lambda>_. keeps"
proof
  fix i app c app' f m
  assume u: "update_credential i f app = Some (c, app')" and same: "\<And>c. cr_account_id (f c) = cr_account_id c"
  show "keeps app (enqueue (CredentialUpsert c) app')" using update_keeps [OF u same] by simp
  show "keeps app (enqueue (CredentialUpsert c) (apply_managed_rate_limits_to_account i m app'))"
    using keeps_trans [OF update_keeps [OF u same] limits_keep] by simp
next
  fix i app t
  show "keeps app (remember_token i t app)"
    by (intro aside_keeps) (simp_all add: remember_token_def rt_inv_def)
qed (auto intro: keeps_trans)

subsection \<open>A connection\<close>

definition refreshes :: "app_server \<Rightarrow> app_state \<Rightarrow> app_state \<Rightarrow> bool" where
  "refreshes sv app app' \<longleftrightarrow> app' = app \<or> (\<exists>force. app' = refreshed_account sv force app)"

lemma refreshes_refl [simp]: "refreshes sv app app" "refreshes sv app (refreshed_account sv force app)"
  by (auto simp: refreshes_def)

lemma request_effect:
  "app_server_request sv i method object (cx, so, app) = (alive, cx', so', app')
    \<Longrightarrow> cx' = cx \<and> refreshes sv app app'"
  by (auto simp: app_server_request_def Let_def split: prod.splits bool.splits if_splits)

lemma text_effect:
  "handle_codex_app_server_text sv message (cx, so, app) = (alive, cx', so', app')
    \<Longrightarrow> refreshes sv app app' \<and> (app' = app \<or> cx_initialize_seen cx)
      \<and> (cx_initialize_seen cx \<longrightarrow> cx_initialize_seen cx')
      \<and> (cx_notifications_ready cx' \<longrightarrow> cx_notifications_ready cx \<or> cx_initialize_seen cx')"
  by (auto simp: handle_codex_app_server_text_def Let_def dest: request_effect
      split: prod.splits bool.splits if_splits sum.splits option.splits)

lemma message_effect:
  "handle_app_server_message sv m (cx, so, app) = (alive, cx', so', app')
    \<Longrightarrow> refreshes sv app app' \<and> (app' = app \<or> cx_initialize_seen cx)
      \<and> (cx_initialize_seen cx \<longrightarrow> cx_initialize_seen cx')
      \<and> (cx_notifications_ready cx' \<longrightarrow> cx_notifications_ready cx \<or> cx_initialize_seen cx')"
  by (cases m) (auto simp: handle_app_server_message_def dest: text_effect split: prod.splits)

text \<open>What each refresh satisfies, the connection satisfies.\<close>

lemma connection_effect:
  assumes "handle_codex_app_server_socket ms (cx, so, app) = (cx', so', app')"
    and "\<And>a. R a a" and "\<And>a b c. R a b \<Longrightarrow> R b c \<Longrightarrow> R a c"
    and "\<And>sv force a. sv \<in> fst ` set ms \<Longrightarrow> R a (refreshed_account sv force a)"
  shows "R app app' \<and> (app' = app \<or> cx_initialize_seen cx')
    \<and> (cx_initialize_seen cx \<longrightarrow> cx_initialize_seen cx')
    \<and> (cx_notifications_ready cx' \<longrightarrow> cx_notifications_ready cx \<or> cx_initialize_seen cx')"
  using assms(1,4)
proof (induction ms arbitrary: cx so app)
  case Nil
  then show ?case using assms(2) by simp
next
  case (Cons p ms)
  obtain sv m where p: "p = (sv, m)" by (cases p)
  obtain alive cx1 so1 app1 where h: "handle_app_server_message sv m (cx, so, app) = (alive, cx1, so1, app1)"
    by (cases "handle_app_server_message sv m (cx, so, app)") auto
  note e = message_effect [OF h]
  have r: "R app app1" using e Cons.prems(2) assms(2) by (auto simp: refreshes_def p)
  show ?case
  proof (cases alive)
    case False
    then show ?thesis using Cons.prems(1) h e r by (auto simp: p)
  next
    case True
    then have rest: "handle_codex_app_server_socket ms (cx1, so1, app1) = (cx', so', app')"
      using Cons.prems(1) h by (simp add: p)
    have "R a (refreshed_account sv force a)" if "sv \<in> fst ` set ms" for sv force a
      using that by (intro Cons.prems(2)) simp
    from Cons.IH [OF rest this] e assms(3) [OF r] show ?thesis by auto
  qed
qed

lemma only_account_order: "only_account i app app"
    "only_account i app mid \<Longrightarrow> only_account i mid app' \<Longrightarrow> only_account i app app'"
  by (fact frame.refl, fact frame.trans)

subsection \<open>Replies\<close>

text \<open>\<open>Some\<close> messages were sent on the socket, the last ones notifications the client did not opt out of.\<close>

definition notification :: "app_connection \<Rightarrow> json \<Rightarrow> bool" where
  "notification cx v \<longleftrightarrow> json_get v ''id'' = None
     \<and> (\<exists>method. json_get v ''method'' = Some (JString method) \<and> method \<notin> cx_opt_out cx)"

definition sent_texts :: "(json \<Rightarrow> str) \<Rightarrow> json list \<Rightarrow> socket \<Rightarrow> socket \<Rightarrow> bool" where
  "sent_texts render vs so so' \<longleftrightarrow> so_messages so' = so_messages so @ map (\<lambda>v. Ws_Text (render v)) vs"

definition reply_to :: "json \<Rightarrow> json \<Rightarrow> bool" where
  "reply_to i v \<longleftrightarrow> json_get v ''id'' = Some i \<and> json_get v ''method'' = None
     \<and> ((json_get v ''result'' = None) \<noteq> (json_get v ''error'' = None))"

lemma replies: "reply_to i (app_server_result i result)" "reply_to i (app_server_error i code text)"
  by (simp_all add: reply_to_def app_server_result_def app_server_error_def)

lemma sent_texts_step:
  "send_app_server_json render v so = (alive, so') \<Longrightarrow> sent_texts render (if alive then [v] else []) so so'
     \<and> alive = (0 < so_accepts so)"
  by (auto simp: send_app_server_json_def ws_send_def sent_texts_def split: if_splits)

lemma sent_texts_refl [simp]: "sent_texts render [] so so"
  by (simp add: sent_texts_def)

lemma sent_texts_trans: "sent_texts render vs so so1 \<Longrightarrow> sent_texts render ws so1 so2 \<Longrightarrow> sent_texts render (vs @ ws) so so2"
  by (simp add: sent_texts_def)

lemma notified: "method \<notin> cx_opt_out cx \<Longrightarrow> notification cx (app_server_notification method params)"
  by (simp add: notification_def app_server_notification_def)

lemma emitted:
  assumes "send_app_server_json render (app_server_notification method params) so = (alive, so')"
    and "method \<notin> cx_opt_out cx"
  shows "\<exists>vs. sent_texts render vs so so' \<and> (\<forall>v \<in> set vs. notification cx v)"
  using sent_texts_step [OF assms(1), THEN conjunct1] notified [OF assms(2)]
  by (intro exI [of _ "if alive then [app_server_notification method params] else []"] conjI) auto

lemma rate_notification:
  "emit_rate_limit_notification render summary cx so = (alive, so') \<Longrightarrow>
     \<exists>vs. sent_texts render vs so so' \<and> (\<forall>v \<in> set vs. notification cx v)"
  (is "_ \<Longrightarrow> ?thesis")
proof (cases "''account/rateLimits/updated'' \<in> cx_opt_out cx")
  case True
  then show "emit_rate_limit_notification render summary cx so = (alive, so') \<Longrightarrow> ?thesis"
    by (intro exI [of _ "[]"]) (simp add: emit_rate_limit_notification_def)
next
  case False
  then show "emit_rate_limit_notification render summary cx so = (alive, so') \<Longrightarrow> ?thesis"
    by (auto simp: emit_rate_limit_notification_def intro: emitted)
qed

lemma account_notifications:
  assumes "emit_account_notifications render summary cx so = (alive, so')"
  shows "\<exists>vs. sent_texts render vs so so' \<and> (\<forall>v \<in> set vs. notification cx v)"
proof (cases "''account/updated'' \<in> cx_opt_out cx")
  case True
  with assms show ?thesis by (simp add: emit_account_notifications_def rate_notification)
next
  case False
  obtain alive1 so1 where first: "send_app_server_json render (app_server_notification ''account/updated''
      (account_updated_notification summary)) so = (alive1, so1)"
    by fastforce
  obtain vs where vs: "sent_texts render vs so so1" "\<forall>v \<in> set vs. notification cx v"
    using emitted [OF first False] by blast
  show ?thesis
  proof (cases alive1)
    case False
    with assms first \<open>''account/updated'' \<notin> cx_opt_out cx\<close> vs show ?thesis
      by (auto simp: emit_account_notifications_def)
  next
    case True
    with assms first False have "emit_rate_limit_notification render summary cx so1 = (alive, so')"
      by (simp add: emit_account_notifications_def)
    from rate_notification [OF this] obtain ws where
        ws: "sent_texts render ws so1 so'" "\<forall>v \<in> set ws. notification cx v" by blast
    show ?thesis using sent_texts_trans [OF vs(1) ws(1)] vs(2) ws(2) by (intro exI [of _ "vs @ ws"]) auto
  qed
qed

lemma replied:
  assumes "send_app_server_json render v so = (alive, so')" and "0 < so_accepts so"
  shows "alive" "sent_texts render [v] so so'"
  using sent_texts_step [OF assms(1)] assms(2) by auto

text \<open>A reply and then notifications, and these only when they are due.\<close>

definition served :: "app_server \<Rightarrow> json \<Rightarrow> app_connection \<Rightarrow> socket \<Rightarrow> socket \<Rightarrow> bool" where
  "served sv i cx so so' \<longleftrightarrow> (\<exists>reply vs. sent_texts (sv_render sv) (reply # vs) so so' \<and> reply_to i reply
     \<and> (\<forall>v \<in> set vs. notification cx v) \<and> (vs \<noteq> [] \<longrightarrow> cx_notifications_ready cx))"

lemma served_alone:
  "send_app_server_json (sv_render sv) v so = (alive, so') \<Longrightarrow> reply_to i v \<Longrightarrow> 0 < so_accepts so \<Longrightarrow> served sv i cx so so'"
  unfolding served_def by (intro exI [of _ v] exI [of _ "[]"]) (simp add: replied)

lemma served_notified:
  assumes "send_app_server_json (sv_render sv) v so = (alive, so1)" and "reply_to i v" and "0 < so_accepts so"
    and "\<exists>vs. sent_texts (sv_render sv) vs so1 so' \<and> (\<forall>v \<in> set vs. notification cx v)" and "cx_notifications_ready cx"
  shows "served sv i cx so so'"
proof -
  obtain vs where vs: "sent_texts (sv_render sv) vs so1 so'" "\<forall>v \<in> set vs. notification cx v" using assms(4) by blast
  have "sent_texts (sv_render sv) (v # vs) so so'"
    using sent_texts_trans [OF replied(2) [OF assms(1,3)] vs(1)] by simp
  then show ?thesis unfolding served_def using vs(2) assms(2,5) by blast
qed

lemma request_served:
  assumes "app_server_request sv i method object (cx, so, app) = (alive, cx', so', app')" and "0 < so_accepts so"
  shows "served sv i cx so so'"
proof -
  obtain ok so1 where first: "\<And>v. send_app_server_json (sv_render sv) v so = (True, so1 v)"
    using assms(2) by (auto simp: send_app_server_json_def ws_send_def)
  note served = served_alone [OF first _ assms(2)] served_notified [OF first _ assms(2)]
  show ?thesis
  proof (cases "method \<in> {''account/read'', ''account/rateLimits/read''}")
    case False
    with assms(1) first show ?thesis
      by (auto simp: app_server_request_def Let_def intro!: served(1) replies split: if_splits)
  next
    case True
    with assms(1) first show ?thesis
      by (auto simp: app_server_request_def Let_def intro!: served replies(1)
          intro: rate_notification account_notifications split: if_splits prod.splits)
  qed
qed

text \<open>C23 (app_server_replies).
  A request to the app server, an object with a method and an id, is answered by exactly one message
  as long as the socket takes messages: it carries the id and either a result or an error. Whatever
  follows it is a notification the client has not opted out of, and nothing follows before the client
  has said it is initialized. Before that, any method but initialize is refused, and initialize is only
  accepted once.\<close>

theorem app_server_replies:
  assumes "sv_parse sv message = Inr v" and "json_as_object v = Some object"
    and "Option.bind (map_of object ''method'') json_as_str = Some method" and "map_of object ''id'' = Some i"
    and "0 < so_accepts so"
    and "handle_codex_app_server_text sv message (cx, so, app) = (alive, cx', so', app')"
  shows "\<exists>reply notes. so_messages so' = so_messages so @ map (\<lambda>v. Ws_Text (sv_render sv v)) (reply # notes)
    \<and> json_get reply ''id'' = Some i \<and> ((json_get reply ''result'' = None) \<noteq> (json_get reply ''error'' = None))
    \<and> (\<forall>v \<in> set notes. json_get v ''id'' = None
         \<and> (\<exists>method. json_get v ''method'' = Some (JString method) \<and> method \<notin> cx_opt_out cx))
    \<and> (notes \<noteq> [] \<longrightarrow> cx_notifications_ready cx)
    \<and> (cx_initialize_seen cx = (method = ''initialize'') \<longrightarrow> json_get reply ''error'' \<noteq> None)
    \<and> (method = ''initialize'' \<longrightarrow> cx_initialize_seen cx')"
proof (cases "cx_initialize_seen cx = (method = ''initialize'')")
  case True
  obtain so1 where first: "\<And>v. send_app_server_json (sv_render sv) v so = (True, so1 v)"
    using assms(5) by (auto simp: send_app_server_json_def ws_send_def)
  obtain code words where so': "so' = so1 (app_server_error i code words)" "cx' = cx"
    using True assms first by (auto simp: handle_codex_app_server_text_def Let_def)
  have "sent_texts (sv_render sv) [app_server_error i code words] so so'"
    using replied(2) [OF first assms(5)] so'(1) by simp
  then show ?thesis
    using True so'(2)
    by (intro exI [of _ "app_server_error i code words"] exI [of _ "[]"])
       (auto simp: sent_texts_def app_server_error_def)
next
  case False
  have "served sv i cx so so' \<and> (method = ''initialize'' \<longrightarrow> cx_initialize_seen cx')"
  proof (cases "method = ''initialize''")
    case True
    with False assms show ?thesis
      by (auto simp: handle_codex_app_server_text_def Let_def intro: served_alone [OF _ replies(1)] split: prod.splits)
  next
    case other: False
    with False assms have "app_server_request sv i method object (cx, so, app) = (alive, cx', so', app')"
      by (auto simp: handle_codex_app_server_text_def Let_def)
    with other assms(5) show ?thesis by (simp add: request_served)
  qed
  then obtain reply vs where vs: "sent_texts (sv_render sv) (reply # vs) so so'" "reply_to i reply"
      "\<forall>v \<in> set vs. notification cx v" "vs \<noteq> [] \<longrightarrow> cx_notifications_ready cx"
      and seen: "method = ''initialize'' \<longrightarrow> cx_initialize_seen cx'"
    by (auto simp: served_def)
  show ?thesis
    using False vs seen unfolding sent_texts_def reply_to_def notification_def
    by (intro exI [of _ reply] exI [of _ vs]) simp
qed

subsection \<open>What a connection is sent\<close>

text \<open>
  Messages are only added to what was sent: answers to pings, and texts of values that satisfy \<open>P\<close>,
  printed as the connection prints.
\<close>

definition sends :: "app_server set \<Rightarrow> (json \<Rightarrow> bool) \<Rightarrow> socket \<Rightarrow> socket \<Rightarrow> bool" where
  "sends svs P so so' \<longleftrightarrow> (\<exists>ms. so_messages so' = so_messages so @ ms
     \<and> (\<forall>m \<in> set ms. (\<exists>payload. m = Ws_Pong payload) \<or> (\<exists>sv \<in> svs. \<exists>v. P v \<and> m = Ws_Text (sv_render sv v))))"

definition refusal :: "json \<Rightarrow> bool" where
  "refusal v \<longleftrightarrow> (\<exists>i code text. v = app_server_error i code text)"

definition due :: "app_connection \<Rightarrow> json \<Rightarrow> bool" where
  "due cx v \<longleftrightarrow> (\<exists>i. reply_to i v) \<or> cx_notifications_ready cx \<and> notification cx v"

lemma sends_refl [simp]: "sends svs P so so"
  by (simp add: sends_def)

lemma sends_trans: "sends svs P so so1 \<Longrightarrow> sends svs P so1 so' \<Longrightarrow> sends svs P so so'"
  unfolding sends_def by (elim exE conjE) (rule_tac x = "ms @ msa" in exI, auto)

lemma sends_mono: "sends svs P so so' \<Longrightarrow> svs \<subseteq> svs' \<Longrightarrow> (\<And>v. P v \<Longrightarrow> Q v) \<Longrightarrow> sends svs' Q so so'"
  unfolding sends_def by (elim exE conjE) (rule exI, rule conjI, assumption, blast)

lemma sends_texts: "sent_texts (sv_render sv) vs so so' \<Longrightarrow> \<forall>v \<in> set vs. P v \<Longrightarrow> sends {sv} P so so'"
  by (auto simp: sends_def sent_texts_def)

lemma sends_json: "send_app_server_json (sv_render sv) v so = (alive, so') \<Longrightarrow> P v \<Longrightarrow> sends {sv} P so so'"
  by (cases alive) (auto dest!: sent_texts_step intro: sends_texts)

lemma sends_pong: "ws_send (Ws_Pong payload) so = (alive, so') \<Longrightarrow> sends {sv} P so so'"
  by (auto simp: ws_send_def sends_def split: if_splits)

lemma refusals [simp]: "refusal (app_server_error i code text)"
  by (auto simp: refusal_def)

lemma dues [simp]: "due cx (app_server_error i code text)" "due cx (app_server_result i result)"
  unfolding due_def using replies by blast+

lemma notes_due:
  "\<exists>vs. sent_texts (sv_render sv) vs so so' \<and> (\<forall>v \<in> set vs. notification cx v) \<Longrightarrow> cx_notifications_ready cx \<Longrightarrow>
     sends {sv} (due cx) so so'"
  by (auto simp: due_def intro: sends_texts)

lemma request_sends: "sends {sv} (due cx) so (fst (snd (snd (app_server_request sv i method object (cx, so, app)))))"
proof -
  let ?send = "\<lambda>v. snd (send_app_server_json (sv_render sv) v so)"
  have sent: "sends {sv} (due cx) so (?send (app_server_result i r))"
      "sends {sv} (due cx) so (?send (app_server_error i code words))" for r code words
    by (rule sends_json [OF surjective_pairing], simp)+
  have rate: "sends {sv} (due cx) so (snd (emit_rate_limit_notification (sv_render sv) summary cx (?send (app_server_result i r))))"
    if "cx_notifications_ready cx" for summary r
    by (rule sends_trans [OF sent(1) notes_due [OF rate_notification [OF surjective_pairing] that]])
  have account: "sends {sv} (due cx) so (snd (emit_account_notifications (sv_render sv) summary cx (?send (app_server_result i r))))"
    if "cx_notifications_ready cx" for summary r
    by (rule sends_trans [OF sent(1) notes_due [OF account_notifications [OF surjective_pairing] that]])
  show ?thesis
    by (simp add: app_server_request_def Let_def case_prod_beta' sent rate account split: bool.split)
qed

lemma text_sends:
  assumes "handle_codex_app_server_text sv message (cx, so, app) = (alive, cx', so', app')"
  shows "sends {sv} (due cx') so so' \<and> (\<not> cx_initialize_seen cx' \<longrightarrow> sends {sv} refusal so so')
    \<and> (cx_notifications_ready cx \<longrightarrow> cx_notifications_ready cx')"
proof -
  have refused: "sends {sv} (due cx) so so1 \<and> sends {sv} refusal so so1"
    if "send_app_server_json (sv_render sv) (app_server_error i code words) so = (a, so1)" for i code words a so1
    using that by (auto intro: sends_json)
  have accepted: "sends {sv} (due cx1) so so1"
    if "send_app_server_json (sv_render sv) (app_server_result i r) so = (a, so1)" for i r a so1 cx1
    using that by (auto intro: sends_json)
  have noted: "sends {sv} (due cx1) so so1"
    if "emit_account_notifications (sv_render sv) summary cx1 so = (a, so1)" "cx_notifications_ready cx1" for summary cx1 a so1
    using notes_due [OF account_notifications [OF that(1)] that(2)] .
  have asked: "sends {sv} (due cx) so so' \<and> cx' = cx"
    if "app_server_request sv i name object (cx, so, app) = (alive, cx', so', app')" for i name object
    using request_sends [of sv cx so i name object app] request_effect [OF that] that by simp
  show ?thesis
    using assms
    by (auto simp: handle_codex_app_server_text_def Let_def dest!: refused accepted noted asked
        split: prod.splits bool.splits if_splits sum.splits option.splits)
qed

lemma message_sends:
  "handle_app_server_message sv m (cx, so, app) = (alive, cx', so', app')
    \<Longrightarrow> sends {sv} (due cx') so so' \<and> (\<not> cx_initialize_seen cx' \<longrightarrow> sends {sv} refusal so so')
    \<and> (cx_notifications_ready cx \<longrightarrow> cx_notifications_ready cx')"
  by (cases m) (auto simp: handle_app_server_message_def dest: text_sends intro: sends_json sends_pong split: prod.splits)

lemma connection_sends:
  assumes "handle_codex_app_server_socket ms (cx, so, app) = (cx', so', app')"
  shows "(\<not> cx_notifications_ready cx' \<longrightarrow> sends (fst ` set ms) (\<lambda>v. \<exists>i. reply_to i v) so so')
    \<and> (\<not> cx_initialize_seen cx' \<longrightarrow> sends (fst ` set ms) refusal so so')
    \<and> (cx_notifications_ready cx \<longrightarrow> cx_notifications_ready cx') \<and> (cx_initialize_seen cx \<longrightarrow> cx_initialize_seen cx')"
  using assms
proof (induction ms arbitrary: cx so app)
  case (Cons p ms)
  obtain sv m where p: "p = (sv, m)" by (cases p)
  obtain alive cx1 so1 app1 where h: "handle_app_server_message sv m (cx, so, app) = (alive, cx1, so1, app1)"
    by (cases "handle_app_server_message sv m (cx, so, app)") auto
  note e = message_sends [OF h] message_effect [OF h]
  have first: "sends (fst ` set (p # ms)) (\<lambda>v. \<exists>i. reply_to i v) so so1" if "\<not> cx_notifications_ready cx1"
    by (rule sends_mono [OF conjunct1 [OF e(1)]]) (use that in \<open>auto simp: p due_def\<close>)
  have early: "sends (fst ` set (p # ms)) refusal so so1" if "\<not> cx_initialize_seen cx1"
    using e(1) that by (auto simp: p intro: sends_mono)
  show ?case
  proof (cases alive)
    case False
    then show ?thesis using Cons.prems h e first early by (auto simp: p)
  next
    case True
    then have rest: "handle_codex_app_server_socket ms (cx1, so1, app1) = (cx', so', app')"
      using Cons.prems h by (simp add: p)
    note ih = Cons.IH [OF rest]
    have wider: "sends (fst ` set ms) P so1 so' \<Longrightarrow> sends (fst ` set (p # ms)) P so1 so'" for P
      by (rule sends_mono) auto
    show ?thesis
      using ih e first early wider sends_trans [of "fst ` set (p # ms)" _ so so1 so'] by blast
  qed
qed simp

text \<open>C16 (app_server_confined).
  On a connection to the app server nothing is done for the client before it has said initialize: until
  then it is only sent refusals (and answers to pings) and the tables stay as they are. It counts as
  ready for notifications only after that, and as long as it is not ready, every message sent is a reply
  to something (as this holds for any messages of the client, it holds after each of them). Whatever it
  sends, and whatever the provider answers, the tables stay as the pool needs them when the other tasks
  keep them so; while no other task interferes only the entries of the account its session was opened
  for change.\<close>

theorem app_server_confined:
  assumes "handle_codex_app_server_socket ms (new_connection, so, app) = (cx, so', app')"
    and "\<forall>(sv, m) \<in> set ms. sv_session sv = session \<and> (\<forall>a. keeps a (pv_during (sv_provider sv) a))"
  shows "(cx_notifications_ready cx \<longrightarrow> cx_initialize_seen cx) \<and> (\<not> cx_initialize_seen cx \<longrightarrow> app' = app)
    \<and> keeps app app'
    \<and> (\<not> cx_notifications_ready cx \<longrightarrow> sends (fst ` set ms) (\<lambda>v. \<exists>i. reply_to i v) so so')
    \<and> (\<not> cx_initialize_seen cx \<longrightarrow> sends (fst ` set ms) refusal so so')
    \<and> ((\<forall>(sv, m) \<in> set ms. \<forall>a. pv_during (sv_provider sv) a = a) \<longrightarrow> only_account (cs_account_id session) app app')"
proof -
  have kept: "keeps a (refreshed_account sv force a)" if "sv \<in> fst ` set ms" for sv force a
    using assms(2) that by (auto simp: refreshed_account_def intro!: pool.refreshed)
  have "only_account (cs_account_id session) app app'"
    if still: "\<forall>(sv, m) \<in> set ms. \<forall>a. pv_during (sv_provider sv) a = a"
  proof -
    have "only_account (cs_account_id session) a (refreshed_account sv force a)" if "sv \<in> fst ` set ms" for sv force a
    proof -
      have "sv_session sv = session" "\<And>a. pv_during (sv_provider sv) a = a"
        using assms(2) still that by auto
      then show ?thesis
        using frame.refreshed [of "cs_account_id session" "sv_provider sv"]
        by (simp add: refreshed_account_def only_account_order(1))
    qed
    then show ?thesis
      using connection_effect [OF assms(1), of "only_account (cs_account_id session)"] only_account_order by blast
  qed
  with connection_effect [OF assms(1) keeps_refl keeps_trans kept] connection_sends [OF assms(1)] show ?thesis
    by (auto simp: new_connection_def)
qed

subsection \<open>Paging\<close>

text \<open>A client that follows the cursors for at most so many pages: all it has seen, if the list ended.\<close>

fun follow_cursor :: "nat \<Rightarrow> (str option \<Rightarrow> json) \<Rightarrow> str option \<Rightarrow> json list option" where
  "follow_cursor 0 page cursor = None"
| "follow_cursor (Suc n) page cursor =
    (case (json_get (page cursor) ''data'', json_get (page cursor) ''nextCursor'') of
       (Some (JArray items), Some JNull) \<Rightarrow> Some items
     | (Some (JArray items), Some (JString c)) \<Rightarrow> map_option (\<lambda>rest. items @ rest) (follow_cursor n page (Some c))
     | _ \<Rightarrow> None)"

lemma page_at:
  assumes "length items < 2 ^ 64" and "c \<le> length items"
  shows "page_json items (Some l) (Some (show_nat c)) =
    (let stop = min (c + l) (length items) in json_obj [(''data'', JArray (drop c (take stop items))),
       (''nextCursor'', if stop < length items then JString (show_nat stop) else JNull)])"
proof -
  have "int c < 2 ^ 64" using assms by simp
  then show ?thesis
    using assms(2) by (simp add: page_json_def page_bounds_def parse_model_list_cursor_def parse_show_nat Let_def)
qed

lemma page_first: "page_json items (Some l) None =
    (let stop = min l (length items) in json_obj [(''data'', JArray (take stop items)),
       (''nextCursor'', if stop < length items then JString (show_nat stop) else JNull)])"
  by (simp add: page_json_def page_bounds_def Let_def)

lemma follow_page:
  assumes "page cursor = json_obj [(''data'', JArray items), (''nextCursor'', v)]"
  shows "follow_cursor (Suc k) page cursor = (case v of JNull \<Rightarrow> Some items
    | JString c \<Rightarrow> map_option ((@) items) (follow_cursor k page (Some c)) | _ \<Rightarrow> None)"
  by (simp add: assms split: json.split)

lemma follow_step:
  assumes "length items < 2 ^ 64" and "c \<le> length items" and "page (Some (show_nat c)) = page_json items (Some l) (Some (show_nat c))"
  shows "follow_cursor (Suc k) page (Some (show_nat c)) =
    (if c + l < length items
     then map_option ((@) (drop c (take (c + l) items))) (follow_cursor k page (Some (show_nat (c + l))))
     else Some (drop c items))"
proof (cases "c + l < length items")
  case True
  then have "page (Some (show_nat c)) = json_obj [(''data'', JArray (drop c (take (c + l) items))),
      (''nextCursor'', JString (show_nat (c + l)))]"
    unfolding assms(3) page_at [OF assms(1,2)] by (simp add: Let_def min_absorb1)
  from follow_page [of page, OF this] True show ?thesis by simp
next
  case False
  then have "page (Some (show_nat c)) = json_obj [(''data'', JArray (drop c items)), (''nextCursor'', JNull)]"
    unfolding assms(3) page_at [OF assms(1,2)] by (simp add: Let_def min_absorb2)
  from follow_page [of page, OF this] False show ?thesis by simp
qed

lemma follow_from:
  assumes "length items < 2 ^ 64" and "0 < l" and "\<And>c. page (Some c) = page_json items (Some l) (Some c)"
    and "c \<le> length items" and "(length items - c) div l \<le> k"
  shows "follow_cursor (Suc k) page (Some (show_nat c)) = Some (drop c items)"
  using assms(4,5)
proof (induction k arbitrary: c)
  case 0
  then have "\<not> c + l < length items" using assms(2) by (auto simp: div_eq_0_iff)
  then show ?case unfolding follow_step [of items c page l, OF assms(1) 0(1) assms(3)] by simp
next
  case (Suc k)
  show ?case
  proof (cases "c + l < length items")
    case False
    then show ?thesis unfolding follow_step [of items c page l, OF assms(1) Suc.prems(1) assms(3)] by simp
  next
    case True
    have "(length items - (c + l)) div l \<le> k"
      using Suc.prems(2) True assms(2) le_div_geq [of l "length items - c"] by (simp add: diff_diff_left)
    with Suc.IH [of "c + l"] True have rest: "follow_cursor (Suc k) page (Some (show_nat (c + l))) = Some (drop (c + l) items)"
      by simp
    have "drop c (take (c + l) items) @ drop (c + l) items = drop c items"
      using append_take_drop_id [of l "drop c items"] by (simp add: drop_take add.commute)
    with True rest show ?thesis unfolding follow_step [of items c page l, OF assms(1) Suc.prems(1) assms(3)] by simp
  qed
qed

lemma follow_all:
  assumes "length items < 2 ^ 64" and "0 < l" and "\<And>c. page c = page_json items (Some l) c"
  shows "follow_cursor (Suc (length items div l)) page None = Some items"
proof -
  have "page None = page (Some (show_nat 0))"
    using page_at [OF assms(1), of 0 l] by (simp add: assms(3) page_first)
  then have "follow_cursor (Suc k) page None = follow_cursor (Suc k) page (Some (show_nat 0))" for k by simp
  also have "follow_cursor (Suc (length items div l)) page (Some (show_nat 0)) = Some items"
    using follow_from [OF assms(1,2,3), of 0] by simp
  finally show ?thesis .
qed

lemma follow_stuck:
  assumes "items \<noteq> []" and "\<And>c. page c = page_json items (Some 0) c" and "length items < 2 ^ 64"
  shows "follow_cursor n page None = None"
proof -
  have stuck: "follow_cursor n page (Some (show_nat 0)) = None" for n
  proof (induction n)
    case (Suc n)
    have "follow_cursor (Suc n) page (Some (show_nat 0)) = map_option ((@) []) (follow_cursor n page (Some (show_nat 0)))"
      using follow_step [of items 0 page 0 n] assms(1,3) assms(2) by (simp del: follow_cursor.simps)
    then show ?case by (simp only: Suc.IH option.map)
  qed simp
  show ?thesis
  proof (cases n)
    case (Suc k)
    have "page None = json_obj [(''data'', JArray []), (''nextCursor'', JString (show_nat 0))]"
      using assms(1) by (simp add: assms(2) page_first Let_def)
    from follow_page [of page, OF this] stuck Suc show ?thesis by simp
  qed simp
qed

text \<open>The models an account is listed with: its own, or the usual ones.\<close>

definition listed_models :: "account_summary option \<Rightarrow> str list" where
  "listed_models summary =
    (case map_option (\<lambda>s. normalize_account_models (as_models s)) summary of
       Some (m # ms) \<Rightarrow> m # ms | _ \<Rightarrow> default_app_server_models)"

definition model_page :: "account_summary option \<Rightarrow> u64 \<Rightarrow> str option \<Rightarrow> json" where
  "model_page summary limit cursor = model_list_result summary (Some (json_obj ((''limit'', JPosInt limit) #
     (case cursor of None \<Rightarrow> [] | Some c \<Rightarrow> [(''cursor'', JString c)]))))"

lemma none_hidden [simp]: "\<not> km_hidden (known_model_metadata_for m)"
  by (simp add: known_model_metadata_for_def known_model_def)

lemma all_listed: "build_model_list_response ms h limit cursor =
    page_json (map (\<lambda>m. model_metadata_json (model_metadata m (preferred_default_model ms = Some m))) ms) limit cursor"
proof -
  have "filter (\<lambda>m. h \<or> \<not> km_hidden (am_known m)) (map (\<lambda>m. model_metadata m (d m)) ms) = map (\<lambda>m. model_metadata m (d m)) ms"
    for d by (simp add: filter_True model_metadata_def)
  then show ?thesis by (simp add: build_model_list_response_def Let_def comp_def)
qed

lemma model_page_eq: "model_page summary limit cursor =
    page_json (map (\<lambda>m. model_metadata_json (model_metadata m (preferred_default_model (listed_models summary) = Some m)))
      (listed_models summary)) (Some (unat limit)) cursor"
  unfolding model_page_def model_list_result_def listed_models_def [symmetric] Let_def all_listed
  by (cases cursor) (simp_all add: limit_of_def cursor_of_def param_def)

lemma distinct_normalize: "distinct xs \<Longrightarrow> distinct (normalize_models xs ms)"
  by (induction xs ms rule: normalize_models.induct) (auto simp: Let_def)

lemma distinct_listed: "distinct (listed_models summary)"
proof -
  have "distinct (normalize_account_models ms)" for ms
    by (simp add: normalize_account_models_def distinct_normalize)
  moreover have "distinct default_app_server_models" by (simp add: default_app_server_models_def)
  ultimately show ?thesis
    by (auto simp: listed_models_def split: option.split list.split) (metis distinct.simps(2))+
qed

lemma listed_some: "listed_models summary \<noteq> []"
  by (auto simp: listed_models_def default_app_server_models_def split: option.split list.split)

lemma default_listed: "ms \<noteq> [] \<Longrightarrow> \<exists>m \<in> set ms. preferred_default_model ms = Some m"
  by (auto simp: preferred_default_model_def find_Some_iff split: option.split list.split)

text \<open>C32 (model_pages_complete).
  A client that pages through the models of its account with a positive limit and follows the cursors
  has seen every model once, in order, after at most one page more than the quotient of their number by
  the limit, and exactly one of them is marked as the default. With limit zero it is sent the same
  cursor again and again and never sees one.\<close>

theorem model_pages_complete:
  assumes "length (listed_models summary) < 2 ^ 64"
  shows "distinct (listed_models summary)
    \<and> (\<exists>d \<in> set (listed_models summary). 0 < limit \<longrightarrow>
         follow_cursor (Suc (length (listed_models summary) div unat limit)) (model_page summary limit) None =
           Some (map (\<lambda>m. model_metadata_json (model_metadata m (m = d))) (listed_models summary)))
    \<and> follow_cursor n (model_page summary 0) None = None"
proof (intro conjI)
  obtain d where d: "d \<in> set (listed_models summary)" "preferred_default_model (listed_models summary) = Some d"
    using default_listed [OF listed_some] by blast
  let ?items = "map (\<lambda>m. model_metadata_json (model_metadata m (m = d))) (listed_models summary)"
  have page: "model_page summary l c = page_json ?items (Some (unat l)) c" for l c
    by (simp add: model_page_eq d(2) eq_commute [of d])
  have short: "length ?items < 2 ^ 64" using assms by simp
  show "\<exists>d \<in> set (listed_models summary). 0 < limit \<longrightarrow>
         follow_cursor (Suc (length (listed_models summary) div unat limit)) (model_page summary limit) None =
           Some (map (\<lambda>m. model_metadata_json (model_metadata m (m = d))) (listed_models summary))"
  proof (intro bexI [OF _ d(1)] impI)
    assume "0 < limit"
    then have "0 < unat limit" by (simp add: unat_gt_0 word_gt_0)
    from follow_all [OF short this page]
    show "follow_cursor (Suc (length (listed_models summary) div unat limit)) (model_page summary limit) None = Some ?items"
      by simp
  qed
  have "?items \<noteq> []" using listed_some by simp
  then show "follow_cursor n (model_page summary 0) None = None"
    using short by (intro follow_stuck [of ?items]) (simp_all only: page unat_0 simp_thms)
qed (rule distinct_listed)

subsection \<open>Witnesses\<close>

definition ex_session :: codex_app_session_state where
  "ex_session = \<lparr>cs_tenant_id = 1, cs_account_id = ''a'', cs_expires_at = 1000\<rparr>"

definition ex_env :: server_env where
  "ex_env = \<lparr>se_version = ''1'', se_codex_home = ''/h'', se_family = ''unix'', se_os = ''linux''\<rparr>"

text \<open>A reader of two requests: an empty text is \<open>initialize\<close>, any other reads the account anew.\<close>

definition ex_server :: app_server where
  "ex_server = \<lparr>sv_session = ex_session, sv_provider = ex_provider id, sv_clock = (\<lambda>_. 0), sv_now = 0, sv_env = ex_env,
     sv_parse = (\<lambda>t. Inr (JObject (if t = [] then [(''id'', JPosInt 7), (''method'', JString ''initialize'')]
       else [(''id'', JPosInt 8), (''method'', JString ''account/read''),
             (''params'', JObject [(''refreshToken'', JBool True)])]))),
     sv_render = (\<lambda>_. ''answer'')\<rparr>"

definition ex_socket :: socket where
  "ex_socket = \<lparr>so_accepts = 9, so_messages = []\<rparr>"

theorem app_server_confined_witness:
  "case handle_codex_app_server_socket [(ex_server, App_Text []), (ex_server, App_Text ''r'')]
      (new_connection, ex_socket, ex_app ex_banned) of
    (cx, so', app') \<Rightarrow> keeps (ex_app ex_banned) app' \<and> only_account ''a'' (ex_app ex_banned) app'
      \<and> (\<not> cx_notifications_ready cx \<longrightarrow> sends {ex_server} (\<lambda>v. \<exists>i. reply_to i v) ex_socket so')"
proof (cases "handle_codex_app_server_socket [(ex_server, App_Text []), (ex_server, App_Text ''r'')]
    (new_connection, ex_socket, ex_app ex_banned)")
  case (fields cx so' app')
  have "sv_session ex_server = ex_session" "cs_account_id ex_session = ''a''"
      "\<And>a. pv_during (sv_provider ex_server) a = a"
    by (simp_all add: ex_server_def ex_session_def ex_provider_def)
  then show ?thesis using app_server_confined [OF fields, of ex_session] fields by simp
qed

theorem app_server_replies_witness:
  "case handle_codex_app_server_text ex_server ''r'' (new_connection, ex_socket, ex_app ex_banned) of
    (_, _, so', _) \<Rightarrow> \<exists>reply. so_messages so' = [Ws_Text ''answer''] \<and> json_get reply ''id'' = Some (JPosInt 8)
      \<and> json_get reply ''error'' \<noteq> None"
proof (cases "handle_codex_app_server_text ex_server ''r'' (new_connection, ex_socket, ex_app ex_banned)")
  case (fields alive cx so' app')
  have "sv_parse ex_server ''r'' = Inr (JObject [(''id'', JPosInt 8), (''method'', JString ''account/read''),
      (''params'', JObject [(''refreshToken'', JBool True)])])"
    by (simp add: ex_server_def)
  from app_server_replies [OF this json_as_object.simps(1) _ _ _ fields, of "''account/read''" "JPosInt 8"]
  obtain reply rest where "so_messages so' = map (\<lambda>v. Ws_Text (sv_render ex_server v)) (reply # rest)"
      "json_get reply ''id'' = Some (JPosInt 8)" "json_get reply ''error'' \<noteq> None" "rest = []"
    by (auto simp: ex_socket_def new_connection_def)
  then show ?thesis using fields by (auto simp: ex_server_def)
qed

theorem model_pages_complete_witness:
  "\<exists>d \<in> {''gpt-5.4'', ''gpt-5.3-codex'', ''gpt-5.2''}.
     follow_cursor (Suc (Suc 0)) (model_page None 2) None = Some (map (\<lambda>m. model_metadata_json (model_metadata m (m = d)))
       [''gpt-5.4'', ''gpt-5.3-codex'', ''gpt-5.2''])"
proof -
  have "listed_models None = [''gpt-5.4'', ''gpt-5.3-codex'', ''gpt-5.2'']"
    by (simp add: listed_models_def default_app_server_models_def)
  then show ?thesis
    using model_pages_complete [of None 2 0] by (simp del: follow_cursor.simps)
qed

end
