(* ===== verification/Auth_Laws.thy ===== *)
theory Auth_Laws
  imports App_Server_Laws Tenancy_Laws
begin

text \<open>
  The laws of the identity provider's client: what is stored of a refresh token, what is read out of
  reports and tokens, and who is given a session for the app server.
\<close>

subsection \<open>Stored refresh tokens\<close>

text \<open>
  What AES-GCM and base64 promise: a sealed text opens with the key and the nonce it was sealed with,
  and is not empty (it carries a tag); an encoded text decodes.
\<close>

definition seals :: "auth_library \<Rightarrow> bool" where
  "seals lib \<longleftrightarrow> (\<forall>key nonce plain sealed. oa_seal lib key nonce plain = Inr sealed
       \<longrightarrow> oa_open lib key nonce sealed = Inr plain \<and> sealed \<noteq> [])
     \<and> (\<forall>text. oa_decode lib (oa_encode lib text) = Inr text)"

lemma decrypt_encrypted:
  assumes "seals lib" and "encrypt_secret lib nonce secret plain = Inr stored" and "length nonce = 12"
    and "from_utf8 plain = Some plain"
  shows "decrypt_secret lib secret stored = Inr plain"
proof -
  obtain key sealed where key: "decode_secret_key lib secret = Inr key"
      and sealed: "oa_seal lib key nonce plain = Inr sealed" and stored: "stored = oa_encode lib (nonce @ sealed)"
    using assms(2) by (auto simp: encrypt_secret_def split: sum.splits)
  have "oa_open lib key nonce sealed = Inr plain" "sealed \<noteq> []" "oa_decode lib stored = Inr (nonce @ sealed)"
    using assms(1) sealed by (auto simp: seals_def stored)
  then show ?thesis using assms(3,4) by (cases sealed) (simp_all add: decrypt_secret_def key)
qed

lemma managed_of_stored [simp]: "cr_managed_auth c = Some m \<Longrightarrow> managed_of c = m"
  by (simp add: managed_of_def unwrap_or_def)

text \<open>C31 (stored_token_roundtrip).
  A rotated refresh token that is stored is the one the next refresh uses, whether it is kept in memory
  or, when there is a key, only sealed in the credential, with fresh random bytes; the credential is
  published and persisted, the token itself never is.\<close>

theorem stored_token_roundtrip:
  assumes "seals lib" and "length nonce = 12" and "from_utf8 token = Some token" and "rt_inv (ap_runtime app)"
    and "cf_account_encryption_key (ap_config app) \<noteq> None \<longrightarrow> rt_ephemeral_refresh_tokens (ap_runtime app) = []"
    and "attach_rotated_refresh_token (openai_provider lib net nonce during) i token now app = (Inr (), app')"
  shows "\<exists>credential managed. hm_get (rt_credentials (ap_runtime app')) i = Some credential
    \<and> cr_managed_auth credential = Some managed
    \<and> managed_refresh_token_for (openai_provider lib net' nonce' during') credential app' = Inr (Some token)
    \<and> sent app app' = [CredentialUpsert credential]
    \<and> (case cf_account_encryption_key (ap_config app) of
         None \<Rightarrow> ma_refresh_token_encrypted managed = None
       | Some secret \<Rightarrow> rt_ephemeral_refresh_tokens (ap_runtime app') = []
           \<and> (\<exists>stored. ma_refresh_token_encrypted managed = Some stored \<and> decrypt_secret lib secret stored = Inr token))"
proof (cases "cf_account_encryption_key (ap_config app)")
  case None
  then obtain credential where stored: "hm_get (rt_credentials (ap_runtime app)) i = Some credential"
      and app': "app' = enqueue (CredentialUpsert (credential\<lparr>cr_managed_auth :=
          Some ((managed_of credential)\<lparr>ma_refresh_token_encrypted := None\<rparr>), cr_updated_at := now\<rparr>))
        (on_runtime (\<lambda>rt. rt\<lparr>rt_credentials := hm_insert i (credential\<lparr>cr_managed_auth :=
          Some ((managed_of credential)\<lparr>ma_refresh_token_encrypted := None\<rparr>), cr_updated_at := now\<rparr>) (rt_credentials rt)\<rparr>)
          (remember_token i token app))"
    using assms(6) by (auto simp: attach_rotated_refresh_token_def update_credential_def remember_token_def
        split: option.splits)
  have "cr_account_id credential = i" using hm_keyedD [OF rt_invD(4) [OF assms(4)] stored] .
  then show ?thesis
    using None by (simp add: app' managed_refresh_token_for_def remember_token_def sent_def enqueue_def)
next
  case (Some secret)
  then obtain credential sealed where stored: "hm_get (rt_credentials (ap_runtime app)) i = Some credential"
      and sealed: "encrypt_secret lib nonce secret token = Inr sealed"
      and app': "app' = enqueue (CredentialUpsert (credential\<lparr>cr_managed_auth :=
          Some ((managed_of credential)\<lparr>ma_refresh_token_encrypted := Some sealed\<rparr>), cr_updated_at := now\<rparr>))
        (on_runtime (\<lambda>rt. rt\<lparr>rt_credentials := hm_insert i (credential\<lparr>cr_managed_auth :=
          Some ((managed_of credential)\<lparr>ma_refresh_token_encrypted := Some sealed\<rparr>), cr_updated_at := now\<rparr>)
            (rt_credentials rt)\<rparr>) app)"
    using assms(6) by (auto simp: attach_rotated_refresh_token_def update_credential_def openai_provider_def
        split: option.splits sum.splits)
  have "cr_account_id credential = i" using hm_keyedD [OF rt_invD(4) [OF assms(4)] stored] .
  moreover have "decrypt_secret lib secret sealed = Inr token"
    using decrypt_encrypted [OF assms(1) sealed assms(2,3)] .
  ultimately show ?thesis
    using Some assms(5) by (simp add: app' managed_refresh_token_for_def openai_provider_def sent_def enqueue_def)
qed

subsection \<open>Plan types\<close>

text \<open>A value and all it contains, a value before its parts, the parts in their order.\<close>

function sub_values :: "json \<Rightarrow> json list" where
  "sub_values v = v # (case v of JArray items \<Rightarrow> concat (map sub_values items)
     | JObject m \<Rightarrow> concat (map sub_values (map snd m)) | _ \<Rightarrow> [])"
  by pat_completeness auto
termination
  by (relation "measure size") (auto dest: size_member)

declare sub_values.simps [simp del]

definition own_string :: "str list \<Rightarrow> json \<Rightarrow> str option" where
  "own_string keys v =
     Option.bind (json_as_object v) (\<lambda>object. find_map (\<lambda>key. Option.bind (map_of object key) json_as_str) keys)"

lemma find_map_append: "find_map f (xs @ ys) = (case find_map f xs of Some y \<Rightarrow> Some y | None \<Rightarrow> find_map f ys)"
  by (induction xs) (auto split: option.split)

lemma find_map_concat:
  "(\<And>x. x \<in> set xs \<Longrightarrow> f x = find_map g (h x)) \<Longrightarrow> find_map f xs = find_map g (concat (map h xs))"
  by (induction xs) (auto simp: find_map_append split: option.split)

lemma leaf:
  assumes "json_as_object v = None" and "\<And>items. v \<noteq> JArray items"
  shows "extract_string_recursive keys v = None" "sub_values v = [v]"
  using assms by (subst extract_string_recursive.simps, cases v, auto) (subst sub_values.simps, cases v, auto)

text \<open>Fact (plan_type_found).
  The plan type of a usage report is the first string under one of the plan keys in a search that looks
  at every value of the report, a value before what it contains; so a report has none only if no value
  in it has one.\<close>

theorem plan_type_found:
  "extract_string_recursive keys v = find_map (own_string keys) (sub_values v)
    \<and> (extract_string_recursive keys v = None \<longleftrightarrow> (\<forall>w \<in> set (sub_values v). own_string keys w = None))"
proof -
  have "extract_string_recursive keys v = find_map (own_string keys) (sub_values v)"
  proof (induction keys v rule: extract_string_recursive.induct)
    case (1 keys v)
    show ?case
    proof (cases "own_string keys v")
      case (Some found)
      then show ?thesis
        by (simp add: extract_string_recursive.simps [of keys v] sub_values.simps [of v] own_string_def)
    next
      case None
      note none = this [unfolded own_string_def]
      show ?thesis
      proof (cases v)
        case (JArray items)
        have "find_map (extract_string_recursive keys) items = find_map (own_string keys) (concat (map sub_values items))"
          using 1(1) [OF none JArray] by (rule find_map_concat)
        with None none show ?thesis
          by (simp add: JArray extract_string_recursive.simps [of keys "JArray items"] sub_values.simps [of "JArray items"])
      next
        case (JObject m)
        have "find_map (extract_string_recursive keys) (map snd m)
            = find_map (own_string keys) (concat (map sub_values (map snd m)))"
          using 1(2) [OF none JObject] by (rule find_map_concat)
        with None none show ?thesis
          by (simp add: JObject extract_string_recursive.simps [of keys "JObject m"] sub_values.simps [of "JObject m"])
      qed (use None in \<open>simp_all add: leaf\<close>)
    qed
  qed
  moreover have "find_map f xs = None \<longleftrightarrow> (\<forall>x \<in> set xs. f x = None)" for f :: "json \<Rightarrow> str option" and xs
    by (induction xs) (auto split: option.split)
  ultimately show ?thesis by simp
qed

subsection \<open>Sessions\<close>

text \<open>C15 (app_session_grants_own_account).
  The endpoint for app sessions only opens one for who sends an API key of the gateway, for an account
  with a credential of that key's tenant, and for the account asked for if one is. A client that
  connects with the token of the session gets that account and tenant until ten minutes after the
  opening, and is turned away from then on.\<close>

theorem app_session_grants_own_account:
  assumes "pool_ok app" and "\<forall>a. keeps a (pv_during pv a)"
    and "codex_app_session (\<lambda>i. refresh_managed_account pv False t i) headers payload token now app = (Inr response, app')"
    and "header_text connect ''authorization'' = Some (''Bearer '' @ token)"
  shows "\<exists>auth account. gateway_auth_from_headers headers app = Some auth
    \<and> hm_get (rt_accounts (ap_runtime app)) (sr_account_id response) = Some account
    \<and> ac_tenant_id account = tn_id (gc_tenant auth)
    \<and> hm_get (rt_credentials (ap_runtime app)) (sr_account_id response) \<noteq> None
    \<and> (\<forall>i. sq_account_id payload = Some i \<longrightarrow> sr_account_id response = i)
    \<and> fst (codex_app_session_from_headers connect first second app') =
        (if first < now + mins 10 \<and> second < now + mins 10
         then Some \<lparr>cs_tenant_id = tn_id (gc_tenant auth), cs_account_id = sr_account_id response,
                cs_expires_at = now + mins 10\<rparr> else None)"
proof -
  obtain auth url where auth: "gateway_auth_from_headers headers app = Some auth"
      and created: "create_codex_app_session (\<lambda>i. refresh_managed_account pv False t i) payload (tn_id (gc_tenant auth))
        url token now app = (Inr response, app')"
    using assms(3) by (auto simp: codex_app_session_def answered_def split: option.splits sum.splits prod.splits)
  let ?session = "\<lparr>cs_tenant_id = tn_id (gc_tenant auth), cs_account_id = sr_account_id response,
      cs_expires_at = now + mins 10\<rparr>"
  obtain mid i where s: "session_account (ap_runtime app) (tn_id (gc_tenant auth)) (sq_account_id payload) = Inr i"
      "mid = app \<or> refresh_managed_account pv False t i app = (Inr (), mid)" "sr_account_id response = i"
      "rt_codex_app_sessions (ap_runtime app') = hm_insert token ?session (rt_codex_app_sessions (ap_runtime mid))"
    using created_session [OF created] by blast
  have "keeps app mid" using s(2) pool.refreshed [where pv = pv and app = app and force = False and t = t and i = i] assms(2) by auto
  then have "rt_inv (ap_runtime mid)" using assms(1) by (simp add: keeps_def pool_ok_inv)
  then have wf: "hm_wf (rt_codex_app_sessions (ap_runtime mid))" by (simp add: rt_inv_def)
  have "bearer_token connect = Some token" using assms(4) by (simp add: bearer_token_def starts_with_iff)
  then have "fst (codex_app_session_from_headers connect first second app') =
      (if first < now + mins 10 \<and> second < now + mins 10 then Some ?session else None)"
    using wf by (auto simp: codex_app_session_from_headers_def codex_app_session_for_token_def Let_def s(4) hm_get_retain
        split: option.splits)
  with auth session_account_sound [OF pool_ok_inv [OF assms(1)] s(1)] s(3) show ?thesis by blast
qed

subsection \<open>Witnesses\<close>

definition ex_crypto :: auth_library where
  "ex_crypto = \<lparr>oa_sha256 = id, oa_encode = id, oa_decode = Inr, oa_decode_standard = Inr,
     oa_seal = (\<lambda>_ _ plain. Inr (CHR ''!'' # plain)), oa_open = (\<lambda>_ _ sealed. Inr (tl sealed)),
     oa_parse = (\<lambda>_. Inl []), oa_read_claims = (\<lambda>_. Inl []), oa_read_tokens = (\<lambda>_. Inl []),
     oa_show_status = (\<lambda>_. []), oa_utf8_error = (\<lambda>_. [])\<rparr>"

definition ex_keyed_app :: app_state where
  "ex_keyed_app = (ex_app ex_pool)\<lparr>ap_config := ex_config\<lparr>cf_account_encryption_key := Some (replicate 32 (CHR ''k''))\<rparr>\<rparr>"

definition ex_openai :: provider where
  "ex_openai = openai_provider ex_crypto (\<lambda>_ _. Inl ''down'') ''nonce nonce!'' id"

theorem stored_token_roundtrip_witness:
  "\<exists>app' credential. attach_rotated_refresh_token ex_openai ''a'' ''rt'' 0 ex_keyed_app = (Inr (), app')
    \<and> hm_get (rt_credentials (ap_runtime app')) ''a'' = Some credential
    \<and> managed_refresh_token_for ex_openai credential app' = Inr (Some ''rt'')"
proof -
  have encrypted: "pv_encrypt ex_openai (replicate 32 (CHR ''k'')) ''rt'' = Inr (''nonce nonce!'' @ ''!rt'')"
    by (simp add: ex_openai_def openai_provider_def encrypt_secret_def decode_secret_key_def ex_crypto_def)
  have "fst (attach_rotated_refresh_token ex_openai ''a'' ''rt'' 0 ex_keyed_app) = Inr ()"
    by (simp add: attach_rotated_refresh_token_def ex_keyed_app_def encrypted update_credential_def ex_pool_tables)
  then obtain app' where a: "attach_rotated_refresh_token ex_openai ''a'' ''rt'' 0 ex_keyed_app = (Inr (), app')"
    by (cases "attach_rotated_refresh_token ex_openai ''a'' ''rt'' 0 ex_keyed_app") auto
  have "seals ex_crypto" by (simp add: seals_def ex_crypto_def)
  moreover have "from_utf8 ''rt'' = Some ''rt''" by code_simp
  moreover have "rt_inv (ap_runtime ex_keyed_app)" "rt_ephemeral_refresh_tokens (ap_runtime ex_keyed_app) = []"
    by (simp add: ex_keyed_app_def) (simp add: ex_keyed_app_def ex_pool_def initial_runtime_def)
  ultimately show ?thesis
    using stored_token_roundtrip [OF _ _ _ _ _ a [unfolded ex_openai_def], of "\<lambda>_ _. Inl ''down''" "''nonce nonce!''" id] a
    unfolding ex_openai_def by auto
qed

lemma ex_keys_ok: "pool_ok (ex_app ex_keys)"
proof -
  have "rt_inv ex_keys"
    using ex_inv by (simp add: rt_inv_def ex_keys_def hm_keyed_iff ex_key_def)
  then have "keeps (ex_app ex_pool) (ex_app ex_keys)"
    by (intro aside_keeps) (simp_all add: ex_keys_def)
  then show ?thesis using ex_pool_well_formed by (simp add: keeps_def)
qed

definition ex_headers :: headers where
  "ex_headers = [(''authorization'', Some ''Bearer cmgr_0123456789''), (''host'', Some ''gw'')]"

theorem app_session_grants_own_account_witness:
  "\<exists>response app'. codex_app_session (\<lambda>i. refresh_managed_account (ex_provider id) False (\<lambda>_. 0) i) ex_headers
      \<lparr>sq_tenant_id = None, sq_account_id = Some ''b''\<rparr> ''tok'' 0 (ex_app ex_keys) = (Inr response, app')
    \<and> sr_account_id response = ''b''
    \<and> fst (codex_app_session_from_headers [(''authorization'', Some ''Bearer tok'')] 0 (mins 9) app') =
        Some \<lparr>cs_tenant_id = 1, cs_account_id = ''b'', cs_expires_at = mins 10\<rparr>
    \<and> fst (codex_app_session_from_headers [(''authorization'', Some ''Bearer tok'')] 0 (mins 10) app') = None"
proof -
  let ?s = "codex_app_session (\<lambda>i. refresh_managed_account (ex_provider id) False (\<lambda>_. 0) i) ex_headers
      \<lparr>sq_tenant_id = None, sq_account_id = Some ''b''\<rparr> ''tok'' 0 (ex_app ex_keys)"
  have ok: "case ?s of (Inr r, _) \<Rightarrow> True | _ \<Rightarrow> False" by code_simp
  then obtain response app' where s: "?s = (Inr response, app')"
    by (auto split: sum.splits prod.splits)
  have during: "\<forall>a. keeps a (pv_during (ex_provider id) a)" by (simp add: ex_provider_def)
  have auth: "case gateway_auth_from_headers ex_headers (ex_app ex_keys) of Some auth \<Rightarrow> tn_id (gc_tenant auth) = 1 | None \<Rightarrow> False"
    by code_simp
  have "header_text [(''authorization'', Some ''Bearer tok'')] ''authorization'' = Some (''Bearer '' @ ''tok'')" by code_simp
  note * = app_session_grants_own_account [OF ex_keys_ok during s this]
  show ?thesis
    using s auth * [of 0 "mins 9"] * [of 0 "mins 10"] by auto
qed

theorem plan_type_found_witness:
  "extract_string_recursive [''plan_type'', ''type''] (JArray [JNull, JObject [(''a'', JObject [(''type'', JString ''pro'')])]])
    = Some ''pro''"
proof -
  have "find_map (own_string [''plan_type'', ''type''])
      (sub_values (JArray [JNull, JObject [(''a'', JObject [(''type'', JString ''pro'')])]])) = Some ''pro''"
    by code_simp
  then show ?thesis
    using plan_type_found [of "[''plan_type'', ''type'']" "JArray [JNull, JObject [(''a'', JObject [(''type'', JString ''pro'')])]]"]
    by simp
qed

end
