(* ===== verification/Server.thy ===== *)
theory Server
  imports App_Server_Laws Process_Start Storage_Properties
begin

text \<open>
  The running server as a whole: every endpoint of the data plane and of the admin plane, the two
  workers of \<open>main.rs\<close> and the execution guards are steps of one relation on the instance, and what
  happens while one of them waits is a sequence of such steps. An instance is reachable when it was
  started, empty, with the demo data or from what the storage holds of a reachable one, and has taken
  steps since.
\<close>

subsection \<open>What the operations of the admin plane keep\<close>

lemma put_tenant_keeps: "keeps app (put_tenant tenant app)"
  by (simp add: put_tenant_def) (intro aside_keeps; simp add: rt_inv_def hm_keyed_insert)

lemma put_api_key_keeps: "keeps app (put_api_key api_key app)"
  by (simp add: put_api_key_def) (intro aside_keeps; simp add: rt_inv_def hm_keyed_insert)

lemma tenant_resolved_keeps: "keeps app (snd (resolve_openai_login_tenant requested new_id now app))"
  by (auto simp: resolve_openai_login_tenant_def ensure_default_tenant_def Let_def put_tenant_keeps split: option.split)

lemma create_tenant_keeps: "keeps app (snd (create_tenant request new_id now app))"
  by (simp add: create_tenant_def Let_def put_tenant_keeps)

lemma create_api_key_keeps: "keeps app (snd (create_api_key request new_id simple t1 t2 app))"
  by (simp add: create_api_key_def Let_def put_api_key_keeps)

text \<open>What a panic or a return leaves behind, when the result goes along.\<close>

fun left_behind :: "('a \<times> app_state, app_state) outcome \<Rightarrow> app_state" where
  "left_behind (Returns r) = snd r"
| "left_behind (Panics app) = app"

lemma create_user_effect:
  fixes request default_id t0 app
  defines "mid \<equiv> snd (resolve_openai_login_tenant (qu_tenant_id request) default_id t0 app)"
  shows "left_behind (create_gateway_user request default_id t0 new_id simple now app) \<in> {mid} \<union> range (\<lambda>k. put_api_key k mid)"
proof -
  obtain r where r: "resolve_gateway_user_tenant (qu_tenant_id request) default_id t0 app = (r, mid)"
    by (cases "resolve_openai_login_tenant (qu_tenant_id request) default_id t0 app")
      (simp add: mid_def resolve_gateway_user_tenant_def)
  show ?thesis
  proof (cases "\<exists>tenant_id api_key. r = Inr tenant_id
      \<and> new_user_key (ap_runtime mid) request tenant_id new_id simple now = Inr api_key")
    case False
    then show ?thesis by (auto simp: create_gateway_user_def r split: sum.split)
  next
    case True
    then obtain tenant_id api_key where k: "r = Inr tenant_id"
        "new_user_key (ap_runtime mid) request tenant_id new_id simple now = Inr api_key" by blast
    define app2 where "app2 = put_api_key api_key mid"
    then have "app2 \<in> range (\<lambda>k. put_api_key k mid)" by simp
    then show ?thesis
      unfolding create_gateway_user_def r k(1) prod.case sum.case k(2) Let_def app2_def [symmetric]
      by (simp split: option.split)
  qed
qed

lemma update_user_effect:
  assumes "rt_inv (ap_runtime app)"
  shows "left_behind (update_gateway_user user_id request now app) \<in> {app} \<union> range (\<lambda>k. put_api_key k app)"
proof -
  note keyed = rt_invD(2) [OF assms]
  let ?email = "map_option (\<lambda>v. to_ascii_lowercase (trim v)) (uu_email request)"
  show ?thesis
  proof (cases "\<exists>t existing updated. check_new_email (ap_runtime app) user_id ?email = None
      \<and> find (\<lambda>(_, k). ak_id k = user_id) (rt_api_keys (ap_runtime app)) = Some (t, existing)
      \<and> updated_user request ?email now existing = Inr updated")
    case False
    then show ?thesis by (auto simp: update_gateway_user_def Let_def split: option.split sum.split)
  next
    case True
    then obtain t existing updated where u: "check_new_email (ap_runtime app) user_id ?email = None"
        "find (\<lambda>(_, k). ak_id k = user_id) (rt_api_keys (ap_runtime app)) = Some (t, existing)"
        "updated_user request ?email now existing = Inr updated" by blast
    have "(t, existing) \<in> set (rt_api_keys (ap_runtime app))" using find_SomeD [OF u(2)] by simp
    then have "hm_get (rt_api_keys (ap_runtime app)) t = Some existing"
      using hm_get_mem [OF hm_keyed_wf [OF keyed]] by blast
    then have "ak_token existing = t" by (rule hm_keyedD [OF keyed])
    then have t: "ak_token updated = t" using u(3) by (auto simp: updated_user_def split: option.splits list.splits)
    define app1 where "app1 = enqueue (ApiKeyUpsert updated) (on_runtime (\<lambda>rt. rt\<lparr>rt_api_keys :=
        hm_insert t updated (rt_api_keys rt)\<rparr>) app)"
    have "app1 \<in> range (\<lambda>k. put_api_key k app)" by (simp add: app1_def put_api_key_def t [symmetric])
    then show ?thesis
      unfolding update_gateway_user_def Let_def u(1) option.case u(2) prod.case u(3) sum.case app1_def [symmetric]
      by (simp split: option.split)
  qed
qed

lemma user_creation_keeps: "keeps app (left_behind (create_gateway_user request default_id t0 new_id simple now app))"
  using create_user_effect [of request default_id t0 new_id simple now app]
    keeps_trans [OF tenant_resolved_keeps put_api_key_keeps] tenant_resolved_keeps by auto

lemma user_update_keeps: "keeps app (left_behind (update_gateway_user user_id request now app))"
proof (rule keepsI)
  assume "pool_ok app"
  from update_user_effect [OF pool_ok_inv [OF this], of user_id request now]
  show "keeps app (left_behind (update_gateway_user user_id request now app))"
    by (auto simp: put_api_key_keeps)
qed

lemma new_account_keeps:
  assumes "ap_runtime app' = (ap_runtime app)\<lparr>
      rt_route_states := hm_insert i (fresh_route_state i) (rt_route_states (ap_runtime app)),
      rt_accounts := hm_insert i account (rt_accounts (ap_runtime app)), rt_credentials := credentials\<rparr>"
    and "ac_id account = i" "ac_current_mode account = Direct"
    and "credentials = rt_credentials (ap_runtime app)
      \<or> (\<exists>c. cr_account_id c = i \<and> credentials = hm_insert i c (rt_credentials (ap_runtime app)))"
  shows "keeps app app'"
  using assms(2-) unfolding keeps_def pool_ok_def assms(1)
  by (auto simp: pool_inv_def rt_inv_def routes_inv_def modes_synced_def refs_ok_def known_def hm_keyed_insert cf_inv_fresh)

lemma import_keeps: "keeps app (snd (import_account request simple t1 t2 app))"
  by (rule new_account_keeps [where i = "''acc_'' @ simple" and account = "imported_account request simple t2" and
        credentials = "case build_credential_template request t1 of None \<Rightarrow> rt_credentials (ap_runtime app)
         | Some c \<Rightarrow> hm_insert (''acc_'' @ simple) (c\<lparr>cr_account_id := ''acc_'' @ simple\<rparr>) (rt_credentials (ap_runtime app))"])
    (auto simp: import_account_def Let_def split: option.split intro!: exI)

lemma refresh_keeps: "(\<And>a. keeps a (pv_during pv a)) \<Longrightarrow> keeps app (snd (refresh_managed_account pv force t i app))"
  by (rule pool.refreshed)

lemma stale_refresh_keeps:
  assumes "\<And>i a. keeps a (pv_during (pv i) a)"
  shows "keeps app (refresh_stale_managed_accounts pv t now max_staleness app)"
proof -
  have "keeps app (fold (\<lambda>i app. snd (refresh_managed_account (pv i) False (t i) i app)) ids app)" for ids
    by (induction ids arbitrary: app) (auto intro: keeps_trans [OF refresh_keeps] assms)
  then show ?thesis by (simp add: refresh_stale_managed_accounts_def)
qed

lemma quota_refresh_keeps:
  assumes "\<And>a. keeps a (pv_during pv a)"
  shows "keeps app (snd (refresh_account_quota pv t i app))"
proof -
  obtain r mid where r: "refresh_managed_account pv False t i app = (r, mid)" by fastforce
  have "keeps app mid" using refresh_keeps [OF assms, of app False t i] r by simp
  then show ?thesis by (auto simp: refresh_account_quota_def r split: option.split sum.split)
qed

lemma stored_models_keep:
  assumes "rt_accounts (ap_runtime app) = accounts"
  shows "keeps app (on_runtime (\<lambda>rt. rt\<lparr>rt_accounts := snd (store_models updates accounts)\<rparr>) app)"
  using assms
proof (induction updates arbitrary: app accounts)
  case Nil
  then have "on_runtime (\<lambda>rt. rt\<lparr>rt_accounts := accounts\<rparr>) app = app" by (simp add: on_runtime_def)
  then show ?case by simp
next
  case (Cons u updates)
  obtain i models where u: "u = (i, models)" by (cases u)
  show ?case
  proof (cases "hm_get accounts i")
    case None
    with Cons.IH [OF Cons.prems] show ?thesis by (simp add: u)
  next
    case (Some account)
    let ?stored = "hm_insert i (account\<lparr>ac_models := models\<rparr>) accounts"
    let ?app1 = "on_runtime (\<lambda>rt. rt\<lparr>rt_accounts := ?stored\<rparr>) app"
    have "keeps app (on_runtime (\<lambda>rt. rt\<lparr>rt_accounts := hm_insert i (account\<lparr>ac_models := models\<rparr>) (rt_accounts rt)\<rparr>) app)"
      using Some Cons.prems by (intro stored_account_keeps) simp_all
    then have "keeps app ?app1" using Cons.prems by (simp add: on_runtime_def)
    also have "keeps ?app1 (on_runtime (\<lambda>rt. rt\<lparr>rt_accounts := snd (store_models updates ?stored)\<rparr>) ?app1)"
      by (rule Cons.IH) simp
    finally show ?thesis using Some by (simp add: u Let_def on_runtime_def)
  qed
qed

lemma models_refresh_keeps:
  assumes "\<And>a. keeps a (during a)"
  shows "keeps app (snd (refresh_account_models list_models during now app))"
proof -
  have "keeps app (on_runtime (\<lambda>rt. rt\<lparr>rt_accounts := snd (store_models updates (rt_accounts (ap_runtime (during app))))\<rparr>) (during app))"
    for updates by (rule keeps_trans [OF assms stored_models_keep]) simp
  then show ?thesis by (simp add: refresh_account_models_def Let_def case_prod_beta' assms)
qed

lemma cleanup_keeps: "keeps app (snd (cleanup_banned_accounts now app))"
proof -
  have "keeps app (snd (delete_accounts ids app))" for ids
  proof (induction ids arbitrary: app)
    case (Cons i ids)
    obtain r mid where r: "delete_account i app = (r, mid)" by fastforce
    have "keeps app mid" using delete_keeps [of app i] r by simp
    with Cons.IH [of mid] show ?case by (auto simp: r split: sum.split intro: keeps_trans)
  qed simp
  then show ?thesis
    by (auto simp: cleanup_banned_accounts_def Let_def split: sum.split prod.split) (metis snd_conv)+
qed

text \<open>Threads.\<close>

lemma start_thread_keeps: "keeps app (snd (start_conversation_thread request uuid clock app))"
  by (auto simp: start_conversation_thread_def Let_def case_prod_beta' confined_keeps [OF upsert_thread_confined]
      split: option.split)

lemma fork_thread_keeps: "keeps app (snd (fork_conversation_thread request uuid clock us app))"
proof -
  have "keeps app (put_context p ctx (snd (upsert_conversation_thread_record tenant i q model title source clock app)))"
    if "cc_principal_id ctx = p" for p ctx tenant i q model title source clock
    by (rule keeps_trans [OF confined_keeps [OF upsert_thread_confined] confined_keeps [OF put_context_confined [OF that]]])
  then show ?thesis
    by (auto simp: fork_conversation_thread_def Let_def case_prod_beta' confined_keeps [OF upsert_thread_confined]
        inherited_context_def split: option.split)
qed

lemma compact_thread_keeps: "keeps app (left_behind (compact_conversation_thread request ts app))"
proof (cases "hm_get (rt_conversation_threads (ap_runtime app)) (normalize_thread_id (cp_thread_id request))")
  case None
  then show ?thesis by (simp add: compact_conversation_thread_def Let_def)
next
  case (Some thread)
  obtain t1 t2 t3 t4 where ts: "ts = (t1, t2, t3, t4)" by (cases ts)
  define n where "n = (case cp_preserve_turns request of Some n \<Rightarrow> n | None \<Rightarrow> 4)"
  have "keeps app (left_by (compact_thread_context thread n t1 t2 t3 t4 app))" by (rule confined_keeps [OF compact_confined])
  then show ?thesis
    unfolding compact_conversation_thread_def Let_def Some option.case ts prod.case n_def [symmetric]
    by (auto split: outcome.split option.split)
qed

text \<open>Logins.\<close>

lemma login_session_keeps: "keeps app (on_runtime (\<lambda>rt. rt\<lparr>rt_openai_login_sessions := hm_insert k v (rt_openai_login_sessions rt)\<rparr>) app)"
  by (intro aside_keeps) (simp_all add: rt_inv_def)

lemma login_start_keeps: "keeps app (snd (start_openai_login parse_url encode request pkce login_id new_id t1 t2 app))"
proof -
  obtain r mid where r: "resolve_openai_login_tenant (lo_tenant_id request) new_id t1 app = (r, mid)" by fastforce
  have "keeps app mid" using tenant_resolved_keeps [of app "lo_tenant_id request" new_id t1] r by simp
  then show ?thesis
    by (auto simp: start_openai_login_def r Let_def intro: keeps_trans [OF _ login_session_keeps] split: sum.split)
qed

text \<open>
  A login imports an account, attaches what the provider gave and refreshes it: what the steps of these
  satisfy, the whole login satisfies.
\<close>

locale login_step = account_step "\<lambda>_. S" for S :: "app_state \<Rightarrow> app_state \<Rightarrow> bool" +
  assumes imported: "S app (snd (import_account request simple t1 t2 app))"
    and noted: "S app (update_login state f app)"
begin

lemma attached:
  assumes "\<And>a. S a (pv_during pv a)"
  shows "S app (snd (attach_managed_openai_auth pv i email chatgpt_id tk now t app))"
proof -
  define stored where "stored = (case (non_empty_trimmed tk, cf_account_encryption_key (ap_config app)) of
             (Some tk, Some secret) \<Rightarrow> (case pv_encrypt pv secret tk of
               Inl e \<Rightarrow> Inl (External e) | Inr c \<Rightarrow> Inr (Some c, app))
           | (Some tk, None) \<Rightarrow> Inr (None, remember_token i tk app)
           | (None, _) \<Rightarrow> Inr (None, app))"
  have stored: "S app mid" if "stored = Inr (encrypted, mid)" for encrypted mid
    using that token [where i = i and app = app] refl by (auto simp: stored_def split: option.splits sum.splits)
  have "S app (snd (refresh_managed_account pv False t i (enqueue (CredentialUpsert c) app')))"
    if "stored = Inr (encrypted, mid)"
      and "update_credential i (\<lambda>c. c\<lparr>cr_chatgpt_account_id := f c, cr_managed_auth := g c, cr_updated_at := now\<rparr>) mid
        = Some (c, app')" for encrypted mid f g c app'
  proof -
    have "S mid (enqueue (CredentialUpsert c) app')" by (rule changed [OF that(2)]) simp
    from trans [OF trans [OF stored [OF that(1)] this] refreshed [OF assms]] show ?thesis .
  qed
  then show ?thesis
    unfolding attach_managed_openai_auth_def stored_def [symmetric]
    using stored refl by (auto split: sum.split option.split prod.split)
qed

lemma exchanged:
  assumes "\<And>a. S a (pv_during pv a)"
  shows "S app (snd (exchange_login pv session redirect_uri code simple t app))"
proof -
  have "S app (snd (import_account request simple t1 t2 (pv_during pv app)))" for request t1 t2
    by (rule trans [OF assms imported])
  note made = trans [OF this attached [OF assms]]
  show ?thesis
    using made
    by (auto simp: exchange_login_def Let_def case_prod_beta' assms split: sum.split)
qed

lemma completed:
  assumes "\<And>a. S a (pv_during pv a)"
  shows "S app (snd (complete_openai_login pv request simple t app))"
proof -
  have "S app (update_login st2 f2 (snd (exchange_login pv session redirect_uri code simple t (update_login st f app))))"
    for st2 f2 session redirect_uri code st f
    by (rule trans [OF trans [OF noted exchanged [OF assms]] noted])
  then show ?thesis
    by (auto simp: complete_openai_login_def Let_def case_prod_beta' refl split: option.split)
qed

end

interpretation pool_login: login_step keeps
  by unfold_locales (rule import_keeps, simp add: update_login_def login_session_keeps split: option.split)

text \<open>App sessions and the app server.\<close>

lemma refreshed_credential:
  assumes "refresh_managed_account pv force t i app = (Inr (), app')"
  shows "hm_get (rt_credentials (ap_runtime app')) i \<noteq> None"
proof -
  have limits: "rt_credentials (ap_runtime (apply_managed_rate_limits_to_account i m a)) = rt_credentials (ap_runtime a)" for m a
    by (simp add: apply_managed_rate_limits_to_account_def Let_def split: option.split prod.split)
  have stored: "hm_get (rt_credentials (ap_runtime b)) i \<noteq> None"
    if "store_managed_snapshot i access snapshot t1 t2 a = (Inr (), b)" for access snapshot t1 t2 a b
    using that by (auto simp: store_managed_snapshot_def update_credential_def limits split: option.splits)
  show ?thesis
    using assms by (auto simp: refresh_managed_account_def dest: stored split: option.splits sum.splits prod.splits if_splits)
qed

lemma app_session_keeps:
  assumes "\<And>a. keeps a (pv_during pv a)"
  shows "keeps app (snd (create_codex_app_session (refresh_managed_account pv False t) request tenant url token now app))"
proof (rule keepsI)
  assume ok: "pool_ok app"
  have opened: "pool_ok (on_runtime (\<lambda>rt. rt\<lparr>rt_codex_app_sessions := hm_insert token session (rt_codex_app_sessions rt)\<rparr>) a)"
    if "pool_ok a" "hm_get (rt_credentials (ap_runtime a)) (cs_account_id session) \<noteq> None" for session a
    using that by (auto simp: pool_ok_def pool_inv_def rt_inv_def routes_inv_def modes_synced_def refs_ok_def known_def)
  have managed: "pool_ok a \<and> (r = Inr () \<longrightarrow> hm_get (rt_credentials (ap_runtime a)) i \<noteq> None)"
    if "refresh_managed_account pv False t i app = (r, a)" for i r a
    using keeps_ok [OF refresh_keeps [OF assms] ok, of False t i] refreshed_credential [of pv False t i app a] that by auto
  show "keeps app (snd (create_codex_app_session (refresh_managed_account pv False t) request tenant url token now app))"
    unfolding keeps_def create_codex_app_session_def Let_def
    using ok by (auto intro!: opened dest!: managed split: option.split sum.split prod.split)
qed

lemma session_lookup_keeps: "keeps app (snd (codex_app_session_for_token token now app))"
  by (auto simp: codex_app_session_for_token_def Let_def keeps_def pool_ok_def pool_inv_def rt_inv_def routes_inv_def
      modes_synced_def refs_ok_def known_def hm_get_retain split: option.splits if_splits)

lemma app_message_keeps:
  assumes "\<And>a. keeps a (pv_during (sv_provider sv) a)"
  shows "keeps (snd (snd w)) (snd (snd (snd (handle_app_server_message sv m w))))"
proof -
  obtain cx so app where w: "w = (cx, so, app)" by (cases w)
  obtain alive cx' so' app' where h: "handle_app_server_message sv m (cx, so, app) = (alive, cx', so', app')"
    by (cases "handle_app_server_message sv m (cx, so, app)") auto
  show ?thesis
    using message_effect [OF h] refresh_keeps [OF assms]
    by (auto simp: w h refreshes_def refreshed_account_def)
qed

text \<open>The execution guards.\<close>

lemma guard_keeps:
  "keeps app (on_runtime (\<lambda>rt. snd (acquire_execution_guard tenant i model rt)) app)"
  "take_permit g (ap_runtime app) = Some rt \<Longrightarrow> keeps app (on_runtime (\<lambda>_. rt) app)"
  "keeps app (on_runtime (drop_guard g) app)"
  by (intro aside_keeps; auto simp: acquire_execution_guard_def enter_gate_def take_permit_def drop_guard_def Let_def rt_inv_def
      split: option.splits if_splits prod.splits)+

lemma answered_simps [simp]:
  "snd (Admin.answered status kind r) = snd r"
  by (cases r; cases "fst r") (auto simp: Admin.answered_def split: sum.split)

lemma answered_outcome_left [simp]: "left_behind (answered_outcome status kind r) = left_behind r"
  by (cases r) (simp_all add: answered_outcome_def)

subsection \<open>Steps\<close>

lemma orderly_mono: "(\<And>a b. R a b \<longrightarrow> S a b) \<Longrightarrow> orderly R rounds \<longrightarrow> orderly S rounds"
  by (auto simp: orderly_def)

lemma orderly_iteration_mono: "(\<And>a b. R a b \<longrightarrow> S a b) \<Longrightarrow> orderly_iteration R it \<longrightarrow> orderly_iteration S it"
  using orderly_mono [of R S] by (auto simp: orderly_iteration_def)

lemma orderly_request_mono [mono]: "(\<And>a b. R a b \<longrightarrow> S a b) \<Longrightarrow> orderly_request R en its \<longrightarrow> orderly_request S en its"
  using orderly_mono [of R S] orderly_iteration_mono [of R S] by (auto simp: orderly_request_def)

lemma orderly_message_mono [mono]: "(\<And>a b. R a b \<longrightarrow> S a b) \<Longrightarrow> orderly_message R m \<longrightarrow> orderly_message S m"
  using orderly_request_mono [of R S] by (cases m) auto

text \<open>
  One step: an endpoint is served, a message of a connection is handled, a worker's timer expires, or
  a task enters, gets or gives back an execution guard. Where the code waits, other steps are taken.
  The routers are \<open>router\<close> of \<open>http/data.rs\<close> and \<open>http/admin.rs\<close>; the endpoints that only read are not
  listed.
\<close>

text \<open>
  The last steps are a selection on its own, whose wait for the tables other steps may use as long as
  they delete no account, and the guards.
\<close>

inductive server_step :: "app_state \<Rightarrow> app_state \<Rightarrow> bool" where
  post_responses: "orderly_request (\<lambda>a b. server_step\<^sup>*\<^sup>* a b) en its \<Longrightarrow>
    server_step app (snd (responses lib en headers payload its app))"
| post_chat_completions: "orderly_request (\<lambda>a b. server_step\<^sup>*\<^sup>* a b) en its \<Longrightarrow>
    server_step app (snd (chat_completions lib en headers chat its app))"
| post_responses_compact: "orderly_request (\<lambda>a b. server_step\<^sup>*\<^sup>* a b) en its \<Longrightarrow>
    server_step app (snd (responses_compact lib en headers payload its app))"
| responses_ws_message: "orderly_message (\<lambda>a b. server_step\<^sup>*\<^sup>* a b) m \<Longrightarrow>
    server_step app (snd (snd (handle_ws_message lib json_error decode_error auth headers m (so, app))))"
| get_dashboard_live: "(\<And>i a. server_step\<^sup>*\<^sup>* a (pv_during (pv i) a)) \<Longrightarrow>
    server_step app (snd (dashboard_live_snapshot_of pv t sweep_now now alert_now refreshed_at live_at app))"
| post_tenant: "server_step app (snd (create_tenant tenant_request new_id now app))"
| post_account: "server_step app (snd (import_account import_request simple t1 t2 app))"
| delete_account: "server_step app (snd (admin_delete_account i app))"
| post_cleanup: "server_step app (snd (admin_cleanup_banned_accounts now app))"
| post_models_refresh: "(\<And>a. server_step\<^sup>*\<^sup>* a (during a)) \<Longrightarrow>
    server_step app (snd (admin_refresh_account_models list_models during now app))"
| post_quota_refresh: "(\<And>a. server_step\<^sup>*\<^sup>* a (pv_during p a)) \<Longrightarrow>
    server_step app (snd (admin_refresh_account_quota p clock i app))"
| post_route_event: "ev_kind event \<in> {''cf_hit'', ''success''} \<Longrightarrow>
    server_step app (snd (admin_route_event incident_id i event now app))"
| post_thread: "server_step app (snd (start_thread start_request uuid ts app))"
| post_fork: "server_step app (snd (fork_thread fork_request uuid ts us app))"
| post_compaction: "server_step app (left_behind (compact_thread compact_request t4 app))"
| post_user: "server_step app (left_behind (create_user user_request default_id t0 new_id simple now app))"
| put_user: "server_step app (left_behind (update_user user_id update_request now app))"
| post_api_key: "server_step app (snd (admin_create_api_key key_request new_id simple t1 t2 app))"
| post_login_start: "server_step app (snd (openai_login_start parse_url encode login_request pkce login_id new_id t1 t2 app))"
| post_login_complete: "(\<And>a. server_step\<^sup>*\<^sup>* a (pv_during p a)) \<Longrightarrow>
    server_step app (snd (openai_login_complete p complete_request simple clock app))"
| post_app_session: "(\<And>a. server_step\<^sup>*\<^sup>* a (pv_during p a)) \<Longrightarrow>
    server_step app (snd (codex_app_session (refresh_managed_account p False clock) headers session_request token now app))"
| get_app_server: "server_step app (snd (codex_app_session_from_headers headers now later app))"
| app_server_message: "(\<And>a. server_step\<^sup>*\<^sup>* a (pv_during (sv_provider sv) a)) \<Longrightarrow>
    server_step app (snd (snd (snd (handle_app_server_message sv incoming (cx, so, app)))))"
| managed_account_refresh_worker: "(\<And>i a. server_step\<^sup>*\<^sup>* a (pv_during (pv i) a)) \<Longrightarrow>
    server_step app (refresh_stale_managed_accounts pv t now staleness app)"
| model_catalog_refresh_worker: "(\<And>a. server_step\<^sup>*\<^sup>* a (during a)) \<Longrightarrow>
    server_step app (snd (refresh_account_models list_models during now app))"
| select_lease: "(\<And>a. server_step\<^sup>*\<^sup>* a (interfere a)) \<Longrightarrow>
    (\<And>a i. known (ap_runtime a) i \<Longrightarrow> known (ap_runtime (interfere a)) i) \<Longrightarrow>
    server_step app (snd (resolve_lease_outcome_with interfere sha256 lease_request now reuse_now app))"
| acquire_guard: "server_step app (on_runtime (\<lambda>rt. snd (acquire_execution_guard tenant i model rt)) app)"
| take_guard: "take_permit g (ap_runtime app) = Some rt \<Longrightarrow> server_step app (on_runtime (\<lambda>_. rt) app)"
| release_guard: "server_step app (on_runtime (drop_guard g) app)"

text \<open>
  A start from nothing (no database, an error, an empty database) and a restart from a database that
  mirrors an instance, once the writer has caught up; \<open>mirrors\<close> leaves the modes of the accounts open.
\<close>

inductive server_reachable :: "app_state \<Rightarrow> bool" where
  boot: "(\<And>s. loaded = Some (Inr s) \<Longrightarrow> \<not> has_data s) \<Longrightarrow>
    server_reachable (fst (start_instance config loaded bus_connected tenant_id key_id now))"
| reboot: "server_reachable app \<Longrightarrow> mirrors db (ap_runtime app) \<Longrightarrow> db_inv db \<Longrightarrow>
    (\<And>i. map_option read_account (hm_get (db_accounts db) i) = hm_get (rt_accounts (ap_runtime app)) i) \<Longrightarrow>
    server_reachable (fst (start_instance config (Some (Inr (storage_load_snapshot db))) bus_connected tenant_id key_id now))"
| step: "server_reachable app \<Longrightarrow> server_step app app' \<Longrightarrow> server_reachable app'"

subsection \<open>The invariant\<close>

lemma meanwhile_keeps: "(\<lambda>a b. S a b \<and> keeps a b)\<^sup>*\<^sup>* a b \<Longrightarrow> keeps a b"
  by (induction rule: rtranclp_induct) (auto intro: keeps_trans)

lemmas orderly_keeps =
  mp [OF orderly_request_mono [where S = keeps, OF impI [OF meanwhile_keeps]]]
  mp [OF orderly_message_mono [where S = keeps, OF impI [OF meanwhile_keeps]]]

lemma dashboard_live_keeps:
  "(\<And>i a. keeps a (pv_during (pv i) a)) \<Longrightarrow>
     keeps app (snd (dashboard_live_snapshot_of pv t sweep_now now alert_now refreshed_at live_at app))"
  by (simp add: dashboard_live_snapshot_of_def Let_def stale_refresh_keeps)

lemma admin_app_session_keeps:
  "(\<And>a. keeps a (pv_during p a)) \<Longrightarrow>
     keeps app (snd (codex_app_session (refresh_managed_account p False clock) headers request token now app))"
  by (simp add: codex_app_session_def app_session_keeps split: option.split sum.split)

lemma app_server_session_keeps: "keeps app (snd (codex_app_session_from_headers headers now later app))"
proof -
  have "keeps app mid" if "codex_app_session_for_token token now app = (found, mid)" for token found mid
    using session_lookup_keeps [of app token now] that by simp
  then show ?thesis by (auto simp: codex_app_session_from_headers_def split: option.split prod.split)
qed

lemma message_step_keeps:
  "orderly_message keeps m \<Longrightarrow> keeps app (snd (snd (handle_ws_message lib je de auth headers m (so, app))))"
  using keeps_task.message_kept [of m "(so, app)"] by simp

lemma app_message_step_keeps:
  "(\<And>a. keeps a (pv_during (sv_provider sv) a)) \<Longrightarrow>
     keeps app (snd (snd (snd (handle_app_server_message sv m (cx, so, app)))))"
  using app_message_keeps [of sv "(cx, so, app)"] by simp

text \<open>A selection binds an account of its snapshot, which is still known.\<close>

lemma selection_keeps:
  assumes "\<And>a. keeps a (interfere a)" and "\<And>a i. known (ap_runtime a) i \<Longrightarrow> known (ap_runtime (interfere a)) i"
  shows "keeps app (snd (resolve_lease_outcome_with interfere sha256 request now reuse_now app))"
proof (rule keepsI)
  assume ok: "pool_ok app"
  define mid where "mid = reconcile_routes now app"
  define late where "late = interfere mid"
  have okm: "pool_ok mid" unfolding mid_def by (rule confined_ok [OF reconcile_confined ok])
  have okl: "pool_ok late" unfolding late_def by (rule keeps_ok [OF assms(1) okm])
  have bound: "pool_ok (snd (bind_lease request l late))"
    if "ls_principal_id l = lq_principal_id request" "known (ap_runtime late) (ls_account_id l)" for l
    using okl that
    by (auto simp: bind_lease_def Let_def enqueue_many_def pool_ok_def pool_inv_def rt_inv_def routes_inv_def modes_synced_def refs_ok_def known_def
        hm_keyed_insert)
  have put: "pool_ok (on_runtime (\<lambda>rt. rt\<lparr>rt_leases := hm_insert (lq_principal_id request) l (rt_leases (ap_runtime late))\<rparr>) late)"
    if "ls_principal_id l = lq_principal_id request" "known (ap_runtime late) (ls_account_id l)" for l
    using okl that
    by (auto simp: pool_ok_def pool_inv_def rt_inv_def routes_inv_def modes_synced_def refs_ok_def known_def hm_keyed_insert)
  have fresh: "pool_ok (snd (select_fresh sha256 request now (ap_runtime mid) late))"
  proof (rule select_fresh_cases [of "ap_runtime mid" request now sha256 late])
    fix a
    assume a: "a \<in> set (tenant_model_accounts (ap_runtime mid) (lq_tenant_id request) (lq_model request))"
      and s: "select_fresh sha256 request now (ap_runtime mid) late
        = bind_lease request (fresh_lease (ap_runtime mid) request now
            (hm_get (rt_leases (ap_runtime mid)) (lq_principal_id request)) a) late"
    have "known (ap_runtime mid) (ac_id a)"
      using a by (simp add: known_def mem_model_accounts_get pool_ok_inv [OF okm])
    then have "known (ap_runtime late) (ac_id a)" unfolding late_def by (rule assms(2))
    then show ?thesis unfolding s by (intro bound) (simp_all add: fresh_lease_def)
  qed (simp add: okl)
  have reuse: "pool_ok (snd result)" if "reuse_lease request now r late = Some result" for r result
  proof (cases "hm_get (rt_leases (ap_runtime late)) (lq_principal_id request)")
    case (Some lease)
    have "ls_principal_id lease = lq_principal_id request" "known (ap_runtime late) (ls_account_id lease)"
      using Some okl rt_invD(6) [OF pool_ok_inv [OF okl]] by (auto simp: pool_ok_def refs_ok_def dest: hm_keyedD)
    then have "pool_ok (on_runtime (\<lambda>rt. rt\<lparr>rt_leases := hm_insert (lq_principal_id request)
        (refreshed request now r lease) (rt_leases (ap_runtime late))\<rparr>) late)"
      by (intro put) (simp_all add: refreshed_def)
    moreover have "pool_ok (enqueue m a) = pool_ok a" for m a by (simp add: pool_ok_def)
    ultimately show ?thesis using that by (auto simp: reuse_lease_eq [OF Some])
  qed (use that in \<open>simp add: reuse_lease_def refresh_reusable_lease_snapshot_def\<close>)
  show "keeps app (snd (resolve_lease_outcome_with interfere sha256 request now reuse_now app))"
    using fresh reuse
    by (auto simp: keeps_def resolve_lease_outcome_with_def Let_def mid_def [symmetric] late_def [symmetric] split: option.split)
qed

lemma step_keeps: "server_step app app' \<Longrightarrow> keeps app app'"
proof (induction rule: server_step.induct)
  case (post_responses en its app lib headers payload)
  then show ?case by (intro keeps_task.responses_kept orderly_keeps(1))
next
  case (post_chat_completions en its app lib headers chat)
  then show ?case by (intro keeps_task.chat_kept orderly_keeps(1))
next
  case (post_responses_compact en its app lib headers payload)
  then show ?case by (intro keeps_task.compaction_kept orderly_keeps(1))
next
  case (responses_ws_message m app)
  then show ?case by (intro message_step_keeps orderly_keeps(2))
next
  case (get_dashboard_live pv)
  then show ?case by (intro dashboard_live_keeps meanwhile_keeps)
next
  case (post_models_refresh during)
  then show ?case by (simp add: admin_refresh_account_models_def case_prod_beta') (intro models_refresh_keeps meanwhile_keeps)
next
  case (post_quota_refresh p)
  then show ?case by (simp add: admin_refresh_account_quota_def) (intro quota_refresh_keeps meanwhile_keeps)
next
  case (post_route_event event)
  then show ?case by (simp add: admin_route_event_def confined_keeps event_confined)
next
  case (post_login_complete p)
  then show ?case by (simp add: openai_login_complete_def) (intro pool_login.completed meanwhile_keeps)
next
  case (post_app_session p)
  then show ?case by (intro admin_app_session_keeps meanwhile_keeps)
next
  case (app_server_message sv)
  then show ?case by (intro app_message_step_keeps meanwhile_keeps)
next
  case (managed_account_refresh_worker pv)
  then show ?case by (intro stale_refresh_keeps meanwhile_keeps)
next
  case (model_catalog_refresh_worker during)
  then show ?case by (intro models_refresh_keeps meanwhile_keeps)
next
  case (select_lease interfere)
  then show ?case by (intro selection_keeps meanwhile_keeps)
next
  case (post_api_key app key_request new_id simple t1 t2)
  then show ?case
    using create_api_key_keeps [of app key_request new_id simple t1 t2]
    by (auto simp: admin_create_api_key_def split: prod.split option.split)
qed (simp_all add: create_tenant_keeps import_keeps admin_delete_account_def delete_keeps admin_cleanup_banned_accounts_def
    cleanup_keeps start_thread_def start_thread_keeps fork_thread_def fork_thread_keeps compact_thread_def compact_thread_keeps
    create_user_def user_creation_keeps update_user_def user_update_keeps openai_login_start_def login_start_keeps
    app_server_session_keeps guard_keeps)

lemma pool_initial: "pool_inv initial_runtime \<and> refs_ok initial_runtime"
  by (simp add: pool_inv_def refs_ok_def known_def routes_inv_def modes_synced_def inv_intros)
    (simp add: initial_runtime_def)

lemma pool_demo: "pool_inv (seed_demo tenant_id key_id now initial_runtime) \<and> refs_ok (seed_demo tenant_id key_id now initial_runtime)"
proof -
  let ?rt = "seed_demo tenant_id key_id now initial_runtime"
  have accounts: "rt_accounts ?rt = map (\<lambda>a. (ac_id a, a)) (demo_accounts tenant_id now)"
    and routes: "rt_route_states ?rt = map (\<lambda>a. (ac_id a, demo_route_state now a)) (demo_accounts tenant_id now)"
    and leases: "rt_leases ?rt = map (\<lambda>l. (ls_principal_id l, l)) (demo_leases tenant_id now)"
    and rest: "rt_credentials ?rt = []" "rt_codex_app_sessions ?rt = []"
    by (simp_all add: seed_demo_def Let_def demo_accounts_def demo_account_def demo_leases_def demo_lease_def initial_runtime_def
        hm_insert_def)
  have "rt_inv ?rt"
    by (simp add: rt_inv_def seed_demo_def Let_def initial_runtime_def demo_accounts_def demo_leases_def demo_account_def
        demo_lease_def demo_route_state_def demo_tenant_def demo_key_def hm_keyed_insert)
  moreover have "routes_inv ?rt" "modes_synced ?rt" "refs_ok ?rt"
    by (auto simp: routes_inv_def modes_synced_def refs_ok_def known_def accounts routes leases rest cf_inv_def
        demo_accounts_def demo_account_def demo_route_state_def demo_leases_def demo_lease_def split: if_splits)
  ultimately show ?thesis by (simp add: pool_inv_def)
qed

lemma pool_restored:
  assumes "pool_ok app" and "mirrors db (ap_runtime app)" and "db_inv db"
    and "\<And>i. map_option read_account (hm_get (db_accounts db) i) = hm_get (rt_accounts (ap_runtime app)) i"
  shows "pool_inv (load_snapshot (storage_load_snapshot db) initial_runtime) \<and> refs_ok (load_snapshot (storage_load_snapshot db) initial_runtime)"
proof -
  let ?r = "load_snapshot (storage_load_snapshot db) initial_runtime" and ?rt = "ap_runtime app"
  have restored: "restores ?r ?rt" by (rule load_mirrored [OF assms(2,3)])
  have "hm_keyed ar_id (db_accounts db)" using assms(3) by (simp add: db_inv_def)
  from hm_load_rows [where f = read_account, OF this read_keys(1) mset_sort_by]
  have accounts: "hm_get (rt_accounts ?r) = hm_get (rt_accounts ?rt)"
    unfolding load_snapshot_fields storage_load_snapshot_def persistence_snapshot.simps assms(4) .
  have sessions: "rt_codex_app_sessions ?r = []" by (simp add: load_snapshot_def initial_runtime_def)
  show ?thesis
    using assms(1) restored load_snapshot_inv [of db]
    by (simp add: pool_ok_def pool_inv_def refs_ok_def known_def routes_inv_def modes_synced_def restores_def accounts sessions)
qed

lemma started_ok:
  assumes "\<And>s. loaded = Some (Inr s) \<Longrightarrow> has_data s \<Longrightarrow>
      pool_inv (load_snapshot s initial_runtime) \<and> refs_ok (load_snapshot s initial_runtime)"
  shows "pool_ok (fst (start_instance config loaded bus_connected tenant_id key_id now))"
  using assms pool_initial pool_demo
  by (auto simp: start_instance_def Let_def pool_ok_def split: option.split sum.split)

lemma reachable_ok: "server_reachable app \<Longrightarrow> pool_ok app"
proof (induction rule: server_reachable.induct)
  case (boot loaded)
  then show ?case by (intro started_ok) blast
next
  case (reboot app db)
  then show ?case by (intro started_ok) (use pool_restored [of app db] in auto)
next
  case (step app app')
  then show ?case by (blast intro: keeps_ok [OF step_keeps])
qed

lemma kept_references:
  assumes ok: "pool_ok app" and lease: "hm_get (rt_leases (ap_runtime app)) p = Some l"
  shows "\<exists>a r. hm_get (rt_accounts (ap_runtime app)) (ls_account_id l) = Some a
    \<and> hm_get (rt_route_states (ap_runtime app)) (ls_account_id l) = Some r \<and> ac_current_mode a = rs_route_mode r"
  using ok lease by (fastforce simp: pool_ok_def refs_ok_def known_def pool_inv_def modes_synced_def)

text \<open>C3 (server_keeps_pool).
  Whatever a server has served since its start, and whatever its tasks did while others waited for the
  network, a guard or a body, the pool is consistent: every lease is of an account that exists, that has
  a route state and records its mode; route states, credentials and app sessions are of accounts that
  exist; a cooldown level indexes the table of steps, an account is in warp mode exactly when it is known
  since when; the histories stay within their caps. Operations of \<open>AppState\<close> are one step each, also the
  selections inside a request. In the gap of a selection on its own (\<open>select_lease\<close>) other steps may be
  taken, but no deletion: with one the claim is false (\<open>deletion_leaves_lease\<close>). Deliveries from peers and
  route events of an unknown kind (\<open>unknown_event_diverges\<close>) are not steps. A server starts from nothing,
  or from a database that mirrors a server reached before, account modes included.\<close>

theorem server_keeps_pool:
  assumes "server_reachable app" and rt: "rt = ap_runtime app"
  shows "(\<forall>p l. hm_get (rt_leases rt) p = Some l \<longrightarrow>
      (\<exists>a r. hm_get (rt_accounts rt) (ls_account_id l) = Some a
        \<and> hm_get (rt_route_states rt) (ls_account_id l) = Some r \<and> ac_current_mode a = rs_route_mode r))
    \<and> (\<forall>i. hm_get (rt_route_states rt) i = None \<longleftrightarrow> hm_get (rt_accounts rt) i = None)
    \<and> (\<forall>i. hm_get (rt_accounts rt) i = None \<longrightarrow> hm_get (rt_credentials rt) i = None)
    \<and> (\<forall>t s. hm_get (rt_codex_app_sessions rt) t = Some s \<longrightarrow> hm_get (rt_accounts rt) (cs_account_id s) \<noteq> None)
    \<and> (\<forall>i r. hm_get (rt_route_states rt) i = Some r \<longrightarrow>
      rs_cooldown_level r < length COOLDOWN_STEPS_SECONDS \<and> (rs_route_mode r = Warp \<longleftrightarrow> rs_warp_entered_at r \<noteq> None))
    \<and> length (rt_cf_incidents rt) \<le> INCIDENT_CAP \<and> length (rt_request_logs rt) \<le> REQUEST_LOG_CAP"
proof (intro conjI)
  note ok = reachable_ok [OF assms(1)]
  then have refs: "refs_ok rt" and routes: "routes_inv rt" and inv: "rt_inv rt"
    by (simp_all add: pool_ok_def pool_inv_def rt)
  show "\<forall>p l. hm_get (rt_leases rt) p = Some l \<longrightarrow>
      (\<exists>a r. hm_get (rt_accounts rt) (ls_account_id l) = Some a
        \<and> hm_get (rt_route_states rt) (ls_account_id l) = Some r \<and> ac_current_mode a = rs_route_mode r)"
    using kept_references [OF ok] rt by blast
  show "\<forall>i. hm_get (rt_route_states rt) i = None \<longleftrightarrow> hm_get (rt_accounts rt) i = None"
    and "\<forall>i. hm_get (rt_accounts rt) i = None \<longrightarrow> hm_get (rt_credentials rt) i = None"
    and "\<forall>t s. hm_get (rt_codex_app_sessions rt) t = Some s \<longrightarrow> hm_get (rt_accounts rt) (cs_account_id s) \<noteq> None"
    using refs unfolding refs_ok_def known_def by blast+
  show "\<forall>i r. hm_get (rt_route_states rt) i = Some r \<longrightarrow>
      rs_cooldown_level r < length COOLDOWN_STEPS_SECONDS \<and> (rs_route_mode r = Warp \<longleftrightarrow> rs_warp_entered_at r \<noteq> None)"
    using routes by (auto simp: routes_inv_def cf_inv_def)
  show "length (rt_cf_incidents rt) \<le> INCIDENT_CAP" "length (rt_request_logs rt) \<le> REQUEST_LOG_CAP"
    using inv by (simp_all add: rt_inv_def)
qed

text \<open>An empty instance is started, an account with a credential is imported and then deleted.\<close>

definition ex_booted :: app_state where
  "ex_booted = fst (start_instance ex_config None False 1 2 0)"

definition ex_stocked :: app_state where
  "ex_stocked = snd (import_account ex_import ''x'' 0 0 ex_booted)"

definition ex_emptied :: app_state where
  "ex_emptied = snd (admin_delete_account ''acc_x'' ex_stocked)"

theorem server_keeps_pool_witness:
  "server_reachable ex_emptied \<and> hm_get (rt_credentials (ap_runtime ex_stocked)) ''acc_x'' \<noteq> None
    \<and> hm_get (rt_route_states (ap_runtime ex_emptied)) ''acc_x'' = None
    \<and> hm_get (rt_credentials (ap_runtime ex_emptied)) ''acc_x'' = None"
proof -
  have "server_reachable ex_booted" unfolding ex_booted_def by (rule server_reachable.boot) simp
  then have reached: "server_reachable ex_stocked"
    unfolding ex_stocked_def by (rule server_reachable.step [OF _ server_step.post_account])
  then have emptied: "server_reachable ex_emptied"
    unfolding ex_emptied_def by (rule server_reachable.step [OF _ server_step.delete_account])
  note inv = pool_ok_inv [OF reachable_ok [OF reached]]
  have "trim ''t'' = ''t''" by code_simp
  then have stocked: "hm_get (rt_credentials (ap_runtime ex_stocked)) ''acc_x'' \<noteq> None"
      "hm_get (rt_accounts (ap_runtime ex_stocked)) ''acc_x'' \<noteq> None"
    by (simp_all add: ex_stocked_def import_account_def Let_def build_credential_template_def ex_import_def split: option.split)
  have "hm_get (rt_accounts (ap_runtime ex_emptied)) ''acc_x'' = None"
    using stocked(2) by (simp add: ex_emptied_def admin_delete_account_def delete_account_eq [OF inv] deleted_def)
  with conjunct1 [OF conjunct2 [OF server_keeps_pool [OF emptied refl]]]
    conjunct1 [OF conjunct2 [OF conjunct2 [OF server_keeps_pool [OF emptied refl]]]]
  have "hm_get (rt_route_states (ap_runtime ex_emptied)) ''acc_x'' = None"
    "hm_get (rt_credentials (ap_runtime ex_emptied)) ''acc_x'' = None" by (simp_all only:)
  with emptied stocked(1) show ?thesis by (intro conjI)
qed

end
