(* ===== verification/Bus_Link.thy ===== *)
theory Bus_Link
  imports Bus
begin

text \<open>
  The link of an instance to the others, \<open>connect\<close> of \<open>bus.rs\<close>: a publisher that wraps every message
  the instance sends in an envelope with its id and puts it on a Redis channel, and a subscriber that
  applies what the other instances put there. Redis and \<open>serde_json\<close> are parameters; what of a message
  cannot be written, published, read or understood is logged and left out.
\<close>

record bus_envelope =
  be_origin_id :: str
  be_message :: persistence_message

text \<open>\<open>redis::Client\<close>: a client opens a connection to publish on and a subscription.\<close>

record ('client, 'connection, 'subscription) redis_client =
  rc_open :: "str \<Rightarrow> ('client, str) result"
  rc_connection :: "'client \<Rightarrow> ('connection, str) result"
  rc_pubsub :: "'client \<Rightarrow> ('subscription, str) result"
  rc_subscribe :: "'subscription \<Rightarrow> str \<Rightarrow> ('subscription, str) result"

text \<open>\<open>None\<close> disables the bus; the caller then has no channel to send on.\<close>

definition connect ::
  "('client, 'connection, 'subscription) redis_client \<Rightarrow> config \<Rightarrow> ('connection \<times> 'subscription) option" where
  "connect redis config =
    (case rc_open redis (cf_redis_url config) of
       Inl _ \<Rightarrow> None
     | Inr client \<Rightarrow>
         (case rc_connection redis client of
            Inl _ \<Rightarrow> None
          | Inr connection \<Rightarrow>
              (case rc_pubsub redis client of
                 Inl _ \<Rightarrow> None
               | Inr pubsub \<Rightarrow>
                   (case rc_subscribe redis pubsub (cf_redis_channel config) of
                      Inl _ \<Rightarrow> None
                    | Inr pubsub \<Rightarrow> Some (connection, pubsub)))))"

text \<open>
  What the channel carries: the text of an envelope, whether a publication succeeds, the payload of a
  message that arrived and the envelope in it.
\<close>

record 'p wire =
  wi_to_string :: "bus_envelope \<Rightarrow> ('p, str) result"
  wi_publish :: "str \<Rightarrow> 'p \<Rightarrow> (int, str) result"
  wi_from_str :: "'p \<Rightarrow> (bus_envelope, str) result"

text \<open>One message of the publisher's loop: what it puts on the channel.\<close>

definition publish_one :: "'p wire \<Rightarrow> config \<Rightarrow> persistence_message \<Rightarrow> 'p list" where
  "publish_one wire config message =
    (case wi_to_string wire \<lparr>be_origin_id = cf_instance_id config, be_message = message\<rparr> of
       Inl _ \<Rightarrow> []
     | Inr payload \<Rightarrow>
         (case wi_publish wire (cf_redis_channel config) payload of Inl _ \<Rightarrow> [] | Inr _ \<Rightarrow> [payload]))"

definition publisher :: "'p wire \<Rightarrow> config \<Rightarrow> persistence_message list \<Rightarrow> 'p list" where
  "publisher wire config messages = concat (map (publish_one wire config) messages)"

text \<open>One message of the subscriber's loop; \<open>payload\<close> is an error when it is not a string.\<close>

definition deliver :: "'p wire \<Rightarrow> config \<Rightarrow> ('p, str) result \<Rightarrow> runtime_state \<Rightarrow> runtime_state" where
  "deliver wire config payload rt =
    (case payload of
       Inl _ \<Rightarrow> rt
     | Inr payload \<Rightarrow>
         (case wi_from_str wire payload of
            Inl _ \<Rightarrow> rt
          | Inr envelope \<Rightarrow> receive config (be_origin_id envelope, be_message envelope) rt))"

definition subscriber :: "'p wire \<Rightarrow> config \<Rightarrow> ('p, str) result list \<Rightarrow> runtime_state \<Rightarrow> runtime_state" where
  "subscriber wire config payloads = fold (deliver wire config) payloads"

subsection \<open>A faithful wire\<close>

text \<open>
  The wire carries a message: its envelope can be written, is published, and is read back as it was.
  \<open>serde_json\<close> documents this of derived instances, but not of a float that is not finite (it is written
  as \<open>null\<close>), so it is asked of single messages.
\<close>

definition carries :: "'p wire \<Rightarrow> persistence_message \<Rightarrow> bool" where
  "carries wire m \<longleftrightarrow> (\<forall>origin. \<exists>p. wi_to_string wire \<lparr>be_origin_id = origin, be_message = m\<rparr> = Inr p
     \<and> wi_from_str wire p = Inr \<lparr>be_origin_id = origin, be_message = m\<rparr>
     \<and> (\<forall>channel. \<exists>n. wi_publish wire channel p = Inr n))"

lemma carried:
  assumes "carries wire m"
  obtains p where "publish_one wire config m = [p]"
    "\<And>peer rt. deliver wire peer (Inr p) rt = (if cf_instance_id config = cf_instance_id peer then rt else apply_message m rt)"
proof -
  let ?e = "\<lparr>be_origin_id = cf_instance_id config, be_message = m\<rparr>"
  obtain p n where p: "wi_to_string wire ?e = Inr p" "wi_from_str wire p = Inr ?e"
      "wi_publish wire (cf_redis_channel config) p = Inr n"
    using assms unfolding carries_def by blast
  show ?thesis
    by (rule that [of p]) (simp_all add: publish_one_def deliver_def receive_def p)
qed

text \<open>What one instance publishes reaches another's tables as it was sent, and is nothing to itself.\<close>

lemma subscriber_follows:
  assumes "\<forall>m \<in> set ms. carries wire m"
  shows "subscriber wire peer (map Inr (publisher wire config ms)) rt
    = (if cf_instance_id config = cf_instance_id peer then rt else apply_messages ms rt)"
  using assms
proof (induction ms arbitrary: rt)
  case (Cons m ms)
  obtain p where "publish_one wire config m = [p]"
    "\<And>peer rt. deliver wire peer (Inr p) rt = (if cf_instance_id config = cf_instance_id peer then rt else apply_message m rt)"
    using carried [of wire m config] Cons.prems by auto
  with Cons show ?case by (simp add: publisher_def subscriber_def)
qed (simp add: publisher_def subscriber_def)

lemma deliver_inv [inv_intros]: "rt_inv rt \<Longrightarrow> rt_inv (deliver wire config payload rt)"
  by (auto simp: deliver_def receive_def inv_intros split: sum.split)

lemma subscriber_simps [simp]:
  "subscriber wire config [] rt = rt"
  "subscriber wire config (p # ps) rt = subscriber wire config ps (deliver wire config p rt)"
  "subscriber wire config (ps @ qs) rt = subscriber wire config qs (subscriber wire config ps rt)"
  by (simp_all add: subscriber_def)

lemma subscriber_inv [inv_intros]: "rt_inv rt \<Longrightarrow> rt_inv (subscriber wire config ps rt)"
  by (induction ps arbitrary: rt) (simp_all add: deliver_inv)

end
