(* ===== verification/Process_Main.thy ===== *)
theory Process_Main
  imports Server Bus_Link
begin

text \<open>
  The process, \<open>main.rs\<close>: it configures itself, starts its instance, starts the two workers, binds the
  listeners of the two planes and serves until one of them fails or it is interrupted. A worker's ticker
  never ends; what it did so far is a list of ticks, each with what other tasks did before it.
\<close>

definition MANAGED_ACCOUNT_REFRESH_INTERVAL :: int where
  "MANAGED_ACCOUNT_REFRESH_INTERVAL = secs 60"

text \<open>A tick of each worker: what others did, the provider (or catalog) it talks to, its clocks.\<close>

fun managed_account_refresh_worker ::
  "((app_state \<Rightarrow> app_state) \<times> (str \<Rightarrow> provider) \<times> (str \<Rightarrow> nat \<Rightarrow> instant) \<times> instant) list \<Rightarrow> app_state \<Rightarrow> app_state" where
  "managed_account_refresh_worker [] app = app"
| "managed_account_refresh_worker ((others, pv, clock, now) # ticks) app =
     managed_account_refresh_worker ticks
       (refresh_stale_managed_accounts pv clock now MANAGED_ACCOUNT_REFRESH_INTERVAL (others app))"

fun model_catalog_refresh_worker ::
  "((app_state \<Rightarrow> app_state) \<times> (upstream_credential \<Rightarrow> route_mode \<Rightarrow> (str list, str) result)
      \<times> (app_state \<Rightarrow> app_state) \<times> instant) list \<Rightarrow> app_state \<Rightarrow> app_state" where
  "model_catalog_refresh_worker [] app = app"
| "model_catalog_refresh_worker ((others, catalog, during, now) # ticks) app =
     model_catalog_refresh_worker ticks (snd (refresh_account_models catalog during now (others app)))"

text \<open>
  \<open>load\<close> is what the storage at a URL holds, \<open>bind\<close> opens a listener; a listener that cannot be opened
  ends the process.
\<close>

definition process_main ::
  "(str \<Rightarrow> ip_addr option) \<Rightarrow> str \<Rightarrow> environment \<Rightarrow> (str \<Rightarrow> (persistence_snapshot, str) result option)
     \<Rightarrow> ('client, 'connection, 'subscription) redis_client \<Rightarrow> (ip_addr \<times> u16 \<Rightarrow> ('listener, str) result)
     \<Rightarrow> uuid \<Rightarrow> uuid \<Rightarrow> instant \<Rightarrow> (app_state \<times> 'listener \<times> 'listener, app_state) outcome" where
  "process_main parse_addr simple env load redis bind tenant_id key_id now =
    (let config = from_env parse_addr simple env;
         app = fst (start_instance config (load (cf_postgres_url config)) (connect redis config \<noteq> None) tenant_id key_id now)
     in case bind (cf_bind_addr config, cf_data_port config) of
          Inl _ \<Rightarrow> Panics app
        | Inr data \<Rightarrow>
            (case bind (cf_bind_addr config, cf_admin_port config) of
               Inl _ \<Rightarrow> Panics app
             | Inr admin \<Rightarrow> Returns (app, data, admin)))"

subsection \<open>Laws\<close>

text \<open>What the workers do are steps of the server, as long as what happens meanwhile is.\<close>

lemma managed_worker_steps:
  "(\<forall>(others, pv, _) \<in> set ticks. (\<forall>a. server_step\<^sup>*\<^sup>* a (others a)) \<and> (\<forall>i a. server_step\<^sup>*\<^sup>* a (pv_during (pv i) a)))
     \<Longrightarrow> server_step\<^sup>*\<^sup>* app (managed_account_refresh_worker ticks app)"
proof (induction ticks app rule: managed_account_refresh_worker.induct)
  case (2 others pv clock now ticks app)
  let ?app = "refresh_stale_managed_accounts pv clock now MANAGED_ACCOUNT_REFRESH_INTERVAL (others app)"
  have others: "server_step\<^sup>*\<^sup>* app (others app)" and during: "\<And>i a. server_step\<^sup>*\<^sup>* a (pv_during (pv i) a)"
    using 2(2) by simp_all
  have "server_step (others app) ?app" by (rule server_step.managed_account_refresh_worker [OF during])
  moreover have "server_step\<^sup>*\<^sup>* ?app (managed_account_refresh_worker ticks ?app)" by (rule 2(1)) (use 2(2) in simp)
  ultimately show ?case
    using others unfolding managed_account_refresh_worker.simps by (meson converse_rtranclp_into_rtranclp rtranclp_trans)
qed simp

lemma catalog_worker_steps:
  "(\<forall>(others, catalog, during, _) \<in> set ticks. (\<forall>a. server_step\<^sup>*\<^sup>* a (others a)) \<and> (\<forall>a. server_step\<^sup>*\<^sup>* a (during a)))
     \<Longrightarrow> server_step\<^sup>*\<^sup>* app (model_catalog_refresh_worker ticks app)"
proof (induction ticks app rule: model_catalog_refresh_worker.induct)
  case (2 others catalog during now ticks app)
  let ?app = "snd (refresh_account_models catalog during now (others app))"
  have others: "server_step\<^sup>*\<^sup>* app (others app)" and during: "\<And>a. server_step\<^sup>*\<^sup>* a (during a)"
    using 2(2) by simp_all
  have "server_step (others app) ?app" by (rule server_step.model_catalog_refresh_worker [OF during])
  moreover have "server_step\<^sup>*\<^sup>* ?app (model_catalog_refresh_worker ticks ?app)" by (rule 2(1)) (use 2(2) in simp)
  ultimately show ?case
    using others unfolding model_catalog_refresh_worker.simps by (meson converse_rtranclp_into_rtranclp rtranclp_trans)
qed simp

text \<open>The instance of a process whose storage is empty, unreachable or not there is reachable, ports or not.\<close>

lemma process_reachable:
  assumes "\<And>url s. load url = Some (Inr s) \<Longrightarrow> \<not> has_data s"
  shows "(\<exists>data admin. process_main parse_addr simple env load redis bind tenant_id key_id now = Returns (app, data, admin))
    \<or> process_main parse_addr simple env load redis bind tenant_id key_id now = Panics app \<Longrightarrow> server_reachable app"
  using assms by (auto simp: process_main_def Let_def intro!: server_reachable.boot split: sum.splits)

end
