(* ===== verification/Sharing.thy ===== *)
theory Sharing
  imports Server
begin

text \<open>
  The operations that publish what they do to the shared tables, from any consistent instance: selections,
  reports of failures and successes, turns, threads, tenants, keys, users, imports, refreshes,
  logins and deletions. Each
  sends the messages that bring a peer's tables from where it started to where it ended.
\<close>

definition shares :: "app_state \<Rightarrow> app_state \<Rightarrow> bool" where
  "shares app app' \<longleftrightarrow> (pool_ok app \<longrightarrow> pool_ok app' \<and> published app app' \<and> ap_config app' = ap_config app)"

lemma shares_refl [simp]: "shares app app"
  by (simp add: shares_def)

lemma shares_trans [trans]: "shares a b \<Longrightarrow> shares b c \<Longrightarrow> shares a c"
  unfolding shares_def using published_trans pool_ok_inv by metis

lemma sharesI: "(pool_ok app \<Longrightarrow> shares app app') \<Longrightarrow> shares app app'"
  by (auto simp: shares_def)

lemma shared:
  assumes "keeps app app'" and "rt_inv (ap_runtime app) \<Longrightarrow> published app app'" and "ap_config app' = ap_config app"
  shows "shares app app'"
  using assms by (auto simp: shares_def keeps_def pool_ok_inv)

lemma shared_confined:
  assumes "confined app app'" and "pool_ok app \<Longrightarrow> published app app'"
  shows "shares app app'"
  using assms by (auto simp: shares_def confined_def same_access_def Let_def)

lemma published_enqueue:
  "same_tables (apply_message m (ap_runtime app)) (f (ap_runtime app)) \<Longrightarrow> published app (enqueue m (on_runtime f app))"
  using published_enqueue_many [of "[m]" app f] by (simp add: enqueue_many_def)

subsection \<open>Selections, reports, logs\<close>

lemma resolve_shares: "shares app (snd (resolve_lease_outcome sha256 request now reuse_now app))"
proof (rule shared_confined [OF resolve_confined])
  assume "pool_ok app"
  then show "published app (snd (resolve_lease_outcome sha256 request now reuse_now app))"
    by (intro resolve.op_published) (simp_all add: pool_ok_def pool_inv_def)
qed

lemma log_shares:
  "re_id entry \<notin> re_id ` set (rt_request_logs (ap_runtime app)) \<Longrightarrow> shares app (record_request_log entry app)"
  by (rule shared_confined [OF request_log_confined]) (intro record_log.op_published pool_ok_inv)

lemma failover_shares:
  assumes "fresh_incident iid app"
  shows "shares app (snd (failover_account iid i severity cd rec now app))"
proof (rule shared_confined [OF failover_confined])
  assume ok: "pool_ok app"
  from ok show "published app (snd (failover_account iid i severity cd rec now app))"
  proof (cases rule: pool_account [where i = i])
    case (known s a)
    show ?thesis by (rule failover_ok(2) [OF pool_ok_pool_inv [OF ok] known(3) refl assms])
  qed (simp add: failover_account_def)
qed

lemma quota_shares:
  assumes "fresh_incident iid app"
  shows "shares app (snd (mark_account_quota_exhausted iid i reset_at message now app))"
proof (rule shared_confined [OF quota_confined])
  assume ok: "pool_ok app"
  from ok show "published app (snd (mark_account_quota_exhausted iid i reset_at message now app))"
  proof (cases rule: pool_account [where i = i])
    case (known s a)
    show ?thesis by (rule quota_ok(2) [OF pool_ok_pool_inv [OF ok] known(3) refl assms])
  qed (simp add: mark_account_quota_exhausted_def)
qed

lemma event_shares:
  assumes "fresh_incident iid app" and kind: "ev_kind event \<in> {''cf_hit'', ''success''}"
  shows "shares app (snd (record_route_event iid i event now app))"
proof (rule shared_confined [OF event_confined [OF kind]])
  assume ok: "pool_ok app"
  from ok show "published app (snd (record_route_event iid i event now app))"
  proof (cases rule: pool_account [where i = i])
    case (known s a)
    show ?thesis by (rule event_ok(2) [OF pool_ok_pool_inv [OF ok] known(3) kind refl assms(1)])
  qed (simp add: record_route_event_def)
qed

subsection \<open>Contexts and threads\<close>

lemma context_shares:
  "cc_principal_id ctx = p \<Longrightarrow> shares app (enqueue (ConversationContextUpsert ctx) (put_context p ctx app))"
  by (rule shared_confined)
    (simp_all add: put_context_confined, simp add: put_context_def published_enqueue handler_defs)

lemma begin_turn_shares: "shares app (begin_context_turn p model g summary items t1 t2 app)"
  by (simp add: begin_context_turn_def Let_def ensure_conversation_context_def context_shares)

lemma discard_turn_shares: "shares app (discard_pending_context_turn p now app)"
  by (rule sharesI)
    (auto simp: discard_pending_context_turn_def Let_def intro!: context_shares dest: context_principal split: option.splits)

lemma thread_shares:
  "th_thread_id thread = i \<Longrightarrow> shares app (enqueue (ConversationThreadUpsert thread) (put_thread thread i app))"
  by (rule shared_confined)
    (simp_all add: put_thread_confined, simp add: put_thread_def published_enqueue handler_defs)

lemma placeholder_shares: "shares app (ensure_parent_thread_placeholder tenant p model t1 t2 app)"
  by (simp add: ensure_parent_thread_placeholder_def Let_def thread_shares)

lemma edge_shares: "shares app (append_thread_edge e app)"
  by (rule shared_confined [OF edge_confined])
    (simp add: append_thread_edge_def published_enqueue handler_defs)

lemma record_shares:
  assumes "hm_get (rt_conversation_threads (ap_runtime app)) i = stored"
  shows "shares app (enqueue (ConversationThreadUpsert (thread_record tn i r p m ti s now stored))
    (put_thread (thread_record tn i r p m ti s now stored) i app))"
  by (rule sharesI) (use assms in \<open>auto intro!: thread_shares thread_record_id dest: thread_stored\<close>)

lemma upsert_thread_shares:
  "shares app (snd (upsert_conversation_thread_record tenant i p model title source clock app))"
proof -
  obtain now t1 t2 where clock: "clock = (now, t1, t2)" by (cases clock)
  define j where "j = normalize_thread_id i"
  define np where "np = (case p of Some p \<Rightarrow> Some (normalize_thread_id p)
    | None \<Rightarrow> Option.bind (hm_get (rt_conversation_threads (ap_runtime app)) j) th_parent_thread_id)"
  define app1 where "app1 = (case np of Some p \<Rightarrow> ensure_parent_thread_placeholder tenant p model t1 t2 app | None \<Rightarrow> app)"
  have "shares app app1" by (simp add: app1_def placeholder_shares split: option.split)
  note put = shares_trans [OF this record_shares]
  show ?thesis
    unfolding upsert_conversation_thread_record_def clock Let_def case_prod_conv j_def [symmetric] np_def [symmetric]
      app1_def [symmetric]
    by (auto simp: put split: option.split intro!: shares_trans [OF _ edge_shares])
qed

lemma start_thread_shares: "shares app (snd (start_conversation_thread request uuid clock app))"
  by (auto simp: start_conversation_thread_def Let_def case_prod_beta' upsert_thread_shares split: option.split)

lemma fork_thread_shares: "shares app (snd (fork_conversation_thread request uuid clock us app))"
proof -
  have "shares app (enqueue (ConversationContextUpsert ctx) (put_context p ctx
      (snd (upsert_conversation_thread_record tenant i q model title source clock app))))"
    if "cc_principal_id ctx = p" for p ctx tenant i q model title source clock
    by (rule shares_trans [OF upsert_thread_shares context_shares [OF that]])
  then show ?thesis
    by (auto simp: fork_conversation_thread_def Let_def case_prod_beta' upsert_thread_shares inherited_context_def
        split: option.split)
qed

subsection \<open>Tenants, keys, users\<close>

lemma put_tenant_shares: "shares app (put_tenant tenant app)"
  by (rule shared [OF put_tenant_keeps]) (simp_all add: put_tenant_def published_enqueue handler_defs)

lemma put_api_key_shares: "shares app (put_api_key api_key app)"
  by (rule shared [OF put_api_key_keeps]) (simp_all add: put_api_key_def published_enqueue handler_defs)

lemma create_tenant_shares: "shares app (snd (create_tenant request new_id now app))"
  by (simp add: create_tenant_def Let_def put_tenant_shares)

lemma create_api_key_shares: "shares app (snd (create_api_key request new_id simple t1 t2 app))"
  by (simp add: create_api_key_def Let_def put_api_key_shares)

lemma tenant_resolved_shares: "shares app (snd (resolve_openai_login_tenant requested new_id now app))"
  by (auto simp: resolve_openai_login_tenant_def ensure_default_tenant_def Let_def put_tenant_shares split: option.split)

lemma create_user_shares: "shares app (left_behind (create_gateway_user request default_id t0 new_id simple now app))"
  using create_user_effect [of request default_id t0 new_id simple now app]
    shares_trans [OF tenant_resolved_shares put_api_key_shares] tenant_resolved_shares by auto

lemma update_user_shares: "shares app (left_behind (update_gateway_user user_id request now app))"
proof (rule sharesI)
  assume "pool_ok app"
  from update_user_effect [OF pool_ok_inv [OF this], of user_id request now]
  show "shares app (left_behind (update_gateway_user user_id request now app))"
    by (auto simp: put_api_key_shares)
qed

subsection \<open>Accounts\<close>

lemma import_shares: "shares app (snd (import_account request simple t1 t2 app))"
proof (rule shared [OF import_keeps])
  let ?credential = "map_option (\<lambda>c. c\<lparr>cr_account_id := ''acc_'' @ simple\<rparr>) (build_credential_template request t1)"
  let ?ms = "[AccountUpsert (imported_account request simple t2)]
    @ (case ?credential of None \<Rightarrow> [] | Some c \<Rightarrow> [CredentialUpsert c]) @ [RouteStateUpsert (fresh_route_state (''acc_'' @ simple))]"
  show "published app (snd (import_account request simple t1 t2 app))"
    by (rule publishedI [where ms = ?ms])
      (auto simp: import_account_def Let_def handler_defs same_tables_def option.map_comp o_def split: option.split)
qed (simp add: import_account_def Let_def split: option.split)

lemma delete_shares: "shares app (snd (delete_account i app))"
proof (rule sharesI)
  assume ok: "pool_ok app"
  note eq = delete_account_eq [OF pool_ok_inv [OF ok]]
  show "shares app (snd (delete_account i app))"
    by (rule shared [OF delete_keeps])
      (simp_all add: delete.op_published, simp add: eq)
qed

lemma cleanup_shares: "shares app (snd (cleanup_banned_accounts now app))"
proof -
  have "shares app (snd (delete_accounts ids app))" for ids
  proof (induction ids arbitrary: app)
    case (Cons i ids)
    obtain r mid where r: "delete_account i app = (r, mid)" by fastforce
    have "shares app mid" using delete_shares [of app i] r by simp
    with Cons.IH [of mid] show ?case by (auto simp: r split: sum.split intro: shares_trans)
  qed simp
  then show ?thesis
    by (auto simp: cleanup_banned_accounts_def Let_def split: sum.split prod.split) (metis snd_conv)+
qed

lemma stored_models_messages:
  assumes "hm_keyed ac_id accounts"
  shows "apply_messages (map AccountUpsert (fst (store_models updates accounts))) (rt\<lparr>rt_accounts := accounts\<rparr>)
    = rt\<lparr>rt_accounts := snd (store_models updates accounts)\<rparr>"
  using assms
proof (induction updates arbitrary: accounts)
  case (Cons u updates)
  obtain i models where u: "u = (i, models)" by (cases u)
  show ?case
  proof (cases "hm_get accounts i")
    case None
    with Cons show ?thesis by (simp add: u)
  next
    case (Some account)
    have "ac_id account = i" by (rule hm_keyedD [OF Cons.prems Some])
    with Some Cons.IH [of "hm_insert i (account\<lparr>ac_models := models\<rparr>) accounts"] Cons.prems show ?thesis
      by (simp add: u Let_def upsert_account_def hm_keyed_insert)
  qed
qed simp

lemma models_refresh_shares: "shares app (snd (refresh_account_models list_models id now app))"
proof (rule shared)
  show "keeps app (snd (refresh_account_models list_models id now app))" by (rule models_refresh_keeps) simp
  show "published app (snd (refresh_account_models list_models id now app))" if "rt_inv (ap_runtime app)"
    using stored_models_messages [OF rt_invD(3) [OF that], of _ "ap_runtime app"]
    by (auto simp: refresh_account_models_def Let_def case_prod_beta' intro: published_enqueue_many)
qed (simp add: refresh_account_models_def Let_def case_prod_beta')

subsection \<open>Compactions and recorded turns\<close>

text \<open>A compaction that returns; one that panics has changed the context and sent nothing.\<close>

lemma compact_context_shares:
  assumes "hm_get (rt_conversation_threads (ap_runtime app)) (th_thread_id thread) = Some current"
    and returns: "compact_thread_context thread n t1 t2 t3 t4 app = Returns app'"
  shows "shares app app'"
proof (rule shared_confined)
  show "confined app app'" using compact_confined [of app thread n t1 t2 t3 t4] returns by simp
  assume ok: "pool_ok app"
  show "published app app'"
  proof (cases "context_of app (th_principal_id thread)")
    case None
    then show ?thesis using returns by (simp add: compact_thread_context_def)
  next
    case (Some ctx)
    have ids: "cc_principal_id ctx = th_principal_id thread" "th_thread_id current = th_thread_id thread"
      using ok Some assms(1) by (auto dest: context_principal thread_stored)
    show ?thesis
    proof (cases "max n 2 < length (cc_turns ctx)")
      case False
      then have "length (cc_turns ctx) \<le> max n 2" by linarith
      then show ?thesis using returns Some by (simp add: compact_thread_context_def Let_def)
    next
      case len: True
      then obtain merged where merged: "merged_summary thread (archived_turns n ctx) = Some merged"
        using compact_panics [OF Some len] returns by fastforce
      show ?thesis
        using returns compact_returns [OF Some len merged assms(1) refl refl, of t1 t2 t3 t4]
        by (auto intro!: publishedI simp: put_context_def handler_defs compacted_context_def ids)
    qed
  qed
qed

lemma compact_shares:
  assumes "compact_conversation_thread request ts app = Returns (r, app')"
  shows "shares app app'"
proof (rule sharesI)
  assume ok: "pool_ok app"
  obtain t1 t2 t3 t4 where ts: "ts = (t1, t2, t3, t4)" by (cases ts)
  define j where "j = normalize_thread_id (cp_thread_id request)"
  have compacted: "shares app app'" if "hm_get (rt_conversation_threads (ap_runtime app)) j = Some thread"
      "compact_thread_context thread n t1 t2 t3 t4 app = Returns app'" for thread n
    using compact_context_shares [OF _ that(2)] thread_stored [OF ok that(1)] that(1) by simp
  show ?thesis
    using assms
    by (auto simp: compact_conversation_thread_def Let_def ts j_def [symmetric] split: option.splits outcome.splits
        intro: compacted)
qed

lemma thread_of_principal:
  assumes "pool_ok app" and "thread_for_principal_id app p = Some thread"
  shows "hm_get (rt_conversation_threads (ap_runtime app)) (th_thread_id thread) = Some thread"
  using assms rt_invD(8) [OF pool_ok_inv [OF assms(1)]]
  by (auto simp: thread_for_principal_id_def hm_keyed_get dest!: find_SomeD)

lemma record_turn_shares:
  assumes "record_context_output_with_response p summary rid items t1 t2 ts app = Returns app'"
  shows "shares app app'"
proof (rule sharesI)
  assume ok: "pool_ok app"
  obtain u1 u2 u3 u4 where ts: "ts = (u1, u2, u3, u4)" by (cases ts)
  show ?thesis
  proof (cases "\<exists>ctx pending. context_of app p = Some ctx \<and> cc_pending_turn ctx = Some pending")
    case False
    then show ?thesis using assms by (auto simp: record_context_output_with_response_def split: option.splits)
  next
    case True
    then obtain ctx pending where ctx: "context_of app p = Some ctx" "cc_pending_turn ctx = Some pending" by blast
    define c' where "c' = ctx\<lparr>cc_pending_turn := None, cc_turns := cc_turns ctx
      @ [recorded_turn pending summary rid items t1], cc_updated_at := Some t2\<rparr>"
    define mid where "mid = enqueue (ConversationContextUpsert c') (put_context p c' app)"
    have mid: "shares app mid" unfolding mid_def
      by (rule context_shares) (simp add: c'_def context_principal [OF ok ctx(1)])
    then have "pool_ok mid" using ok by (simp add: shares_def)
    have compacted: "shares app app'"
      if "thread_for_principal_id mid p = Some thread" "compact_thread_context thread 4 u1 u2 u3 u4 mid = Returns app'" for thread
      by (rule shares_trans [OF mid compact_context_shares [OF thread_of_principal [OF \<open>pool_ok mid\<close> that(1)] that(2)]])
    show ?thesis
      using assms mid
      unfolding record_context_output_with_response_def ctx option.case Let_def ts c'_def [symmetric] mid_def [symmetric]
      by (auto split: if_splits option.splits intro: compacted)
  qed
qed

text \<open>All that a successful request records.\<close>

lemma record_turn_logs:
  assumes "record_context_output_with_response p summary rid items t1 t2 ts app = Returns app'"
  shows "rt_request_logs (ap_runtime app') = rt_request_logs (ap_runtime app)"
proof -
  have compacted: "rt_request_logs (ap_runtime app') = rt_request_logs (ap_runtime app)"
    if "compact_thread_context thread n u1 u2 u3 u4 app = Returns app'" for thread n u1 u2 u3 u4 app
    using that by (auto simp: compact_thread_context_def Let_def put_context_def split: option.splits if_splits)
  show ?thesis
    using assms
    by (auto simp: record_context_output_with_response_def Let_def put_context_def dest!: compacted
        split: option.splits if_splits prod.splits)
qed

lemma event_logs:
  assumes ok: "pool_ok app" and kind: "ev_kind event \<in> {''cf_hit'', ''success''}"
  shows "rt_request_logs (ap_runtime (snd (record_route_event iid i event now app))) = rt_request_logs (ap_runtime app)"
  using ok
proof (cases rule: pool_account [where i = i])
  case (known s a)
  obtain severity rec fo where "route_event_transition event s now =
     (fst (route_event_transition event s now), Some (severity, rec, fo))"
    using transition_known [OF kind] by blast
  from conjunct2 [OF event_rerouted [OF pool_ok_inv [OF ok] known(1,2) this]] show ?thesis
    by (simp add: rerouted_def routed_def)
qed (simp add: record_route_event_def)

lemma success_shares:
  assumes "record_success rd seed lease p summary rid items status usage model app = Returns app'"
    and fresh: "fresh_incident (rd_incident rd) app" "''log_'' @ rd_log_id rd \<notin> re_id ` set (rt_request_logs (ap_runtime app))"
  shows "shares app app'"
proof (rule sharesI)
  assume ok: "pool_ok app"
  define app1 where "app1 = snd (record_route_event (rd_incident rd) (ls_account_id lease)
      \<lparr>ev_mode = ls_route_mode lease, ev_kind = ''success''\<rparr> (rd_now rd) app)"
  have app1: "shares app app1" unfolding app1_def by (rule event_shares [OF fresh(1)]) simp
  obtain app2 where app2: "record_context_output_with_response p summary rid items (fst (rd_turn rd)) (snd (rd_turn rd))
      (rd_compaction rd) app1 = Returns app2"
    and app': "app' = record_request_log (build_request_log_entry (rd_log_id rd) (rd_log_at rd) seed lease status usage model) app2"
    using assms(1) by (auto simp: record_success_def Let_def app1_def split: outcome.splits)
  have logs: "rt_request_logs (ap_runtime app2) = rt_request_logs (ap_runtime app)"
    using record_turn_logs [OF app2] event_logs [OF ok] by (simp add: app1_def)
  have "shares app2 app'" unfolding app'
    by (rule log_shares) (use fresh(2) logs in \<open>simp add: build_request_log_entry_def Let_def\<close>)
  then show "shares app app'" by (rule shares_trans [OF shares_trans [OF app1 record_turn_shares [OF app2]]])
qed

subsection \<open>The operations that reach the peers\<close>

text \<open>A refresh waits for the provider, while other operations that publish are done.\<close>

lemma credential_update:
  assumes "pool_ok app" and "update_credential i f app = Some (c, app')" and "\<And>c. cr_account_id (f c) = cr_account_id c"
  shows "cr_account_id c = i" "app' = on_runtime (\<lambda>rt. rt\<lparr>rt_credentials := hm_insert i c (rt_credentials rt)\<rparr>) app"
proof -
  obtain stored where stored: "hm_get (rt_credentials (ap_runtime app)) i = Some stored" "c = f stored"
    and app': "app' = on_runtime (\<lambda>rt. rt\<lparr>rt_credentials := hm_insert i c (rt_credentials rt)\<rparr>) app"
    using assms(2) by (auto simp: update_credential_def)
  show "cr_account_id c = i"
    using hm_keyedD [OF rt_invD(4) [OF pool_ok_inv [OF assms(1)]] stored(1)] assms(3) stored(2) by simp
  show "app' = on_runtime (\<lambda>rt. rt\<lparr>rt_credentials := hm_insert i c (rt_credentials rt)\<rparr>) app" by (fact app')
qed

lemma changed_shares:
  assumes u: "update_credential i f app = Some (c, app')" and same: "\<And>c. cr_account_id (f c) = cr_account_id c"
  shows "shares app (enqueue (CredentialUpsert c) app')"
proof (rule sharesI)
  assume ok: "pool_ok app"
  note c = credential_update [OF ok u same]
  have "published app (enqueue (CredentialUpsert c) app')"
    unfolding c(2) by (rule published_enqueue) (simp add: handler_defs c(1))
  moreover have "keeps app (enqueue (CredentialUpsert c) app')" using update_keeps [OF u same] by simp
  ultimately show "shares app (enqueue (CredentialUpsert c) app')" by (simp add: shares_def keeps_def c(2))
qed

lemma limited_shares:
  assumes u: "update_credential i f app = Some (c, app')" and same: "\<And>c. cr_account_id (f c) = cr_account_id c"
  shows "shares app (enqueue (CredentialUpsert c) (apply_managed_rate_limits_to_account i m app'))"
proof (rule sharesI)
  let ?app = "enqueue (CredentialUpsert c) (apply_managed_rate_limits_to_account i m app')"
  assume ok: "pool_ok app"
  note c = credential_update [OF ok u same]
  have keyed: "ac_id a = i" if "hm_get (rt_accounts (ap_runtime app)) i = Some a" for a
    using hm_keyedD [OF rt_invD(3) [OF pool_ok_inv [OF ok]] that] .
  have many: "published app (enqueue (CredentialUpsert c) (enqueue (AccountUpsert a)
      (on_runtime (\<lambda>rt. rt\<lparr>rt_accounts := hm_insert i a (rt_accounts rt)\<rparr>) app')))" if "ac_id a = i" for a
    using published_enqueue_many [of "[AccountUpsert a, CredentialUpsert c]" app
      "\<lambda>rt. rt\<lparr>rt_credentials := hm_insert i c (rt_credentials rt), rt_accounts := hm_insert i a (rt_accounts rt)\<rparr>"] that c(1)
    by (simp add: c(2) enqueue_many_def handler_defs enqueue_def on_runtime_def same_tables_def option.map_comp comp_def)
  have alone: "published app (enqueue (CredentialUpsert c) app')"
    unfolding c(2) by (rule published_enqueue) (simp add: handler_defs c(1))
  have "published app ?app \<and> ap_config ?app = ap_config app"
    using many alone
    by (auto simp: apply_managed_rate_limits_to_account_def Let_def c(2) dest: keyed split: option.split prod.split)
  moreover have "keeps app ?app" using keeps_trans [OF update_keeps [OF u same] limits_keep] by simp
  ultimately show "shares app ?app" by (simp add: shares_def keeps_def)
qed

lemma aside_shares:
  assumes "keeps app (on_runtime f app)" and "same_tables (ap_runtime app) (f (ap_runtime app))"
  shows "shares app (on_runtime f app)"
  using assms by (auto simp: shares_def keeps_def published_def sent_def option.map_ident)

interpretation shared_refresh: account_step "\<lambda>_. shares"
proof
  fix i app t
  show "shares app (remember_token i t app)"
    using pool.token [of app i t] unfolding remember_token_def by (rule aside_shares) (simp add: same_tables_def)
qed (auto intro: shares_trans changed_shares limited_shares)

interpretation shared_login: login_step shares
proof unfold_locales
  fix app state f
  show "shares app (update_login state f app)"
    using pool_login.noted [of app state f]
    by (auto simp: update_login_def intro!: aside_shares simp: same_tables_def split: option.splits)
qed (rule import_shares)

text \<open>Identifiers of incidents and logs are fresh, as those the code generates are.\<close>

inductive shared_step :: "app_state \<Rightarrow> app_state \<Rightarrow> bool" where
  lease_resolved: "shared_step app (snd (resolve_lease_outcome sha256 request now reuse_now app))"
| request_logged: "re_id entry \<notin> re_id ` set (rt_request_logs (ap_runtime app)) \<Longrightarrow>
    shared_step app (record_request_log entry app)"
| account_failed_over: "fresh_incident iid app \<Longrightarrow>
    shared_step app (snd (failover_account iid i severity cooldown recover now app))"
| quota_marked: "fresh_incident iid app \<Longrightarrow>
    shared_step app (snd (mark_account_quota_exhausted iid i reset_at message now app))"
| event_recorded: "fresh_incident iid app \<Longrightarrow> ev_kind event \<in> {''cf_hit'', ''success''} \<Longrightarrow>
    shared_step app (snd (record_route_event iid i event now app))"
| turn_begun: "shared_step app (begin_context_turn p model g summary items t1 t2 app)"
| turn_discarded: "shared_step app (discard_pending_context_turn p now app)"
| turn_recorded: "record_context_output_with_response p summary rid items t1 t2 ts app = Returns app' \<Longrightarrow> shared_step app app'"
| success_recorded: "record_success rd seed lease p summary rid items status usage model app = Returns app' \<Longrightarrow>
    fresh_incident (rd_incident rd) app \<Longrightarrow>
    ''log_'' @ rd_log_id rd \<notin> re_id ` set (rt_request_logs (ap_runtime app)) \<Longrightarrow> shared_step app app'"
| thread_started: "shared_step app (snd (start_conversation_thread start_request uuid clock app))"
| thread_forked: "shared_step app (snd (fork_conversation_thread fork_request uuid clock us app))"
| thread_compacted: "compact_conversation_thread compact_request ts app = Returns (r, app') \<Longrightarrow> shared_step app app'"
| tenant_created: "shared_step app (snd (create_tenant tenant_request new_id now app))"
| key_created: "shared_step app (snd (create_api_key key_request new_id simple t1 t2 app))"
| user_created: "shared_step app (left_behind (create_gateway_user user_request default_id t0 new_id simple now app))"
| user_updated: "shared_step app (left_behind (update_gateway_user user_id update_request now app))"
| account_imported: "shared_step app (snd (import_account import_request simple t1 t2 app))"
| models_refreshed: "shared_step app (snd (refresh_account_models list_models id now app))"
| account_refreshed: "(\<And>a. shared_step\<^sup>*\<^sup>* a (pv_during p a)) \<Longrightarrow>
    shared_step app (snd (refresh_managed_account p force clock i app))"
| login_completed: "(\<And>a. shared_step\<^sup>*\<^sup>* a (pv_during p a)) \<Longrightarrow>
    shared_step app (snd (complete_openai_login p login_request simple clock app))"
| account_deleted: "shared_step app (snd (delete_account i app))"
| banned_cleaned_up: "shared_step app (snd (cleanup_banned_accounts now app))"

lemmas op_shares = resolve_shares log_shares failover_shares quota_shares event_shares begin_turn_shares discard_turn_shares
  record_turn_shares success_shares start_thread_shares fork_thread_shares compact_shares create_tenant_shares
  create_api_key_shares create_user_shares update_user_shares import_shares models_refresh_shares delete_shares cleanup_shares

lemma meanwhile_shares: "(\<lambda>a b. S a b \<and> shares a b)\<^sup>*\<^sup>* a b \<Longrightarrow> shares a b"
  by (induction rule: rtranclp_induct) (auto intro: shares_trans)

lemma step_shares: "shared_step app app' \<Longrightarrow> shares app app'"
proof (induction rule: shared_step.induct)
  case (account_refreshed p)
  then show ?case by (intro shared_refresh.refreshed meanwhile_shares)
next
  case (login_completed p)
  then show ?case by (intro shared_login.completed meanwhile_shares)
qed (blast intro: op_shares)+

lemma steps_share: "shared_step\<^sup>*\<^sup>* app app' \<Longrightarrow> shares app app'"
  by (induction rule: rtranclp_induct) (auto intro: shares_trans step_shares)

end
