(* ===== verification/Cluster.thy ===== *)
theory Cluster
  imports Sharing Bus_Link
begin

text \<open>
  Several instances on one channel: each works on its own tables, its publisher takes the messages it
  sent in order, Redis appends a publication to what every subscriber has yet to read, and a subscriber
  applies the next one. An instance that only reads follows the one that works; two that work on the
  same entries may end with each other's state.
\<close>

subsection \<open>Instances on a channel\<close>

text \<open>Instances are numbered; \<open>cl_taken\<close> counts what a publisher has taken of the messages sent.\<close>

record 'p cluster =
  cl_node :: "nat \<Rightarrow> app_state"
  cl_taken :: "nat \<Rightarrow> nat"
  cl_inbox :: "nat \<Rightarrow> 'p list"

inductive cluster_step :: "'p wire \<Rightarrow> nat set \<Rightarrow> nat \<Rightarrow> 'p cluster \<Rightarrow> 'p cluster \<Rightarrow> bool" for wire works n where
  work: "i < n \<Longrightarrow> i \<in> works \<Longrightarrow> shared_step (cl_node c i) app' \<Longrightarrow>
    cluster_step wire works n c (c\<lparr>cl_node := (cl_node c)(i := app')\<rparr>)"
| publish: "i < n \<Longrightarrow> ap_bus_tx (cl_node c i) = Some ms \<Longrightarrow> cl_taken c i < length ms \<Longrightarrow>
    cluster_step wire works n c (c\<lparr>cl_taken := (cl_taken c)(i := Suc (cl_taken c i)),
      cl_inbox := \<lambda>j. cl_inbox c j @ publish_one wire (ap_config (cl_node c i)) (ms ! cl_taken c i)\<rparr>)"
| subscribe: "j < n \<Longrightarrow> cl_inbox c j = payload # rest \<Longrightarrow>
    cluster_step wire works n c (c\<lparr>cl_inbox := (cl_inbox c)(j := rest),
      cl_node := (cl_node c)(j := on_runtime (deliver wire (ap_config (cl_node c j)) (Inr payload)) (cl_node c j))\<rparr>)"

text \<open>All messages have been published and applied.\<close>

definition quiet :: "nat \<Rightarrow> 'p cluster \<Rightarrow> bool" where
  "quiet n c \<longleftrightarrow> (\<forall>i < n. cl_inbox c i = [] \<and> map_option length (ap_bus_tx (cl_node c i)) = Some (cl_taken c i))"

definition agree :: "nat \<Rightarrow> nat \<Rightarrow> 'p cluster \<Rightarrow> bool" where
  "agree n w c \<longleftrightarrow> (\<forall>j < n. same_tables (ap_runtime (cl_node c j)) (ap_runtime (cl_node c w)))"

text \<open>Instances with ids of their own that agree, the state of the instance \<open>w\<close> being consistent.\<close>

definition in_step :: "nat \<Rightarrow> nat \<Rightarrow> 'p cluster \<Rightarrow> bool" where
  "in_step n w c \<longleftrightarrow> w < n \<and> quiet n c \<and> agree n w c \<and> pool_ok (cl_node c w)
     \<and> (\<forall>j < n. rt_inv (ap_runtime (cl_node c j)))
     \<and> (\<forall>j < n. j \<noteq> w \<longrightarrow> cf_instance_id (ap_config (cl_node c j)) \<noteq> cf_instance_id (ap_config (cl_node c w)))"

definition sent_by :: "nat \<Rightarrow> 'p cluster \<Rightarrow> persistence_message list" where
  "sent_by w c = the (ap_bus_tx (cl_node c w))"

subsection \<open>One instance works\<close>

text \<open>What the tables of \<open>j\<close> will be when all that \<open>w\<close> has sent has reached them.\<close>

definition prospect :: "'p wire \<Rightarrow> nat \<Rightarrow> 'p cluster \<Rightarrow> nat \<Rightarrow> runtime_state" where
  "prospect wire w c j = apply_messages (drop (cl_taken c w) (sent_by w c))
     (subscriber wire (ap_config (cl_node c j)) (map Inr (cl_inbox c j)) (ap_runtime (cl_node c j)))"

definition following :: "'p wire \<Rightarrow> nat \<Rightarrow> nat \<Rightarrow> 'p cluster \<Rightarrow> bool" where
  "following wire n w c \<longleftrightarrow> w < n \<and> pool_ok (cl_node c w)
     \<and> (\<exists>ms. ap_bus_tx (cl_node c w) = Some ms \<and> cl_taken c w \<le> length ms)
     \<and> (\<forall>j < n. rt_inv (ap_runtime (cl_node c j)))
     \<and> (\<forall>j < n. j \<noteq> w \<longrightarrow> cf_instance_id (ap_config (cl_node c j)) \<noteq> cf_instance_id (ap_config (cl_node c w))
          \<and> map_option length (ap_bus_tx (cl_node c j)) = Some (cl_taken c j)
          \<and> same_tables (prospect wire w c j) (ap_runtime (cl_node c w)))
     \<and> (\<forall>p \<in> set (cl_inbox c w). deliver wire (ap_config (cl_node c w)) (Inr p) = id)"

lemma in_step_following: "in_step n w c \<Longrightarrow> following wire n w c"
  by (auto simp: in_step_def following_def quiet_def agree_def prospect_def sent_by_def)

lemma following_settled: "following wire n w c \<Longrightarrow> quiet n c \<Longrightarrow> agree n w c"
  unfolding agree_def
proof (intro allI impI)
  fix j
  assume f: "following wire n w c" "quiet n c" and j: "j < n"
  show "same_tables (ap_runtime (cl_node c j)) (ap_runtime (cl_node c w))"
  proof (cases "j = w")
    case False
    have "cl_inbox c j = []" and "drop (cl_taken c w) (sent_by w c) = []"
      using f j by (auto simp: quiet_def following_def sent_by_def)
    with f(1) j False show ?thesis by (auto simp: following_def prospect_def)
  qed simp
qed

lemma prospect_inv: "rt_inv (ap_runtime (cl_node c j)) \<Longrightarrow> rt_inv (prospect wire w c j)"
  by (simp add: prospect_def rt_inv_apply_messages subscriber_inv)

lemma work_following:
  assumes f: "following wire n w c" and step: "shared_step (cl_node c w) app'"
    and c': "c' = c\<lparr>cl_node := (cl_node c)(w := app')\<rparr>"
  shows "following wire n w c'" and "set (sent_by w c) \<subseteq> set (sent_by w c')"
proof -
  obtain ms where ms: "ap_bus_tx (cl_node c w) = Some ms" "cl_taken c w \<le> length ms" and ok: "pool_ok (cl_node c w)"
    using f by (auto simp: following_def)
  have s: "pool_ok app'" "published (cl_node c w) app'" "ap_config app' = ap_config (cl_node c w)"
    using step_shares [OF step] ok by (simp_all add: shares_def)
  let ?new = "sent (cl_node c w) app'"
  have bus: "ap_bus_tx app' = Some (ms @ ?new)" using s(2) ms by (simp add: published_def)
  then show "set (sent_by w c) \<subseteq> set (sent_by w c')" by (simp add: sent_by_def ms c')
  have "same_tables (prospect wire w c' j) (ap_runtime app')" if j: "j < n" "j \<noteq> w" for j
  proof -
    have "prospect wire w c' j = apply_messages ?new (prospect wire w c j)"
      using j ms bus by (simp add: prospect_def sent_by_def c')
    also have "same_tables \<dots> (apply_messages ?new (ap_runtime (cl_node c w)))"
      using f j ok by (intro same_tables_messages prospect_inv) (auto simp: following_def pool_ok_inv)
    also have "same_tables \<dots> (ap_runtime app')" using s(2) by (simp add: published_def)
    finally show ?thesis .
  qed
  with f s bus ms show "following wire n w c'" by (auto simp: following_def pool_ok_inv c')
qed

lemma publish_following:
  assumes f: "following wire n w c" and i: "i < n" "ap_bus_tx (cl_node c i) = Some ms" "cl_taken c i < length ms"
    and wire: "\<forall>m \<in> set (sent_by w c). carries wire m"
    and c': "c' = c\<lparr>cl_taken := (cl_taken c)(i := Suc (cl_taken c i)),
      cl_inbox := \<lambda>j. cl_inbox c j @ publish_one wire (ap_config (cl_node c i)) (ms ! cl_taken c i)\<rparr>"
  shows "following wire n w c'" and "cl_node c' = cl_node c"
proof -
  have w: "i = w" using f i by (auto simp: following_def)
  let ?m = "ms ! cl_taken c w"
  have "carries wire ?m" using wire i w by (simp add: sent_by_def)
  then obtain p where p: "publish_one wire (ap_config (cl_node c w)) ?m = [p]"
    "\<And>peer rt. deliver wire peer (Inr p) rt =
      (if cf_instance_id (ap_config (cl_node c w)) = cf_instance_id peer then rt else apply_message ?m rt)"
    using carried [of wire ?m "ap_config (cl_node c w)"] by metis
  have "drop (cl_taken c w) ms = ?m # drop (Suc (cl_taken c w)) ms" using i w by (simp add: Cons_nth_drop_Suc)
  then have "prospect wire w c' j = prospect wire w c j" if "j < n" "j \<noteq> w" for j
    using that f i w p by (auto simp: prospect_def sent_by_def following_def c')
  moreover have "deliver wire (ap_config (cl_node c w)) (Inr p) = id" using p(2) by (simp add: fun_eq_iff)
  ultimately show "following wire n w c'" using f i w p(1) by (auto simp: following_def c')
qed (simp add: c')

lemma subscribe_following:
  assumes f: "following wire n w c" and j: "j < n" "cl_inbox c j = payload # rest"
    and c': "c' = c\<lparr>cl_inbox := (cl_inbox c)(j := rest),
      cl_node := (cl_node c)(j := on_runtime (deliver wire (ap_config (cl_node c j)) (Inr payload)) (cl_node c j))\<rparr>"
  shows "following wire n w c'" and "cl_node c' w = cl_node c w"
proof -
  have read: "deliver wire (ap_config (cl_node c w)) (Inr payload) = id" if "j = w"
    using f j that by (simp add: following_def)
  then have own: "on_runtime (deliver wire (ap_config (cl_node c j)) (Inr payload)) (cl_node c j) = cl_node c j" if "j = w"
    using that by (simp add: on_runtime_def)
  then show w: "cl_node c' w = cl_node c w" by (auto simp: c')
  have "prospect wire w c' k = prospect wire w c k" for k
    using j own read by (cases "j = w") (auto simp: prospect_def sent_by_def c')
  then show "following wire n w c'"
    using f w j by (auto simp: following_def deliver_inv c' split: if_splits)
qed

text \<open>Any number of steps.\<close>

lemma step_following:
  assumes "cluster_step wire {w} n c c'" and "following wire n w c" and "\<forall>m \<in> set (sent_by w c'). carries wire m"
  shows "following wire n w c' \<and> set (sent_by w c) \<subseteq> set (sent_by w c')"
  using assms(1)
proof cases
  case (work i app')
  then have i: "i = w" by simp
  show ?thesis using work_following [OF assms(2) work(4) [unfolded i]] work(1) i by simp
next
  case (publish i ms)
  then have same: "sent_by w c' = sent_by w c" by (simp add: sent_by_def)
  show ?thesis using publish_following [OF assms(2) publish(2-4) _ publish(1)] assms(3) same by simp
next
  case (subscribe j payload rest)
  note sub = subscribe_following [OF assms(2) subscribe(2,3,1)]
  then show ?thesis by (simp add: sent_by_def)
qed

text \<open>The steps of a run in which only \<open>w\<close> works and the wire carries what it has sent.\<close>

definition lossless_step :: "'p wire \<Rightarrow> nat \<Rightarrow> nat \<Rightarrow> 'p cluster \<Rightarrow> 'p cluster \<Rightarrow> bool" where
  "lossless_step wire n w c c' \<longleftrightarrow> cluster_step wire {w} n c c' \<and> (\<forall>m \<in> set (sent_by w c'). carries wire m)"

lemma steps_following:
  "(lossless_step wire n w)\<^sup>*\<^sup>* c c' \<Longrightarrow> following wire n w c \<Longrightarrow> following wire n w c'"
  by (induction rule: rtranclp_induct) (auto simp: lossless_step_def dest: step_following)

subsection \<open>The rest of the way\<close>

text \<open>Publications and deliveries that are left; each takes one off, a publication adds one per instance.\<close>

definition left_to_do :: "nat \<Rightarrow> nat \<Rightarrow> 'p cluster \<Rightarrow> nat" where
  "left_to_do n w c = Suc n * (length (sent_by w c) - cl_taken c w) + (\<Sum>j < n. length (cl_inbox c j))"

lemma next_step:
  assumes f: "following wire n w c" and "\<not> quiet n c" and wire: "\<forall>m \<in> set (sent_by w c). carries wire m"
  shows "\<exists>c'. cluster_step wire {} n c c' \<and> following wire n w c' \<and> cl_node c' w = cl_node c w
    \<and> left_to_do n w c' < left_to_do n w c"
proof (cases "\<exists>j < n. cl_inbox c j \<noteq> []")
  case True
  then obtain j payload rest where j: "j < n" "cl_inbox c j = payload # rest" by (auto simp: neq_Nil_conv)
  define c' where "c' = c\<lparr>cl_inbox := (cl_inbox c)(j := rest),
      cl_node := (cl_node c)(j := on_runtime (deliver wire (ap_config (cl_node c j)) (Inr payload)) (cl_node c j))\<rparr>"
  note sub = subscribe_following [OF f j c'_def]
  have "(\<Sum>k < n. length (cl_inbox c' k)) < (\<Sum>k < n. length (cl_inbox c k))"
    by (rule sum_strict_mono_ex1) (use j in \<open>auto simp: c'_def\<close>)
  moreover have "cl_taken c' = cl_taken c" by (simp add: c'_def)
  ultimately have "left_to_do n w c' < left_to_do n w c" using sub(2) by (simp add: left_to_do_def sent_by_def)
  with sub cluster_step.subscribe [OF j, of wire "{}"] show ?thesis unfolding c'_def [symmetric] by blast
next
  case False
  then have empty: "\<And>j. j < n \<Longrightarrow> cl_inbox c j = []" by blast
  obtain ms where ms: "ap_bus_tx (cl_node c w) = Some ms" "cl_taken c w \<le> length ms" and w: "w < n"
    using f by (auto simp: following_def)
  have "cl_taken c w \<noteq> length ms"
    using assms(2) empty ms f by (auto simp: quiet_def following_def)
  with ms(2) have less: "cl_taken c w < length ms" by simp
  define c' where "c' = c\<lparr>cl_taken := (cl_taken c)(w := Suc (cl_taken c w)),
      cl_inbox := \<lambda>j. cl_inbox c j @ publish_one wire (ap_config (cl_node c w)) (ms ! cl_taken c w)\<rparr>"
  note pub = publish_following [OF f w ms(1) less wire c'_def]
  have "length (publish_one wire (ap_config (cl_node c w)) m) \<le> 1" for m
    by (simp add: publish_one_def split: sum.split)
  then have "(\<Sum>j < n. length (cl_inbox c' j)) \<le> (\<Sum>j < n. 1)" by (intro sum_mono) (simp add: c'_def empty)
  moreover have "length ms - cl_taken c w = Suc (length ms - cl_taken c' w)" using less by (simp add: c'_def)
  ultimately have "left_to_do n w c' < left_to_do n w c"
    using pub(2) ms(1) by (simp add: left_to_do_def sent_by_def)
  with pub cluster_step.publish [OF w ms(1) less, of wire "{}"] show ?thesis
    unfolding c'_def [symmetric] by auto
qed

lemma settles:
  assumes "following wire n w c" and "\<forall>m \<in> set (sent_by w c). carries wire m"
  shows "\<exists>c'. (cluster_step wire {} n)\<^sup>*\<^sup>* c c' \<and> following wire n w c' \<and> quiet n c' \<and> cl_node c' w = cl_node c w"
  using assms
proof (induction "left_to_do n w c" arbitrary: c rule: less_induct)
  case less
  show ?case
  proof (cases "quiet n c")
    case True
    with less.prems show ?thesis by blast
  next
    case False
    from next_step [OF less.prems(1) False less.prems(2)] obtain c1 where c1: "cluster_step wire {} n c c1"
      "following wire n w c1" "cl_node c1 w = cl_node c w" "left_to_do n w c1 < left_to_do n w c" by blast
    moreover from this have "\<forall>m \<in> set (sent_by w c1). carries wire m" using less.prems(2) by (simp add: sent_by_def)
    ultimately show ?thesis
      using less.hyps [of c1] converse_rtranclp_into_rtranclp [of "cluster_step wire {} n" c c1] by fastforce
  qed
qed

text \<open>C11 (peers_follow).
  Instances with ids of their own, that agree and have nothing left to publish or apply, one of which
  works on while the others only read what it publishes: when all its messages have been published and
  applied they agree again, and left to themselves they get there. To work is to do operations of
  \<open>shared_step\<close>: selections, logs, failovers, quota marks, route events of a known kind with a fresh
  incident id, turns, threads, tenants, keys, users, imports, refreshes of models and of accounts, logins,
  deletions and cleanups. A route event of an unknown kind (\<open>unknown_event_diverges\<close>) and a compaction
  that panics are not among them. The wire is assumed to carry what the instance sends (\<open>carries\<close>).\<close>

theorem peers_follow:
  assumes "in_step n w c" and "(lossless_step wire n w)\<^sup>*\<^sup>* c c'" and "\<forall>m \<in> set (sent_by w c'). carries wire m"
  shows "(quiet n c' \<longrightarrow> agree n w c')
    \<and> (\<exists>c''. (cluster_step wire {} n)\<^sup>*\<^sup>* c' c'' \<and> quiet n c'' \<and> agree n w c'' \<and> cl_node c'' w = cl_node c' w)"
proof -
  have "following wire n w c'" by (rule steps_following [OF assms(2) in_step_following [OF assms(1)]])
  with settles [OF this assms(3)] show ?thesis by (blast intro: following_settled)
qed

subsection \<open>Two instances work\<close>

abbreviation published_all :: "'p wire \<Rightarrow> nat \<Rightarrow> persistence_message list \<Rightarrow> 'p cluster \<Rightarrow> 'p cluster" where
  "published_all wire i ms c \<equiv> c\<lparr>cl_taken := (cl_taken c)(i := cl_taken c i + length ms),
     cl_inbox := \<lambda>j. cl_inbox c j @ publisher wire (ap_config (cl_node c i)) ms\<rparr>"

lemma publish_all:
  assumes "i < n" and "ap_bus_tx (cl_node c i) = Some (done_ms @ ms)" and "cl_taken c i = length done_ms"
  shows "(cluster_step wire works n)\<^sup>*\<^sup>* c (published_all wire i ms c)"
  using assms
proof (induction ms arbitrary: c done_ms)
  case Nil
  have "published_all wire i [] c = c" by (simp add: publisher_def)
  then show ?case by (simp only: rtranclp.rtrancl_refl)
next
  case (Cons m ms)
  let ?c = "c\<lparr>cl_taken := (cl_taken c)(i := Suc (cl_taken c i)),
      cl_inbox := \<lambda>j. cl_inbox c j @ publish_one wire (ap_config (cl_node c i)) ((done_ms @ m # ms) ! cl_taken c i)\<rparr>"
  have "cluster_step wire works n c ?c"
    using Cons.prems by (intro cluster_step.publish) simp_all
  moreover have "(cluster_step wire works n)\<^sup>*\<^sup>* ?c (published_all wire i ms ?c)"
    by (rule Cons.IH [where done_ms = "done_ms @ [m]"]) (use Cons.prems in simp_all)
  moreover have "published_all wire i ms ?c = published_all wire i (m # ms) c"
    using Cons.prems(3) by (simp add: publisher_def nth_append)
  ultimately show ?case by (metis converse_rtranclp_into_rtranclp)
qed

abbreviation applied_all :: "'p wire \<Rightarrow> nat \<Rightarrow> 'p cluster \<Rightarrow> 'p cluster" where
  "applied_all wire j c \<equiv> c\<lparr>cl_inbox := (cl_inbox c)(j := []),
     cl_node := (cl_node c)(j := on_runtime (subscriber wire (ap_config (cl_node c j)) (map Inr (cl_inbox c j))) (cl_node c j))\<rparr>"

lemma apply_all: "j < n \<Longrightarrow> (cluster_step wire works n)\<^sup>*\<^sup>* c (applied_all wire j c)"
proof (induction "cl_inbox c j" arbitrary: c)
  case Nil
  then have "applied_all wire j c = c" by (simp add: on_runtime_def fun_upd_idem)
  then show ?case by (simp only: rtranclp.rtrancl_refl)
next
  case (Cons p ps)
  let ?c = "c\<lparr>cl_inbox := (cl_inbox c)(j := ps),
      cl_node := (cl_node c)(j := on_runtime (deliver wire (ap_config (cl_node c j)) (Inr p)) (cl_node c j))\<rparr>"
  have "cluster_step wire works n c ?c"
    using Cons.prems Cons.hyps(2) by (intro cluster_step.subscribe) simp_all
  moreover have "(cluster_step wire works n)\<^sup>*\<^sup>* ?c (applied_all wire j ?c)"
    by (rule Cons.hyps(1)) (use Cons.prems in simp_all)
  moreover have "applied_all wire j ?c = applied_all wire j c"
    using Cons.hyps(2) [symmetric] by (simp add: on_runtime_def)
  ultimately show ?case by (metis converse_rtranclp_into_rtranclp)
qed

text \<open>Two instances do one thing each before they hear of the other.\<close>

lemma exchange:
  assumes start: "in_step 2 0 c" and work: "shared_step (cl_node c 0) a" "shared_step (cl_node c 1) b"
    and both: "published (cl_node c 0) a" "published (cl_node c 1) b"
      "ap_config a = ap_config (cl_node c 0)" "ap_config b = ap_config (cl_node c 1)"
    and wire: "\<forall>m \<in> set (sent (cl_node c 0) a @ sent (cl_node c 1) b). carries wire m"
  shows "\<exists>c'. (cluster_step wire {0, 1} 2)\<^sup>*\<^sup>* c c' \<and> quiet 2 c'
    \<and> ap_runtime (cl_node c' 0) = apply_messages (sent (cl_node c 1) b) (ap_runtime a)
    \<and> ap_runtime (cl_node c' 1) = apply_messages (sent (cl_node c 0) a) (ap_runtime b)"
proof -
  let ?s = "cluster_step wire {0, 1} 2"
  let ?as = "sent (cl_node c 0) a" and ?bs = "sent (cl_node c 1) b"
  have idle: "cl_inbox c i = []" and len: "map_option length (ap_bus_tx (cl_node c i)) = Some (cl_taken c i)" if "i < 2" for i
    using start that by (simp_all add: in_step_def quiet_def)
  obtain ms ns where bus: "ap_bus_tx (cl_node c 0) = Some ms" "cl_taken c 0 = length ms"
      "ap_bus_tx (cl_node c 1) = Some ns" "cl_taken c 1 = length ns"
    using len [of 0] len [of 1] by auto
  have ids: "cf_instance_id (ap_config (cl_node c 1)) \<noteq> cf_instance_id (ap_config (cl_node c 0))"
    using start by (simp add: in_step_def)
  have tx: "ap_bus_tx a = Some (ms @ ?as)" "ap_bus_tx b = Some (ns @ ?bs)" using both bus by (simp_all add: published_def)
  define c1 where "c1 = c\<lparr>cl_node := (cl_node c)(0 := a)\<rparr>"
  define c2 where "c2 = c1\<lparr>cl_node := (cl_node c1)(1 := b)\<rparr>"
  define c3 where "c3 = published_all wire 0 ?as c2"
  define c4 where "c4 = published_all wire 1 ?bs c3"
  define c5 where "c5 = applied_all wire 0 c4"
  define c6 where "c6 = applied_all wire 1 c5"
  have "?s c c1" unfolding c1_def by (rule cluster_step.work) (use work in simp_all)
  moreover have "?s c1 c2" unfolding c2_def by (rule cluster_step.work) (use work in \<open>simp_all add: c1_def\<close>)
  moreover have "?s\<^sup>*\<^sup>* c2 c3" unfolding c3_def
    by (rule publish_all [where done_ms = ms]) (simp_all add: c1_def c2_def tx bus)
  moreover have "?s\<^sup>*\<^sup>* c3 c4" unfolding c4_def
    by (rule publish_all [where done_ms = ns]) (simp_all add: c1_def c2_def c3_def tx bus(4) [unfolded One_nat_def])
  moreover have "?s\<^sup>*\<^sup>* c4 c5" unfolding c5_def by (rule apply_all) simp
  moreover have "?s\<^sup>*\<^sup>* c5 c6" unfolding c6_def by (rule apply_all) simp
  ultimately have "?s\<^sup>*\<^sup>* c c6" by (meson converse_rtranclp_into_rtranclp rtranclp_trans)
  moreover have "ap_runtime (cl_node c6 0) = apply_messages ?bs (ap_runtime a)"
      "ap_runtime (cl_node c6 1) = apply_messages ?as (ap_runtime b)"
    using wire ids both(3,4) subscriber_follows [of ?as wire] subscriber_follows [of ?bs wire]
    by (simp_all add: c1_def c2_def c3_def c4_def c5_def c6_def idle)
  moreover have "quiet 2 c6"
    using tx bus(2) bus(4) [unfolded One_nat_def]
    by (auto simp: quiet_def numeral_2_eq_2 less_Suc_eq c1_def c2_def c3_def c4_def c5_def c6_def)
  ultimately show ?thesis by blast
qed

text \<open>They agree again exactly when what they sent commutes on the state they started from.\<close>

lemma exchange_agrees:
  assumes "same_tables start (ap_runtime x)" "same_tables start (ap_runtime y)"
    and "rt_inv start" "rt_inv (ap_runtime x)" "rt_inv (ap_runtime y)" "rt_inv (ap_runtime a)" "rt_inv (ap_runtime b)"
    and "published x a" "published y b"
  shows "same_tables (apply_messages (sent y b) (ap_runtime a)) (apply_messages (sent x a) (ap_runtime b))
    \<longleftrightarrow> same_tables (apply_messages (sent x a @ sent y b) start) (apply_messages (sent y b @ sent x a) start)"
proof -
  have reached: "same_tables (apply_messages (sent p q) start) (ap_runtime q)"
    if "same_tables start (ap_runtime p)" "rt_inv (ap_runtime p)" "published p q" for p q
    using same_tables_messages [OF that(1) assms(3) that(2)] that(3) same_tables_trans unfolding published_def by blast
  have "same_tables (apply_messages (sent y b) (apply_messages (sent x a) start)) (apply_messages (sent y b) (ap_runtime a))"
    by (rule same_tables_messages [OF reached]) (use assms in \<open>simp_all add: rt_inv_apply_messages\<close>)
  moreover have "same_tables (apply_messages (sent x a) (apply_messages (sent y b) start)) (apply_messages (sent x a) (ap_runtime b))"
    by (rule same_tables_messages [OF reached]) (use assms in \<open>simp_all add: rt_inv_apply_messages\<close>)
  ultimately show ?thesis
    using same_tables_trans same_tables_sym by (metis apply_messages_simps(3))
qed

subsection \<open>Witnesses\<close>

text \<open>A wire that carries envelopes as they are, and two instances of one state.\<close>

definition ex_wire :: "bus_envelope wire" where
  "ex_wire = \<lparr>wi_to_string = Inr, wi_publish = \<lambda>_ _. Inr 1, wi_from_str = Inr\<rparr>"

lemma ex_wire_carries: "carries ex_wire m"
  by (simp add: carries_def ex_wire_def)

definition ex_node :: "str \<Rightarrow> app_state" where
  "ex_node i = (ex_app ex_pool)\<lparr>ap_config := ex_config\<lparr>cf_instance_id := i\<rparr>\<rparr>"

definition ex_cluster :: "bus_envelope cluster" where
  "ex_cluster = \<lparr>cl_node = \<lambda>i. ex_node (if i = 0 then ''x'' else ''y''), cl_taken = \<lambda>_. 0, cl_inbox = \<lambda>_. []\<rparr>"

lemma ex_node_simps [simp]: "ap_runtime (ex_node i) = ex_pool" "ap_bus_tx (ex_node i) = Some []"
    "ap_config (ex_node i) = ex_config\<lparr>cf_instance_id := i\<rparr>" "ap_writer_tx (ex_node i) = []"
  by (simp_all add: ex_node_def)

lemma ex_node_ok: "pool_ok (ex_node i)"
  using ex_pool_well_formed by (simp add: pool_ok_def)

lemma ex_cluster_in_step: "in_step 2 0 ex_cluster"
  by (auto simp: in_step_def quiet_def agree_def ex_cluster_def ex_node_ok)

text \<open>The first deletes an account; the second, left to itself, ends without it.\<close>

theorem peers_follow_witness:
  "\<exists>c. (cluster_step ex_wire {} 2)\<^sup>*\<^sup>* (ex_cluster\<lparr>cl_node := (cl_node ex_cluster)(0 := snd (delete_account ''a'' (ex_node ''x'')))\<rparr>) c
    \<and> quiet 2 c \<and> hm_get (rt_accounts (ap_runtime (cl_node c 1))) ''a'' = None"
proof -
  let ?c = "ex_cluster\<lparr>cl_node := (cl_node ex_cluster)(0 := snd (delete_account ''a'' (ex_node ''x'')))\<rparr>"
  have "cluster_step ex_wire {0} 2 ex_cluster ?c"
    by (rule cluster_step.work) (simp_all add: ex_cluster_def shared_step.account_deleted)
  then have "(lossless_step ex_wire 2 0)\<^sup>*\<^sup>* ex_cluster ?c"
    by (intro r_into_rtranclp) (simp add: lossless_step_def ex_wire_carries)
  from peers_follow [OF ex_cluster_in_step this] obtain c where c: "(cluster_step ex_wire {} 2)\<^sup>*\<^sup>* ?c c" "quiet 2 c"
    "agree 2 0 c" "cl_node c 0 = cl_node ?c 0" by (auto simp: ex_wire_carries)
  have inv: "rt_inv (ap_runtime (ex_node ''x''))" by (rule pool_ok_inv [OF ex_node_ok])
  have "same_tables (ap_runtime (cl_node c 1)) (ap_runtime (snd (delete_account ''a'' (ex_node ''x''))))"
    using c(3,4) by (simp add: agree_def ex_cluster_def)
  then have "hm_get (rt_accounts (ap_runtime (cl_node c 1))) ''a'' = None"
    by (simp add: same_tables_def delete_account_eq [OF inv] deleted_def ex_pool_tables)
  with c(1,2) show ?thesis by blast
qed

text \<open>Fact (crossed_writes_disagree).
  Two instances that agree, the wire loses nothing: one deletes an account while the other refreshes a
  lease on it. When everything has been published and applied the first has a lease on the account it
  deleted and the second has none: nothing in a message says which state it was sent from, so each
  instance ends with what the other did last.\<close>

theorem crossed_writes_disagree:
  "\<exists>c. (cluster_step ex_wire {0, 1} 2)\<^sup>*\<^sup>* ex_cluster c \<and> quiet 2 c \<and> \<not> agree 2 0 c
    \<and> (\<exists>l. hm_get (rt_leases (ap_runtime (cl_node c 0))) ''p'' = Some l
        \<and> hm_get (rt_accounts (ap_runtime (cl_node c 0))) (ls_account_id l) = None)
    \<and> hm_get (rt_leases (ap_runtime (cl_node c 1))) ''p'' = None"
proof -
  let ?a = "snd (delete_account ''a'' (ex_node ''x''))"
  let ?b = "snd (resolve_lease_outcome (\<lambda>_. []) (ex_request ''p'' 1) 5 6 (ex_node ''y''))"
  have steps: "shared_step (cl_node ex_cluster 0) ?a" "shared_step (cl_node ex_cluster 1) ?b"
    by (simp_all add: ex_cluster_def shared_step.account_deleted shared_step.lease_resolved)
  from exchange [OF ex_cluster_in_step steps] obtain c where
    c: "(cluster_step ex_wire {0, 1} 2)\<^sup>*\<^sup>* ex_cluster c" "quiet 2 c"
      "ap_runtime (cl_node c 0) = apply_messages (sent (ex_node ''y'') ?b) (ap_runtime ?a)"
      "ap_runtime (cl_node c 1) = apply_messages (sent (ex_node ''x'') ?a) (ap_runtime ?b)"
    using step_shares [OF steps(1)] step_shares [OF steps(2)] ex_node_ok ex_wire_carries
    by (fastforce simp: ex_cluster_def shares_def)
  have "case hm_get (rt_leases (apply_messages (sent (ex_node ''y'') ?b) (ap_runtime ?a))) ''p'' of
      Some l \<Rightarrow> Option.is_none (hm_get (rt_accounts (apply_messages (sent (ex_node ''y'') ?b) (ap_runtime ?a))) (ls_account_id l))
    | None \<Rightarrow> False" by code_simp
  then obtain l where l: "hm_get (rt_leases (ap_runtime (cl_node c 0))) ''p'' = Some l"
      "hm_get (rt_accounts (ap_runtime (cl_node c 0))) (ls_account_id l) = None"
    unfolding c(3) by (auto simp: Option.is_none_def split: option.splits)
  have "Option.is_none (hm_get (rt_leases (apply_messages (sent (ex_node ''x'') ?a) (ap_runtime ?b))) ''p'')" by code_simp
  then have none: "hm_get (rt_leases (ap_runtime (cl_node c 1))) ''p'' = None"
    unfolding c(4) by (simp add: Option.is_none_def)
  then have "\<not> agree 2 0 c" using l(1) by (auto simp: agree_def same_tables_def intro!: exI [of _ 1])
  with c(1,2) l none show ?thesis by blast
qed

end
