(* ===== verification/Recovery.thy ===== *)
theory Recovery
  imports Sharing Storage_Properties
begin

text \<open>
  A run of an instance, the writer task and a restart: whatever the instance did to the shared tables is
  there again when the storage took every message.
\<close>

text \<open>C9 (run_survives_restart).
  Let the database mirror a consistent instance, which then works: selections, reports, turns, threads,
  tenants, users, API keys, imports, refreshes, logins, deletions, in any order (\<open>shared_step\<close>). However the writer batches
  what was sent, if the database takes every message and the queue is empty when the process ends, an
  instance started from the database has the tables the run ended in: tenants, API keys, credentials,
  route states, leases, contexts and threads entry by entry, accounts up to their mode, thread edges by
  their keys; and the database mirrors it. Of incidents, request logs and the cache metrics nothing is
  claimed. Instants are of the precision of the columns and counters below \<open>2 ^ 31\<close> (\<open>storable\<close>), and no
  two API keys of the run have one id and different tokens (\<open>one_token_each\<close>: ids are drawn).\<close>

theorem run_survives_restart:
  assumes "pool_ok app" and "mirrors db (ap_runtime app)" and "db_inv db"
    and "shared_step\<^sup>*\<^sup>* app app'"
    and "list_all (storable st) (sent app app')" and "persist_all st (sent app app') db = Inr stored"
    and "(writer_step st)\<^sup>*\<^sup>* (sent app app', db) ([], db')"
    and "has_data (storage_load_snapshot db')"
    and "one_token_each (keys_of (ap_runtime app) (sent app app'))"
  shows "restores (ap_runtime (fst (start_instance config (Some (Inr (storage_load_snapshot db'))) bus_connected i k now)))
      (ap_runtime app')
    \<and> mirrors db' (ap_runtime app') \<and> db_inv db'"
proof -
  have "published app app'" using steps_share [OF assms(4)] assms(1) by (simp add: shares_def)
  moreover have "stored = db'" using writer_steps_all [OF assms(7)] assms(6) by simp
  then have "persist_batch st (sent app app') db = (Inr (), db')" using assms(6) by (simp add: persist_batch_def)
  ultimately show ?thesis
    using restart_continues [OF assms(2,3) pool_ok_inv [OF assms(1)] _ assms(5) _ assms(8,9)] by blast
qed

text \<open>The account \<open>''b''\<close> is deleted; its message is stored in a batch of its own.\<close>

theorem run_survives_restart_witness:
  "restores (ap_runtime (fst (start_instance ex_config (Some (Inr (storage_load_snapshot ex_database_after))) False 0 0 5)))
     (ap_runtime ex_after_delete)"
proof -
  note sent = ex_delete_commits(2)
  have persisted: "persist_all micros (sent (ex_app ex_pool) ex_after_delete) ex_database = Inr ex_database_after"
    using ex_delete_commits(3) by (auto simp: persist_batch_def split: sum.splits)
  have "shared_step (ex_app ex_pool) ex_after_delete" unfolding ex_after_delete_def by (rule shared_step.account_deleted)
  then have step: "shared_step\<^sup>*\<^sup>* (ex_app ex_pool) ex_after_delete" by (rule r_into_rtranclp)
  have "writer_step micros (sent (ex_app ex_pool) ex_after_delete @ [], ex_database)
      ([], snd (persist_batch micros (sent (ex_app ex_pool) ex_after_delete) ex_database))"
    by (rule writer_step.intros) (simp_all add: sent)
  then have written: "(writer_step micros)\<^sup>*\<^sup>* (sent (ex_app ex_pool) ex_after_delete, ex_database) ([], ex_database_after)"
    by (simp add: ex_delete_commits(3) r_into_rtranclp)
  have storable: "list_all (storable micros) (sent (ex_app ex_pool) ex_after_delete)" by (simp add: sent)
  have data: "has_data (storage_load_snapshot ex_database_after)" by code_simp
  have mirrored: "mirrors ex_database (ap_runtime (ex_app ex_pool))" by (simp add: ex_database_mirrors)
  have keys: "one_token_each (keys_of (ap_runtime (ex_app ex_pool)) (sent (ex_app ex_pool) ex_after_delete))"
    by (simp add: sent ex_one_token)
  show ?thesis
    by (rule conjunct1 [OF run_survives_restart [OF ex_pool_well_formed mirrored ex_database_inv step storable persisted
      written data keys]])
qed

subsection \<open>The start of an instance among others\<close>

text \<open>Fact (messages_before_load_are_lost).
  The bus is connected before the snapshot is loaded, and loading replaces the tables: whatever peers
  sent in between (and the storage did not hold yet when it was read) is gone, but for the cache
  metrics.\<close>

theorem messages_before_load_are_lost:
  "same_tables ((load_snapshot s (apply_messages ms rt))\<lparr>rt_cache_metrics := m\<rparr>) ((load_snapshot s rt)\<lparr>rt_cache_metrics := m\<rparr>)"
  by (simp add: same_tables_def load_snapshot_def)

end
